(* ===== verification/Prelude.thy ===== *)
theory Prelude
  imports Main "HOL-Library.Product_Lexorder" "HOL-Library.Option_ord"
begin

text \<open>
  Shared vocabulary of the development.

  The persistent state of the gateway integration is a PostgreSQL database, so the models are
  functions on tables.  A table is the list of its rows in insertion order; no statement of the
  modelled repositories deletes a row.  An \<open>UPDATE ... WHERE\<close> is \<open>update_where\<close>, a
  \<open>SELECT ... ORDER BY ... LIMIT 1\<close> is \<open>first_by\<close>, a lookup of at most one row is \<open>one_or_none\<close>
  (SQLAlchemy raises when two rows match).  \<open>evolves R\<close> says that a table changed row by row along
  the relation \<open>R\<close> and possibly gained rows at its end; the locale \<open>row_order\<close> collects what holds
  of it for every reflexive and transitive \<open>R\<close>, and is interpreted by each table of the schema.
  JSON values and Python's unbounded integers complete the vocabulary.
\<close>

named_theorems table_simps \<open>rewrite rules for the table operations\<close>
named_theorems sql_defs \<open>definitions of single SQL statements\<close>
named_theorems row_le_defs \<open>definitions of the row orders of the schema\<close>

type_synonym uuid = nat
type_synonym msec = int

section \<open>JSON values\<close>

datatype json =
    JNull
  | JBool bool
  | JInt int
  | JStr string
  | JArr "json list"
  | JObj "(string \<times> json) list"

fun json_get :: "json \<Rightarrow> string \<Rightarrow> json option" where
  "json_get (JObj kvs) k = map_of kvs k"
| "json_get _ _ = None"

fun json_is_object :: "json \<Rightarrow> bool" where
  "json_is_object (JObj _) = True"
| "json_is_object _ = False"

section \<open>Results\<close>

lemma Inr_projr: "\<not> isl x \<Longrightarrow> x = Inr (projr x)"
  by (cases x) simp_all

lemma Inl_projl: "isl x \<Longrightarrow> x = Inl (projl x)"
  by (cases x) simp_all

section \<open>Strings\<close>

text \<open>
  Python strings are modelled by the bytes of their UTF-8 encoding.  \<open>py_strip\<close> is \<open>str.strip\<close> on the ASCII
  whitespace characters.
\<close>

definition is_ws :: "char \<Rightarrow> bool" where
  "is_ws c \<longleftrightarrow> of_char c \<in> {9, 10, 11, 12, 13, 28, 29, 30, 31, 32 :: nat}"

definition py_strip :: "string \<Rightarrow> string" where
  "py_strip s = rev (dropWhile is_ws (rev (dropWhile is_ws s)))"

text \<open>\<open>len\<close> counts code points: the bytes that do not continue one.\<close>

definition py_len :: "string \<Rightarrow> nat" where
  "py_len s = length (filter (\<lambda>c. \<not> (128 \<le> (of_char c :: nat) \<and> (of_char c :: nat) < 192)) s)"

definition is_blank :: "string \<Rightarrow> bool" where
  "is_blank s \<longleftrightarrow> py_strip s = []"

lemma dropWhile_nonempty_hd: "dropWhile P s \<noteq> [] \<Longrightarrow> \<not> P (hd (dropWhile P s))"
  by (induction s) auto

lemma py_strip_idem [simp]: "py_strip (py_strip s) = py_strip s"
proof -
  define u where "u = dropWhile is_ws s"
  define v where "v = dropWhile is_ws (rev u)"
  have s: "py_strip s = rev v" by (simp add: py_strip_def u_def v_def)
  have v_tail: "dropWhile is_ws v = v" by (simp add: v_def)
  have "dropWhile is_ws (rev v) = rev v"
  proof (cases "v = []")
    case False
    obtain w where w: "rev u = w @ v"
      by (metis takeWhile_dropWhile_id v_def)
    then have u: "u = rev v @ rev w" by (metis rev_append rev_rev_ident)
    with False have "u \<noteq> []" by simp
    then have "\<not> is_ws (hd u)" unfolding u_def by (rule dropWhile_nonempty_hd)
    moreover from u False have "hd u = hd (rev v)" by simp
    ultimately show ?thesis using False by (cases "rev v") auto
  qed simp
  with v_tail show ?thesis unfolding s by (simp add: py_strip_def)
qed

section \<open>Tables\<close>

definition update_where :: "('r \<Rightarrow> bool) \<Rightarrow> ('r \<Rightarrow> 'r) \<Rightarrow> 'r list \<Rightarrow> 'r list" where
  "update_where P f t = map (\<lambda>r. if P r then f r else r) t"

definition count_where :: "('r \<Rightarrow> bool) \<Rightarrow> 'r list \<Rightarrow> nat" where
  "count_where P t = length (filter P t)"

definition first_by :: "('r \<Rightarrow> 'k::linorder) \<Rightarrow> ('r \<Rightarrow> bool) \<Rightarrow> 'r list \<Rightarrow> 'r option" where
  "first_by key P t = (case filter P t of [] \<Rightarrow> None | r # rs \<Rightarrow> Some (arg_min_list key (r # rs)))"

datatype db_error =
    Multiple_Results_Found
  | Integrity_Error
  | Serialization_Failure
  | Deadlock_Detected
  | Type_Error
  | Runtime_Error string
  | Value_Error string

fun one_or_none :: "('r \<Rightarrow> bool) \<Rightarrow> 'r list \<Rightarrow> db_error + 'r option" where
  "one_or_none P t =
     (case filter P t of
        [] \<Rightarrow> Inr None
      | [r] \<Rightarrow> Inr (Some r)
      | _ \<Rightarrow> Inl Multiple_Results_Found)"

declare one_or_none.simps [simp del]

lemma update_where_Nil [simp, table_simps]: "update_where P f [] = []"
  by (simp add: update_where_def)

lemma update_where_Cons [table_simps]:
  "update_where P f (r # t) = (if P r then f r else r) # update_where P f t"
  by (simp add: update_where_def)

lemma length_update_where [simp, table_simps]: "length (update_where P f t) = length t"
  by (simp add: update_where_def)

lemma nth_update_where [table_simps]:
  "i < length t \<Longrightarrow> update_where P f t ! i = (if P (t ! i) then f (t ! i) else t ! i)"
  by (simp add: update_where_def)

lemma set_update_where:
  "set (update_where P f t) = (\<lambda>r. if P r then f r else r) ` set t"
  by (simp add: update_where_def)

lemma update_where_in:
  "r \<in> set t \<Longrightarrow> P r \<Longrightarrow> f r \<in> set (update_where P f t)"
  "r \<in> set t \<Longrightarrow> \<not> P r \<Longrightarrow> r \<in> set (update_where P f t)"
  by (auto simp: set_update_where)

lemma ball_update_where:
  "\<forall>r \<in> set t. Q r \<Longrightarrow> (\<And>r. r \<in> set t \<Longrightarrow> Q r \<Longrightarrow> P r \<Longrightarrow> Q (f r)) \<Longrightarrow>
   \<forall>r \<in> set (update_where P f t). Q r"
  by (auto simp: set_update_where)

lemma in_update_whereE:
  assumes "r' \<in> set (update_where P f t)"
  obtains r where "r \<in> set t" and "r' = (if P r then f r else r)"
  using assms by (auto simp: set_update_where)

lemma update_where_id [simp]:
  "(\<And>r. r \<in> set t \<Longrightarrow> \<not> P r) \<Longrightarrow> update_where P f t = t"
  by (induction t) (auto simp: update_where_def)

lemma map_update_where:
  "(\<And>r. g (f r) = g r) \<Longrightarrow> map g (update_where P f t) = map g t"
  by (simp add: update_where_def)

lemma filter_update_where_neutral:
  "(\<And>r. r \<in> set t \<Longrightarrow> P r \<Longrightarrow> Q (f r) = Q r \<and> (Q r \<longrightarrow> f r = r)) \<Longrightarrow>
   filter Q (update_where P f t) = filter Q t"
  by (induction t) (auto simp: update_where_def)

lemma count_where_Cons [table_simps]:
  "count_where P (r # t) = (if P r then Suc (count_where P t) else count_where P t)"
  by (simp add: count_where_def)

lemma count_where_append [table_simps]:
  "count_where P (t @ u) = count_where P t + count_where P u"
  by (simp add: count_where_def)

lemma count_where_Nil [simp, table_simps]: "count_where P [] = 0"
  by (simp add: count_where_def)

lemma count_where_eq_0: "count_where P t = 0 \<longleftrightarrow> (\<forall>r \<in> set t. \<not> P r)"
  by (auto simp: count_where_def filter_empty_conv)

lemma count_where_le_length: "count_where P t \<le> length t"
  by (simp add: count_where_def)

lemma count_where_mono:
  "(\<And>r. r \<in> set t \<Longrightarrow> P r \<Longrightarrow> Q r) \<Longrightarrow> count_where P t \<le> count_where Q t"
  by (induction t) (auto simp: count_where_def)

lemma count_where_update_le:
  "(\<And>r. r \<in> set t \<Longrightarrow> P r \<Longrightarrow> Q (f r) \<Longrightarrow> Q r) \<Longrightarrow>
   count_where Q (update_where P f t) \<le> count_where Q t"
  by (induction t) (auto simp: count_where_def update_where_def)

lemma count_where_update_less:
  assumes "\<And>r. r \<in> set t \<Longrightarrow> P r \<Longrightarrow> Q (f r) \<Longrightarrow> Q r"
    and "\<exists>r \<in> set t. P r \<and> Q r \<and> \<not> Q (f r)"
  shows "count_where Q (update_where P f t) < count_where Q t"
  using assms
proof (induction t)
  case (Cons a t)
  have le: "count_where Q (update_where P f t) \<le> count_where Q t"
    by (rule count_where_update_le) (use Cons.prems(1) in auto)
  show ?case
  proof (cases "P a \<and> Q a \<and> \<not> Q (f a)")
    case True
    with le show ?thesis by (simp add: table_simps)
  next
    case False
    with Cons have "count_where Q (update_where P f t) < count_where Q t" by auto
    with Cons.prems(1) show ?thesis by (auto simp: table_simps)
  qed
qed simp

lemma find_SomeD: "find P t = Some r \<Longrightarrow> r \<in> set t \<and> P r"
  by (induction t) (auto split: if_splits)

lemma find_NoneD: "find P t = None \<Longrightarrow> r \<in> set t \<Longrightarrow> \<not> P r"
  by (auto simp: find_None_iff)

lemma find_update_where:
  "(\<And>r. P (f r) = P r) \<Longrightarrow>
   find P (update_where Q f t) = map_option (\<lambda>r. if Q r then f r else r) (find P t)"
  by (induction t) (auto simp: update_where_def)

lemma find_unique:
  assumes "r \<in> set t" and "P r" and "\<And>q. q \<in> set t \<Longrightarrow> P q \<Longrightarrow> q = r"
  shows "find P t = Some r"
proof (cases "find P t")
  case None
  with assms(1,2) show ?thesis by (auto simp: find_None_iff)
next
  case (Some q)
  with assms(3) show ?thesis by (auto dest: find_SomeD)
qed

lemma first_by_SomeD:
  assumes "first_by key P t = Some r"
  shows "r \<in> set t" and "P r" and "\<forall>q \<in> set t. P q \<longrightarrow> key r \<le> key q"
proof -
  from assms obtain a as where f: "filter P t = a # as" and r: "r = arg_min_list key (a # as)"
    by (auto simp: first_by_def split: list.splits)
  have "r \<in> set (filter P t)"
    unfolding f r by (rule arg_min_list_in) simp
  then show "r \<in> set t" and "P r" by auto
  have "key r = Min (key ` set (filter P t))"
    unfolding f r by (rule f_arg_min_list_f) simp
  then show "\<forall>q \<in> set t. P q \<longrightarrow> key r \<le> key q" by auto
qed

lemma first_by_None_iff: "first_by key P t = None \<longleftrightarrow> (\<forall>r \<in> set t. \<not> P r)"
proof (cases "filter P t")
  case Nil
  then show ?thesis by (simp add: first_by_def filter_empty_conv)
next
  case (Cons r rs)
  have "r \<in> set (filter P t)" unfolding Cons by simp
  then have "\<exists>q \<in> set t. P q" by auto
  with Cons show ?thesis by (simp add: first_by_def)
qed

lemma one_or_none_SomeD: "one_or_none P t = Inr (Some r) \<Longrightarrow> r \<in> set t \<and> P r"
proof -
  assume "one_or_none P t = Inr (Some r)"
  then have "filter P t = [r]" by (auto simp: one_or_none.simps split: list.splits)
  then have "r \<in> set (filter P t)" by simp
  then show ?thesis by auto
qed

lemma one_or_none_NoneD: "one_or_none P t = Inr None \<Longrightarrow> q \<in> set t \<Longrightarrow> \<not> P q"
  by (auto simp: one_or_none.simps filter_empty_conv split: list.splits)

lemma one_or_none_at_most_one:
  "count_where P t \<le> 1 \<Longrightarrow> one_or_none P t = Inr (find P t)"
  by (induction t)
     (auto simp: one_or_none.simps count_where_def filter_empty_conv find_None_iff
       split: list.splits if_splits)

section \<open>Distinct keys\<close>

lemma distinct_key_unique:
  assumes "distinct (map key t)" and "r \<in> set t" and "q \<in> set t" and "key q = key r"
  shows "q = r"
  using assms by (metis distinct_map inj_onD)

lemma find_key:
  assumes "distinct (map key t)" and "r \<in> set t"
  shows "find (\<lambda>q. key q = key r) t = Some r"
  by (rule find_unique) (use assms in \<open>auto dest: distinct_key_unique\<close>)

lemma distinct_map_snoc:
  "distinct (map key t) \<Longrightarrow> (\<And>q. q \<in> set t \<Longrightarrow> key q \<noteq> key r) \<Longrightarrow> distinct (map key (t @ [r]))"
  by (auto simp: image_iff) metis

section \<open>Tables that evolve row by row\<close>

definition evolves :: "('r \<Rightarrow> 'r \<Rightarrow> bool) \<Rightarrow> 'r list \<Rightarrow> 'r list \<Rightarrow> bool" where
  "evolves R t t' \<longleftrightarrow> length t \<le> length t' \<and> (\<forall>i < length t. R (t ! i) (t' ! i))"

locale row_order =
  fixes R :: "'r \<Rightarrow> 'r \<Rightarrow> bool"
  assumes row_refl: "R r r"
    and row_trans: "R r q \<Longrightarrow> R q p \<Longrightarrow> R r p"
begin

lemma evolves_refl: "evolves R t t"
  by (simp add: evolves_def row_refl)

lemma evolves_trans: "evolves R t u \<Longrightarrow> evolves R u v \<Longrightarrow> evolves R t v"
  by (auto simp: evolves_def intro: row_trans)

lemma evolves_update_where:
  "(\<And>r. r \<in> set t \<Longrightarrow> P r \<Longrightarrow> R r (f r)) \<Longrightarrow> evolves R t (update_where P f t)"
  by (auto simp: evolves_def nth_update_where row_refl)

lemma evolves_update_where_trans:
  "evolves R t u \<Longrightarrow> (\<And>r. r \<in> set u \<Longrightarrow> P r \<Longrightarrow> R r (f r)) \<Longrightarrow>
   evolves R t (update_where P f u)"
  by (blast intro: evolves_trans evolves_update_where)

lemma evolves_append: "evolves R t (t @ new)"
  by (simp add: evolves_def nth_append row_refl)

lemma evolves_row:
  "evolves R t t' \<Longrightarrow> r \<in> set t \<Longrightarrow> \<exists>r' \<in> set t'. R r r'"
  unfolding evolves_def in_set_conv_nth by (metis nth_mem order.strict_trans2)

lemma evolves_row_by_key:
  assumes "evolves R t t'" and "distinct (map key t')" and "\<And>r q. R r q \<Longrightarrow> key q = key r"
    and "r \<in> set t" and "r' \<in> set t'" and "key r' = key r"
  shows "R r r'"
proof -
  from assms(1,4) obtain q where q: "q \<in> set t'" "R r q" by (blast dest: evolves_row)
  with assms(3,6) have "key q = key r'" by simp
  with assms(2,5) q(1) have "q = r'" by (auto dest: distinct_key_unique)
  with q(2) show ?thesis by simp
qed

end

text \<open>\<open>pred_option\<close> as the evaluator computes it.\<close>

lemma pred_option_case [code]: "pred_option P x = (case x of None \<Rightarrow> True | Some a \<Rightarrow> P a)"
  by (cases x) simp_all

end
