(* ===== verification/ActivityPlan.thy ===== *)
theory ActivityPlan
  imports Prelude
begin

text \<open>
  The activity plan of a hosted session (\<open>activity_plan.py\<close>): the plan and its steps, what
  pydantic checks when a plan is built or loaded, and the functions that move a plan forward when a
  skill starts, ends, loses its navigation target or the social opportunity passes.

  \<open>model_copy(update=...)\<close> does not run validators, so the advancing functions return plans
  that have not been validated; \<open>validate_activity_plan\<close> runs when the plan is next loaded.
  Only the typed values are modelled: that a JSON object has the declared keys and types is
  pydantic's part.
\<close>

section \<open>Data\<close>

definition CANONICAL_NON_CHAT_SKILLS :: "string list" where
  "CANONICAL_NON_CHAT_SKILLS =
    [''observe_state'', ''move_to'', ''stop_move'', ''jump'', ''play_action'', ''scene_tornado'',
     ''sign_in'', ''shooting_auto_schedule'', ''darts_auto_schedule'', ''dance_auto_schedule'',
     ''draw_lots_auto_schedule'', ''wish_board_auto_schedule'', ''paper_plane_auto_schedule'',
     ''coffee_auto_schedule'', ''seat_sit'', ''seat_get_out'', ''hot_air_balloon_auto_schedule'',
     ''hot_air_balloon_exit'', ''helicopter_auto_schedule'', ''helicopter_exit'',
     ''elevator_auto_schedule'']"

datatype plan_status = P_active | P_completed | P_paused | P_abandoned

datatype step_status = St_pending | St_started | St_succeeded | St_failed | St_skipped

record plan_step =
  st_id :: string
  st_phase :: string
  st_skill :: "string option"
  st_schema :: "string option"
  st_target :: "string option"
  st_intent :: string
  st_max_attempts :: int
  st_status :: step_status
  st_attempts :: int

record proposal_step =
  ps_id :: string
  ps_phase :: string
  ps_skill :: "string option"
  ps_schema :: "string option"
  ps_target :: "string option"
  ps_intent :: string

record activity_plan =
  pl_id :: string
  pl_goal_id :: string
  pl_goal_summary :: string
  pl_phase :: string
  pl_status :: plan_status
  pl_version :: int
  pl_current :: "string option"
  pl_steps :: "plan_step list"

record plan_proposal =
  pp_goal_id :: string
  pp_goal_summary :: string
  pp_steps :: "proposal_step list"

section \<open>Validation\<close>

text \<open>\<open>NonEmptyString\<close> strips its input, then bounds its length.\<close>

definition bounded_string :: "nat \<Rightarrow> string \<Rightarrow> bool" where
  "bounded_string n s \<longleftrightarrow> s \<noteq> [] \<and> py_len s \<le> n"

definition bounded_option :: "nat \<Rightarrow> string option \<Rightarrow> bool" where
  "bounded_option n v = (case v of None \<Rightarrow> True | Some s \<Rightarrow> bounded_string n s)"

definition strip_step :: "plan_step \<Rightarrow> plan_step" where
  "strip_step s = s\<lparr>st_id := py_strip (st_id s), st_phase := py_strip (st_phase s),
     st_skill := map_option py_strip (st_skill s), st_schema := map_option py_strip (st_schema s),
     st_target := map_option py_strip (st_target s), st_intent := py_strip (st_intent s)\<rparr>"

definition step_fields_ok :: "plan_step \<Rightarrow> bool" where
  "step_fields_ok s \<longleftrightarrow>
     bounded_string 128 (st_id s) \<and> bounded_string 64 (st_phase s) \<and>
     bounded_option 128 (st_skill s) \<and> bounded_option 128 (st_schema s) \<and>
     bounded_option 256 (st_target s) \<and> bounded_string 512 (st_intent s) \<and>
     1 \<le> st_max_attempts s \<and> st_max_attempts s \<le> 2 \<and> 0 \<le> st_attempts s \<and> st_attempts s \<le> 2"

text \<open>The identity checks are the same text in \<open>ActivityPlanStep\<close> and \<open>ActivityPlanProposalStep\<close>.\<close>

definition action_identity_error ::
    "string \<Rightarrow> string option \<Rightarrow> string option \<Rightarrow> string option \<Rightarrow> string option" where
  "action_identity_error phase skill schema target =
     (if (skill = None) \<noteq> (schema = None)
        then Some ''skillName and schemaVersion must be supplied together''
      else if skill = Some ''nearby_chat_send''
        then Some ''direct chat skill is not an activity plan step''
      else if target \<noteq> None \<and> skill \<noteq> Some ''move_to''
        then Some ''sceneTargetId is only valid for move_to''
      else if skill \<noteq> None \<and> the skill \<notin> set CANONICAL_NON_CHAT_SKILLS
        then Some ''skillName is not in the canonical non-chat catalog''
      else if skill \<noteq> None \<and> schema \<noteq> Some ''v1''
        then Some ''activity skill schemaVersion must be v1''
      else if skill = None \<and> phase \<noteq> ''social''
        then Some ''only a social opportunity step may omit skillName''
      else None)"

definition validate_action_identity :: "plan_step \<Rightarrow> string option" where
  "validate_action_identity s =
     (case action_identity_error (st_phase s) (st_skill s) (st_schema s) (st_target s) of
        Some e \<Rightarrow> Some e
      | None \<Rightarrow> if st_attempts s > st_max_attempts s
                 then Some ''attemptCount must not exceed maxAttempts'' else None)"

fun social_indexes :: "nat \<Rightarrow> string option list \<Rightarrow> nat list" where
  "social_indexes i [] = []"
| "social_indexes i (None # ks) = i # social_indexes (Suc i) ks"
| "social_indexes i (Some _ # ks) = social_indexes (Suc i) ks"

definition validate_social_opportunity_layout :: "string option list \<Rightarrow> string option" where
  "validate_social_opportunity_layout skills =
     (let idx = social_indexes 0 skills in
      if length idx > 1 then Some ''activity plan may contain at most one social opportunity step''
      else if idx \<noteq> [] \<and> int (hd idx) \<noteq> int (length skills) - 1
        then Some ''social opportunity step must be the final plan step''
      else None)"

definition executable_count :: "string option list \<Rightarrow> nat" where
  "executable_count skills = length (filter (\<lambda>k. k \<noteq> None) skills)"

text \<open>The checks \<open>ActivityPlanProposal\<close> and \<open>ActivityPlan\<close> share on ids and skills of their steps.\<close>

definition steps_layout_error :: "string list \<Rightarrow> string option list \<Rightarrow> string option" where
  "steps_layout_error ids skills =
     (if \<not> distinct ids then Some ''stepId values must be unique''
      else case validate_social_opportunity_layout skills of
        Some e \<Rightarrow> Some e
      | None \<Rightarrow>
          if executable_count skills < 3
            then Some ''activity plan requires at least three executable steps''
          else if executable_count skills > 6
            then Some ''activity plan cannot contain more than six executable steps''
          else if length skills > 7 then Some ''activity plan contains too many total steps''
          else None)"

definition plan_step_of :: "activity_plan \<Rightarrow> string \<Rightarrow> string + plan_step" where
  "plan_step_of p i = (case find (\<lambda>s. st_id s = i) (pl_steps p) of
      Some s \<Rightarrow> Inr s
    | None \<Rightarrow> Inl ''activity plan step does not exist'')"

definition current_step :: "activity_plan \<Rightarrow> string + plan_step" where
  "current_step p = (case pl_current p of
      None \<Rightarrow> Inl ''activity plan is complete''
    | Some i \<Rightarrow> plan_step_of p i)"

definition validate_plan_state :: "activity_plan \<Rightarrow> string option" where
  "validate_plan_state p =
     (case steps_layout_error (map st_id (pl_steps p)) (map st_skill (pl_steps p)) of
        Some e \<Rightarrow> Some e
      | None \<Rightarrow>
          if pl_current p \<noteq> None \<and> the (pl_current p) \<notin> set (map st_id (pl_steps p))
            then Some ''currentStepId must reference a plan step''
          else if pl_status p = P_completed \<and> pl_current p \<noteq> None
            then Some ''completed activity plan cannot have a current step''
          else if pl_status p = P_active \<and> pl_current p = None
            then Some ''active activity plan requires a current step''
          else (case current_step p of
                  Inr s \<Rightarrow> if st_phase s \<noteq> pl_phase p
                            then Some ''phase must match the current step'' else None
                | Inl _ \<Rightarrow> None))"

definition strip_plan :: "activity_plan \<Rightarrow> activity_plan" where
  "strip_plan p = p\<lparr>pl_id := py_strip (pl_id p), pl_goal_id := py_strip (pl_goal_id p),
     pl_goal_summary := py_strip (pl_goal_summary p), pl_phase := py_strip (pl_phase p),
     pl_current := map_option py_strip (pl_current p), pl_steps := map strip_step (pl_steps p)\<rparr>"

definition plan_fields_ok :: "activity_plan \<Rightarrow> bool" where
  "plan_fields_ok p \<longleftrightarrow>
     bounded_string 128 (pl_id p) \<and> bounded_string 128 (pl_goal_id p) \<and>
     bounded_string 512 (pl_goal_summary p) \<and> bounded_string 64 (pl_phase p) \<and>
     1 \<le> pl_version p \<and> bounded_option 128 (pl_current p) \<and>
     list_all step_fields_ok (pl_steps p) \<and>
     list_all (\<lambda>s. validate_action_identity s = None) (pl_steps p)"

definition validate_activity_plan :: "activity_plan \<Rightarrow> string + activity_plan" where
  "validate_activity_plan raw =
     (let p = strip_plan raw in
      if \<not> plan_fields_ok p then Inl ''field validation''
      else case validate_plan_state p of Some e \<Rightarrow> Inl e | None \<Rightarrow> Inr p)"

definition strip_proposal_step :: "proposal_step \<Rightarrow> proposal_step" where
  "strip_proposal_step s = s\<lparr>ps_id := py_strip (ps_id s), ps_phase := py_strip (ps_phase s),
     ps_skill := map_option py_strip (ps_skill s), ps_schema := map_option py_strip (ps_schema s),
     ps_target := map_option py_strip (ps_target s), ps_intent := py_strip (ps_intent s)\<rparr>"

definition proposal_step_ok :: "proposal_step \<Rightarrow> bool" where
  "proposal_step_ok s \<longleftrightarrow>
     bounded_string 128 (ps_id s) \<and> bounded_string 64 (ps_phase s) \<and>
     bounded_option 128 (ps_skill s) \<and> bounded_option 128 (ps_schema s) \<and>
     bounded_option 256 (ps_target s) \<and> bounded_string 512 (ps_intent s) \<and>
     action_identity_error (ps_phase s) (ps_skill s) (ps_schema s) (ps_target s) = None"

definition validate_proposal :: "plan_proposal \<Rightarrow> string + plan_proposal" where
  "validate_proposal raw =
     (let q = raw\<lparr>pp_goal_id := py_strip (pp_goal_id raw),
                  pp_goal_summary := py_strip (pp_goal_summary raw),
                  pp_steps := map strip_proposal_step (pp_steps raw)\<rparr> in
      if \<not> (bounded_string 128 (pp_goal_id q) \<and> bounded_string 512 (pp_goal_summary q) \<and>
            list_all proposal_step_ok (pp_steps q)) then Inl ''field validation''
      else case steps_layout_error (map ps_id (pp_steps q)) (map ps_skill (pp_steps q)) of
        Some e \<Rightarrow> Inl e
      | None \<Rightarrow> Inr q)"

section \<open>Building plans\<close>

definition step_of_proposal :: "proposal_step \<Rightarrow> plan_step" where
  "step_of_proposal s =
     \<lparr>st_id = ps_id s, st_phase = ps_phase s, st_skill = ps_skill s, st_schema = ps_schema s,
      st_target = ps_target s, st_intent = ps_intent s,
      st_max_attempts = (if ps_skill s = None then 1 else 2),
      st_status = St_pending, st_attempts = 0\<rparr>"

definition materialize_activity_plan ::
    "plan_proposal \<Rightarrow> string \<Rightarrow> int \<Rightarrow> (string \<times> string) set \<Rightarrow> bool \<Rightarrow> string + activity_plan" where
  "materialize_activity_plan proposal plan_id version available lobby =
     (let executable = filter (\<lambda>s. ps_skill s \<noteq> None) (pp_steps proposal);
          unavailable = filter (\<lambda>s. ps_schema s = None \<or>
                                   (the (ps_skill s), the (ps_schema s)) \<notin> available) executable in
      if unavailable \<noteq> [] then Inl ''activity plan contains skills outside availableSkills''
      else if lobby \<and> (executable = [] \<or> ps_skill (hd executable) \<noteq> Some ''scene_tornado'' \<or>
                        ps_schema (hd executable) \<noteq> Some ''v1'')
        then Inl ''Lobby activity plan must start with scene_tornado:v1''
      else case pp_steps proposal of
        [] \<Rightarrow> Inl ''IndexError''
      | first # _ \<Rightarrow>
          validate_activity_plan
            \<lparr>pl_id = plan_id, pl_goal_id = pp_goal_id proposal,
             pl_goal_summary = pp_goal_summary proposal, pl_phase = ps_phase first,
             pl_status = P_active, pl_version = version, pl_current = Some (ps_id first),
             pl_steps = map step_of_proposal (pp_steps proposal)\<rparr>)"

definition plaza_step ::
    "string \<Rightarrow> string \<Rightarrow> string option \<Rightarrow> string \<Rightarrow> int \<Rightarrow> plan_step" where
  "plaza_step i ph skill intent k =
     \<lparr>st_id = i, st_phase = ph, st_skill = skill, st_schema = map_option (\<lambda>_. ''v1'') skill,
      st_target = None, st_intent = intent, st_max_attempts = k, st_status = St_pending,
      st_attempts = 0\<rparr>"

definition create_plaza_social_plan :: "string \<Rightarrow> int \<Rightarrow> string + activity_plan" where
  "create_plaza_social_plan plan_id version =
     validate_activity_plan
       \<lparr>pl_id = plan_id, pl_goal_id = ''plaza_social'',
        pl_goal_summary = ''Enter the plaza, complete varied activities, and remain open to nearby social events'',
        pl_phase = ''arrival'', pl_status = P_active, pl_version = version,
        pl_current = Some ''arrival'',
        pl_steps =
          [plaza_step ''arrival'' ''arrival'' (Some ''scene_tornado'')
             ''Move from the initial room to the plaza'' 2,
           plaza_step ''dance'' ''activity'' (Some ''dance_auto_schedule'')
             ''Take part in a dance activity in the plaza'' 2,
           plaza_step ''balloon'' ''transport'' (Some ''hot_air_balloon_auto_schedule'')
             ''Take a hot air balloon ride'' 2,
           plaza_step ''social-opportunity'' ''social'' None
             ''Remain available for a nearby friend chat opportunity'' 1]\<rparr>"

section \<open>Advancing plans\<close>

definition should_retry_activity_failure :: "string \<Rightarrow> string \<Rightarrow> bool \<Rightarrow> bool" where
  "should_retry_activity_failure skill reason retryable \<longleftrightarrow>
     retryable \<and> reason \<notin> {''no_available_dart_pos'', ''no_available_seat'',
       ''no_available_chair'', ''no_available_vehicle'', ''ttl_expired'', ''upstream_timeout''}"

definition lower_char :: "char \<Rightarrow> char" where
  "lower_char c = (if 65 \<le> (of_char c :: nat) \<and> (of_char c :: nat) \<le> 90
                   then char_of ((of_char c :: nat) + 32) else c)"

definition is_target_rejection_reason :: "string \<Rightarrow> bool" where
  "is_target_rejection_reason reason =
     (let n = map lower_char (py_strip reason) in
      n = ''target_congested'' \<or> take 17 n = ''target_congested:'' \<or> n = ''state_not_allowed'')"

definition replace_step :: "activity_plan \<Rightarrow> plan_step \<Rightarrow> plan_step list" where
  "replace_step p q = map (\<lambda>s. if st_id s = st_id q then q else s) (pl_steps p)"

fun step_index :: "string \<Rightarrow> plan_step list \<Rightarrow> nat option" where
  "step_index i [] = None"
| "step_index i (s # ss) = (if st_id s = i then Some 0 else map_option Suc (step_index i ss))"

definition advance_after_terminal :: "activity_plan \<Rightarrow> plan_step \<Rightarrow> string + activity_plan" where
  "advance_after_terminal p done =
     (case step_index (st_id done) (pl_steps p) of
        None \<Rightarrow> Inl ''StopIteration''
      | Some i \<Rightarrow>
          (let steps = replace_step p done in
           if i + 1 \<ge> length steps
             then Inr (p\<lparr>pl_steps := steps, pl_status := P_completed, pl_current := None\<rparr>)
             else (let nxt = steps ! (i + 1) in
                   Inr (p\<lparr>pl_steps := steps, pl_phase := st_phase nxt,
                          pl_current := Some (st_id nxt)\<rparr>))))"

definition next_attempts :: "plan_step \<Rightarrow> int" where
  "next_attempts s = (if st_status s = St_started then st_attempts s else st_attempts s + 1)"

definition record_step_started :: "activity_plan \<Rightarrow> string \<Rightarrow> string + activity_plan" where
  "record_step_started p i =
     (case current_step p of Inl e \<Rightarrow> Inl e
      | Inr cur \<Rightarrow>
          if st_id cur \<noteq> i \<or> st_skill cur = None
            then Inl ''started skill does not match current plan step''
          else if st_status cur \<notin> {St_pending, St_started}
            then Inl ''current plan step cannot be started''
          else Inr (p\<lparr>pl_steps := replace_step p
                        (cur\<lparr>st_status := St_started, st_attempts := next_attempts cur\<rparr>)\<rparr>))"

definition record_step_terminal ::
    "activity_plan \<Rightarrow> string \<Rightarrow> bool \<Rightarrow> bool \<Rightarrow> bool \<Rightarrow> string + activity_plan" where
  "record_step_terminal p i succeeded retryable corrected =
     (case current_step p of Inl e \<Rightarrow> Inl e
      | Inr cur \<Rightarrow>
          if st_id cur \<noteq> i \<or> st_skill cur = None
            then Inl ''terminal skill does not match current plan step''
          else (let attempts = next_attempts cur in
            if succeeded
              then advance_after_terminal p (cur\<lparr>st_status := St_succeeded, st_attempts := attempts\<rparr>)
            else if (retryable \<or> corrected) \<and> attempts < st_max_attempts cur
              then Inr (p\<lparr>pl_steps := replace_step p
                            (cur\<lparr>st_status := St_pending, st_attempts := attempts\<rparr>)\<rparr>)
            else advance_after_terminal p (cur\<lparr>st_status := St_skipped, st_attempts := attempts\<rparr>)))"

definition invalidate_move_target :: "activity_plan \<Rightarrow> string \<Rightarrow> string + activity_plan" where
  "invalidate_move_target p i =
     (case current_step p of Inl e \<Rightarrow> Inl e
      | Inr cur \<Rightarrow>
          if st_id cur \<noteq> i \<or> st_skill cur \<noteq> Some ''move_to''
            then Inl ''only the current move_to step can lose its target''
          else Inr (p\<lparr>pl_steps := replace_step p
                 (cur\<lparr>st_target := None, st_status := St_pending,
                      st_attempts := min (st_attempts cur + 1) (st_max_attempts cur)\<rparr>)\<rparr>))"

definition replace_move_target ::
    "activity_plan \<Rightarrow> string \<Rightarrow> string option \<Rightarrow> int \<Rightarrow> string + activity_plan" where
  "replace_move_target p i target version =
     (case current_step p of Inl e \<Rightarrow> Inl e
      | Inr cur \<Rightarrow>
          if st_id cur \<noteq> i \<or> st_skill cur \<noteq> Some ''move_to''
            then Inl ''only the current move_to step can be retargeted''
          else Inr (p\<lparr>pl_steps := replace_step p (cur\<lparr>st_target := target, st_status := St_pending\<rparr>),
                      pl_version := version\<rparr>))"

definition complete_social_opportunity :: "activity_plan \<Rightarrow> string + activity_plan" where
  "complete_social_opportunity p =
     (case current_step p of Inl e \<Rightarrow> Inl e
      | Inr cur \<Rightarrow>
          if st_skill cur \<noteq> None \<or> st_phase cur \<noteq> ''social''
            then Inl ''current step is not a social opportunity''
          else advance_after_terminal p (cur\<lparr>st_status := St_succeeded\<rparr>))"

text \<open>A report is what the repository passes on about the current step.\<close>

datatype step_report =
    R_started
  | R_terminal bool bool bool
  | R_social

fun apply_report :: "step_report \<Rightarrow> activity_plan \<Rightarrow> string + activity_plan" where
  "apply_report R_started p = record_step_started p (case pl_current p of Some i \<Rightarrow> i | None \<Rightarrow> [])"
| "apply_report (R_terminal ok retry corr) p =
     record_step_terminal p (case pl_current p of Some i \<Rightarrow> i | None \<Rightarrow> []) ok retry corr"
| "apply_report R_social p = complete_social_opportunity p"


section \<open>The shape every live plan keeps\<close>

definition finished_step :: "plan_step \<Rightarrow> bool" where
  "finished_step s \<longleftrightarrow> st_status s \<in> {St_succeeded, St_skipped} \<and> st_attempts s \<le> st_max_attempts s"

definition live_step :: "plan_step \<Rightarrow> bool" where
  "live_step s \<longleftrightarrow> (st_status s = St_pending \<and> st_attempts s < st_max_attempts s) \<or>
     (st_status s = St_started \<and> st_attempts s \<le> st_max_attempts s)"

definition fresh_step :: "plan_step \<Rightarrow> bool" where
  "fresh_step s \<longleftrightarrow> st_status s = St_pending \<and> st_attempts s = 0"

text \<open>Finished steps, then the current one, then untouched ones; or all finished.\<close>

fun frontier_ok :: "string option \<Rightarrow> plan_step list \<Rightarrow> bool" where
  "frontier_ok None ss = list_all finished_step ss"
| "frontier_ok (Some i) [] = False"
| "frontier_ok (Some i) (s # ss) =
     (if st_id s = i then live_step s \<and> list_all fresh_step ss
      else finished_step s \<and> frontier_ok (Some i) ss)"

definition plan_inv :: "activity_plan \<Rightarrow> bool" where
  "plan_inv p \<longleftrightarrow>
     strip_plan p = p \<and> plan_fields_ok p \<and>
     steps_layout_error (map st_id (pl_steps p)) (map st_skill (pl_steps p)) = None \<and>
     frontier_ok (pl_current p) (pl_steps p) \<and>
     (case pl_current p of
        None \<Rightarrow> pl_status p = P_completed
      | Some i \<Rightarrow> pl_status p = P_active \<and>
          (\<forall>s \<in> set (pl_steps p). st_id s = i \<longrightarrow> st_phase s = pl_phase p))"

lemma steps_layout_distinct: "steps_layout_error ids skills = None \<Longrightarrow> distinct ids"
  by (auto simp: steps_layout_error_def split: if_splits)

lemma frontier_split:
  "frontier_ok (Some i) ss \<Longrightarrow>
   \<exists>a s b. ss = a @ s # b \<and> st_id s = i \<and> list_all finished_step a \<and> live_step s \<and>
           list_all fresh_step b"
proof (induction ss)
  case (Cons s ss)
  show ?case
  proof (cases "st_id s = i")
    case True
    with Cons.prems show ?thesis by (intro exI[of _ "[]"]) auto
  next
    case False
    with Cons obtain a q b where "ss = a @ q # b" "st_id q = i" "list_all finished_step a"
      "live_step q" "list_all fresh_step b" "finished_step s" by auto
    then show ?thesis by (intro exI[of _ "s # a"] exI[of _ q] exI[of _ b]) simp
  qed
qed simp

lemma frontier_joined:
  "list_all finished_step a \<Longrightarrow> i \<notin> set (map st_id a) \<Longrightarrow>
   frontier_ok (Some i) (a @ b) = frontier_ok (Some i) b"
  by (induction a) auto

lemma step_index_append:
  "i \<notin> set (map st_id a) \<Longrightarrow> st_id s = i \<Longrightarrow> step_index i (a @ s # b) = Some (length a)"
  by (induction a) auto

text \<open>A live plan, taken apart at its current step.\<close>

lemma plan_invE:
  assumes "plan_inv p" and "pl_current p = Some i"
  obtains a s b where "pl_steps p = a @ s # b" and "st_id s = i"
    and "list_all finished_step a" and "live_step s" and "list_all fresh_step b"
    and "i \<notin> set (map st_id a)" and "i \<notin> set (map st_id b)" and "distinct (map st_id (a @ b))"
    and "current_step p = Inr s" and "pl_status p = P_active"
proof -
  from assms have front: "frontier_ok (Some i) (pl_steps p)" and act: "pl_status p = P_active"
    and dist: "distinct (map st_id (pl_steps p))"
    by (auto simp: plan_inv_def dest: steps_layout_distinct)
  from frontier_split[OF front] obtain a s b where split: "pl_steps p = a @ s # b"
    "st_id s = i" "list_all finished_step a" "live_step s" "list_all fresh_step b" by blast
  with dist have ia: "i \<notin> set (map st_id a)" "i \<notin> set (map st_id b)"
    "distinct (map st_id (a @ b))" by auto
  have "find (\<lambda>q. st_id q = i) (pl_steps p) = Some s"
    by (rule find_unique) (use split ia in auto)
  with assms(2) have "current_step p = Inr s" by (simp add: current_step_def plan_step_of_def)
  with split ia act that show thesis by blast
qed

lemma replace_step_split:
  assumes "pl_steps p = a @ s # b" and "st_id q = st_id s"
    and "st_id s \<notin> set (map st_id a)" and "st_id s \<notin> set (map st_id b)"
  shows "replace_step p q = a @ q # b"
proof -
  have "map (\<lambda>r. if st_id r = st_id s then q else r) c = c"
    if "st_id s \<notin> set (map st_id c)" for c
    using that by (induction c) auto
  with assms show ?thesis by (simp add: replace_step_def)
qed

lemma advance_split:
  assumes "pl_steps p = a @ s # b" and "st_id q = st_id s"
    and "st_id s \<notin> set (map st_id a)" and "st_id s \<notin> set (map st_id b)"
  shows "advance_after_terminal p q =
    (case b of
       [] \<Rightarrow> Inr (p\<lparr>pl_steps := a @ [q], pl_status := P_completed, pl_current := None\<rparr>)
     | n # _ \<Rightarrow> Inr (p\<lparr>pl_steps := a @ q # b, pl_phase := st_phase n, pl_current := Some (st_id n)\<rparr>))"
proof -
  have idx: "step_index (st_id q) (pl_steps p) = Some (length a)"
    using assms by (simp add: step_index_append)
  have rep: "replace_step p q = a @ q # b" by (rule replace_step_split) (use assms in auto)
  show ?thesis
    by (cases b) (simp_all add: advance_after_terminal_def idx rep nth_append)
qed

text \<open>Changing the counters of a step keeps every check that is not about the counters.\<close>

definition same_action :: "plan_step \<Rightarrow> plan_step \<Rightarrow> bool" where
  "same_action s q \<longleftrightarrow> st_id q = st_id s \<and> st_phase q = st_phase s \<and> st_skill q = st_skill s \<and>
     st_schema q = st_schema s \<and> st_target q = st_target s \<and> st_intent q = st_intent s \<and>
     st_max_attempts q = st_max_attempts s"

lemma same_action_strip: "same_action s q \<Longrightarrow> strip_step s = s \<Longrightarrow> strip_step q = q"
  by (cases s; cases q) (simp add: same_action_def strip_step_def)

lemma same_action_ok:
  assumes "same_action s q" and "step_fields_ok s" and "validate_action_identity s = None"
    and "0 \<le> st_attempts q" and "st_attempts q \<le> st_max_attempts q"
  shows "step_fields_ok q \<and> validate_action_identity q = None"
  using assms
  by (auto simp: same_action_def step_fields_ok_def validate_action_identity_def
      split: option.splits if_splits)

lemma plan_inv_step_facts:
  assumes "plan_inv p" and "s \<in> set (pl_steps p)"
  shows "strip_step s = s" and "step_fields_ok s" and "validate_action_identity s = None"
proof -
  from assms(1) have strip: "strip_plan p = p" and ok: "plan_fields_ok p" by (simp_all add: plan_inv_def)
  from ok assms(2) show "step_fields_ok s" and "validate_action_identity s = None"
    by (auto simp: plan_fields_ok_def list_all_iff)
  from strip have "map strip_step (pl_steps p) = pl_steps p"
    by (metis (no_types, lifting) activity_plan.select_convs(8) activity_plan.surjective
        activity_plan.update_convs(8) strip_plan_def)
  with assms(2) show "strip_step s = s" by (metis in_set_conv_nth nth_map)
qed

text \<open>Putting a plan back together with a new current step.\<close>

lemma strip_plan_iff:
  "strip_plan p = p \<longleftrightarrow> py_strip (pl_id p) = pl_id p \<and> py_strip (pl_goal_id p) = pl_goal_id p \<and>
     py_strip (pl_goal_summary p) = pl_goal_summary p \<and> py_strip (pl_phase p) = pl_phase p \<and>
     map_option py_strip (pl_current p) = pl_current p \<and> map strip_step (pl_steps p) = pl_steps p"
  by (cases p) (simp add: strip_plan_def)

lemma strip_step_iff:
  "strip_step s = s \<longleftrightarrow> py_strip (st_id s) = st_id s \<and> py_strip (st_phase s) = st_phase s \<and>
     map_option py_strip (st_skill s) = st_skill s \<and> map_option py_strip (st_schema s) = st_schema s \<and>
     map_option py_strip (st_target s) = st_target s \<and> py_strip (st_intent s) = st_intent s"
  by (cases s) (simp add: strip_step_def)

lemma same_action_layout:
  "same_action s q \<Longrightarrow>
   map st_id (a @ q # b) = map st_id (a @ s # b) \<and> map st_skill (a @ q # b) = map st_skill (a @ s # b)"
  by (simp add: same_action_def)

lemma plan_inv_replace_current:
  assumes inv: "plan_inv p" and cur: "pl_current p = Some i" and split: "pl_steps p = a @ s # b"
    and i: "st_id s = i" and fin: "list_all finished_step a" and fresh: "list_all fresh_step b"
    and ia: "i \<notin> set (map st_id a)" and ib: "i \<notin> set (map st_id b)"
    and same: "same_action s q" and att: "0 \<le> st_attempts q" "st_attempts q \<le> st_max_attempts q"
    and live: "live_step q"
  shows "plan_inv (p\<lparr>pl_steps := a @ q # b\<rparr>)"
proof -
  from split have s: "s \<in> set (pl_steps p)" by simp
  note sf = plan_inv_step_facts[OF inv s]
  have q_ok: "step_fields_ok q \<and> validate_action_identity q = None"
    by (rule same_action_ok[OF same sf(2,3) att])
  have q_strip: "strip_step q = q" by (rule same_action_strip[OF same sf(1)])
  have front: "frontier_ok (Some i) (a @ q # b)"
    using fin ia live fresh same i by (simp add: frontier_joined same_action_def)
  show ?thesis
    using inv cur split q_ok q_strip front same_action_layout[OF same, of a b] i ia ib same
    by (auto simp: plan_inv_def strip_plan_iff plan_fields_ok_def same_action_def)
qed

lemma plan_inv_advance_current:
  assumes inv: "plan_inv p" and cur: "pl_current p = Some i" and split: "pl_steps p = a @ s # b"
    and i: "st_id s = i" and fin: "list_all finished_step a" and fresh: "list_all fresh_step b"
    and ia: "i \<notin> set (map st_id a)" and ib: "i \<notin> set (map st_id b)"
    and same: "same_action s q" and att: "0 \<le> st_attempts q" "st_attempts q \<le> st_max_attempts q"
    and fin_q: "finished_step q" and adv: "advance_after_terminal p q = Inr p'"
  shows "plan_inv p'"
proof -
  from split have s: "s \<in> set (pl_steps p)" by simp
  note sf = plan_inv_step_facts[OF inv s]
  have q_ok: "step_fields_ok q \<and> validate_action_identity q = None"
    by (rule same_action_ok[OF same sf(2,3) att])
  have q_strip: "strip_step q = q" by (rule same_action_strip[OF same sf(1)])
  have dist: "distinct (map st_id (pl_steps p))"
    using inv by (auto simp: plan_inv_def dest: steps_layout_distinct)
  have qi: "st_id q = st_id s" using same by (simp add: same_action_def)
  note adv' = advance_split[OF split qi, unfolded i, OF ia ib]
  show ?thesis
  proof (cases b)
    case Nil
    with adv adv' have p': "p' = p\<lparr>pl_steps := a @ [q], pl_status := P_completed, pl_current := None\<rparr>"
      by simp
    show ?thesis
      using inv cur split Nil q_ok q_strip fin fin_q same_action_layout[OF same, of a "[]"]
      by (auto simp: p' plan_inv_def strip_plan_iff plan_fields_ok_def bounded_option_def)
  next
    case (Cons n ns)
    with adv adv' have p': "p' = p\<lparr>pl_steps := a @ q # n # ns, pl_phase := st_phase n,
        pl_current := Some (st_id n)\<rparr>" by simp
    have n: "n \<in> set (pl_steps p)" using split Cons by simp
    note nf = plan_inv_step_facts[OF inv n]
    have n_live: "live_step n"
      using fresh Cons nf(2) by (auto simp: fresh_step_def live_step_def step_fields_ok_def)
    have n_new: "st_id n \<notin> set (map st_id a)" "st_id q \<noteq> st_id n" "st_id n \<notin> set (map st_id ns)"
      using dist split Cons qi by auto
    have front: "frontier_ok (Some (st_id n)) (a @ q # n # ns)"
      using fin fin_q n_live n_new fresh Cons by (simp add: frontier_joined)
    have "bounded_string 64 (st_phase n)" "bounded_string 128 (st_id n)"
      "py_strip (st_phase n) = st_phase n" "py_strip (st_id n) = st_id n"
      using nf by (auto simp: step_fields_ok_def strip_step_iff)
    then have core: "strip_plan p' = p'" "plan_fields_ok p'"
      "steps_layout_error (map st_id (pl_steps p')) (map st_skill (pl_steps p')) = None"
      using inv cur split Cons q_ok q_strip same_action_layout[OF same, of a b]
      by (simp_all add: p' plan_inv_def strip_plan_iff plan_fields_ok_def bounded_option_def)
    have phase: "\<forall>r \<in> set (pl_steps p'). st_id r = st_id n \<longrightarrow> st_phase r = pl_phase p'"
      using n_new by (auto simp: image_iff p')
    have "pl_status p' = P_active" using inv cur by (simp add: p' plan_inv_def)
    moreover have "pl_current p' = Some (st_id n)" "frontier_ok (Some (st_id n)) (pl_steps p')"
      using front by (simp_all add: p')
    ultimately show ?thesis using core phase unfolding plan_inv_def by simp
  qed
qed

lemma live_step_next_attempts:
  "live_step s \<Longrightarrow> step_fields_ok s \<Longrightarrow> 0 \<le> next_attempts s \<and> next_attempts s \<le> st_max_attempts s"
  by (auto simp: live_step_def next_attempts_def step_fields_ok_def)

lemma same_action_status [simp]:
  "same_action s (s\<lparr>st_status := x, st_attempts := n\<rparr>)" "same_action s (s\<lparr>st_status := x\<rparr>)"
  by (simp_all add: same_action_def)

lemma plan_inv_started:
  assumes inv: "plan_inv p" and res: "record_step_started p i = Inr p'"
  shows "plan_inv p'"
proof -
  from res obtain j where cur: "pl_current p = Some j"
    by (auto simp: record_step_started_def current_step_def split: option.splits sum.splits)
  from plan_invE[OF inv cur] obtain a s b where d: "pl_steps p = a @ s # b" "st_id s = j"
    "list_all finished_step a" "live_step s" "list_all fresh_step b" "j \<notin> set (map st_id a)"
    "j \<notin> set (map st_id b)" "current_step p = Inr s" by metis
  define q where "q = s\<lparr>st_status := St_started, st_attempts := next_attempts s\<rparr>"
  from d have "s \<in> set (pl_steps p)" by simp
  from live_step_next_attempts[OF d(4) plan_inv_step_facts(2)[OF inv this]]
  have att: "0 \<le> st_attempts q" "st_attempts q \<le> st_max_attempts q" by (simp_all add: q_def)
  have rep: "replace_step p q = a @ q # b"
    by (rule replace_step_split) (use d in \<open>auto simp: q_def\<close>)
  from res d(8) have p': "p' = p\<lparr>pl_steps := a @ q # b\<rparr>"
    using rep by (auto simp: record_step_started_def q_def split: if_splits)
  show ?thesis
    unfolding p' by (rule plan_inv_replace_current[OF inv cur d(1,2,3,5,6,7)])
      (use att in \<open>auto simp: q_def live_step_def\<close>)
qed

lemma plan_inv_terminal:
  assumes inv: "plan_inv p" and res: "record_step_terminal p i ok retry corr = Inr p'"
  shows "plan_inv p'"
proof -
  from res obtain j where cur: "pl_current p = Some j"
    by (auto simp: record_step_terminal_def current_step_def split: option.splits sum.splits)
  from plan_invE[OF inv cur] obtain a s b where d: "pl_steps p = a @ s # b" "st_id s = j"
    "list_all finished_step a" "live_step s" "list_all fresh_step b" "j \<notin> set (map st_id a)"
    "j \<notin> set (map st_id b)" "current_step p = Inr s" by metis
  from d have "s \<in> set (pl_steps p)" by simp
  from live_step_next_attempts[OF d(4) plan_inv_step_facts(2)[OF inv this]]
  have att: "0 \<le> next_attempts s" "next_attempts s \<le> st_max_attempts s" by simp_all
  have adv: "plan_inv p'" if "advance_after_terminal p (s\<lparr>st_status := x, st_attempts := next_attempts s\<rparr>) = Inr p'"
    "x \<in> {St_succeeded, St_skipped}" for x
    by (rule plan_inv_advance_current[OF inv cur d(1,2,3,5,6,7) _ _ _ _ that(1)])
      (use att that(2) in \<open>auto simp: finished_step_def\<close>)
  have ret: "plan_inv (p\<lparr>pl_steps := replace_step p (s\<lparr>st_status := St_pending, st_attempts := next_attempts s\<rparr>)\<rparr>)"
    if "next_attempts s < st_max_attempts s"
  proof -
    define q where "q = s\<lparr>st_status := St_pending, st_attempts := next_attempts s\<rparr>"
    have "replace_step p q = a @ q # b"
      by (rule replace_step_split) (use d in \<open>auto simp: q_def\<close>)
    moreover have "plan_inv (p\<lparr>pl_steps := a @ q # b\<rparr>)"
      by (rule plan_inv_replace_current[OF inv cur d(1,2,3,5,6,7)])
        (use att that in \<open>auto simp: q_def live_step_def\<close>)
    ultimately show ?thesis by (simp add: q_def)
  qed
  from res d(8) adv ret show ?thesis
    by (auto simp: record_step_terminal_def Let_def split: if_splits)
qed

lemma plan_inv_social:
  assumes inv: "plan_inv p" and res: "complete_social_opportunity p = Inr p'"
  shows "plan_inv p'"
proof -
  from res obtain j where cur: "pl_current p = Some j"
    by (auto simp: complete_social_opportunity_def current_step_def split: option.splits sum.splits)
  from plan_invE[OF inv cur] obtain a s b where d: "pl_steps p = a @ s # b" "st_id s = j"
    "list_all finished_step a" "live_step s" "list_all fresh_step b" "j \<notin> set (map st_id a)"
    "j \<notin> set (map st_id b)" "current_step p = Inr s" by metis
  from d have s: "s \<in> set (pl_steps p)" by simp
  have att: "0 \<le> st_attempts s" "st_attempts s \<le> st_max_attempts s"
    using d(4) plan_inv_step_facts(2)[OF inv s] by (auto simp: live_step_def step_fields_ok_def)
  from res d(8) have adv: "advance_after_terminal p (s\<lparr>st_status := St_succeeded\<rparr>) = Inr p'"
    by (auto simp: complete_social_opportunity_def split: if_splits)
  show ?thesis
    by (rule plan_inv_advance_current[OF inv cur d(1,2,3,5,6,7) _ _ _ _ adv])
      (use att in \<open>auto simp: finished_step_def\<close>)
qed

lemma plan_inv_loadable:
  assumes "plan_inv p"
  shows "validate_activity_plan p = Inr p"
proof -
  have "validate_plan_state p = None"
  proof (cases "pl_current p")
    case None
    with assms show ?thesis
      by (simp add: plan_inv_def validate_plan_state_def current_step_def)
  next
    case (Some i)
    from plan_invE[OF assms Some] obtain a s b where d: "pl_steps p = a @ s # b" "st_id s = i"
      "current_step p = Inr s" by metis
    with assms Some show ?thesis by (auto simp: plan_inv_def validate_plan_state_def)
  qed
  with assms show ?thesis by (simp add: validate_activity_plan_def plan_inv_def)
qed

section \<open>Progress\<close>

definition step_work :: "plan_step \<Rightarrow> nat" where
  "step_work s = (case st_status s of
      St_pending \<Rightarrow> nat (st_max_attempts s - st_attempts s)
    | St_started \<Rightarrow> Suc (nat (st_max_attempts s - st_attempts s))
    | _ \<Rightarrow> 0)"

definition plan_work :: "activity_plan \<Rightarrow> nat" where
  "plan_work p = sum_list (map step_work (pl_steps p))"

text \<open>The end of the current step: a terminal skill report, or the social opportunity passing.\<close>

definition end_current :: "bool \<times> bool \<times> bool \<Rightarrow> activity_plan \<Rightarrow> string + activity_plan" where
  "end_current r p = (case current_step p of
      Inl e \<Rightarrow> Inl e
    | Inr s \<Rightarrow> if st_skill s = None then complete_social_opportunity p
               else record_step_terminal p (st_id s) (fst r) (fst (snd r)) (snd (snd r)))"

fun run_ends :: "(bool \<times> bool \<times> bool) list \<Rightarrow> activity_plan \<Rightarrow> string + activity_plan" where
  "run_ends [] p = Inr p"
| "run_ends (r # rs) p =
     (if pl_current p = None then Inr p
      else case end_current r p of Inl e \<Rightarrow> Inl e | Inr p' \<Rightarrow> run_ends rs p')"

lemma plan_work_split: "pl_steps p = a @ s # b \<Longrightarrow>
    plan_work p = sum_list (map step_work a) + step_work s + sum_list (map step_work b)"
  by (simp add: plan_work_def)

lemma finished_step_work: "finished_step s \<Longrightarrow> step_work s = 0"
  by (auto simp: finished_step_def step_work_def)

lemma live_step_work: "live_step s \<Longrightarrow> 0 < step_work s"
  by (auto simp: live_step_def step_work_def)

lemma advance_work:
  assumes "pl_steps p = a @ s # b" and "st_id q = st_id s"
    and "st_id s \<notin> set (map st_id a)" and "st_id s \<notin> set (map st_id b)"
    and "step_work q < step_work s"
  shows "\<exists>p'. advance_after_terminal p q = Inr p' \<and> plan_work p' < plan_work p"
  using advance_split[OF assms(1-4)] plan_work_split[OF assms(1)] assms(5)
  by (cases b) (auto simp: plan_work_def)

lemma end_current_progress:
  assumes inv: "plan_inv p" and cur: "pl_current p = Some i"
  shows "\<exists>p'. end_current r p = Inr p' \<and> plan_inv p' \<and> plan_work p' < plan_work p"
proof -
  from plan_invE[OF inv cur] obtain a s b where d: "pl_steps p = a @ s # b" "st_id s = i"
    "live_step s" "i \<notin> set (map st_id a)" "i \<notin> set (map st_id b)" "current_step p = Inr s" by metis
  from d have s: "s \<in> set (pl_steps p)" by simp
  note sf = plan_inv_step_facts[OF inv s]
  note work = live_step_work[OF d(3)]
  have adv: "\<exists>p'. advance_after_terminal p q = Inr p' \<and> plan_work p' < plan_work p"
    if "st_id q = st_id s" "step_work q = 0" for q
    by (rule advance_work[OF d(1)]) (use d that work in auto)
  show ?thesis
  proof (cases "st_skill s")
    case None
    with sf(3) have "st_phase s = ''social''"
      by (auto simp: validate_action_identity_def action_identity_error_def split: if_splits)
    moreover obtain p' where "advance_after_terminal p (s\<lparr>st_status := St_succeeded\<rparr>) = Inr p'"
      "plan_work p' < plan_work p"
      using adv[of "s\<lparr>st_status := St_succeeded\<rparr>"] by (auto simp: step_work_def)
    moreover from calculation None d(6) have res: "complete_social_opportunity p = Inr p'"
      by (simp add: complete_social_opportunity_def)
    ultimately show ?thesis using None d(6) plan_inv_social[OF inv res] by (simp add: end_current_def)
  next
    case (Some k)
    obtain ok retry corr where r: "r = (ok, retry, corr)" by (cases r) auto
    have "\<exists>p'. record_step_terminal p (st_id s) ok retry corr = Inr p' \<and> plan_work p' < plan_work p"
    proof (cases "\<not> ok \<and> (retry \<or> corr) \<and> next_attempts s < st_max_attempts s")
      case True
      define q where "q = s\<lparr>st_status := St_pending, st_attempts := next_attempts s\<rparr>"
      have rep: "replace_step p q = a @ q # b"
        by (rule replace_step_split) (use d in \<open>auto simp: q_def\<close>)
      have "step_work q < step_work s"
        using True d(3) sf(2) by (auto simp: q_def step_work_def next_attempts_def live_step_def)
      then have "plan_work (p\<lparr>pl_steps := replace_step p q\<rparr>) < plan_work p"
        by (simp add: rep plan_work_split[OF d(1)]) (simp add: plan_work_def)
      with True Some d(6) show ?thesis by (auto simp: record_step_terminal_def q_def Let_def)
    next
      case False
      have "st_id (s\<lparr>st_status := x, st_attempts := n\<rparr>) = st_id s" for x n by simp
      with adv[of "s\<lparr>st_status := St_succeeded, st_attempts := next_attempts s\<rparr>"]
        adv[of "s\<lparr>st_status := St_skipped, st_attempts := next_attempts s\<rparr>"] False Some d(6)
      show ?thesis by (auto simp: record_step_terminal_def step_work_def Let_def)
    qed
    then obtain p' where res: "record_step_terminal p (st_id s) ok retry corr = Inr p'"
      and less: "plan_work p' < plan_work p" by blast
    with Some d(6) plan_inv_terminal[OF inv res] show ?thesis by (simp add: end_current_def r)
  qed
qed

lemma run_ends_completes:
  "plan_inv p \<Longrightarrow> plan_work p \<le> length rs \<Longrightarrow>
   \<exists>p'. run_ends rs p = Inr p' \<and> plan_inv p' \<and> pl_status p' = P_completed"
proof (induction rs arbitrary: p)
  case Nil
  have "pl_current p = None"
  proof (rule ccontr)
    assume "pl_current p \<noteq> None"
    then obtain i where "pl_current p = Some i" by blast
    from end_current_progress[OF Nil(1) this] Nil(2) show False by auto
  qed
  with Nil(1) show ?case by (simp add: plan_inv_def)
next
  case (Cons r rs)
  show ?case
  proof (cases "pl_current p")
    case None
    with Cons.prems(1) show ?thesis by (simp add: plan_inv_def)
  next
    case (Some i)
    from end_current_progress[OF Cons.prems(1) Some, of r] obtain p' where
      "end_current r p = Inr p'" "plan_inv p'" "plan_work p' < plan_work p" by blast
    with Cons.IH[of p'] Cons.prems(2) Some show ?thesis by simp
  qed
qed

section \<open>Materialized plans\<close>

definition materializable :: "plan_proposal \<Rightarrow> (string \<times> string) set \<Rightarrow> bool \<Rightarrow> bool" where
  "materializable q available lobby \<longleftrightarrow>
     (\<forall>s \<in> set (pp_steps q). ps_skill s \<noteq> None \<longrightarrow>
        ps_schema s \<noteq> None \<and> (the (ps_skill s), the (ps_schema s)) \<in> available) \<and>
     (lobby \<longrightarrow> (case filter (\<lambda>s. ps_skill s \<noteq> None) (pp_steps q) of
        [] \<Rightarrow> False
      | s # _ \<Rightarrow> ps_skill s = Some ''scene_tornado'' \<and> ps_schema s = Some ''v1''))"

lemma social_indexes_length: "length (social_indexes k ks) + executable_count ks = length ks"
proof (induction ks arbitrary: k)
  case (Cons x ks)
  then show ?case by (cases x) (simp_all add: executable_count_def)
qed (simp add: executable_count_def)

lemma steps_layout_bounds:
  assumes "steps_layout_error ids skills = None"
  shows "3 \<le> executable_count skills" and "executable_count skills \<le> 6"
    and "length skills \<le> Suc (executable_count skills)" and "distinct ids"
  using assms social_indexes_length[of 0 skills]
  by (auto simp: steps_layout_error_def validate_social_opportunity_layout_def Let_def
      split: if_splits option.splits)

lemma step_of_proposal_ok:
  "proposal_step_ok s \<Longrightarrow>
   step_fields_ok (step_of_proposal s) \<and> validate_action_identity (step_of_proposal s) = None"
  by (auto simp: proposal_step_ok_def step_of_proposal_def step_fields_ok_def
      validate_action_identity_def)

lemma strip_proposal_step_idem: "strip_proposal_step (strip_proposal_step s) = strip_proposal_step s"
  by (cases s) (simp add: strip_proposal_step_def option.map_comp comp_def)

lemma strip_step_of_proposal:
  "strip_proposal_step s = s \<Longrightarrow> strip_step (step_of_proposal s) = step_of_proposal s"
  by (cases s) (auto simp: strip_proposal_step_def step_of_proposal_def strip_step_def)

lemma validate_proposalD:
  assumes "validate_proposal raw = Inr q"
  shows "list_all proposal_step_ok (pp_steps q)"
    and "\<forall>s \<in> set (pp_steps q). strip_proposal_step s = s"
    and "steps_layout_error (map ps_id (pp_steps q)) (map ps_skill (pp_steps q)) = None"
    and "bounded_string 128 (pp_goal_id q)" and "bounded_string 512 (pp_goal_summary q)"
    and "py_strip (pp_goal_id q) = pp_goal_id q" and "py_strip (pp_goal_summary q) = pp_goal_summary q"
  using assms by (auto simp: validate_proposal_def Let_def strip_proposal_step_idem
      split: if_splits option.splits)

lemma step_work_of_proposal:
  "step_work (step_of_proposal s) = (if ps_skill s = None then 1 else 2)"
  by (simp add: step_of_proposal_def step_work_def)

lemma work_of_proposal_steps:
  "sum_list (map step_work (map step_of_proposal ss)) =
   length ss + executable_count (map ps_skill ss)"
  by (induction ss) (auto simp: step_work_of_proposal executable_count_def)

text \<open>The plan \<open>materialize_activity_plan\<close> hands to the validator is a live plan.\<close>

lemma materialized_plan_inv:
  assumes v: "validate_proposal raw = Inr q" and id: "bounded_string 128 i" "py_strip i = i"
    and ver: "1 \<le> ver" and steps: "pp_steps q = f # rest"
  shows "plan_inv \<lparr>pl_id = i, pl_goal_id = pp_goal_id q, pl_goal_summary = pp_goal_summary q,
      pl_phase = ps_phase f, pl_status = P_active, pl_version = ver, pl_current = Some (ps_id f),
      pl_steps = map step_of_proposal (pp_steps q)\<rparr>" (is "plan_inv ?p")
proof -
  note d = validate_proposalD[OF v]
  have ids: "map st_id (pl_steps ?p) = map ps_id (pp_steps q)"
    and sk: "map st_skill (pl_steps ?p) = map ps_skill (pp_steps q)"
    by (simp_all add: step_of_proposal_def comp_def)
  have layout: "steps_layout_error (map st_id (pl_steps ?p)) (map st_skill (pl_steps ?p)) = None"
    unfolding ids sk by (rule d(3))
  have dist: "distinct (map ps_id (pp_steps q))" by (rule steps_layout_bounds(4)[OF d(3)])
  from d(1) steps have f_ok: "proposal_step_ok f" by simp
  from d(2) steps have f_strip: "strip_proposal_step f = f" by simp
  have f_str: "py_strip (ps_id f) = ps_id f" "py_strip (ps_phase f) = ps_phase f"
    using f_strip by (cases f; simp add: strip_proposal_step_def)+
  have strip: "strip_plan ?p = ?p"
    using d id f_str by (simp add: strip_plan_iff comp_def strip_step_of_proposal cong: map_cong)
  have fields: "plan_fields_ok ?p"
    using d id ver f_ok
    by (auto simp: plan_fields_ok_def list_all_iff step_of_proposal_ok bounded_option_def
        proposal_step_ok_def)
  have front: "frontier_ok (pl_current ?p) (pl_steps ?p)"
    by (auto simp: steps step_of_proposal_def live_step_def fresh_step_def list_all_iff)
  have "\<forall>s \<in> set (pl_steps ?p). st_id s = ps_id f \<longrightarrow> st_phase s = ps_phase f"
    using dist steps by (auto simp: step_of_proposal_def image_iff)
  with strip fields layout front show ?thesis unfolding plan_inv_def by simp
qed

lemma materialize_outcome:
  assumes v: "validate_proposal raw = Inr q" and id: "bounded_string 128 i" "py_strip i = i"
    and ver: "1 \<le> ver"
  shows "if materializable q available lobby
    then \<exists>p. materialize_activity_plan q i ver available lobby = Inr p \<and> plan_inv p \<and>
           pl_steps p = map step_of_proposal (pp_steps q) \<and> pl_status p = P_active \<and>
           pl_current p = Some (ps_id (hd (pp_steps q))) \<and> plan_work p \<le> 13
    else \<exists>e. materialize_activity_plan q i ver available lobby = Inl e"
proof -
  note d = validate_proposalD[OF v]
  note b = steps_layout_bounds[OF d(3)]
  from b(1) obtain f rest where steps: "pp_steps q = f # rest"
    by (cases "pp_steps q") (auto simp: executable_count_def)
  note inv = materialized_plan_inv[OF v id ver steps]
  have work: "length (pp_steps q) + executable_count (map ps_skill (pp_steps q)) \<le> 13"
    using b by simp
  let ?ex = "filter (\<lambda>s. ps_skill s \<noteq> None) (pp_steps q)"
  have m1: "(filter (\<lambda>s. ps_schema s = None \<or>
        (the (ps_skill s), the (ps_schema s)) \<notin> available) ?ex = []) =
      (\<forall>s \<in> set (pp_steps q). ps_skill s \<noteq> None \<longrightarrow>
         ps_schema s \<noteq> None \<and> (the (ps_skill s), the (ps_schema s)) \<in> available)"
    by (auto simp: filter_empty_conv)
  have m2: "(case ?ex of [] \<Rightarrow> False
      | s # _ \<Rightarrow> ps_skill s = Some ''scene_tornado'' \<and> ps_schema s = Some ''v1'') =
      (\<not> (?ex = [] \<or> ps_skill (hd ?ex) \<noteq> Some ''scene_tornado'' \<or>
        ps_schema (hd ?ex) \<noteq> Some ''v1''))"
    by (cases ?ex) simp_all
  have mat: "materializable q available lobby \<longleftrightarrow>
      filter (\<lambda>s. ps_schema s = None \<or> (the (ps_skill s), the (ps_schema s)) \<notin> available) ?ex = [] \<and>
      (lobby \<longrightarrow> \<not> (?ex = [] \<or> ps_skill (hd ?ex) \<noteq> Some ''scene_tornado'' \<or>
        ps_schema (hd ?ex) \<noteq> Some ''v1''))"
    unfolding materializable_def m1 m2 ..
  show ?thesis
  proof (cases "materializable q available lobby")
    case True
    then have "materialize_activity_plan q i ver available lobby =
      Inr \<lparr>pl_id = i, pl_goal_id = pp_goal_id q, pl_goal_summary = pp_goal_summary q,
        pl_phase = ps_phase f, pl_status = P_active, pl_version = ver, pl_current = Some (ps_id f),
        pl_steps = map step_of_proposal (pp_steps q)\<rparr>"
      using mat plan_inv_loadable[OF inv]
      unfolding materialize_activity_plan_def Let_def by (simp add: steps)
    with True inv work show ?thesis
      by (auto simp: plan_work_def work_of_proposal_steps[unfolded map_map] steps
          step_work_of_proposal executable_count_def)
  next
    case False
    with mat show ?thesis unfolding materialize_activity_plan_def Let_def by auto
  qed
qed

section \<open>Properties\<close>

definition sample_proposal :: plan_proposal where
  "sample_proposal =
     \<lparr>pp_goal_id = ''g'', pp_goal_summary = ''see the plaza'',
      pp_steps =
        [\<lparr>ps_id = ''a'', ps_phase = ''arrival'', ps_skill = Some ''scene_tornado'',
          ps_schema = Some ''v1'', ps_target = None, ps_intent = ''enter''\<rparr>,
         \<lparr>ps_id = ''b'', ps_phase = ''walk'', ps_skill = Some ''move_to'',
          ps_schema = Some ''v1'', ps_target = Some ''t1'', ps_intent = ''walk''\<rparr>,
         \<lparr>ps_id = ''c'', ps_phase = ''activity'', ps_skill = Some ''dance_auto_schedule'',
          ps_schema = Some ''v1'', ps_target = None, ps_intent = ''dance''\<rparr>,
         \<lparr>ps_id = ''d'', ps_phase = ''social'', ps_skill = None,
          ps_schema = None, ps_target = None, ps_intent = ''chat''\<rparr>]\<rparr>"

definition sample_skills :: "(string \<times> string) set" where
  "sample_skills = {(''scene_tornado'', ''v1''), (''move_to'', ''v1''), (''dance_auto_schedule'', ''v1'')}"

definition sample_plan :: activity_plan where
  "sample_plan = projr (materialize_activity_plan sample_proposal ''p1'' 1 sample_skills True)"

lemma sample_plan_inv: "plan_inv sample_plan"
  by code_simp

lemma sample_proposal_valid: "validate_proposal sample_proposal = Inr sample_proposal"
  by code_simp



text \<open>
  What \<open>materialize_activity_plan\<close> returns.  For every proposal the model accepted, every
  well-formed plan id and every positive version, it fails exactly when an executable step names a
  skill outside the available ones or, in the lobby, the first executable step is not
  \<open>scene_tornado:v1\<close>; otherwise it returns an active live plan with the proposal's steps in order,
  no attempt spent, pointing at the first step, and at most 13 units of work.
\<close>

theorem materialize_exactly_when_available:
  assumes "validate_proposal raw = Inr q" and "bounded_string 128 i" and "py_strip i = i" and "1 \<le> ver"
  shows "if materializable q available lobby
    then \<exists>p. materialize_activity_plan q i ver available lobby = Inr p \<and> plan_inv p \<and>
           pl_steps p = map step_of_proposal (pp_steps q) \<and> pl_status p = P_active \<and>
           pl_current p = Some (ps_id (hd (pp_steps q))) \<and> plan_work p \<le> 13
    else \<exists>e. materialize_activity_plan q i ver available lobby = Inl e"
  by (rule materialize_outcome[OF assms])

theorem materialize_exactly_when_available_witness:
  "\<exists>p. materialize_activity_plan sample_proposal ''p1'' 1 sample_skills True = Inr p \<and> plan_inv p \<and>
     pl_current p = Some ''a'' \<and> plan_work p \<le> 13"
proof -
  have "bounded_string 128 ''p1''" "py_strip ''p1'' = ''p1''" by code_simp+
  from materialize_exactly_when_available[OF sample_proposal_valid this, of 1 sample_skills True]
  show ?thesis
    by (auto simp: materializable_def sample_proposal_def sample_skills_def split: if_splits)
qed

text \<open>
  C30: a materialized plan ends.  Whatever its skills report (success, retryable failure, corrected
  failure, plain failure), a plan built from an accepted proposal is completed, with every step
  succeeded or skipped, after at most 13 ends of its current step: no retry policy keeps it on a step
  forever and no report is refused on the way.
\<close>

theorem materialized_plan_completes:
  assumes "validate_proposal raw = Inr q" and "bounded_string 128 i" and "py_strip i = i" and "1 \<le> ver"
    and "materializable q available lobby" and "13 \<le> length rs"
  shows "\<exists>p p'. materialize_activity_plan q i ver available lobby = Inr p \<and> run_ends rs p = Inr p' \<and>
    pl_status p' = P_completed \<and> pl_current p' = None \<and> list_all finished_step (pl_steps p')"
proof -
  from materialize_outcome[OF assms(1-4), of available lobby] assms(5) obtain p where
    p: "materialize_activity_plan q i ver available lobby = Inr p" "plan_inv p" "plan_work p \<le> 13"
    by auto
  with run_ends_completes[of p rs] assms(6) obtain p' where
    p': "run_ends rs p = Inr p'" "plan_inv p'" "pl_status p' = P_completed" by auto
  then have "pl_current p' = None \<and> list_all finished_step (pl_steps p')"
    by (auto simp: plan_inv_def split: option.splits)
  with p p' show ?thesis by blast
qed

theorem materialized_plan_completes_witness:
  "\<exists>p p'. materialize_activity_plan sample_proposal ''p1'' 1 sample_skills True = Inr p \<and>
     run_ends (replicate 13 (False, True, False)) p = Inr p' \<and> pl_status p' = P_completed"
proof -
  have s: "bounded_string 128 ''p1''" "py_strip ''p1'' = ''p1''" by code_simp+
  have m: "materializable sample_proposal sample_skills True"
    by (simp add: materializable_def sample_proposal_def sample_skills_def)
  show ?thesis
    using materialized_plan_completes[OF sample_proposal_valid s _ m,
      of 1 "replicate 13 (False, True, False)"] by auto
qed

lemma invalidate_split:
  assumes "pl_current p = Some (st_id s)" and "pl_steps p = a @ s # b"
    and "st_id s \<notin> set (map st_id a)" and "st_id s \<notin> set (map st_id b)"
  shows "current_step p = Inr s"
    and "st_skill s = Some ''move_to'' \<Longrightarrow> invalidate_move_target p (st_id s) =
      Inr (p\<lparr>pl_steps := a @ s\<lparr>st_target := None, st_status := St_pending,
        st_attempts := min (st_attempts s + 1) (st_max_attempts s)\<rparr> # b\<rparr>)"
    and "st_skill s \<noteq> None \<Longrightarrow> st_status s = St_pending \<Longrightarrow> record_step_started p (st_id s) =
      Inr (p\<lparr>pl_steps := a @ s\<lparr>st_status := St_started, st_attempts := st_attempts s + 1\<rparr> # b\<rparr>)"
proof -
  have "find (\<lambda>q. st_id q = st_id s) (pl_steps p) = Some s"
    by (rule find_unique) (use assms in \<open>auto simp: image_iff\<close>)
  then show cur: "current_step p = Inr s" using assms by (simp add: current_step_def plan_step_of_def)
  have rep: "replace_step p q = a @ q # b" if "st_id q = st_id s" for q
    by (rule replace_step_split) (use assms that in auto)
  show "st_skill s = Some ''move_to'' \<Longrightarrow> invalidate_move_target p (st_id s) =
      Inr (p\<lparr>pl_steps := a @ s\<lparr>st_target := None, st_status := St_pending,
        st_attempts := min (st_attempts s + 1) (st_max_attempts s)\<rparr> # b\<rparr>)"
    by (simp add: invalidate_move_target_def cur rep)
  show "st_skill s \<noteq> None \<Longrightarrow> st_status s = St_pending \<Longrightarrow> record_step_started p (st_id s) =
      Inr (p\<lparr>pl_steps := a @ s\<lparr>st_status := St_started, st_attempts := st_attempts s + 1\<rparr> # b\<rparr>)"
    by (simp add: record_step_started_def cur rep next_attempts_def)
qed

lemma overspent_step_rejected:
  assumes "s \<in> set (pl_steps p)" and "st_attempts s > st_max_attempts s"
  shows "\<exists>e. validate_activity_plan p = Inl e"
proof -
  have "validate_action_identity (strip_step s) \<noteq> None"
    using assms(2) by (auto simp: validate_action_identity_def strip_step_def split: option.splits)
  with assms(1) have "\<not> plan_fields_ok (strip_plan p)"
    by (auto simp: plan_fields_ok_def strip_plan_def list_all_iff)
  then show ?thesis by (simp add: validate_activity_plan_def)
qed

text \<open>
  Two target rejections poison a movement step.  When the target of the current \<open>move_to\<close> step
  of a live plan is rejected twice, \<open>invalidate_move_target\<close> leaves the step pending with every
  attempt spent; the start of the skill that follows is still recorded, but the recorded plan
  exceeds \<open>maxAttempts\<close>, so the next \<open>validate_activity_plan\<close> refuses to load it.
\<close>

theorem two_target_rejections_poison_plan:
  assumes inv: "plan_inv p" and cur: "pl_current p = Some i" "current_step p = Inr s"
    and move: "st_skill s = Some ''move_to''"
  shows "\<exists>p1 p2 p3 e. invalidate_move_target p i = Inr p1 \<and> invalidate_move_target p1 i = Inr p2 \<and>
    record_step_started p2 i = Inr p3 \<and> validate_activity_plan p3 = Inl e"
proof -
  from plan_invE[OF inv cur(1)] cur(2) obtain a b where d: "pl_steps p = a @ s # b" "st_id s = i"
    "i \<notin> set (map st_id a)" "i \<notin> set (map st_id b)" by (metis sum.inject(2))
  have "s \<in> set (pl_steps p)" using d by simp
  from plan_inv_step_facts(2)[OF inv this]
  have m: "1 \<le> st_max_attempts s" "st_max_attempts s \<le> 2" "0 \<le> st_attempts s"
    by (auto simp: step_fields_ok_def)
  define s1 where "s1 = s\<lparr>st_target := None, st_status := St_pending,
    st_attempts := min (st_attempts s + 1) (st_max_attempts s)\<rparr>"
  define s2 where "s2 = s1\<lparr>st_target := None, st_status := St_pending,
    st_attempts := min (st_attempts s1 + 1) (st_max_attempts s1)\<rparr>"
  define s3 where "s3 = s2\<lparr>st_status := St_started, st_attempts := st_attempts s2 + 1\<rparr>"
  define p1 where "p1 = p\<lparr>pl_steps := a @ s1 # b\<rparr>"
  define p2 where "p2 = p1\<lparr>pl_steps := a @ s2 # b\<rparr>"
  define p3 where "p3 = p2\<lparr>pl_steps := a @ s3 # b\<rparr>"
  have 1: "invalidate_move_target p i = Inr p1"
    using invalidate_split(2)[of p s a b] d cur(1) move by (simp add: p1_def s1_def)
  have 2: "invalidate_move_target p1 i = Inr p2"
    using invalidate_split(2)[of p1 s1 a b] d cur(1) move by (simp add: p1_def p2_def s1_def s2_def)
  have 3: "record_step_started p2 i = Inr p3"
    using invalidate_split(3)[of p2 s2 a b] d cur(1) move
    by (simp add: p1_def p2_def p3_def s1_def s2_def s3_def)
  have "st_attempts s3 > st_max_attempts s3" using m by (simp add: s3_def s2_def s1_def min_def)
  then have "\<exists>e. validate_activity_plan p3 = Inl e"
    by (intro overspent_step_rejected[of s3]) (simp add: p3_def)
  with 1 2 3 show ?thesis by blast
qed

theorem two_target_rejections_poison_plan_witness:
  "\<exists>p p1 p2 p3 e. record_step_terminal sample_plan ''a'' True False False = Inr p \<and>
     invalidate_move_target p ''b'' = Inr p1 \<and> invalidate_move_target p1 ''b'' = Inr p2 \<and>
     record_step_started p2 ''b'' = Inr p3 \<and> validate_activity_plan p3 = Inl e"
proof -
  have r: "record_step_terminal sample_plan ''a'' True False False =
      Inr (projr (record_step_terminal sample_plan ''a'' True False False))" (is "_ = Inr ?p")
    by (rule Inr_projr) code_simp
  have inv: "plan_inv ?p" by (rule plan_inv_terminal[OF sample_plan_inv r])
  have cur: "pl_current ?p = Some ''b''" by code_simp
  have step: "current_step ?p = Inr (projr (current_step ?p))" by (rule Inr_projr) code_simp
  have move: "st_skill (projr (current_step ?p)) = Some ''move_to''" by code_simp
  from two_target_rejections_poison_plan[OF inv cur step move] r show ?thesis by blast
qed

end
