(* ===== verification/Schema.thy ===== *)
theory Schema
  imports ActivityPlan
begin

text \<open>
  The gateway tables (\<open>alembic/versions/008\<close>, \<open>009\<close>, \<open>013\<close>, \<open>014\<close>, \<open>016\<close>) and the wire events the
  repositories store in them (\<open>contracts.py\<close>).

  The column \<open>updated_at\<close>, which the modelled statements only write, has no field.  The
  four columns of a claim (\<open>claim_token\<close>, \<open>claimed_fence_version\<close>, \<open>lock_until\<close>, \<open>locked_by\<close>) are
  one record, since events and decisions both have them and every statement writes them together.
  A UUID is a number, and \<open>uuid4()\<close> and \<open>gen_random_uuid()\<close> draw the next unused one from the
  database record.  \<open>clock_timestamp()\<close> is a parameter of each transaction, in milliseconds.
\<close>

section \<open>Wire events\<close>

datatype event_type =
    Session_started
  | Observation_updated
  | Skill_started
  | Skill_finished
  | Decision_rejected
  | Session_stopped
  | Chat_received
  | Nearby_friend_chat_requested
  | Chat_send_result

datatype skill_terminal =
    T_success
  | T_failed string string bool
  | T_cancelled string bool
  | T_timeout string bool

datatype decision_action = A_call_skill | A_wait | A_no_op | A_stop_hosting

datatype event_payload =
    Started_session string
  | Observation "string option"
  | Started_skill string string string
  | Finished_skill string string string skill_terminal
  | Rejected_decision string decision_action "string option" string
  | Stopped_session string
  | Chat_in json
  | Chat_nearby json
  | Chat_result json

text \<open>
  \<open>Started_skill\<close> and \<open>Finished_skill\<close> carry decision id, skill call id and skill name;
  \<open>Rejected_decision\<close> carries decision id, action, skill name and reason.  The three hosted chat
  events have no generation and no sequence on the wire: nothing below reads the two fields of
  such an event.
\<close>

record gateway_event =
  ev_id :: string
  ev_session :: string
  ev_generation :: int
  ev_sequence :: int
  ev_state_version :: int
  ev_lease :: "string option"
  ev_occurred_at :: msec
  ev_payload :: event_payload

fun payload_type :: "event_payload \<Rightarrow> event_type" where
  "payload_type (Started_session _) = Session_started"
| "payload_type (Observation _) = Observation_updated"
| "payload_type (Started_skill _ _ _) = Skill_started"
| "payload_type (Finished_skill _ _ _ _) = Skill_finished"
| "payload_type (Rejected_decision _ _ _ _) = Decision_rejected"
| "payload_type (Stopped_session _) = Session_stopped"
| "payload_type (Chat_in _) = Chat_received"
| "payload_type (Chat_nearby _) = Nearby_friend_chat_requested"
| "payload_type (Chat_result _) = Chat_send_result"

definition ev_type :: "gateway_event \<Rightarrow> event_type" where
  "ev_type ev = payload_type (ev_payload ev)"

definition HOSTED_CHAT_EVENT_TYPES :: "event_type set" where
  "HOSTED_CHAT_EVENT_TYPES = {Chat_received, Nearby_friend_chat_requested, Chat_send_result}"

definition CONVERGENCE_EVENT_TYPES :: "event_type set" where
  "CONVERGENCE_EVENT_TYPES = {Skill_started, Skill_finished, Decision_rejected}"

section \<open>Rows\<close>

record claim =
  cl_token :: "uuid option"
  cl_fence :: "int option"
  cl_lock_until :: "msec option"
  cl_locked_by :: "string option"

definition no_claim :: claim where
  "no_claim = \<lparr>cl_token = None, cl_fence = None, cl_lock_until = None, cl_locked_by = None\<rparr>"

datatype session_status = S_pending | S_active | S_stopped | S_manual

record session_row =
  s_id :: uuid
  s_tenant :: uuid
  s_gateway :: string
  s_session :: string
  s_gen :: "int option"
  s_fence :: int
  s_status :: session_status
  s_last_event_at :: msec

datatype cycle_status = C_pending | C_active | C_stopped | C_superseded | C_manual

text \<open>The columns migration 013 adds to a cycle.\<close>

record activity_columns =
  ac_plan :: "activity_plan option"
  ac_version :: int
  ac_last_event :: "uuid option"
  ac_last_sequence :: "int option"

definition no_activity :: activity_columns where
  "no_activity = \<lparr>ac_plan = None, ac_version = 0, ac_last_event = None, ac_last_sequence = None\<rparr>"

record cycle_row =
  c_id :: uuid
  c_tenant :: uuid
  c_runtime :: uuid
  c_gateway :: string
  c_session :: string
  c_gen :: int
  c_status :: cycle_status
  c_next :: int
  c_state_version :: "int option"
  c_lease :: "string option"
  c_context :: "json option"
  c_activity :: activity_columns
  c_started_at :: "msec option"
  c_stopped_at :: "msec option"

datatype event_status =
    E_pending | E_processing | E_succeeded | E_retryable_failed | E_dead_letter | E_manual
  | E_superseded

record event_row =
  e_id :: uuid
  e_tenant :: uuid
  e_cycle :: uuid
  e_gateway :: string
  e_session :: string
  e_event_id :: string
  e_type :: event_type
  e_gen :: int
  e_seq :: int
  e_hash :: string
  e_body :: gateway_event
  e_trace :: string
  e_status :: event_status
  e_attempts :: int
  e_next_at :: msec
  e_claim :: claim
  e_error :: "string option \<times> string option"
  e_received_at :: msec
  e_started_at :: "msec option"
  e_completed_at :: "msec option"

text \<open>\<open>e_error\<close> and \<open>d_error\<close> are the columns \<open>error_stage\<close> and \<open>error_category\<close>.\<close>

datatype decision_status =
    D_planned | D_sending | D_accepted | D_rejected | D_retryable_failed | D_dead_letter
  | D_cancelled | D_manual

record decision_response =
  rs_http_status :: "int option"
  rs_status :: "string option"
  rs_reason :: "string option"
  rs_body :: "json option"
  rs_call_id :: "string option"

definition no_response :: decision_response where
  "no_response = \<lparr>rs_http_status = None, rs_status = None, rs_reason = None, rs_body = None,
     rs_call_id = None\<rparr>"

record activity_binding =
  ab_plan_id :: string
  ab_version :: int
  ab_step_id :: string
  ab_phase :: string

record capacity_reservation =
  cr_key :: string
  cr_limit :: int
  cr_expires_at :: msec

text \<open>Check constraint 014: the capacity columns are all null or all set.\<close>

text \<open>The columns migration 015 adds to a decision.\<close>

record decision_usage =
  du_input :: "int option"
  du_output :: "int option"
  du_total :: "int option"
  du_calls :: "int option"
  du_reported :: "int option"
  du_missing :: "int option"

definition no_usage :: decision_usage where
  "no_usage = \<lparr>du_input = None, du_output = None, du_total = None, du_calls = None,
     du_reported = None, du_missing = None\<rparr>"

record decision_row =
  d_id :: uuid
  d_tenant :: uuid
  d_cycle :: uuid
  d_source :: uuid
  d_tracking :: "uuid option"
  d_gateway :: string
  d_session :: string
  d_decision_id :: string
  d_lease :: string
  d_gen :: int
  d_state_version :: int
  d_lease_expires :: "msec option"
  d_action :: decision_action
  d_body :: json
  d_bytes :: string
  d_hash :: string
  d_status :: decision_status
  d_attempts :: int
  d_next_at :: msec
  d_claim :: claim
  d_response :: decision_response
  d_error :: "string option \<times> string option"
  d_binding :: "activity_binding option"
  d_capacity :: "capacity_reservation option"
  d_usage :: decision_usage
  d_created_at :: msec
  d_sent_at :: "msec option"
  d_completed_at :: "msec option"

datatype call_status =
    K_pending | K_started | K_succeeded | K_failed | K_cancelled | K_timeout | K_manual

datatype effect_status = Eff_not_applicable | Eff_pending | Eff_applied | Eff_manual

record call_row =
  k_id :: uuid
  k_tenant :: uuid
  k_decision :: uuid
  k_terminal_event :: "uuid option"
  k_gateway :: string
  k_session :: string
  k_decision_id :: string
  k_call_id :: string
  k_skill :: string
  k_status :: call_status
  k_failure :: "string option"
  k_reason :: "string option"
  k_retryable :: "bool option"
  k_effect :: effect_status
  k_effect_at :: "msec option"
  k_created_at :: msec
  k_started_at :: "msec option"
  k_completed_at :: "msec option"

datatype tracking_status = Tr_tracking | Tr_completed | Tr_timeout | Tr_abandoned

record tracking_row =
  t_id :: uuid
  t_tenant :: uuid
  t_user :: string
  t_type :: string
  t_status :: tracking_status
  t_completed_at :: "msec option"

record db =
  sessions :: "session_row list"
  cycles :: "cycle_row list"
  events :: "event_row list"
  decisions :: "decision_row list"
  calls :: "call_row list"
  trackings :: "tracking_row list"
  next_uuid :: uuid

definition empty_db :: db where
  "empty_db = \<lparr>sessions = [], cycles = [], events = [], decisions = [], calls = [], trackings = [],
     next_uuid = 0\<rparr>"

definition draw_uuid :: "db \<Rightarrow> uuid \<times> db" where
  "draw_uuid s = (next_uuid s, s\<lparr>next_uuid := Suc (next_uuid s)\<rparr>)"

section \<open>Open and closed statuses\<close>

definition open_event :: "event_status \<Rightarrow> bool" where
  "open_event st \<longleftrightarrow> st \<in> {E_pending, E_processing, E_retryable_failed}"

definition open_decision :: "decision_status \<Rightarrow> bool" where
  "open_decision st \<longleftrightarrow> st \<in> {D_planned, D_sending, D_retryable_failed}"

definition open_call :: "call_status \<Rightarrow> bool" where
  "open_call st \<longleftrightarrow> st \<in> {K_pending, K_started}"

lemma open_event_simps [simp]:
  "open_event E_pending" "open_event E_processing" "open_event E_retryable_failed"
  "\<not> open_event E_succeeded" "\<not> open_event E_dead_letter" "\<not> open_event E_manual"
  "\<not> open_event E_superseded"
  by (simp_all add: open_event_def)

lemma open_decision_simps [simp]:
  "open_decision D_planned" "open_decision D_sending" "open_decision D_retryable_failed"
  "\<not> open_decision D_accepted" "\<not> open_decision D_rejected" "\<not> open_decision D_dead_letter"
  "\<not> open_decision D_cancelled" "\<not> open_decision D_manual"
  by (simp_all add: open_decision_def)

lemma open_call_simps [simp]:
  "open_call K_pending" "open_call K_started" "\<not> open_call K_succeeded" "\<not> open_call K_failed"
  "\<not> open_call K_cancelled" "\<not> open_call K_timeout" "\<not> open_call K_manual"
  by (simp_all add: open_call_def)
end
