(* ===== verification/RowOrders.thy ===== *)
theory RowOrders
  imports Schema
begin

text \<open>
  How the rows of each table may change, whatever operation ran: the identity of a row never
  changes, counters never go back, and a closed event, decision or skill call is never reopened.  Each order is reflexive and
  transitive, so the locale \<open>row_order\<close> is interpreted on it; \<open>db_le\<close> puts the tables together.
  Every operation of the repositories is later shown to move the database along \<open>db_le\<close>.
\<close>

definition session_le :: "session_row \<Rightarrow> session_row \<Rightarrow> bool" where
  "session_le r q \<longleftrightarrow> s_id q = s_id r \<and> s_tenant q = s_tenant r \<and> s_gateway q = s_gateway r \<and>
     s_session q = s_session r \<and> s_fence r \<le> s_fence q \<and>
     (\<forall>g. s_gen r = Some g \<longrightarrow> (\<exists>h. s_gen q = Some h \<and> g \<le> h))"

text \<open>
  The plan of a cycle: a plan that no longer loads stays as it is; the version column agrees with the
  plan and never goes back; nor does the sequence of the last event written.
\<close>

definition poisoned :: "activity_columns \<Rightarrow> bool" where
  "poisoned a \<longleftrightarrow> (case ac_plan a of None \<Rightarrow> False | Some p \<Rightarrow> isl (validate_activity_plan p))"

definition version_kept :: "activity_columns \<Rightarrow> bool" where
  "version_kept a \<longleftrightarrow> (case ac_plan a of None \<Rightarrow> True | Some p \<Rightarrow> ac_version a = pl_version p)"

definition activity_le :: "activity_columns \<Rightarrow> activity_columns \<Rightarrow> bool" where
  "activity_le a b \<longleftrightarrow> (poisoned a \<longrightarrow> ac_plan b = ac_plan a) \<and>
     (version_kept a \<longrightarrow> version_kept b \<and> ac_version a \<le> ac_version b) \<and>
     (\<forall>n. ac_last_sequence a = Some n \<longrightarrow> (\<exists>m. ac_last_sequence b = Some m \<and> n \<le> m))"

lemma activity_le_refl [simp]: "activity_le a a"
  by (simp add: activity_le_def)

lemma activity_le_trans: "activity_le a b \<Longrightarrow> activity_le b c \<Longrightarrow> activity_le a c"
  unfolding activity_le_def by (auto simp: poisoned_def)

lemma version_kept_no_activity [simp]: "version_kept no_activity"
  by (simp add: version_kept_def no_activity_def)

definition cycle_le :: "cycle_row \<Rightarrow> cycle_row \<Rightarrow> bool" where
  "cycle_le r q \<longleftrightarrow> c_id q = c_id r \<and> c_tenant q = c_tenant r \<and> c_runtime q = c_runtime r \<and>
     c_gateway q = c_gateway r \<and> c_session q = c_session r \<and> c_gen q = c_gen r \<and>
     c_next r \<le> c_next q \<and> (c_status r \<noteq> C_pending \<longrightarrow> c_status q \<noteq> C_pending) \<and>
     activity_le (c_activity r) (c_activity q)"

definition event_le :: "event_row \<Rightarrow> event_row \<Rightarrow> bool" where
  "event_le r q \<longleftrightarrow> e_id q = e_id r \<and> e_tenant q = e_tenant r \<and> e_cycle q = e_cycle r \<and>
     e_gateway q = e_gateway r \<and> e_session q = e_session r \<and> e_event_id q = e_event_id r \<and>
     e_type q = e_type r \<and> e_gen q = e_gen r \<and> e_seq q = e_seq r \<and> e_hash q = e_hash r \<and>
     e_body q = e_body r \<and> e_trace q = e_trace r \<and> e_received_at q = e_received_at r \<and>
     e_attempts r \<le> e_attempts q \<and> (\<not> open_event (e_status r) \<longrightarrow> e_status q = e_status r)"

definition decision_le :: "decision_row \<Rightarrow> decision_row \<Rightarrow> bool" where
  "decision_le r q \<longleftrightarrow> d_id q = d_id r \<and> d_tenant q = d_tenant r \<and> d_cycle q = d_cycle r \<and>
     d_source q = d_source r \<and> d_tracking q = d_tracking r \<and> d_gateway q = d_gateway r \<and>
     d_session q = d_session r \<and> d_decision_id q = d_decision_id r \<and> d_lease q = d_lease r \<and>
     d_gen q = d_gen r \<and> d_state_version q = d_state_version r \<and>
     d_lease_expires q = d_lease_expires r \<and> d_action q = d_action r \<and> d_body q = d_body r \<and>
     d_bytes q = d_bytes r \<and> d_hash q = d_hash r \<and> d_binding q = d_binding r \<and>
     d_capacity q = d_capacity r \<and> d_created_at q = d_created_at r \<and>
     d_attempts r \<le> d_attempts q \<and>
     (\<not> open_decision (d_status r) \<longrightarrow> \<not> open_decision (d_status q) \<and> d_attempts q = d_attempts r) \<and>
     (d_status r = D_manual \<longrightarrow> d_status q = D_manual) \<and>
     (d_attempts q = d_attempts r \<and> d_status q = D_sending \<longrightarrow> d_status r = D_sending)"

definition call_le :: "call_row \<Rightarrow> call_row \<Rightarrow> bool" where
  "call_le r q \<longleftrightarrow> k_id q = k_id r \<and> k_tenant q = k_tenant r \<and> k_decision q = k_decision r \<and>
     k_gateway q = k_gateway r \<and> k_session q = k_session r \<and> k_decision_id q = k_decision_id r \<and>
     k_call_id q = k_call_id r \<and> k_skill q = k_skill r \<and> k_created_at q = k_created_at r \<and>
     (k_status r = K_started \<longrightarrow> k_status q \<noteq> K_pending) \<and>
     (\<not> open_call (k_status r) \<longrightarrow> k_status q = k_status r \<or> k_status q = K_manual)"

definition tracking_le :: "tracking_row \<Rightarrow> tracking_row \<Rightarrow> bool" where
  "tracking_le r q \<longleftrightarrow> t_id q = t_id r \<and> t_tenant q = t_tenant r \<and> t_user q = t_user r \<and>
     t_type q = t_type r \<and> (t_status r \<noteq> Tr_tracking \<longrightarrow> q = r)"

lemmas row_les = session_le_def cycle_le_def event_le_def decision_le_def call_le_def tracking_le_def

interpretation session_rows: row_order session_le
proof
  show "session_le r r" for r
    by (simp add: session_le_def)
  show "session_le r p" if "session_le r q" "session_le q p" for r q p
    using that unfolding session_le_def by (metis order_trans)
qed

interpretation cycle_rows: row_order cycle_le
  by unfold_locales (auto simp: cycle_le_def intro: activity_le_trans)

interpretation event_rows: row_order event_le
  by unfold_locales (auto simp: event_le_def)

text \<open>The order of decisions, split into what never changes and what moves.\<close>

definition decision_moves :: "decision_row \<Rightarrow> decision_row \<Rightarrow> bool" where
  "decision_moves r q \<longleftrightarrow> d_attempts r \<le> d_attempts q \<and>
     (\<not> open_decision (d_status r) \<longrightarrow> \<not> open_decision (d_status q) \<and> d_attempts q = d_attempts r) \<and>
     (d_status r = D_manual \<longrightarrow> d_status q = D_manual) \<and>
     (d_attempts q = d_attempts r \<and> d_status q = D_sending \<longrightarrow> d_status r = D_sending)"

definition decision_identity where
  "decision_identity d = (d_id d, d_tenant d, d_cycle d, d_source d, d_tracking d, d_gateway d, d_session d,
     d_decision_id d, d_lease d, d_gen d, d_state_version d, d_lease_expires d, d_action d, d_body d,
     d_bytes d, d_hash d, d_binding d, d_capacity d, d_created_at d)"

lemma decision_le_split:
  "decision_le r q \<longleftrightarrow> decision_identity q = decision_identity r \<and> decision_moves r q"
  by (simp only: decision_le_def decision_identity_def decision_moves_def prod.inject conj_assoc)

lemma decision_moves_trans: "decision_moves r q \<Longrightarrow> decision_moves q p \<Longrightarrow> decision_moves r p"
  unfolding decision_moves_def by (elim conjE) (intro conjI impI; linarith | metis order_antisym order_trans)

interpretation decision_rows: row_order decision_le
proof
  show "decision_le r r" for r
    by (simp add: decision_le_split decision_moves_def)
  show "decision_le r p" if "decision_le r q" "decision_le q p" for r q p
    using that decision_moves_trans by (auto simp: decision_le_split)
qed

interpretation call_rows: row_order call_le
  by unfold_locales (auto simp: call_le_def open_call_def)

interpretation tracking_rows: row_order tracking_le
  by unfold_locales (auto simp: tracking_le_def)

text \<open>
  The claims in force: which row is held under which token.  A transaction may drop claims; a new one
  is under a token it drew itself.
\<close>

definition claims_of :: "('r \<Rightarrow> uuid) \<Rightarrow> ('r \<Rightarrow> claim) \<Rightarrow> 'r list \<Rightarrow> (uuid \<times> uuid) set" where
  "claims_of key cl t = {(key r, k) | r k. r \<in> set t \<and> cl_token (cl r) = Some k}"

definition event_claims :: "db \<Rightarrow> (uuid \<times> uuid) set" where
  "event_claims s = claims_of e_id e_claim (events s)"

definition decision_claims :: "db \<Rightarrow> (uuid \<times> uuid) set" where
  "decision_claims s = claims_of d_id d_claim (decisions s)"

definition db_le :: "db \<Rightarrow> db \<Rightarrow> bool" where
  "db_le s t \<longleftrightarrow> evolves session_le (sessions s) (sessions t) \<and> evolves cycle_le (cycles s) (cycles t) \<and>
     evolves event_le (events s) (events t) \<and> evolves decision_le (decisions s) (decisions t) \<and>
     evolves call_le (calls s) (calls t) \<and> evolves tracking_le (trackings s) (trackings t) \<and>
     next_uuid s \<le> next_uuid t \<and>
     event_claims t \<subseteq> event_claims s \<union> {(i, k). next_uuid s \<le> k \<and> k < next_uuid t} \<and>
     decision_claims t \<subseteq> decision_claims s \<union> {(i, k). next_uuid s \<le> k \<and> k < next_uuid t}"

lemmas evolves_refls = session_rows.evolves_refl cycle_rows.evolves_refl event_rows.evolves_refl
  decision_rows.evolves_refl call_rows.evolves_refl tracking_rows.evolves_refl

lemmas evolves_appends = session_rows.evolves_append cycle_rows.evolves_append
  event_rows.evolves_append decision_rows.evolves_append call_rows.evolves_append
  tracking_rows.evolves_append

lemma db_le_refl [simp]: "db_le s s"
  by (simp add: db_le_def evolves_refls)

lemma db_le_trans:
  assumes "db_le s t" and "db_le t u"
  shows "db_le s u"
proof -
  have n: "next_uuid s \<le> next_uuid t" "next_uuid t \<le> next_uuid u"
    using assms by (simp_all add: db_le_def)
  have mono: "{(i, k). next_uuid t \<le> k \<and> k < next_uuid u} \<union> {(i, k). next_uuid s \<le> k \<and> k < next_uuid t}
      \<subseteq> {(i :: uuid, k). next_uuid s \<le> k \<and> k < next_uuid u}"
    using n by auto
  have "event_claims u \<subseteq> event_claims s \<union> {(i, k). next_uuid s \<le> k \<and> k < next_uuid u}"
    "decision_claims u \<subseteq> decision_claims s \<union> {(i, k). next_uuid s \<le> k \<and> k < next_uuid u}"
    using assms mono unfolding db_le_def by blast+
  with assms show ?thesis
    unfolding db_le_def
    by (meson session_rows.evolves_trans cycle_rows.evolves_trans event_rows.evolves_trans
        decision_rows.evolves_trans call_rows.evolves_trans tracking_rows.evolves_trans order_trans)
qed

lemma claims_of_update:
  "(\<And>r. r \<in> set t \<Longrightarrow> P r \<Longrightarrow> key (f r) = key r \<and> cl_token (cl (f r)) \<in> {None, cl_token (cl r)}) \<Longrightarrow>
   claims_of key cl (update_where P f t) \<subseteq> claims_of key cl t"
  by (force simp: claims_of_def set_update_where split: if_splits)

section \<open>One statement at a time\<close>

lemma db_le_sessions:
  "(\<And>r. r \<in> set (sessions s) \<Longrightarrow> P r \<Longrightarrow> session_le r (f r)) \<Longrightarrow>
   db_le s (s\<lparr>sessions := update_where P f (sessions s)\<rparr>)"
  by (simp add: db_le_def evolves_refls session_rows.evolves_update_where event_claims_def
      decision_claims_def)

lemma db_le_cycles:
  "(\<And>r. r \<in> set (cycles s) \<Longrightarrow> P r \<Longrightarrow> cycle_le r (f r)) \<Longrightarrow>
   db_le s (s\<lparr>cycles := update_where P f (cycles s)\<rparr>)"
  by (simp add: db_le_def evolves_refls cycle_rows.evolves_update_where event_claims_def
      decision_claims_def)

lemma db_le_events:
  assumes "\<And>r. r \<in> set (events s) \<Longrightarrow> P r \<Longrightarrow>
    event_le r (f r) \<and> cl_token (e_claim (f r)) \<in> {None, cl_token (e_claim r)}"
  shows "db_le s (s\<lparr>events := update_where P f (events s)\<rparr>)"
proof -
  have "event_claims (s\<lparr>events := update_where P f (events s)\<rparr>) \<subseteq> event_claims s"
  proof -
    have "e_id (f r) = e_id r \<and> cl_token (e_claim (f r)) \<in> {None, cl_token (e_claim r)}"
      if "r \<in> set (events s)" "P r" for r
      using assms[OF that] by (simp add: event_le_def)
    then show ?thesis unfolding event_claims_def by (simp add: claims_of_update)
  qed
  with assms show ?thesis
    by (auto simp: db_le_def evolves_refls event_rows.evolves_update_where decision_claims_def)
qed

lemma db_le_decisions:
  assumes "\<And>r. r \<in> set (decisions s) \<Longrightarrow> P r \<Longrightarrow>
    decision_le r (f r) \<and> cl_token (d_claim (f r)) \<in> {None, cl_token (d_claim r)}"
  shows "db_le s (s\<lparr>decisions := update_where P f (decisions s)\<rparr>)"
proof -
  have "decision_claims (s\<lparr>decisions := update_where P f (decisions s)\<rparr>) \<subseteq> decision_claims s"
  proof -
    have "d_id (f r) = d_id r \<and> cl_token (d_claim (f r)) \<in> {None, cl_token (d_claim r)}"
      if "r \<in> set (decisions s)" "P r" for r
      using assms[OF that] by (simp add: decision_le_def)
    then show ?thesis unfolding decision_claims_def by (simp add: claims_of_update)
  qed
  with assms show ?thesis
    by (auto simp: db_le_def evolves_refls decision_rows.evolves_update_where event_claims_def)
qed

lemma db_le_calls:
  "(\<And>r. r \<in> set (calls s) \<Longrightarrow> P r \<Longrightarrow> call_le r (f r)) \<Longrightarrow>
   db_le s (s\<lparr>calls := update_where P f (calls s)\<rparr>)"
  by (simp add: db_le_def evolves_refls call_rows.evolves_update_where event_claims_def
      decision_claims_def)

lemma db_le_trackings:
  "(\<And>r. r \<in> set (trackings s) \<Longrightarrow> P r \<Longrightarrow> tracking_le r (f r)) \<Longrightarrow>
   db_le s (s\<lparr>trackings := update_where P f (trackings s)\<rparr>)"
  by (simp add: db_le_def evolves_refls tracking_rows.evolves_update_where event_claims_def
      decision_claims_def)

lemmas db_le_updates =
  db_le_sessions db_le_cycles db_le_events db_le_decisions db_le_calls db_le_trackings

lemma db_le_inserts:
  "db_le s (s\<lparr>sessions := sessions s @ ss\<rparr>)" "db_le s (s\<lparr>cycles := cycles s @ cs\<rparr>)"
  "(\<And>e. e \<in> set es \<Longrightarrow> e_claim e = no_claim) \<Longrightarrow> db_le s (s\<lparr>events := events s @ es\<rparr>)"
  "(\<And>d. d \<in> set ds \<Longrightarrow> d_claim d = no_claim) \<Longrightarrow> db_le s (s\<lparr>decisions := decisions s @ ds\<rparr>)"
  "db_le s (s\<lparr>calls := calls s @ ks\<rparr>)" "db_le s (s\<lparr>trackings := trackings s @ ts\<rparr>)"
  "db_le s (snd (draw_uuid s))"
  by (auto simp: db_le_def evolves_refls evolves_appends draw_uuid_def event_claims_def
      decision_claims_def claims_of_def no_claim_def)

section \<open>Keys\<close>

text \<open>
  The primary keys.  A statement that inserts no row and claims no decision keeps the shape of the
  database (the sizes of the tables and the attempts of the decisions), and then
  \<open>db_le\<close> keeps every key.
\<close>

definition id_lists :: "db \<Rightarrow> uuid list list" where
  "id_lists s = [map s_id (sessions s), map c_id (cycles s), map e_id (events s),
     map d_id (decisions s), map k_id (calls s), map t_id (trackings s)]"

definition keys_ok :: "db \<Rightarrow> bool" where
  "keys_ok s \<longleftrightarrow> (\<forall>ids \<in> set (id_lists s). distinct ids \<and> (\<forall>i \<in> set ids. i < next_uuid s))"

definition shape :: "db \<Rightarrow> nat list \<times> int list" where
  "shape s = ([length (sessions s), length (cycles s), length (events s), length (decisions s),
     length (calls s), length (trackings s), next_uuid s], map d_attempts (decisions s))"

lemma attempts_update_where [simp]:
  "(\<And>d. d_attempts (f d) = d_attempts d) \<Longrightarrow> map d_attempts (update_where P f t) = map d_attempts t"
  by (rule map_update_where)

lemma keys_ok_empty [simp]: "keys_ok empty_db"
  by (simp add: keys_ok_def empty_db_def id_lists_def)

definition ids_below :: "uuid \<Rightarrow> uuid list list \<Rightarrow> bool" where
  "ids_below n idss \<longleftrightarrow> list_all (\<lambda>ids. distinct ids \<and> list_all (\<lambda>i. i < n) ids) idss"

lemma keys_okI: "ids_below (next_uuid s) (id_lists s) \<Longrightarrow> keys_ok s"
  by (simp add: keys_ok_def ids_below_def list_all_iff)

lemma evolves_map_key:
  "evolves R t u \<Longrightarrow> length u = length t \<Longrightarrow> (\<And>r q. R r q \<Longrightarrow> key q = key r) \<Longrightarrow> map key u = map key t"
  by (auto simp: evolves_def list_eq_iff_nth_eq)

lemma id_lists_shape: "db_le s t \<Longrightarrow> shape t = shape s \<Longrightarrow> id_lists t = id_lists s"
  unfolding db_le_def shape_def id_lists_def list.inject prod.inject
  by (intro conjI; (elim conjE)?; (erule evolves_map_key)?) (simp_all add: row_les)

lemma keys_ok_shape: "db_le s t \<Longrightarrow> shape t = shape s \<Longrightarrow> keys_ok t = keys_ok s"
  using id_lists_shape[of s t] by (simp add: keys_ok_def shape_def)

lemma keys_distinct:
  assumes "keys_ok s"
  shows "distinct (map s_id (sessions s))" "distinct (map c_id (cycles s))"
    "distinct (map e_id (events s))" "distinct (map d_id (decisions s))"
    "distinct (map k_id (calls s))" "distinct (map t_id (trackings s))"
  using assms by (simp_all add: keys_ok_def id_lists_def)

lemma evolves_row_back:
  "evolves R t u \<Longrightarrow> length u = length t \<Longrightarrow> q \<in> set u \<Longrightarrow> \<exists>r \<in> set t. R r q"
  unfolding evolves_def in_set_conv_nth by (metis nth_mem)

section \<open>References and claims\<close>

text \<open>The foreign keys, with the columns the tables repeat.\<close>

definition refs_ok :: "db \<Rightarrow> bool" where
  "refs_ok s \<longleftrightarrow>
     (\<forall>c \<in> set (cycles s). \<exists>r \<in> set (sessions s). s_id r = c_runtime c \<and>
        s_gateway r = c_gateway c \<and> s_session r = c_session c) \<and>
     (\<forall>e \<in> set (events s). \<exists>c \<in> set (cycles s). c_id c = e_cycle e \<and> c_gateway c = e_gateway e \<and>
        c_session c = e_session e \<and> c_gen c = e_gen e) \<and>
     (\<forall>d \<in> set (decisions s). (\<exists>c \<in> set (cycles s). c_id c = d_cycle d) \<and>
        (\<exists>e \<in> set (events s). e_id e = d_source d)) \<and>
     (\<forall>k \<in> set (calls s). \<exists>d \<in> set (decisions s). d_id d = k_decision k)"

lemma refs_ok_empty [simp]: "refs_ok empty_db"
  by (simp add: refs_ok_def empty_db_def)

lemma db_le_rows:
  assumes "db_le s t"
  shows "r \<in> set (sessions s) \<Longrightarrow> \<exists>r' \<in> set (sessions t). session_le r r'"
    and "c \<in> set (cycles s) \<Longrightarrow> \<exists>c' \<in> set (cycles t). cycle_le c c'"
    and "e \<in> set (events s) \<Longrightarrow> \<exists>e' \<in> set (events t). event_le e e'"
    and "d \<in> set (decisions s) \<Longrightarrow> \<exists>d' \<in> set (decisions t). decision_le d d'"
    and "k \<in> set (calls s) \<Longrightarrow> \<exists>k' \<in> set (calls t). call_le k k'"
  using assms unfolding db_le_def
  by (blast dest: session_rows.evolves_row cycle_rows.evolves_row event_rows.evolves_row
      decision_rows.evolves_row call_rows.evolves_row)+

lemma db_le_rows_back:
  assumes "db_le s t" and "shape t = shape s"
  shows "r \<in> set (sessions t) \<Longrightarrow> \<exists>r' \<in> set (sessions s). session_le r' r"
    and "c \<in> set (cycles t) \<Longrightarrow> \<exists>c' \<in> set (cycles s). cycle_le c' c"
    and "e \<in> set (events t) \<Longrightarrow> \<exists>e' \<in> set (events s). event_le e' e"
    and "d \<in> set (decisions t) \<Longrightarrow> \<exists>d' \<in> set (decisions s). decision_le d' d"
    and "k \<in> set (calls t) \<Longrightarrow> \<exists>k' \<in> set (calls s). call_le k' k"
proof -
  have "evolves session_le (sessions s) (sessions t)" "evolves cycle_le (cycles s) (cycles t)"
    "evolves event_le (events s) (events t)" "evolves decision_le (decisions s) (decisions t)"
    "evolves call_le (calls s) (calls t)"
    using assms(1) by (simp_all add: db_le_def)
  note from_after = this[THEN evolves_row_back]
  have "length (sessions t) = length (sessions s)" "length (cycles t) = length (cycles s)"
    "length (events t) = length (events s)" "length (decisions t) = length (decisions s)"
    "length (calls t) = length (calls s)"
    using assms(2) by (simp_all add: shape_def)
  then show "r \<in> set (sessions t) \<Longrightarrow> \<exists>r' \<in> set (sessions s). session_le r' r"
    and "c \<in> set (cycles t) \<Longrightarrow> \<exists>c' \<in> set (cycles s). cycle_le c' c"
    and "e \<in> set (events t) \<Longrightarrow> \<exists>e' \<in> set (events s). event_le e' e"
    and "d \<in> set (decisions t) \<Longrightarrow> \<exists>d' \<in> set (decisions s). decision_le d' d"
    and "k \<in> set (calls t) \<Longrightarrow> \<exists>k' \<in> set (calls s). call_le k' k"
    using from_after by blast+
qed

lemma refs_ok_shape:
  assumes le: "db_le s t" and sh: "shape t = shape s" and ok: "refs_ok s"
  shows "refs_ok t"
  unfolding refs_ok_def
proof (intro conjI ballI)
  fix c assume "c \<in> set (cycles t)"
  then obtain c' where c': "c' \<in> set (cycles s)" "cycle_le c' c" using db_le_rows_back(2)[OF le sh] by blast
  with ok obtain r where r: "r \<in> set (sessions s)" "s_id r = c_runtime c'" "s_gateway r = c_gateway c'"
    "s_session r = c_session c'" by (auto simp: refs_ok_def)
  from db_le_rows(1)[OF le r(1)] obtain r' where "r' \<in> set (sessions t)" "session_le r r'" by blast
  with r c'(2) show "\<exists>r \<in> set (sessions t). s_id r = c_runtime c \<and> s_gateway r = c_gateway c \<and>
      s_session r = c_session c"
    by (auto simp: session_le_def cycle_le_def intro!: bexI[of _ r'])
next
  fix e assume "e \<in> set (events t)"
  then obtain e' where e': "e' \<in> set (events s)" "event_le e' e" using db_le_rows_back(3)[OF le sh] by blast
  with ok obtain c where c: "c \<in> set (cycles s)" "c_id c = e_cycle e'" "c_gateway c = e_gateway e'"
    "c_session c = e_session e'" "c_gen c = e_gen e'" by (auto simp: refs_ok_def)
  from db_le_rows(2)[OF le c(1)] obtain c' where "c' \<in> set (cycles t)" "cycle_le c c'" by blast
  with c e'(2) show "\<exists>c \<in> set (cycles t). c_id c = e_cycle e \<and> c_gateway c = e_gateway e \<and>
      c_session c = e_session e \<and> c_gen c = e_gen e"
    by (auto simp: event_le_def cycle_le_def intro!: bexI[of _ c'])
next
  fix d assume "d \<in> set (decisions t)"
  then obtain d' where d': "d' \<in> set (decisions s)" "decision_le d' d"
    using db_le_rows_back(4)[OF le sh] by blast
  with ok obtain c e where c: "c \<in> set (cycles s)" "c_id c = d_cycle d'"
    and e: "e \<in> set (events s)" "e_id e = d_source d'" by (auto simp: refs_ok_def)
  from db_le_rows(2)[OF le c(1)] obtain c' where "c' \<in> set (cycles t)" "cycle_le c c'" by blast
  with c d'(2) show "\<exists>c \<in> set (cycles t). c_id c = d_cycle d"
    by (auto simp: decision_le_def cycle_le_def intro!: bexI[of _ c'])
  from db_le_rows(3)[OF le e(1)] obtain e' where "e' \<in> set (events t)" "event_le e e'" by blast
  with e d'(2) show "\<exists>e \<in> set (events t). e_id e = d_source d"
    by (auto simp: decision_le_def event_le_def intro!: bexI[of _ e'])
next
  fix k assume "k \<in> set (calls t)"
  then obtain k' where k': "k' \<in> set (calls s)" "call_le k' k" using db_le_rows_back(5)[OF le sh] by blast
  with ok obtain d where d: "d \<in> set (decisions s)" "d_id d = k_decision k'" by (auto simp: refs_ok_def)
  from db_le_rows(4)[OF le d(1)] obtain d' where "d' \<in> set (decisions t)" "decision_le d d'" by blast
  with d k'(2) show "\<exists>d \<in> set (decisions t). d_id d = k_decision k"
    by (auto simp: decision_le_def call_le_def intro!: bexI[of _ d'])
qed

text \<open>A claim token is below the next UUID and holds one row.\<close>

definition tokens_ok :: "nat \<Rightarrow> (uuid \<times> uuid) set \<Rightarrow> bool" where
  "tokens_ok n C \<longleftrightarrow> (\<forall>i k. (i, k) \<in> C \<longrightarrow> k < n) \<and>
     (\<forall>i j k. (i, k) \<in> C \<longrightarrow> (j, k) \<in> C \<longrightarrow> i = j)"

definition claims_ok :: "db \<Rightarrow> bool" where
  "claims_ok s \<longleftrightarrow> tokens_ok (next_uuid s) (event_claims s) \<and> tokens_ok (next_uuid s) (decision_claims s)"

lemma tokens_ok_mono: "tokens_ok n C \<Longrightarrow> D \<subseteq> C \<Longrightarrow> n \<le> m \<Longrightarrow> tokens_ok m D"
  unfolding tokens_ok_def by (meson order.strict_trans2 subsetD)

lemma tokens_ok_insert:
  assumes "tokens_ok n C" and "D \<subseteq> insert (i, n) C" and "n < m"
  shows "tokens_ok m D"
proof -
  have "\<And>j k. (j, k) \<in> D \<Longrightarrow> (j, k) \<in> C \<and> k < n \<or> j = i \<and> k = n"
    using assms(1,2) unfolding tokens_ok_def by blast
  with assms(1,3) show ?thesis
    unfolding tokens_ok_def by (metis less_irrefl less_trans)
qed

lemma claims_ok_shape:
  assumes "db_le s t" and "shape t = shape s" and "claims_ok s"
  shows "claims_ok t"
proof -
  have "next_uuid t = next_uuid s" using assms(2) by (simp add: shape_def)
  with assms(1) have "event_claims t \<subseteq> event_claims s" "decision_claims t \<subseteq> decision_claims s"
    by (auto simp: db_le_def)
  with assms(3) \<open>next_uuid t = _\<close> show ?thesis
    by (auto simp: claims_ok_def intro: tokens_ok_mono)
qed

lemma claims_ok_empty [simp]: "claims_ok empty_db"
  by (simp add: claims_ok_def tokens_ok_def event_claims_def decision_claims_def claims_of_def empty_db_def)

section \<open>Lookups by key\<close>

definition find_session :: "db \<Rightarrow> uuid \<Rightarrow> session_row option" where
  "find_session s i = find (\<lambda>r. s_id r = i) (sessions s)"

definition find_cycle :: "db \<Rightarrow> uuid \<Rightarrow> cycle_row option" where
  "find_cycle s i = find (\<lambda>r. c_id r = i) (cycles s)"

definition find_event :: "db \<Rightarrow> uuid \<Rightarrow> event_row option" where
  "find_event s i = find (\<lambda>r. e_id r = i) (events s)"

definition find_decision :: "db \<Rightarrow> uuid \<Rightarrow> decision_row option" where
  "find_decision s i = find (\<lambda>r. d_id r = i) (decisions s)"

lemma find_event_SomeD: "find_event s i = Some e \<Longrightarrow> e \<in> set (events s) \<and> e_id e = i"
  by (auto simp: find_event_def dest: find_SomeD)

lemma find_cycle_SomeD: "find_cycle s i = Some c \<Longrightarrow> c \<in> set (cycles s) \<and> c_id c = i"
  by (auto simp: find_cycle_def dest: find_SomeD)

lemma find_session_SomeD: "find_session s i = Some r \<Longrightarrow> r \<in> set (sessions s) \<and> s_id r = i"
  by (auto simp: find_session_def dest: find_SomeD)

lemma find_decision_SomeD: "find_decision s i = Some d \<Longrightarrow> d \<in> set (decisions s) \<and> d_id d = i"
  by (auto simp: find_decision_def dest: find_SomeD)

lemma find_event_key:
  "keys_ok s \<Longrightarrow> e \<in> set (events s) \<Longrightarrow> find_event s (e_id e) = Some e"
  unfolding find_event_def by (rule find_key) (simp_all add: keys_distinct)

lemma event_key_unique:
  "keys_ok s \<Longrightarrow> e \<in> set (events s) \<Longrightarrow> f \<in> set (events s) \<Longrightarrow> e_id f = e_id e \<Longrightarrow> f = e"
  by (rule distinct_key_unique[of e_id "events s"]) (simp_all add: keys_distinct)

lemma cycle_key_unique:
  "keys_ok s \<Longrightarrow> c \<in> set (cycles s) \<Longrightarrow> d \<in> set (cycles s) \<Longrightarrow> c_id d = c_id c \<Longrightarrow> d = c"
  by (rule distinct_key_unique[of c_id "cycles s"]) (simp_all add: keys_distinct)

lemma session_key_unique:
  "keys_ok s \<Longrightarrow> c \<in> set (sessions s) \<Longrightarrow> d \<in> set (sessions s) \<Longrightarrow> s_id d = s_id c \<Longrightarrow> d = c"
  by (rule distinct_key_unique[of s_id "sessions s"]) (simp_all add: keys_distinct)

lemma decision_key_unique:
  "keys_ok s \<Longrightarrow> c \<in> set (decisions s) \<Longrightarrow> d \<in> set (decisions s) \<Longrightarrow> d_id d = d_id c \<Longrightarrow> d = c"
  by (rule distinct_key_unique[of d_id "decisions s"]) (simp_all add: keys_distinct)

lemma call_key_unique:
  "keys_ok s \<Longrightarrow> c \<in> set (calls s) \<Longrightarrow> d \<in> set (calls s) \<Longrightarrow> k_id d = k_id c \<Longrightarrow> d = c"
  by (rule distinct_key_unique[of k_id "calls s"]) (simp_all add: keys_distinct)

end
