(* ===== verification/Generation.thy ===== *)
theory Generation
  imports RowOrders
begin

text \<open>
  What the event worker hands round (\<open>event_worker.py\<close>): how the generation of an incoming event
  relates to the one in control of the session, the claimed event, the result of processing it,
  and the worker's configuration check.
\<close>

datatype generation_disposition =
  Activate_new | Current | Historical_recovery | Stale | Wait

definition classify_generation ::
  "int option \<Rightarrow> int \<Rightarrow> event_type \<Rightarrow> int \<Rightarrow> generation_disposition" where
  "classify_generation current_generation incoming etype sequence =
     (if (case current_generation of None \<Rightarrow> True | Some g \<Rightarrow> g < incoming)
      then if etype = Session_started \<and> sequence = 1 then Activate_new else Wait
      else if current_generation = Some incoming then Current
      else if etype \<in> CONVERGENCE_EVENT_TYPES then Historical_recovery
      else Stale)"

record claimed_event =
  ce_row :: uuid
  ce_tenant :: uuid
  ce_cycle :: uuid
  ce_gateway :: string
  ce_session :: string
  ce_event_id :: string
  ce_type :: event_type
  ce_gen :: int
  ce_seq :: int
  ce_body :: gateway_event
  ce_hash :: string
  ce_trace :: string
  ce_token :: uuid
  ce_fence :: int
  ce_attempts :: int
  ce_locked_by :: string
  ce_lock_until :: msec
  ce_historical :: bool

datatype process_outcome = O_succeeded | O_retryable_failed | O_manual

record process_result =
  pr_outcome :: process_outcome
  pr_error :: "string option \<times> string option"

record worker_config =
  wc_worker_id :: string
  wc_poll_interval_ms :: int
  wc_claim_ttl_ms :: int
  wc_max_attempts :: int
  wc_retry_base_ms :: int
  wc_retry_max_ms :: int
  wc_max_parallelism :: int
  wc_session_idle_timeout :: "int option"
  wc_event_stale_after :: "int option"

fun first_not_positive :: "(string \<times> int) list \<Rightarrow> string option" where
  "first_not_positive [] = None"
| "first_not_positive ((name, v) # rest) = (if v \<le> 0 then Some name else first_not_positive rest)"

definition validate_configuration :: "worker_config \<Rightarrow> db_error + unit" where
  "validate_configuration c =
     (if is_blank (wc_worker_id c) then Inl (Value_Error ''worker_id must not be empty'')
      else case first_not_positive
             [(''poll_interval_ms'', wc_poll_interval_ms c), (''claim_ttl_ms'', wc_claim_ttl_ms c),
              (''max_attempts'', wc_max_attempts c), (''retry_base_ms'', wc_retry_base_ms c),
              (''retry_max_ms'', wc_retry_max_ms c), (''max_parallelism'', wc_max_parallelism c)] of
          Some name \<Rightarrow> Inl (Value_Error (name @ '' must be positive''))
        | None \<Rightarrow>
            if wc_retry_max_ms c < wc_retry_base_ms c
            then Inl (Value_Error ''retry_base_ms must not exceed retry_max_ms'')
            else if (case wc_session_idle_timeout c of None \<Rightarrow> False | Some t \<Rightarrow> t \<le> 0)
            then Inl (Value_Error ''session_idle_timeout_seconds must be positive'')
            else if (case wc_event_stale_after c of None \<Rightarrow> False | Some t \<Rightarrow> t \<le> 0)
            then Inl (Value_Error ''event_stale_after_seconds must be positive'')
            else Inr ())"

lemma classify_generation_cases:
  "classify_generation cur g ty n = Activate_new \<longleftrightarrow>
     (\<forall>c. cur = Some c \<longrightarrow> c < g) \<and> ty = Session_started \<and> n = 1"
  "classify_generation cur g ty n = Current \<longleftrightarrow> cur = Some g"
  "classify_generation cur g ty n = Historical_recovery \<longleftrightarrow>
     (\<exists>c. cur = Some c \<and> g < c) \<and> ty \<in> CONVERGENCE_EVENT_TYPES"
  "classify_generation cur g ty n = Stale \<longleftrightarrow>
     (\<exists>c. cur = Some c \<and> g < c) \<and> ty \<notin> CONVERGENCE_EVENT_TYPES"
  "classify_generation cur g ty n = Wait \<longleftrightarrow>
     (\<forall>c. cur = Some c \<longrightarrow> c < g) \<and> \<not> (ty = Session_started \<and> n = 1)"
  by (auto simp: classify_generation_def split: option.splits)

lemma hosted_chat_not_convergence:
  "ty \<in> HOSTED_CHAT_EVENT_TYPES \<Longrightarrow> ty \<notin> CONVERGENCE_EVENT_TYPES"
  by (auto simp: HOSTED_CHAT_EVENT_TYPES_def CONVERGENCE_EVENT_TYPES_def)

definition configuration_ok :: "worker_config \<Rightarrow> bool" where
  "configuration_ok c \<longleftrightarrow> \<not> is_blank (wc_worker_id c) \<and> 0 < wc_poll_interval_ms c \<and>
     0 < wc_claim_ttl_ms c \<and> 0 < wc_max_attempts c \<and> 0 < wc_retry_base_ms c \<and>
     wc_retry_base_ms c \<le> wc_retry_max_ms c \<and> 0 < wc_max_parallelism c"

lemma validate_configuration_ok: "validate_configuration c = Inr u \<Longrightarrow> configuration_ok c"
  by (auto simp: validate_configuration_def configuration_ok_def split: if_splits)

end
