(* ===== verification/InboxAdmission.thy ===== *)
theory InboxAdmission
  imports Generation
begin

text \<open>
  Admission of a batch of events: \<open>InboxRepository.accept_event_batch\<close> with the statements it
  runs.  Statements keep their Python names (without the underscore).  The content hash is a
  parameter \<open>H\<close> (a SHA-256 of the gateway id and the canonical JSON of the event).

  Inside one transaction a lookup by a unique key, or an upsert on it, is a \<open>find\<close>.  The statement
  \<open>ADMIT_NON_CHAT_EVENTS\<close> upserts each session and each cycle of its input once and then inserts
  the events; the model does the same per item in ordinal order, where the second upsert of a key
  finds the row of the first.
\<close>

record identity =
  id_tenant :: uuid
  id_gateway :: string

record prepared_event =
  pe_event :: gateway_event
  pe_hash :: string

record batch_acceptance =
  ba_received :: "string list"
  ba_duplicates :: "string list"

datatype admission_error =
  Event_Admission_Conflict string
| Event_Admission_Unavailable

definition HOSTED_CHAT_STORAGE_SEQUENCE_FLOOR :: int where
  "HOSTED_CHAT_STORAGE_SEQUENCE_FLOOR = 2 ^ 62"

definition BIGINT_MAX :: int where
  "BIGINT_MAX = 2 ^ 63 - 1"

abbreviation pe_id :: "prepared_event \<Rightarrow> string" where
  "pe_id p \<equiv> ev_id (pe_event p)"

section \<open>Preparing the batch\<close>

definition is_hosted_chat_event :: "gateway_event \<Rightarrow> bool" where
  "is_hosted_chat_event ev \<longleftrightarrow> ev_type ev \<in> HOSTED_CHAT_EVENT_TYPES"

text \<open>The dictionary keeps the first event of each id, in order of arrival.\<close>

fun prepare_from ::
  "(gateway_event \<Rightarrow> string) \<Rightarrow> prepared_event list \<Rightarrow> gateway_event list \<Rightarrow>
   admission_error + prepared_event list" where
  "prepare_from h acc [] = Inr acc"
| "prepare_from h acc (ev # evs) =
     (case find (\<lambda>p. pe_id p = ev_id ev) acc of
        Some previous \<Rightarrow>
          if pe_hash previous \<noteq> h ev then Inl (Event_Admission_Conflict (ev_id ev))
          else prepare_from h acc evs
      | None \<Rightarrow> prepare_from h (acc @ [\<lparr>pe_event = ev, pe_hash = h ev\<rparr>]) evs)"

definition prepare_batch ::
  "(string \<Rightarrow> gateway_event \<Rightarrow> string) \<Rightarrow> string \<Rightarrow> gateway_event list \<Rightarrow>
   admission_error + prepared_event list" where
  "prepare_batch H gateway evs = prepare_from (H gateway) [] evs"

definition order_prepared_events_for_insertion :: "prepared_event list \<Rightarrow> prepared_event list" where
  "order_prepared_events_for_insertion ps =
     filter (\<lambda>p. \<not> is_hosted_chat_event (pe_event p)) ps @
     filter (\<lambda>p. is_hosted_chat_event (pe_event p)) ps"

section \<open>Statements\<close>

definition SELECT_EXISTING :: "string \<Rightarrow> string list \<Rightarrow> db \<Rightarrow> (string \<times> string) list" where
  "SELECT_EXISTING gateway ids s =
     [(e_event_id e, e_hash e). e \<leftarrow> events s, e_gateway e = gateway \<and> e_event_id e \<in> set ids]"

definition load_existing :: "string \<Rightarrow> prepared_event list \<Rightarrow> db \<Rightarrow> string \<Rightarrow> string option" where
  "load_existing gateway ps s =
     (if ps = [] then (\<lambda>_. None) else map_of (rev (SELECT_EXISTING gateway (map pe_id ps) s)))"

definition SELECT_ONE :: "string \<Rightarrow> string \<Rightarrow> db \<Rightarrow> string option" where
  "SELECT_ONE gateway i s =
     map_option e_hash (find (\<lambda>e. e_gateway e = gateway \<and> e_event_id e = i) (events s))"

definition REFRESH_SESSION_LIVENESS :: "msec \<Rightarrow> string \<Rightarrow> string list \<Rightarrow> db \<Rightarrow> db" where
  "REFRESH_SESSION_LIVENESS now gateway sids s =
     s\<lparr>sessions := update_where (\<lambda>r. s_gateway r = gateway \<and> s_session r \<in> set sids)
        (\<lambda>r. r\<lparr>s_last_event_at := now\<rparr>) (sessions s)\<rparr>"

definition UPSERT_SESSION :: "msec \<Rightarrow> identity \<Rightarrow> string \<Rightarrow> db \<Rightarrow> uuid \<times> db" where
  "UPSERT_SESSION now who sid s =
     (case find (\<lambda>r. s_gateway r = id_gateway who \<and> s_session r = sid) (sessions s) of
        Some r \<Rightarrow> (s_id r, s)
      | None \<Rightarrow>
          let (i, s) = draw_uuid s in
          (i, s\<lparr>sessions := sessions s @
             [\<lparr>s_id = i, s_tenant = id_tenant who, s_gateway = id_gateway who, s_session = sid,
               s_gen = None, s_fence = 0, s_status = S_pending, s_last_event_at = now\<rparr>]\<rparr>))"

definition UPSERT_CYCLE :: "identity \<Rightarrow> uuid \<Rightarrow> string \<Rightarrow> int \<Rightarrow> db \<Rightarrow> uuid \<times> db" where
  "UPSERT_CYCLE who runtime sid gen s =
     (case find (\<lambda>c. c_gateway c = id_gateway who \<and> c_session c = sid \<and> c_gen c = gen) (cycles s) of
        Some c \<Rightarrow> (c_id c, s)
      | None \<Rightarrow>
          let (i, s) = draw_uuid s in
          (i, s\<lparr>cycles := cycles s @
             [\<lparr>c_id = i, c_tenant = id_tenant who, c_runtime = runtime, c_gateway = id_gateway who,
               c_session = sid, c_gen = gen, c_status = C_pending, c_next = 1,
               c_state_version = None, c_lease = None, c_context = None,
               c_activity = no_activity, c_started_at = None, c_stopped_at = None\<rparr>]\<rparr>))"

text \<open>The rank of a cycle for a hosted chat event, and for the role of a session.\<close>

definition hosted_chat_rank :: "session_row \<Rightarrow> cycle_row \<Rightarrow> int" where
  "hosted_chat_rank r c =
     (if s_gen r = Some (c_gen c) then 0 else if c_status c = C_active then 1 else 2)"

definition session_cycles :: "string \<Rightarrow> string \<Rightarrow> db \<Rightarrow> (session_row \<times> cycle_row) list" where
  "session_cycles gateway sid s =
     [(r, c). r \<leftarrow> sessions s, s_gateway r = gateway \<and> s_session r = sid,
              c \<leftarrow> cycles s, c_runtime c = s_id r]"

definition SELECT_HOSTED_CHAT_CYCLE :: "string \<Rightarrow> string \<Rightarrow> db \<Rightarrow> cycle_row option" where
  "SELECT_HOSTED_CHAT_CYCLE gateway sid s =
     map_option snd (first_by (\<lambda>(r, c). (hosted_chat_rank r c, - c_gen c)) (\<lambda>_. True)
       (session_cycles gateway sid s))"

definition SELECT_HOSTED_ROLE_ID :: "string \<Rightarrow> string \<Rightarrow> db \<Rightarrow> json option" where
  "SELECT_HOSTED_ROLE_ID gateway sid s =
     (case first_by (\<lambda>(r, c). (hosted_chat_rank r c, - c_gen c)) (\<lambda>_. True)
             (session_cycles gateway sid s) of
        None \<Rightarrow> None
      | Some (r, c) \<Rightarrow>
          (case c_context c of
             None \<Rightarrow> None
           | Some ctx \<Rightarrow>
               (case json_get ctx ''session'' of
                  None \<Rightarrow> None
                | Some v \<Rightarrow>
                    (case json_get v ''RoleId'' of Some JNull \<Rightarrow> None | w \<Rightarrow> w))))"

definition SELECT_MAX_HOSTED_CHAT_SEQUENCE :: "uuid \<Rightarrow> db \<Rightarrow> int option" where
  "SELECT_MAX_HOSTED_CHAT_SEQUENCE cycle s =
     (case [e_seq e. e \<leftarrow> events s, e_cycle e = cycle \<and> HOSTED_CHAT_STORAGE_SEQUENCE_FLOOR \<le> e_seq e] of
        [] \<Rightarrow> None
      | n # ns \<Rightarrow> Some (Max (set (n # ns))))"

definition next_hosted_chat_storage_sequence :: "int option \<Rightarrow> admission_error + int" where
  "next_hosted_chat_storage_sequence maximum =
     (case maximum of
        None \<Rightarrow> Inr HOSTED_CHAT_STORAGE_SEQUENCE_FLOOR
      | Some m \<Rightarrow>
          if BIGINT_MAX < m + 1 then Inl Event_Admission_Unavailable else Inr (m + 1))"

text \<open>The check constraint and the two unique constraints of the events table.\<close>

definition event_check :: "event_row \<Rightarrow> bool" where
  "event_check e \<longleftrightarrow> (e_type e = Session_started \<and> e_seq e = 1) \<or>
     (e_type e \<noteq> Session_started \<and> 1 < e_seq e)"

definition same_identity :: "event_row \<Rightarrow> event_row \<Rightarrow> bool" where
  "same_identity e f \<longleftrightarrow> e_gateway e = e_gateway f \<and> e_event_id e = e_event_id f"

definition same_slot :: "event_row \<Rightarrow> event_row \<Rightarrow> bool" where
  "same_slot e f \<longleftrightarrow> e_gateway e = e_gateway f \<and> e_session e = e_session f \<and> e_gen e = e_gen f \<and>
     e_seq e = e_seq f"

definition new_event_row ::
  "msec \<Rightarrow> identity \<Rightarrow> string \<Rightarrow> uuid \<Rightarrow> uuid \<Rightarrow> int \<Rightarrow> int \<Rightarrow> prepared_event \<Rightarrow> event_row" where
  "new_event_row now who trace i cycle gen sequence p =
     \<lparr>e_id = i, e_tenant = id_tenant who, e_cycle = cycle, e_gateway = id_gateway who,
      e_session = ev_session (pe_event p), e_event_id = pe_id p, e_type = ev_type (pe_event p),
      e_gen = gen, e_seq = sequence, e_hash = pe_hash p, e_body = pe_event p, e_trace = trace,
      e_status = E_pending, e_attempts = 0, e_next_at = now, e_claim = no_claim,
      e_error = (None, None), e_received_at = now, e_started_at = None, e_completed_at = None\<rparr>"

definition INSERT_EVENT :: "event_row \<Rightarrow> db \<Rightarrow> db_error + bool \<times> db" where
  "INSERT_EVENT e s =
     (if \<not> event_check e then Inl Integrity_Error
      else if \<exists>f \<in> set (events s). same_identity e f then Inr (False, s)
      else if \<exists>f \<in> set (events s). same_slot e f then Inl Integrity_Error
      else Inr (True, s\<lparr>events := events s @ [e]\<rparr>))"

definition insert_event_do_nothing :: "event_row \<Rightarrow> db \<Rightarrow> db_error + bool \<times> db" where
  "insert_event_do_nothing e s =
     (if \<not> event_check e then Inl Integrity_Error
      else if \<exists>f \<in> set (events s). same_identity e f \<or> same_slot e f then Inr (False, s)
      else Inr (True, s\<lparr>events := events s @ [e]\<rparr>))"

fun ADMIT_NON_CHAT_EVENTS ::
  "msec \<Rightarrow> identity \<Rightarrow> string \<Rightarrow> prepared_event list \<Rightarrow> db \<Rightarrow> db_error + string list \<times> db" where
  "ADMIT_NON_CHAT_EVENTS now who trace [] s = Inr ([], s)"
| "ADMIT_NON_CHAT_EVENTS now who trace (p # ps) s =
     (let (runtime, s) = UPSERT_SESSION now who (ev_session (pe_event p)) s;
          (cycle, s) =
            UPSERT_CYCLE who runtime (ev_session (pe_event p)) (ev_generation (pe_event p)) s;
          (i, s) = draw_uuid s in
      case insert_event_do_nothing
             (new_event_row now who trace i cycle (ev_generation (pe_event p))
               (ev_sequence (pe_event p)) p) s of
        Inl er \<Rightarrow> Inl er
      | Inr (ins, s) \<Rightarrow>
          (case ADMIT_NON_CHAT_EVENTS now who trace ps s of
             Inl er \<Rightarrow> Inl er
           | Inr (ids, s) \<Rightarrow> Inr (if ins then pe_id p # ids else ids, s)))"

section \<open>Hosted chat events\<close>

datatype classification = Received | Duplicate

record chat_caches =
  cc_sessions :: "string \<Rightarrow> uuid option"
  cc_cycles :: "string \<Rightarrow> (uuid \<times> int) option"

text \<open>
  \<open>hosted_cycle\<close> is the part of \<open>_insert_one\<close> that finds or creates the cycle: it returns the
  cycle, its generation, the caches to commit with the savepoint, and the database.
\<close>

definition hosted_cycle ::
  "msec \<Rightarrow> identity \<Rightarrow> chat_caches \<Rightarrow> string \<Rightarrow> db \<Rightarrow> uuid \<times> int \<times> chat_caches \<times> db" where
  "hosted_cycle now who k sid s =
     (case cc_cycles k sid of
        Some (cycle, gen) \<Rightarrow> (cycle, gen, k, s)
      | None \<Rightarrow>
          (case SELECT_HOSTED_CHAT_CYCLE (id_gateway who) sid s of
             Some c \<Rightarrow> (c_id c, c_gen c, k, s)
           | None \<Rightarrow>
               let (runtime, k, s) =
                     (case cc_sessions k sid of
                        Some runtime \<Rightarrow> (runtime, k, s)
                      | None \<Rightarrow>
                          (case UPSERT_SESSION now who sid s of
                             (runtime, s) \<Rightarrow>
                               (runtime, k\<lparr>cc_sessions := (cc_sessions k)(sid \<mapsto> runtime)\<rparr>, s)));
                   (cycle, s) = UPSERT_CYCLE who runtime sid 1 s in
               (cycle, 1, k\<lparr>cc_cycles := (cc_cycles k)(sid \<mapsto> (cycle, 1))\<rparr>, s)))"

definition stored_classification ::
  "string \<Rightarrow> prepared_event \<Rightarrow> db \<Rightarrow> admission_error + classification option" where
  "stored_classification gateway p s =
     (case SELECT_ONE gateway (pe_id p) s of
        None \<Rightarrow> Inr None
      | Some stored \<Rightarrow>
          if stored \<noteq> pe_hash p then Inl (Event_Admission_Conflict (pe_id p))
          else Inr (Some Duplicate))"

definition insert_one ::
  "msec \<Rightarrow> identity \<Rightarrow> string \<Rightarrow> prepared_event \<Rightarrow> chat_caches \<Rightarrow> db \<Rightarrow>
   admission_error + classification option \<times> chat_caches \<times> db" where
  "insert_one now who trace p k s =
     (let (cycle, gen, k', t) = hosted_cycle now who k (ev_session (pe_event p)) s in
      case next_hosted_chat_storage_sequence (SELECT_MAX_HOSTED_CHAT_SEQUENCE cycle t) of
        Inl er \<Rightarrow> Inl er
      | Inr sequence \<Rightarrow>
          let (i, t) = draw_uuid t in
          (case INSERT_EVENT (new_event_row now who trace i cycle gen sequence p) t of
             Inl _ \<Rightarrow>
               (case stored_classification (id_gateway who) p s of
                  Inl er \<Rightarrow> Inl er
                | Inr c \<Rightarrow> Inr (c, k, s))
           | Inr (True, t) \<Rightarrow> Inr (Some Received, k', t)
           | Inr (False, t) \<Rightarrow>
               (case stored_classification (id_gateway who) p t of
                  Inl er \<Rightarrow> Inl er
                | Inr c \<Rightarrow> Inr (c, k', t))))"

text \<open>The loop over the chat events; an event stored nowhere ends the batch as a conflict.\<close>

fun insert_chats ::
  "msec \<Rightarrow> identity \<Rightarrow> string \<Rightarrow> prepared_event list \<Rightarrow> chat_caches \<Rightarrow> db \<Rightarrow>
   admission_error + (string \<times> classification option) list \<times> db" where
  "insert_chats now who trace [] k s = Inr ([], s)"
| "insert_chats now who trace (p # ps) k s =
     (case insert_one now who trace p k s of
        Inl er \<Rightarrow> Inl er
      | Inr (c, k, s) \<Rightarrow>
          (case insert_chats now who trace ps k s of
             Inl er \<Rightarrow> Inl er
           | Inr (cs, s) \<Rightarrow> Inr ((pe_id p, c) # cs, s)))"

section \<open>The batch\<close>

definition first_mismatch ::
  "(string \<Rightarrow> string option) \<Rightarrow> prepared_event list \<Rightarrow> prepared_event option" where
  "first_mismatch existing ps =
     find (\<lambda>p. case existing (pe_id p) of None \<Rightarrow> False | Some h \<Rightarrow> h \<noteq> pe_hash p) ps"

definition live_session_ids :: "msec \<Rightarrow> msec option \<Rightarrow> prepared_event list \<Rightarrow> string list" where
  "live_session_ids now stale_after ps =
     remdups (map (\<lambda>p. ev_session (pe_event p))
       (filter (\<lambda>p. case stale_after of None \<Rightarrow> True
                     | Some n \<Rightarrow> now - ev_occurred_at (pe_event p) \<le> n) ps))"

definition is_some_classification ::
  "(string \<times> classification option) list \<Rightarrow> classification \<Rightarrow> prepared_event \<Rightarrow> bool" where
  "is_some_classification cs c p \<longleftrightarrow> map_of cs (pe_id p) = Some (Some c)"

text \<open>
  \<open>admit_pending\<close> is the middle of \<open>accept_event_batch\<close>: it inserts the events not stored yet and
  returns how each was classified.
\<close>

definition admit_pending ::
  "msec \<Rightarrow> identity \<Rightarrow> string \<Rightarrow> prepared_event list \<Rightarrow> db \<Rightarrow>
   admission_error + (string \<times> classification option) list \<times> db" where
  "admit_pending now who trace pending s =
     (let ordered = order_prepared_events_for_insertion pending;
          non_chat = filter (\<lambda>p. \<not> is_hosted_chat_event (pe_event p)) ordered;
          hosted_chat = filter (\<lambda>p. is_hosted_chat_event (pe_event p)) ordered in
      case ADMIT_NON_CHAT_EVENTS now who trace non_chat s of
        Inl _ \<Rightarrow> Inl Event_Admission_Unavailable
      | Inr (inserted, s) \<Rightarrow>
          let unresolved = filter (\<lambda>p. pe_id p \<notin> set inserted) non_chat;
              stored = load_existing (id_gateway who) unresolved s in
          (case find (\<lambda>p. stored (pe_id p) \<noteq> Some (pe_hash p)) unresolved of
             Some p \<Rightarrow> Inl (Event_Admission_Conflict (pe_id p))
           | None \<Rightarrow>
               (case insert_chats now who trace hosted_chat
                       \<lparr>cc_sessions = Map.empty, cc_cycles = Map.empty\<rparr> s of
                  Inl er \<Rightarrow> Inl er
                | Inr (chats, s) \<Rightarrow>
                    Inr (map (\<lambda>p. (pe_id p,
                           Some (if pe_id p \<in> set inserted then Received else Duplicate))) non_chat @
                         chats, s))))"

definition accept_event_batch ::
  "(string \<Rightarrow> gateway_event \<Rightarrow> string) \<Rightarrow> msec option \<Rightarrow> msec \<Rightarrow> identity \<Rightarrow> string \<Rightarrow>
   gateway_event list \<Rightarrow> db \<Rightarrow> admission_error + batch_acceptance \<times> db" where
  "accept_event_batch H stale_after now who trace evs s =
     (case prepare_batch H (id_gateway who) evs of
        Inl er \<Rightarrow> Inl er
      | Inr prepared \<Rightarrow>
          let existing = load_existing (id_gateway who) prepared s in
          (case first_mismatch existing prepared of
             Some p \<Rightarrow> Inl (Event_Admission_Conflict (pe_id p))
           | None \<Rightarrow>
               let pending = filter (\<lambda>p. existing (pe_id p) = None) prepared in
               (case admit_pending now who trace pending s of
                  Inl er \<Rightarrow> Inl er
                | Inr (cs, s) \<Rightarrow>
                    (case find (\<lambda>p. map_of cs (pe_id p) = Some None) pending of
                       Some p \<Rightarrow> Inl (Event_Admission_Conflict (pe_id p))
                     | None \<Rightarrow>
                         let live = live_session_ids now stale_after prepared in
                         Inr (\<lparr>ba_received =
                                 map pe_id (filter (is_some_classification cs Received) pending),
                               ba_duplicates =
                                 map pe_id (filter (\<lambda>p. existing (pe_id p) \<noteq> None) prepared) @
                                 map pe_id (filter (is_some_classification cs Duplicate) pending)\<rparr>,
                              if live = [] then s
                              else REFRESH_SESSION_LIVENESS now (id_gateway who) live s)))))"

end
