(* ===== verification/InboxStatements.thy ===== *)
theory InboxStatements
  imports InboxAdmission
begin

text \<open>
  The SQL statements by which \<open>inbox_repository.py\<close> claims, completes and retires events.  Each
  definition is one statement with its \<open>WHERE\<close> clause; \<open>now\<close> is \<open>clock_timestamp()\<close>.  An \<open>UPDATE\<close>
  with \<open>RETURNING\<close> also returns what the caller reads of it.
\<close>

definition coalesce :: "'a option \<Rightarrow> 'a \<Rightarrow> 'a option" where
  "coalesce x v = (case x of None \<Rightarrow> Some v | Some y \<Rightarrow> Some y)"

lemma coalesce_simps [simp]: "coalesce None v = Some v" "coalesce (Some y) v = Some y"
  by (simp_all add: coalesce_def)

abbreviation open_cycle :: "cycle_status \<Rightarrow> bool" where
  "open_cycle st \<equiv> st \<in> {C_pending, C_active}"

section \<open>Retiring rows\<close>

text \<open>What every statement writes that closes an event, a decision or a skill call.\<close>

definition close_event ::
  "msec \<Rightarrow> event_status \<Rightarrow> string option \<times> string option \<Rightarrow> event_row \<Rightarrow> event_row" where
  "close_event now st er e = e\<lparr>e_status := st, e_claim := no_claim, e_error := er,
     e_completed_at := Some now\<rparr>"

definition retire_event ::
  "msec \<Rightarrow> event_status \<Rightarrow> string option \<times> string option \<Rightarrow> event_row \<Rightarrow> event_row" where
  "retire_event now st er e = e\<lparr>e_status := st, e_claim := no_claim, e_error := er,
     e_completed_at := coalesce (e_completed_at e) now\<rparr>"

definition cancel_decision :: "msec \<Rightarrow> string \<Rightarrow> string \<Rightarrow> decision_row \<Rightarrow> decision_row" where
  "cancel_decision now stage category d = d\<lparr>d_status := D_cancelled,
     d_response := (d_response d)\<lparr>rs_status := Some ''cancelled'', rs_reason := Some category\<rparr>,
     d_claim := no_claim, d_error := (Some stage, Some category),
     d_completed_at := coalesce (d_completed_at d) now\<rparr>"

definition cancel_call :: "msec \<Rightarrow> string \<Rightarrow> call_row \<Rightarrow> call_row" where
  "cancel_call now reason k = k\<lparr>k_status := K_cancelled, k_failure := None, k_reason := Some reason,
     k_retryable := Some False, k_completed_at := coalesce (k_completed_at k) now\<rparr>"

text \<open>The joins of an event, a decision or a skill call with the rows above it.\<close>

definition event_join :: "db \<Rightarrow> (event_row \<times> cycle_row \<times> session_row) list" where
  "event_join s = [(e, c, r). e \<leftarrow> events s, c \<leftarrow> cycles s, c_id c = e_cycle e,
     r \<leftarrow> sessions s, s_id r = c_runtime c]"

definition cycle_of_session :: "db \<Rightarrow> uuid \<Rightarrow> (cycle_row \<Rightarrow> bool) \<Rightarrow> uuid \<Rightarrow> bool" where
  "cycle_of_session s runtime P i \<longleftrightarrow> (\<exists>c \<in> set (cycles s). c_id c = i \<and> c_runtime c = runtime \<and> P c)"

section \<open>Claiming\<close>

definition due :: "msec \<Rightarrow> int \<Rightarrow> event_row \<Rightarrow> bool" where
  "due now max_attempts e \<longleftrightarrow> e_attempts e < max_attempts \<and>
     ((e_status e \<in> {E_pending, E_retryable_failed} \<and> e_next_at e \<le> now) \<or>
      (e_status e = E_processing \<and>
        (case cl_lock_until (e_claim e) of None \<Rightarrow> False | Some u \<Rightarrow> u \<le> now)))"

definition runnable :: "event_row \<Rightarrow> cycle_row \<Rightarrow> bool" where
  "runnable e c \<longleftrightarrow>
     (c_status c \<in> {C_pending, C_active, C_superseded} \<and> e_seq e = c_next c) \<or>
     e_type e \<in> CONVERGENCE_EVENT_TYPES \<or> e_type e \<in> HOSTED_CHAT_EVENT_TYPES \<or>
     (e_type e = Session_stopped \<and> c_status c = C_active) \<or>
     (e_type e = Observation_updated \<and> c_status c = C_active)"

text \<open>A column sorted \<open>DESC NULLS LAST\<close>.\<close>

datatype desc_key = Desc int | Null_last

instantiation desc_key :: linorder
begin

fun less_eq_desc_key :: "desc_key \<Rightarrow> desc_key \<Rightarrow> bool" where
  "less_eq_desc_key (Desc a) (Desc b) \<longleftrightarrow> b \<le> a"
| "less_eq_desc_key _ Null_last \<longleftrightarrow> True"
| "less_eq_desc_key Null_last (Desc _) \<longleftrightarrow> False"

definition less_desc_key :: "desc_key \<Rightarrow> desc_key \<Rightarrow> bool" where
  "less_desc_key x y \<longleftrightarrow> x \<le> y \<and> \<not> y \<le> x"

instance
proof
  fix x y z :: desc_key
  show "x < y \<longleftrightarrow> x \<le> y \<and> \<not> y \<le> x" by (rule less_desc_key_def)
  show "x \<le> x" by (cases x) auto
  show "x \<le> y \<Longrightarrow> y \<le> z \<Longrightarrow> x \<le> z" by (cases x; cases y; cases z) auto
  show "x \<le> y \<Longrightarrow> y \<le> x \<Longrightarrow> x = y" by (cases x; cases y) auto
  show "x \<le> y \<or> y \<le> x" by (cases x; cases y) auto
qed

end

definition cycle_rank :: "event_row \<Rightarrow> cycle_row \<Rightarrow> int" where
  "cycle_rank e c =
     (if c_status c = C_pending \<and> e_type e \<in> {Observation_updated, Session_stopped} then 0
      else if c_status c = C_pending \<and> e_type e = Session_started \<and> e_seq e = 1 then 1
      else if c_status c = C_active then 2
      else if c_status c = C_superseded then 3
      else 4)"

definition type_rank :: "event_row \<Rightarrow> cycle_row \<Rightarrow> int" where
  "type_rank e c =
     (if c_status c \<noteq> C_active then 10
      else case e_type e of
          Session_stopped \<Rightarrow> 0 | Skill_finished \<Rightarrow> 1 | Decision_rejected \<Rightarrow> 2 | Skill_started \<Rightarrow> 3
        | Chat_received \<Rightarrow> 4 | Nearby_friend_chat_requested \<Rightarrow> 4 | Chat_send_result \<Rightarrow> 4
        | Observation_updated \<Rightarrow> 5 | Session_started \<Rightarrow> 6)"

definition claim_key ::
  "event_row \<Rightarrow> cycle_row \<Rightarrow> int \<times> int \<times> int \<times> desc_key \<times> int \<times> msec \<times> uuid" where
  "claim_key e c =
     (cycle_rank e c, - e_gen e, type_rank e c,
      if e_type e = Observation_updated then Desc (e_seq e) else Null_last,
      if e_seq e = c_next c then 0 else 1, e_received_at e, e_id e)"

definition SELECT_CLAIM_CYCLE :: "msec \<Rightarrow> int \<Rightarrow> db \<Rightarrow> uuid list" where
  "SELECT_CLAIM_CYCLE now max_attempts s =
     take 256 (map (\<lambda>(e, c). e_cycle e) (sort_key (\<lambda>(e, c). claim_key e c)
       [(e, c). e \<leftarrow> events s, due now max_attempts e, c \<leftarrow> cycles s, c_id c = e_cycle e \<and> runnable e c]))"

definition LOCK_CLAIM_CANDIDATE ::
  "msec \<Rightarrow> int \<Rightarrow> (uuid \<Rightarrow> bool) \<Rightarrow> uuid \<Rightarrow> db \<Rightarrow> (event_row \<times> cycle_row \<times> session_row) option" where
  "LOCK_CLAIM_CANDIDATE now max_attempts locked cycle s =
     first_by (\<lambda>(e, c, r). claim_key e c)
       (\<lambda>(e, c, r). e_cycle e = cycle \<and> runnable e c \<and> due now max_attempts e \<and>
          \<not> (locked (s_id r) \<or> locked (c_id c) \<or> locked (e_id e)))
       (event_join s)"

definition ACTIVATE_GENERATION :: "uuid \<Rightarrow> int \<Rightarrow> db \<Rightarrow> db" where
  "ACTIVATE_GENERATION runtime gen s =
     s\<lparr>sessions := update_where (\<lambda>r. s_id r = runtime)
        (\<lambda>r. r\<lparr>s_gen := Some gen, s_fence := s_fence r + 1, s_status := S_active\<rparr>) (sessions s)\<rparr>"

definition MARK_RUNTIME_ACTIVE :: "uuid \<Rightarrow> int \<Rightarrow> db \<Rightarrow> db" where
  "MARK_RUNTIME_ACTIVE runtime gen s =
     s\<lparr>sessions := update_where (\<lambda>r. s_id r = runtime \<and> s_gen r = Some gen)
        (\<lambda>r. r\<lparr>s_status := S_active\<rparr>) (sessions s)\<rparr>"

definition SUPERSEDE_OLD_CYCLES :: "uuid \<Rightarrow> uuid \<Rightarrow> int \<Rightarrow> db \<Rightarrow> db" where
  "SUPERSEDE_OLD_CYCLES runtime cycle gen s =
     s\<lparr>cycles := update_where (\<lambda>c. c_runtime c = runtime \<and> c_id c \<noteq> cycle \<and> c_gen c < gen \<and>
           c_status c \<in> {C_pending, C_active})
        (\<lambda>c. c\<lparr>c_status := C_superseded\<rparr>) (cycles s)\<rparr>"

definition CANCEL_SUPERSEDED_DECISIONS :: "msec \<Rightarrow> uuid \<Rightarrow> uuid \<Rightarrow> int \<Rightarrow> db \<Rightarrow> db" where
  "CANCEL_SUPERSEDED_DECISIONS now runtime cycle gen s =
     s\<lparr>decisions := update_where (\<lambda>d. open_decision (d_status d) \<and>
           cycle_of_session s runtime
             (\<lambda>c. c_id c \<noteq> cycle \<and> c_gen c < gen \<and> c_status c = C_superseded) (d_cycle d))
        (cancel_decision now ''fence'' ''generation_changed'') (decisions s)\<rparr>"

definition ACTIVATE_CYCLE :: "msec \<Rightarrow> uuid \<Rightarrow> db \<Rightarrow> db" where
  "ACTIVATE_CYCLE now cycle s =
     s\<lparr>cycles := update_where (\<lambda>c. c_id c = cycle)
        (\<lambda>c. c\<lparr>c_status := C_active, c_started_at := coalesce (c_started_at c) now\<rparr>) (cycles s)\<rparr>"

definition claim_row :: "msec \<Rightarrow> uuid \<Rightarrow> int \<Rightarrow> int \<Rightarrow> string \<Rightarrow> event_row \<Rightarrow> event_row" where
  "claim_row now token fence ttl worker e =
     e\<lparr>e_status := E_processing, e_attempts := e_attempts e + 1,
       e_claim := \<lparr>cl_token = Some token, cl_fence = Some fence, cl_lock_until = Some (now + ttl),
         cl_locked_by = Some worker\<rparr>,
       e_error := (None, None), e_started_at := coalesce (e_started_at e) now\<rparr>"

definition CLAIM_EVENT ::
  "msec \<Rightarrow> int \<Rightarrow> uuid \<Rightarrow> uuid \<Rightarrow> int \<Rightarrow> int \<Rightarrow> string \<Rightarrow> db \<Rightarrow> event_row option \<times> db" where
  "CLAIM_EVENT now max_attempts row token fence ttl worker s =
     (map_option (claim_row now token fence ttl worker)
        (find (\<lambda>e. e_id e = row \<and> due now max_attempts e) (events s)),
      s\<lparr>events := update_where (\<lambda>e. e_id e = row \<and> due now max_attempts e)
         (claim_row now token fence ttl worker) (events s)\<rparr>)"

definition SUPERSEDE_EVENT :: "msec \<Rightarrow> uuid \<Rightarrow> db \<Rightarrow> db" where
  "SUPERSEDE_EVENT now row s =
     s\<lparr>events := update_where (\<lambda>e. e_id e = row) (close_event now E_superseded (None, None)) (events s)\<rparr>"

definition ADVANCE_STALE_CYCLE :: "msec \<Rightarrow> uuid \<Rightarrow> int \<Rightarrow> bool \<Rightarrow> db \<Rightarrow> db" where
  "ADVANCE_STALE_CYCLE now cycle sequence is_session_stopped s =
     s\<lparr>cycles := update_where (\<lambda>c. c_id c = cycle \<and> c_next c = sequence)
        (\<lambda>c. c\<lparr>c_next := c_next c + 1,
           c_status := (if is_session_stopped then C_stopped else C_superseded),
           c_stopped_at := (if is_session_stopped then Some now else c_stopped_at c)\<rparr>) (cycles s)\<rparr>"

definition MARK_UNCLAIMED_EVENT_MANUAL :: "msec \<Rightarrow> uuid \<Rightarrow> db \<Rightarrow> db" where
  "MARK_UNCLAIMED_EVENT_MANUAL now row s =
     s\<lparr>events := update_where (\<lambda>e. e_id e = row)
        (close_event now E_manual (Some ''generation'', Some ''missing_session_started'')) (events s)\<rparr>"

definition MARK_CYCLE_MANUAL :: "uuid \<Rightarrow> db \<Rightarrow> db" where
  "MARK_CYCLE_MANUAL cycle s =
     s\<lparr>cycles := update_where (\<lambda>c. c_id c = cycle) (\<lambda>c. c\<lparr>c_status := C_manual\<rparr>) (cycles s)\<rparr>"

section \<open>Completing\<close>

text \<open>The claim a statement demands: the row, its token, its fence version, and that it runs.\<close>

definition holds_claim :: "uuid \<Rightarrow> uuid option \<Rightarrow> int option \<Rightarrow> event_row \<Rightarrow> bool" where
  "holds_claim row token fence e \<longleftrightarrow> e_id e = row \<and> e_status e = E_processing \<and>
     token \<noteq> None \<and> cl_token (e_claim e) = token \<and> fence \<noteq> None \<and> cl_fence (e_claim e) = fence"

definition LOCK_CLAIM_FOR_COMPLETION ::
  "uuid \<Rightarrow> uuid \<Rightarrow> int \<Rightarrow> db \<Rightarrow> (event_row \<times> cycle_row \<times> session_row) option" where
  "LOCK_CLAIM_FOR_COMPLETION row token fence s =
     find (\<lambda>(e, c, r). holds_claim row (Some token) (Some fence) e) (event_join s)"

definition complete_claim ::
  "uuid \<Rightarrow> uuid option \<Rightarrow> int option \<Rightarrow> (event_row \<Rightarrow> event_row) \<Rightarrow> db \<Rightarrow> bool \<times> db" where
  "complete_claim row token fence f s =
     (\<exists>e \<in> set (events s). holds_claim row token fence e,
      s\<lparr>events := update_where (holds_claim row token fence) f (events s)\<rparr>)"

definition COMPLETE_SUCCEEDED :: "msec \<Rightarrow> uuid \<Rightarrow> uuid option \<Rightarrow> int option \<Rightarrow> db \<Rightarrow> bool \<times> db" where
  "COMPLETE_SUCCEEDED now row token fence =
     complete_claim row token fence (close_event now E_succeeded (None, None))"

definition COMPLETE_RETRYABLE ::
  "msec \<Rightarrow> uuid \<Rightarrow> uuid option \<Rightarrow> int option \<Rightarrow> string option \<times> string option \<Rightarrow> int \<Rightarrow> db \<Rightarrow>
   bool \<times> db" where
  "COMPLETE_RETRYABLE now row token fence er delay =
     complete_claim row token fence
       (\<lambda>e. e\<lparr>e_status := E_retryable_failed, e_next_at := now + delay, e_claim := no_claim,
          e_error := er\<rparr>)"

definition COMPLETE_DEAD_LETTER ::
  "msec \<Rightarrow> uuid \<Rightarrow> uuid option \<Rightarrow> int option \<Rightarrow> string option \<times> string option \<Rightarrow> db \<Rightarrow> bool \<times> db" where
  "COMPLETE_DEAD_LETTER now row token fence er =
     complete_claim row token fence (close_event now E_dead_letter er)"

definition COMPLETE_MANUAL ::
  "msec \<Rightarrow> uuid \<Rightarrow> uuid option \<Rightarrow> int option \<Rightarrow> string option \<times> string option \<Rightarrow> db \<Rightarrow> bool \<times> db" where
  "COMPLETE_MANUAL now row token fence er =
     complete_claim row token fence (close_event now E_manual er)"

definition ADVANCE_CYCLE :: "uuid \<Rightarrow> int \<Rightarrow> db \<Rightarrow> db" where
  "ADVANCE_CYCLE cycle sequence s =
     s\<lparr>cycles := update_where (\<lambda>c. c_id c = cycle \<and> c_next c = sequence)
        (\<lambda>c. c\<lparr>c_next := c_next c + 1\<rparr>) (cycles s)\<rparr>"

text \<open>
  The recursive query of \<open>SKIP_COMPLETED_CONVERGENCE_EVENTS\<close>: from the next position on, step over
  positions whose event needs no processing.  A position is stepped over at most once and needs a
  row of its own, so as many steps as there are rows reach the fixed point.
\<close>

definition skippable :: "uuid \<Rightarrow> int \<Rightarrow> event_row \<Rightarrow> bool" where
  "skippable cycle n e \<longleftrightarrow> e_cycle e = cycle \<and> e_seq e = n \<and>
     (e_status e = E_superseded \<or>
      (e_type e \<in> CONVERGENCE_EVENT_TYPES \<and> e_status e \<in> {E_succeeded, E_dead_letter, E_manual}))"

fun skip_positions :: "nat \<Rightarrow> uuid \<Rightarrow> event_row list \<Rightarrow> int \<Rightarrow> int" where
  "skip_positions 0 cycle es n = n"
| "skip_positions (Suc fuel) cycle es n =
     (if \<exists>e \<in> set es. skippable cycle n e then skip_positions fuel cycle es (n + 1) else n)"

definition SKIP_COMPLETED_CONVERGENCE_EVENTS :: "uuid \<Rightarrow> db \<Rightarrow> db" where
  "SKIP_COMPLETED_CONVERGENCE_EVENTS cycle s =
     s\<lparr>cycles := update_where (\<lambda>c. c_id c = cycle)
        (\<lambda>c. c\<lparr>c_next := skip_positions (length (events s)) cycle (events s) (c_next c)\<rparr>) (cycles s)\<rparr>"

definition SUPERSEDE_OPEN_CYCLE_EVENTS :: "msec \<Rightarrow> uuid \<Rightarrow> uuid \<Rightarrow> db \<Rightarrow> db" where
  "SUPERSEDE_OPEN_CYCLE_EVENTS now cycle stop_event s =
     s\<lparr>events := update_where (\<lambda>e. e_cycle e = cycle \<and> e_id e \<noteq> stop_event \<and> open_event (e_status e))
        (\<lambda>e. retire_event now E_superseded (e_error e) e) (events s)\<rparr>"

definition STOP_CURRENT_CYCLE :: "msec \<Rightarrow> uuid \<Rightarrow> int \<Rightarrow> db \<Rightarrow> db" where
  "STOP_CURRENT_CYCLE now cycle sequence s =
     s\<lparr>cycles := update_where (\<lambda>c. c_id c = cycle \<and> c_status c \<in> {C_pending, C_active})
        (\<lambda>c. c\<lparr>c_next := max (c_next c) (sequence + 1), c_status := C_stopped,
           c_stopped_at := Some now\<rparr>) (cycles s)\<rparr>"

definition STOP_CURRENT_RUNTIME :: "uuid \<Rightarrow> int \<Rightarrow> int \<Rightarrow> db \<Rightarrow> db" where
  "STOP_CURRENT_RUNTIME runtime gen fence s =
     s\<lparr>sessions := update_where (\<lambda>r. s_id r = runtime \<and> s_gen r = Some gen \<and> s_fence r = fence)
        (\<lambda>r. r\<lparr>s_status := S_stopped, s_fence := s_fence r + 1\<rparr>) (sessions s)\<rparr>"

section \<open>Maintenance\<close>

definition closed_cycle_pending :: "event_row \<Rightarrow> cycle_row \<Rightarrow> bool" where
  "closed_cycle_pending e c \<longleftrightarrow> e_cycle e = c_id c \<and>
     (c_status c \<in> {C_stopped, C_manual} \<or>
      (c_status c = C_superseded \<and>
        e_type e \<in> {Session_started, Observation_updated, Session_stopped})) \<and>
     (e_status e \<in> {E_pending, E_retryable_failed} \<or>
      (c_status c \<in> {C_stopped, C_manual} \<and> e_status e = E_processing))"

definition CLEANUP_CLOSED_CYCLE_EVENTS :: "msec \<Rightarrow> db \<Rightarrow> db" where
  "CLEANUP_CLOSED_CYCLE_EVENTS now s =
     s\<lparr>events := update_where (\<lambda>e. \<exists>c \<in> set (cycles s). closed_cycle_pending e c)
        (\<lambda>e. retire_event now
           (if \<exists>c \<in> set (cycles s). closed_cycle_pending e c \<and> c_status c = C_manual
            then E_manual else E_superseded)
           (Some ''worker'', Some ''closed_cycle_pending'') e) (events s)\<rparr>"

definition SELECT_STALE_EVENTS ::
  "msec \<Rightarrow> int \<Rightarrow> (uuid \<Rightarrow> bool) \<Rightarrow> db \<Rightarrow> (event_row \<times> cycle_row \<times> session_row) list" where
  "SELECT_STALE_EVENTS now max_age locked s =
     take 256 (sort_key (\<lambda>(e, c, r). (e_received_at e, e_id e))
       (filter (\<lambda>(e, c, r). open_event (e_status e) \<and> max_age < now - ev_occurred_at (e_body e) \<and>
          \<not> (locked (s_id r) \<or> locked (e_id e))) (event_join s)))"

definition MARK_STALE_EVENT :: "msec \<Rightarrow> uuid \<Rightarrow> db \<Rightarrow> bool \<times> db" where
  "MARK_STALE_EVENT now row s =
     (\<exists>e \<in> set (events s). e_id e = row \<and> open_event (e_status e),
      s\<lparr>events := update_where (\<lambda>e. e_id e = row \<and> open_event (e_status e))
         (retire_event now E_superseded (Some ''gateway_session'', Some ''stale_event_discarded''))
         (events s)\<rparr>)"

definition CANCEL_STALE_DECISIONS :: "msec \<Rightarrow> uuid \<Rightarrow> db \<Rightarrow> db" where
  "CANCEL_STALE_DECISIONS now row s =
     s\<lparr>decisions := update_where (\<lambda>d. d_source d = row \<and> open_decision (d_status d))
        (cancel_decision now ''gateway_session'' ''stale_event_discarded'') (decisions s)\<rparr>"

definition CANCEL_STALE_SKILL_CALLS :: "msec \<Rightarrow> uuid \<Rightarrow> db \<Rightarrow> db" where
  "CANCEL_STALE_SKILL_CALLS now row s =
     s\<lparr>calls := update_where (\<lambda>k. open_call (k_status k) \<and>
           (\<exists>d \<in> set (decisions s). k_decision k = d_id d \<and> d_source d = row))
        (cancel_call now ''stale_event_discarded'') (calls s)\<rparr>"

definition BUMP_SESSION_FENCE :: "uuid \<Rightarrow> int \<Rightarrow> db \<Rightarrow> db" where
  "BUMP_SESSION_FENCE runtime fence s =
     s\<lparr>sessions := update_where (\<lambda>r. s_id r = runtime \<and> s_fence r = fence)
        (\<lambda>r. r\<lparr>s_fence := s_fence r + 1\<rparr>) (sessions s)\<rparr>"

definition SELECT_IDLE_SESSIONS :: "msec \<Rightarrow> int \<Rightarrow> (uuid \<Rightarrow> bool) \<Rightarrow> db \<Rightarrow> session_row list" where
  "SELECT_IDLE_SESSIONS now idle_ms locked s =
     take 256 (sort_key (\<lambda>r. (s_last_event_at r, s_id r))
       (filter (\<lambda>r. s_status r = S_active \<and> s_last_event_at r \<le> now - idle_ms \<and> \<not> locked (s_id r))
          (sessions s)))"

text \<open>\<open>control_generation = NULL\<close> holds of no row: \<open>of_generation\<close> is that comparison.\<close>

definition of_generation :: "int option \<Rightarrow> cycle_row \<Rightarrow> bool" where
  "of_generation gen c \<longleftrightarrow> gen = Some (c_gen c)"

definition STOP_IDLE_CYCLES :: "msec \<Rightarrow> uuid \<Rightarrow> int option \<Rightarrow> db \<Rightarrow> db" where
  "STOP_IDLE_CYCLES now runtime gen s =
     s\<lparr>cycles := update_where
        (\<lambda>c. c_runtime c = runtime \<and> of_generation gen c \<and> c_status c \<in> {C_pending, C_active})
        (\<lambda>c. c\<lparr>c_status := C_stopped, c_stopped_at := Some now\<rparr>) (cycles s)\<rparr>"

definition SUPERSEDE_IDLE_EVENTS :: "msec \<Rightarrow> uuid \<Rightarrow> int option \<Rightarrow> db \<Rightarrow> db" where
  "SUPERSEDE_IDLE_EVENTS now runtime gen s =
     s\<lparr>events := update_where
        (\<lambda>e. cycle_of_session s runtime (of_generation gen) (e_cycle e) \<and> open_event (e_status e))
        (retire_event now E_superseded (Some ''gateway_session'', Some ''gateway_session_inactive''))
        (events s)\<rparr>"

definition CANCEL_IDLE_DECISIONS :: "msec \<Rightarrow> uuid \<Rightarrow> int option \<Rightarrow> db \<Rightarrow> db" where
  "CANCEL_IDLE_DECISIONS now runtime gen s =
     s\<lparr>decisions := update_where
        (\<lambda>d. cycle_of_session s runtime (of_generation gen) (d_cycle d) \<and> open_decision (d_status d))
        (cancel_decision now ''gateway_session'' ''gateway_session_inactive'') (decisions s)\<rparr>"

definition CANCEL_IDLE_SKILL_CALLS :: "msec \<Rightarrow> uuid \<Rightarrow> int option \<Rightarrow> db \<Rightarrow> db" where
  "CANCEL_IDLE_SKILL_CALLS now runtime gen s =
     s\<lparr>calls := update_where
        (\<lambda>k. open_call (k_status k) \<and> (\<exists>d \<in> set (decisions s). k_decision k = d_id d \<and>
             cycle_of_session s runtime (of_generation gen) (d_cycle d)))
        (cancel_call now ''gateway_session_inactive'') (calls s)\<rparr>"

definition STOP_IDLE_SESSION :: "uuid \<Rightarrow> int option \<Rightarrow> int \<Rightarrow> db \<Rightarrow> bool \<times> db" where
  "STOP_IDLE_SESSION runtime gen fence s =
     (\<exists>r \<in> set (sessions s). s_id r = runtime \<and> s_status r = S_active \<and> gen \<noteq> None \<and>
        s_gen r = gen \<and> s_fence r = fence,
      s\<lparr>sessions := update_where (\<lambda>r. s_id r = runtime \<and> s_status r = S_active \<and> gen \<noteq> None \<and>
           s_gen r = gen \<and> s_fence r = fence)
         (\<lambda>r. r\<lparr>s_status := S_stopped, s_fence := s_fence r + 1\<rparr>) (sessions s)\<rparr>)"

definition LOCK_EXHAUSTED_CLAIM ::
  "msec \<Rightarrow> int \<Rightarrow> (uuid \<Rightarrow> bool) \<Rightarrow> db \<Rightarrow> (event_row \<times> cycle_row \<times> session_row) option" where
  "LOCK_EXHAUSTED_CLAIM now max_attempts locked s =
     first_by (\<lambda>(e, c, r). (cl_lock_until (e_claim e), e_id e))
       (\<lambda>(e, c, r). e_status e = E_processing \<and>
          (case cl_lock_until (e_claim e) of None \<Rightarrow> False | Some u \<Rightarrow> u \<le> now) \<and>
          max_attempts \<le> e_attempts e \<and> \<not> (locked (s_id r) \<or> locked (c_id c) \<or> locked (e_id e)))
       (event_join s)"

definition renewable :: "event_row \<Rightarrow> cycle_row \<Rightarrow> session_row \<Rightarrow> bool" where
  "renewable e c r \<longleftrightarrow>
     e_type e \<in> HOSTED_CHAT_EVENT_TYPES \<or>
     (c_status c \<in> {C_pending, C_active} \<and> s_gen r = Some (e_gen e) \<and>
       cl_fence (e_claim e) = Some (s_fence r) \<and>
       (c_lease c = None \<or> ev_lease (e_body e) = None \<or>
        (c_lease c = ev_lease (e_body e) \<and> c_state_version c = Some (ev_state_version (e_body e))))) \<or>
     (c_status c = C_superseded \<and> (case s_gen r of None \<Rightarrow> False | Some g \<Rightarrow> e_gen e < g) \<and>
       e_type e \<in> CONVERGENCE_EVENT_TYPES)"

definition RENEW_EVENT_CLAIM :: "msec \<Rightarrow> uuid \<Rightarrow> uuid \<Rightarrow> int \<Rightarrow> int \<Rightarrow> db \<Rightarrow> bool \<times> db" where
  "RENEW_EVENT_CLAIM now row token fence ttl s =
     (let hit = (\<lambda>e. holds_claim row (Some token) (Some fence) e \<and>
            (case cl_lock_until (e_claim e) of None \<Rightarrow> False | Some u \<Rightarrow> now < u) \<and>
            (\<exists>c \<in> set (cycles s). e_cycle e = c_id c \<and>
              (\<exists>r \<in> set (sessions s). s_id r = c_runtime c \<and> renewable e c r))) in
      (\<exists>e \<in> set (events s). hit e,
       s\<lparr>events := update_where hit
          (\<lambda>e. e\<lparr>e_claim := (e_claim e)\<lparr>cl_lock_until := Some (now + ttl)\<rparr>\<rparr>) (events s)\<rparr>))"

definition COUNT_DEAD_LETTERS :: "db \<Rightarrow> nat" where
  "COUNT_DEAD_LETTERS s = count_where (\<lambda>e. e_status e = E_dead_letter) (events s)"

definition SELECT_EVENT_QUEUE_METRICS :: "msec \<Rightarrow> int \<Rightarrow> db \<Rightarrow> nat \<times> msec" where
  "SELECT_EVENT_QUEUE_METRICS now max_attempts s =
     (let queue = [e_received_at e. e \<leftarrow> events s, due now max_attempts e, c \<leftarrow> cycles s,
            c_id c = e_cycle e \<and> c_status c \<in> {C_pending, C_active, C_superseded} \<and> runnable e c] in
      (length queue, if queue = [] then 0 else now - Min (set queue)))"

section \<open>Leases\<close>

definition PERSIST_LEASE_CONTEXT ::
  "int \<Rightarrow> string \<Rightarrow> json \<Rightarrow> uuid \<Rightarrow> uuid \<Rightarrow> uuid \<Rightarrow> int \<Rightarrow> db \<Rightarrow> bool \<times> db" where
  "PERSIST_LEASE_CONTEXT state_version lease ctx cycle row token fence s =
     (let hit = (\<lambda>c. c_id c = cycle \<and>
            (\<exists>e \<in> set (events s). holds_claim row (Some token) (Some fence) e \<and> e_cycle e = c_id c \<and>
              (\<exists>r \<in> set (sessions s). s_id r = c_runtime c \<and> s_gen r = Some (e_gen e) \<and>
                 s_fence r = fence))) in
      (\<exists>c \<in> set (cycles s). hit c,
       s\<lparr>cycles := update_where hit
          (\<lambda>c. c\<lparr>c_state_version := Some state_version, c_lease := Some lease, c_context := Some ctx\<rparr>)
          (cycles s)\<rparr>))"

definition SUPERSEDE_OLDER_LEASE_EVENTS ::
  "msec \<Rightarrow> uuid \<Rightarrow> uuid \<Rightarrow> int \<Rightarrow> int \<Rightarrow> string \<Rightarrow> db \<Rightarrow> db" where
  "SUPERSEDE_OLDER_LEASE_EVENTS now cycle row sequence state_version lease s =
     s\<lparr>events := update_where
        (\<lambda>e. e_cycle e = cycle \<and> e_id e \<noteq> row \<and> e_seq e < sequence \<and> open_event (e_status e) \<and>
           e_type e \<in> {Session_started, Observation_updated} \<and> ev_lease (e_body e) \<noteq> None \<and>
           (ev_lease (e_body e) \<noteq> Some lease \<or> ev_state_version (e_body e) \<noteq> state_version))
        (\<lambda>e. retire_event now E_superseded (e_error e) e) (events s)\<rparr>"

definition CANCEL_OLDER_LEASE_DECISIONS :: "msec \<Rightarrow> uuid \<Rightarrow> int \<Rightarrow> string \<Rightarrow> db \<Rightarrow> db" where
  "CANCEL_OLDER_LEASE_DECISIONS now cycle state_version lease s =
     s\<lparr>decisions := update_where
        (\<lambda>d. d_cycle d = cycle \<and> open_decision (d_status d) \<and>
           (d_lease d \<noteq> lease \<or> d_state_version d \<noteq> state_version))
        (\<lambda>d. cancel_decision now ''fence''
           (if d_lease d \<noteq> lease then ''decision_lease_changed'' else ''state_version_changed'') d)
        (decisions s)\<rparr>"

end
