(* ===== verification/InboxRepository.thy ===== *)
theory InboxRepository
  imports InboxStatements
begin

text \<open>
  The transactions of \<open>InboxRepository\<close> after admission: claiming, renewing and completing an event,
  persisting a lease context, discarding stale events, stopping idle sessions and sweeping
  exhausted claims.  Each method is one function on the database; \<open>Inl\<close> is a raised exception,
  which rolls the transaction back.

  A transaction that takes locks with \<open>SKIP LOCKED\<close> or tries an advisory lock sees a \<open>lock_view\<close>:
  which cycle locks and which rows other transactions hold at that moment.
\<close>

record lock_view =
  lv_busy :: "uuid \<Rightarrow> bool"
  lv_locked :: "uuid \<Rightarrow> bool"

definition no_locks :: lock_view where
  "no_locks = \<lparr>lv_busy = (\<lambda>_. False), lv_locked = (\<lambda>_. False)\<rparr>"

definition should_mark_cycle_manual :: "event_type \<Rightarrow> bool" where
  "should_mark_cycle_manual ty \<longleftrightarrow> ty \<notin> HOSTED_CHAT_EVENT_TYPES"

definition hosted_chat_cycle_is_processable :: "event_type \<Rightarrow> cycle_status \<Rightarrow> bool" where
  "hosted_chat_cycle_is_processable ty st \<longleftrightarrow> True"

text \<open>The disposition all three methods compute from the locked rows.\<close>

definition event_disposition :: "event_row \<Rightarrow> session_row \<Rightarrow> generation_disposition" where
  "event_disposition e r =
     (if e_type e \<in> HOSTED_CHAT_EVENT_TYPES then Current
      else classify_generation (s_gen r) (e_gen e) (e_type e) (e_seq e))"

definition supersede_locked_event :: "msec \<Rightarrow> event_row \<Rightarrow> db \<Rightarrow> db" where
  "supersede_locked_event now e s =
     ADVANCE_STALE_CYCLE now (e_cycle e) (e_seq e) (e_type e = Session_stopped)
       (SUPERSEDE_EVENT now (e_id e) s)"

definition skip_completed_convergence_events :: "event_row \<Rightarrow> cycle_row \<Rightarrow> db \<Rightarrow> db" where
  "skip_completed_convergence_events e c s =
     (if e_type e \<notin> CONVERGENCE_EVENT_TYPES \<and> c_next c \<noteq> e_seq e then s
      else SKIP_COMPLETED_CONVERGENCE_EVENTS (e_cycle e) s)"

section \<open>Claim\<close>

definition build_claimed_event :: "event_row \<Rightarrow> event_row \<Rightarrow> bool \<Rightarrow> claimed_event" where
  "build_claimed_event candidate claimed historical =
     \<lparr>ce_row = e_id candidate, ce_tenant = e_tenant candidate, ce_cycle = e_cycle candidate,
      ce_gateway = e_gateway candidate, ce_session = e_session candidate,
      ce_event_id = e_event_id candidate, ce_type = e_type candidate, ce_gen = e_gen candidate,
      ce_seq = e_seq candidate, ce_body = e_body candidate, ce_hash = e_hash candidate,
      ce_trace = e_trace candidate, ce_token = the (cl_token (e_claim claimed)),
      ce_fence = the (cl_fence (e_claim claimed)), ce_attempts = e_attempts claimed,
      ce_locked_by = the (cl_locked_by (e_claim claimed)),
      ce_lock_until = the (cl_lock_until (e_claim claimed)), ce_historical = historical\<rparr>"

datatype claim_outcome = Nothing_to_claim | Claim_again | Claimed claimed_event

text \<open>\<open>enter_generation\<close> is the branch between the disposition and the claim: it returns the fence.\<close>

definition enter_generation ::
  "msec \<Rightarrow> generation_disposition \<Rightarrow> event_row \<Rightarrow> cycle_row \<Rightarrow> session_row \<Rightarrow> db \<Rightarrow> int \<times> db" where
  "enter_generation now disposition e c r s =
     (if disposition = Activate_new
      then (s_fence r + 1,
        ACTIVATE_CYCLE now (e_cycle e)
          (CANCEL_SUPERSEDED_DECISIONS now (s_id r) (e_cycle e) (e_gen e)
            (SUPERSEDE_OLD_CYCLES (s_id r) (e_cycle e) (e_gen e)
              (ACTIVATE_GENERATION (s_id r) (e_gen e) s))))
      else if disposition = Current \<and> c_status c = C_pending
      then (s_fence r,
        MARK_RUNTIME_ACTIVE (s_id r) (e_gen e) (ACTIVATE_CYCLE now (e_cycle e) s))
      else (s_fence r, s))"

text \<open>One iteration of the loop of \<open>claim_next_event\<close>: one transaction.\<close>

definition claim_candidate ::
  "msec \<Rightarrow> string \<Rightarrow> int \<Rightarrow> int \<Rightarrow> event_row \<times> cycle_row \<times> session_row \<Rightarrow> db \<Rightarrow> claim_outcome \<times> db" where
  "claim_candidate now worker ttl max_attempts candidate s =
     (case candidate of (e, c, r) \<Rightarrow>
        if \<not> hosted_chat_cycle_is_processable (e_type e) (c_status c)
        then (Claim_again, supersede_locked_event now e s)
        else if event_disposition e r = Stale then (Claim_again, supersede_locked_event now e s)
        else if event_disposition e r = Wait
        then (Claim_again,
          MARK_CYCLE_MANUAL (e_cycle e) (MARK_UNCLAIMED_EVENT_MANUAL now (e_id e) s))
        else
          let (fence, s) = enter_generation now (event_disposition e r) e c r s;
              (token, s) = draw_uuid s in
          (case CLAIM_EVENT now max_attempts (e_id e) token fence ttl worker s of
             (None, s) \<Rightarrow> (Claim_again, s)
           | (Some claimed, s) \<Rightarrow>
               (Claimed (build_claimed_event e claimed
                  (event_disposition e r = Historical_recovery)), s)))"

definition claim_step ::
  "lock_view \<Rightarrow> msec \<Rightarrow> string \<Rightarrow> int \<Rightarrow> int \<Rightarrow> db \<Rightarrow> claim_outcome \<times> db" where
  "claim_step locks now worker ttl max_attempts s =
     (case find (\<lambda>i. \<not> lv_busy locks i) (SELECT_CLAIM_CYCLE now max_attempts s) of
        None \<Rightarrow> (Nothing_to_claim, s)
      | Some cycle \<Rightarrow>
          (case LOCK_CLAIM_CANDIDATE now max_attempts (lv_locked locks) cycle s of
             None \<Rightarrow> (Nothing_to_claim, s)
           | Some candidate \<Rightarrow> claim_candidate now worker ttl max_attempts candidate s))"

section \<open>Discarding stale events\<close>

definition discard_row ::
  "msec \<Rightarrow> event_row \<times> cycle_row \<times> session_row \<Rightarrow> nat \<times> db \<Rightarrow> nat \<times> db" where
  "discard_row now row acc =
     (case (row, acc) of ((e, c, r), (n, s)) \<Rightarrow>
        (case MARK_STALE_EVENT now (e_id e) s of
           (False, s) \<Rightarrow> (n, s)
         | (True, s) \<Rightarrow>
             let s = CANCEL_STALE_SKILL_CALLS now (e_id e) (CANCEL_STALE_DECISIONS now (e_id e) s) in
             (n + 1,
              if e_status e = E_processing then BUMP_SESSION_FENCE (s_id r) (s_fence r) s else s)))"

definition discard_rows ::
  "msec \<Rightarrow> (event_row \<times> cycle_row \<times> session_row) list \<Rightarrow> nat \<times> db \<Rightarrow> nat \<times> db" where
  "discard_rows now = fold (discard_row now)"

section \<open>Stopping idle sessions\<close>

definition stop_idle_row :: "msec \<Rightarrow> session_row \<Rightarrow> nat \<times> db \<Rightarrow> nat \<times> db" where
  "stop_idle_row now r acc =
     (case acc of (n, s) \<Rightarrow>
        (case STOP_IDLE_SESSION (s_id r) (s_gen r) (s_fence r)
                (CANCEL_IDLE_SKILL_CALLS now (s_id r) (s_gen r)
                  (CANCEL_IDLE_DECISIONS now (s_id r) (s_gen r)
                    (SUPERSEDE_IDLE_EVENTS now (s_id r) (s_gen r)
                      (STOP_IDLE_CYCLES now (s_id r) (s_gen r) s)))) of
           (stopped, s) \<Rightarrow> (if stopped then n + 1 else n, s)))"

definition stop_idle_sessions ::
  "(uuid \<Rightarrow> bool) \<Rightarrow> msec \<Rightarrow> int \<Rightarrow> db \<Rightarrow> db_error + nat \<times> db" where
  "stop_idle_sessions locked now idle_timeout_ms s =
     (if idle_timeout_ms \<le> 0 then Inl (Value_Error ''idle_timeout_seconds must be positive'')
      else Inr (fold (stop_idle_row now) (SELECT_IDLE_SESSIONS now idle_timeout_ms locked s) (0, s)))"

section \<open>Renew and complete\<close>

definition renew_event_claim :: "msec \<Rightarrow> claimed_event \<Rightarrow> int \<Rightarrow> db \<Rightarrow> db_error + bool \<times> db" where
  "renew_event_claim now ev ttl s =
     (if ttl \<le> 0 then Inl (Value_Error ''claim_ttl_ms must be positive'')
      else Inr (RENEW_EVENT_CLAIM now (ce_row ev) (ce_token ev) (ce_fence ev) ttl s))"

definition complete_cycle_success ::
  "msec \<Rightarrow> event_row \<Rightarrow> cycle_row \<Rightarrow> claimed_event \<Rightarrow> db \<Rightarrow> db" where
  "complete_cycle_success now e c ev s =
     (if ce_type ev \<in> HOSTED_CHAT_EVENT_TYPES then s
      else if ce_type ev \<noteq> Session_stopped
      then skip_completed_convergence_events e c (ADVANCE_CYCLE (ce_cycle ev) (ce_seq ev) s)
      else STOP_CURRENT_RUNTIME (c_runtime c) (ce_gen ev) (ce_fence ev)
             (STOP_CURRENT_CYCLE now (ce_cycle ev) (ce_seq ev)
               (SUPERSEDE_OPEN_CYCLE_EVENTS now (ce_cycle ev) (ce_row ev) s)))"

definition retry_delay_ms :: "int \<Rightarrow> int \<Rightarrow> int \<Rightarrow> int" where
  "retry_delay_ms base maximum attempt_count = min maximum (base * 2 ^ nat (attempt_count - 1))"

lemma retry_delay_bounds:
  assumes "0 < base" and "base \<le> maximum"
  shows "base \<le> retry_delay_ms base maximum n" and "retry_delay_ms base maximum n \<le> maximum"
proof -
  have "base * 1 \<le> base * 2 ^ nat (n - 1)"
    using assms(1) by (intro mult_left_mono) simp_all
  with assms(2) show "base \<le> retry_delay_ms base maximum n" by (simp add: retry_delay_ms_def)
  show "retry_delay_ms base maximum n \<le> maximum" by (simp add: retry_delay_ms_def)
qed

definition claim_is_valid :: "event_row \<Rightarrow> session_row \<Rightarrow> event_type \<Rightarrow> int option \<Rightarrow> bool" where
  "claim_is_valid e r ty fence \<longleftrightarrow>
     ty \<in> HOSTED_CHAT_EVENT_TYPES \<or> event_disposition e r = Historical_recovery \<or>
     (event_disposition e r = Current \<and> Some (s_fence r) = fence)"

definition complete_locked ::
  "msec \<Rightarrow> claimed_event \<Rightarrow> process_result \<Rightarrow> int \<Rightarrow> int \<Rightarrow> int \<Rightarrow>
   event_row \<times> cycle_row \<times> session_row \<Rightarrow> db \<Rightarrow> bool \<times> db" where
  "complete_locked now ev result max_attempts retry_base retry_max locked s =
     (case locked of (e, c, r) \<Rightarrow>
        if \<not> hosted_chat_cycle_is_processable (e_type e) (c_status c)
        then (False, supersede_locked_event now e s)
        else if \<not> claim_is_valid e r (ce_type ev) (Some (ce_fence ev))
        then (False, supersede_locked_event now e s)
        else
          let row = ce_row ev; token = Some (ce_token ev); fence = Some (ce_fence ev) in
          (case pr_outcome result of
             O_succeeded \<Rightarrow>
               (case COMPLETE_SUCCEEDED now row token fence s of
                  (False, s) \<Rightarrow> (False, s)
                | (True, s) \<Rightarrow> (True, complete_cycle_success now e c ev s))
           | O_retryable_failed \<Rightarrow>
               if max_attempts \<le> e_attempts e
               then (case COMPLETE_DEAD_LETTER now row token fence (pr_error result) s of
                       (completed, s) \<Rightarrow>
                         (completed,
                          if completed then skip_completed_convergence_events e c s else s))
               else COMPLETE_RETRYABLE now row token fence (pr_error result)
                      (retry_delay_ms retry_base retry_max (e_attempts e)) s
           | O_manual \<Rightarrow>
               (case COMPLETE_MANUAL now row token fence (pr_error result) s of
                  (False, s) \<Rightarrow> (False, s)
                | (True, s) \<Rightarrow>
                    (True, skip_completed_convergence_events e c
                       (if event_disposition e r \<noteq> Historical_recovery \<and>
                           should_mark_cycle_manual (ce_type ev)
                        then MARK_CYCLE_MANUAL (ce_cycle ev) s else s)))))"

definition complete_event ::
  "msec \<Rightarrow> claimed_event \<Rightarrow> process_result \<Rightarrow> int \<Rightarrow> int \<Rightarrow> int \<Rightarrow> db \<Rightarrow> db_error + bool \<times> db" where
  "complete_event now ev result max_attempts retry_base retry_max s =
     (if max_attempts \<le> 0 then Inl (Value_Error ''max_attempts must be positive'')
      else if retry_base \<le> 0 \<or> retry_max \<le> 0 then Inl (Value_Error ''retry delays must be positive'')
      else if retry_max < retry_base
      then Inl (Value_Error ''retry_base_ms must not exceed retry_max_ms'')
      else Inr
        (case LOCK_CLAIM_FOR_COMPLETION (ce_row ev) (ce_token ev) (ce_fence ev) s of
           None \<Rightarrow> (False, s)
         | Some locked \<Rightarrow> complete_locked now ev result max_attempts retry_base retry_max locked s))"

section \<open>Lease context\<close>

text \<open>
  The part of \<open>GatewayV2AgentContext\<close> the transaction reads; \<open>ctx_payload\<close> is its
  \<open>prompt_payload()\<close>.
\<close>

record agent_context =
  ctx_event_id :: string
  ctx_session :: string
  ctx_gen :: int
  ctx_seq :: int
  ctx_state_version :: int
  ctx_lease :: string
  ctx_payload :: json

definition persist_lease_context ::
  "msec \<Rightarrow> claimed_event \<Rightarrow> agent_context \<Rightarrow> db \<Rightarrow> db_error + bool \<times> db" where
  "persist_lease_context now ev ctx s =
     (if ctx_event_id ctx \<noteq> ce_event_id ev \<or> ctx_session ctx \<noteq> ce_session ev \<or>
         ctx_gen ctx \<noteq> ce_gen ev \<or> ctx_seq ctx \<noteq> ce_seq ev
      then Inl (Value_Error ''decision context does not match claimed event'')
      else Inr
        (case PERSIST_LEASE_CONTEXT (ctx_state_version ctx) (ctx_lease ctx) (ctx_payload ctx)
                (ce_cycle ev) (ce_row ev) (ce_token ev) (ce_fence ev) s of
           (False, s) \<Rightarrow> (False, s)
         | (True, s) \<Rightarrow>
             (True,
              SKIP_COMPLETED_CONVERGENCE_EVENTS (ce_cycle ev)
                (SUPERSEDE_OLDER_LEASE_EVENTS now (ce_cycle ev) (ce_row ev) (ce_seq ev)
                  (ctx_state_version ctx) (ctx_lease ctx)
                  (CANCEL_OLDER_LEASE_DECISIONS now (ce_cycle ev) (ctx_state_version ctx)
                    (ctx_lease ctx) s)))))"

section \<open>Sweeping exhausted claims\<close>

text \<open>One pass of the loop; \<open>None\<close> means that no exhausted claim is left.\<close>

definition sweep_step ::
  "(uuid \<Rightarrow> bool) \<Rightarrow> msec \<Rightarrow> int \<Rightarrow> nat \<Rightarrow> db \<Rightarrow> (db_error + nat \<times> db) option" where
  "sweep_step locked now max_attempts n s =
     (case LOCK_EXHAUSTED_CLAIM now max_attempts locked s of
        None \<Rightarrow> None
      | Some (e, c, r) \<Rightarrow>
          Some
            (if \<not> hosted_chat_cycle_is_processable (e_type e) (c_status c)
             then Inr (n, supersede_locked_event now e s)
             else if \<not> claim_is_valid e r (e_type e) (cl_fence (e_claim e))
             then Inr (n, supersede_locked_event now e s)
             else
               (case COMPLETE_DEAD_LETTER now (e_id e) (cl_token (e_claim e)) (cl_fence (e_claim e))
                       (Some ''worker'', Some ''claim_expired'') s of
                  (False, s) \<Rightarrow> Inl (Runtime_Error ''expired event claim changed while locked'')
                | (True, s) \<Rightarrow> Inr (n + 1, skip_completed_convergence_events e c s))))"

section \<open>Reads\<close>

definition count_dead_letters :: "db \<Rightarrow> nat" where
  "count_dead_letters s = COUNT_DEAD_LETTERS s"

definition queue_metrics :: "msec \<Rightarrow> int \<Rightarrow> db \<Rightarrow> db_error + nat \<times> msec" where
  "queue_metrics now max_attempts s =
     (if max_attempts \<le> 0 then Inl (Value_Error ''max_attempts must be positive'')
      else Inr (SELECT_EVENT_QUEUE_METRICS now max_attempts s))"

end
