(* ===== verification/InboxFacts.thy ===== *)
theory InboxFacts
  imports InboxRepository
begin

text \<open>
  What the statements and transactions of the inbox keep: no statement after admission inserts a
  row (\<open>shape\<close>), and every transaction moves the database along \<open>db_le\<close>.  From the two, keys,
  references and claims are kept.
\<close>

section \<open>Steps that keep the shape\<close>

lemmas inbox_statement_defs =
  ACTIVATE_GENERATION_def MARK_RUNTIME_ACTIVE_def SUPERSEDE_OLD_CYCLES_def
  CANCEL_SUPERSEDED_DECISIONS_def ACTIVATE_CYCLE_def CLAIM_EVENT_def SUPERSEDE_EVENT_def
  ADVANCE_STALE_CYCLE_def MARK_UNCLAIMED_EVENT_MANUAL_def MARK_CYCLE_MANUAL_def complete_claim_def
  ADVANCE_CYCLE_def SKIP_COMPLETED_CONVERGENCE_EVENTS_def SUPERSEDE_OPEN_CYCLE_EVENTS_def
  STOP_CURRENT_CYCLE_def STOP_CURRENT_RUNTIME_def CLEANUP_CLOSED_CYCLE_EVENTS_def
  MARK_STALE_EVENT_def CANCEL_STALE_DECISIONS_def CANCEL_STALE_SKILL_CALLS_def
  BUMP_SESSION_FENCE_def STOP_IDLE_CYCLES_def SUPERSEDE_IDLE_EVENTS_def CANCEL_IDLE_DECISIONS_def
  CANCEL_IDLE_SKILL_CALLS_def STOP_IDLE_SESSION_def RENEW_EVENT_CLAIM_def PERSIST_LEASE_CONTEXT_def
  SUPERSEDE_OLDER_LEASE_EVENTS_def CANCEL_OLDER_LEASE_DECISIONS_def

text \<open>\<open>keeps\<close>: no row inserted, no UUID drawn, no decision claimed, every row along its order.\<close>

definition keeps :: "db \<Rightarrow> db \<Rightarrow> bool" where
  "keeps s t \<longleftrightarrow> db_le s t \<and> shape t = shape s"

lemma keepsI: "db_le s t \<Longrightarrow> shape t = shape s \<Longrightarrow> keeps s t"
  by (simp add: keeps_def)

lemma keeps_refl [simp]: "keeps s s"
  by (simp add: keeps_def)

lemma keeps_trans: "keeps s t \<Longrightarrow> keeps t u \<Longrightarrow> keeps s u"
  by (auto simp: keeps_def intro: db_le_trans)

lemma keeps_ok:
  "keeps s t \<Longrightarrow> keys_ok t = keys_ok s"
  "keeps s t \<Longrightarrow> refs_ok s \<Longrightarrow> refs_ok t"
  "keeps s t \<Longrightarrow> claims_ok s \<Longrightarrow> claims_ok t"
  by (auto simp: keeps_def keys_ok_shape intro: refs_ok_shape claims_ok_shape)

section \<open>The rows a transaction locks\<close>

lemma in_event_join:
  "(e, c, r) \<in> set (event_join s) \<longleftrightarrow> e \<in> set (events s) \<and> c \<in> set (cycles s) \<and> r \<in> set (sessions s) \<and>
     c_id c = e_cycle e \<and> s_id r = c_runtime c"
  by (auto simp: event_join_def)

text \<open>\<open>locked_rows\<close>: the rows are in the database, and each is the only one with its key.\<close>

definition locked_rows :: "db \<Rightarrow> event_row \<Rightarrow> cycle_row \<Rightarrow> session_row \<Rightarrow> bool" where
  "locked_rows s e c r \<longleftrightarrow> (e, c, r) \<in> set (event_join s) \<and>
     (\<forall>f \<in> set (events s). e_id f = e_id e \<longrightarrow> f = e) \<and>
     (\<forall>d \<in> set (cycles s). c_id d = c_id c \<longrightarrow> d = c) \<and>
     (\<forall>q \<in> set (sessions s). s_id q = s_id r \<longrightarrow> q = r)"

lemma locked_rowsI:
  "keys_ok s \<Longrightarrow> (e, c, r) \<in> set (event_join s) \<Longrightarrow> locked_rows s e c r"
  unfolding locked_rows_def
  by (auto simp: in_event_join dest: event_key_unique cycle_key_unique session_key_unique)

lemma LOCK_CLAIM_CANDIDATE_SomeD:
  assumes "LOCK_CLAIM_CANDIDATE now m locked cy s = Some (e, c, r)"
  shows "(e, c, r) \<in> set (event_join s)" "e_cycle e = cy" "runnable e c" "due now m e"
  using first_by_SomeD(1,2)[OF assms[unfolded LOCK_CLAIM_CANDIDATE_def]] by auto

lemma LOCK_CLAIM_FOR_COMPLETION_SomeD:
  assumes "LOCK_CLAIM_FOR_COMPLETION row tok fe s = Some (e, c, r)"
  shows "(e, c, r) \<in> set (event_join s)" "holds_claim row (Some tok) (Some fe) e"
  using find_SomeD[OF assms[unfolded LOCK_CLAIM_FOR_COMPLETION_def]] by auto

lemma LOCK_EXHAUSTED_CLAIM_SomeD:
  assumes "LOCK_EXHAUSTED_CLAIM now m locked s = Some (e, c, r)"
  shows "(e, c, r) \<in> set (event_join s)" "e_status e = E_processing" "m \<le> e_attempts e"
    "cl_lock_until (e_claim e) \<noteq> None"
  using first_by_SomeD(1,2)[OF assms[unfolded LOCK_EXHAUSTED_CLAIM_def]]
  by (auto split: option.splits)

lemma due_open: "due now m e \<Longrightarrow> open_event (e_status e)"
  by (auto simp: due_def)

section \<open>One statement along \<open>db_le\<close>\<close>

lemma skip_positions_ge: "n \<le> skip_positions fuel cy es n"
proof (induction fuel arbitrary: n)
  case (Suc fuel)
  from Suc[of "n + 1"] show ?case by auto
qed simp

lemma no_claim_token [simp]: "cl_token no_claim = None"
  by (simp add: no_claim_def)

lemmas row_writes = close_event_def retire_event_def cancel_decision_def cancel_call_def claim_row_def

lemma keeps_statements:
  "(\<And>r g. r \<in> set (sessions s) \<Longrightarrow> s_id r = i \<Longrightarrow> s_gen r = Some g \<Longrightarrow> g \<le> gen) \<Longrightarrow>
     keeps s (ACTIVATE_GENERATION i gen s)"
  "keeps s (MARK_RUNTIME_ACTIVE i gen s)"
  "keeps s (SUPERSEDE_OLD_CYCLES i c gen s)"
  "keeps s (CANCEL_SUPERSEDED_DECISIONS now i c gen s)"
  "keeps s (ACTIVATE_CYCLE now c s)"
  "(\<And>e. e \<in> set (events s) \<Longrightarrow> e_id e = row \<Longrightarrow> open_event (e_status e)) \<Longrightarrow>
     keeps s (SUPERSEDE_EVENT now row s)"
  "keeps s (ADVANCE_STALE_CYCLE now c n b s)"
  "(\<And>e. e \<in> set (events s) \<Longrightarrow> e_id e = row \<Longrightarrow> open_event (e_status e)) \<Longrightarrow>
     keeps s (MARK_UNCLAIMED_EVENT_MANUAL now row s)"
  "keeps s (MARK_CYCLE_MANUAL c s)"
  "keeps s (ADVANCE_CYCLE c n s)"
  "keeps s (SKIP_COMPLETED_CONVERGENCE_EVENTS c s)"
  "keeps s (SUPERSEDE_OPEN_CYCLE_EVENTS now c row s)"
  "keeps s (STOP_CURRENT_CYCLE now c n s)"
  "keeps s (STOP_CURRENT_RUNTIME i gen fence s)"
  "keeps s (CLEANUP_CLOSED_CYCLE_EVENTS now s)"
  "keeps s (snd (MARK_STALE_EVENT now row s))"
  "keeps s (CANCEL_STALE_DECISIONS now row s)"
  "keeps s (CANCEL_STALE_SKILL_CALLS now row s)"
  "keeps s (BUMP_SESSION_FENCE i fence s)"
  "keeps s (STOP_IDLE_CYCLES now i go s)"
  "keeps s (SUPERSEDE_IDLE_EVENTS now i go s)"
  "keeps s (CANCEL_IDLE_DECISIONS now i go s)"
  "keeps s (CANCEL_IDLE_SKILL_CALLS now i go s)"
  "keeps s (snd (STOP_IDLE_SESSION i go fence s))"
  "keeps s (snd (RENEW_EVENT_CLAIM now row token fence ttl s))"
  "keeps s (snd (PERSIST_LEASE_CONTEXT v l x c row token fence s))"
  "keeps s (SUPERSEDE_OLDER_LEASE_EVENTS now c row n v l s)"
  "keeps s (CANCEL_OLDER_LEASE_DECISIONS now c v l s)"
  unfolding inbox_statement_defs Let_def snd_conv
  by (rule keepsI,
      (rule db_le_updates; auto simp: row_les row_writes skip_positions_ge closed_cycle_pending_def),
      simp add: shape_def row_writes)+

declare keeps_statements(2-5,7,9-28) [simp]

lemma keeps_complete_claim:
  assumes "\<And>e. e_status e = E_processing \<Longrightarrow>
    event_le e (f e) \<and> cl_token (e_claim (f e)) \<in> {None, cl_token (e_claim e)}"
  shows "keeps s (snd (complete_claim row tok fe f s))"
proof (rule keepsI)
  show "db_le s (snd (complete_claim row tok fe f s))"
    unfolding complete_claim_def snd_conv
    by (rule db_le_events, unfold holds_claim_def) (use assms in blast)
qed (simp add: complete_claim_def shape_def)

lemma keeps_completes [simp]:
  "keeps s (snd (COMPLETE_SUCCEEDED now row tok fe s))"
  "keeps s (snd (COMPLETE_RETRYABLE now row tok fe er delay s))"
  "keeps s (snd (COMPLETE_DEAD_LETTER now row tok fe er s))"
  "keeps s (snd (COMPLETE_MANUAL now row tok fe er s))"
  unfolding COMPLETE_SUCCEEDED_def COMPLETE_RETRYABLE_def COMPLETE_DEAD_LETTER_def COMPLETE_MANUAL_def
  by (rule keeps_complete_claim, simp add: event_le_def row_writes)+

lemmas keeps_then [intro!] =
  keeps_statements(2-5,7,9-28)[THEN keeps_trans[rotated]] keeps_completes[THEN keeps_trans[rotated]]

section \<open>The transactions\<close>

lemma locked_open:
  "locked_rows s e c r \<Longrightarrow> open_event (e_status e) \<Longrightarrow> f \<in> set (events s) \<Longrightarrow> e_id f = e_id e \<Longrightarrow>
   open_event (e_status f)"
  by (auto simp: locked_rows_def)

lemma keeps_supersede_locked:
  assumes "locked_rows s e c r" and "open_event (e_status e)"
  shows "keeps s (supersede_locked_event now e s)"
  unfolding supersede_locked_event_def
  by (rule keeps_trans[OF keeps_statements(6) keeps_statements(7)])
     (use locked_open[OF assms] in blast)

lemma keeps_skip_completed [simp]: "keeps s (skip_completed_convergence_events e c s)"
  by (simp add: skip_completed_convergence_events_def)

lemmas keeps_skip_completed_then [intro!] = keeps_skip_completed[THEN keeps_trans[rotated]]

lemma keeps_enter_generation:
  assumes "locked_rows s e c r"
  shows "keeps s (snd (enter_generation now (event_disposition e r) e c r s))"
proof -
  have "g \<le> e_gen e"
    if "event_disposition e r = Activate_new" "q \<in> set (sessions s)" "s_id q = s_id r" "s_gen q = Some g"
    for q g
  proof -
    from assms that(2,3) have "q = r" by (auto simp: locked_rows_def)
    with that(1,4) show ?thesis
      by (auto simp: event_disposition_def classify_generation_cases split: if_splits)
  qed
  then have "event_disposition e r = Activate_new \<Longrightarrow> keeps s (ACTIVATE_GENERATION (s_id r) (e_gen e) s)"
    by (blast intro: keeps_statements(1))
  then show ?thesis
    by (auto simp: enter_generation_def)
qed

lemma db_le_CLAIM_EVENT:
  assumes "draw_uuid s = (token, s')"
  shows "db_le s (snd (CLAIM_EVENT now m row token fence ttl w s'))"
proof -
  let ?t = "snd (CLAIM_EVENT now m row token fence ttl w s')"
  have d: "token = next_uuid s" "s' = s\<lparr>next_uuid := Suc (next_uuid s)\<rparr>"
    using assms by (auto simp: draw_uuid_def)
  have "evolves event_le (events s) (events ?t)"
    unfolding CLAIM_EVENT_def d snd_conv
    by (simp, rule event_rows.evolves_update_where) (auto simp: event_le_def claim_row_def due_def)
  moreover have "event_claims ?t \<subseteq> event_claims s \<union> {(i, k). k = token}"
    unfolding event_claims_def CLAIM_EVENT_def snd_conv claims_of_def d
    by (auto simp: set_update_where claim_row_def split: if_splits)
  moreover have "next_uuid ?t = Suc (next_uuid s)" "sessions ?t = sessions s" "cycles ?t = cycles s"
    "decisions ?t = decisions s" "calls ?t = calls s" "trackings ?t = trackings s"
    by (simp_all add: CLAIM_EVENT_def d)
  ultimately show ?thesis
    by (auto simp: db_le_def evolves_refls decision_claims_def d)
qed

end
