(* ===== verification/Terminal.thy ===== *)
theory Terminal
  imports InboxFacts
begin

text \<open>
  Skill calls (\<open>terminal_repository.py\<close>, \<open>terminal_effect_service.py\<close>): recording that a skill
  started and how it ended, and applying the end to the tracked action.

  \<open>gateway_id, decision_id\<close> and \<open>gateway_id, skill_call_id\<close> are unique keys, so a lookup by them is
  a \<open>find\<close>; nothing in the schema makes \<open>decision_row_id\<close> unique, so that lookup is \<open>one_or_none\<close>
  and may raise.
\<close>

section \<open>Results\<close>

datatype mutation_disposition = M_applied | M_idempotent | M_conflict | M_missing | M_fenced

record mutation_result =
  mr_disposition :: mutation_disposition
  mr_category :: "string option"

definition result :: "mutation_disposition \<Rightarrow> mutation_result" where
  "result d = \<lparr>mr_disposition = d, mr_category = None\<rparr>"

definition failure :: "mutation_disposition \<Rightarrow> string \<Rightarrow> mutation_result" where
  "failure d category = \<lparr>mr_disposition = d, mr_category = Some category\<rparr>"

record terminal_record =
  tr_status :: call_status
  tr_failure :: "string option"
  tr_reason :: "string option"
  tr_retryable :: "bool option"
  tr_event :: "string option"

definition logical_result ::
  "terminal_record \<Rightarrow> call_status \<times> string option \<times> string option \<times> bool option" where
  "logical_result r = (tr_status r, tr_failure r, tr_reason r, tr_retryable r)"

record terminal_transition =
  tt_disposition :: mutation_disposition
  tt_record :: terminal_record

definition UNCONFIRMED_COMPLETION_REASONS :: "string set" where
  "UNCONFIRMED_COMPLETION_REASONS = {''completion_unconfirmed'', ''vehicle_completion_unconfirmed''}"

fun normalize_skill_terminal :: "skill_terminal \<Rightarrow> terminal_record" where
  "normalize_skill_terminal T_success =
     \<lparr>tr_status = K_succeeded, tr_failure = None, tr_reason = None, tr_retryable = None, tr_event = None\<rparr>"
| "normalize_skill_terminal (T_failed category reason retryable) =
     \<lparr>tr_status = K_failed, tr_failure = Some category, tr_reason = Some reason,
      tr_retryable = Some (retryable \<and> reason \<notin> UNCONFIRMED_COMPLETION_REASONS), tr_event = None\<rparr>"
| "normalize_skill_terminal (T_cancelled reason retryable) =
     \<lparr>tr_status = K_cancelled, tr_failure = None, tr_reason = Some reason,
      tr_retryable = Some (retryable \<and> reason \<notin> UNCONFIRMED_COMPLETION_REASONS), tr_event = None\<rparr>"
| "normalize_skill_terminal (T_timeout reason retryable) =
     \<lparr>tr_status = K_timeout, tr_failure = None, tr_reason = Some reason,
      tr_retryable = Some (retryable \<and> reason \<notin> UNCONFIRMED_COMPLETION_REASONS), tr_event = None\<rparr>"

definition resolve_terminal_transition ::
  "terminal_record \<Rightarrow> terminal_record \<Rightarrow> terminal_transition" where
  "resolve_terminal_transition existing incoming =
     (if open_call (tr_status existing)
      then \<lparr>tt_disposition = M_applied, tt_record = incoming\<rparr>
      else if logical_result existing = logical_result incoming
      then \<lparr>tt_disposition = M_idempotent, tt_record = existing\<rparr>
      else if tr_status existing = K_manual
      then \<lparr>tt_disposition = M_conflict, tt_record = existing\<rparr>
      else \<lparr>tt_disposition = M_conflict, tt_record =
              \<lparr>tr_status = K_manual, tr_failure = Some ''internal_failed'',
               tr_reason = Some ''terminal_conflict'', tr_retryable = Some False,
               tr_event = tr_event existing\<rparr>\<rparr>)"

section \<open>Statements\<close>

definition LOCK_DECISION :: "string \<Rightarrow> string \<Rightarrow> db \<Rightarrow> decision_row option" where
  "LOCK_DECISION gateway i s =
     find (\<lambda>d. d_gateway d = gateway \<and> d_decision_id d = i) (decisions s)"

definition LOCK_SKILL_CALL :: "string \<Rightarrow> string \<Rightarrow> db \<Rightarrow> call_row option" where
  "LOCK_SKILL_CALL gateway i s = find (\<lambda>k. k_gateway k = gateway \<and> k_call_id k = i) (calls s)"

definition LOCK_SKILL_CALL_FOR_DECISION :: "uuid \<Rightarrow> db \<Rightarrow> db_error + call_row option" where
  "LOCK_SKILL_CALL_FOR_DECISION row s = one_or_none (\<lambda>k. k_decision k = row) (calls s)"

text \<open>The unique keys of the skill calls.\<close>

definition call_conflicts :: "call_row \<Rightarrow> call_row \<Rightarrow> bool" where
  "call_conflicts k l \<longleftrightarrow> (k_gateway k = k_gateway l \<and> k_call_id k = k_call_id l) \<or>
     (k_terminal_event k \<noteq> None \<and> k_terminal_event k = k_terminal_event l)"

definition insert_call :: "call_row \<Rightarrow> db \<Rightarrow> db_error + db" where
  "insert_call k s =
     (if \<exists>l \<in> set (calls s). call_conflicts k l then Inl Integrity_Error
      else Inr (s\<lparr>calls := calls s @ [k]\<rparr>))"

definition INSERT_STARTED ::
  "msec \<Rightarrow> uuid \<Rightarrow> decision_row \<Rightarrow> string \<Rightarrow> string \<Rightarrow> string \<Rightarrow> string \<Rightarrow> string \<Rightarrow> db \<Rightarrow> db_error + db" where
  "INSERT_STARTED now tenant d gateway sid decision_id call_id skill s =
     (let (i, s) = draw_uuid s in
      insert_call
        \<lparr>k_id = i, k_tenant = tenant, k_decision = d_id d, k_terminal_event = None,
         k_gateway = gateway, k_session = sid, k_decision_id = decision_id, k_call_id = call_id,
         k_skill = skill, k_status = K_started, k_failure = None, k_reason = None,
         k_retryable = None, k_effect = Eff_not_applicable, k_effect_at = None, k_created_at = now,
         k_started_at = Some now, k_completed_at = None\<rparr> s)"

definition MARK_STARTED :: "msec \<Rightarrow> uuid \<Rightarrow> db \<Rightarrow> db" where
  "MARK_STARTED now row s =
     s\<lparr>calls := update_where (\<lambda>k. k_id k = row \<and> k_status k = K_pending)
        (\<lambda>k. k\<lparr>k_status := K_started, k_started_at := coalesce (k_started_at k) now\<rparr>) (calls s)\<rparr>"

definition INSERT_TERMINAL ::
  "msec \<Rightarrow> uuid \<Rightarrow> decision_row \<Rightarrow> uuid \<Rightarrow> string \<Rightarrow> string \<Rightarrow> string \<Rightarrow> string \<Rightarrow> string \<Rightarrow>
   terminal_record \<Rightarrow> effect_status \<Rightarrow> db \<Rightarrow> db_error + uuid \<times> db" where
  "INSERT_TERMINAL now tenant d event gateway sid decision_id call_id skill r eff s =
     (let (i, s) = draw_uuid s in
      case insert_call
        \<lparr>k_id = i, k_tenant = tenant, k_decision = d_id d, k_terminal_event = Some event,
         k_gateway = gateway, k_session = sid, k_decision_id = decision_id, k_call_id = call_id,
         k_skill = skill, k_status = tr_status r, k_failure = tr_failure r, k_reason = tr_reason r,
         k_retryable = tr_retryable r, k_effect = eff, k_effect_at = None, k_created_at = now,
         k_started_at = None, k_completed_at = Some now\<rparr> s of
        Inl er \<Rightarrow> Inl er
      | Inr s \<Rightarrow> Inr (i, s))"

definition UPDATE_TERMINAL ::
  "msec \<Rightarrow> uuid \<Rightarrow> uuid \<Rightarrow> terminal_record \<Rightarrow> effect_status \<Rightarrow> db \<Rightarrow> db_error + bool \<times> db" where
  "UPDATE_TERMINAL now row event r eff s =
     (let hit = (\<lambda>k. k_id k = row \<and> open_call (k_status k)) in
      if (\<exists>k \<in> set (calls s). hit k) \<and>
         (\<exists>l \<in> set (calls s). k_id l \<noteq> row \<and> k_terminal_event l = Some event)
      then Inl Integrity_Error
      else Inr (\<exists>k \<in> set (calls s). hit k,
        s\<lparr>calls := update_where hit
           (\<lambda>k. k\<lparr>k_terminal_event := Some event, k_status := tr_status r, k_failure := tr_failure r,
              k_reason := tr_reason r, k_retryable := tr_retryable r, k_effect := eff,
              k_completed_at := Some now\<rparr>) (calls s)\<rparr>))"

definition conflict_call :: "msec \<Rightarrow> string \<Rightarrow> string \<Rightarrow> call_row \<Rightarrow> call_row" where
  "conflict_call now category reason k =
     k\<lparr>k_status := K_manual, k_failure := Some category, k_reason := Some reason,
       k_retryable := Some False, k_completed_at := coalesce (k_completed_at k) now\<rparr>"

definition MARK_TERMINAL_CONFLICT :: "msec \<Rightarrow> uuid \<Rightarrow> db \<Rightarrow> db" where
  "MARK_TERMINAL_CONFLICT now row s =
     s\<lparr>calls := update_where (\<lambda>k. k_id k = row)
        (conflict_call now ''internal_failed'' ''terminal_conflict'') (calls s)\<rparr>"

definition MARK_EFFECT_APPLIED :: "msec \<Rightarrow> uuid \<Rightarrow> db \<Rightarrow> bool \<times> db" where
  "MARK_EFFECT_APPLIED now row s =
     (\<exists>k \<in> set (calls s). k_id k = row \<and> k_effect k = Eff_pending,
      s\<lparr>calls := update_where (\<lambda>k. k_id k = row \<and> k_effect k = Eff_pending)
         (\<lambda>k. k\<lparr>k_effect := Eff_applied, k_effect_at := Some now\<rparr>) (calls s)\<rparr>)"

section \<open>The effect on the tracked action\<close>

fun tracking_status_for_terminal :: "call_status \<Rightarrow> db_error + tracking_status" where
  "tracking_status_for_terminal K_succeeded = Inr Tr_completed"
| "tracking_status_for_terminal K_failed = Inr Tr_abandoned"
| "tracking_status_for_terminal K_cancelled = Inr Tr_abandoned"
| "tracking_status_for_terminal K_timeout = Inr Tr_timeout"
| "tracking_status_for_terminal _ = Inl (Value_Error ''unsupported terminal status'')"

definition UPDATE_ACTION_TRACKING :: "msec \<Rightarrow> uuid \<Rightarrow> tracking_status \<Rightarrow> db \<Rightarrow> bool \<times> db" where
  "UPDATE_ACTION_TRACKING now i st s =
     (\<exists>t \<in> set (trackings s). t_id t = i \<and> t_status t = Tr_tracking,
      s\<lparr>trackings := update_where (\<lambda>t. t_id t = i \<and> t_status t = Tr_tracking)
         (\<lambda>t. t\<lparr>t_status := st, t_completed_at := Some now\<rparr>) (trackings s)\<rparr>)"

definition terminal_effect :: "msec \<Rightarrow> uuid \<Rightarrow> call_status \<Rightarrow> db \<Rightarrow> db_error + db" where
  "terminal_effect now i terminal_status s =
     (case tracking_status_for_terminal terminal_status of
        Inl er \<Rightarrow> Inl er
      | Inr st \<Rightarrow>
          (case UPDATE_ACTION_TRACKING now i st s of
             (False, _) \<Rightarrow> Inl (Runtime_Error ''action tracking terminal effect was not applied'')
           | (True, s) \<Rightarrow> Inr s))"

definition apply_effect ::
  "msec \<Rightarrow> uuid \<Rightarrow> uuid option \<Rightarrow> call_status \<Rightarrow> db \<Rightarrow> db_error + db" where
  "apply_effect now call_id tracking terminal_status s =
     (case tracking of
        None \<Rightarrow> Inr s
      | Some i \<Rightarrow>
          (case terminal_effect now i terminal_status s of
             Inl er \<Rightarrow> Inl er
           | Inr s \<Rightarrow>
               (case MARK_EFFECT_APPLIED now call_id s of
                  (False, _) \<Rightarrow> Inl (Runtime_Error ''skill-call terminal effect was not committed'')
                | (True, s) \<Rightarrow> Inr s)))"

section \<open>Started and finished\<close>

definition decision_skill_name :: "decision_row \<Rightarrow> string option" where
  "decision_skill_name d =
     (case d_action d of
        A_stop_hosting \<Rightarrow> Some ''stop_hosting''
      | A_call_skill \<Rightarrow>
          (case json_get (d_body d) ''skillName'' of
             Some (JStr n) \<Rightarrow> if n = [] then None else Some n
           | _ \<Rightarrow> None)
      | _ \<Rightarrow> None)"

definition call_matches_identity :: "call_row \<Rightarrow> decision_row \<Rightarrow> string \<Rightarrow> string \<Rightarrow> bool" where
  "call_matches_identity k d sid skill \<longleftrightarrow> k_decision k = d_id d \<and> k_decision_id k = d_decision_id d \<and>
     k_session k = sid \<and> k_skill k = skill"

definition terminal_from_row :: "call_row \<Rightarrow> terminal_record" where
  "terminal_from_row k = \<lparr>tr_status = k_status k, tr_failure = k_failure k, tr_reason = k_reason k,
     tr_retryable = k_retryable k, tr_event = None\<rparr>"

text \<open>The transition never reads the event of the stored record, so the row's is left out here.\<close>

text \<open>
  Both operations begin by finding the decision and the call of the event and checking that they
  belong together; the result of that part is a refusal, or the decision, the skill and the call.
\<close>

definition locate_call ::
  "claimed_event \<Rightarrow> string \<Rightarrow> string \<Rightarrow> string \<Rightarrow> db \<Rightarrow>
   db_error + (mutation_result + decision_row \<times> string \<times> call_row option)" where
  "locate_call claimed decision_id call_id skill_name s =
     (case LOCK_DECISION (ce_gateway claimed) decision_id s of
        None \<Rightarrow> Inr (Inl (failure M_missing ''missing_decision''))
      | Some d \<Rightarrow>
          (case decision_skill_name d of
             None \<Rightarrow> Inr (Inl (failure M_conflict ''decision_action_mismatch''))
           | Some skill \<Rightarrow>
               if d_session d \<noteq> ev_session (ce_body claimed) \<or> skill_name \<noteq> skill
               then Inr (Inl (failure M_conflict ''skill_call_identity_conflict''))
               else
                 (case LOCK_SKILL_CALL_FOR_DECISION (d_id d) s of
                    Inl er \<Rightarrow> Inl er
                  | Inr (Some k) \<Rightarrow>
                      if k_call_id k \<noteq> call_id
                      then Inr (Inl (failure M_conflict ''skill_call_identity_conflict''))
                      else Inr (Inr (d, skill, Some k))
                  | Inr None \<Rightarrow> Inr (Inr (d, skill, LOCK_SKILL_CALL (ce_gateway claimed) call_id s)))))"

definition record_skill_started :: "msec \<Rightarrow> claimed_event \<Rightarrow> db \<Rightarrow> db_error + mutation_result \<times> db" where
  "record_skill_started now claimed s =
     (case ev_payload (ce_body claimed) of
        Started_skill decision_id call_id skill_name \<Rightarrow>
          (case locate_call claimed decision_id call_id skill_name s of
             Inl er \<Rightarrow> Inl er
           | Inr (Inl refusal) \<Rightarrow> Inr (refusal, s)
           | Inr (Inr (d, skill, None)) \<Rightarrow>
               (case INSERT_STARTED now (ce_tenant claimed) d (ce_gateway claimed) (ce_session claimed)
                       decision_id call_id skill s of
                  Inl er \<Rightarrow> Inl er
                | Inr s \<Rightarrow> Inr (result M_applied, s))
           | Inr (Inr (d, skill, Some k)) \<Rightarrow>
               if \<not> call_matches_identity k d (ev_session (ce_body claimed)) skill_name
               then Inr (failure M_conflict ''skill_call_identity_conflict'', s)
               else if k_status k = K_pending then Inr (result M_applied, MARK_STARTED now (k_id k) s)
               else if k_status k \<in> {K_started, K_succeeded, K_failed, K_cancelled, K_timeout}
               then Inr (result M_idempotent, s)
               else Inr (failure M_conflict ''skill_call_state_conflict'', s))
      | _ \<Rightarrow> Inl (Value_Error ''skill_started event is required''))"

definition finish_call ::
  "msec \<Rightarrow> claimed_event \<Rightarrow> decision_row \<Rightarrow> call_row \<Rightarrow> terminal_record \<Rightarrow> effect_status \<Rightarrow> db \<Rightarrow>
   db_error + mutation_result \<times> db" where
  "finish_call now claimed d k incoming eff s =
     (case tt_disposition (resolve_terminal_transition (terminal_from_row k) incoming) of
        M_idempotent \<Rightarrow> Inr (result M_idempotent, s)
      | M_conflict \<Rightarrow>
          Inr (failure M_conflict ''terminal_conflict'', MARK_TERMINAL_CONFLICT now (k_id k) s)
      | _ \<Rightarrow>
          (case UPDATE_TERMINAL now (k_id k) (ce_row claimed) incoming eff s of
             Inl er \<Rightarrow> Inl er
           | Inr (False, s) \<Rightarrow> Inr (failure M_conflict ''terminal_state_changed'', s)
           | Inr (True, s) \<Rightarrow>
               (case apply_effect now (k_id k) (d_tracking d) (tr_status incoming) s of
                  Inl er \<Rightarrow> Inl er
                | Inr s \<Rightarrow> Inr (result M_applied, s))))"

definition record_skill_finished :: "msec \<Rightarrow> claimed_event \<Rightarrow> db \<Rightarrow> db_error + mutation_result \<times> db" where
  "record_skill_finished now claimed s =
     (case ev_payload (ce_body claimed) of
        Finished_skill decision_id call_id skill_name terminal \<Rightarrow>
          let incoming = (normalize_skill_terminal terminal)\<lparr>tr_event := Some (ev_id (ce_body claimed))\<rparr> in
          (case locate_call claimed decision_id call_id skill_name s of
             Inl er \<Rightarrow> Inl er
           | Inr (Inl refusal) \<Rightarrow> Inr (refusal, s)
           | Inr (Inr (d, skill, found)) \<Rightarrow>
               let eff = (if d_tracking d \<noteq> None then Eff_pending else Eff_not_applicable) in
               (case found of
                  Some k \<Rightarrow>
                    if \<not> call_matches_identity k d (ev_session (ce_body claimed)) skill_name
                    then Inr (failure M_conflict ''skill_call_identity_conflict'', s)
                    else finish_call now claimed d k incoming eff s
                | None \<Rightarrow>
                    (case INSERT_TERMINAL now (ce_tenant claimed) d (ce_row claimed) (ce_gateway claimed)
                            (ce_session claimed) decision_id call_id skill incoming eff s of
                       Inl er \<Rightarrow> Inl er
                     | Inr (i, s) \<Rightarrow>
                         (case apply_effect now i (d_tracking d) (tr_status incoming) s of
                            Inl er \<Rightarrow> Inl er
                          | Inr s \<Rightarrow> Inr (result M_applied, s)))))
      | _ \<Rightarrow> Inl (Value_Error ''skill_finished event is required''))"

end
