(* ===== verification/TerminalFacts.thy ===== *)
theory TerminalFacts
  imports Terminal
begin

text \<open>
  What recording a skill's end guarantees: the first terminal wins, redelivery is idempotent, a late
  start changes nothing, a second and different terminal sends the call to manual review, and the
  tracked action is closed exactly with the end that was recorded.
\<close>

section \<open>One call per decision\<close>

definition call_links :: "db \<Rightarrow> bool" where
  "call_links s \<longleftrightarrow> distinct (map k_decision (calls s)) \<and> distinct (map d_id (decisions s)) \<and>
     distinct (map (\<lambda>d. (d_gateway d, d_decision_id d)) (decisions s)) \<and>
     (\<forall>k \<in> set (calls s). \<exists>d \<in> set (decisions s). d_id d = k_decision k \<and>
        d_gateway d = k_gateway k \<and> d_decision_id d = k_decision_id k)"

lemma one_or_none_key:
  assumes "distinct (map key t)" and "k \<in> set t"
  shows "one_or_none (\<lambda>q. key q = key k) t = Inr (Some k)"
proof -
  have "filter (\<lambda>q. key q = key k) t = [k]"
    using assms by (induction t) (auto simp: filter_empty_conv image_iff)
  then show ?thesis by (simp add: one_or_none.simps)
qed

lemma LOCK_DECISION_SomeD:
  "LOCK_DECISION gw i s = Some d \<Longrightarrow> d \<in> set (decisions s) \<and> d_gateway d = gw \<and> d_decision_id d = i"
  by (auto simp: LOCK_DECISION_def dest: find_SomeD)

lemma locate_call_cases:
  assumes "locate_call claimed i c n s = Inr (Inr (d, skill, found))"
  shows "LOCK_DECISION (ce_gateway claimed) i s = Some d" "decision_skill_name d = Some skill" "n = skill"
    "d_session d = ev_session (ce_body claimed)"
    "(LOCK_SKILL_CALL_FOR_DECISION (d_id d) s = Inr found \<and> found \<noteq> None \<and> k_call_id (the found) = c) \<or>
     (LOCK_SKILL_CALL_FOR_DECISION (d_id d) s = Inr None \<and> found = LOCK_SKILL_CALL (ce_gateway claimed) c s)"
  using assms by (auto simp: locate_call_def split: option.splits if_splits sum.splits)

lemma locate_call_hit:
  assumes "call_links s" and "LOCK_DECISION (ce_gateway claimed) i s = Some d"
    and "decision_skill_name d = Some n" and "d_session d = ev_session (ce_body claimed)"
    and "k \<in> set (calls s)" and "k_decision k = d_id d" and "k_call_id k = c"
  shows "locate_call claimed i c n s = Inr (Inr (d, n, Some k))"
proof -
  have "LOCK_SKILL_CALL_FOR_DECISION (d_id d) s = Inr (Some k)"
    using one_or_none_key[of k_decision "calls s" k] assms(1,5,6)
    by (simp add: LOCK_SKILL_CALL_FOR_DECISION_def call_links_def)
  with assms show ?thesis by (simp add: locate_call_def)
qed

text \<open>Only the effect columns of a call differ.\<close>

definition same_call :: "call_row \<Rightarrow> call_row \<Rightarrow> bool" where
  "same_call k l \<longleftrightarrow> (\<exists>x y. k = l\<lparr>k_effect := x, k_effect_at := y\<rparr>)"

lemma same_call_fields:
  assumes "same_call k l"
  shows "k_id k = k_id l" "k_decision k = k_decision l" "k_gateway k = k_gateway l"
    "k_decision_id k = k_decision_id l" "k_call_id k = k_call_id l" "k_session k = k_session l"
    "k_skill k = k_skill l" "k_terminal_event k = k_terminal_event l"
    "terminal_from_row k = terminal_from_row l" "k_status k = k_status l"
proof -
  obtain x y where "k = l\<lparr>k_effect := x, k_effect_at := y\<rparr>"
    using assms unfolding same_call_def by blast
  then show "k_id k = k_id l" "k_decision k = k_decision l" "k_gateway k = k_gateway l"
    "k_decision_id k = k_decision_id l" "k_call_id k = k_call_id l" "k_session k = k_session l"
    "k_skill k = k_skill l" "k_terminal_event k = k_terminal_event l"
    "terminal_from_row k = terminal_from_row l" "k_status k = k_status l"
    by (simp_all add: terminal_from_row_def)
qed

lemma same_call_refl [simp]: "same_call k k"
  unfolding same_call_def by (intro exI[of _ "k_effect k"] exI[of _ "k_effect_at k"]) simp

lemma apply_effect_eq:
  assumes "apply_effect now i tracking st s = Inr t"
  shows "(tracking = None \<and> t = s) \<or>
    (\<exists>j st'. tracking = Some j \<and> tracking_status_for_terminal st = Inr st' \<and>
       (\<exists>a \<in> set (trackings s). t_id a = j \<and> t_status a = Tr_tracking) \<and>
       t = s\<lparr>trackings := update_where (\<lambda>x. t_id x = j \<and> t_status x = Tr_tracking)
             (\<lambda>x. x\<lparr>t_status := st', t_completed_at := Some now\<rparr>) (trackings s),
           calls := update_where (\<lambda>k. k_id k = i \<and> k_effect k = Eff_pending)
             (\<lambda>k. k\<lparr>k_effect := Eff_applied, k_effect_at := Some now\<rparr>) (calls s)\<rparr>)"
  using assms
  by (auto simp: apply_effect_def terminal_effect_def UPDATE_ACTION_TRACKING_def MARK_EFFECT_APPLIED_def
      split: option.splits sum.splits prod.splits bool.splits)

lemma apply_effect_outcome:
  assumes "apply_effect now i tracking st s = Inr t"
  shows "decisions t = decisions s" and "list_all2 same_call (calls t) (calls s)"
proof -
  have upd: "list_all2 same_call (update_where P (\<lambda>k. k\<lparr>k_effect := e, k_effect_at := at\<rparr>) ks) ks" for P e at ks
    unfolding update_where_def list_all2_map1
    by (rule list.rel_refl) (auto simp: same_call_def intro: same_call_refl[unfolded same_call_def])
  from apply_effect_eq[OF assms]
  show "decisions t = decisions s" "list_all2 same_call (calls t) (calls s)"
    by (auto simp: upd list.rel_refl)
qed

lemma apply_effect_row:
  assumes "apply_effect now (k_id k) tracking st s = Inr t" and "k \<in> set (calls s)"
    and "k_effect k = (if tracking \<noteq> None then Eff_pending else Eff_not_applicable)"
  shows "\<exists>l \<in> set (calls t). same_call l k \<and>
    k_effect l = (if tracking \<noteq> None then Eff_applied else Eff_not_applicable)"
proof (cases tracking)
  case None
  with apply_effect_eq[OF assms(1)] assms(2,3) show ?thesis by (auto intro!: bexI[of _ k])
next
  case (Some j)
  let ?l = "k\<lparr>k_effect := Eff_applied, k_effect_at := Some now\<rparr>"
  from apply_effect_eq[OF assms(1)] Some have
    "calls t = update_where (\<lambda>l. k_id l = k_id k \<and> k_effect l = Eff_pending)
      (\<lambda>k. k\<lparr>k_effect := Eff_applied, k_effect_at := Some now\<rparr>) (calls s)" by auto
  moreover have "?l \<in> set (update_where (\<lambda>l. k_id l = k_id k \<and> k_effect l = Eff_pending)
      (\<lambda>k. k\<lparr>k_effect := Eff_applied, k_effect_at := Some now\<rparr>) (calls s))"
    by (rule update_where_in(1)[OF assms(2)]) (simp add: assms(3) Some)
  ultimately have "?l \<in> set (calls t)" by simp
  with Some show ?thesis by (auto simp: same_call_def elim!: rev_bexI)
qed

lemma call_links_same:
  assumes "list_all2 same_call (calls t) (calls s)" and "decisions t = decisions s" and "call_links s"
  shows "call_links t"
proof -
  have "map k_decision (calls t) = map k_decision (calls s)"
    unfolding list_eq_iff_nth_eq using assms(1)
    by (auto simp: list_all2_conv_all_nth same_call_fields(2))
  moreover have "\<exists>d \<in> set (decisions t). d_id d = k_decision k \<and> d_gateway d = k_gateway k \<and>
      d_decision_id d = k_decision_id k" if k: "k \<in> set (calls t)" for k
  proof -
    from k obtain j where "j < length (calls t)" "calls t ! j = k" by (auto simp: in_set_conv_nth)
    with assms(1) have "same_call k (calls s ! j)" "calls s ! j \<in> set (calls s)"
      by (auto simp: list_all2_conv_all_nth)
    then obtain l where l: "l \<in> set (calls s)" "same_call k l" by blast
    note f = same_call_fields(2,3,4)[OF l(2)]
    from assms(3) l(1) show ?thesis unfolding call_links_def f assms(2) by blast
  qed
  ultimately show ?thesis using assms(2,3) by (simp add: call_links_def)
qed

lemma call_links_append:
  assumes "call_links s" and "LOCK_SKILL_CALL_FOR_DECISION (d_id d) s = Inr None" and "d \<in> set (decisions s)"
    and "k_decision k = d_id d" and "k_gateway k = d_gateway d" and "k_decision_id k = d_decision_id d"
    and "calls t = calls s @ [k]" and "decisions t = decisions s"
  shows "call_links t"
proof -
  have "\<forall>l \<in> set (calls s). k_decision l \<noteq> d_id d"
    using one_or_none_NoneD[OF assms(2)[unfolded LOCK_SKILL_CALL_FOR_DECISION_def]] by auto
  with assms show ?thesis by (auto simp: call_links_def)
qed

lemma call_links_update:
  assumes "call_links s" and "calls t = update_where P f (calls s)" and "decisions t = decisions s"
    and "\<And>k. k_decision (f k) = k_decision k \<and> k_gateway (f k) = k_gateway k \<and>
      k_decision_id (f k) = k_decision_id k"
  shows "call_links t"
  using assms by (auto simp: call_links_def map_update_where set_update_where)

section \<open>Recording an end\<close>

definition recorded_end ::
  "claimed_event \<Rightarrow> string \<Rightarrow> string \<Rightarrow> string \<Rightarrow> skill_terminal \<Rightarrow> decision_row \<Rightarrow> call_row \<Rightarrow> db \<Rightarrow> bool" where
  "recorded_end claimed i c n fin d k t \<longleftrightarrow>
     LOCK_DECISION (ce_gateway claimed) i t = Some d \<and> decision_skill_name d = Some n \<and>
     d_session d = ev_session (ce_body claimed) \<and> k \<in> set (calls t) \<and>
     call_matches_identity k d (ev_session (ce_body claimed)) n \<and> k_call_id k = c \<and>
     logical_result (terminal_from_row k) = logical_result (normalize_skill_terminal fin) \<and>
     k_terminal_event k = Some (ce_row claimed) \<and>
     k_effect k = (if d_tracking d = None then Eff_not_applicable else Eff_applied)"

lemma normalize_closed: "\<not> open_call (tr_status (normalize_skill_terminal fin))"
  by (cases fin) simp_all

lemma logical_result_event [simp]: "logical_result (r\<lparr>tr_event := x\<rparr>) = logical_result r"
  by (simp add: logical_result_def)

lemma LOCK_DECISION_decisions: "decisions t = decisions s \<Longrightarrow> LOCK_DECISION gw i t = LOCK_DECISION gw i s"
  by (simp add: LOCK_DECISION_def)

lemma finished_applied:
  assumes links: "call_links s"
    and payload: "ev_payload (ce_body claimed) = Finished_skill i c n fin"
    and sess: "ce_session claimed = ev_session (ce_body claimed)"
    and run: "record_skill_finished now claimed s = Inr (res, t)" and ok: "mr_disposition res = M_applied"
  shows "\<exists>d k. recorded_end claimed i c n fin d k t \<and> call_links t \<and> decisions t = decisions s \<and>
    (\<forall>j. d_tracking d = Some j \<longrightarrow> (\<exists>a \<in> set (trackings t). t_id a = j \<and>
       tracking_status_for_terminal (tr_status (normalize_skill_terminal fin)) = Inr (t_status a)))"
proof -
  let ?r = "(normalize_skill_terminal fin)\<lparr>tr_event := Some (ev_id (ce_body claimed))\<rparr>"
  from run ok payload obtain d skill found where
    loc: "locate_call claimed i c n s = Inr (Inr (d, skill, found))"
    by (auto simp: record_skill_finished_def failure_def locate_call_def Let_def
        split: sum.splits option.splits if_splits)
  note L = locate_call_cases[OF loc]
  let ?eff = "if d_tracking d \<noteq> None then Eff_pending else Eff_not_applicable"
  have d: "d \<in> set (decisions s)" "d_gateway d = ce_gateway claimed" "d_decision_id d = i"
    using LOCK_DECISION_SomeD[OF L(1)] by auto
  have "\<exists>k s1. k \<in> set (calls s1) \<and> apply_effect now (k_id k) (d_tracking d) (tr_status ?r) s1 = Inr t \<and>
      call_links s1 \<and> decisions s1 = decisions s \<and> k_effect k = ?eff \<and>
      call_matches_identity k d (ev_session (ce_body claimed)) n \<and> k_call_id k = c \<and>
      k_terminal_event k = Some (ce_row claimed) \<and>
      logical_result (terminal_from_row k) = logical_result ?r"
  proof (cases found)
    case None
    with L(5) have none: "LOCK_SKILL_CALL_FOR_DECISION (d_id d) s = Inr None" by auto
    let ?k = "\<lparr>k_id = next_uuid s, k_tenant = ce_tenant claimed, k_decision = d_id d,
      k_terminal_event = Some (ce_row claimed), k_gateway = ce_gateway claimed,
      k_session = ce_session claimed, k_decision_id = i, k_call_id = c,
      k_skill = skill, k_status = tr_status ?r, k_failure = tr_failure ?r, k_reason = tr_reason ?r,
      k_retryable = tr_retryable ?r, k_effect = ?eff, k_effect_at = None, k_created_at = now,
      k_started_at = None, k_completed_at = Some now\<rparr>"
    let ?s1 = "s\<lparr>next_uuid := Suc (next_uuid s), calls := calls s @ [?k]\<rparr>"
    from run payload loc None have "apply_effect now (k_id ?k) (d_tracking d) (tr_status ?r) ?s1 = Inr t"
      by (auto simp: record_skill_finished_def Let_def INSERT_TERMINAL_def draw_uuid_def insert_call_def
          split: sum.splits if_splits)
    moreover have "call_links ?s1"
      by (rule call_links_append[OF links none d(1), of ?k]) (simp_all add: d)
    ultimately show ?thesis
      using L(3) sess d
      by (intro exI[of _ ?k] exI[of _ ?s1])
         (simp add: call_matches_identity_def terminal_from_row_def logical_result_def)
  next
    case (Some k)
    from L(5) Some consider "LOCK_SKILL_CALL_FOR_DECISION (d_id d) s = Inr (Some k)" "k_call_id k = c"
      | "LOCK_SKILL_CALL (ce_gateway claimed) c s = Some k" by auto
    then have k: "k \<in> set (calls s)" "k_call_id k = c"
      by (cases; auto simp: LOCK_SKILL_CALL_FOR_DECISION_def LOCK_SKILL_CALL_def
          dest: one_or_none_SomeD find_SomeD)+
    let ?f = "\<lambda>k. k\<lparr>k_terminal_event := Some (ce_row claimed), k_status := tr_status ?r,
      k_failure := tr_failure ?r, k_reason := tr_reason ?r, k_retryable := tr_retryable ?r,
      k_effect := ?eff, k_completed_at := Some now\<rparr>"
    let ?s1 = "s\<lparr>calls := update_where (\<lambda>l. k_id l = k_id k \<and> open_call (k_status l)) ?f (calls s)\<rparr>"
    from run payload loc Some ok have m: "call_matches_identity k d (ev_session (ce_body claimed)) n"
      and fc: "finish_call now claimed d k ?r ?eff s = Inr (res, t)"
      by (auto simp: record_skill_finished_def Let_def failure_def split: if_splits)
    have o: "open_call (k_status k)"
      using fc ok
      by (auto simp: finish_call_def resolve_terminal_transition_def terminal_from_row_def result_def
          failure_def split: if_splits)
    with fc ok have "apply_effect now (k_id (?f k)) (d_tracking d) (tr_status ?r) ?s1 = Inr t"
      by (auto simp: finish_call_def resolve_terminal_transition_def terminal_from_row_def
          UPDATE_TERMINAL_def Let_def failure_def split: if_splits sum.splits bool.splits prod.splits)
    moreover have "?f k \<in> set (calls ?s1)"
      using update_where_in(1)[OF k(1), of "\<lambda>l. k_id l = k_id k \<and> open_call (k_status l)" ?f] o by simp
    moreover have "call_links ?s1"
      by (rule call_links_update[OF links, where f = ?f and P = "\<lambda>l. k_id l = k_id k \<and> open_call (k_status l)"])
         simp_all
    ultimately show ?thesis
      using m k(2)
      by (intro exI[of _ "?f k"] exI[of _ ?s1])
         (simp add: call_matches_identity_def terminal_from_row_def logical_result_def)
  qed
  then obtain k s1 where k: "k \<in> set (calls s1)" "call_links s1" "decisions s1 = decisions s" "k_effect k = ?eff"
    "call_matches_identity k d (ev_session (ce_body claimed)) n" "k_call_id k = c"
    "k_terminal_event k = Some (ce_row claimed)" "logical_result (terminal_from_row k) = logical_result ?r"
    and app: "apply_effect now (k_id k) (d_tracking d) (tr_status ?r) s1 = Inr t" by blast
  note A = apply_effect_outcome[OF app]
  from apply_effect_row[OF app k(1,4)] obtain l where l: "l \<in> set (calls t)" "same_call l k"
    "k_effect l = (if d_tracking d \<noteq> None then Eff_applied else Eff_not_applicable)" by blast
  have "recorded_end claimed i c n fin d l t"
    using l k L A(1) same_call_fields[OF l(2)] LOCK_DECISION_decisions[of t s "ce_gateway claimed" i]
    by (auto simp: recorded_end_def call_matches_identity_def)
  moreover have "\<exists>a \<in> set (trackings t). t_id a = j \<and>
      tracking_status_for_terminal (tr_status (normalize_skill_terminal fin)) = Inr (t_status a)"
    if j: "d_tracking d = Some j" for j
  proof -
    from apply_effect_eq[OF app] j obtain st' a where
      st: "tracking_status_for_terminal (tr_status (normalize_skill_terminal fin)) = Inr st'"
      and a: "a \<in> set (trackings s1)" "t_id a = j" "t_status a = Tr_tracking"
      and t: "trackings t = update_where (\<lambda>x. t_id x = j \<and> t_status x = Tr_tracking)
             (\<lambda>x. x\<lparr>t_status := st', t_completed_at := Some now\<rparr>) (trackings s1)" by auto
    have "a\<lparr>t_status := st', t_completed_at := Some now\<rparr> \<in> set (trackings t)"
      unfolding t by (rule update_where_in(1)[OF a(1)]) (simp add: a)
    with st a(2) show ?thesis by (auto elim!: rev_bexI)
  qed
  ultimately show ?thesis using call_links_same[OF A(2,1) k(2)] A(1) k(3) by auto
qed

text \<open>\<open>reports\<close>: a claimed event that reports on the same call as another.\<close>

definition same_report :: "claimed_event \<Rightarrow> claimed_event \<Rightarrow> bool" where
  "same_report a b \<longleftrightarrow> ce_gateway a = ce_gateway b \<and> ev_session (ce_body a) = ev_session (ce_body b)"

lemma recorded_end_located:
  assumes "recorded_end claimed i c n fin d k t" and "call_links t" and "same_report other claimed"
  shows "locate_call other i c n t = Inr (Inr (d, n, Some k))"
    and "call_matches_identity k d (ev_session (ce_body other)) n"
proof -
  show "locate_call other i c n t = Inr (Inr (d, n, Some k))"
    by (rule locate_call_hit)
       (use assms in \<open>auto simp: recorded_end_def same_report_def call_matches_identity_def\<close>)
  show "call_matches_identity k d (ev_session (ce_body other)) n"
    using assms(1,3) by (simp add: recorded_end_def same_report_def)
qed

lemma recorded_end_closed:
  assumes "recorded_end claimed i c n fin d k t"
  shows "\<not> open_call (k_status k)" and "k_status k \<noteq> K_manual"
  using assms by (cases fin; auto simp: recorded_end_def logical_result_def terminal_from_row_def)+

text \<open>
  C35: the first end of a skill is recorded once.  When \<open>record_skill_finished\<close> applies a terminal,
  the call of the decision holds exactly that terminal, bound to the reporting event, and an action
  tracked for the decision is closed with the matching status; delivering the same terminal again,
  by the same event or another one, is idempotent and leaves the database as it is.
\<close>

theorem first_terminal_recorded_once:
  assumes links: "call_links s"
    and payload: "ev_payload (ce_body claimed) = Finished_skill i c n fin"
    and sess: "ce_session claimed = ev_session (ce_body claimed)"
    and run: "record_skill_finished now claimed s = Inr (res, t)" and ok: "mr_disposition res = M_applied"
  shows "(\<exists>d k. recorded_end claimed i c n fin d k t \<and>
      (\<forall>j. d_tracking d = Some j \<longrightarrow> (\<exists>a \<in> set (trackings t). t_id a = j \<and>
         tracking_status_for_terminal (tr_status (normalize_skill_terminal fin)) = Inr (t_status a)))) \<and>
    (\<forall>other now'. same_report other claimed \<and> ev_payload (ce_body other) = Finished_skill i c n fin \<longrightarrow>
      record_skill_finished now' other t = Inr (result M_idempotent, t))"
proof -
  from finished_applied[OF assms] obtain d k where r: "recorded_end claimed i c n fin d k t" "call_links t"
    and tr: "\<forall>j. d_tracking d = Some j \<longrightarrow> (\<exists>a \<in> set (trackings t). t_id a = j \<and>
       tracking_status_for_terminal (tr_status (normalize_skill_terminal fin)) = Inr (t_status a))" by blast
  have "record_skill_finished now' other t = Inr (result M_idempotent, t)"
    if "same_report other claimed" "ev_payload (ce_body other) = Finished_skill i c n fin" for other now'
  proof -
    note l = recorded_end_located[OF r that(1)]
    have "logical_result (terminal_from_row k) = logical_result (normalize_skill_terminal fin)"
      using r(1) by (simp add: recorded_end_def)
    then show ?thesis
      using l that(2) recorded_end_closed(1)[OF r(1)]
      by (simp add: record_skill_finished_def finish_call_def resolve_terminal_transition_def Let_def
          terminal_from_row_def)
  qed
  with r(1) tr show ?thesis by blast
qed

text \<open>
  A start that arrives after the end changes nothing.  Once a terminal is recorded for a call,
  \<open>record_skill_started\<close> for that call is idempotent: the order in which the two events of a skill
  are processed does not show in what is stored of the end.
\<close>

theorem late_start_changes_nothing:
  assumes "call_links s"
    and "ev_payload (ce_body claimed) = Finished_skill i c n fin"
    and "ce_session claimed = ev_session (ce_body claimed)"
    and "record_skill_finished now claimed s = Inr (res, t)" and "mr_disposition res = M_applied"
    and "same_report other claimed" and "ev_payload (ce_body other) = Started_skill i c n"
  shows "record_skill_started now' other t = Inr (result M_idempotent, t)"
proof -
  from finished_applied[OF assms(1-5)] obtain d k where r: "recorded_end claimed i c n fin d k t" "call_links t"
    by blast
  note l = recorded_end_located[OF r assms(6)]
  have "k_status k \<in> {K_succeeded, K_failed, K_cancelled, K_timeout}"
    using recorded_end_closed[OF r(1)] by (cases "k_status k") simp_all
  with l assms(7) show ?thesis by (auto simp: record_skill_started_def)
qed

text \<open>
  Contradictory ends need a human.  After a terminal is recorded, another event reporting a
  different terminal of the same call is a conflict: the call goes to manual review with no retry,
  and the tracked actions stay as the first terminal left them.
\<close>

theorem contradictory_end_goes_manual:
  assumes "call_links s"
    and "ev_payload (ce_body claimed) = Finished_skill i c n fin"
    and "ce_session claimed = ev_session (ce_body claimed)"
    and "record_skill_finished now claimed s = Inr (res, t)" and "mr_disposition res = M_applied"
    and "same_report other claimed" and "ev_payload (ce_body other) = Finished_skill i c n fin'"
    and "logical_result (normalize_skill_terminal fin') \<noteq> logical_result (normalize_skill_terminal fin)"
  shows "\<exists>u k. record_skill_finished now' other t = Inr (failure M_conflict ''terminal_conflict'', u) \<and>
    k \<in> set (calls u) \<and> k_gateway k = ce_gateway claimed \<and> k_call_id k = c \<and> k_status k = K_manual \<and>
    k_retryable k = Some False \<and> trackings u = trackings t"
proof -
  from finished_applied[OF assms(1-5)] obtain d k where r: "recorded_end claimed i c n fin d k t" "call_links t"
    by blast
  note l = recorded_end_located[OF r assms(6)]
  have lr: "logical_result (terminal_from_row k) = logical_result (normalize_skill_terminal fin)"
    and k: "k \<in> set (calls t)" "k_call_id k = c" "k_decision k = d_id d"
    and d: "LOCK_DECISION (ce_gateway claimed) i t = Some d"
    and m: "k_decision_id k = d_decision_id d"
    using r(1) by (simp_all add: recorded_end_def call_matches_identity_def)
  let ?u = "MARK_TERMINAL_CONFLICT now' (k_id k) t"
  let ?k = "conflict_call now' ''internal_failed'' ''terminal_conflict'' k"
  have "record_skill_finished now' other t = Inr (failure M_conflict ''terminal_conflict'', ?u)"
    using l assms(7,8) lr recorded_end_closed[OF r(1)]
    by (simp add: record_skill_finished_def finish_call_def resolve_terminal_transition_def Let_def
        terminal_from_row_def)
  moreover have "?k \<in> set (calls ?u)"
    using update_where_in(1)[OF k(1), of "\<lambda>l. k_id l = k_id k"
        "conflict_call now' ''internal_failed'' ''terminal_conflict''"]
    by (simp add: MARK_TERMINAL_CONFLICT_def)
  moreover have "k_gateway k = ce_gateway claimed"
  proof -
    from r(2) k(1) obtain e where e: "e \<in> set (decisions t)" "d_gateway e = k_gateway k"
      "d_decision_id e = k_decision_id k" "d_id e = k_decision k" by (auto simp: call_links_def)
    have d': "d \<in> set (decisions t)" "d_gateway d = ce_gateway claimed" using LOCK_DECISION_SomeD[OF d] by auto
    have "e = d"
      using r(2) e(1,4) d'(1) k(3) by (auto simp: call_links_def distinct_map dest: inj_onD)
    with e(2) d'(2) show ?thesis by simp
  qed
  ultimately show ?thesis
    using k(2) by (intro exI[of _ ?u] exI[of _ ?k]) (simp add: conflict_call_def MARK_TERMINAL_CONFLICT_def)
qed

lemma UPDATE_TERMINAL_missed:
  assumes "UPDATE_TERMINAL now i row rec eff s = Inr (False, t)"
  shows "t = s"
proof -
  from assms have no: "\<not> (\<exists>k \<in> set (calls s). k_id k = i \<and> open_call (k_status k))"
    by (auto simp: UPDATE_TERMINAL_def Let_def split: if_splits)
  have "update_where (\<lambda>k. k_id k = i \<and> open_call (k_status k)) f (calls s) = calls s" for f
    using no by (auto simp: update_where_def intro!: map_idI)
  with assms show ?thesis by (auto simp: UPDATE_TERMINAL_def Let_def split: if_splits)
qed

lemma refused_end_writes_nothing:
  assumes "finish_call now claimed d k incoming eff s = Inr (res, t)"
    and "mr_disposition res \<noteq> M_applied" and "mr_category res \<noteq> Some ''terminal_conflict''"
  shows "t = s"
  using assms
  by (auto simp: finish_call_def result_def failure_def dest!: UPDATE_TERMINAL_missed
      split: mutation_disposition.splits sum.splits bool.splits)

text \<open>
  A report that is refused or already known writes nothing.  If \<open>record_skill_finished\<close> answers
  missing, idempotent, or a conflict other than contradictory ends, the database is unchanged.
\<close>

theorem refused_report_changes_nothing:
  assumes "record_skill_finished now claimed s = Inr (res, t)"
    and "mr_disposition res \<noteq> M_applied" and "mr_category res \<noteq> Some ''terminal_conflict''"
  shows "t = s"
  using assms
  by (auto simp: record_skill_finished_def Let_def result_def failure_def
      split: event_payload.splits sum.splits option.splits if_splits prod.splits
      dest: refused_end_writes_nothing)

section \<open>Witnesses\<close>

text \<open>
  One decision with a tracked action, three reports on its skill call, and the properties of
  terminal recording applied to them.
\<close>

section \<open>The reports\<close>

definition skill_decision :: decision_row where
  "skill_decision = \<lparr>d_id = 7, d_tenant = 1, d_cycle = 2, d_source = 3, d_tracking = Some 8,
     d_gateway = ''gw'', d_session = ''room'', d_decision_id = ''dec-1'', d_lease = ''lease-1'', d_gen = 1,
     d_state_version = 1, d_lease_expires = None, d_action = A_call_skill,
     d_body = JObj [(''skillName'', JStr ''dance'')], d_bytes = [], d_hash = [], d_status = D_accepted,
     d_attempts = 1, d_next_at = 0, d_claim = no_claim, d_response = no_response, d_error = (None, None),
     d_binding = None, d_capacity = None, d_usage = no_usage, d_created_at = 0, d_sent_at = None, d_completed_at = None\<rparr>"

definition tracked_action :: tracking_row where
  "tracked_action = \<lparr>t_id = 8, t_tenant = 1, t_user = ''u'', t_type = ''dance'', t_status = Tr_tracking,
     t_completed_at = None\<rparr>"

definition skill_db :: db where
  "skill_db = empty_db\<lparr>decisions := [skill_decision], trackings := [tracked_action], next_uuid := 20\<rparr>"

definition report :: "uuid \<Rightarrow> event_payload \<Rightarrow> claimed_event" where
  "report row p = \<lparr>ce_row = row, ce_tenant = 1, ce_cycle = 2, ce_gateway = ''gw'', ce_session = ''room'',
     ce_event_id = ''evt'', ce_type = payload_type p, ce_gen = 1, ce_seq = 5,
     ce_body = \<lparr>ev_id = ''evt'', ev_session = ''room'', ev_generation = 1, ev_sequence = 5,
       ev_state_version = 2, ev_lease = None, ev_occurred_at = 900, ev_payload = p\<rparr>,
     ce_hash = [], ce_trace = [], ce_token = 15, ce_fence = 1, ce_attempts = 1, ce_locked_by = ''w1'',
     ce_lock_until = 3000, ce_historical = False\<rparr>"

definition succeeded_report :: claimed_event where
  "succeeded_report = report 11 (Finished_skill ''dec-1'' ''call-1'' ''dance'' T_success)"

definition timeout_report :: claimed_event where
  "timeout_report = report 12 (Finished_skill ''dec-1'' ''call-1'' ''dance'' (T_timeout ''slow'' True))"

definition started_report :: claimed_event where
  "started_report = report 13 (Started_skill ''dec-1'' ''call-1'' ''dance'')"

definition skill_recorded :: db where
  "skill_recorded = snd (projr (record_skill_finished 1000 succeeded_report skill_db))"

lemma skill_recorded_result:
  "record_skill_finished 1000 succeeded_report skill_db = Inr (result M_applied, skill_recorded)"
proof -
  let ?r = "record_skill_finished 1000 succeeded_report skill_db"
  have "?r = Inr (projr ?r)" by (rule Inr_projr) code_simp
  moreover have "fst (projr ?r) = result M_applied" by code_simp
  ultimately show ?thesis by (metis prod.collapse skill_recorded_def)
qed

lemma skill_links: "call_links skill_db"
  by code_simp

lemma reports_simps [simp]:
  "ev_payload (ce_body succeeded_report) = Finished_skill ''dec-1'' ''call-1'' ''dance'' T_success"
  "ev_payload (ce_body timeout_report) = Finished_skill ''dec-1'' ''call-1'' ''dance'' (T_timeout ''slow'' True)"
  "ev_payload (ce_body started_report) = Started_skill ''dec-1'' ''call-1'' ''dance''"
  "ce_session succeeded_report = ev_session (ce_body succeeded_report)"
  "same_report succeeded_report succeeded_report" "same_report timeout_report succeeded_report"
  "same_report started_report succeeded_report" "mr_disposition (result d) = d"
  by (simp_all add: succeeded_report_def timeout_report_def started_report_def report_def
      same_report_def result_def)

section \<open>The properties applied\<close>

theorem first_terminal_recorded_once_witness:
  "record_skill_finished 1100 succeeded_report skill_recorded = Inr (result M_idempotent, skill_recorded)"
  using first_terminal_recorded_once[OF skill_links _ _ skill_recorded_result] by simp

theorem contradictory_end_goes_manual_witness:
  "\<exists>u k. record_skill_finished 1200 timeout_report skill_recorded =
      Inr (failure M_conflict ''terminal_conflict'', u) \<and>
     k \<in> set (calls u) \<and> k_status k = K_manual \<and> k_retryable k = Some False"
proof -
  have "logical_result (normalize_skill_terminal (T_timeout ''slow'' True)) \<noteq>
      logical_result (normalize_skill_terminal T_success)"
    by (simp add: logical_result_def)
  from contradictory_end_goes_manual[OF skill_links _ _ skill_recorded_result _ _ _ this, where other = timeout_report]
  show ?thesis by simp blast
qed

end
