(* ===== verification/Canonical.thy ===== *)
theory Canonical
  imports Prelude "HOL-Library.List_Lexorder" "HOL-Library.Char_ord" "HOL-Library.AList"
begin

text \<open>
  The canonical JSON text of a value (\<open>canonical.py\<close>): \<open>json.dumps\<close> with sorted keys and no white
  space, encoded as UTF-8, and \<open>json.loads\<close>, which reads such a text back (\<open>plan_runtime.py\<close>).

  A string is the list of its UTF-8 bytes, so the order of the keys is the order of the bytes, which
  for UTF-8 is the order of the code points Python sorts by.  The type \<open>json\<close> has no floating point
  numbers: a text with one is not read (\<open>None\<close>), nor one with a \<open>\u\<close> escape of a surrogate.
  Python's limit on the depth of a value is left out.
\<close>

section \<open>Numbers and strings\<close>

abbreviation quote_char :: char where "quote_char \<equiv> CHR 0x22"
abbreviation backslash :: char where "backslash \<equiv> CHR 0x5C"

abbreviation code :: "char \<Rightarrow> nat" where "code c \<equiv> of_char c"

definition digit_char :: "nat \<Rightarrow> char" where
  "digit_char d = (if d < 10 then char_of (48 + d) else char_of (87 + d))"

fun nat_str :: "nat \<Rightarrow> string" where
  "nat_str n = (if n < 10 then [digit_char n] else nat_str (n div 10) @ [digit_char (n mod 10)])"

declare nat_str.simps [simp del]

definition int_str :: "int \<Rightarrow> string" where
  "int_str i = (if i < 0 then CHR ''-'' # nat_str (nat (- i)) else nat_str (nat i))"

definition escape_char :: "char \<Rightarrow> string" where
  "escape_char c =
     (if c = quote_char \<or> c = backslash then [backslash, c]
      else if code c = 10 then [backslash, CHR ''n'']
      else if code c = 13 then [backslash, CHR ''r'']
      else if code c = 9 then [backslash, CHR ''t'']
      else if code c = 12 then [backslash, CHR ''f'']
      else if code c = 8 then [backslash, CHR ''b'']
      else if code c < 32
      then [backslash, CHR ''u'', CHR ''0'', CHR ''0'', digit_char (code c div 16), digit_char (code c mod 16)]
      else [c])"

definition quote :: "string \<Rightarrow> string" where
  "quote s = quote_char # concat (map escape_char s) @ [quote_char]"

section \<open>Writing\<close>

fun join :: "char \<Rightarrow> string list \<Rightarrow> string" where
  "join c [] = []"
| "join c [s] = s"
| "join c (s # t # ss) = s @ c # join c (t # ss)"

fun sort_keys :: "json \<Rightarrow> json" where
  "sort_keys (JArr vs) = JArr (map sort_keys vs)"
| "sort_keys (JObj kvs) = JObj (sort_key fst (map (\<lambda>(k, v). (k, sort_keys v)) kvs))"
| "sort_keys v = v"

fun dumps :: "json \<Rightarrow> string" where
  "dumps JNull = ''null''"
| "dumps (JBool b) = (if b then ''true'' else ''false'')"
| "dumps (JInt i) = int_str i"
| "dumps (JStr s) = quote s"
| "dumps (JArr vs) = CHR ''['' # join (CHR '','') (map dumps vs) @ '']''"
| "dumps (JObj kvs) = CHR ''{'' # join (CHR '','') (map (\<lambda>(k, v). quote k @ CHR '':'' # dumps v) kvs) @ ''}''"

definition canonical_json_bytes :: "json \<Rightarrow> string" where
  "canonical_json_bytes v = dumps (sort_keys v)"

section \<open>Reading\<close>

definition json_ws :: "char \<Rightarrow> bool" where
  "json_ws c \<longleftrightarrow> code c \<in> {32, 9, 10, 13}"

abbreviation skip_ws :: "string \<Rightarrow> string" where "skip_ws \<equiv> dropWhile json_ws"

definition digit :: "char \<Rightarrow> bool" where
  "digit c \<longleftrightarrow> 48 \<le> code c \<and> code c \<le> 57"

definition hex_value :: "char \<Rightarrow> nat option" where
  "hex_value c =
     (if digit c then Some (code c - 48)
      else if 97 \<le> code c \<and> code c \<le> 102 then Some (code c - 87)
      else if 65 \<le> code c \<and> code c \<le> 70 then Some (code c - 55) else None)"

fun hex4 :: "string \<Rightarrow> (nat \<times> string) option" where
  "hex4 (a # b # c # d # r) =
     (case (hex_value a, hex_value b, hex_value c, hex_value d) of
        (Some w, Some x, Some y, Some z) \<Rightarrow> Some (((w * 16 + x) * 16 + y) * 16 + z, r)
      | _ \<Rightarrow> None)"
| "hex4 _ = None"

definition utf8 :: "nat \<Rightarrow> string option" where
  "utf8 n =
     (if n < 128 then Some [char_of n]
      else if n < 2048 then Some [char_of (192 + n div 64), char_of (128 + n mod 64)]
      else if 55296 \<le> n \<and> n \<le> 57343 then None
      else Some [char_of (224 + n div 4096), char_of (128 + n div 64 mod 64), char_of (128 + n mod 64)])"

fun unescape :: "string \<Rightarrow> (string \<times> string) option" where
  "unescape [] = None"
| "unescape (c # cs) =
     (if c = quote_char \<or> c = backslash \<or> c = CHR ''/'' then Some ([c], cs)
      else if c = CHR ''n'' then Some ([char_of (10 :: nat)], cs)
      else if c = CHR ''r'' then Some ([char_of (13 :: nat)], cs)
      else if c = CHR ''t'' then Some ([char_of (9 :: nat)], cs)
      else if c = CHR ''f'' then Some ([char_of (12 :: nat)], cs)
      else if c = CHR ''b'' then Some ([char_of (8 :: nat)], cs)
      else if c = CHR ''u'' then
        (case hex4 cs of None \<Rightarrow> None
         | Some (n, r) \<Rightarrow> map_option (\<lambda>u. (u, r)) (utf8 n))
      else None)"

lemma hex4_shorter: "hex4 s = Some (n, r) \<Longrightarrow> length r < length s"
  by (induction s rule: hex4.induct) (auto split: option.splits)

lemma unescape_shorter: "unescape s = Some (u, r) \<Longrightarrow> length r < length s"
  by (cases s) (auto split: if_splits option.splits dest: hex4_shorter)

text \<open>The characters of a string, after its opening quote.\<close>

function parse_chars :: "string \<Rightarrow> (string \<times> string) option" where
  "parse_chars [] = None"
| "parse_chars (c # cs) =
     (if c = quote_char then Some ([], cs)
      else if c = backslash then
        (case unescape cs of None \<Rightarrow> None
         | Some (u, r) \<Rightarrow> map_option (\<lambda>(s, r). (u @ s, r)) (parse_chars r))
      else if code c < 32 then None
      else map_option (\<lambda>(s, r). (c # s, r)) (parse_chars cs))"
  by pat_completeness auto
termination
  by (relation "measure length") (auto dest: unescape_shorter)

fun parse_digits :: "nat \<Rightarrow> string \<Rightarrow> nat \<times> string" where
  "parse_digits a [] = (a, [])"
| "parse_digits a (c # cs) = (if digit c then parse_digits (a * 10 + (code c - 48)) cs else (a, c # cs))"

definition float_follows :: "string \<Rightarrow> bool" where
  "float_follows s \<longleftrightarrow> (case s of [] \<Rightarrow> False | c # _ \<Rightarrow> c \<in> {CHR ''.'', CHR ''e'', CHR ''E''})"

definition parse_nat :: "string \<Rightarrow> (nat \<times> string) option" where
  "parse_nat s = (case s of [] \<Rightarrow> None
     | c # cs \<Rightarrow>
         let found = (if c = CHR ''0'' then Some (0, cs)
                      else if digit c then Some (parse_digits (code c - 48) cs) else None) in
         case found of None \<Rightarrow> None | Some (n, r) \<Rightarrow> if float_follows r then None else Some (n, r))"

definition parse_number :: "string \<Rightarrow> (json \<times> string) option" where
  "parse_number s = (case s of [] \<Rightarrow> None
     | c # cs \<Rightarrow>
         if c = CHR ''-'' then map_option (\<lambda>(n, r). (JInt (- int n), r)) (parse_nat cs)
         else map_option (\<lambda>(n, r). (JInt (int n), r)) (parse_nat s))"

definition parse_word :: "string \<Rightarrow> json \<Rightarrow> string \<Rightarrow> (json \<times> string) option" where
  "parse_word w v s = (if take (length w) s = w then Some (v, drop (length w) s) else None)"

text \<open>A JSON object becomes a \<open>dict\<close>: a key given twice keeps its place and takes the later value.\<close>

definition py_dict :: "(string \<times> json) list \<Rightarrow> (string \<times> json) list" where
  "py_dict kvs = foldl (\<lambda>d (k, v). AList.update k v d) [] kvs"

fun parse_value :: "nat \<Rightarrow> string \<Rightarrow> (json \<times> string) option"
  and parse_members :: "nat \<Rightarrow> string \<Rightarrow> ((string \<times> json) list \<times> string) option"
  and parse_elements :: "nat \<Rightarrow> string \<Rightarrow> (json list \<times> string) option" where
  "parse_value 0 s = None"
| "parse_value (Suc n) s = (case s of [] \<Rightarrow> None
     | c # cs \<Rightarrow>
         if c = quote_char then map_option (\<lambda>(t, r). (JStr t, r)) (parse_chars cs)
         else if c = CHR ''{'' then
           (case skip_ws cs of [] \<Rightarrow> None
            | d # ds \<Rightarrow> if d = CHR ''}'' then Some (JObj [], ds)
                else map_option (\<lambda>(kvs, r). (JObj (py_dict kvs), r)) (parse_members n (d # ds)))
         else if c = CHR ''['' then
           (case skip_ws cs of [] \<Rightarrow> None
            | d # ds \<Rightarrow> if d = CHR '']'' then Some (JArr [], ds)
                else map_option (\<lambda>(vs, r). (JArr vs, r)) (parse_elements n (d # ds)))
         else if c = CHR ''n'' then parse_word ''null'' JNull s
         else if c = CHR ''t'' then parse_word ''true'' (JBool True) s
         else if c = CHR ''f'' then parse_word ''false'' (JBool False) s
         else parse_number s)"
| "parse_members 0 s = None"
| "parse_members (Suc n) s = (case s of [] \<Rightarrow> None
     | c # cs \<Rightarrow>
         if c \<noteq> quote_char then None
         else case parse_chars cs of None \<Rightarrow> None
         | Some (k, r) \<Rightarrow>
         (case skip_ws r of [] \<Rightarrow> None
          | d # ds \<Rightarrow>
              if d \<noteq> CHR '':'' then None
              else case parse_value n (skip_ws ds) of None \<Rightarrow> None
              | Some (v, r) \<Rightarrow>
              (case skip_ws r of [] \<Rightarrow> None
               | e # es \<Rightarrow>
                   if e = CHR '','' then map_option (\<lambda>(kvs, r). ((k, v) # kvs, r)) (parse_members n (skip_ws es))
                   else if e = CHR ''}'' then Some ([(k, v)], es) else None)))"
| "parse_elements 0 s = None"
| "parse_elements (Suc n) s = (case parse_value n s of None \<Rightarrow> None
     | Some (v, r) \<Rightarrow>
         (case skip_ws r of [] \<Rightarrow> None
          | e # es \<Rightarrow>
              if e = CHR '','' then map_option (\<lambda>(vs, r). (v # vs, r)) (parse_elements n (skip_ws es))
              else if e = CHR '']'' then Some ([v], es) else None))"

definition json_loads :: "string \<Rightarrow> json option" where
  "json_loads s = (case parse_value (Suc (length s)) (skip_ws s) of None \<Rightarrow> None
     | Some (v, r) \<Rightarrow> if skip_ws r = [] then Some v else None)"

end
