(* ===== verification/CanonicalFacts.thy ===== *)
theory CanonicalFacts
  imports Canonical "HOL-Library.Multiset"
begin

text \<open>Reading a canonical text gives the value back.\<close>

section \<open>Numbers\<close>

lemma code_digit_char: "d < 10 \<Longrightarrow> code (digit_char d) = 48 + d"
  by (simp add: digit_char_def)

lemma digit_digit_char [simp]: "d < 10 \<Longrightarrow> digit (digit_char d)"
  by (simp add: digit_def code_digit_char)

lemma hex_value_digit_char: "d < 16 \<Longrightarrow> hex_value (digit_char d) = Some d"
  by (auto simp: hex_value_def digit_def digit_char_def)

definition ends_number :: "string \<Rightarrow> bool" where
  "ends_number s \<longleftrightarrow> (case s of [] \<Rightarrow> True | c # _ \<Rightarrow> \<not> digit c \<and> c \<notin> {CHR ''.'', CHR ''e'', CHR ''E''})"

lemma ends_number_digits: "ends_number r \<Longrightarrow> parse_digits a r = (a, r) \<and> \<not> float_follows r"
  by (cases r) (auto simp: ends_number_def float_follows_def)

fun digit_shift :: "nat \<Rightarrow> nat \<Rightarrow> nat" where
  "digit_shift a n = (if n < 10 then a * 10 + n else digit_shift a (n div 10) * 10 + n mod 10)"

declare digit_shift.simps [simp del]

lemma digit_shift_0: "digit_shift 0 n = n"
  by (induction n rule: less_induct) (subst digit_shift.simps, auto)

lemma parse_digits_nat_str: "parse_digits a (nat_str n @ r) = parse_digits (digit_shift a n) r"
proof (induction n arbitrary: r rule: less_induct)
  case (less n)
  show ?case
  proof (cases "n < 10")
    case True
    then show ?thesis by (simp add: nat_str.simps digit_shift.simps code_digit_char)
  next
    case False
    with less[of "n div 10"] show ?thesis
      by (subst nat_str.simps, subst digit_shift.simps) (simp add: code_digit_char)
  qed
qed

lemma nat_str_first:
  "\<exists>d ds. nat_str n = digit_char d # ds \<and> d < 10 \<and> (d = 0 \<longrightarrow> n = 0 \<and> ds = [])"
proof (induction n rule: less_induct)
  case (less n)
  show ?case
  proof (cases "n < 10")
    case True
    then show ?thesis by (subst nat_str.simps) auto
  next
    case False
    with less[of "n div 10"] obtain d ds where
      "nat_str (n div 10) = digit_char d # ds" "d < 10" "d = 0 \<longrightarrow> n div 10 = 0" by auto
    with False show ?thesis by (subst nat_str.simps) auto
  qed
qed

lemma parse_nat_nat_str: "ends_number r \<Longrightarrow> parse_nat (nat_str n @ r) = Some (n, r)"
proof -
  assume r: "ends_number r"
  obtain d ds where f: "nat_str n = digit_char d # ds" "d < 10" "d = 0 \<longrightarrow> n = 0 \<and> ds = []"
    using nat_str_first by metis
  have zero: "digit_char d = CHR ''0'' \<longleftrightarrow> d = 0"
  proof -
    have "digit_char d = CHR ''0'' \<longleftrightarrow> code (digit_char d) = code CHR ''0''" by (simp only: of_char_eq_iff)
    with code_digit_char[OF f(2)] show ?thesis by simp
  qed
  have "parse_digits 0 (nat_str n @ r) = (n, r)"
    using parse_digits_nat_str[of 0 n r] ends_number_digits[OF r] by (simp add: digit_shift_0)
  with f ends_number_digits[OF r] zero show ?thesis
    by (auto simp: parse_nat_def code_digit_char)
qed

lemma parse_number_int_str: "ends_number r \<Longrightarrow> parse_number (int_str i @ r) = Some (JInt i, r)"
proof (cases "i < 0")
  case True
  assume "ends_number r"
  with True show ?thesis by (simp add: int_str_def parse_number_def parse_nat_nat_str)
next
  case False
  assume r: "ends_number r"
  obtain d ds where f: "nat_str (nat i) = digit_char d # ds" "d < 10" using nat_str_first by metis
  have "digit_char d \<noteq> CHR ''-''" using code_digit_char[OF f(2)] by auto
  with f have "parse_number (nat_str (nat i) @ r) = map_option (\<lambda>(n, r). (JInt (int n), r)) (parse_nat (nat_str (nat i) @ r))"
    by (simp add: parse_number_def)
  with False r show ?thesis by (simp add: int_str_def parse_nat_nat_str)
qed

section \<open>Strings\<close>

lemma parse_escaped: "parse_chars (escape_char c @ r) = map_option (\<lambda>(s, r). (c # s, r)) (parse_chars r)"
proof -
  have chars: "code c = n \<Longrightarrow> c = char_of n" for n by auto
  show ?thesis
  proof (cases "code c < 32")
    case True
    then have "code c div 16 < 16" "code c mod 16 < 16" "code c div 16 * 16 + code c mod 16 = code c" by auto
    moreover have "c \<noteq> quote_char" "c \<noteq> backslash" using True by auto
    ultimately show ?thesis
      using True
      by (auto simp: escape_char_def hex_value_digit_char hex_value_def[of "CHR ''0''"] digit_def utf8_def
          dest!: chars)
  next
    case False
    then show ?thesis by (auto simp: escape_char_def)
  qed
qed

lemma parse_chars_quoted: "parse_chars (concat (map escape_char s) @ quote_char # r) = Some (s, r)"
  by (induction s) (simp_all add: parse_escaped)

section \<open>Values\<close>

text \<open>A \<open>dict\<close> has each key once.\<close>

fun wf_json :: "json \<Rightarrow> bool" where
  "wf_json (JArr vs) = list_all wf_json vs"
| "wf_json (JObj kvs) = (distinct (map fst kvs) \<and> list_all (\<lambda>(k, v). wf_json v) kvs)"
| "wf_json _ = True"

lemma update_fresh: "k \<notin> fst ` set ds \<Longrightarrow> AList.update k v ds = ds @ [(k, v)]"
  by (induction ds) auto

lemma py_dict_distinct: "distinct (map fst kvs) \<Longrightarrow> py_dict kvs = kvs"
proof -
  have "foldl (\<lambda>d (k, v). AList.update k v d) ds kvs = ds @ kvs" if "distinct (map fst (ds @ kvs))" for ds
    using that
  proof (induction kvs arbitrary: ds)
    case (Cons kv kvs)
    obtain k v where kv: "kv = (k, v)" by (cases kv)
    have "AList.update k v ds = ds @ [(k, v)]" using Cons.prems kv by (intro update_fresh) auto
    with Cons kv show ?case by simp
  qed simp
  from this[of "[]"] show "distinct (map fst kvs) \<Longrightarrow> py_dict kvs = kvs" by (simp add: py_dict_def)
qed

definition first_of_value :: "char \<Rightarrow> bool" where
  "first_of_value c \<longleftrightarrow> \<not> json_ws c \<and> c \<noteq> CHR '']'' \<and> c \<noteq> CHR ''}''"

lemma first_of_digit: "d < 10 \<Longrightarrow> first_of_value (digit_char d) \<and> digit_char d \<notin> {quote_char, CHR ''{'', CHR ''['', CHR ''n'', CHR ''t'', CHR ''f''}"
  using code_digit_char[of d] by (auto simp: first_of_value_def json_ws_def)

lemma dumps_first: "\<exists>c cs. dumps v = c # cs \<and> first_of_value c"
proof (cases v)
  case (JInt i)
  obtain d ds where "nat_str (nat i) = digit_char d # ds" "d < 10" using nat_str_first by metis
  with JInt first_of_digit show ?thesis
    by (auto simp: int_str_def first_of_value_def json_ws_def)
qed (auto simp: quote_def first_of_value_def json_ws_def)

lemma int_str_first:
  "\<exists>c cs. int_str i = c # cs \<and> c \<notin> {quote_char, CHR ''{'', CHR ''['', CHR ''n'', CHR ''t'', CHR ''f''}"
proof -
  obtain d ds where "nat_str (nat i) = digit_char d # ds" "d < 10" using nat_str_first by metis
  with first_of_digit[of d] show ?thesis by (auto simp: int_str_def)
qed

lemma skip_ws_dumps [simp]: "skip_ws (dumps v @ r) = dumps v @ r"
  using dumps_first[of v] by (auto simp: first_of_value_def)

lemma skip_ws_quote [simp]: "skip_ws (quote k @ r) = quote k @ r"
  by (simp add: quote_def json_ws_def)

definition reads_back :: "json \<Rightarrow> bool" where
  "reads_back v \<longleftrightarrow> (\<forall>n r. length (dumps v) \<le> n \<longrightarrow> ends_number r \<longrightarrow> parse_value n (dumps v @ r) = Some (v, r))"

lemma reads_backD:
  "reads_back v \<Longrightarrow> length (dumps v) \<le> n \<Longrightarrow> ends_number r \<Longrightarrow> parse_value n (dumps v @ r) = Some (v, r)"
  by (simp add: reads_back_def)

lemma parse_elements_join:
  assumes "\<forall>v \<in> set vs. reads_back v" and "vs \<noteq> []" and "length (join (CHR '','') (map dumps vs)) < n"
  shows "parse_elements n (join (CHR '','') (map dumps vs) @ CHR '']'' # r) = Some (vs, r)"
  using assms
proof (induction vs arbitrary: n)
  case (Cons v vs)
  then obtain m where n: "n = Suc m" by (cases n) auto
  show ?case
  proof (cases vs)
    case Nil
    have "parse_value m (dumps v @ CHR '']'' # r) = Some (v, CHR '']'' # r)"
      using Cons.prems Nil n by (auto simp: reads_back_def ends_number_def digit_def)
    with Nil n show ?thesis by (simp add: json_ws_def)
  next
    case (Cons w ws)
    let ?rest = "join (CHR '','') (map dumps vs)"
    have "parse_value m (dumps v @ CHR '','' # ?rest @ CHR '']'' # r) = Some (v, CHR '','' # ?rest @ CHR '']'' # r)"
      using Cons.prems Cons n by (auto simp: reads_back_def ends_number_def digit_def)
    moreover have "skip_ws (?rest @ CHR '']'' # r) = ?rest @ CHR '']'' # r"
      using Cons dumps_first[of w] by (cases ws) (auto simp: first_of_value_def)
    moreover have "parse_elements m (?rest @ CHR '']'' # r) = Some (vs, r)"
      using Cons.prems Cons n by (intro Cons.IH) auto
    ultimately show ?thesis using Cons n by (simp add: json_ws_def)
  qed
qed simp

abbreviation member_text :: "string \<times> json \<Rightarrow> string" where
  "member_text \<equiv> \<lambda>(k, v). quote k @ CHR '':'' # dumps v"

lemma parse_member:
  assumes "reads_back v" and "length (member_text (k, v)) \<le> n" and "ends_number r"
  shows "parse_members (Suc n) (member_text (k, v) @ r) =
    (case skip_ws r of [] \<Rightarrow> None
     | e # es \<Rightarrow> if e = CHR '','' then map_option (\<lambda>(kvs, r). ((k, v) # kvs, r)) (parse_members n (skip_ws es))
         else if e = CHR ''}'' then Some ([(k, v)], es) else None)"
proof -
  have "parse_value n (dumps v @ r) = Some (v, r)" using assms by (simp add: reads_back_def)
  then show ?thesis by (simp add: quote_def parse_chars_quoted json_ws_def)
qed

lemma parse_members_join:
  assumes "\<forall>(k, v) \<in> set kvs. reads_back v" and "kvs \<noteq> []"
    and "length (join (CHR '','') (map member_text kvs)) < n"
  shows "parse_members n (join (CHR '','') (map member_text kvs) @ CHR ''}'' # r) = Some (kvs, r)"
  using assms
proof (induction kvs arbitrary: n)
  case (Cons kv kvs)
  then obtain m where n: "n = Suc m" by (cases n) auto
  obtain k v where kv: "kv = (k, v)" by (cases kv)
  show ?case
  proof (cases kvs)
    case Nil
    have "parse_members (Suc m) (member_text (k, v) @ CHR ''}'' # r) = Some ([(k, v)], r)"
      using Cons.prems Nil n kv by (subst parse_member) (auto simp: ends_number_def digit_def json_ws_def)
    with Nil n kv show ?thesis by simp
  next
    case (Cons w ws)
    let ?rest = "join (CHR '','') (map member_text kvs)"
    have skip: "skip_ws (?rest @ CHR ''}'' # r) = ?rest @ CHR ''}'' # r"
      using Cons by (cases ws; cases w) (simp_all add: quote_def json_ws_def)
    have IH: "parse_members m (?rest @ CHR ''}'' # r) = Some (kvs, r)"
      using Cons.prems Cons n kv by (intro Cons.IH) auto
    have "parse_members (Suc m) (member_text (k, v) @ CHR '','' # ?rest @ CHR ''}'' # r) = Some ((k, v) # kvs, r)"
      using Cons.prems Cons n kv skip IH
      by (subst parse_member) (auto simp: ends_number_def digit_def json_ws_def)
    with Cons n kv show ?thesis by simp
  qed
qed simp

lemma reads_back_all: "wf_json v \<Longrightarrow> reads_back v"
proof (induction v)
  case (JInt i)
  obtain c cs where "int_str i = c # cs" "c \<notin> {quote_char, CHR ''{'', CHR ''['', CHR ''n'', CHR ''t'', CHR ''f''}"
    using int_str_first by metis
  then have num: "parse_value (Suc m) (int_str i @ r) = parse_number (int_str i @ r)" for m r by simp
  show ?case
    unfolding reads_back_def dumps.simps
  proof (intro allI impI)
    fix n r assume "length (int_str i) \<le> n" "ends_number r"
    moreover from this obtain m where "n = Suc m"
      using int_str_first[of i] by (cases n) auto
    ultimately show "parse_value n (int_str i @ r) = Some (JInt i, r)"
      by (simp only: num parse_number_int_str)
  qed
next
  case (JArr vs)
  have IH: "\<forall>v \<in> set vs. reads_back v" using JArr by (auto simp: list_all_iff)
  show ?case
    unfolding reads_back_def
  proof (intro allI impI)
    fix n r assume n: "length (dumps (JArr vs)) \<le> n"
    then obtain m where m: "n = Suc m" by (cases n) auto
    show "parse_value n (dumps (JArr vs) @ r) = Some (JArr vs, r)"
    proof (cases vs)
      case Nil
      then show ?thesis by (simp add: m json_ws_def)
    next
      case (Cons w ws)
      let ?t = "join (CHR '','') (map dumps vs)"
      obtain c cs where t: "?t = c # cs" "first_of_value c"
        using Cons dumps_first[of w] by (cases ws) auto
      have "parse_elements m (?t @ CHR '']'' # r) = Some (vs, r)"
        using n m Cons by (intro parse_elements_join[OF IH]) auto
      with t show ?thesis by (simp add: m first_of_value_def)
    qed
  qed
next
  case (JObj kvs)
  have IH: "\<forall>(k, v) \<in> set kvs. reads_back v" using JObj by (fastforce simp: list_all_iff)
  show ?case
    unfolding reads_back_def
  proof (intro allI impI)
    fix n r assume n: "length (dumps (JObj kvs)) \<le> n"
    then obtain m where m: "n = Suc m" by (cases n) auto
    show "parse_value n (dumps (JObj kvs) @ r) = Some (JObj kvs, r)"
    proof (cases kvs)
      case Nil
      then show ?thesis by (simp add: m json_ws_def)
    next
      case (Cons w ws)
      let ?t = "join (CHR '','') (map member_text kvs)"
      obtain c cs where t: "?t = c # cs" "c = quote_char"
        using Cons by (cases ws; cases w) (auto simp: quote_def)
      have "parse_members m (?t @ CHR ''}'' # r) = Some (kvs, r)"
        using n m Cons by (intro parse_members_join[OF IH]) auto
      with t JObj.prems show ?thesis by (simp add: m json_ws_def py_dict_distinct)
    qed
  qed
next
  case (JStr s)
  then show ?case
    by (auto simp: reads_back_def quote_def parse_chars_quoted dest!: Suc_le_D)
next
  case (JBool b)
  then show ?case by (auto simp: reads_back_def parse_word_def dest!: Suc_le_D)
next
  case JNull
  then show ?case by (auto simp: reads_back_def parse_word_def dest!: Suc_le_D)
qed

lemma json_loads_dumps_ws: "wf_json v \<Longrightarrow> list_all json_ws r \<Longrightarrow> json_loads (dumps v @ r) = Some v"
proof -
  assume v: "wf_json v" and r: "list_all json_ws r"
  have "ends_number r" using r by (cases r) (auto simp: ends_number_def json_ws_def digit_def)
  from reads_backD[OF reads_back_all[OF v], of "Suc (length (dumps v @ r))", OF _ this]
  have "parse_value (Suc (length (dumps v @ r))) (dumps v @ r) = Some (v, r)" by simp
  moreover have "skip_ws r = []" using r by (simp add: dropWhile_eq_Nil_conv list_all_iff)
  ultimately show ?thesis
    unfolding json_loads_def by (simp del: parse_value.simps)
qed

lemma json_loads_dumps: "wf_json v \<Longrightarrow> json_loads (dumps v) = Some v"
  using json_loads_dumps_ws[of v "[]"] by simp

section \<open>Sorted keys\<close>

text \<open>
  Equality of two values as \<open>==\<close> has it for \<open>dict\<close>s, whatever the order of their keys (a \<open>bool\<close> and
  an \<open>int\<close> are kept apart).
\<close>

fun same_json :: "json \<Rightarrow> json \<Rightarrow> bool" where
  "same_json (JArr vs) w = (case w of JArr ws \<Rightarrow> list_all2 same_json vs ws | _ \<Rightarrow> False)"
| "same_json (JObj kvs) w =
     (case w of
        JObj lvs \<Rightarrow> length kvs = length lvs \<and>
          list_all (\<lambda>(k, v). case map_of lvs k of None \<Rightarrow> False | Some u \<Rightarrow> same_json v u) kvs
      | _ \<Rightarrow> False)"
| "same_json v w = (v = w)"

abbreviation sorted_members :: "(string \<times> json) list \<Rightarrow> (string \<times> json) list" where
  "sorted_members \<equiv> map (\<lambda>(k, v). (k, sort_keys v))"

lemma keys_sorted_members: "map fst (sorted_members kvs) = map fst kvs"
  by (simp add: case_prod_beta comp_def)

lemma distinct_sorted: "distinct (map fst kvs) \<Longrightarrow> distinct (map fst (sort_key fst kvs))"
  by (simp add: distinct_map)

lemma wf_sort_keys: "wf_json v \<Longrightarrow> wf_json (sort_keys v)"
proof (induction v)
  case (JObj kvs)
  then have "distinct (map fst (sort_key fst (sorted_members kvs)))"
    by (intro distinct_sorted) (simp only: keys_sorted_members wf_json.simps)
  with JObj show ?case by (fastforce simp: list_all_iff)
qed (auto simp: list_all_iff)

lemma sort_key_eq_iff:
  assumes "distinct (map fst kvs)" and "distinct (map fst lvs)"
  shows "sort_key fst kvs = sort_key fst lvs \<longleftrightarrow> set kvs = set (lvs :: (string \<times> json) list)"
proof
  show "set kvs = set lvs" if "sort_key fst kvs = sort_key fst lvs" by (metis set_sort that)
next
  assume "set kvs = set lvs"
  with assms have "mset kvs = mset (sort_key fst lvs)"
    by (metis distinct_map mset_sort set_eq_iff_mset_eq_distinct)
  moreover have "inj_on fst (set kvs)" using assms by (simp add: distinct_map)
  ultimately show "sort_key fst kvs = sort_key fst lvs"
    by (intro sort_key_inj_key_eq) auto
qed

lemma members_same:
  assumes "distinct (map fst kvs)" and "distinct (map fst lvs)"
  shows "set kvs = set lvs \<longleftrightarrow> length kvs = length lvs \<and> (\<forall>(k, v) \<in> set kvs. map_of lvs k = Some v)"
proof -
  have card: "card (set kvs) = length kvs" "card (set lvs) = length lvs"
    using assms by (simp_all add: distinct_card distinct_map)
  have "(\<forall>(k, v) \<in> set kvs. map_of lvs k = Some v) \<longleftrightarrow> set kvs \<subseteq> set lvs"
    using assms by auto
  then show ?thesis using card by (metis List.finite_set card_subset_eq order_refl)
qed

lemma sort_keys_eq_iff: "wf_json v \<Longrightarrow> wf_json w \<Longrightarrow> sort_keys v = sort_keys w \<longleftrightarrow> same_json v w"
proof (induction v arbitrary: w)
  case (JArr vs)
  then have IH: "sort_keys v = sort_keys u \<longleftrightarrow> same_json v u" if "v \<in> set vs" "wf_json u" for v u
    using that by (simp add: list_all_iff)
  show ?case
  proof (cases w)
    case (JArr ws)
    with JArr.prems have ws: "\<forall>u \<in> set ws. wf_json u" by (simp add: list_all_iff)
    have "map sort_keys vs = map sort_keys ws \<longleftrightarrow> list_all2 (\<lambda>v u. sort_keys v = sort_keys u) vs ws"
      by (metis list_all2_eq list.rel_map)
    also have "\<dots> \<longleftrightarrow> list_all2 same_json vs ws"
      using IH ws by (intro list.rel_cong refl) auto
    finally show ?thesis using JArr by simp
  qed auto
next
  case (JObj kvs)
  then have IH: "sort_keys v = sort_keys u \<longleftrightarrow> same_json v u" if "(k, v) \<in> set kvs" "wf_json u" for k v u
    using that by (fastforce simp: list_all_iff)
  show ?case
  proof (cases w)
    case (JObj lvs)
    with JObj.prems have d: "distinct (map fst (sorted_members kvs))" "distinct (map fst (sorted_members lvs))"
      and lvs: "\<And>k u. (k, u) \<in> set lvs \<Longrightarrow> wf_json u"
      by (auto simp only: keys_sorted_members wf_json.simps list_all_iff)
    have find: "map_of (sorted_members lvs) k = map_option sort_keys (map_of lvs k)" for k
      by (simp add: map_of_map)
    have "sort_keys (JObj kvs) = sort_keys w \<longleftrightarrow>
        length kvs = length lvs \<and> (\<forall>(k, v) \<in> set kvs. map_option sort_keys (map_of lvs k) = Some (sort_keys v))"
      unfolding JObj sort_keys.simps json.inject sort_key_eq_iff[OF d] members_same[OF d] find
      by (auto simp: case_prod_beta)
    also have "\<dots> \<longleftrightarrow> same_json (JObj kvs) w"
      using IH lvs unfolding JObj
      by (fastforce simp: list_all_iff split: option.splits dest: map_of_SomeD)
    finally show ?thesis .
  qed auto
next
  case JNull
  then show ?case by (cases w) auto
next
  case (JBool b)
  then show ?case by (cases w) auto
next
  case (JInt i)
  then show ?case by (cases w) auto
next
  case (JStr s)
  then show ?case by (cases w) auto
qed

text \<open>Sorting the keys changes neither the lookups nor, for a value without objects, the value.\<close>

lemma map_of_sort_key:
  "distinct (map fst kvs) \<Longrightarrow> map_of (sort_key fst kvs) = map_of (kvs :: (string \<times> 'a) list)"
  by (subst map_of_inject_set) (simp_all add: distinct_map)

lemma insort_key_map: "insort_key f (g x) (map g xs) = map g (insort_key (\<lambda>x. f (g x)) x xs)"
  by (induction xs) auto

lemma sort_key_map: "sort_key f (map g xs) = map g (sort_key (\<lambda>x. f (g x)) xs)"
  by (induction xs) (simp_all add: insort_key_map)

section \<open>Properties\<close>

text \<open>
  A canonical text reads back.  The canonical JSON text of a value, parsed by \<open>json.loads\<close>, is
  the value with its keys sorted: the text loses nothing, whatever strings, escapes, nested objects or
  negative numbers it holds.
\<close>

theorem canonical_text_reads_back:
  assumes "wf_json v"
  shows "json_loads (canonical_json_bytes v) = Some (sort_keys v)"
  unfolding canonical_json_bytes_def by (rule json_loads_dumps[OF wf_sort_keys[OF assms]])

definition sample_json :: json where
  "sample_json = JObj [(''b'', JArr [JInt (-17), JBool True, JNull]),
     (''a'', JStr [quote_char, CHR 0x0A, CHR 0x01, CHR 0xE5, backslash]), (''c'', JObj [])]"

theorem canonical_text_reads_back_witness:
  "json_loads (canonical_json_bytes sample_json) = Some (sort_keys sample_json)"
  by (rule canonical_text_reads_back) code_simp

text \<open>
  C28: what is hashed is the value.  Two values have the same canonical text exactly when they are the
  same value up to the order of the keys of their objects, so two event contents with the same text
  have equal contents, and a redelivered event with its keys in another order has the same text.
\<close>

theorem canonical_text_identifies_value:
  assumes "wf_json v" and "wf_json w"
  shows "canonical_json_bytes v = canonical_json_bytes w \<longleftrightarrow> same_json v w"
proof
  assume "canonical_json_bytes v = canonical_json_bytes w"
  then have "sort_keys v = sort_keys w"
    using json_loads_dumps[OF wf_sort_keys[OF assms(1)]] json_loads_dumps[OF wf_sort_keys[OF assms(2)]]
    unfolding canonical_json_bytes_def by (metis option.inject)
  then show "same_json v w" by (simp add: sort_keys_eq_iff assms)
next
  assume "same_json v w"
  then show "canonical_json_bytes v = canonical_json_bytes w"
    by (simp add: canonical_json_bytes_def sort_keys_eq_iff[symmetric] assms)
qed

theorem canonical_text_identifies_value_witness:
  "canonical_json_bytes (JObj [(''x'', JInt 1), (''y'', JNull)]) =
     canonical_json_bytes (JObj [(''y'', JNull), (''x'', JInt 1)]) \<and>
   canonical_json_bytes (JObj [(''x'', JInt 1)]) \<noteq> canonical_json_bytes (JObj [(''x'', JStr ''1'')])"
proof (intro conjI)
  show "canonical_json_bytes (JObj [(''x'', JInt 1), (''y'', JNull)]) =
      canonical_json_bytes (JObj [(''y'', JNull), (''x'', JInt 1)])"
    by (rule canonical_text_identifies_value[THEN iffD2]) simp_all
  have "\<not> same_json (JObj [(''x'', JInt 1)]) (JObj [(''x'', JStr ''1'')])" by simp
  then show "canonical_json_bytes (JObj [(''x'', JInt 1)]) \<noteq> canonical_json_bytes (JObj [(''x'', JStr ''1'')])"
    by (subst canonical_text_identifies_value) simp_all
qed

end
