(* ===== verification/PlanRuntime.thy ===== *)
theory PlanRuntime
  imports ActivityPlan CanonicalFacts
begin

text \<open>
  The live plan of the seat and coffee sequence and its state file (\<open>plan_runtime.py\<close>): the checks a
  plan must pass, the action that is due in a state, the state after an action ended, and the store
  that keeps the state in a file.

  The file system is the map from paths to contents; SHA-256 is the parameter \<open>sha256\<close>.  The bytes of
  a file are taken to be UTF-8.  \<open>casefold\<close> is written out for ASCII letters.
\<close>

section \<open>The plan\<close>

definition SEAT_COFFEE_SEQUENCE :: "string list" where
  "SEAT_COFFEE_SEQUENCE = [''seat_sit'', ''coffee_auto_schedule'', ''seat_get_out'']"

definition STEP_ID_SEQUENCE :: "string list" where
  "STEP_ID_SEQUENCE = [''sit'', ''coffee'', ''get-out'']"

definition STATE_SCHEMA_VERSION :: string where
  "STATE_SCHEMA_VERSION = ''llm-gateway-live-plan-state-v1''"

datatype live_error = Plan_invalid string | Plan_type_error | State_file_exists

record live_plan_step =
  ls_id :: string
  ls_skill :: string
  ls_arguments :: "(string \<times> json) list"

record execution_plan =
  ep_plan :: string
  ep_session :: string
  ep_gateway :: string
  ep_scene :: string
  ep_skills :: "string list"
  ep_steps :: "live_plan_step list"
  ep_digest :: string

record live_state =
  lp_schema :: string
  lp_plan :: string
  lp_digest :: string
  lp_current :: "string option"
  lp_outcomes :: "(string \<times> string) list"

record live_context =
  lc_session :: string
  lc_gateway :: string
  lc_scene :: string
  lc_lease :: string
  lc_lease_expires :: int
  lc_now :: int
  lc_seat :: string

record live_action =
  la_step :: string
  la_skill :: string
  la_schema :: string
  la_arguments :: "(string \<times> json) list"

text \<open>A wire model forbids extra fields: an object has exactly the declared keys.\<close>

definition exact_object :: "string list \<Rightarrow> json \<Rightarrow> (string \<times> json) list option" where
  "exact_object names v = (case v of
     JObj kvs \<Rightarrow> if set (map fst kvs) = set names then Some kvs else None | _ \<Rightarrow> None)"

definition non_empty_string :: "json option \<Rightarrow> string option" where
  "non_empty_string v = (case v of
     Some (JStr s) \<Rightarrow> if bounded_string 256 (py_strip s) then Some (py_strip s) else None | _ \<Rightarrow> None)"

fun all_some :: "'a option list \<Rightarrow> 'a list option" where
  "all_some [] = Some []"
| "all_some (x # xs) = (case x of None \<Rightarrow> None | Some y \<Rightarrow> map_option ((#) y) (all_some xs))"

definition step_wire :: "json \<Rightarrow> live_plan_step option" where
  "step_wire v = (case exact_object [''stepId'', ''skillName'', ''arguments''] v of
     None \<Rightarrow> None
   | Some kvs \<Rightarrow>
       (case (non_empty_string (map_of kvs ''stepId''), non_empty_string (map_of kvs ''skillName''),
              map_of kvs ''arguments'') of
          (Some i, Some n, Some (JObj args)) \<Rightarrow> Some \<lparr>ls_id = i, ls_skill = n, ls_arguments = args\<rparr>
        | _ \<Rightarrow> None))"

definition plan_wire :: "json \<Rightarrow> execution_plan option" where
  "plan_wire v = (case exact_object [''planId'', ''sessionId'', ''gatewayId'', ''sceneId'', ''expectedSkills'',
       ''steps''] v of
     None \<Rightarrow> None
   | Some kvs \<Rightarrow>
       (case (map non_empty_string [map_of kvs ''planId'', map_of kvs ''sessionId'', map_of kvs ''gatewayId'',
                map_of kvs ''sceneId''], map_of kvs ''expectedSkills'', map_of kvs ''steps'') of
          ([Some p, Some s, Some g, Some c], Some (JArr skills), Some (JArr steps)) \<Rightarrow>
            (case (all_some (map (\<lambda>v. non_empty_string (Some v)) skills), all_some (map step_wire steps)) of
               (Some sk, Some st) \<Rightarrow>
                 Some \<lparr>ep_plan = p, ep_session = s, ep_gateway = g, ep_scene = c, ep_skills = sk,
                   ep_steps = st, ep_digest = []\<rparr>
             | _ \<Rightarrow> None)
        | _ \<Rightarrow> None))"

definition dump_wire :: "execution_plan \<Rightarrow> json" where
  "dump_wire w = JObj
     [(''planId'', JStr (ep_plan w)), (''sessionId'', JStr (ep_session w)),
      (''gatewayId'', JStr (ep_gateway w)), (''sceneId'', JStr (ep_scene w)),
      (''expectedSkills'', JArr (map JStr (ep_skills w))),
      (''steps'', JArr (map (\<lambda>s. JObj [(''stepId'', JStr (ls_id s)), (''skillName'', JStr (ls_skill s)),
         (''arguments'', JObj (ls_arguments s))]) (ep_steps w)))]"

definition blank_argument :: "json option \<Rightarrow> bool" where
  "blank_argument v = (case v of Some (JStr s) \<Rightarrow> is_blank s | _ \<Rightarrow> True)"

definition validate_execution_plan :: "(string \<Rightarrow> string) \<Rightarrow> json \<Rightarrow> live_error + execution_plan" where
  "validate_execution_plan sha256 v =
     (case plan_wire v of
        None \<Rightarrow> Inl (Plan_invalid ''schema'')
      | Some w \<Rightarrow>
          let arg = (\<lambda>i key. map_of (ls_arguments (ep_steps w ! i)) key) in
          if ep_skills w \<noteq> CANONICAL_NON_CHAT_SKILLS
          then Inl (Plan_invalid ''expectedSkills must equal the canonical 21-skill catalog'')
          else if map ls_skill (ep_steps w) \<noteq> SEAT_COFFEE_SEQUENCE
          then Inl (Plan_invalid ''steps must implement the seat-coffee-get-out sequence'')
          else if map ls_id (ep_steps w) \<noteq> STEP_ID_SEQUENCE
          then Inl (Plan_invalid ''stepId sequence is invalid'')
          else if \<exists>s \<in> set (ep_steps w). map_of (ls_arguments s) ''sceneId'' \<noteq> Some (JStr (ep_scene w))
          then Inl (Plan_invalid ''step sceneId must match plan sceneId'')
          else if blank_argument (arg 0 ''chairId'') \<or> blank_argument (arg 1 ''coffeeName'') \<or>
                  blank_argument (arg 2 ''chairId'')
          then Inl (Plan_invalid ''seat and coffee action arguments are incomplete'')
          else if arg 0 ''chairId'' \<noteq> arg 2 ''chairId''
          then Inl (Plan_invalid ''seat_sit and seat_get_out must target the same chair'')
          else Inr (w\<lparr>ep_digest := sha256 (canonical_json_bytes (dump_wire w))\<rparr>))"

section \<open>States\<close>

definition validate_state :: "execution_plan \<Rightarrow> live_state \<Rightarrow> string option" where
  "validate_state p st =
     (if lp_schema st \<noteq> STATE_SCHEMA_VERSION then Some ''state schemaVersion''
      else if lp_plan st \<noteq> ep_plan p then Some ''state planId''
      else if lp_digest st \<noteq> ep_digest p then Some ''state plan digest''
      else if lp_current st \<noteq> None \<and> the (lp_current st) \<notin> set (map ls_id (ep_steps p))
      then Some ''state currentStepId''
      else if \<not> set (map fst (lp_outcomes st)) \<subseteq> set (map ls_id (ep_steps p)) then Some ''state stepOutcomes''
      else None)"

definition casefold :: "string \<Rightarrow> string" where
  "casefold s = map lower_char s"

definition prepare_next_action :: "execution_plan \<Rightarrow> live_state \<Rightarrow> live_context \<Rightarrow> live_error + live_action" where
  "prepare_next_action p st ctx =
     (case validate_state p st of
        Some e \<Rightarrow> Inl (Plan_invalid e)
      | None \<Rightarrow>
          if lc_session ctx \<noteq> ep_session p then Inl (Plan_invalid ''session mismatch'')
          else if lc_gateway ctx \<noteq> ep_gateway p then Inl (Plan_invalid ''gateway mismatch'')
          else if lc_scene ctx \<noteq> ep_scene p then Inl (Plan_invalid ''scene mismatch'')
          else if is_blank (lc_lease ctx) then Inl (Plan_invalid ''lease is missing'')
          else if lc_now ctx < 0 \<or> lc_lease_expires ctx \<le> lc_now ctx
          then Inl (Plan_invalid ''lease is expired'')
          else (case lp_current st of
             None \<Rightarrow> Inl (Plan_invalid ''plan is complete'')
           | Some i \<Rightarrow>
               (case find (\<lambda>s. ls_id s = i) (rev (ep_steps p)) of
                  None \<Rightarrow> Inl Plan_type_error
                | Some s \<Rightarrow>
                    let out = map_of (lp_outcomes st); seat = casefold (lc_seat ctx);
                        action = Inr \<lparr>la_step = ls_id s, la_skill = ls_skill s, la_schema = ''v1'',
                          la_arguments = ls_arguments s\<rparr> in
                    if i = ''sit'' then
                      if lp_outcomes st \<noteq> [] then Inl (Plan_invalid ''seat_sit state is inconsistent'')
                      else if seat \<noteq> ''standing'' then Inl (Plan_invalid ''seat_sit requires standing SeatState'')
                      else action
                    else if i = ''coffee'' then
                      if out ''sit'' \<noteq> Some ''success'' then Inl (Plan_invalid ''seat_sit must succeed before coffee'')
                      else if seat \<noteq> ''seated'' then Inl (Plan_invalid ''coffee requires seated SeatState'')
                      else action
                    else if i = ''get-out'' then
                      if out ''sit'' \<noteq> Some ''success'' \<or> out ''coffee'' \<notin> {Some ''success'', Some ''failed''}
                      then Inl (Plan_invalid ''seat_get_out requires terminal coffee result'')
                      else if seat \<noteq> ''seated'' then Inl (Plan_invalid ''seat_get_out requires seated SeatState'')
                      else action
                    else action)))"

definition record_live_step_terminal :: "live_state \<Rightarrow> string \<Rightarrow> bool \<Rightarrow> live_error + live_state" where
  "record_live_step_terminal st i succeeded =
     (if lp_current st \<noteq> Some i then Inl (Plan_invalid ''terminal step does not match currentStepId'')
      else if i \<notin> set STEP_ID_SEQUENCE then Inl (Plan_invalid ''unknown terminal step'')
      else Inr (st\<lparr>lp_current :=
             (if i = ''sit'' then (if succeeded then Some ''coffee'' else None)
              else if i = ''coffee'' then Some ''get-out'' else None),
           lp_outcomes := AList.update i (if succeeded then ''success'' else ''failed'') (lp_outcomes st)\<rparr>))"

definition record_step_success :: "live_state \<Rightarrow> string \<Rightarrow> live_error + live_state" where
  "record_step_success st i = record_live_step_terminal st i True"

section \<open>The state file\<close>

type_synonym file_system = "string \<rightharpoonup> string"

definition state_json :: "live_state \<Rightarrow> json" where
  "state_json st = JObj
     [(''schemaVersion'', JStr (lp_schema st)), (''planId'', JStr (lp_plan st)),
      (''planDigest'', JStr (lp_digest st)),
      (''currentStepId'', (case lp_current st of None \<Rightarrow> JNull | Some i \<Rightarrow> JStr i)),
      (''stepOutcomes'', JObj (map (\<lambda>(k, v). (k, JStr v)) (lp_outcomes st)))]"

definition serialize :: "live_state \<Rightarrow> string" where
  "serialize st = canonical_json_bytes (state_json st) @ [CHR 0x0A]"

definition STATE_KEYS :: "string list" where
  "STATE_KEYS = [''schemaVersion'', ''planId'', ''planDigest'', ''currentStepId'', ''stepOutcomes'']"

text \<open>A list or an object is not hashable: looking one up in a set raises \<open>TypeError\<close>.\<close>

fun hashable :: "json \<Rightarrow> bool" where
  "hashable (JArr _) = False"
| "hashable (JObj _) = False"
| "hashable _ = True"

fun check_outcomes :: "(string \<times> json) list \<Rightarrow> live_error + (string \<times> string) list" where
  "check_outcomes [] = Inr []"
| "check_outcomes ((k, v) # kvs) =
     (if \<not> hashable v then Inl Plan_type_error
      else case v of
        JStr s \<Rightarrow> if s \<in> {''success'', ''failed''} then map_sum id ((#) (k, s)) (check_outcomes kvs)
                  else Inl (Plan_invalid ''state outcomes'')
      | _ \<Rightarrow> Inl (Plan_invalid ''state outcomes''))"

definition json_string :: "json option \<Rightarrow> string option" where
  "json_string v = (case v of Some (JStr s) \<Rightarrow> Some s | _ \<Rightarrow> None)"

text \<open>What \<open>_load\<close> reads; the fields of the state are compared before anything else is known of them.\<close>

definition decode_state :: "execution_plan \<Rightarrow> json \<Rightarrow> live_error + live_state" where
  "decode_state p raw =
     (case exact_object STATE_KEYS raw of
        None \<Rightarrow> Inl (Plan_invalid ''state schema'')
      | Some kvs \<Rightarrow>
          (case map_of kvs ''stepOutcomes'' of
             Some (JObj ovs) \<Rightarrow>
               (case check_outcomes ovs of
                  Inl e \<Rightarrow> Inl e
                | Inr outcomes \<Rightarrow>
                    if json_string (map_of kvs ''schemaVersion'') \<noteq> Some STATE_SCHEMA_VERSION
                    then Inl (Plan_invalid ''state schemaVersion'')
                    else if json_string (map_of kvs ''planId'') \<noteq> Some (ep_plan p)
                    then Inl (Plan_invalid ''state planId'')
                    else if json_string (map_of kvs ''planDigest'') \<noteq> Some (ep_digest p)
                    then Inl (Plan_invalid ''state plan digest'')
                    else
                      let st = (\<lambda>cur. \<lparr>lp_schema = STATE_SCHEMA_VERSION, lp_plan = ep_plan p,
                        lp_digest = ep_digest p, lp_current = cur, lp_outcomes = outcomes\<rparr>) in
                      (case map_of kvs ''currentStepId'' of
                         Some JNull \<Rightarrow>
                           (case validate_state p (st None) of
                              Some e \<Rightarrow> Inl (Plan_invalid e) | None \<Rightarrow> Inr (st None))
                       | Some (JStr i) \<Rightarrow>
                           (case validate_state p (st (Some i)) of
                              Some e \<Rightarrow> Inl (Plan_invalid e) | None \<Rightarrow> Inr (st (Some i)))
                       | Some v \<Rightarrow>
                           if hashable v then Inl (Plan_invalid ''state currentStepId'') else Inl Plan_type_error
                       | None \<Rightarrow> Inl Plan_type_error))
           | _ \<Rightarrow> Inl (Plan_invalid ''state outcomes'')))"

definition load_state :: "execution_plan \<Rightarrow> string \<Rightarrow> file_system \<Rightarrow> live_error + live_state" where
  "load_state p path fs =
     (case fs path of
        None \<Rightarrow> Inl (Plan_invalid ''state file is corrupt'')
      | Some text \<Rightarrow>
          (case json_loads text of
             None \<Rightarrow> Inl (Plan_invalid ''state file is corrupt'')
           | Some raw \<Rightarrow> decode_state p raw))"

definition initial_state :: "execution_plan \<Rightarrow> live_state" where
  "initial_state p = \<lparr>lp_schema = STATE_SCHEMA_VERSION, lp_plan = ep_plan p, lp_digest = ep_digest p,
     lp_current = Some (ls_id (hd (ep_steps p))), lp_outcomes = []\<rparr>"

text \<open>
  The file systems a crash may leave while \<open>text\<close> is written to a new file, in order: after the file
  was opened and after each byte.
\<close>

definition write_new :: "string \<Rightarrow> string \<Rightarrow> file_system \<Rightarrow> file_system list" where
  "write_new path text fs = map (\<lambda>k. fs(path \<mapsto> take k text)) [0..<Suc (length text)]"

text \<open>\<open>others\<close> is what other processes did between the test for the file and its creation.\<close>

definition load_or_initialize ::
  "(file_system \<Rightarrow> file_system) \<Rightarrow> execution_plan \<Rightarrow> string \<Rightarrow> file_system \<Rightarrow>
   (live_error + live_state) \<times> file_system list" where
  "load_or_initialize others p path fs =
     (if fs path \<noteq> None then (load_state p path fs, [fs])
      else let fs = others fs in
        if fs path \<noteq> None then (load_state p path fs, [fs])
        else (Inr (initial_state p), write_new path (serialize (initial_state p)) fs))"

text \<open>
  \<open>save\<close>: the text goes to a temporary file that then replaces the state file; the temporary file is
  removed in any case, also one it did not create.
\<close>

definition save ::
  "string \<Rightarrow> execution_plan \<Rightarrow> live_state \<Rightarrow> string \<Rightarrow> file_system \<Rightarrow> (live_error + unit) \<times> file_system list" where
  "save temporary p st path fs =
     (case load_state p path fs of
        Inl e \<Rightarrow> (Inl e, [fs])
      | Inr current \<Rightarrow>
          if lp_plan current \<noteq> lp_plan st \<or> lp_digest current \<noteq> lp_digest st
          then (Inl (Plan_invalid ''state identity changed''), [fs])
          else case validate_state p st of
            Some e \<Rightarrow> (Inl (Plan_invalid e), [fs])
          | None \<Rightarrow>
              if fs temporary \<noteq> None then (Inl State_file_exists, [fs, fs(temporary := None)])
              else (Inr (), write_new temporary (serialize st) fs @
                [fs(path \<mapsto> serialize st, temporary := None)]))"

end
