(* ===== verification/PlanRuntimeFacts.thy ===== *)
theory PlanRuntimeFacts
  imports PlanRuntime
begin

text \<open>The state file keeps what was saved, across a crash too; a seated player gets up again.\<close>

section \<open>Writing a state and reading it back\<close>

definition outcomes_ok :: "(string \<times> string) list \<Rightarrow> bool" where
  "outcomes_ok os \<longleftrightarrow> distinct (map fst os) \<and> list_all (\<lambda>(k, v). v \<in> {''success'', ''failed''}) os"

abbreviation string_members :: "(string \<times> string) list \<Rightarrow> (string \<times> json) list" where
  "string_members \<equiv> map (\<lambda>(k, v). (k, JStr v))"

lemma check_outcomes_members:
  "list_all (\<lambda>(k, v). v \<in> {''success'', ''failed''}) os \<Longrightarrow> check_outcomes (string_members os) = Inr os"
  by (induction os) auto

lemma sort_string_members: "sort_keys (JObj (string_members os)) = JObj (string_members (sort_key fst os))"
  by (simp add: sort_key_map case_prod_beta comp_def)

definition sorted_state :: "live_state \<Rightarrow> live_state" where
  "sorted_state st = st\<lparr>lp_outcomes := sort_key fst (lp_outcomes st)\<rparr>"

lemma validate_sorted [simp]: "validate_state p (sorted_state st) = validate_state p st"
  by (simp add: validate_state_def sorted_state_def)

lemma wf_state_json: "distinct (map fst (lp_outcomes st)) \<Longrightarrow> wf_json (state_json st)"
  by (auto simp: state_json_def list_all_iff case_prod_beta comp_def split: option.splits)

lemma decode_state_json:
  assumes v: "validate_state p st = None" and os: "outcomes_ok (lp_outcomes st)"
  shows "decode_state p (sort_keys (state_json st)) = Inr (sorted_state st)"
proof -
  let ?cur = "case lp_current st of None \<Rightarrow> JNull | Some i \<Rightarrow> JStr i"
  let ?os = "sort_key fst (lp_outcomes st)"
  define kvs where "kvs = [(''schemaVersion'', JStr (lp_schema st)), (''planId'', JStr (lp_plan st)),
    (''planDigest'', JStr (lp_digest st)), (''currentStepId'', ?cur), (''stepOutcomes'', JObj (string_members ?os))]"
  have cur: "sort_keys ?cur = ?cur" by (simp split: option.splits)
  have sorted: "sort_keys (state_json st) = JObj (sort_key fst kvs)"
    unfolding state_json_def sort_keys.simps(2) list.map prod.case kvs_def cur sort_string_members[simplified]
    by (simp add: cur sort_string_members[simplified])
  have d: "distinct (map fst kvs)" by (simp add: kvs_def)
  have obj: "exact_object STATE_KEYS (JObj (sort_key fst kvs)) = Some (sort_key fst kvs)"
    by (auto simp: exact_object_def STATE_KEYS_def kvs_def)
  have look: "map_of (sort_key fst kvs) k = map_of kvs k" for k by (simp add: map_of_sort_key[OF d])
  have out: "check_outcomes (string_members ?os) = Inr ?os"
    by (rule check_outcomes_members) (use os in \<open>auto simp: outcomes_ok_def list_all_iff\<close>)
  have st: "lp_schema st = STATE_SCHEMA_VERSION" "lp_plan st = ep_plan p" "lp_digest st = ep_digest p"
    using v by (auto simp: validate_state_def split: if_splits)
  have again: "sorted_state st = \<lparr>lp_schema = STATE_SCHEMA_VERSION, lp_plan = ep_plan p,
      lp_digest = ep_digest p, lp_current = lp_current st, lp_outcomes = ?os\<rparr>"
    by (simp add: sorted_state_def st[symmetric])
  have "validate_state p (sorted_state st) = None" using v by simp
  then show ?thesis
    unfolding sorted decode_state_def obj option.case look
    by (cases "lp_current st") (simp_all add: kvs_def out json_string_def st Let_def again)
qed

lemma load_serialized:
  assumes "fs path = Some (serialize st)" and "validate_state p st = None" and "outcomes_ok (lp_outcomes st)"
  shows "load_state p path fs = Inr (sorted_state st)"
proof -
  have "wf_json (state_json st)" using assms(3) by (intro wf_state_json) (simp add: outcomes_ok_def)
  then have "json_loads (serialize st) = Some (sort_keys (state_json st))"
    unfolding serialize_def canonical_json_bytes_def
    by (intro json_loads_dumps_ws wf_sort_keys) (simp_all add: json_ws_def)
  with assms decode_state_json[OF assms(2,3)] show ?thesis by (simp add: load_state_def)
qed

lemma load_state_cong: "g path = fs path \<Longrightarrow> load_state p path g = load_state p path fs"
  by (simp add: load_state_def)

section \<open>The three steps\<close>

lemma validated_steps:
  assumes "validate_execution_plan sha256 v = Inr p"
  obtains a b c where "ep_steps p = [a, b, c]" "ls_id a = ''sit''" "ls_id b = ''coffee''" "ls_id c = ''get-out''"
    "ls_skill a = ''seat_sit''" "ls_skill b = ''coffee_auto_schedule''" "ls_skill c = ''seat_get_out''"
    "map_of (ls_arguments a) ''chairId'' = map_of (ls_arguments c) ''chairId''"
proof -
  have w: "map ls_skill (ep_steps p) = SEAT_COFFEE_SEQUENCE" "map ls_id (ep_steps p) = STEP_ID_SEQUENCE"
    "map_of (ls_arguments (ep_steps p ! 0)) ''chairId'' = map_of (ls_arguments (ep_steps p ! 2)) ''chairId''"
    using assms unfolding validate_execution_plan_def Let_def by (auto split: option.splits if_splits)
  then obtain a b c where "ep_steps p = [a, b, c]"
    by (auto simp: SEAT_COFFEE_SEQUENCE_def map_eq_Cons_conv)
  with w that show thesis by (simp add: SEAT_COFFEE_SEQUENCE_def STEP_ID_SEQUENCE_def)
qed

text \<open>What \<open>prepare_next_action\<close> asks of the lease, whatever the step.\<close>

definition authorized :: "execution_plan \<Rightarrow> live_context \<Rightarrow> bool" where
  "authorized p ctx \<longleftrightarrow> lc_session ctx = ep_session p \<and> lc_gateway ctx = ep_gateway p \<and>
     lc_scene ctx = ep_scene p \<and> \<not> is_blank (lc_lease ctx) \<and> 0 \<le> lc_now ctx \<and> lc_now ctx < lc_lease_expires ctx"

lemma record_keeps_outcomes:
  "outcomes_ok (lp_outcomes st) \<Longrightarrow> record_live_step_terminal st i ok = Inr st' \<Longrightarrow> outcomes_ok (lp_outcomes st')"
proof -
  have "list_all (\<lambda>(k, v). v \<in> {''success'', ''failed''}) (AList.update k v os)"
    if "list_all (\<lambda>(k, v). v \<in> {''success'', ''failed''}) os" "v \<in> {''success'', ''failed''}" for k v and os :: "(string \<times> string) list"
    using that by (induction os) auto
  then show "outcomes_ok (lp_outcomes st) \<Longrightarrow> record_live_step_terminal st i ok = Inr st' \<Longrightarrow> outcomes_ok (lp_outcomes st')"
    by (auto simp: record_live_step_terminal_def outcomes_ok_def distinct_update split: if_splits)
qed

section \<open>Properties\<close>

text \<open>
  C27: saving is atomic.  After every system call of \<open>save\<close>, also in the middle of a write, the state file
  loads as before the call or as the new state; when \<open>save\<close> returns, it loads as the new state, with its
  outcomes in the order of their keys; when \<open>save\<close> raises, the file has not changed.
\<close>

theorem saved_state_loads_back:
  assumes "save temporary p st path fs = (res, trace)" and "temporary \<noteq> path" and "outcomes_ok (lp_outcomes st)"
  shows "(\<forall>g \<in> set trace. g path = fs path \<or> (res = Inr () \<and> load_state p path g = Inr (sorted_state st))) \<and>
    (res = Inr () \<longrightarrow> load_state p path (last trace) = Inr (sorted_state st)) \<and>
    (res \<noteq> Inr () \<longrightarrow> last trace path = fs path)"
proof (cases res)
  case (Inl e)
  with assms(1,2) show ?thesis
    by (auto simp: save_def split: sum.splits if_splits option.splits)
next
  case (Inr u)
  with assms(1) have v: "validate_state p st = None"
    and t: "trace = write_new temporary (serialize st) fs @ [fs(path \<mapsto> serialize st, temporary := None)]"
    by (auto simp: save_def split: sum.splits if_splits option.splits)
  have "load_state p path (fs(path \<mapsto> serialize st, temporary := None)) = Inr (sorted_state st)"
    by (rule load_serialized[OF _ v assms(3)]) (use assms(2) in simp)
  with Inr assms(2) show ?thesis by (auto simp: t write_new_def)
qed


definition sample_live_plan :: json where
  "sample_live_plan = JObj [(''planId'', JStr ''plan''), (''sessionId'', JStr ''s1''), (''gatewayId'', JStr ''g1''),
     (''sceneId'', JStr ''lobby''), (''expectedSkills'', JArr (map JStr CANONICAL_NON_CHAT_SKILLS)),
     (''steps'', JArr
       [JObj [(''stepId'', JStr ''sit''), (''skillName'', JStr ''seat_sit''),
          (''arguments'', JObj [(''sceneId'', JStr ''lobby''), (''chairId'', JStr ''c7'')])],
        JObj [(''stepId'', JStr ''coffee''), (''skillName'', JStr ''coffee_auto_schedule''),
          (''arguments'', JObj [(''sceneId'', JStr ''lobby''), (''coffeeName'', JStr ''latte'')])],
        JObj [(''stepId'', JStr ''get-out''), (''skillName'', JStr ''seat_get_out''),
          (''arguments'', JObj [(''sceneId'', JStr ''lobby''), (''chairId'', JStr ''c7'')])]])]"

definition sample_live :: execution_plan where
  "sample_live = \<lparr>ep_plan = ''plan'', ep_session = ''s1'', ep_gateway = ''g1'', ep_scene = ''lobby'',
     ep_skills = CANONICAL_NON_CHAT_SKILLS,
     ep_steps =
       [\<lparr>ls_id = ''sit'', ls_skill = ''seat_sit'', ls_arguments = [(''sceneId'', JStr ''lobby''), (''chairId'', JStr ''c7'')]\<rparr>,
        \<lparr>ls_id = ''coffee'', ls_skill = ''coffee_auto_schedule'',
         ls_arguments = [(''sceneId'', JStr ''lobby''), (''coffeeName'', JStr ''latte'')]\<rparr>,
        \<lparr>ls_id = ''get-out'', ls_skill = ''seat_get_out'', ls_arguments = [(''sceneId'', JStr ''lobby''), (''chairId'', JStr ''c7'')]\<rparr>],
     ep_digest = ''d1''\<rparr>"

definition sample_seated :: live_state where
  "sample_seated = projr (record_live_step_terminal (initial_state sample_live) ''sit'' True)"

definition sample_files :: file_system where
  "sample_files = [''state'' \<mapsto> serialize (initial_state sample_live)]"

lemma sample_live_valid: "validate_execution_plan (\<lambda>_. ''d1'') sample_live_plan = Inr sample_live"
proof -
  have "plan_wire sample_live_plan = Some (sample_live\<lparr>ep_digest := []\<rparr>)" by code_simp
  then show ?thesis
    by (simp add: validate_execution_plan_def) (simp add: sample_live_def SEAT_COFFEE_SEQUENCE_def
        STEP_ID_SEQUENCE_def blank_argument_def is_blank_def py_strip_def is_ws_def)
qed

lemma sample_initial_loads: "load_state sample_live ''state'' sample_files = Inr (initial_state sample_live)"
proof -
  have "load_state sample_live ''state'' sample_files = Inr (sorted_state (initial_state sample_live))"
    by (rule load_serialized) (simp add: sample_files_def, code_simp+)
  then show ?thesis by (simp add: sorted_state_def initial_state_def)
qed

theorem saved_state_loads_back_witness:
  "load_state sample_live ''state'' (last (snd (save ''tmp'' sample_live sample_seated ''state'' sample_files))) =
     Inr sample_seated"
proof -
  have v: "validate_state sample_live sample_seated = None" by code_simp
  have same: "lp_plan (initial_state sample_live) = lp_plan sample_seated"
    "lp_digest (initial_state sample_live) = lp_digest sample_seated" by code_simp+
  obtain trace where s: "save ''tmp'' sample_live sample_seated ''state'' sample_files = (Inr (), trace)"
    by (simp add: save_def sample_initial_loads v same) (simp add: sample_files_def)
  have "outcomes_ok (lp_outcomes sample_seated)" by code_simp
  from saved_state_loads_back[OF s _ this] s have
    "load_state sample_live ''state'' (last (snd (save ''tmp'' sample_live sample_seated ''state'' sample_files))) =
      Inr (sorted_state sample_seated)" by simp
  moreover have "lp_outcomes sample_seated = [(''sit'', ''success'')]" by code_simp
  ultimately show ?thesis by (simp add: sorted_state_def)
qed

text \<open>
  A seated player gets up again.  Under a lease of the plan's session, gateway and scene, a valid plan
  first sits down; when sitting failed the plan is complete; when it succeeded, coffee follows, and
  whatever became of the coffee, the player is next told to get out of the chair it sat down in, after
  which the plan is complete.
\<close>

theorem seated_player_gets_up:
  assumes "validate_execution_plan sha256 v = Inr p" and "authorized p ctx" and "authorized p ctx'"
    and "casefold (lc_seat ctx) = ''standing''" and "casefold (lc_seat ctx') = ''seated''"
  shows "\<exists>sit up st1 st2 st3.
    prepare_next_action p (initial_state p) ctx = Inr sit \<and> la_skill sit = ''seat_sit'' \<and>
    map_sum id lp_current (record_live_step_terminal (initial_state p) ''sit'' False) = Inr None \<and>
    record_live_step_terminal (initial_state p) ''sit'' True = Inr st1 \<and>
    map_sum id la_skill (prepare_next_action p st1 ctx') = Inr ''coffee_auto_schedule'' \<and>
    record_live_step_terminal st1 ''coffee'' served = Inr st2 \<and>
    prepare_next_action p st2 ctx' = Inr up \<and> la_skill up = ''seat_get_out'' \<and>
    map_of (la_arguments up) ''chairId'' = map_of (la_arguments sit) ''chairId'' \<and>
    record_live_step_terminal st2 ''get-out'' left = Inr st3 \<and> lp_current st3 = None"
proof -
  from validated_steps[OF assms(1)] obtain a b c where
    st: "ep_steps p = [a, b, c]" "ls_id a = ''sit''" "ls_id b = ''coffee''" "ls_id c = ''get-out''"
    "ls_skill a = ''seat_sit''" "ls_skill b = ''coffee_auto_schedule''" "ls_skill c = ''seat_get_out''"
    "map_of (ls_arguments a) ''chairId'' = map_of (ls_arguments c) ''chairId''" by metis
  note run = initial_state_def record_live_step_terminal_def prepare_next_action_def validate_state_def
    STEP_ID_SEQUENCE_def Let_def
  from st assms(2-) show ?thesis by (auto simp: run authorized_def)
qed

definition sample_live_context :: "string \<Rightarrow> live_context" where
  "sample_live_context seat = \<lparr>lc_session = ''s1'', lc_gateway = ''g1'', lc_scene = ''lobby'', lc_lease = ''L'',
     lc_lease_expires = 10, lc_now = 5, lc_seat = seat\<rparr>"

theorem seated_player_gets_up_witness:
  "\<exists>up st1 st2 st3. record_live_step_terminal (initial_state sample_live) ''sit'' True = Inr st1 \<and>
    record_live_step_terminal st1 ''coffee'' False = Inr st2 \<and>
    prepare_next_action sample_live st2 (sample_live_context ''Seated'') = Inr up \<and> la_skill up = ''seat_get_out'' \<and>
    record_live_step_terminal st2 ''get-out'' True = Inr st3 \<and> lp_current st3 = None"
proof -
  have "authorized sample_live (sample_live_context ''Standing'')" "authorized sample_live (sample_live_context ''Seated'')"
    "casefold (lc_seat (sample_live_context ''Standing'')) = ''standing''"
    "casefold (lc_seat (sample_live_context ''Seated'')) = ''seated''" by code_simp+
  from seated_player_gets_up[OF sample_live_valid this, of False True] show ?thesis by blast
qed

text \<open>
  A crash while the state file is created leaves a file that never loads again, and that
  \<open>load_or_initialize\<close> does not replace.
\<close>

lemma crash_while_initialising_is_fatal:
  assumes "fs path = None"
  shows "\<exists>g \<in> set (snd (load_or_initialize (\<lambda>f. f) p path fs)).
    load_or_initialize (\<lambda>f. f) p path g = (Inl (Plan_invalid ''state file is corrupt''), [g])"
proof
  let ?g = "fs(path \<mapsto> [])"
  show "?g \<in> set (snd (load_or_initialize (\<lambda>f. f) p path fs))"
    using assms by (auto simp: load_or_initialize_def write_new_def intro!: image_eqI[of _ _ 0])
  have "json_loads [] = None" by code_simp
  then show "load_or_initialize (\<lambda>f. f) p path ?g = (Inl (Plan_invalid ''state file is corrupt''), [?g])"
    by (simp add: load_or_initialize_def load_state_def)
qed

end
