(* ===== verification/Capacity.thy ===== *)
theory Capacity
  imports RowOrders "HOL-Library.AList"
begin

text \<open>
  Activity capacity (\<open>activity_capacity.py\<close>, \<open>activity_capacity_repository.py\<close>): the rules that
  bound how many agents do one activity in one place, the key a place is counted under, and the
  occupancy snapshot the planner reads.

  The weights of the rules and the weighted order of candidates are floating point and a hash, and
  are left out.  Strings are ASCII here, where \<open>str.isdigit\<close> is the ten digits.
\<close>

section \<open>Numbers in strings\<close>

definition is_digit :: "char \<Rightarrow> bool" where
  "is_digit c \<longleftrightarrow> 48 \<le> (of_char c :: nat) \<and> (of_char c :: nat) \<le> 57"

fun nat_digits :: "nat \<Rightarrow> string" where
  "nat_digits n = (if n < 10 then [char_of (48 + n)] else nat_digits (n div 10) @ [char_of (48 + n mod 10)])"

declare nat_digits.simps [simp del]

text \<open>\<open>str(int)\<close>, and \<open>int(str)\<close> on strings without underscores.\<close>

definition py_str_int :: "int \<Rightarrow> string" where
  "py_str_int i = (if i < 0 then ''-'' @ nat_digits (nat (- i)) else nat_digits (nat i))"

definition int_ws :: "char \<Rightarrow> bool" where
  "int_ws c \<longleftrightarrow> of_char c \<in> {9, 10, 11, 12, 13, 32 :: nat}"

definition digits_value :: "string \<Rightarrow> int" where
  "digits_value = foldl (\<lambda>n c. 10 * n + (int (of_char c) - 48)) 0"

definition py_int :: "string \<Rightarrow> db_error + int" where
  "py_int s =
     (let t = rev (dropWhile int_ws (rev (dropWhile int_ws s)));
          (sign, u) = (case t of
              [] \<Rightarrow> (1, [])
            | c # u \<Rightarrow> if c = CHR ''-'' then (-1, u) else if c = CHR ''+'' then (1, u) else (1, t))
      in if u \<noteq> [] \<and> list_all is_digit u then Inr (sign * digits_value u)
         else Inl (Value_Error ''invalid literal for int() with base 10''))"

section \<open>Rules\<close>

datatype capacity_scope = Scope_gateway | Scope_scene | Scope_scene_instance

record capacity_rule =
  ru_skill :: string
  ru_limit :: int
  ru_scene :: "int option"
  ru_scope :: capacity_scope

definition rule_error :: "capacity_rule \<Rightarrow> string option" where
  "rule_error r =
     (if is_blank (ru_skill r) then Some ''skill_name is required''
      else if ru_limit r \<le> 0 then Some ''activity capacity limit must be positive''
      else None)"

text \<open>A policy is the dict of its rules by skill and scene, in the order they were given.\<close>

type_synonym capacity_policy = "((string \<times> int option) \<times> capacity_rule) list"

fun policy_rules :: "capacity_rule list \<Rightarrow> capacity_policy \<Rightarrow> db_error + capacity_policy" where
  "policy_rules [] acc = Inr acc"
| "policy_rules (r # rs) acc =
     (if map_of acc (ru_skill r, ru_scene r) \<noteq> None
      then Inl (Value_Error ''duplicate activity capacity rule'')
      else policy_rules rs (acc @ [((ru_skill r, ru_scene r), r)]))"

definition make_policy :: "capacity_rule list \<Rightarrow> db_error + capacity_policy" where
  "make_policy rs =
     (case List.find (\<lambda>r. rule_error r \<noteq> None) rs of
        Some r \<Rightarrow> Inl (Value_Error (the (rule_error r)))
      | None \<Rightarrow> policy_rules rs [])"

definition rule_for :: "capacity_policy \<Rightarrow> string \<Rightarrow> int option \<Rightarrow> capacity_rule option" where
  "rule_for p skill scene =
     (case map_of p (skill, scene) of Some r \<Rightarrow> Some r | None \<Rightarrow> map_of p (skill, None))"

definition limit_for :: "capacity_policy \<Rightarrow> string \<Rightarrow> int option \<Rightarrow> int option" where
  "limit_for p skill scene = map_option ru_limit (rule_for p skill scene)"

section \<open>The place a snapshot names\<close>

definition get_or :: "json \<Rightarrow> string \<Rightarrow> string \<Rightarrow> json option" where
  "get_or snapshot canonical legacy =
     (case json_get snapshot canonical of Some v \<Rightarrow> Some v | None \<Rightarrow> json_get snapshot legacy)"

definition scene_id_from_snapshot :: "json \<Rightarrow> db_error + int option" where
  "scene_id_from_snapshot snapshot =
     (case get_or snapshot ''SceneId'' ''sceneId'' of
        Some (JInt i) \<Rightarrow> Inr (Some i)
      | Some (JStr raw) \<Rightarrow>
          (let digits = dropWhile (\<lambda>c. c = CHR ''-'') (py_strip raw) in
           if digits \<noteq> [] \<and> list_all is_digit digits
           then (case py_int raw of Inl er \<Rightarrow> Inl er | Inr i \<Rightarrow> Inr (Some i))
           else Inr None)
      | _ \<Rightarrow> Inr None)"

fun first_instance :: "json \<Rightarrow> (string \<times> string) list \<Rightarrow> string option" where
  "first_instance snapshot [] = None"
| "first_instance snapshot ((canonical, legacy) # rest) =
     (let text = (case get_or snapshot canonical legacy of
           Some (JStr raw) \<Rightarrow> py_strip raw
         | Some (JInt i) \<Rightarrow> py_strip (py_str_int i)
         | _ \<Rightarrow> [])
      in if text \<noteq> [] then Some text else first_instance snapshot rest)"

definition scene_instance_id_from_snapshot :: "json \<Rightarrow> string option" where
  "scene_instance_id_from_snapshot snapshot = first_instance snapshot
     [(''SceneInstanceId'', ''sceneInstanceId''), (''SceneInstance'', ''sceneInstance''),
      (''InstanceId'', ''instanceId''), (''LineId'', ''lineId'')]"

definition scope_text :: "capacity_scope \<Rightarrow> int option \<Rightarrow> json \<Rightarrow> string" where
  "scope_text scope scene snapshot =
     (let scene_scope = (case scene of None \<Rightarrow> ''unknown'' | Some i \<Rightarrow> py_str_int i) in
      case scope of
        Scope_gateway \<Rightarrow> '':skill:''
      | Scope_scene \<Rightarrow> '':scene:'' @ scene_scope @ '':skill:''
      | Scope_scene_instance \<Rightarrow>
          (let instance_scope = (case scene_instance_id_from_snapshot snapshot of
               None \<Rightarrow> ''default'' | Some i \<Rightarrow> i)
           in '':scene:'' @ scene_scope @ '':instance:'' @ instance_scope @ '':skill:''))"

definition capacity_key :: "capacity_policy \<Rightarrow> string \<Rightarrow> string \<Rightarrow> json \<Rightarrow> db_error + string option" where
  "capacity_key p gateway skill snapshot =
     (case scene_id_from_snapshot snapshot of
        Inl er \<Rightarrow> Inl er
      | Inr scene \<Rightarrow>
          (case rule_for p skill scene of
             None \<Rightarrow> Inr None
           | Some r \<Rightarrow> Inr (Some (gateway @ scope_text (ru_scope r) scene snapshot @ skill))))"

section \<open>Occupancy\<close>

definition reserves :: "msec \<Rightarrow> string \<Rightarrow> db \<Rightarrow> decision_row \<Rightarrow> bool" where
  "reserves now key s d \<longleftrightarrow>
     (case d_capacity d of None \<Rightarrow> False | Some c \<Rightarrow> cr_key c = key \<and> now < cr_expires_at c) \<and>
     (open_decision (d_status d) \<or>
      (d_status d = D_accepted \<and> (\<exists>k \<in> set (calls s). k_decision k = d_id d \<and> open_call (k_status k))))"

definition COUNT_ACTIVE_CAPACITY_RESERVATIONS :: "msec \<Rightarrow> string \<Rightarrow> db \<Rightarrow> nat" where
  "COUNT_ACTIVE_CAPACITY_RESERVATIONS now key s = count_where (reserves now key s) (decisions s)"

definition SELECT_ACTIVE_CAPACITY :: "msec \<Rightarrow> string list \<Rightarrow> db \<Rightarrow> (string \<times> nat) list" where
  "SELECT_ACTIVE_CAPACITY now keys s =
     [(key, n). key \<leftarrow> remdups keys, n \<leftarrow> [COUNT_ACTIVE_CAPACITY_RESERVATIONS now key s], 0 < n]"

record activity_capacity_snapshot =
  sn_scene :: "int option"
  sn_active :: "(string \<times> nat) list"
  sn_policy :: capacity_policy

definition active_count :: "activity_capacity_snapshot \<Rightarrow> string \<Rightarrow> nat" where
  "active_count sn skill = (case map_of (sn_active sn) skill of None \<Rightarrow> 0 | Some n \<Rightarrow> n)"

definition remaining_capacity :: "activity_capacity_snapshot \<Rightarrow> string \<Rightarrow> int option" where
  "remaining_capacity sn skill =
     map_option (\<lambda>limit. max (limit - int (active_count sn skill)) 0)
       (limit_for (sn_policy sn) skill (sn_scene sn))"

definition activity_available :: "activity_capacity_snapshot \<Rightarrow> string \<Rightarrow> bool" where
  "activity_available sn skill =
     (case remaining_capacity sn skill of None \<Rightarrow> True | Some n \<Rightarrow> 0 < n)"

fun key_to_skill ::
  "capacity_policy \<Rightarrow> string \<Rightarrow> json \<Rightarrow> capacity_rule list \<Rightarrow> (string \<times> string) list \<Rightarrow>
   db_error + (string \<times> string) list" where
  "key_to_skill p gateway snapshot [] acc = Inr acc"
| "key_to_skill p gateway snapshot (r # rs) acc =
     (case capacity_key p gateway (ru_skill r) snapshot of
        Inl er \<Rightarrow> Inl er
      | Inr None \<Rightarrow> key_to_skill p gateway snapshot rs acc
      | Inr (Some key) \<Rightarrow> key_to_skill p gateway snapshot rs (AList.update key (ru_skill r) acc))"

text \<open>The dict \<open>active_by_skill\<close> is filled row by row, so it is an association list updated by key.\<close>

definition capacity_snapshot ::
  "capacity_policy \<Rightarrow> msec \<Rightarrow> string \<Rightarrow> json \<Rightarrow> db \<Rightarrow> db_error + activity_capacity_snapshot" where
  "capacity_snapshot p now gateway snapshot s =
     (case key_to_skill p gateway snapshot (map snd p) [] of
        Inl er \<Rightarrow> Inl er
      | Inr keys \<Rightarrow>
          (case scene_id_from_snapshot snapshot of
             Inl er \<Rightarrow> Inl er
           | Inr scene \<Rightarrow>
               Inr \<lparr>sn_scene = scene,
                 sn_active = fold (\<lambda>(key, n) acc. case map_of keys key of
                     None \<Rightarrow> acc | Some skill \<Rightarrow> AList.update skill n acc)
                   (SELECT_ACTIVE_CAPACITY now (map fst keys) s) [],
                 sn_policy = p\<rparr>))"

definition capacity_parameters ::
  "capacity_policy \<Rightarrow> string \<Rightarrow> string \<Rightarrow> json \<Rightarrow> db_error + string option \<times> int option" where
  "capacity_parameters p gateway skill snapshot =
     (case capacity_key p gateway skill snapshot of
        Inl er \<Rightarrow> Inl er
      | Inr key \<Rightarrow>
          (case scene_id_from_snapshot snapshot of
             Inl er \<Rightarrow> Inl er
           | Inr scene \<Rightarrow> Inr (key, limit_for p skill scene)))"

definition DEFAULT_ACTIVITY_CAPACITY_POLICY :: capacity_policy where
  "DEFAULT_ACTIVITY_CAPACITY_POLICY =
     map (\<lambda>r. ((ru_skill r, ru_scene r), r))
       [\<lparr>ru_skill = ''dance_auto_schedule'', ru_limit = 33, ru_scene = None, ru_scope = Scope_scene_instance\<rparr>,
        \<lparr>ru_skill = ''darts_auto_schedule'', ru_limit = 16, ru_scene = None, ru_scope = Scope_scene_instance\<rparr>,
        \<lparr>ru_skill = ''shooting_auto_schedule'', ru_limit = 25, ru_scene = None, ru_scope = Scope_scene_instance\<rparr>,
        \<lparr>ru_skill = ''seat_sit'', ru_limit = 377, ru_scene = Some 7, ru_scope = Scope_scene_instance\<rparr>,
        \<lparr>ru_skill = ''seat_sit'', ru_limit = 150, ru_scene = Some 8, ru_scope = Scope_scene_instance\<rparr>,
        \<lparr>ru_skill = ''hot_air_balloon_auto_schedule'', ru_limit = 5, ru_scene = None, ru_scope = Scope_scene_instance\<rparr>,
        \<lparr>ru_skill = ''helicopter_auto_schedule'', ru_limit = 10, ru_scene = None, ru_scope = Scope_scene_instance\<rparr>,
        \<lparr>ru_skill = ''elevator_auto_schedule'', ru_limit = 12, ru_scene = None, ru_scope = Scope_gateway\<rparr>]"

end
