(* ===== verification/OutboxStatements.thy ===== *)
theory OutboxStatements
  imports Terminal Capacity
begin

text \<open>
  The SQL statements of \<open>outbox_repository.py\<close>, one definition each; \<open>now\<close> is
  \<open>clock_timestamp()\<close>.
\<close>

section \<open>Planning\<close>

definition LOCK_PLAN_SOURCE :: "uuid \<Rightarrow> db \<Rightarrow> (event_row \<times> cycle_row \<times> session_row) option" where
  "LOCK_PLAN_SOURCE row s = find (\<lambda>(e, c, r). e_id e = row) (event_join s)"

definition SELECT_DECISION_BY_SOURCE :: "uuid \<Rightarrow> db \<Rightarrow> decision_row option" where
  "SELECT_DECISION_BY_SOURCE source s = find (\<lambda>d. d_source d = source) (decisions s)"

definition SELECT_DECISION_BY_LEASE :: "string \<Rightarrow> string \<Rightarrow> db \<Rightarrow> decision_row option" where
  "SELECT_DECISION_BY_LEASE gateway lease s =
     find (\<lambda>d. d_gateway d = gateway \<and> d_lease d = lease) (decisions s)"

definition SELECT_DECISION_BY_ID :: "string \<Rightarrow> string \<Rightarrow> db \<Rightarrow> decision_row option" where
  "SELECT_DECISION_BY_ID gateway i s =
     find (\<lambda>d. d_gateway d = gateway \<and> d_decision_id d = i) (decisions s)"

definition INSERT_ACTION_TRACKING :: "uuid \<Rightarrow> string \<Rightarrow> string \<Rightarrow> db \<Rightarrow> uuid \<times> db" where
  "INSERT_ACTION_TRACKING tenant user_id action_type s =
     (let (i, s) = draw_uuid s in
      (i, s\<lparr>trackings := trackings s @
         [\<lparr>t_id = i, t_tenant = tenant, t_user = user_id, t_type = action_type, t_status = Tr_tracking,
           t_completed_at = None\<rparr>]\<rparr>))"

text \<open>The unique keys of the decisions.\<close>

definition decision_conflicts :: "decision_row \<Rightarrow> decision_row \<Rightarrow> bool" where
  "decision_conflicts d q \<longleftrightarrow> d_source d = d_source q \<or>
     (d_gateway d = d_gateway q \<and> (d_decision_id d = d_decision_id q \<or> d_lease d = d_lease q))"

definition INSERT_PLANNED_DECISION :: "decision_row \<Rightarrow> db \<Rightarrow> db_error + db" where
  "INSERT_PLANNED_DECISION d s =
     (if \<exists>q \<in> set (decisions s). decision_conflicts d q then Inl Integrity_Error
      else Inr (s\<lparr>decisions := decisions s @ [d]\<rparr>))"

definition MARK_PLAN_MANUAL :: "msec \<Rightarrow> uuid \<Rightarrow> string \<Rightarrow> db \<Rightarrow> db" where
  "MARK_PLAN_MANUAL now row category s =
     s\<lparr>decisions := update_where (\<lambda>d. d_id d = row)
        (\<lambda>d. d\<lparr>d_status := D_manual, d_error := (Some ''plan'', Some category),
           d_completed_at := Some now\<rparr>) (decisions s)\<rparr>"

definition RECORD_DECISION_TOKEN_USAGE :: "uuid \<Rightarrow> decision_usage \<Rightarrow> db \<Rightarrow> bool \<times> db" where
  "RECORD_DECISION_TOKEN_USAGE source usage s =
     (\<exists>d \<in> set (decisions s). d_source d = source,
      s\<lparr>decisions := update_where (\<lambda>d. d_source d = source) (\<lambda>d. d\<lparr>d_usage := usage\<rparr>) (decisions s)\<rparr>)"

section \<open>Claiming\<close>

definition decision_join :: "db \<Rightarrow> (decision_row \<times> cycle_row \<times> session_row \<times> event_row) list" where
  "decision_join s = [(d, c, r, e). d \<leftarrow> decisions s, c \<leftarrow> cycles s, c_id c = d_cycle d,
     r \<leftarrow> sessions s, s_id r = c_runtime c, e \<leftarrow> events s, e_id e = d_source d]"

definition decision_due :: "msec \<Rightarrow> int \<Rightarrow> decision_row \<Rightarrow> bool" where
  "decision_due now max_attempts d \<longleftrightarrow> d_attempts d < max_attempts \<and>
     ((d_status d \<in> {D_planned, D_retryable_failed} \<and> d_next_at d \<le> now) \<or>
      (d_status d = D_sending \<and>
        (case cl_lock_until (d_claim d) of None \<Rightarrow> False | Some u \<Rightarrow> u \<le> now)))"

definition cycle_idle :: "db \<Rightarrow> decision_row \<Rightarrow> bool" where
  "cycle_idle s d \<longleftrightarrow>
     (\<forall>q \<in> set (decisions s). d_cycle q = d_cycle d \<and> d_id q \<noteq> d_id d \<longrightarrow> d_status q \<noteq> D_sending) \<and>
     (\<forall>k \<in> set (calls s). (\<exists>q \<in> set (decisions s). d_cycle q = d_cycle d \<and> d_id q = k_decision k) \<longrightarrow>
        \<not> open_call (k_status k))"

definition decision_key :: "decision_row \<Rightarrow> msec \<times> msec \<times> uuid" where
  "decision_key d = (d_next_at d, d_created_at d, d_id d)"

definition SELECT_DECISION_CYCLE :: "msec \<Rightarrow> int \<Rightarrow> db \<Rightarrow> uuid option" where
  "SELECT_DECISION_CYCLE now max_attempts s =
     map_option (\<lambda>(d, c, r, e). d_cycle d)
       (first_by (\<lambda>(d, c, r, e). decision_key d)
         (\<lambda>(d, c, r, e). decision_due now max_attempts d \<and> cycle_idle s d) (decision_join s))"

definition LOCK_DECISION_CANDIDATE ::
  "msec \<Rightarrow> int \<Rightarrow> (uuid \<Rightarrow> bool) \<Rightarrow> uuid \<Rightarrow> db \<Rightarrow> (decision_row \<times> cycle_row \<times> session_row \<times> event_row) option" where
  "LOCK_DECISION_CANDIDATE now max_attempts locked cycle s =
     first_by (\<lambda>(d, c, r, e). decision_key d)
       (\<lambda>(d, c, r, e). d_cycle d = cycle \<and> decision_due now max_attempts d \<and> cycle_idle s d \<and>
          \<not> (locked (s_id r) \<or> locked (c_id c) \<or> locked (d_id d))) (decision_join s)"

definition claim_decision_row :: "msec \<Rightarrow> uuid \<Rightarrow> int \<Rightarrow> int \<Rightarrow> string \<Rightarrow> decision_row \<Rightarrow> decision_row" where
  "claim_decision_row now token fence ttl worker d =
     d\<lparr>d_status := D_sending, d_attempts := d_attempts d + 1,
       d_claim := \<lparr>cl_token = Some token, cl_fence = Some fence, cl_lock_until = Some (now + ttl),
         cl_locked_by = Some worker\<rparr>,
       d_error := (None, None), d_sent_at := coalesce (d_sent_at d) now\<rparr>"

definition CLAIM_DECISION ::
  "msec \<Rightarrow> int \<Rightarrow> uuid \<Rightarrow> uuid \<Rightarrow> int \<Rightarrow> int \<Rightarrow> string \<Rightarrow> db \<Rightarrow> decision_row option \<times> db" where
  "CLAIM_DECISION now max_attempts row token fence ttl worker s =
     (map_option (claim_decision_row now token fence ttl worker)
        (find (\<lambda>d. d_id d = row \<and> decision_due now max_attempts d) (decisions s)),
      s\<lparr>decisions := update_where (\<lambda>d. d_id d = row \<and> decision_due now max_attempts d)
         (claim_decision_row now token fence ttl worker) (decisions s)\<rparr>)"

definition CANCEL_LOCKED_DECISION :: "msec \<Rightarrow> uuid \<Rightarrow> string \<Rightarrow> db \<Rightarrow> db" where
  "CANCEL_LOCKED_DECISION now row category s =
     s\<lparr>decisions := update_where (\<lambda>d. d_id d = row)
        (\<lambda>d. d\<lparr>d_status := D_cancelled, d_claim := no_claim, d_error := (Some ''fence'', Some category),
           d_completed_at := Some now\<rparr>) (decisions s)\<rparr>"

section \<open>Completing\<close>

definition LOCK_CLAIMED_DECISION ::
  "uuid \<Rightarrow> db \<Rightarrow> (decision_row \<times> cycle_row \<times> session_row \<times> event_row) option" where
  "LOCK_CLAIMED_DECISION row s = find (\<lambda>(d, c, r, e). d_id d = row) (decision_join s)"

definition holds_decision_claim :: "uuid \<Rightarrow> uuid option \<Rightarrow> int option \<Rightarrow> decision_row \<Rightarrow> bool" where
  "holds_decision_claim row token fence d \<longleftrightarrow> d_id d = row \<and> d_status d = D_sending \<and>
     token \<noteq> None \<and> cl_token (d_claim d) = token \<and> fence \<noteq> None \<and> cl_fence (d_claim d) = fence"

definition lease_current :: "msec \<Rightarrow> decision_row \<Rightarrow> bool" where
  "lease_current now d \<longleftrightarrow> (case d_lease_expires d of None \<Rightarrow> True | Some u \<Rightarrow> now < u)"

definition RENEW_DECISION_CLAIM :: "msec \<Rightarrow> uuid \<Rightarrow> uuid \<Rightarrow> int \<Rightarrow> int \<Rightarrow> db \<Rightarrow> bool \<times> db" where
  "RENEW_DECISION_CLAIM now row token fence ttl s =
     (let hit = (\<lambda>d. holds_decision_claim row (Some token) (Some fence) d \<and> lease_current now d \<and>
            (\<exists>c \<in> set (cycles s). c_id c = d_cycle d \<and> c_status c = C_active \<and>
               c_lease c = Some (d_lease d) \<and> c_state_version c = Some (d_state_version d) \<and>
               (\<exists>r \<in> set (sessions s). s_id r = c_runtime c \<and> s_gen r = Some (d_gen d) \<and>
                  Some (s_fence r) = cl_fence (d_claim d))))
      in (\<exists>d \<in> set (decisions s). hit d,
          s\<lparr>decisions := update_where hit
             (\<lambda>d. d\<lparr>d_claim := (d_claim d)\<lparr>cl_lock_until := Some (now + ttl)\<rparr>\<rparr>) (decisions s)\<rparr>))"

definition complete_decision_claim ::
  "uuid \<Rightarrow> uuid option \<Rightarrow> int option \<Rightarrow> (decision_row \<Rightarrow> decision_row) \<Rightarrow> db \<Rightarrow> bool \<times> db" where
  "complete_decision_claim row token fence f s =
     (\<exists>d \<in> set (decisions s). holds_decision_claim row token fence d,
      s\<lparr>decisions := update_where (holds_decision_claim row token fence) f (decisions s)\<rparr>)"

text \<open>
  A parameter bound with SQLAlchemy's \<open>JSONB\<close> type: without \<open>none_as_null\<close>, which no statement here
  sets, Python's \<open>None\<close> is sent as the JSON value \<open>null\<close> and not as SQL's \<open>NULL\<close>.
\<close>

definition jsonb_param :: "json option \<Rightarrow> json option" where
  "jsonb_param x = (case x of None \<Rightarrow> Some JNull | Some v \<Rightarrow> Some v)"

definition coalesce_body :: "json option \<Rightarrow> decision_response \<Rightarrow> decision_response" where
  "coalesce_body body r = r\<lparr>rs_body := (case jsonb_param body of None \<Rightarrow> rs_body r | Some b \<Rightarrow> Some b)\<rparr>"

definition COMPLETE_DECISION_RETRYABLE ::
  "msec \<Rightarrow> uuid \<Rightarrow> uuid option \<Rightarrow> int option \<Rightarrow> string \<times> string \<Rightarrow> json option \<Rightarrow> int \<Rightarrow> db \<Rightarrow> bool \<times> db" where
  "COMPLETE_DECISION_RETRYABLE now row token fence er body delay =
     complete_decision_claim row token fence
       (\<lambda>d. d\<lparr>d_status := D_retryable_failed, d_next_at := now + delay, d_claim := no_claim,
          d_error := (Some (fst er), Some (snd er)), d_response := coalesce_body body (d_response d)\<rparr>)"

definition COMPLETE_DECISION_DEAD_LETTER ::
  "msec \<Rightarrow> uuid \<Rightarrow> uuid option \<Rightarrow> int option \<Rightarrow> string \<times> string \<Rightarrow> json option \<Rightarrow> db \<Rightarrow> bool \<times> db" where
  "COMPLETE_DECISION_DEAD_LETTER now row token fence er body =
     complete_decision_claim row token fence
       (\<lambda>d. d\<lparr>d_status := D_dead_letter, d_claim := no_claim,
          d_error := (Some (fst er), Some (snd er)), d_response := coalesce_body body (d_response d),
          d_completed_at := Some now\<rparr>)"

definition LOCK_EXHAUSTED_DECISION_CLAIM :: "msec \<Rightarrow> int \<Rightarrow> (uuid \<Rightarrow> bool) \<Rightarrow> db \<Rightarrow> decision_row option" where
  "LOCK_EXHAUSTED_DECISION_CLAIM now max_attempts locked s =
     first_by (\<lambda>d. (the (cl_lock_until (d_claim d)), d_id d))
       (\<lambda>d. d_status d = D_sending \<and>
          (case cl_lock_until (d_claim d) of None \<Rightarrow> False | Some u \<Rightarrow> u \<le> now) \<and>
          max_attempts \<le> d_attempts d \<and> \<not> locked (d_id d)) (decisions s)"

definition COUNT_DECISION_DEAD_LETTERS :: "db \<Rightarrow> nat" where
  "COUNT_DECISION_DEAD_LETTERS s = count_where (\<lambda>d. d_status d = D_dead_letter) (decisions s)"

text \<open>Depth of the queue, and the age of its oldest decision.\<close>

definition SELECT_DECISION_QUEUE_METRICS :: "msec \<Rightarrow> db \<Rightarrow> nat \<times> msec" where
  "SELECT_DECISION_QUEUE_METRICS now s =
     (let waiting = filter (\<lambda>d. d_status d \<in> {D_planned, D_retryable_failed} \<and> d_next_at d \<le> now) (decisions s)
      in (length waiting, if waiting = [] then 0 else now - Min (set (map d_created_at waiting))))"

section \<open>The gateway's response\<close>

definition LOCK_RESPONSE_SKILL_CALL :: "string \<Rightarrow> string \<Rightarrow> db \<Rightarrow> call_row option" where
  "LOCK_RESPONSE_SKILL_CALL gateway i s =
     find (\<lambda>k. k_gateway k = gateway \<and> k_call_id k = i) (calls s)"

definition LOCK_RESPONSE_CALL_FOR_DECISION :: "uuid \<Rightarrow> db \<Rightarrow> db_error + call_row option" where
  "LOCK_RESPONSE_CALL_FOR_DECISION row s = one_or_none (\<lambda>k. k_decision k = row) (calls s)"

definition INSERT_PENDING_SKILL_CALL ::
  "msec \<Rightarrow> uuid \<Rightarrow> uuid \<Rightarrow> string \<Rightarrow> string \<Rightarrow> string \<Rightarrow> string \<Rightarrow> string \<Rightarrow> effect_status \<Rightarrow> db \<Rightarrow>
   db_error + db" where
  "INSERT_PENDING_SKILL_CALL now tenant decision gateway sid decision_id call_id skill eff s =
     (let (i, s) = draw_uuid s in
      insert_call
        \<lparr>k_id = i, k_tenant = tenant, k_decision = decision, k_terminal_event = None,
         k_gateway = gateway, k_session = sid, k_decision_id = decision_id, k_call_id = call_id,
         k_skill = skill, k_status = K_pending, k_failure = None, k_reason = None,
         k_retryable = None, k_effect = eff, k_effect_at = None, k_created_at = now,
         k_started_at = None, k_completed_at = None\<rparr> s)"

definition MARK_RESPONSE_CALL_MANUAL :: "msec \<Rightarrow> uuid \<Rightarrow> db \<Rightarrow> db" where
  "MARK_RESPONSE_CALL_MANUAL now row s =
     s\<lparr>calls := update_where (\<lambda>k. k_id k = row)
        (conflict_call now ''protocol_failed'' ''decision_response_identity_conflict'') (calls s)\<rparr>"

definition COMPLETE_DECISION_RESPONSE ::
  "msec \<Rightarrow> uuid \<Rightarrow> uuid option \<Rightarrow> int option \<Rightarrow> decision_status \<Rightarrow> decision_response \<Rightarrow>
   string option \<times> string option \<Rightarrow> db \<Rightarrow> bool \<times> db" where
  "COMPLETE_DECISION_RESPONSE now row token fence st response er =
     complete_decision_claim row token fence
       (\<lambda>d. d\<lparr>d_status := st, d_response := response, d_claim := no_claim, d_error := er,
          d_completed_at := Some now\<rparr>)"

section \<open>Rejection and session stop\<close>

definition LOCK_DECISION_FOR_REJECTION :: "string \<Rightarrow> string \<Rightarrow> db \<Rightarrow> decision_row option" where
  "LOCK_DECISION_FOR_REJECTION gateway i s =
     find (\<lambda>d. d_gateway d = gateway \<and> d_decision_id d = i) (decisions s)"

definition APPLY_REJECTION ::
  "msec \<Rightarrow> uuid \<Rightarrow> decision_status \<Rightarrow> string \<Rightarrow> bool \<Rightarrow> string option \<times> string option \<Rightarrow> db \<Rightarrow> db" where
  "APPLY_REJECTION now row st reason replace er s =
     s\<lparr>decisions := update_where (\<lambda>d. d_id d = row)
        (\<lambda>d. d\<lparr>d_status := st,
           d_response := (d_response d)
             \<lparr>rs_status := (if st = D_rejected then Some ''rejected'' else rs_status (d_response d)),
              rs_reason := (if replace then Some reason else rs_reason (d_response d))\<rparr>,
           d_error := er,
           d_completed_at := (if st \<in> {D_rejected, D_manual} then Some now else d_completed_at d)\<rparr>)
        (decisions s)\<rparr>"

definition LOCK_STOP_CLAIM ::
  "uuid \<Rightarrow> uuid \<Rightarrow> int \<Rightarrow> db \<Rightarrow> (event_row \<times> cycle_row \<times> session_row) option" where
  "LOCK_STOP_CLAIM row token fence s =
     find (\<lambda>(e, c, r). holds_claim row (Some token) (Some fence) e) (event_join s)"

definition CANCEL_UNSENT_DECISIONS :: "msec \<Rightarrow> uuid \<Rightarrow> db \<Rightarrow> db" where
  "CANCEL_UNSENT_DECISIONS now cycle s =
     s\<lparr>decisions := update_where (\<lambda>d. d_cycle d = cycle \<and> open_decision (d_status d))
        (\<lambda>d. d\<lparr>d_status := D_cancelled,
           d_response := (d_response d)\<lparr>rs_status := Some ''cancelled'', rs_reason := Some ''session_stopped''\<rparr>,
           d_claim := no_claim, d_completed_at := Some now\<rparr>) (decisions s)\<rparr>"

definition LOCK_OPEN_CALLS :: "uuid \<Rightarrow> db \<Rightarrow> (call_row \<times> decision_row) list" where
  "LOCK_OPEN_CALLS cycle s =
     sort_key (\<lambda>(k, d). (k_created_at k, k_id k))
       [(k, d). k \<leftarrow> calls s, open_call (k_status k), d \<leftarrow> decisions s, d_id d = k_decision k \<and> d_cycle d = cycle]"

definition FINISH_STOP_CALL ::
  "msec \<Rightarrow> uuid \<Rightarrow> call_status \<Rightarrow> bool \<Rightarrow> uuid \<Rightarrow> string \<Rightarrow> effect_status \<Rightarrow> db \<Rightarrow> db_error + db" where
  "FINISH_STOP_CALL now row st bind_terminal event reason eff s =
     (let hit = (\<lambda>k. k_id k = row \<and> open_call (k_status k)) in
      if bind_terminal \<and> (\<exists>k \<in> set (calls s). hit k) \<and>
         (\<exists>l \<in> set (calls s). k_id l \<noteq> row \<and> k_terminal_event l = Some event)
      then Inl Integrity_Error
      else Inr (s\<lparr>calls := update_where hit
        (\<lambda>k. k\<lparr>k_status := st,
           k_terminal_event := (if bind_terminal then Some event else k_terminal_event k),
           k_reason := Some reason, k_retryable := Some False, k_effect := eff,
           k_effect_at := (if eff = Eff_applied then Some now else k_effect_at k),
           k_completed_at := Some now\<rparr>) (calls s)\<rparr>))"

definition COMPLETE_STOP_EVENT :: "msec \<Rightarrow> uuid \<Rightarrow> uuid \<Rightarrow> int \<Rightarrow> db \<Rightarrow> bool \<times> db" where
  "COMPLETE_STOP_EVENT now row token fence =
     complete_claim row (Some token) (Some fence) (close_event now E_succeeded (None, None))"

definition SUPERSEDE_STOPPED_CYCLE_EVENTS :: "msec \<Rightarrow> uuid \<Rightarrow> uuid \<Rightarrow> db \<Rightarrow> db" where
  "SUPERSEDE_STOPPED_CYCLE_EVENTS now cycle stop s =
     s\<lparr>events := update_where (\<lambda>e. e_cycle e = cycle \<and> e_id e \<noteq> stop \<and> open_event (e_status e))
        (\<lambda>e. retire_event now E_superseded (e_error e) e) (events s)\<rparr>"

definition CLOSE_CYCLE :: "msec \<Rightarrow> uuid \<Rightarrow> int \<Rightarrow> db \<Rightarrow> bool \<times> db" where
  "CLOSE_CYCLE now cycle sequence s =
     (\<exists>c \<in> set (cycles s). c_id c = cycle \<and> open_cycle (c_status c),
      s\<lparr>cycles := update_where (\<lambda>c. c_id c = cycle \<and> open_cycle (c_status c))
         (\<lambda>c. c\<lparr>c_next := max (c_next c) (sequence + 1), c_status := C_stopped,
            c_stopped_at := Some now\<rparr>) (cycles s)\<rparr>)"

definition STOP_RUNTIME :: "uuid \<Rightarrow> int \<Rightarrow> int \<Rightarrow> db \<Rightarrow> bool \<times> db" where
  "STOP_RUNTIME runtime gen fence s =
     (\<exists>r \<in> set (sessions s). s_id r = runtime \<and> s_gen r = Some gen \<and> s_fence r = fence,
      s\<lparr>sessions := update_where (\<lambda>r. s_id r = runtime \<and> s_gen r = Some gen \<and> s_fence r = fence)
         (\<lambda>r. r\<lparr>s_status := S_stopped, s_fence := s_fence r + 1\<rparr>) (sessions s)\<rparr>)"

end
