(* ===== verification/OutboxPlanning.thy ===== *)
theory OutboxPlanning
  imports OutboxStatements
begin

text \<open>
  Planning a decision (\<open>OutboxRepository.plan_decision\<close> and the reads around it), and the pure
  helpers at the head of \<open>outbox_repository.py\<close>.

  \<open>int(None)\<close> raises \<open>TypeError\<close> and \<open>str(None)\<close> is \<open>None\<close> spelled out, and the guards compare
  columns that may be null, so a guard is a list of checks that stops at the first false one and
  may raise.  Freezing the decision (\<open>freeze_gateway_v2_decision\<close>) and drawing its id are arguments.
\<close>

section \<open>Checks that may raise\<close>

fun all_checks :: "(db_error + bool) list \<Rightarrow> db_error + bool" where
  "all_checks [] = Inr True"
| "all_checks (Inl er # _) = Inl er"
| "all_checks (Inr False # _) = Inr False"
| "all_checks (Inr True # rest) = all_checks rest"

definition int_is :: "int option \<Rightarrow> int \<Rightarrow> db_error + bool" where
  "int_is x n = (case x of None \<Rightarrow> Inl Type_Error | Some v \<Rightarrow> Inr (v = n))"

definition str_is :: "string option \<Rightarrow> string \<Rightarrow> bool" where
  "str_is x v \<longleftrightarrow> (case x of None \<Rightarrow> ''None'' | Some u \<Rightarrow> u) = v"

lemma all_checks_True: "all_checks xs = Inr True \<longleftrightarrow> (\<forall>x \<in> set xs. x = Inr True)"
  by (induction xs rule: all_checks.induct) auto

lemma int_is_True [simp]: "int_is x n = Inr True \<longleftrightarrow> x = Some n"
  by (auto simp: int_is_def split: option.splits)

lemma int_is_False: "int_is x n = Inr False \<longleftrightarrow> (\<exists>v. x = Some v \<and> v \<noteq> n)"
  by (auto simp: int_is_def split: option.splits)

section \<open>Pure helpers\<close>

record rejection_resolution =
  rj_disposition :: mutation_disposition
  rj_status :: decision_status
  rj_reason :: "string option"
  rj_category :: "string option"

definition resolve_decision_rejection ::
  "decision_status \<Rightarrow> string option \<Rightarrow> string \<Rightarrow> rejection_resolution" where
  "resolve_decision_rejection current stored incoming =
     (if current \<in> {D_planned, D_sending, D_retryable_failed, D_cancelled}
      then \<lparr>rj_disposition = M_applied, rj_status = D_rejected, rj_reason = Some incoming, rj_category = None\<rparr>
      else if current = D_rejected
      then \<lparr>rj_disposition = M_idempotent, rj_status = D_rejected, rj_reason = stored,
            rj_category = (if stored = Some incoming then None else Some ''rejection_reason_mismatch'')\<rparr>
      else if current = D_accepted
      then \<lparr>rj_disposition = M_conflict, rj_status = D_manual, rj_reason = stored,
            rj_category = Some ''rejected_after_accepted''\<rparr>
      else \<lparr>rj_disposition = M_conflict, rj_status = D_manual, rj_reason = stored,
            rj_category = Some ''rejection_invalid_state''\<rparr>)"

definition decision_rejection_identity_matches ::
  "decision_row \<Rightarrow> gateway_event \<Rightarrow> decision_action \<Rightarrow> string option \<Rightarrow> bool" where
  "decision_rejection_identity_matches d ev action skill \<longleftrightarrow>
     d_session d = ev_session ev \<and> d_gen d = ev_generation ev \<and>
     (case ev_lease ev of None \<Rightarrow> True | Some l \<Rightarrow> d_lease d = l) \<and>
     d_action d = action \<and> json_is_object (d_body d) \<and>
     (if action = A_call_skill
      then (case json_get (d_body d) ''skillName'' of
              None \<Rightarrow> skill = None
            | Some JNull \<Rightarrow> skill = None
            | Some (JStr n) \<Rightarrow> skill = Some n
            | _ \<Rightarrow> False)
      else skill = None)"

definition session_stop_skill_status :: "decision_action \<Rightarrow> string \<Rightarrow> call_status" where
  "session_stop_skill_status action reason =
     (if action = A_stop_hosting \<and> reason = ''stop_hosting_requested'' then K_succeeded else K_cancelled)"

definition decision_lease_deadline_ms :: "int \<Rightarrow> int \<Rightarrow> int \<Rightarrow> db_error + int" where
  "decision_lease_deadline_ms occurred_at_ms lease_ttl_ms safety_window_ms =
     (if occurred_at_ms < 0 then Inl (Value_Error ''occurred_at_ms must be non-negative'')
      else if lease_ttl_ms \<le> 0 then Inl (Value_Error ''lease_ttl_ms must be positive'')
      else if safety_window_ms < 0 \<or> lease_ttl_ms \<le> safety_window_ms
      then Inl (Value_Error ''safety_window_ms must be non-negative and less than lease_ttl_ms'')
      else Inr (occurred_at_ms + lease_ttl_ms - safety_window_ms))"

section \<open>Plans, actions and configuration\<close>

datatype plan_error =
    Plan_fenced
  | Plan_conflict string
  | Plan_unavailable
  | Plan_capacity_full string string int
  | Plan_raised db_error

record planned_decision =
  pd_row :: uuid
  pd_decision_id :: string
  pd_lease :: string
  pd_action :: decision_action
  pd_body :: json
  pd_bytes :: string
  pd_hash :: string
  pd_tracking :: "uuid option"
  pd_created :: bool

record frozen_decision =
  fz_body :: json
  fz_bytes :: string
  fz_hash :: string

text \<open>
  An agent's action: its kind, the skill of a skill call, the user and action type of its tracking
  metadata, and the rest of the model as \<open>aa_dump\<close>.
\<close>

record agent_action =
  aa_action :: decision_action
  aa_skill :: string
  aa_tracking :: "(string \<times> string) option"
  aa_dump :: json

type_synonym freezer = "string \<Rightarrow> string \<Rightarrow> agent_context \<Rightarrow> agent_action \<Rightarrow> db_error + frozen_decision"

definition ctx_snapshot :: "agent_context \<Rightarrow> json" where
  "ctx_snapshot ctx = (case json_get (ctx_payload ctx) ''session'' of Some v \<Rightarrow> v | None \<Rightarrow> JNull)"

record outbox_config =
  oc_lease_ttl :: "int option"
  oc_safety_window :: int
  oc_policy :: capacity_policy
  oc_capacity_ttl :: int

text \<open>The checks of the constructor; \<open>oc_capacity_ttl\<close> is in milliseconds here.\<close>

definition outbox_config_error :: "outbox_config \<Rightarrow> db_error + unit" where
  "outbox_config_error cfg =
     (case (case oc_lease_ttl cfg of
              None \<Rightarrow> if oc_safety_window cfg \<noteq> 0
                      then Inl (Value_Error ''lease_safety_window_ms requires lease_ttl_ms'') else Inr 0
            | Some ttl \<Rightarrow> decision_lease_deadline_ms 0 ttl (oc_safety_window cfg)) of
        Inl er \<Rightarrow> Inl er
      | Inr _ \<Rightarrow>
          if oc_capacity_ttl cfg \<le> 0
          then Inl (Value_Error ''activity_capacity_ttl_seconds must be positive'') else Inr ())"

section \<open>Reads\<close>

definition planned_from_row :: "decision_row \<Rightarrow> bool \<Rightarrow> plan_error + planned_decision" where
  "planned_from_row d created =
     (if \<not> json_is_object (d_body d) then Inl Plan_unavailable
      else Inr \<lparr>pd_row = d_id d, pd_decision_id = d_decision_id d, pd_lease = d_lease d,
        pd_action = d_action d, pd_body = d_body d, pd_bytes = d_bytes d, pd_hash = d_hash d,
        pd_tracking = d_tracking d, pd_created = created\<rparr>)"

definition find_by_source_event :: "claimed_event \<Rightarrow> db \<Rightarrow> plan_error + planned_decision option" where
  "find_by_source_event ev s =
     (case SELECT_DECISION_BY_SOURCE (ce_row ev) s of
        None \<Rightarrow> Inr None
      | Some d \<Rightarrow> (case planned_from_row d False of Inl er \<Rightarrow> Inl er | Inr p \<Rightarrow> Inr (Some p)))"

definition plan_fence_matches ::
  "event_row \<times> cycle_row \<times> session_row \<Rightarrow> claimed_event \<Rightarrow> agent_context \<Rightarrow> db_error + bool" where
  "plan_fence_matches row ev ctx =
     (case row of (e, c, r) \<Rightarrow> all_checks
        [Inr (e_status e = E_processing), Inr (cl_token (e_claim e) = Some (ce_token ev)),
         int_is (cl_fence (e_claim e)) (ce_fence ev), Inr (e_gen e = ce_gen ev), Inr (c_id c = ce_cycle ev),
         Inr (c_status c = C_active), Inr (str_is (c_lease c) (ctx_lease ctx)),
         int_is (c_state_version c) (ctx_state_version ctx), int_is (s_gen r) (ce_gen ev),
         Inr (s_fence r = ce_fence ev)])"

definition is_event_fence_current :: "claimed_event \<Rightarrow> agent_context \<Rightarrow> db \<Rightarrow> db_error + bool" where
  "is_event_fence_current ev ctx s =
     (case LOCK_PLAN_SOURCE (ce_row ev) s of
        None \<Rightarrow> Inr False
      | Some row \<Rightarrow> plan_fence_matches row ev ctx)"

definition source_decision_matches :: "decision_row \<Rightarrow> claimed_event \<Rightarrow> agent_context \<Rightarrow> bool" where
  "source_decision_matches d ev ctx \<longleftrightarrow> d_gateway d = ce_gateway ev \<and> d_cycle d = ce_cycle ev \<and>
     d_lease d = ctx_lease ctx \<and> d_gen d = ce_gen ev \<and> d_state_version d = ctx_state_version ctx"

definition record_decision_token_usage :: "claimed_event \<Rightarrow> decision_usage \<Rightarrow> db \<Rightarrow> bool \<times> db" where
  "record_decision_token_usage ev usage s = RECORD_DECISION_TOKEN_USAGE (ce_row ev) usage s"

section \<open>Planning\<close>

text \<open>The capacity an action would take: nothing, or the key and the limit, unless it is full.\<close>

definition reserve_capacity ::
  "msec \<Rightarrow> outbox_config \<Rightarrow> claimed_event \<Rightarrow> agent_context \<Rightarrow> agent_action \<Rightarrow> db \<Rightarrow>
   plan_error + (string \<times> int) option" where
  "reserve_capacity now cfg ev ctx action s =
     (if aa_action action \<noteq> A_call_skill then Inr None
      else case capacity_parameters (oc_policy cfg) (ce_gateway ev) (aa_skill action) (ctx_snapshot ctx) of
          Inl er \<Rightarrow> Inl (Plan_raised er)
        | Inr (Some key, Some limit) \<Rightarrow>
            if limit \<le> int (COUNT_ACTIVE_CAPACITY_RESERVATIONS now key s)
            then Inl (Plan_capacity_full (aa_skill action) key limit)
            else Inr (Some (key, limit))
        | Inr _ \<Rightarrow> Inr None)"

definition capacity_expiry :: "msec \<Rightarrow> outbox_config \<Rightarrow> int option \<Rightarrow> msec" where
  "capacity_expiry now cfg deadline =
     (case deadline of
        None \<Rightarrow> now + oc_capacity_ttl cfg
      | Some u \<Rightarrow> min (now + oc_capacity_ttl cfg) u)"

definition planned_row ::
  "msec \<Rightarrow> outbox_config \<Rightarrow> uuid \<Rightarrow> claimed_event \<Rightarrow> agent_context \<Rightarrow> agent_action \<Rightarrow> activity_binding option \<Rightarrow>
   string \<Rightarrow> frozen_decision \<Rightarrow> uuid option \<Rightarrow> int option \<Rightarrow> (string \<times> int) option \<Rightarrow> decision_row" where
  "planned_row now cfg row ev ctx action binding decision_id frozen tracking deadline capacity =
     \<lparr>d_id = row, d_tenant = ce_tenant ev, d_cycle = ce_cycle ev, d_source = ce_row ev,
      d_tracking = tracking, d_gateway = ce_gateway ev, d_session = ce_session ev,
      d_decision_id = decision_id, d_lease = ctx_lease ctx, d_gen = ce_gen ev,
      d_state_version = ctx_state_version ctx, d_lease_expires = deadline,
      d_action = aa_action action, d_body = fz_body frozen, d_bytes = fz_bytes frozen,
      d_hash = fz_hash frozen, d_status = D_planned, d_attempts = 0, d_next_at = now,
      d_claim = no_claim, d_response = no_response, d_error = (None, None), d_binding = binding,
      d_capacity = map_option (\<lambda>(key, limit). \<lparr>cr_key = key, cr_limit = limit,
         cr_expires_at = capacity_expiry now cfg deadline\<rparr>) capacity,
      d_usage = no_usage, d_created_at = now, d_sent_at = None, d_completed_at = None\<rparr>"

definition track_action :: "claimed_event \<Rightarrow> agent_action \<Rightarrow> db \<Rightarrow> uuid option \<times> db" where
  "track_action ev action s =
     (case (if aa_action action = A_call_skill then aa_tracking action else None) of
        None \<Rightarrow> (None, s)
      | Some (user_id, action_type) \<Rightarrow>
          (case INSERT_ACTION_TRACKING (ce_tenant ev) user_id action_type s of (i, s) \<Rightarrow> (Some i, s)))"

text \<open>
  The part after all conflicts are excluded.  Inside the transaction a raise rolls back (\<open>Inl\<close>), while
  \<open>conflict_category\<close> is raised after the commit: it is a result beside the new database.
\<close>

definition insert_plan ::
  "msec \<Rightarrow> outbox_config \<Rightarrow> claimed_event \<Rightarrow> agent_context \<Rightarrow> agent_action \<Rightarrow> activity_binding option \<Rightarrow>
   string \<Rightarrow> frozen_decision \<Rightarrow> (string \<times> int) option \<Rightarrow> db \<Rightarrow>
   plan_error + (plan_error + planned_decision) \<times> db" where
  "insert_plan now cfg ev ctx action binding decision_id frozen capacity s =
     (case track_action ev action s of (tracking, s) \<Rightarrow>
        (case draw_uuid s of (row, s) \<Rightarrow>
           (case (case oc_lease_ttl cfg of
                    None \<Rightarrow> Inr None
                  | Some ttl \<Rightarrow>
                      (case decision_lease_deadline_ms (ev_occurred_at (ce_body ev)) ttl (oc_safety_window cfg) of
                         Inl er \<Rightarrow> Inl er
                       | Inr u \<Rightarrow> Inr (Some u))) of
              Inl er \<Rightarrow> Inl (Plan_raised er)
            | Inr deadline \<Rightarrow>
                (let d = planned_row now cfg row ev ctx action binding decision_id frozen tracking deadline capacity
                 in case INSERT_PLANNED_DECISION d s of
                      Inl er \<Rightarrow> Inl (Plan_raised er)
                    | Inr s \<Rightarrow>
                        Inr (Inr \<lparr>pd_row = row, pd_decision_id = decision_id, pd_lease = ctx_lease ctx,
                          pd_action = aa_action action, pd_body = fz_body frozen, pd_bytes = fz_bytes frozen,
                          pd_hash = fz_hash frozen, pd_tracking = tracking, pd_created = True\<rparr>, s)))))"

definition plan_new ::
  "msec \<Rightarrow> outbox_config \<Rightarrow> freezer \<Rightarrow> string \<Rightarrow> claimed_event \<Rightarrow> agent_context \<Rightarrow> agent_action \<Rightarrow>
   activity_binding option \<Rightarrow> db \<Rightarrow> plan_error + (plan_error + planned_decision) \<times> db" where
  "plan_new now cfg freeze decision_id ev ctx action binding s =
     (case reserve_capacity now cfg ev ctx action s of
        Inl er \<Rightarrow> Inl er
      | Inr capacity \<Rightarrow>
          (case freeze decision_id (ce_trace ev) ctx action of
             Inl er \<Rightarrow> Inl (Plan_raised er)
           | Inr frozen \<Rightarrow>
               (case SELECT_DECISION_BY_ID (ce_gateway ev) decision_id s of
                  Some d \<Rightarrow>
                    (let category = (if d_hash d \<noteq> fz_hash frozen then ''decision_id_body_conflict''
                                     else ''decision_id_identity_conflict'')
                     in Inr (Inl (Plan_conflict category), MARK_PLAN_MANUAL now (d_id d) category s))
                | None \<Rightarrow> insert_plan now cfg ev ctx action binding decision_id frozen capacity s)))"

definition plan_transaction ::
  "msec \<Rightarrow> outbox_config \<Rightarrow> freezer \<Rightarrow> string \<Rightarrow> claimed_event \<Rightarrow> agent_context \<Rightarrow> agent_action \<Rightarrow>
   activity_binding option \<Rightarrow> db \<Rightarrow> plan_error + (plan_error + planned_decision) \<times> db" where
  "plan_transaction now cfg freeze decision_id ev ctx action binding s =
     (case LOCK_PLAN_SOURCE (ce_row ev) s of
        None \<Rightarrow> Inl Plan_fenced
      | Some row \<Rightarrow>
          (case plan_fence_matches row ev ctx of
             Inl er \<Rightarrow> Inl (Plan_raised er)
           | Inr False \<Rightarrow> Inl Plan_fenced
           | Inr True \<Rightarrow>
               (case SELECT_DECISION_BY_SOURCE (ce_row ev) s of
                  Some d \<Rightarrow>
                    if source_decision_matches d ev ctx
                    then (case planned_from_row d False of Inl er \<Rightarrow> Inl er | Inr p \<Rightarrow> Inr (Inr p, s))
                    else Inr (Inl (Plan_conflict ''source_event_identity_conflict''),
                              MARK_PLAN_MANUAL now (d_id d) ''source_event_identity_conflict'' s)
                | None \<Rightarrow>
                    (case SELECT_DECISION_BY_LEASE (ce_gateway ev) (ctx_lease ctx) s of
                       Some _ \<Rightarrow> Inr (Inl (Plan_conflict ''decision_lease_consumed''), s)
                     | None \<Rightarrow> plan_new now cfg freeze decision_id ev ctx action binding s))))"

definition plan_decision ::
  "msec \<Rightarrow> outbox_config \<Rightarrow> freezer \<Rightarrow> string \<Rightarrow> claimed_event \<Rightarrow> agent_context \<Rightarrow> agent_action \<Rightarrow>
   activity_binding option \<Rightarrow> db \<Rightarrow> (plan_error + planned_decision) \<times> db" where
  "plan_decision now cfg freeze decision_id ev ctx action binding s =
     (case plan_transaction now cfg freeze decision_id ev ctx action binding s of
        Inr (res, t) \<Rightarrow> (res, t)
      | Inl (Plan_raised Integrity_Error) \<Rightarrow>
          (case find_by_source_event ev s of
             Inl er \<Rightarrow> (Inl er, s)
           | Inr (Some p) \<Rightarrow> (Inr p, s)
           | Inr None \<Rightarrow> (Inl (Plan_conflict ''decision_unique_constraint''), s))
      | Inl er \<Rightarrow> (Inl er, s))"

end
