(* ===== verification/OutboxRepository.thy ===== *)
theory OutboxRepository
  imports OutboxPlanning
begin

text \<open>
  Sending decisions (\<open>OutboxRepository\<close> after planning): claiming, renewing, failing, recording
  the gateway's response, merging a rejection and closing a generation.  A transaction that raises
  is rolled back and is an \<open>Inl\<close>.
\<close>

section \<open>Claimed decisions\<close>

record claimed_decision =
  cd_row :: uuid
  cd_tenant :: uuid
  cd_cycle :: uuid
  cd_gateway :: string
  cd_session :: string
  cd_decision_id :: string
  cd_lease :: string
  cd_gen :: int
  cd_state_version :: int
  cd_action :: decision_action
  cd_bytes :: string
  cd_hash :: string
  cd_token :: uuid
  cd_fence :: int
  cd_attempts :: int
  cd_locked_by :: string
  cd_lock_until :: msec
  cd_trace :: string

definition make_claimed_decision :: "decision_row \<Rightarrow> event_row \<Rightarrow> decision_row \<Rightarrow> claimed_decision" where
  "make_claimed_decision candidate source claimed =
     \<lparr>cd_row = d_id candidate, cd_tenant = d_tenant candidate, cd_cycle = d_cycle candidate,
      cd_gateway = d_gateway candidate, cd_session = d_session candidate,
      cd_decision_id = d_decision_id candidate, cd_lease = d_lease candidate, cd_gen = d_gen candidate,
      cd_state_version = d_state_version candidate, cd_action = d_action candidate,
      cd_bytes = d_bytes candidate, cd_hash = d_hash candidate,
      cd_token = the (cl_token (d_claim claimed)), cd_fence = the (cl_fence (d_claim claimed)),
      cd_attempts = d_attempts claimed, cd_locked_by = the (cl_locked_by (d_claim claimed)),
      cd_lock_until = the (cl_lock_until (d_claim claimed)), cd_trace = e_trace source\<rparr>"

text \<open>
  The fence of a decision: what must still hold of its cycle and session.  \<open>claimed\<close> is the
  column \<open>claimed_fence_version\<close>, which the candidate query does not select.
\<close>

definition decision_fence_error ::
  "msec \<Rightarrow> int option \<Rightarrow> decision_row \<Rightarrow> cycle_row \<Rightarrow> session_row \<Rightarrow> db_error + string option" where
  "decision_fence_error now claimed d c r =
     (if c_status c \<noteq> C_active then Inr (Some ''cycle_not_active'')
      else case s_gen r of
          None \<Rightarrow> Inl Type_Error
        | Some g \<Rightarrow>
            if g \<noteq> d_gen d then Inr (Some ''generation_changed'')
            else if (case claimed of None \<Rightarrow> False | Some f \<Rightarrow> s_fence r \<noteq> f)
            then Inr (Some ''session_fence_changed'')
            else if \<not> str_is (c_lease c) (d_lease d) then Inr (Some ''decision_lease_changed'')
            else case c_state_version c of
                None \<Rightarrow> Inl Type_Error
              | Some v \<Rightarrow>
                  if v \<noteq> d_state_version d then Inr (Some ''state_version_changed'')
                  else if \<not> lease_current now d then Inr (Some ''decision_lease_expired'')
                  else Inr None)"

section \<open>Claiming\<close>

text \<open>One pass of the loop of \<open>claim_next_decision\<close>.\<close>

datatype decision_claim_outcome =
    No_decision
  | Decision_claimed claimed_decision
  | Decision_again

definition decision_claim_step ::
  "(uuid \<Rightarrow> bool) \<Rightarrow> msec \<Rightarrow> string \<Rightarrow> int \<Rightarrow> int \<Rightarrow> db \<Rightarrow> db_error + decision_claim_outcome \<times> db" where
  "decision_claim_step locked now worker ttl max_attempts s =
     (case SELECT_DECISION_CYCLE now max_attempts s of
        None \<Rightarrow> Inr (No_decision, s)
      | Some cycle \<Rightarrow>
          (case LOCK_DECISION_CANDIDATE now max_attempts locked cycle s of
             None \<Rightarrow> Inr (No_decision, s)
           | Some (d, c, r, e) \<Rightarrow>
               (case decision_fence_error now None d c r of
                  Inl er \<Rightarrow> Inl er
                | Inr (Some category) \<Rightarrow>
                    Inr (Decision_again, CANCEL_LOCKED_DECISION now (d_id d) category s)
                | Inr None \<Rightarrow>
                    (case draw_uuid s of (token, s) \<Rightarrow>
                       (case CLAIM_DECISION now max_attempts (d_id d) token (s_fence r) ttl worker s of
                          (None, s) \<Rightarrow> Inr (Decision_again, s)
                        | (Some claimed, s) \<Rightarrow>
                            Inr (Decision_claimed (make_claimed_decision d e claimed), s))))))"

section \<open>Renewing and failing\<close>

definition renew_decision_claim :: "msec \<Rightarrow> claimed_decision \<Rightarrow> int \<Rightarrow> db \<Rightarrow> db_error + bool \<times> db" where
  "renew_decision_claim now cd ttl s =
     (if ttl \<le> 0 then Inl (Value_Error ''claim_ttl_ms must be positive'')
      else Inr (RENEW_DECISION_CLAIM now (cd_row cd) (cd_token cd) (cd_fence cd) ttl s))"

text \<open>
  The row a claim still holds.  \<open>int(None)\<close> for a missing fence is only reached behind a token
  that matches.
\<close>

definition lock_claimed_decision ::
  "claimed_decision \<Rightarrow> db \<Rightarrow> db_error + (decision_row \<times> cycle_row \<times> session_row) option" where
  "lock_claimed_decision cd s =
     (case LOCK_CLAIMED_DECISION (cd_row cd) s of
        None \<Rightarrow> Inr None
      | Some (d, c, r, e) \<Rightarrow>
          (case all_checks [Inr (d_status d = D_sending), Inr (cl_token (d_claim d) = Some (cd_token cd)),
                  int_is (cl_fence (d_claim d)) (cd_fence cd)] of
             Inl er \<Rightarrow> Inl er
           | Inr ok \<Rightarrow> Inr (if ok then Some (d, c, r) else None)))"

definition complete_decision_failure ::
  "msec \<Rightarrow> claimed_decision \<Rightarrow> string \<times> string \<Rightarrow> json option \<Rightarrow> int \<Rightarrow> int \<Rightarrow> int \<Rightarrow> db \<Rightarrow>
   db_error + bool \<times> db" where
  "complete_decision_failure now cd er body max_attempts retry_base retry_max s =
     (if max_attempts \<le> 0 \<or> retry_base \<le> 0 \<or> retry_max \<le> 0
      then Inl (Value_Error ''retry configuration must be positive'')
      else if retry_max < retry_base
      then Inl (Value_Error ''retry_base_ms must not exceed retry_max_ms'')
      else
        (case lock_claimed_decision cd s of
           Inl er \<Rightarrow> Inl er
         | Inr None \<Rightarrow> Inr (False, s)
         | Inr (Some (d, c, r)) \<Rightarrow>
             (case decision_fence_error now (cl_fence (d_claim d)) d c r of
                Inl er \<Rightarrow> Inl er
              | Inr (Some category) \<Rightarrow> Inr (True, CANCEL_LOCKED_DECISION now (cd_row cd) category s)
              | Inr None \<Rightarrow>
                  Inr (if max_attempts \<le> d_attempts d
                       then COMPLETE_DECISION_DEAD_LETTER now (cd_row cd) (Some (cd_token cd))
                              (Some (cd_fence cd)) er body s
                       else COMPLETE_DECISION_RETRYABLE now (cd_row cd) (Some (cd_token cd))
                              (Some (cd_fence cd)) er body
                              (retry_delay_ms retry_base retry_max (d_attempts d)) s))))"

section \<open>Recording the response\<close>

datatype response_status = R_accepted | R_rejected

record client_result =
  cr_http :: int
  cr_status :: response_status
  cr_reason :: string
  cr_call_id :: "string option"
  cr_body :: "json option"

definition is_idempotency_conflict :: "client_result \<Rightarrow> bool" where
  "is_idempotency_conflict res \<longleftrightarrow> cr_status res = R_rejected \<and> cr_reason res = ''idempotency_key_conflict''"

fun response_text :: "response_status \<Rightarrow> string" where
  "response_text R_accepted = ''accepted''"
| "response_text R_rejected = ''rejected''"

fun response_decision :: "response_status \<Rightarrow> decision_status" where
  "response_decision R_accepted = D_accepted"
| "response_decision R_rejected = D_rejected"

definition response_call_matches :: "call_row \<Rightarrow> claimed_decision \<Rightarrow> string \<Rightarrow> bool" where
  "response_call_matches k cd skill \<longleftrightarrow>
     k_decision k = cd_row cd \<and> k_decision_id k = cd_decision_id cd \<and> k_skill k = skill"

text \<open>
  The variables \<open>status\<close>, \<open>error_category\<close> (its stage is always \<open>http\<close>) and \<open>skill_call_id\<close> after the
  branches of an accepted skill action, with the database they leave.
\<close>

definition accept_call ::
  "msec \<Rightarrow> claimed_decision \<Rightarrow> decision_row \<Rightarrow> string \<Rightarrow> db \<Rightarrow>
   db_error + (decision_status \<times> string option \<times> string) \<times> db" where
  "accept_call now cd d call_id s =
     (case decision_skill_name d of
        None \<Rightarrow> Inr ((D_manual, Some ''decision_action_invalid'', call_id), s)
      | Some skill \<Rightarrow>
          (case LOCK_RESPONSE_CALL_FOR_DECISION (cd_row cd) s of
             Inl er \<Rightarrow> Inl er
           | Inr of_decision \<Rightarrow>
               if of_decision \<noteq> None \<and> k_call_id (the of_decision) \<noteq> call_id
               then Inr ((D_manual, Some ''skill_call_identity_conflict'', k_call_id (the of_decision)), s)
               else
                 (case LOCK_RESPONSE_SKILL_CALL (cd_gateway cd) call_id s of
                    None \<Rightarrow>
                      (case INSERT_PENDING_SKILL_CALL now (cd_tenant cd) (cd_row cd) (cd_gateway cd)
                              (cd_session cd) (cd_decision_id cd) call_id skill
                              (if d_tracking d \<noteq> None then Eff_pending else Eff_not_applicable) s of
                         Inl er \<Rightarrow> Inl er
                       | Inr s \<Rightarrow> Inr ((D_accepted, None, call_id), s))
                  | Some k \<Rightarrow>
                      if \<not> response_call_matches k cd skill
                      then Inr ((D_manual, Some ''skill_call_identity_conflict'', call_id),
                                MARK_RESPONSE_CALL_MANUAL now (k_id k) s)
                      else if k_status k = K_manual
                      then Inr ((D_manual, Some ''skill_call_state_conflict'', call_id), s)
                      else Inr ((D_accepted, None, call_id), s))))"

definition response_outcome ::
  "msec \<Rightarrow> claimed_decision \<Rightarrow> decision_row \<Rightarrow> client_result \<Rightarrow> db \<Rightarrow>
   db_error + (decision_status \<times> string option \<times> string option) \<times> db" where
  "response_outcome now cd d res s =
     (if is_idempotency_conflict res
      then Inr ((D_manual, Some ''idempotency_key_conflict'', cr_call_id res), s)
      else if cr_status res = R_accepted \<and> cd_action cd \<in> {A_call_skill, A_stop_hosting}
      then (case cr_call_id res of
              None \<Rightarrow> Inl (Value_Error ''accepted skill action must include skill_call_id'')
            | Some call_id \<Rightarrow>
                (case accept_call now cd d call_id s of
                   Inl er \<Rightarrow> Inl er
                 | Inr ((st, category, i), s) \<Rightarrow> Inr ((st, category, Some i), s)))
      else Inr ((response_decision (cr_status res), None, cr_call_id res), s))"

definition record_decision_response ::
  "msec \<Rightarrow> claimed_decision \<Rightarrow> client_result \<Rightarrow> db \<Rightarrow> db_error + bool \<times> db" where
  "record_decision_response now cd res s =
     (case lock_claimed_decision cd s of
        Inl er \<Rightarrow> Inl er
      | Inr None \<Rightarrow> Inr (False, s)
      | Inr (Some (d, c, r)) \<Rightarrow>
          (case decision_fence_error now (cl_fence (d_claim d)) d c r of
             Inl er \<Rightarrow> Inl er
           | Inr (Some _) \<Rightarrow> Inr (False, s)
           | Inr None \<Rightarrow>
               (case response_outcome now cd d res s of
                  Inl er \<Rightarrow> Inl er
                | Inr ((st, category, call_id), s) \<Rightarrow>
                    Inr (COMPLETE_DECISION_RESPONSE now (cd_row cd) (Some (cd_token cd)) (Some (cd_fence cd)) st
                      \<lparr>rs_http_status = Some (cr_http res), rs_status = Some (response_text (cr_status res)),
                       rs_reason = Some (take 256 (cr_reason res)), rs_body = jsonb_param (cr_body res),
                       rs_call_id = call_id\<rparr>
                      (map_option (\<lambda>_. ''http'') category, category) s))))"

section \<open>Sweeping and metrics\<close>

definition decision_sweep_step ::
  "(uuid \<Rightarrow> bool) \<Rightarrow> msec \<Rightarrow> int \<Rightarrow> db \<Rightarrow> (db_error + db) option" where
  "decision_sweep_step locked now max_attempts s =
     (case LOCK_EXHAUSTED_DECISION_CLAIM now max_attempts locked s of
        None \<Rightarrow> None
      | Some d \<Rightarrow>
          Some (case COMPLETE_DECISION_DEAD_LETTER now (d_id d) (cl_token (d_claim d)) (cl_fence (d_claim d))
                       (''worker'', ''claim_expired'') None s of
                  (False, _) \<Rightarrow> Inl (Runtime_Error ''expired decision claim changed while locked'')
                | (True, s) \<Rightarrow> Inr s))"

definition count_decision_dead_letters :: "db \<Rightarrow> nat" where
  "count_decision_dead_letters s = COUNT_DECISION_DEAD_LETTERS s"

definition decision_queue_metrics :: "msec \<Rightarrow> db \<Rightarrow> nat \<times> msec" where
  "decision_queue_metrics now s = SELECT_DECISION_QUEUE_METRICS now s"

section \<open>Rejections\<close>

definition merge_decision_rejected :: "msec \<Rightarrow> claimed_event \<Rightarrow> db \<Rightarrow> db_error + mutation_result \<times> db" where
  "merge_decision_rejected now claimed s =
     (case ev_payload (ce_body claimed) of
        Rejected_decision decision_id action skill reason \<Rightarrow>
          Inr (case LOCK_DECISION_FOR_REJECTION (ce_gateway claimed) decision_id s of
             None \<Rightarrow> (failure M_missing ''missing_decision'', s)
           | Some d \<Rightarrow>
               if \<not> decision_rejection_identity_matches d (ce_body claimed) action skill
               then (failure M_conflict ''decision_identity_conflict'', s)
               else
                 let rj = resolve_decision_rejection (d_status d) (rs_reason (d_response d)) reason in
                 (\<lparr>mr_disposition = rj_disposition rj, mr_category = rj_category rj\<rparr>,
                  APPLY_REJECTION now (d_id d) (rj_status rj) reason (rj_disposition rj = M_applied)
                    (map_option (\<lambda>_. ''decision_rejected_event'') (rj_category rj), rj_category rj) s))
      | _ \<Rightarrow> Inl (Value_Error ''decision_rejected event is required''))"

section \<open>Closing a generation\<close>

definition is_current_claim :: "event_row \<times> cycle_row \<times> session_row \<Rightarrow> claimed_event \<Rightarrow> db_error + bool" where
  "is_current_claim row ev =
     (case row of (e, c, r) \<Rightarrow> all_checks
        [Inr (e_gen e = ce_gen ev), int_is (s_gen r) (ce_gen ev), Inr (s_fence r = ce_fence ev)])"

fun mark_ambiguous :: "msec \<Rightarrow> uuid \<Rightarrow> (call_row \<times> decision_row) list \<Rightarrow> db \<Rightarrow> db_error + db" where
  "mark_ambiguous now event [] s = Inr s"
| "mark_ambiguous now event ((k, d) # rest) s =
     (case FINISH_STOP_CALL now (k_id k) K_manual False event ''ambiguous_stop_hosting_call'' Eff_manual s of
        Inl er \<Rightarrow> Inl er
      | Inr s \<Rightarrow> mark_ambiguous now event rest s)"

definition finish_stop_call ::
  "msec \<Rightarrow> uuid \<Rightarrow> string \<Rightarrow> call_row \<times> decision_row \<Rightarrow> db \<Rightarrow> db_error + db" where
  "finish_stop_call now event reason row s =
     (case row of (k, d) \<Rightarrow>
        let st = session_stop_skill_status (d_action d) reason in
        (case (if st = K_cancelled \<and> d_tracking d \<noteq> None
               then (case terminal_effect now (the (d_tracking d)) K_cancelled s of
                       Inl er \<Rightarrow> Inl er | Inr s \<Rightarrow> Inr (Eff_applied, s))
               else Inr (Eff_not_applicable, s)) of
           Inl er \<Rightarrow> Inl er
         | Inr (eff, s) \<Rightarrow>
             FINISH_STOP_CALL now (k_id k) st (st = K_succeeded) event
               (if st = K_succeeded then ''stop_hosting_requested'' else ''session_stopped'') eff s))"

fun finish_stop_calls ::
  "msec \<Rightarrow> uuid \<Rightarrow> string \<Rightarrow> (call_row \<times> decision_row) list \<Rightarrow> db \<Rightarrow> db_error + db" where
  "finish_stop_calls now event reason [] s = Inr s"
| "finish_stop_calls now event reason (row # rest) s =
     (case finish_stop_call now event reason row s of
        Inl er \<Rightarrow> Inl er
      | Inr s \<Rightarrow> finish_stop_calls now event reason rest s)"

definition close_locked ::
  "msec \<Rightarrow> claimed_event \<Rightarrow> uuid \<Rightarrow> db \<Rightarrow> db_error + mutation_result \<times> db" where
  "close_locked now claimed runtime s =
     (case COMPLETE_STOP_EVENT now (ce_row claimed) (ce_token claimed) (ce_fence claimed) s of (completed, s) \<Rightarrow>
        (case CLOSE_CYCLE now (ce_cycle claimed) (ce_seq claimed)
                (SUPERSEDE_STOPPED_CYCLE_EVENTS now (ce_cycle claimed) (ce_row claimed) s) of (closed, s) \<Rightarrow>
           (case STOP_RUNTIME runtime (ce_gen claimed) (ce_fence claimed) s of (stopped, s) \<Rightarrow>
              if completed \<and> closed \<and> stopped then Inr (result M_applied, s)
              else Inl (Runtime_Error ''session stop transaction lost its fence''))))"

definition close_generation :: "msec \<Rightarrow> claimed_event \<Rightarrow> db \<Rightarrow> db_error + mutation_result \<times> db" where
  "close_generation now claimed s =
     (case ev_payload (ce_body claimed) of
        Stopped_session reason \<Rightarrow>
          (case LOCK_STOP_CLAIM (ce_row claimed) (ce_token claimed) (ce_fence claimed) s of
             None \<Rightarrow> Inr (failure M_fenced ''claim_lost'', s)
           | Some row \<Rightarrow>
               (case is_current_claim row claimed of
                  Inl er \<Rightarrow> Inl er
                | Inr False \<Rightarrow> Inr (failure M_fenced ''claim_lost'', s)
                | Inr True \<Rightarrow>
                    (let s = CANCEL_UNSENT_DECISIONS now (ce_cycle claimed) s;
                         opened = LOCK_OPEN_CALLS (ce_cycle claimed) s;
                         succeeded = filter (\<lambda>(k, d).
                           session_stop_skill_status (d_action d) reason = K_succeeded) opened
                     in if 1 < length succeeded
                        then (case mark_ambiguous now (ce_row claimed) succeeded s of
                                Inl er \<Rightarrow> Inl er
                              | Inr s \<Rightarrow> Inr (failure M_conflict ''ambiguous_stop_hosting_call'', s))
                        else (case finish_stop_calls now (ce_row claimed) reason opened s of
                                Inl er \<Rightarrow> Inl er
                              | Inr s \<Rightarrow> close_locked now claimed (c_runtime (fst (snd row))) s))))
      | _ \<Rightarrow> Inl (Value_Error ''session_stopped event is required''))"

end
