(* ===== verification/OutboxFacts.thy ===== *)
theory OutboxFacts
  imports OutboxRepository
begin

text \<open>
  What the statements and transactions of the outbox keep: those that insert no row and draw no UUID
  are \<open>keeps\<close> steps, the others move the database along \<open>db_le\<close>.  The two loops of the outbox close
  an open decision in every pass.
\<close>

section \<open>Statements\<close>

lemmas outbox_statement_defs =
  MARK_PLAN_MANUAL_def RECORD_DECISION_TOKEN_USAGE_def RENEW_DECISION_CLAIM_def
  MARK_RESPONSE_CALL_MANUAL_def CANCEL_UNSENT_DECISIONS_def SUPERSEDE_STOPPED_CYCLE_EVENTS_def
  CLOSE_CYCLE_def STOP_RUNTIME_def UPDATE_ACTION_TRACKING_def

lemma keeps_outbox_statements:
  "keeps s (MARK_PLAN_MANUAL now row category s)"
  "keeps s (snd (RECORD_DECISION_TOKEN_USAGE source usage s))"
  "keeps s (snd (RENEW_DECISION_CLAIM now row token fence ttl s))"
  "keeps s (MARK_RESPONSE_CALL_MANUAL now row s)"
  "keeps s (CANCEL_UNSENT_DECISIONS now cycle s)"
  "keeps s (SUPERSEDE_STOPPED_CYCLE_EVENTS now cycle stop s)"
  "keeps s (snd (CLOSE_CYCLE now cycle n s))"
  "keeps s (snd (STOP_RUNTIME i gen fence s))"
  "keeps s (snd (UPDATE_ACTION_TRACKING now i st s))"
  unfolding outbox_statement_defs Let_def snd_conv
  by (rule keepsI,
      (rule db_le_updates; auto simp: row_les retire_event_def conflict_call_def),
      simp add: shape_def row_writes)+

declare keeps_outbox_statements [simp]

lemma keeps_complete_decision_claim:
  assumes "\<And>d. d_status d = D_sending \<Longrightarrow>
    decision_le d (f d) \<and> cl_token (d_claim (f d)) \<in> {None, cl_token (d_claim d)}"
    and "\<And>d. d_attempts (f d) = d_attempts d"
  shows "keeps s (snd (complete_decision_claim row tok fe f s))"
proof (rule keepsI)
  show "db_le s (snd (complete_decision_claim row tok fe f s))"
    unfolding complete_decision_claim_def snd_conv
    by (rule db_le_decisions, unfold holds_decision_claim_def) (use assms(1) in blast)
qed (simp add: complete_decision_claim_def shape_def assms(2))

lemma keeps_decision_completes [simp]:
  "keeps s (snd (COMPLETE_DECISION_RETRYABLE now row tok fe er body delay s))"
  "keeps s (snd (COMPLETE_DECISION_DEAD_LETTER now row tok fe er body s))"
  "keeps s (snd (COMPLETE_DECISION_RESPONSE now row tok fe st res er' s))"
  unfolding COMPLETE_DECISION_RETRYABLE_def COMPLETE_DECISION_DEAD_LETTER_def COMPLETE_DECISION_RESPONSE_def
  by (rule keeps_complete_decision_claim, simp add: decision_le_def, simp)+

lemma keeps_COMPLETE_STOP_EVENT [simp]: "keeps s (snd (COMPLETE_STOP_EVENT now row tok fe s))"
  unfolding COMPLETE_STOP_EVENT_def by (rule keeps_complete_claim) (simp add: event_le_def close_event_def)

lemma keeps_FINISH_STOP_CALL:
  "FINISH_STOP_CALL now row st b ev reason eff s = Inr t \<Longrightarrow> st \<in> {K_manual, K_cancelled, K_succeeded} \<Longrightarrow>
   keeps s t"
  by (auto simp: FINISH_STOP_CALL_def Let_def shape_def split: if_splits
      intro!: keepsI db_le_calls simp: call_le_def)

lemma keeps_snd: "keeps s (snd p) \<Longrightarrow> p = (x, t) \<Longrightarrow> keeps s t"
  by simp

section \<open>The rows a transaction locks\<close>

lemma in_decision_join:
  "(d, c, r, e) \<in> set (decision_join s) \<longleftrightarrow> d \<in> set (decisions s) \<and> c \<in> set (cycles s) \<and>
     r \<in> set (sessions s) \<and> e \<in> set (events s) \<and> c_id c = d_cycle d \<and> s_id r = c_runtime c \<and> e_id e = d_source d"
  by (auto simp: decision_join_def)

lemma LOCK_DECISION_CANDIDATE_SomeD:
  assumes "LOCK_DECISION_CANDIDATE now m locked cy s = Some (d, c, r, e)"
  shows "(d, c, r, e) \<in> set (decision_join s)" "d_cycle d = cy" "decision_due now m d" "cycle_idle s d"
  using first_by_SomeD(1,2)[OF assms[unfolded LOCK_DECISION_CANDIDATE_def]] by auto

lemma LOCK_CLAIMED_DECISION_SomeD:
  assumes "LOCK_CLAIMED_DECISION row s = Some (d, c, r, e)"
  shows "(d, c, r, e) \<in> set (decision_join s)" "d_id d = row"
  using find_SomeD[OF assms[unfolded LOCK_CLAIMED_DECISION_def]] by auto

lemma lock_claimed_decision_SomeD:
  assumes "lock_claimed_decision cd s = Inr (Some (d, c, r))"
  shows "d \<in> set (decisions s)" "c \<in> set (cycles s)" "r \<in> set (sessions s)" "c_id c = d_cycle d"
    "s_id r = c_runtime c" "holds_decision_claim (cd_row cd) (Some (cd_token cd)) (Some (cd_fence cd)) d"
proof -
  obtain e where l: "LOCK_CLAIMED_DECISION (cd_row cd) s = Some (d, c, r, e)"
    and "all_checks [Inr (d_status d = D_sending), Inr (cl_token (d_claim d) = Some (cd_token cd)),
      int_is (cl_fence (d_claim d)) (cd_fence cd)] = Inr True"
    using assms by (auto simp: lock_claimed_decision_def split: option.splits sum.splits if_splits)
  note j = LOCK_CLAIMED_DECISION_SomeD[OF l] and this(2)[unfolded all_checks_True]
  then show "d \<in> set (decisions s)" "c \<in> set (cycles s)" "r \<in> set (sessions s)" "c_id c = d_cycle d"
    "s_id r = c_runtime c" "holds_decision_claim (cd_row cd) (Some (cd_token cd)) (Some (cd_fence cd)) d"
    by (simp_all add: in_decision_join holds_decision_claim_def)
qed

lemma decision_due_open: "decision_due now m d \<Longrightarrow> open_decision (d_status d)"
  by (auto simp: decision_due_def)

lemma LOCK_EXHAUSTED_DECISION_SomeD:
  assumes "LOCK_EXHAUSTED_DECISION_CLAIM now m locked s = Some d"
  shows "d \<in> set (decisions s)" "d_status d = D_sending" "m \<le> d_attempts d"
    "\<exists>u. cl_lock_until (d_claim d) = Some u \<and> u \<le> now"
  using first_by_SomeD(1,2)[OF assms[unfolded LOCK_EXHAUSTED_DECISION_CLAIM_def]]
  by (auto split: option.splits)

lemma keeps_CANCEL_LOCKED:
  assumes "keys_ok s" and "d \<in> set (decisions s)" and "open_decision (d_status d)"
  shows "keeps s (CANCEL_LOCKED_DECISION now (d_id d) category s)"
proof (rule keepsI)
  show "db_le s (CANCEL_LOCKED_DECISION now (d_id d) category s)"
    unfolding CANCEL_LOCKED_DECISION_def
  proof (rule db_le_decisions)
    fix q assume "q \<in> set (decisions s)" "d_id q = d_id d"
    with decision_key_unique[OF assms(1,2)] have "q = d" by blast
    with assms(3) show "decision_le q (q\<lparr>d_status := D_cancelled, d_claim := no_claim,
          d_error := (Some ''fence'', Some category), d_completed_at := Some now\<rparr>) \<and>
        cl_token (d_claim (q\<lparr>d_status := D_cancelled, d_claim := no_claim,
          d_error := (Some ''fence'', Some category), d_completed_at := Some now\<rparr>)) \<in>
          {None, cl_token (d_claim q)}"
      by (auto simp: decision_le_def)
  qed
qed (simp add: CANCEL_LOCKED_DECISION_def shape_def)

section \<open>Open decisions\<close>

definition open_decisions :: "db \<Rightarrow> nat" where
  "open_decisions s = count_where (\<lambda>d. open_decision (d_status d)) (decisions s)"

lemma open_decisions_cancel:
  assumes "d \<in> set (decisions s)" and "open_decision (d_status d)"
  shows "open_decisions (CANCEL_LOCKED_DECISION now (d_id d) category s) < open_decisions s"
  unfolding open_decisions_def CANCEL_LOCKED_DECISION_def
  by simp (rule count_where_update_less, use assms in auto)

lemma CLAIM_DECISION_SomeD:
  assumes "d \<in> set (decisions s)" and "decision_due now m d"
  shows "fst (CLAIM_DECISION now m (d_id d) token fence ttl w s) \<noteq> None"
  using assms by (auto simp: CLAIM_DECISION_def find_None_iff)

lemma decision_claim_step_again:
  assumes "decision_claim_step locked now w ttl m s = Inr (Decision_again, t)"
  shows "open_decisions t < open_decisions s"
proof -
  obtain cy where "SELECT_DECISION_CYCLE now m s = Some cy"
    using assms by (auto simp: decision_claim_step_def split: option.splits)
  then obtain d c r e where l: "LOCK_DECISION_CANDIDATE now m locked cy s = Some (d, c, r, e)"
    using assms by (auto simp: decision_claim_step_def split: option.splits)
  note cand = LOCK_DECISION_CANDIDATE_SomeD[OF l]
  have d: "d \<in> set (decisions s)" "open_decision (d_status d)"
    using cand(1) decision_due_open[OF cand(3)] by (auto simp: in_decision_join)
  obtain tok s1 where u: "draw_uuid s = (tok, s1)" by fastforce
  then have "decisions s1 = decisions s" by (auto simp: draw_uuid_def)
  with d(1) cand(3) have "fst (CLAIM_DECISION now m (d_id d) tok (s_fence r) ttl w s1) \<noteq> None"
    by (intro CLAIM_DECISION_SomeD) simp_all
  then obtain q s2 where "CLAIM_DECISION now m (d_id d) tok (s_fence r) ttl w s1 = (Some q, s2)"
    by (metis option.exhaust_sel prod.collapse)
  with assms \<open>SELECT_DECISION_CYCLE now m s = Some cy\<close> l u
  have "\<exists>category. t = CANCEL_LOCKED_DECISION now (d_id d) category s"
    by (auto simp: decision_claim_step_def split: option.splits sum.splits)
  with open_decisions_cancel[OF d] show ?thesis by auto
qed

text \<open>
  The passes of \<open>claim_next_decision\<close> run in one transaction: an error of a later pass rolls back
  the cancellations of the earlier ones.
\<close>

function decision_claim_loop ::
  "(uuid \<Rightarrow> bool) \<Rightarrow> msec \<Rightarrow> string \<Rightarrow> int \<Rightarrow> int \<Rightarrow> db \<Rightarrow> db_error + claimed_decision option \<times> db" where
  "decision_claim_loop locked now worker ttl max_attempts s =
     (case decision_claim_step locked now worker ttl max_attempts s of
        Inl er \<Rightarrow> Inl er
      | Inr (No_decision, t) \<Rightarrow> Inr (None, t)
      | Inr (Decision_claimed cd, t) \<Rightarrow> Inr (Some cd, t)
      | Inr (Decision_again, t) \<Rightarrow> decision_claim_loop locked now worker ttl max_attempts t)"
  by pat_completeness auto

termination
  by (relation "measure (\<lambda>(locked, now, w, ttl, m, s). open_decisions s)")
     (auto dest: decision_claim_step_again)

declare decision_claim_loop.simps [simp del]

definition claim_next_decision ::
  "(uuid \<Rightarrow> bool) \<Rightarrow> msec \<Rightarrow> string \<Rightarrow> int \<Rightarrow> int \<Rightarrow> db \<Rightarrow> db_error + claimed_decision option \<times> db" where
  "claim_next_decision locked now worker ttl max_attempts s =
     (if is_blank worker then Inl (Value_Error ''worker_id must not be empty'')
      else if ttl \<le> 0 \<or> max_attempts \<le> 0
      then Inl (Value_Error ''claim_ttl_ms and max_attempts must be positive'')
      else decision_claim_loop locked now worker ttl max_attempts s)"

lemma decision_sweep_step_less:
  assumes "decision_sweep_step locked now m s = Some (Inr t)"
  shows "open_decisions t < open_decisions s"
proof -
  from assms obtain d where l: "LOCK_EXHAUSTED_DECISION_CLAIM now m locked s = Some d"
    by (auto simp: decision_sweep_step_def split: option.splits)
  let ?P = "holds_decision_claim (d_id d) (cl_token (d_claim d)) (cl_fence (d_claim d))"
  from assms l have hit: "\<exists>x \<in> set (decisions s). ?P x"
    and t: "decisions t = update_where ?P (\<lambda>d. d\<lparr>d_status := D_dead_letter, d_claim := no_claim,
          d_error := (Some ''worker'', Some ''claim_expired''), d_response := coalesce_body None (d_response d),
          d_completed_at := Some now\<rparr>) (decisions s)"
    by (auto simp: decision_sweep_step_def COMPLETE_DECISION_DEAD_LETTER_def complete_decision_claim_def
        split: prod.splits bool.splits if_splits)
  show ?thesis
    unfolding open_decisions_def t
    by (rule count_where_update_less) (use hit in \<open>auto simp: holds_decision_claim_def\<close>)
qed

function decision_sweep_loop ::
  "(uuid \<Rightarrow> bool) \<Rightarrow> msec \<Rightarrow> int \<Rightarrow> nat \<Rightarrow> db \<Rightarrow> db_error + nat \<times> db" where
  "decision_sweep_loop locked now max_attempts n s =
     (case decision_sweep_step locked now max_attempts s of
        None \<Rightarrow> Inr (n, s)
      | Some (Inl er) \<Rightarrow> Inl er
      | Some (Inr t) \<Rightarrow> decision_sweep_loop locked now max_attempts (n + 1) t)"
  by pat_completeness auto

termination
  by (relation "measure (\<lambda>(locked, now, m, n, s). open_decisions s)") (auto dest: decision_sweep_step_less)

declare decision_sweep_loop.simps [simp del]

definition sweep_expired_decision_claims ::
  "(uuid \<Rightarrow> bool) \<Rightarrow> msec \<Rightarrow> int \<Rightarrow> db \<Rightarrow> db_error + nat \<times> db" where
  "sweep_expired_decision_claims locked now max_attempts s =
     (if max_attempts \<le> 0 then Inl (Value_Error ''max_attempts must be positive'')
      else decision_sweep_loop locked now max_attempts 0 s)"

end
