(* ===== verification/OutboxSafety.thy ===== *)
theory OutboxSafety
  imports OutboxFacts
begin

text \<open>Every transaction of the outbox, and of the skill calls, moves the database along \<open>db_le\<close>.\<close>

lemmas keeps_results =
  keeps_decision_completes[THEN keeps_snd] keeps_COMPLETE_STOP_EVENT[THEN keeps_snd]
  keeps_outbox_statements(7-9)[THEN keeps_snd]

section \<open>Planning\<close>

lemma db_le_draw: "draw_uuid s = (i, t) \<Longrightarrow> db_le s t"
  using db_le_inserts(7)[of s] by simp

lemma db_le_track_action: "track_action ev action s = (tr, t) \<Longrightarrow> db_le s t"
  by (auto simp: track_action_def INSERT_ACTION_TRACKING_def Let_def split: option.splits prod.splits
      intro: db_le_trans[OF db_le_draw db_le_inserts(6)])

lemma planned_row_claim [simp]:
  "d_claim (planned_row now cfg row ev ctx action binding i frozen tr deadline capacity) = no_claim"
  by (simp add: planned_row_def)

lemma INSERT_PLANNED_InrD:
  "INSERT_PLANNED_DECISION d s = Inr t \<Longrightarrow>
     t = s\<lparr>decisions := decisions s @ [d]\<rparr> \<and> (\<forall>q \<in> set (decisions s). \<not> decision_conflicts d q)"
  by (auto simp: INSERT_PLANNED_DECISION_def split: if_splits)

text \<open>What \<open>insert_plan\<close> does when it does not raise.\<close>

lemma insert_plan_cases:
  assumes "insert_plan now cfg ev ctx action binding i frozen capacity s = Inr (res, t)"
  obtains tr s1 row s2 deadline d where "track_action ev action s = (tr, s1)" "draw_uuid s1 = (row, s2)"
    "d = planned_row now cfg row ev ctx action binding i frozen tr deadline capacity"
    "t = s2\<lparr>decisions := decisions s2 @ [d]\<rparr>" "\<forall>q \<in> set (decisions s2). \<not> decision_conflicts d q"
    "res = Inr \<lparr>pd_row = row, pd_decision_id = i, pd_lease = ctx_lease ctx, pd_action = aa_action action,
       pd_body = fz_body frozen, pd_bytes = fz_bytes frozen, pd_hash = fz_hash frozen, pd_tracking = tr,
       pd_created = True\<rparr>"
    "oc_lease_ttl cfg = None \<longrightarrow> deadline = None"
proof -
  obtain tr s1 row s2 where u: "track_action ev action s = (tr, s1)" "draw_uuid s1 = (row, s2)" by fastforce
  show thesis
    using assms u
    by (auto simp: insert_plan_def Let_def split: sum.splits option.splits dest!: INSERT_PLANNED_InrD intro!: that)
qed

lemma db_le_insert_plan:
  assumes "insert_plan now cfg ev ctx action binding i frozen capacity s = Inr (res, t)"
  shows "db_le s t"
  using assms
proof (cases rule: insert_plan_cases)
  case (1 tr s1 row s2 deadline d)
  have "db_le s1 s2" using 1(2) by (rule db_le_draw)
  moreover have "db_le s2 t" unfolding 1(4) by (rule db_le_inserts(4)) (simp add: 1(3))
  ultimately show ?thesis using db_le_track_action[OF 1(1)] by (blast intro: db_le_trans)
qed

lemma plan_transaction_cases:
  assumes "plan_transaction now cfg freeze i ev ctx action binding s = Inr (res, t)"
  obtains (stored) d p where "SELECT_DECISION_BY_SOURCE (ce_row ev) s = Some d" "res = Inr p"
      "planned_from_row d False = Inr p" "t = s" "source_decision_matches d ev ctx"
  | (manual) d category where "t = MARK_PLAN_MANUAL now (d_id d) category s" "res = Inl (Plan_conflict category)"
      "d \<in> set (decisions s)"
      "d_source d = ce_row ev \<and> \<not> source_decision_matches d ev ctx \<or> d_gateway d = ce_gateway ev \<and> d_decision_id d = i"
  | (consumed) "t = s" "res = Inl (Plan_conflict ''decision_lease_consumed'')"
  | (created) frozen capacity row where "insert_plan now cfg ev ctx action binding i frozen capacity s = Inr (res, t)"
      "reserve_capacity now cfg ev ctx action s = Inr capacity" "freeze i (ce_trace ev) ctx action = Inr frozen"
      "LOCK_PLAN_SOURCE (ce_row ev) s = Some row" "plan_fence_matches row ev ctx = Inr True"
      "SELECT_DECISION_BY_SOURCE (ce_row ev) s = None"
proof -
  obtain row where row: "LOCK_PLAN_SOURCE (ce_row ev) s = Some row"
    using assms by (auto simp: plan_transaction_def split: option.splits)
  then have fence: "plan_fence_matches row ev ctx = Inr True"
    using assms by (auto simp: plan_transaction_def split: sum.splits bool.splits)
  show thesis
  proof (cases "SELECT_DECISION_BY_SOURCE (ce_row ev) s")
    case (Some d)
    then have d: "d \<in> set (decisions s)" "d_source d = ce_row ev"
      unfolding SELECT_DECISION_BY_SOURCE_def by (auto dest: find_SomeD)
    show thesis
    proof (cases "source_decision_matches d ev ctx")
      case True
      with assms row fence Some obtain p where "planned_from_row d False = Inr p" "res = Inr p" "t = s"
        by (auto simp: plan_transaction_def split: sum.splits)
      with Some True show thesis by (intro stored)
    next
      case False
      with assms row fence Some d show thesis by (auto simp: plan_transaction_def intro: manual)
    qed
  next
    case None
    show thesis
    proof (cases "SELECT_DECISION_BY_LEASE (ce_gateway ev) (ctx_lease ctx) s")
      case (Some d)
      with assms row fence None show thesis by (auto simp: plan_transaction_def intro: consumed)
    next
      case lease: None
      with assms row fence None have new: "plan_new now cfg freeze i ev ctx action binding s = Inr (res, t)"
        by (simp add: plan_transaction_def)
      then obtain capacity frozen where c: "reserve_capacity now cfg ev ctx action s = Inr capacity"
        "freeze i (ce_trace ev) ctx action = Inr frozen"
        by (auto simp: plan_new_def split: sum.splits)
      show thesis
      proof (cases "SELECT_DECISION_BY_ID (ce_gateway ev) i s")
        case (Some d)
        then have "d \<in> set (decisions s)" "d_gateway d = ce_gateway ev \<and> d_decision_id d = i"
          unfolding SELECT_DECISION_BY_ID_def by (auto dest: find_SomeD)
        with new c Some show thesis by (auto simp: plan_new_def Let_def intro: manual)
      next
        case None
        with new c have "insert_plan now cfg ev ctx action binding i frozen capacity s = Inr (res, t)"
          by (simp add: plan_new_def)
        with c row fence \<open>SELECT_DECISION_BY_SOURCE _ s = None\<close> show thesis by (intro created)
      qed
    qed
  qed
qed

lemma plan_decision_cases:
  obtains (committed) "plan_transaction now cfg freeze i ev ctx action binding s =
      Inr (plan_decision now cfg freeze i ev ctx action binding s)"
  | (rolled_back) "snd (plan_decision now cfg freeze i ev ctx action binding s) = s"
      "\<And>p. fst (plan_decision now cfg freeze i ev ctx action binding s) = Inr p \<Longrightarrow>
         find_by_source_event ev s = Inr (Some p)"
proof (cases "plan_transaction now cfg freeze i ev ctx action binding s")
  case (Inl er)
  show ?thesis
  proof (rule rolled_back)
    show "snd (plan_decision now cfg freeze i ev ctx action binding s) = s"
      using Inl by (auto simp: plan_decision_def split: plan_error.splits db_error.splits sum.splits option.splits)
    show "find_by_source_event ev s = Inr (Some p)"
      if "fst (plan_decision now cfg freeze i ev ctx action binding s) = Inr p" for p
      using Inl that
      by (auto simp: plan_decision_def split: plan_error.splits db_error.splits sum.splits option.splits)
  qed
next
  case (Inr x)
  show ?thesis by (rule committed) (simp add: plan_decision_def Inr case_prod_beta)
qed

lemma db_le_plan_decision: "db_le s (snd (plan_decision now cfg freeze i ev ctx action binding s))"
proof (cases rule: plan_decision_cases[of now cfg freeze i ev ctx action binding s])
  case committed
  obtain res t where rt: "plan_decision now cfg freeze i ev ctx action binding s = (res, t)" by fastforce
  from committed[unfolded rt] have "db_le s t"
    by (cases rule: plan_transaction_cases)
       (use keeps_outbox_statements(1) in \<open>auto simp: keeps_def intro: db_le_insert_plan\<close>)
  with rt show ?thesis by simp
qed simp

section \<open>Claiming and completing\<close>

lemma db_le_CLAIM_DECISION:
  assumes "draw_uuid s = (token, s')"
  shows "db_le s (snd (CLAIM_DECISION now m row token fence ttl w s'))"
proof -
  let ?t = "snd (CLAIM_DECISION now m row token fence ttl w s')"
  have d: "token = next_uuid s" "s' = s\<lparr>next_uuid := Suc (next_uuid s)\<rparr>"
    using assms by (auto simp: draw_uuid_def)
  have "evolves decision_le (decisions s) (decisions ?t)"
    unfolding CLAIM_DECISION_def d snd_conv
    by (simp, rule decision_rows.evolves_update_where)
       (auto simp: decision_le_def claim_decision_row_def decision_due_def)
  moreover have "decision_claims ?t \<subseteq> decision_claims s \<union> {(i, k). k = token}"
    unfolding decision_claims_def CLAIM_DECISION_def snd_conv claims_of_def d
    by (auto simp: set_update_where claim_decision_row_def split: if_splits)
  moreover have "next_uuid ?t = Suc (next_uuid s)" "sessions ?t = sessions s" "cycles ?t = cycles s"
    "events ?t = events s" "calls ?t = calls s" "trackings ?t = trackings s"
    by (simp_all add: CLAIM_DECISION_def d)
  ultimately show ?thesis
    by (auto simp: db_le_def evolves_refls event_claims_def d)
qed

lemma decision_claim_step_cases:
  assumes "decision_claim_step locked now w ttl m s = Inr (out, t)"
  obtains (nothing) "out = No_decision" "t = s"
  | (cancelled) d c r e category where "(d, c, r, e) \<in> set (decision_join s)" "decision_due now m d"
      "decision_fence_error now None d c r = Inr (Some category)" "out = Decision_again"
      "t = CANCEL_LOCKED_DECISION now (d_id d) category s"
  | (claimed) d c r e q s1 where "(d, c, r, e) \<in> set (decision_join s)" "decision_due now m d" "cycle_idle s d"
      "decision_fence_error now None d c r = Inr None" "draw_uuid s = (next_uuid s, s1)"
      "CLAIM_DECISION now m (d_id d) (next_uuid s) (s_fence r) ttl w s1 = (Some q, t)"
      "out = Decision_claimed (make_claimed_decision d e q)"
proof (cases "SELECT_DECISION_CYCLE now m s")
  case None
  with assms have "out = No_decision" "t = s" by (simp_all add: decision_claim_step_def)
  then show ?thesis by (rule nothing)
next
  case (Some cy)
  show ?thesis
  proof (cases "LOCK_DECISION_CANDIDATE now m locked cy s")
    case None
    with Some assms have "out = No_decision" "t = s" by (simp_all add: decision_claim_step_def)
    then show ?thesis by (rule nothing)
  next
    case (Some row)
    obtain d c r e where row: "row = (d, c, r, e)" by (cases row)
    note cand = LOCK_DECISION_CANDIDATE_SomeD[OF Some[unfolded row]]
    obtain s1 where u: "draw_uuid s = (next_uuid s, s1)" "decisions s1 = decisions s" by (simp add: draw_uuid_def)
    obtain q s2 where cl: "CLAIM_DECISION now m (d_id d) (next_uuid s) (s_fence r) ttl w s1 = (Some q, s2)"
      using CLAIM_DECISION_SomeD[of d s1 now m "next_uuid s" "s_fence r" ttl w] cand(1,3) u(2)
      by (auto simp: in_decision_join) (metis option.exhaust_sel prod.collapse)
    show ?thesis
    proof (cases "decision_fence_error now None d c r")
      case (Inl er)
      with assms \<open>SELECT_DECISION_CYCLE now m s = Some cy\<close> Some row show ?thesis
        by (simp add: decision_claim_step_def)
    next
      case (Inr x)
      show ?thesis
      proof (cases x)
        case None
        with assms \<open>SELECT_DECISION_CYCLE now m s = Some cy\<close> Some row Inr u(1) cl
        have "out = Decision_claimed (make_claimed_decision d e q)" "s2 = t"
          by (simp_all add: decision_claim_step_def)
        with cl Inr None show ?thesis by (intro claimed[OF cand(1,3,4) _ u(1)]) simp_all
      next
        case (Some category)
        with assms \<open>SELECT_DECISION_CYCLE now m s = Some cy\<close> \<open>LOCK_DECISION_CANDIDATE now m locked cy s = Some row\<close>
          row Inr
        have "out = Decision_again" "t = CANCEL_LOCKED_DECISION now (d_id d) category s"
          by (simp_all add: decision_claim_step_def)
        with Inr Some show ?thesis by (intro cancelled[OF cand(1,3)]) simp_all
      qed
    qed
  qed
qed

lemma cancelled_step_keeps:
  assumes "keys_ok s" and "(d, c, r, e) \<in> set (decision_join s)" and "decision_due now m d"
  shows "keeps s (CANCEL_LOCKED_DECISION now (d_id d) category s)"
  using assms by (intro keeps_CANCEL_LOCKED) (auto simp: in_decision_join dest: decision_due_open)

lemma db_le_decision_claim_step:
  assumes "keys_ok s" and "decision_claim_step locked now w ttl m s = Inr (out, t)"
  shows "db_le s t"
  using assms(2)
proof (cases rule: decision_claim_step_cases)
  case cancelled
  with cancelled_step_keeps[OF assms(1)] show ?thesis by (auto simp: keeps_def)
next
  case claimed
  then show ?thesis using db_le_CLAIM_DECISION by (metis snd_conv)
qed simp

lemma db_le_decision_claim_loop:
  "decision_claim_loop locked now w ttl m s = Inr (out, t) \<Longrightarrow> keys_ok s \<Longrightarrow> db_le s t"
proof (induction locked now w ttl m s rule: decision_claim_loop.induct)
  case (1 locked now w ttl m s)
  from 1(2) obtain x u where st: "decision_claim_step locked now w ttl m s = Inr (x, u)"
    by (subst (asm) decision_claim_loop.simps) (auto split: sum.splits)
  have le: "db_le s u" using db_le_decision_claim_step[OF 1(3) st] .
  show ?case
  proof (cases x)
    case Decision_again
    with st have k: "keeps s u"
      by (cases rule: decision_claim_step_cases) (use cancelled_step_keeps[OF 1(3)] in auto)
    have "decision_claim_loop locked now w ttl m u = Inr (out, t)"
      using 1(2) st Decision_again by (subst (asm) decision_claim_loop.simps) simp
    then show ?thesis
      using 1(1)[OF st, of x u] Decision_again keeps_ok(1)[OF k] 1(3) le by (auto intro: db_le_trans)
  qed (use 1(2) st le in \<open>subst (asm) decision_claim_loop.simps, simp\<close>)+
qed

lemma db_le_claim_next_decision:
  "claim_next_decision locked now w ttl m s = Inr (out, t) \<Longrightarrow> keys_ok s \<Longrightarrow> db_le s t"
  by (auto simp: claim_next_decision_def split: if_splits intro: db_le_decision_claim_loop)

lemma keeps_complete_decision_failure:
  assumes "keys_ok s" and "complete_decision_failure now cd er body m rb rm s = Inr (b, t)"
  shows "keeps s t"
proof -
  have "keeps s (CANCEL_LOCKED_DECISION now (cd_row cd) category s)"
    if "lock_claimed_decision cd s = Inr (Some (d, c, r))" for d c r category
    using keeps_CANCEL_LOCKED[OF assms(1), of d now category] lock_claimed_decision_SomeD[OF that]
    by (simp add: holds_decision_claim_def)
  with assms(2) show ?thesis
    by (auto simp: complete_decision_failure_def split: if_splits sum.splits option.splits
        intro: keeps_results)
qed

lemma db_le_insert_call: "insert_call k s = Inr t \<Longrightarrow> db_le s t"
  by (auto simp: insert_call_def split: if_splits intro: db_le_inserts(5))

lemma db_le_INSERT_PENDING:
  "INSERT_PENDING_SKILL_CALL now tenant d gw sid i c skill eff s = Inr t \<Longrightarrow> db_le s t"
  by (auto simp: INSERT_PENDING_SKILL_CALL_def Let_def split: prod.splits
      intro: db_le_trans[OF db_le_draw db_le_insert_call])

lemma db_le_response_outcome: "response_outcome now cd d res s = Inr (x, t) \<Longrightarrow> db_le s t"
  using keeps_outbox_statements(4)
  by (auto simp: response_outcome_def accept_call_def keeps_def split: if_splits option.splits sum.splits
      intro: db_le_INSERT_PENDING)

lemma db_le_record_decision_response:
  assumes "record_decision_response now cd res s = Inr (b, t)"
  shows "db_le s t"
proof -
  have "db_le u v" if "COMPLETE_DECISION_RESPONSE now row tok fe st rsp er u = (b, v)" for row tok fe st rsp er u v
    using keeps_results(3)[OF that] by (simp add: keeps_def)
  with assms show ?thesis
    by (auto simp: record_decision_response_def split: sum.splits option.splits
        dest!: db_le_response_outcome) (blast intro: db_le_trans)
qed

section \<open>Sweep, rejection and stop\<close>

lemma keeps_decision_sweep_loop:
  "decision_sweep_loop locked now m n s = Inr (n', t) \<Longrightarrow> keeps s t"
proof (induction locked now m n s rule: decision_sweep_loop.induct)
  case (1 locked now m n s)
  show ?case
  proof (cases "decision_sweep_step locked now m s")
    case None
    with 1(2) show ?thesis by (simp add: decision_sweep_loop.simps)
  next
    case (Some x)
    with 1(2) obtain u where x: "x = Inr u" "decision_sweep_loop locked now m (n + 1) u = Inr (n', t)"
      by (subst (asm) decision_sweep_loop.simps) (auto split: sum.splits)
    have "keeps s u"
      using Some x(1)
      by (auto simp: decision_sweep_step_def split: option.splits prod.splits bool.splits
          intro: keeps_results)
    moreover have "keeps u t" using 1(1)[OF Some x(1,2)] .
    ultimately show ?thesis by (rule keeps_trans)
  qed
qed

lemma keeps_sweep_decisions:
  "sweep_expired_decision_claims locked now m s = Inr (n, t) \<Longrightarrow> keeps s t"
  by (auto simp: sweep_expired_decision_claims_def split: if_splits dest: keeps_decision_sweep_loop)

lemma keeps_merge_decision_rejected:
  assumes "keys_ok s" and "merge_decision_rejected now ev s = Inr (res, t)"
  shows "keeps s t"
proof -
  have "keeps s (APPLY_REJECTION now (d_id d) (rj_status rj) reason b er s)"
    if d: "d \<in> set (decisions s)" and rj: "rj = resolve_decision_rejection (d_status d) sr reason" for d rj sr reason b er
  proof (rule keepsI)
    show "db_le s (APPLY_REJECTION now (d_id d) (rj_status rj) reason b er s)"
      unfolding APPLY_REJECTION_def
    proof (rule db_le_decisions)
      fix q assume "q \<in> set (decisions s)" "d_id q = d_id d"
      with decision_key_unique[OF assms(1) d] have q: "q = d" by blast
      show "decision_le q (q\<lparr>d_status := rj_status rj,
           d_response := (d_response q)
             \<lparr>rs_status := (if rj_status rj = D_rejected then Some ''rejected'' else rs_status (d_response q)),
              rs_reason := (if b then Some reason else rs_reason (d_response q))\<rparr>,
           d_error := er,
           d_completed_at := (if rj_status rj \<in> {D_rejected, D_manual} then Some now else d_completed_at q)\<rparr>) \<and>
        cl_token (d_claim (q\<lparr>d_status := rj_status rj,
           d_response := (d_response q)
             \<lparr>rs_status := (if rj_status rj = D_rejected then Some ''rejected'' else rs_status (d_response q)),
              rs_reason := (if b then Some reason else rs_reason (d_response q))\<rparr>,
           d_error := er,
           d_completed_at := (if rj_status rj \<in> {D_rejected, D_manual} then Some now else d_completed_at q)\<rparr>))
          \<in> {None, cl_token (d_claim q)}"
        unfolding q by (cases "d_status d") (auto simp: decision_le_def rj resolve_decision_rejection_def)
    qed
  qed (simp add: APPLY_REJECTION_def shape_def)
  with assms(2) show ?thesis
    by (auto simp: merge_decision_rejected_def LOCK_DECISION_FOR_REJECTION_def Let_def
        split: event_payload.splits option.splits if_splits dest!: find_SomeD)
qed

lemma keeps_terminal_effect: "terminal_effect now i st s = Inr t \<Longrightarrow> keeps s t"
  by (auto simp: terminal_effect_def split: sum.splits prod.splits bool.splits
      intro: keeps_results)

lemma keeps_finish_stop_call: "finish_stop_call now ev reason row s = Inr t \<Longrightarrow> keeps s t"
  by (auto simp: finish_stop_call_def Let_def session_stop_skill_status_def
      split: prod.splits sum.splits if_splits
      dest!: keeps_terminal_effect intro: keeps_trans keeps_FINISH_STOP_CALL)

lemma keeps_finish_stop_calls: "finish_stop_calls now ev reason rows s = Inr t \<Longrightarrow> keeps s t"
  by (induction rows arbitrary: s) (auto split: sum.splits intro: keeps_trans dest: keeps_finish_stop_call)

lemma keeps_mark_ambiguous: "mark_ambiguous now ev rows s = Inr t \<Longrightarrow> keeps s t"
proof (induction rows arbitrary: s)
  case (Cons row rows)
  obtain k d where row: "row = (k, d)" by fastforce
  with Cons.prems obtain u where u: "FINISH_STOP_CALL now (k_id k) K_manual False ev
      ''ambiguous_stop_hosting_call'' Eff_manual s = Inr u" "mark_ambiguous now ev rows u = Inr t"
    by (auto split: sum.splits)
  with keeps_FINISH_STOP_CALL[OF u(1)] Cons.IH[OF u(2)] show ?case by (auto intro: keeps_trans)
qed simp

lemma keeps_close_locked:
  assumes "close_locked now ev runtime s = Inr (res, t)"
  shows "keeps s t"
proof -
  obtain b1 s1 b2 s2 b3 s3 where
    u: "COMPLETE_STOP_EVENT now (ce_row ev) (ce_token ev) (ce_fence ev) s = (b1, s1)"
      "CLOSE_CYCLE now (ce_cycle ev) (ce_seq ev)
         (SUPERSEDE_STOPPED_CYCLE_EVENTS now (ce_cycle ev) (ce_row ev) s1) = (b2, s2)"
      "STOP_RUNTIME runtime (ce_gen ev) (ce_fence ev) s2 = (b3, s3)" by fastforce
  have "keeps s s1" "keeps (SUPERSEDE_STOPPED_CYCLE_EVENTS now (ce_cycle ev) (ce_row ev) s1) s2" "keeps s2 s3"
    using keeps_results(4)[OF u(1)] keeps_results(5)[OF u(2)] keeps_results(6)[OF u(3)] by simp_all
  moreover have "keeps s1 (SUPERSEDE_STOPPED_CYCLE_EVENTS now (ce_cycle ev) (ce_row ev) s1)" by simp
  ultimately have "keeps s s3" by (blast intro: keeps_trans)
  with assms u show ?thesis by (auto simp: close_locked_def split: if_splits)
qed

lemma keeps_close_generation:
  assumes "close_generation now ev s = Inr (res, t)"
  shows "keeps s t"
proof -
  have "keeps s (CANCEL_UNSENT_DECISIONS now (ce_cycle ev) s)" by simp
  then have "\<And>u. keeps (CANCEL_UNSENT_DECISIONS now (ce_cycle ev) s) u \<Longrightarrow> keeps s u"
    by (rule keeps_trans)
  with assms show ?thesis
    by (auto simp: close_generation_def Let_def split: event_payload.splits option.splits sum.splits bool.splits
        if_splits dest!: keeps_finish_stop_calls keeps_mark_ambiguous keeps_close_locked intro: keeps_trans)
qed

section \<open>Skill calls\<close>

lemma keeps_mark_statements [simp]:
  "keeps s (MARK_STARTED now row s)" "keeps s (MARK_TERMINAL_CONFLICT now row s)"
  "keeps s (snd (MARK_EFFECT_APPLIED now row s))"
  unfolding MARK_STARTED_def MARK_TERMINAL_CONFLICT_def MARK_EFFECT_APPLIED_def snd_conv
  by (rule keepsI, (rule db_le_calls; auto simp: call_le_def conflict_call_def), simp add: shape_def)+

lemma keeps_UPDATE_TERMINAL: "UPDATE_TERMINAL now row ev r eff s = Inr (b, t) \<Longrightarrow>
    tr_status r \<notin> {K_pending, K_started} \<Longrightarrow> keeps s t"
  by (auto simp: UPDATE_TERMINAL_def Let_def shape_def split: if_splits intro!: keepsI db_le_calls
      simp: call_le_def)

lemma keeps_apply_effect: "apply_effect now i tracking st s = Inr t \<Longrightarrow> keeps s t"
  by (auto simp: apply_effect_def split: option.splits sum.splits prod.splits bool.splits
      dest!: keeps_terminal_effect intro: keeps_trans keeps_mark_statements(3)[THEN keeps_snd])

lemma db_le_INSERT_calls:
  "INSERT_STARTED now tenant d gw sid i c skill s = Inr t \<Longrightarrow> db_le s t"
  "INSERT_TERMINAL now tenant d ev gw sid i c skill r eff s = Inr (row, t) \<Longrightarrow> db_le s t"
  by (auto simp: INSERT_STARTED_def INSERT_TERMINAL_def Let_def split: prod.splits sum.splits
      intro: db_le_trans[OF db_le_draw db_le_insert_call])

lemma db_le_record_skill_started:
  "record_skill_started now ev s = Inr (res, t) \<Longrightarrow> db_le s t"
  using keeps_mark_statements(1)
  by (auto simp: record_skill_started_def keeps_def split: event_payload.splits sum.splits option.splits if_splits
      intro: db_le_INSERT_calls(1))

lemma normalized_status: "tr_status (normalize_skill_terminal fin) \<notin> {K_pending, K_started}"
  by (cases fin) simp_all

lemma keeps_finish_call:
  assumes "finish_call now ev d k r eff s = Inr (res, t)" and "tr_status r \<notin> {K_pending, K_started}"
  shows "keeps s t"
proof -
  have "keeps s u" if "UPDATE_TERMINAL now (k_id k) (ce_row ev) r eff s = Inr (b, u)" for b u
    using keeps_UPDATE_TERMINAL[OF that assms(2)] .
  with assms(1) show ?thesis
    by (auto simp: finish_call_def split: mutation_disposition.splits sum.splits prod.splits bool.splits
        dest!: keeps_apply_effect intro: keeps_trans)
qed

lemma db_le_record_skill_finished:
  "record_skill_finished now ev s = Inr (res, t) \<Longrightarrow> db_le s t"
  using normalized_status
  by (auto simp: record_skill_finished_def Let_def
      split: event_payload.splits sum.splits option.splits if_splits
      dest!: keeps_finish_call db_le_INSERT_calls(2) keeps_apply_effect simp: keeps_def)
    (blast intro: db_le_trans)+

end
