(* ===== verification/AdmissionFacts.thy ===== *)
theory AdmissionFacts
  imports InboxAdmission
begin

text \<open>
  What admission does to the event log.  The log of a gateway maps an event id to the hash of its
  stored content; \<open>admits\<close> says that a transaction appended exactly the listed events, all new to
  the log.  Every insertion path is shown to be an \<open>admits\<close> step, and the batch is one by
  composition.
\<close>

definition event_log :: "string \<Rightarrow> db \<Rightarrow> string \<Rightarrow> string option" where
  "event_log gateway s i = SELECT_ONE gateway i s"

definition identities_distinct :: "db \<Rightarrow> bool" where
  "identities_distinct s \<longleftrightarrow> distinct (map (\<lambda>e. (e_gateway e, e_event_id e)) (events s))"

definition row_of :: "string \<Rightarrow> prepared_event \<Rightarrow> event_row \<Rightarrow> bool" where
  "row_of gateway p e \<longleftrightarrow> e_gateway e = gateway \<and> e_event_id e = pe_id p \<and> e_hash e = pe_hash p \<and>
     e_body e = pe_event p \<and> e_type e = ev_type (pe_event p) \<and> e_status e = E_pending \<and>
     e_attempts e = 0 \<and> e_claim e = no_claim \<and> event_check e"

definition admits :: "string \<Rightarrow> prepared_event list \<Rightarrow> string list \<Rightarrow> db \<Rightarrow> db \<Rightarrow> bool" where
  "admits gateway ps ids s t \<longleftrightarrow>
     (\<exists>new. events t = events s @ new \<and> map e_event_id new = ids \<and> distinct ids \<and>
       (\<forall>e \<in> set new. event_log gateway s (e_event_id e) = None \<and> (\<exists>p \<in> set ps. row_of gateway p e)))"

lemma SELECT_ONE_events: "events t = events s \<Longrightarrow> SELECT_ONE gw i t = SELECT_ONE gw i s"
  by (simp add: SELECT_ONE_def)

lemma event_log_events: "events t = events s \<Longrightarrow> event_log gw t = event_log gw s"
  by (simp add: event_log_def SELECT_ONE_def fun_eq_iff)

lemma event_log_None_iff:
  "event_log gw s i = None \<longleftrightarrow> (\<forall>e \<in> set (events s). e_gateway e = gw \<longrightarrow> e_event_id e \<noteq> i)"
  by (auto simp: event_log_def SELECT_ONE_def find_None_iff)

lemma event_log_SomeE:
  assumes "event_log gw s i = Some h"
  obtains e where "e \<in> set (events s)" "e_gateway e = gw" "e_event_id e = i" "e_hash e = h"
  using assms by (auto simp: event_log_def SELECT_ONE_def dest: find_SomeD)

lemma event_log_row:
  assumes "identities_distinct s" and "e \<in> set (events s)"
  shows "event_log (e_gateway e) s (e_event_id e) = Some (e_hash e)"
proof -
  have "find (\<lambda>f. e_gateway f = e_gateway e \<and> e_event_id f = e_event_id e) (events s) = Some e"
    by (rule find_unique)
       (use assms in \<open>auto simp: identities_distinct_def dest: distinct_key_unique\<close>)
  then show ?thesis by (simp add: event_log_def SELECT_ONE_def)
qed

lemma load_existing_eq:
  assumes "identities_distinct s"
  shows "load_existing gw ps s i = (if i \<in> pe_id ` set ps then event_log gw s i else None)"
proof (cases "i \<in> pe_id ` set ps")
  case False
  then have "map_of (rev (SELECT_EXISTING gw (map pe_id ps) s)) i = None"
    by (auto simp: SELECT_EXISTING_def map_of_eq_None_iff image_iff)
  with False show ?thesis by (auto simp: load_existing_def)
next
  case True
  then have ne: "ps \<noteq> []" by auto
  show ?thesis
  proof (cases "map_of (rev (SELECT_EXISTING gw (map pe_id ps) s)) i")
    case None
    then have "(i, e_hash e) \<notin> set (SELECT_EXISTING gw (map pe_id ps) s)" for e
      by (force simp: map_of_eq_None_iff)
    moreover have "(i, e_hash e) \<in> set (SELECT_EXISTING gw (map pe_id ps) s)"
      if "e \<in> set (events s)" "e_gateway e = gw" "e_event_id e = i" for e
      using that True by (auto simp: SELECT_EXISTING_def)
    ultimately have "event_log gw s i = None"
      unfolding event_log_None_iff by blast
    with None True ne show ?thesis by (simp add: load_existing_def)
  next
    case (Some h)
    then have "(i, h) \<in> set (SELECT_EXISTING gw (map pe_id ps) s)"
      by (auto dest: map_of_SomeD)
    then obtain e where "e \<in> set (events s)" "e_gateway e = gw" "e_event_id e = i" "e_hash e = h"
      by (auto simp: SELECT_EXISTING_def)
    with event_log_row[OF assms, of e] have "event_log gw s i = Some h" by simp
    with Some True ne show ?thesis by (simp add: load_existing_def)
  qed
qed

section \<open>Composition\<close>

lemma event_log_append:
  assumes "events t = events s @ new"
  shows "event_log gw t i =
    (case event_log gw s i of
       Some h \<Rightarrow> Some h
     | None \<Rightarrow> map_option e_hash (find (\<lambda>e. e_gateway e = gw \<and> e_event_id e = i) new))"
proof -
  have "find P (xs @ ys) = (case find P xs of Some x \<Rightarrow> Some x | None \<Rightarrow> find P ys)"
    for P :: "event_row \<Rightarrow> bool" and xs ys
    by (induction xs) auto
  with assms show ?thesis by (simp add: event_log_def SELECT_ONE_def split: option.splits)
qed

lemma admits_refl: "events t = events s \<Longrightarrow> admits gw ps [] s t"
  by (simp add: admits_def)

lemma admits_one:
  assumes "events t = events s @ [e]" and "event_log gw s (pe_id p) = None"
    and "row_of gw p e" and "p \<in> set ps"
  shows "admits gw ps [pe_id p] s t"
proof -
  have "e_event_id e = pe_id p" using assms(3) by (simp add: row_of_def)
  with assms show ?thesis unfolding admits_def by (intro exI[of _ "[e]"]) auto
qed

lemma admits_trans:
  assumes "admits gw ps ids s t" and "admits gw qs jds t u"
  shows "admits gw (ps @ qs) (ids @ jds) s u"
proof -
  from assms(1) obtain new where new: "events t = events s @ new" "map e_event_id new = ids"
    "distinct ids" "\<And>e. e \<in> set new \<Longrightarrow> event_log gw s (e_event_id e) = None"
    "\<And>e. e \<in> set new \<Longrightarrow> \<exists>p \<in> set ps. row_of gw p e"
    unfolding admits_def by auto
  from assms(2) obtain more where more: "events u = events t @ more" "map e_event_id more = jds"
    "distinct jds" "\<And>e. e \<in> set more \<Longrightarrow> event_log gw t (e_event_id e) = None"
    "\<And>e. e \<in> set more \<Longrightarrow> \<exists>p \<in> set qs. row_of gw p e"
    unfolding admits_def by auto
  have fresh: "event_log gw s (e_event_id e) = None \<and> e_event_id e \<notin> set ids"
    if "e \<in> set more" for e
  proof -
    have none: "event_log gw t (e_event_id e) = None" using more(4) that by simp
    then have "event_log gw s (e_event_id e) = None"
      unfolding event_log_append[OF new(1)] by (simp split: option.splits)
    moreover have "e_event_id e \<notin> e_event_id ` set new"
    proof
      assume "e_event_id e \<in> e_event_id ` set new"
      then obtain f where f: "f \<in> set new" "e_event_id f = e_event_id e" by auto
      with new(5) have "e_gateway f = gw" by (auto simp: row_of_def)
      with f none new(1) show False by (auto simp: event_log_None_iff)
    qed
    ultimately show ?thesis using new(2) by (auto simp flip: new(2))
  qed
  have "set ids \<inter> set jds = {}"
    using fresh by (auto simp flip: more(2))
  moreover have "\<exists>p \<in> set (ps @ qs). row_of gw p e" if "e \<in> set (new @ more)" for e
    using new(5)[of e] more(5)[of e] that by (simp add: bex_Un) blast
  moreover have "event_log gw s (e_event_id e) = None" if "e \<in> set (new @ more)" for e
    using new(4)[of e] fresh[of e] that by auto
  ultimately show ?thesis
    unfolding admits_def
    by (intro exI[of _ "new @ more"]) (use new(1-3) more(1-3) in simp)
qed

lemma admits_mono: "admits gw ps ids s t \<Longrightarrow> set ps \<subseteq> set qs \<Longrightarrow> admits gw qs ids s t"
  unfolding admits_def by blast

lemma admits_fresh:
  assumes "admits gw ps ids s t" and "i \<in> set ids"
  shows "event_log gw s i = None" and "i \<in> pe_id ` set ps"
  using assms by (auto simp: admits_def row_of_def) (metis (no_types, lifting) image_iff)

lemma identities_distinct_admits:
  assumes "admits gw ps ids s t" and "identities_distinct s"
  shows "identities_distinct t"
proof -
  from assms(1) obtain new where new: "events t = events s @ new" "map e_event_id new = ids"
    "distinct ids" "\<And>e. e \<in> set new \<Longrightarrow> event_log gw s (e_event_id e) = None"
    "\<And>e. e \<in> set new \<Longrightarrow> e_gateway e = gw"
    unfolding admits_def row_of_def by auto
  let ?k = "\<lambda>e. (e_gateway e, e_event_id e)"
  have "distinct (map ?k new)"
    using new(2,3) by (auto simp: distinct_map inj_on_def)
  moreover have "?k ` set (events s) \<inter> ?k ` set new = {}"
  proof -
    have "?k e \<noteq> ?k f" if "e \<in> set (events s)" "f \<in> set new" for e f
      using new(4,5)[OF that(2)] that(1) by (auto simp: event_log_None_iff)
    then show ?thesis by blast
  qed
  ultimately show ?thesis
    using assms(2) new(1) by (simp add: identities_distinct_def)
qed

lemma admits_log:
  assumes "admits gw ps ids s t" and "distinct (map pe_id ps)"
  shows "event_log gw t i =
    (if i \<in> set ids then map_option pe_hash (find (\<lambda>p. pe_id p = i) ps) else event_log gw s i)"
proof -
  from assms(1) obtain new where new: "events t = events s @ new" "map e_event_id new = ids"
    "distinct ids" "\<And>e. e \<in> set new \<Longrightarrow> event_log gw s (e_event_id e) = None"
    "\<And>e. e \<in> set new \<Longrightarrow> \<exists>p \<in> set ps. row_of gw p e"
    unfolding admits_def by auto
  show ?thesis
  proof (cases "i \<in> set ids")
    case True
    then obtain e where e: "e \<in> set new" "e_event_id e = i" by (auto simp flip: new(2))
    with new(4,5) obtain p where p: "p \<in> set ps" "row_of gw p e" "event_log gw s i = None" by auto
    have "find (\<lambda>f. e_gateway f = gw \<and> e_event_id f = i) new = Some e"
      by (rule find_unique)
         (use e p(2) new(2,3) in \<open>auto simp: row_of_def dest: distinct_key_unique[of e_event_id]\<close>)
    moreover have "find (\<lambda>q. pe_id q = i) ps = Some p"
      by (rule find_unique)
         (use e p assms(2) in \<open>auto simp: row_of_def dest: distinct_key_unique[of pe_id]\<close>)
    ultimately show ?thesis
      using True p by (simp add: event_log_append[OF new(1)] row_of_def)
  next
    case False
    then have "find (\<lambda>f. e_gateway f = gw \<and> e_event_id f = i) new = None"
      by (auto simp: find_None_iff simp flip: new(2))
    with False show ?thesis by (simp add: event_log_append[OF new(1)] split: option.splits)
  qed
qed

section \<open>The insertion paths\<close>

lemma events_draw_uuid [simp]: "events (snd (draw_uuid s)) = events s"
  by (simp add: draw_uuid_def)

lemma events_UPSERT_SESSION [simp]: "events (snd (UPSERT_SESSION now who sid s)) = events s"
  by (simp add: UPSERT_SESSION_def draw_uuid_def split: option.splits)

lemma events_UPSERT_CYCLE [simp]: "events (snd (UPSERT_CYCLE who r sid g s)) = events s"
  by (simp add: UPSERT_CYCLE_def draw_uuid_def split: option.splits)

lemma events_REFRESH [simp]: "events (REFRESH_SESSION_LIVENESS now gw sids s) = events s"
  by (simp add: REFRESH_SESSION_LIVENESS_def)

lemma events_upserts:
  "UPSERT_SESSION now who sid s = (i, t) \<Longrightarrow> events t = events s"
  "UPSERT_CYCLE who r sid g s = (i, t) \<Longrightarrow> events t = events s"
  "draw_uuid s = (i, t) \<Longrightarrow> events t = events s"
  by (metis events_UPSERT_SESSION snd_conv, metis events_UPSERT_CYCLE snd_conv,
      metis events_draw_uuid snd_conv)

lemma events_hosted_cycle:
  "hosted_cycle now who k sid s = (c, g, k', t) \<Longrightarrow> events t = events s"
  by (auto simp: hosted_cycle_def events_upserts split: option.splits prod.splits)

lemma row_of_new_event_row:
  "event_check (new_event_row now who trace i c g n p) \<Longrightarrow>
   row_of (id_gateway who) p (new_event_row now who trace i c g n p)"
  by (simp add: row_of_def new_event_row_def)

lemma insert_event_do_nothing_admits:
  assumes "insert_event_do_nothing (new_event_row now who trace i c g n p) s = Inr (ins, t)"
  shows "if ins then admits (id_gateway who) [p] [pe_id p] s t else t = s"
proof -
  let ?e = "new_event_row now who trace i c g n p"
  have *: "e_gateway ?e = id_gateway who" "e_event_id ?e = pe_id p" by (simp_all add: new_event_row_def)
  show ?thesis
  proof (cases ins)
    case True
    with assms have e: "events t = events s @ [?e]" "event_check ?e"
      and free: "\<forall>f \<in> set (events s). \<not> same_identity ?e f"
      by (auto simp: insert_event_do_nothing_def split: if_splits)
    from free have "event_log (id_gateway who) s (pe_id p) = None"
      unfolding event_log_None_iff same_identity_def * by auto
    then have "admits (id_gateway who) [p] [pe_id p] s t"
      by (rule admits_one[OF e(1)]) (simp_all add: row_of_new_event_row e(2))
    with True show ?thesis by simp
  qed (use assms in \<open>auto simp: insert_event_do_nothing_def split: if_splits\<close>)
qed

lemma INSERT_EVENT_admits:
  assumes "INSERT_EVENT (new_event_row now who trace i c g n p) s = Inr (ins, t)"
  shows "if ins then admits (id_gateway who) [p] [pe_id p] s t else t = s"
proof -
  have "insert_event_do_nothing (new_event_row now who trace i c g n p) s = Inr (ins, t)"
    using assms by (auto simp: INSERT_EVENT_def insert_event_do_nothing_def split: if_splits)
  then show ?thesis by (rule insert_event_do_nothing_admits)
qed

lemma admits_cong:
  "events s' = events s \<Longrightarrow> events t' = events t \<Longrightarrow> admits gw ps ids s' t' = admits gw ps ids s t"
  using event_log_events[of s' s gw] by (simp add: admits_def)

lemma ADMIT_NON_CHAT_EVENTS_admits:
  "ADMIT_NON_CHAT_EVENTS now who trace ps s = Inr (ids, t) \<Longrightarrow> admits (id_gateway who) ps ids s t"
proof (induction ps arbitrary: s ids)
  case Nil
  then show ?case by (simp add: admits_refl)
next
  case (Cons p ps)
  let ?gw = "id_gateway who"
  obtain r s1 where u1: "UPSERT_SESSION now who (ev_session (pe_event p)) s = (r, s1)" by fastforce
  obtain c s2 where u2: "UPSERT_CYCLE who r (ev_session (pe_event p))
    (ev_generation (pe_event p)) s1 = (c, s2)" by fastforce
  obtain i s3 where u3: "draw_uuid s2 = (i, s3)" by fastforce
  have s3: "events s3 = events s"
    using events_upserts(1)[OF u1] events_upserts(2)[OF u2] events_upserts(3)[OF u3] by simp
  from Cons.prems obtain ins s4 jds where
    ins: "insert_event_do_nothing (new_event_row now who trace i c (ev_generation (pe_event p))
      (ev_sequence (pe_event p)) p) s3 = Inr (ins, s4)"
    and rest: "ADMIT_NON_CHAT_EVENTS now who trace ps s4 = Inr (jds, t)"
    and ids: "ids = (if ins then [pe_id p] else []) @ jds"
    by (auto simp: u1 u2 u3 split: sum.splits prod.splits)
  have "admits ?gw [p] (if ins then [pe_id p] else []) s3 s4"
    using insert_event_do_nothing_admits[OF ins] by (auto intro: admits_refl split: if_splits)
  then have "admits ?gw ([p] @ ps) ((if ins then [pe_id p] else []) @ jds) s3 t"
    using Cons.IH[OF rest] by (rule admits_trans)
  then show ?case
    using admits_cong[OF s3 refl] by (simp add: ids)
qed

definition insert_one_outcome ::
  "string \<Rightarrow> prepared_event \<Rightarrow> classification option \<Rightarrow> db \<Rightarrow> db \<Rightarrow> bool" where
  "insert_one_outcome gw p c s t \<longleftrightarrow>
     (case c of
        Some Received \<Rightarrow> admits gw [p] [pe_id p] s t
      | Some Duplicate \<Rightarrow> events t = events s \<and> event_log gw s (pe_id p) = Some (pe_hash p)
      | None \<Rightarrow> events t = events s)"

lemma stored_classification_outcome:
  "stored_classification gw p s = Inr c \<Longrightarrow> events t = events s \<Longrightarrow> insert_one_outcome gw p c s t"
  by (auto simp: stored_classification_def insert_one_outcome_def event_log_def
      split: option.splits if_splits)

lemma insert_one_admits:
  assumes "insert_one now who trace p k s = Inr (c, k', t)"
  shows "insert_one_outcome (id_gateway who) p c s t"
proof -
  obtain cy g kk s1 where h: "hosted_cycle now who k (ev_session (pe_event p)) s = (cy, g, kk, s1)"
    by (metis prod_cases4)
  obtain i s2 where d: "draw_uuid s1 = (i, s2)" by fastforce
  have s2: "events s2 = events s"
    using events_hosted_cycle[OF h] events_upserts(3)[OF d] by simp
  from assms obtain n where n:
    "next_hosted_chat_storage_sequence (SELECT_MAX_HOSTED_CHAT_SEQUENCE cy s1) = Inr n"
    by (auto simp: insert_one_def h split: sum.splits)
  show ?thesis
  proof (cases "INSERT_EVENT (new_event_row now who trace i cy g n p) s2")
    case (Inl er)
    with assms have "stored_classification (id_gateway who) p s = Inr c" "t = s"
      by (auto simp: insert_one_def h d n split: sum.splits)
    then show ?thesis by (simp add: stored_classification_outcome)
  next
    case (Inr r)
    obtain ins s3 where r: "r = (ins, s3)" by fastforce
    note a = INSERT_EVENT_admits[OF Inr[unfolded r]]
    show ?thesis
    proof (cases ins)
      case True
      with assms a have "c = Some Received" "admits (id_gateway who) [p] [pe_id p] s2 t"
        by (auto simp: insert_one_def h d n Inr r)
      with admits_cong[OF s2 refl] show ?thesis by (simp add: insert_one_outcome_def)
    next
      case False
      with assms a have c: "stored_classification (id_gateway who) p t = Inr c" "t = s2"
        by (auto simp: insert_one_def h d n Inr r split: sum.splits)
      have "stored_classification (id_gateway who) p s = Inr c"
        using c SELECT_ONE_events[OF s2] by (simp add: stored_classification_def)
      then show ?thesis using c s2 by (simp add: stored_classification_outcome)
    qed
  qed
qed

lemma insert_chats_admits:
  "insert_chats now who trace ps k s = Inr (cs, t) \<Longrightarrow> distinct (map pe_id ps) \<Longrightarrow>
   \<exists>ids. admits (id_gateway who) ps ids s t \<and> map fst cs = map pe_id ps \<and>
     set ids = {i. (i, Some Received) \<in> set cs} \<and>
     (\<forall>p \<in> set ps. (pe_id p, Some Duplicate) \<in> set cs \<longrightarrow>
        event_log (id_gateway who) s (pe_id p) = Some (pe_hash p))"
proof (induction ps arbitrary: k s cs)
  case Nil
  then show ?case by (auto intro!: exI[of _ "[]"] admits_refl)
next
  case (Cons p ps)
  let ?gw = "id_gateway who"
  from Cons.prems(1) obtain c k1 s1 ds where
    one: "insert_one now who trace p k s = Inr (c, k1, s1)"
    and rest: "insert_chats now who trace ps k1 s1 = Inr (ds, t)" and cs: "cs = (pe_id p, c) # ds"
    by (auto split: sum.splits prod.splits)
  from Cons.IH[OF rest] Cons.prems(2) obtain jds where jds: "admits ?gw ps jds s1 t"
    "map fst ds = map pe_id ps" "set jds = {i. (i, Some Received) \<in> set ds}"
    "\<forall>q \<in> set ps. (pe_id q, Some Duplicate) \<in> set ds \<longrightarrow> event_log ?gw s1 (pe_id q) = Some (pe_hash q)"
    by auto
  note out = insert_one_admits[OF one, unfolded insert_one_outcome_def]
  have notp: "pe_id p \<notin> fst ` set ds"
    using Cons.prems(2) by (metis distinct.simps(2) jds(2) list.map(2) list.set_map)
  let ?ids = "(if c = Some Received then [pe_id p] else []) @ jds"
  have "admits ?gw [p] (if c = Some Received then [pe_id p] else []) s s1"
    using out by (auto intro: admits_refl split: option.splits classification.splits)
  then have "admits ?gw ([p] @ ps) ?ids s t"
    using jds(1) by (rule admits_trans)
  moreover have "event_log ?gw s (pe_id q) = Some (pe_hash q)"
    if q: "q \<in> set (p # ps)" "(pe_id q, Some Duplicate) \<in> set cs" for q
  proof (cases "(pe_id q, Some Duplicate) \<in> set ds")
    case True
    then have "pe_id q \<noteq> pe_id p" using notp by force
    then have q': "q \<in> set ps" using q(1) by auto
    with jds(4) True have *: "event_log ?gw s1 (pe_id q) = Some (pe_hash q)" by simp
    show ?thesis
    proof (cases "c = Some Received")
      case True
      with out have "admits ?gw [p] [pe_id p] s s1" by simp
      from admits_log[OF this, of "pe_id q"] * \<open>pe_id q \<noteq> pe_id p\<close> show ?thesis by simp
    next
      case False
      with out have "events s1 = events s" by (auto split: option.splits classification.splits)
      with * event_log_events[of s1 s ?gw] show ?thesis by simp
    qed
  next
    case False
    with q(2) cs have "pe_id q = pe_id p" "c = Some Duplicate" by auto
    moreover have "q = p"
      using q(1) Cons.prems(2) \<open>pe_id q = pe_id p\<close> by (auto simp: image_iff)
    ultimately show ?thesis using out by simp
  qed
  ultimately show ?case
    using jds(2,3) notp by (intro exI[of _ ?ids]) (auto simp: cs)
qed

section \<open>The prepared batch\<close>

definition prepared_ok :: "(gateway_event \<Rightarrow> string) \<Rightarrow> gateway_event list \<Rightarrow> prepared_event list \<Rightarrow> bool" where
  "prepared_ok h evs ps \<longleftrightarrow> distinct (map pe_id ps) \<and>
     (\<forall>ev \<in> set evs. \<exists>p \<in> set ps. pe_id p = ev_id ev \<and> pe_hash p = h ev) \<and>
     (\<forall>p \<in> set ps. pe_event p \<in> set evs \<and> pe_hash p = h (pe_event p))"

lemma prepare_from_ok:
  "prepare_from h acc evs = Inr ps \<Longrightarrow> prepared_ok h seen acc \<Longrightarrow> prepared_ok h (seen @ evs) ps"
proof (induction evs arbitrary: acc seen)
  case (Cons ev evs)
  show ?case
  proof (cases "find (\<lambda>p. pe_id p = ev_id ev) acc")
    case None
    with Cons.prems(1) have
      "prepare_from h (acc @ [\<lparr>pe_event = ev, pe_hash = h ev\<rparr>]) evs = Inr ps" by simp
    moreover have "prepared_ok h (seen @ [ev]) (acc @ [\<lparr>pe_event = ev, pe_hash = h ev\<rparr>])"
      using Cons.prems(2) None by (auto simp: prepared_ok_def find_None_iff bex_Un)
    ultimately show ?thesis
      using Cons.IH[of _ "seen @ [ev]"] by simp
  next
    case (Some p)
    with Cons.prems(1) have "prepare_from h acc evs = Inr ps" "pe_hash p = h ev"
      by (auto split: if_splits)
    moreover have "prepared_ok h (seen @ [ev]) acc"
      using Cons.prems(2) \<open>pe_hash p = h ev\<close> find_SomeD[OF Some] by (auto simp: prepared_ok_def)
    ultimately show ?thesis
      using Cons.IH[of acc "seen @ [ev]"] by simp
  qed
qed simp

lemma prepare_batch_ok:
  assumes "prepare_batch H gw evs = Inr ps"
  shows "prepared_ok (H gw) evs ps"
proof -
  have "prepared_ok (H gw) [] []" by (simp add: prepared_ok_def)
  from prepare_from_ok[OF assms[unfolded prepare_batch_def] this] show ?thesis by simp
qed

lemma prepare_from_conflict:
  "prepare_from h acc evs = Inl er \<Longrightarrow> \<exists>ev \<in> set evs. er = Event_Admission_Conflict (ev_id ev)"
proof (induction evs arbitrary: acc)
  case (Cons ev evs)
  then show ?case by (cases "find (\<lambda>p. pe_id p = ev_id ev) acc") (auto split: if_splits)
qed simp

lemma prepared_ids:
  assumes "prepared_ok h evs ps"
  shows "pe_id ` set ps = ev_id ` set evs"
proof
  show "pe_id ` set ps \<subseteq> ev_id ` set evs"
    using assms by (auto simp: prepared_ok_def)
  have "ev_id ev \<in> pe_id ` set ps" if "ev \<in> set evs" for ev
    using assms that unfolding prepared_ok_def by (metis imageI)
  then show "ev_id ` set evs \<subseteq> pe_id ` set ps" by blast
qed

lemma prepared_hash:
  assumes "prepared_ok h evs ps" and "ev \<in> set evs"
  shows "map_option pe_hash (find (\<lambda>p. pe_id p = ev_id ev) ps) = Some (h ev)"
proof -
  from assms obtain p where p: "p \<in> set ps" "pe_id p = ev_id ev" "pe_hash p = h ev"
    by (auto simp: prepared_ok_def)
  have "find (\<lambda>p. pe_id p = ev_id ev) ps = Some p"
    by (rule find_unique)
       (use p assms(1) in \<open>auto simp: prepared_ok_def dest: distinct_key_unique[of pe_id]\<close>)
  with p show ?thesis by simp
qed

section \<open>The whole batch\<close>

lemma admit_pending_outcome:
  assumes "admit_pending now who trace ps s = Inr (cs, t)" and "distinct (map pe_id ps)"
    and "identities_distinct s" and "\<And>p. p \<in> set ps \<Longrightarrow> event_log (id_gateway who) s (pe_id p) = None"
  shows "\<exists>ids. admits (id_gateway who) ps ids s t \<and>
    (\<forall>p \<in> set ps. map_of cs (pe_id p) = Some (if pe_id p \<in> set ids then Some Received else None))"
proof -
  let ?gw = "id_gateway who"
  define nc where "nc = filter (\<lambda>p. \<not> is_hosted_chat_event (pe_event p)) ps"
  define hc where "hc = filter (\<lambda>p. is_hosted_chat_event (pe_event p)) ps"
  have d: "distinct (map pe_id nc)" "distinct (map pe_id hc)" "set ps = set nc \<union> set hc"
    "pe_id ` set nc \<inter> pe_id ` set hc = {}"
    using assms(2) by (auto simp: nc_def hc_def distinct_map_filter dest: distinct_key_unique[of pe_id])
  from assms(1) obtain inserted s1 chats where
    a: "ADMIT_NON_CHAT_EVENTS now who trace nc s = Inr (inserted, s1)"
    and f: "find (\<lambda>p. load_existing ?gw (filter (\<lambda>p. pe_id p \<notin> set inserted) nc) s1 (pe_id p) \<noteq>
        Some (pe_hash p)) (filter (\<lambda>p. pe_id p \<notin> set inserted) nc) = None"
    and c: "insert_chats now who trace hc \<lparr>cc_sessions = Map.empty, cc_cycles = Map.empty\<rparr> s1 =
        Inr (chats, t)"
    and cs: "cs = map (\<lambda>p. (pe_id p, Some (if pe_id p \<in> set inserted then Received else Duplicate))) nc
        @ chats"
    by (auto simp: admit_pending_def order_prepared_events_for_insertion_def Let_def nc_def hc_def
        split: sum.splits prod.splits option.splits)
  note A = ADMIT_NON_CHAT_EVENTS_admits[OF a]
  have u1: "identities_distinct s1" using A assms(3) by (rule identities_distinct_admits)
  have all_in: "pe_id p \<in> set inserted" if "p \<in> set nc" for p
  proof (rule ccontr)
    assume n: "pe_id p \<notin> set inserted"
    with f that have "load_existing ?gw (filter (\<lambda>p. pe_id p \<notin> set inserted) nc) s1 (pe_id p) =
        Some (pe_hash p)"
      by (auto simp: find_None_iff)
    then have "event_log ?gw s1 (pe_id p) \<noteq> None"
      by (simp add: load_existing_eq[OF u1] split: if_splits)
    with admits_log[OF A d(1), of "pe_id p"] n assms(4)[of p] that d(3) show False by simp
  qed
  from insert_chats_admits[OF c d(2)] obtain jds where C: "admits ?gw hc jds s1 t"
    and fst: "map fst chats = map pe_id hc" and jds: "set jds = {i. (i, Some Received) \<in> set chats}"
    and dup: "\<And>p. p \<in> set hc \<Longrightarrow> (pe_id p, Some Duplicate) \<in> set chats \<Longrightarrow>
        event_log ?gw s1 (pe_id p) = Some (pe_hash p)"
    by blast
  have ins_nc: "set inserted \<subseteq> pe_id ` set nc" using admits_fresh(2)[OF A] by blast
  have jds_hc: "set jds \<subseteq> pe_id ` set hc" using admits_fresh(2)[OF C] by blast
  have "admits ?gw ps (inserted @ jds) s t"
    by (rule admits_mono[OF admits_trans[OF A C]]) (simp add: d(3))
  moreover have "map_of cs (pe_id p) = Some (if pe_id p \<in> set (inserted @ jds) then Some Received else None)"
    if p: "p \<in> set ps" for p
  proof (cases "p \<in> set nc")
    case True
    then have "map_of (map (\<lambda>p. (pe_id p, Some (if pe_id p \<in> set inserted then Received else Duplicate))) nc)
        (pe_id p) = Some (Some Received)"
      by (intro map_of_is_SomeI) (use all_in d(1) in \<open>auto simp: comp_def\<close>)
    with True all_in show ?thesis by (simp add: cs)
  next
    case False
    with p d(3) have hc: "p \<in> set hc" by auto
    have not_nc: "pe_id p \<notin> pe_id ` set nc" using hc d(4) by auto
    then have "map_of cs (pe_id p) = map_of chats (pe_id p)"
      by (auto simp: cs map_add_def split: option.splits dest!: map_of_SomeD)
    moreover have "pe_id p \<in> fst ` set chats" using hc fst by (metis imageI list.set_map)
    then obtain k where k: "map_of chats (pe_id p) = Some k" by (metis map_of_eq_None_iff not_None_eq)
    have kin: "(pe_id p, k) \<in> set chats" using k by (rule map_of_SomeD)
    have "k \<noteq> Some Duplicate"
    proof
      assume "k = Some Duplicate"
      with dup[OF hc] kin have "event_log ?gw s1 (pe_id p) = Some (pe_hash p)" by simp
      moreover have "pe_id p \<notin> set inserted" using not_nc ins_nc by blast
      ultimately show False
        using admits_log[OF A d(1), of "pe_id p"] assms(4)[OF p] by simp
    qed
    then have "k = Some Received \<or> k = None" by (metis classification.exhaust option.exhaust)
    moreover have "pe_id p \<in> set jds \<longleftrightarrow> k = Some Received"
    proof -
      have "distinct (map fst chats)" using fst d(2) by simp
      then have "(pe_id p, j) \<in> set chats \<longleftrightarrow> j = k" for j
        using kin by (auto dest: eq_key_imp_eq_value)
      then show ?thesis by (auto simp: jds)
    qed
    ultimately show ?thesis using k not_nc ins_nc by auto
  qed
  ultimately show ?thesis by blast
qed

theorem accept_outcome:
  assumes acc: "accept_event_batch H stale now who trace evs s = Inr (acc, t)"
    and uniq: "identities_distinct s"
  shows "\<exists>ps. prepare_batch H (id_gateway who) evs = Inr ps \<and>
      ba_received acc = map pe_id (filter (\<lambda>p. event_log (id_gateway who) s (pe_id p) = None) ps) \<and>
      ba_duplicates acc = map pe_id (filter (\<lambda>p. event_log (id_gateway who) s (pe_id p) \<noteq> None) ps) \<and>
      (\<forall>p \<in> set ps. event_log (id_gateway who) s (pe_id p) \<in> {None, Some (pe_hash p)}) \<and>
      (\<exists>ids. admits (id_gateway who) ps ids s t \<and> set ids = set (ba_received acc))"
proof -
  let ?gw = "id_gateway who"
  from acc obtain ps cs t' where
    p: "prepare_batch H ?gw evs = Inr ps"
    and m: "first_mismatch (load_existing ?gw ps s) ps = None"
    and a: "admit_pending now who trace (filter (\<lambda>p. load_existing ?gw ps s (pe_id p) = None) ps) s =
        Inr (cs, t')"
    and f: "find (\<lambda>p. map_of cs (pe_id p) = Some None)
        (filter (\<lambda>p. load_existing ?gw ps s (pe_id p) = None) ps) = None"
    and r: "ba_received acc = map pe_id (filter (is_some_classification cs Received)
        (filter (\<lambda>p. load_existing ?gw ps s (pe_id p) = None) ps))"
    and u: "ba_duplicates acc = map pe_id (filter (\<lambda>p. load_existing ?gw ps s (pe_id p) \<noteq> None) ps) @
        map pe_id (filter (is_some_classification cs Duplicate)
        (filter (\<lambda>p. load_existing ?gw ps s (pe_id p) = None) ps))"
    and t: "events t = events t'"
    by (auto simp: accept_event_batch_def Let_def split: sum.splits prod.splits option.splits)
  have le: "load_existing ?gw ps s (pe_id p) = event_log ?gw s (pe_id p)" if "p \<in> set ps" for p
    using that by (simp add: load_existing_eq[OF uniq])
  define new where "new = filter (\<lambda>p. event_log ?gw s (pe_id p) = None) ps"
  have new: "filter (\<lambda>p. load_existing ?gw ps s (pe_id p) = None) ps = new"
    unfolding new_def by (rule filter_cong) (simp_all add: le)
  have old: "filter (\<lambda>p. load_existing ?gw ps s (pe_id p) \<noteq> None) ps =
      filter (\<lambda>p. event_log ?gw s (pe_id p) \<noteq> None) ps"
    by (rule filter_cong) (simp_all add: le)
  have d: "distinct (map pe_id ps)" using prepare_batch_ok[OF p] by (simp add: prepared_ok_def)
  have "distinct (map pe_id new)" "\<And>p. p \<in> set new \<Longrightarrow> event_log ?gw s (pe_id p) = None"
    using d by (auto simp: new_def distinct_map_filter)
  from admit_pending_outcome[OF a[unfolded new] this(1) uniq this(2)]
  obtain ids where ids: "admits ?gw new ids s t'"
    and cs: "\<forall>p \<in> set new. map_of cs (pe_id p) = Some (if pe_id p \<in> set ids then Some Received else None)"
    by blast
  have all_in: "pe_id p \<in> set ids" if "p \<in> set new" for p
    using f[unfolded new] cs that by (auto simp: find_None_iff split: if_splits)
  have "filter (is_some_classification cs Received) new = new"
    "filter (is_some_classification cs Duplicate) new = []"
    using cs all_in by (auto simp: filter_id_conv filter_empty_conv is_some_classification_def)
  with r u new old have ru: "ba_received acc = map pe_id new"
    "ba_duplicates acc = map pe_id (filter (\<lambda>p. event_log ?gw s (pe_id p) \<noteq> None) ps)" by simp_all
  have same: "event_log ?gw s (pe_id p) \<in> {None, Some (pe_hash p)}" if "p \<in> set ps" for p
    using m that le[OF that]
    by (cases "event_log ?gw s (pe_id p)") (auto simp: first_mismatch_def find_None_iff)
  have "admits ?gw ps ids s t"
    using admits_mono[OF ids] admits_cong[OF refl t, of ?gw ps ids s] by (auto simp: new_def)
  moreover have "set ids = set (ba_received acc)"
    using ru(1) all_in admits_fresh(2)[OF ids] by auto
  ultimately show ?thesis using p ru same by (auto simp: new_def)
qed

section \<open>Sample data\<close>

definition sample_hash :: "string \<Rightarrow> gateway_event \<Rightarrow> string" where
  "sample_hash gw ev = ev_id ev @ replicate (nat (ev_sequence ev)) (CHR ''x'')"

definition sample_who :: identity where
  "sample_who = \<lparr>id_tenant = 7, id_gateway = ''gw''\<rparr>"

definition sample_started :: "int \<Rightarrow> gateway_event" where
  "sample_started g = \<lparr>ev_id = ''evt-start'', ev_session = ''room'', ev_generation = g,
     ev_sequence = 1, ev_state_version = 1, ev_lease = Some ''lease-1'', ev_occurred_at = 900,
     ev_payload = Started_session ''player''\<rparr>"

definition sample_observation :: "string \<Rightarrow> int \<Rightarrow> int \<Rightarrow> gateway_event" where
  "sample_observation i g n = \<lparr>ev_id = i, ev_session = ''room'', ev_generation = g,
     ev_sequence = n, ev_state_version = n, ev_lease = Some ''lease-1'', ev_occurred_at = 900,
     ev_payload = Observation None\<rparr>"

definition sample_chat :: "string \<Rightarrow> gateway_event" where
  "sample_chat i = \<lparr>ev_id = i, ev_session = ''room'', ev_generation = 0,
     ev_sequence = 0, ev_state_version = 0, ev_lease = None, ev_occurred_at = 900,
     ev_payload = Chat_in JNull\<rparr>"

definition sample_batch :: "gateway_event list" where
  "sample_batch = [sample_started 1, sample_chat ''evt-chat'', sample_observation ''evt-obs'' 1 2]"

definition sample_admitted :: db where
  "sample_admitted =
     snd (projr (accept_event_batch sample_hash None 1000 sample_who ''trace'' sample_batch empty_db))"

lemma identities_distinct_empty [simp]: "identities_distinct empty_db"
  by (simp add: identities_distinct_def empty_db_def)

lemma sample_batch_accepted:
  "accept_event_batch sample_hash None 1000 sample_who ''trace'' sample_batch empty_db =
   Inr (\<lparr>ba_received = [''evt-start'', ''evt-chat'', ''evt-obs''], ba_duplicates = []\<rparr>, sample_admitted)"
proof -
  let ?r = "accept_event_batch sample_hash None 1000 sample_who ''trace'' sample_batch empty_db"
  have r: "?r = Inr (projr ?r)"
    by (rule Inr_projr) code_simp
  have "ba_received (fst (projr ?r)) = [''evt-start'', ''evt-chat'', ''evt-obs'']"
    "ba_duplicates (fst (projr ?r)) = []"
    by code_simp+
  then have "fst (projr ?r) =
      \<lparr>ba_received = [''evt-start'', ''evt-chat'', ''evt-obs''], ba_duplicates = []\<rparr>"
    by (metis batch_acceptance.surjective old.unit.exhaust)
  then show ?thesis
    using r by (metis prod.collapse sample_admitted_def)
qed

text \<open>How an accepted batch is answered: each of its ids once, as received when it was new.\<close>

lemma acceptance_partition:
  assumes acc: "accept_event_batch H stale now who trace evs s = Inr (acc, t)"
    and uniq: "identities_distinct s"
  shows "set (ba_received acc) = {i \<in> ev_id ` set evs. event_log (id_gateway who) s i = None}"
    and "set (ba_duplicates acc) = {i \<in> ev_id ` set evs. event_log (id_gateway who) s i \<noteq> None}"
    and "distinct (ba_received acc @ ba_duplicates acc)"
proof -
  let ?gw = "id_gateway who"
  from accept_outcome[OF acc uniq] obtain ps where p: "prepare_batch H ?gw evs = Inr ps"
    and r: "ba_received acc = map pe_id (filter (\<lambda>p. event_log ?gw s (pe_id p) = None) ps)"
    and u: "ba_duplicates acc = map pe_id (filter (\<lambda>p. event_log ?gw s (pe_id p) \<noteq> None) ps)"
    by blast
  note ok = prepare_batch_ok[OF p]
  have d: "distinct (map pe_id ps)" and P: "pe_id ` set ps = ev_id ` set evs"
    using ok prepared_ids[OF ok] by (simp_all add: prepared_ok_def)
  show rec: "set (ba_received acc) = {i \<in> ev_id ` set evs. event_log ?gw s i = None}"
    and dup: "set (ba_duplicates acc) = {i \<in> ev_id ` set evs. event_log ?gw s i \<noteq> None}"
    unfolding P[symmetric] r u by auto
  show "distinct (ba_received acc @ ba_duplicates acc)"
    using d rec dup unfolding r u by (auto simp: distinct_map_filter)
qed

section \<open>The properties\<close>

text \<open>
  C31: admission refines an append-only log.  When a batch is accepted, every event of it is in the
  log of its gateway under its content hash; the ids answered as received are exactly those that
  were new, the ids answered as duplicates exactly those already stored, and each id is answered
  once; every other entry of the log, and every stored row, is as before, and the new rows are
  pending with no attempt made.
\<close>

theorem admission_refines_log:
  assumes acc: "accept_event_batch H stale now who trace evs s = Inr (acc, t)"
    and uniq: "identities_distinct s"
  shows "set (ba_received acc) = {i \<in> ev_id ` set evs. event_log (id_gateway who) s i = None} \<and>
    set (ba_duplicates acc) = {i \<in> ev_id ` set evs. event_log (id_gateway who) s i \<noteq> None} \<and>
    distinct (ba_received acc @ ba_duplicates acc) \<and>
    (\<forall>ev \<in> set evs. event_log (id_gateway who) t (ev_id ev) = Some (H (id_gateway who) ev)) \<and>
    (\<forall>i. i \<notin> ev_id ` set evs \<longrightarrow> event_log (id_gateway who) t i = event_log (id_gateway who) s i) \<and>
    (\<exists>new. events t = events s @ new \<and> (\<forall>e \<in> set new. e_status e = E_pending \<and> e_attempts e = 0)) \<and>
    identities_distinct t"
proof -
  let ?gw = "id_gateway who"
  from accept_outcome[OF acc uniq] obtain ps ids where p: "prepare_batch H ?gw evs = Inr ps"
    and r: "ba_received acc = map pe_id (filter (\<lambda>p. event_log ?gw s (pe_id p) = None) ps)"
    and u: "ba_duplicates acc = map pe_id (filter (\<lambda>p. event_log ?gw s (pe_id p) \<noteq> None) ps)"
    and same: "\<And>p. p \<in> set ps \<Longrightarrow> event_log ?gw s (pe_id p) \<in> {None, Some (pe_hash p)}"
    and ids: "admits ?gw ps ids s t" "set ids = set (ba_received acc)"
    by blast
  note ok = prepare_batch_ok[OF p] and part = acceptance_partition[OF acc uniq]
  note rec = part(1) and dup = part(2)
  have d: "distinct (map pe_id ps)" and P: "pe_id ` set ps = ev_id ` set evs"
    using ok prepared_ids[OF ok] by (simp_all add: prepared_ok_def)
  have "event_log ?gw t (ev_id ev) = Some (H ?gw ev)" if ev: "ev \<in> set evs" for ev
  proof -
    from ok ev obtain p where pp: "p \<in> set ps" "pe_id p = ev_id ev" "pe_hash p = H ?gw ev"
      by (auto simp: prepared_ok_def)
    show ?thesis
      using admits_log[OF ids(1) d, of "ev_id ev"] prepared_hash[OF ok ev] same[OF pp(1)] pp ids(2) rec ev
      by auto
  qed
  moreover have "event_log ?gw t i = event_log ?gw s i" if "i \<notin> ev_id ` set evs" for i
    using admits_log[OF ids(1) d, of i] ids(2) rec that by auto
  moreover have "\<exists>new. events t = events s @ new \<and>
      (\<forall>e \<in> set new. e_status e = E_pending \<and> e_attempts e = 0)"
    using ids(1) unfolding admits_def row_of_def by blast
  ultimately show ?thesis
    using part identities_distinct_admits[OF ids(1) uniq] by blast
qed

theorem admission_refines_log_witness:
  "event_log ''gw'' sample_admitted ''evt-chat'' = Some (sample_hash ''gw'' (sample_chat ''evt-chat'')) \<and>
   identities_distinct sample_admitted"
  using admission_refines_log[OF sample_batch_accepted identities_distinct_empty]
  by (simp add: sample_batch_def sample_who_def sample_chat_def)

text \<open>
  Redelivery changes no event.  When every event of a batch is already stored with the same
  content, in whatever order and however often the batch repeats it, the batch is accepted with
  nothing received and every id answered as a duplicate, and the transaction changes at most the
  liveness timestamps of the sessions.
\<close>

theorem redelivery_is_duplicate:
  assumes uniq: "identities_distinct s"
    and stored: "\<forall>ev \<in> set evs. event_log (id_gateway who) s (ev_id ev) = Some (H (id_gateway who) ev)"
  shows "\<exists>acc sids. accept_event_batch H stale now who trace evs s =
      Inr (acc, if sids = [] then s else REFRESH_SESSION_LIVENESS now (id_gateway who) sids s) \<and>
    ba_received acc = [] \<and> set (ba_duplicates acc) = ev_id ` set evs"
proof -
  let ?gw = "id_gateway who"
  obtain ps where p: "prepare_batch H ?gw evs = Inr ps"
  proof -
    have "\<exists>ps. prepare_from (H ?gw) acc evs = Inr ps"
      if "\<forall>p \<in> set acc. event_log ?gw s (pe_id p) = Some (pe_hash p)" for acc
      using that stored
    proof (induction evs arbitrary: acc)
      case (Cons ev evs)
      show ?case
      proof (cases "find (\<lambda>p. pe_id p = ev_id ev) acc")
        case None
        with Cons show ?thesis by simp
      next
        case (Some q)
        then have "pe_hash q = H ?gw ev" using Cons.prems find_SomeD[OF Some] by force
        with Some Cons show ?thesis by simp
      qed
    qed simp
    from this[of "[]"] that show ?thesis by (auto simp: prepare_batch_def)
  qed
  note ok = prepare_batch_ok[OF p]
  have ex: "load_existing ?gw ps s (pe_id q) = Some (pe_hash q)" if "q \<in> set ps" for q
  proof -
    from ok that have "pe_event q \<in> set evs" "pe_hash q = H ?gw (pe_event q)"
      by (simp_all add: prepared_ok_def)
    with stored that show ?thesis by (simp add: load_existing_eq[OF uniq])
  qed
  have "first_mismatch (load_existing ?gw ps s) ps = None"
    by (auto simp: first_mismatch_def find_None_iff ex)
  moreover have "filter (\<lambda>p. load_existing ?gw ps s (pe_id p) = None) ps = []"
    "filter (\<lambda>p. load_existing ?gw ps s (pe_id p) \<noteq> None) ps = ps"
    by (auto simp: filter_empty_conv filter_id_conv ex)
  moreover have "admit_pending now who trace [] s = Inr ([], s)"
    by (simp add: admit_pending_def order_prepared_events_for_insertion_def)
  ultimately show ?thesis
    using prepared_ids[OF ok]
    by (intro exI[of _ "\<lparr>ba_received = [], ba_duplicates = map pe_id ps\<rparr>"]
        exI[of _ "live_session_ids now stale ps"]) (simp add: accept_event_batch_def p Let_def)
qed

theorem redelivery_is_duplicate_witness:
  "\<exists>acc sids. accept_event_batch sample_hash (Some 50) 2000 sample_who ''trace'' (rev sample_batch)
      sample_admitted = Inr (acc, if sids = [] then sample_admitted
        else REFRESH_SESSION_LIVENESS 2000 (id_gateway sample_who) sids sample_admitted) \<and>
    ba_received acc = [] \<and> set (ba_duplicates acc) = ev_id ` set (rev sample_batch)"
proof (rule redelivery_is_duplicate)
  show "identities_distinct sample_admitted"
    unfolding identities_distinct_def by code_simp
  show "\<forall>ev \<in> set (rev sample_batch).
      event_log (id_gateway sample_who) sample_admitted (ev_id ev) = Some (sample_hash (id_gateway sample_who) ev)"
    unfolding sample_batch_def by (simp, code_simp)
qed

text \<open>
  An event id cannot be reused for other content.  A batch holding an event whose id is stored
  with a different content hash is refused as a conflict on one of its own ids, before anything is
  written: the error carries no database, the transaction is rolled back.
\<close>

theorem changed_content_is_refused:
  assumes uniq: "identities_distinct s" and ev: "ev \<in> set evs"
    and stored: "event_log (id_gateway who) s (ev_id ev) = Some h" "h \<noteq> H (id_gateway who) ev"
  shows "\<exists>other \<in> set evs. accept_event_batch H stale now who trace evs s =
    Inl (Event_Admission_Conflict (ev_id other))"
proof (cases "prepare_batch H (id_gateway who) evs")
  case (Inl er)
  then obtain other where "other \<in> set evs" "er = Event_Admission_Conflict (ev_id other)"
    using prepare_from_conflict by (fastforce simp: prepare_batch_def)
  with Inl show ?thesis by (auto simp: accept_event_batch_def)
next
  case (Inr ps)
  note ok = prepare_batch_ok[OF Inr]
  from ok ev obtain p where p: "p \<in> set ps" "pe_id p = ev_id ev" "pe_hash p = H (id_gateway who) ev"
    by (auto simp: prepared_ok_def)
  then have "load_existing (id_gateway who) ps s (pe_id p) = Some h"
    using stored(1) imageI[OF p(1), of pe_id] by (simp add: load_existing_eq[OF uniq])
  with p stored(2) obtain q where q: "first_mismatch (load_existing (id_gateway who) ps s) ps = Some q"
    by (cases "first_mismatch (load_existing (id_gateway who) ps s) ps")
       (force simp: first_mismatch_def find_None_iff)+
  then have "pe_event q \<in> set evs"
    using ok by (auto simp: first_mismatch_def prepared_ok_def dest: find_SomeD)
  with q Inr show ?thesis by (auto simp: accept_event_batch_def)
qed

theorem changed_content_is_refused_witness:
  "\<exists>other \<in> set [sample_observation ''evt-obs'' 1 3].
     accept_event_batch sample_hash None 2000 sample_who ''trace'' [sample_observation ''evt-obs'' 1 3]
       sample_admitted = Inl (Event_Admission_Conflict (ev_id other))"
proof (rule changed_content_is_refused)
  show "identities_distinct sample_admitted"
    unfolding identities_distinct_def by code_simp
  show "event_log (id_gateway sample_who) sample_admitted (ev_id (sample_observation ''evt-obs'' 1 3)) =
      Some ''evt-obsxx''"
    by code_simp
qed (simp, code_simp)

end
