(* ===== verification/Invariants.thy ===== *)
theory Invariants
  imports OutboxSafety TerminalFacts AdmissionFacts
begin

text \<open>
  The invariant of the gateway database, \<open>db_ok\<close>: primary keys, foreign keys, claims, the unique
  keys of the tables, one skill call per decision, and at most one decision of a cycle being sent.
  It is kept by every step that keeps the shape of the database, by inserting a row under a fresh
  id, and by claiming.
\<close>

section \<open>The invariant\<close>

definition unique_keys :: "db \<Rightarrow> bool" where
  "unique_keys s \<longleftrightarrow>
     distinct (map (\<lambda>r. (s_gateway r, s_session r)) (sessions s)) \<and>
     distinct (map (\<lambda>c. (c_gateway c, c_session c, c_gen c)) (cycles s)) \<and>
     distinct (map (\<lambda>e. (e_gateway e, e_event_id e)) (events s)) \<and>
     distinct (map (\<lambda>e. (e_gateway e, e_session e, e_gen e, e_seq e)) (events s)) \<and>
     distinct (map d_source (decisions s)) \<and>
     distinct (map (\<lambda>d. (d_gateway d, d_lease d)) (decisions s)) \<and>
     distinct (map (\<lambda>k. (k_gateway k, k_call_id k)) (calls s))"

definition one_sending :: "db \<Rightarrow> bool" where
  "one_sending s \<longleftrightarrow> (\<forall>d \<in> set (decisions s). \<forall>q \<in> set (decisions s).
     d_status d = D_sending \<and> d_status q = D_sending \<and> d_cycle d = d_cycle q \<longrightarrow> d = q)"

definition plans_ok :: "db \<Rightarrow> bool" where
  "plans_ok s \<longleftrightarrow> (\<forall>c \<in> set (cycles s). version_kept (c_activity c))"

definition db_ok :: "db \<Rightarrow> bool" where
  "db_ok s \<longleftrightarrow> keys_ok s \<and> refs_ok s \<and> claims_ok s \<and> unique_keys s \<and> call_links s \<and> one_sending s \<and>
     plans_ok s"

lemma db_ok_parts:
  assumes "db_ok s"
  shows "keys_ok s" "refs_ok s" "claims_ok s" "unique_keys s" "call_links s" "one_sending s" "plans_ok s"
  using assms by (simp_all add: db_ok_def)

lemma db_ok_empty: "db_ok empty_db"
  by (simp add: db_ok_def unique_keys_def call_links_def one_sending_def plans_ok_def, simp add: empty_db_def)

section \<open>Steps that keep the shape\<close>

lemma keeps_tables:
  assumes "keeps s t"
  shows "evolves session_le (sessions s) (sessions t)" "length (sessions t) = length (sessions s)"
    "evolves cycle_le (cycles s) (cycles t)" "length (cycles t) = length (cycles s)"
    "evolves event_le (events s) (events t)" "length (events t) = length (events s)"
    "evolves decision_le (decisions s) (decisions t)" "length (decisions t) = length (decisions s)"
    "evolves call_le (calls s) (calls t)" "length (calls t) = length (calls s)"
    "map d_attempts (decisions t) = map d_attempts (decisions s)"
  using assms by (simp_all add: keeps_def db_le_def shape_def)

lemma keeps_maps:
  assumes "keeps s t"
  shows "map (\<lambda>r. (s_gateway r, s_session r)) (sessions t) = map (\<lambda>r. (s_gateway r, s_session r)) (sessions s)"
    "map (\<lambda>c. (c_gateway c, c_session c, c_gen c)) (cycles t) = map (\<lambda>c. (c_gateway c, c_session c, c_gen c)) (cycles s)"
    "map (\<lambda>e. (e_gateway e, e_event_id e)) (events t) = map (\<lambda>e. (e_gateway e, e_event_id e)) (events s)"
    "map (\<lambda>e. (e_gateway e, e_session e, e_gen e, e_seq e)) (events t) =
       map (\<lambda>e. (e_gateway e, e_session e, e_gen e, e_seq e)) (events s)"
    "map d_source (decisions t) = map d_source (decisions s)"
    "map d_id (decisions t) = map d_id (decisions s)"
    "map (\<lambda>d. (d_gateway d, d_lease d)) (decisions t) = map (\<lambda>d. (d_gateway d, d_lease d)) (decisions s)"
    "map (\<lambda>d. (d_gateway d, d_decision_id d)) (decisions t) = map (\<lambda>d. (d_gateway d, d_decision_id d)) (decisions s)"
    "map (\<lambda>k. (k_gateway k, k_call_id k)) (calls t) = map (\<lambda>k. (k_gateway k, k_call_id k)) (calls s)"
    "map k_decision (calls t) = map k_decision (calls s)"
  by (rule evolves_map_key[OF keeps_tables(1,2)[OF assms]] evolves_map_key[OF keeps_tables(3,4)[OF assms]]
      evolves_map_key[OF keeps_tables(5,6)[OF assms]] evolves_map_key[OF keeps_tables(7,8)[OF assms]]
      evolves_map_key[OF keeps_tables(9,10)[OF assms]]; simp add: row_les)+

lemma keeps_call_links:
  assumes "keeps s t" and "call_links s"
  shows "call_links t"
proof -
  have "\<exists>d \<in> set (decisions t). d_id d = k_decision k \<and> d_gateway d = k_gateway k \<and>
      d_decision_id d = k_decision_id k" if "k \<in> set (calls t)" for k
  proof -
    from evolves_row_back[OF keeps_tables(9,10)[OF assms(1)] that]
    obtain l where l: "l \<in> set (calls s)" "call_le l k" by blast
    with assms(2) obtain d where d: "d \<in> set (decisions s)" "d_id d = k_decision l" "d_gateway d = k_gateway l"
      "d_decision_id d = k_decision_id l" by (auto simp: call_links_def)
    have "db_le s t" using assms(1) by (simp add: keeps_def)
    from db_le_rows(4)[OF this d(1)] obtain q where "q \<in> set (decisions t)" "decision_le d q" by blast
    with d l show ?thesis by (intro bexI[of _ q]) (auto simp: decision_le_def call_le_def)
  qed
  with assms(2) show ?thesis by (simp add: call_links_def keeps_maps[OF assms(1)])
qed

lemma evolves_row_back_key:
  assumes "evolves R t u" and "length u = length t" and "map key u = map key t" and "q \<in> set u"
  obtains r where "r \<in> set t" "R r q" "key q = key r"
proof -
  from assms(4) obtain i where i: "i < length u" "q = u ! i" by (auto simp: in_set_conv_nth)
  moreover from this assms(3) have "key (u ! i) = key (t ! i)" by (metis assms(2) nth_map)
  ultimately show thesis using assms(1,2) that[of "t ! i"] by (auto simp: evolves_def)
qed

lemma keeps_one_sending:
  assumes k: "keeps s t" and keys: "keys_ok s" and one: "one_sending s"
  shows "one_sending t"
  unfolding one_sending_def
proof (intro ballI impI, elim conjE)
  fix d q assume d: "d \<in> set (decisions t)" and q: "q \<in> set (decisions t)"
    and st: "d_status d = D_sending" "d_status q = D_sending" "d_cycle d = d_cycle q"
  note prior = evolves_row_back_key[OF keeps_tables(7,8,11)[OF k]]
  obtain d' q' where d': "d' \<in> set (decisions s)" "decision_le d' d" "d_attempts d = d_attempts d'"
    and q': "q' \<in> set (decisions s)" "decision_le q' q" "d_attempts q = d_attempts q'"
    by (rule prior[OF d], rule prior[OF q]) blast
  then have "d_status d' = D_sending" "d_status q' = D_sending" "d_cycle d' = d_cycle q'"
    "d_id d' = d_id d" "d_id q' = d_id q" using st by (simp_all add: decision_le_def)
  with one d'(1) q'(1) have "d_id d = d_id q" by (metis one_sending_def)
  with decision_key_unique[OF _ q d] keeps_ok(1)[OF k] keys show "d = q" by simp
qed

lemma keeps_plans_ok:
  assumes "keeps s t" and "plans_ok s"
  shows "plans_ok t"
  unfolding plans_ok_def
proof
  fix c assume "c \<in> set (cycles t)"
  from evolves_row_back[OF keeps_tables(3,4)[OF assms(1)] this] assms(2)
  show "version_kept (c_activity c)" by (auto simp: plans_ok_def cycle_le_def activity_le_def)
qed

lemma keeps_db_ok: "keeps s t \<Longrightarrow> db_ok s \<Longrightarrow> db_ok t"
  unfolding db_ok_def unique_keys_def
  using keeps_ok keeps_call_links keeps_one_sending keeps_plans_ok keeps_maps by simp

section \<open>Inserting a row under a fresh id\<close>

lemma keys_fresh:
  assumes "keys_ok s"
  shows "next_uuid s \<notin> s_id ` set (sessions s)" "next_uuid s \<notin> c_id ` set (cycles s)"
    "next_uuid s \<notin> e_id ` set (events s)" "next_uuid s \<notin> d_id ` set (decisions s)"
    "next_uuid s \<notin> k_id ` set (calls s)" "next_uuid s \<notin> t_id ` set (trackings s)"
  using assms by (auto simp: keys_ok_def id_lists_def)

lemma claims_ok_more:
  "claims_ok s \<Longrightarrow> event_claims t = event_claims s \<Longrightarrow> decision_claims t = decision_claims s \<Longrightarrow>
   next_uuid s \<le> next_uuid t \<Longrightarrow> claims_ok t"
  by (auto simp: claims_ok_def intro: tokens_ok_mono)

lemma claims_of_snoc [simp]: "cl r = no_claim \<Longrightarrow> claims_of key cl (t @ [r]) = claims_of key cl t"
  by (auto simp: claims_of_def no_claim_def)

lemmas table_claims = event_claims_def decision_claims_def

lemma keys_ok_insert:
  assumes "keys_ok s"
  shows "s_id r = next_uuid s \<Longrightarrow> keys_ok (s\<lparr>sessions := sessions s @ [r], next_uuid := Suc (next_uuid s)\<rparr>)"
    "c_id c = next_uuid s \<Longrightarrow> keys_ok (s\<lparr>cycles := cycles s @ [c], next_uuid := Suc (next_uuid s)\<rparr>)"
    "e_id e = next_uuid s \<Longrightarrow> keys_ok (s\<lparr>events := events s @ [e], next_uuid := Suc (next_uuid s)\<rparr>)"
    "d_id d = next_uuid s \<Longrightarrow> keys_ok (s\<lparr>decisions := decisions s @ [d], next_uuid := Suc (next_uuid s)\<rparr>)"
    "k_id k = next_uuid s \<Longrightarrow> keys_ok (s\<lparr>calls := calls s @ [k], next_uuid := Suc (next_uuid s)\<rparr>)"
    "t_id q = next_uuid s \<Longrightarrow> keys_ok (s\<lparr>trackings := trackings s @ [q], next_uuid := Suc (next_uuid s)\<rparr>)"
    "keys_ok (s\<lparr>next_uuid := Suc (next_uuid s)\<rparr>)"
  using assms keys_fresh[OF assms] by (auto simp: keys_ok_def id_lists_def less_Suc_eq)

lemma db_ok_session:
  assumes "db_ok s" and "s_id r = next_uuid s"
    and "(s_gateway r, s_session r) \<notin> (\<lambda>r. (s_gateway r, s_session r)) ` set (sessions s)"
  shows "db_ok (s\<lparr>sessions := sessions s @ [r], next_uuid := Suc (next_uuid s)\<rparr>)"
  using db_ok_parts[OF assms(1)] assms(2,3) unfolding db_ok_def
  by (intro conjI keys_ok_insert)
     (auto simp: refs_ok_def unique_keys_def call_links_def one_sending_def plans_ok_def table_claims
       intro: claims_ok_more)

lemma db_ok_cycle:
  assumes "db_ok s" and "c_id c = next_uuid s"
    and "(c_gateway c, c_session c, c_gen c) \<notin> (\<lambda>c. (c_gateway c, c_session c, c_gen c)) ` set (cycles s)"
    and "r \<in> set (sessions s)" "s_id r = c_runtime c" "s_gateway r = c_gateway c" "s_session r = c_session c"
    and "c_activity c = no_activity"
  shows "db_ok (s\<lparr>cycles := cycles s @ [c], next_uuid := Suc (next_uuid s)\<rparr>)"
  using db_ok_parts[OF assms(1)] assms(2-) unfolding db_ok_def
  by (intro conjI keys_ok_insert)
     (auto simp: refs_ok_def unique_keys_def call_links_def one_sending_def plans_ok_def table_claims
       intro: claims_ok_more)

lemma db_ok_event:
  assumes "db_ok s" and "e_id e = next_uuid s" and "e_claim e = no_claim"
    and "(e_gateway e, e_event_id e) \<notin> (\<lambda>e. (e_gateway e, e_event_id e)) ` set (events s)"
    and "(e_gateway e, e_session e, e_gen e, e_seq e) \<notin>
      (\<lambda>e. (e_gateway e, e_session e, e_gen e, e_seq e)) ` set (events s)"
    and "c \<in> set (cycles s)" "c_id c = e_cycle e" "c_gateway c = e_gateway e" "c_session c = e_session e"
      "c_gen c = e_gen e"
  shows "db_ok (s\<lparr>events := events s @ [e], next_uuid := Suc (next_uuid s)\<rparr>)"
  using db_ok_parts[OF assms(1)] assms(2-) unfolding db_ok_def
  by (intro conjI keys_ok_insert)
     (auto simp: refs_ok_def unique_keys_def call_links_def one_sending_def plans_ok_def table_claims
       intro: claims_ok_more)

lemma db_ok_decision:
  assumes "db_ok s" and "d_id d = next_uuid s" and "d_claim d = no_claim" and "d_status d = D_planned"
    and "\<forall>q \<in> set (decisions s). \<not> decision_conflicts d q"
    and "c \<in> set (cycles s)" "c_id c = d_cycle d" and "e \<in> set (events s)" "e_id e = d_source d"
  shows "db_ok (s\<lparr>decisions := decisions s @ [d], next_uuid := Suc (next_uuid s)\<rparr>)"
proof -
  have "d_source d \<notin> d_source ` set (decisions s)"
    "(d_gateway d, d_lease d) \<notin> (\<lambda>d. (d_gateway d, d_lease d)) ` set (decisions s)"
    "(d_gateway d, d_decision_id d) \<notin> (\<lambda>d. (d_gateway d, d_decision_id d)) ` set (decisions s)"
    using assms(5) by (force simp: decision_conflicts_def)+
  moreover have "d_id d \<notin> d_id ` set (decisions s)"
    using keys_fresh(4)[OF db_ok_parts(1)[OF assms(1)]] assms(2) by simp
  ultimately show ?thesis
    using db_ok_parts[OF assms(1)] assms(2-4,6-) unfolding db_ok_def
    by (intro conjI keys_ok_insert)
       (auto simp: refs_ok_def unique_keys_def call_links_def one_sending_def plans_ok_def table_claims
         intro: claims_ok_more)
qed

lemma db_ok_call:
  assumes "db_ok s" and "k_id k = next_uuid s" and "k_decision k \<notin> k_decision ` set (calls s)"
    and "(k_gateway k, k_call_id k) \<notin> (\<lambda>k. (k_gateway k, k_call_id k)) ` set (calls s)"
    and "d \<in> set (decisions s)" "d_id d = k_decision k" "d_gateway d = k_gateway k"
      "d_decision_id d = k_decision_id k"
  shows "db_ok (s\<lparr>calls := calls s @ [k], next_uuid := Suc (next_uuid s)\<rparr>)"
  using db_ok_parts[OF assms(1)] assms(2-) unfolding db_ok_def
  by (intro conjI keys_ok_insert)
     (auto simp: refs_ok_def unique_keys_def call_links_def one_sending_def plans_ok_def table_claims
       intro: claims_ok_more)

lemma db_ok_tracking:
  assumes "db_ok s" and "t_id q = next_uuid s"
  shows "db_ok (s\<lparr>trackings := trackings s @ [q], next_uuid := Suc (next_uuid s)\<rparr>)"
  using db_ok_parts[OF assms(1)] assms(2) unfolding db_ok_def
  by (intro conjI keys_ok_insert)
     (auto simp: refs_ok_def unique_keys_def call_links_def one_sending_def plans_ok_def table_claims
       intro: claims_ok_more)

lemma db_ok_draw: "db_ok s \<Longrightarrow> db_ok (s\<lparr>next_uuid := Suc (next_uuid s)\<rparr>)"
  using db_ok_parts[of s] keys_ok_insert(7) unfolding db_ok_def
  by (auto simp: refs_ok_def unique_keys_def call_links_def one_sending_def plans_ok_def table_claims
       intro: claims_ok_more)

section \<open>Claiming a row under a fresh token\<close>

text \<open>
  A claim draws its token and updates one row: the row takes the token, everything the other parts of
  the invariant read stays as it was.
\<close>

lemma tokens_ok_claim:
  assumes "tokens_ok n C" and "D \<subseteq> insert (i, n) C"
  shows "tokens_ok (Suc n) D"
  using tokens_ok_insert[OF assms] by simp

lemma claims_of_claim:
  assumes "\<And>r. r \<in> set t \<Longrightarrow> P r \<Longrightarrow> key r = i \<and> key (f r) = i \<and> cl_token (cl (f r)) = Some n"
  shows "claims_of key cl (update_where P f t) \<subseteq> insert (i, n) (claims_of key cl t)"
  using assms by (auto simp: claims_of_def set_update_where split: if_splits)

lemma bex_update_where:
  "(\<And>r. Q (f r) = Q r) \<Longrightarrow> (\<exists>r \<in> set (update_where P f t). Q r) \<longleftrightarrow> (\<exists>r \<in> set t. Q r)"
  by (auto simp: set_update_where split: if_splits)

lemma ball_update_where_same:
  "(\<And>r. Q (f r) = Q r) \<Longrightarrow> (\<forall>r \<in> set (update_where P f t). Q r) \<longleftrightarrow> (\<forall>r \<in> set t. Q r)"
  using bex_update_where[of "\<lambda>r. \<not> Q r" f P t] by blast

lemmas same_rows = bex_update_where ball_update_where_same

lemma db_ok_CLAIM_EVENT:
  assumes ok: "db_ok s" and t: "t = snd (CLAIM_EVENT now m row (next_uuid s) fence ttl w (snd (draw_uuid s)))"
  shows "db_ok t"
proof -
  let ?P = "\<lambda>e. e_id e = row \<and> due now m e" and ?f = "claim_row now (next_uuid s) fence ttl w"
  have t: "t = s\<lparr>events := update_where ?P ?f (events s), next_uuid := Suc (next_uuid s)\<rparr>"
    by (simp add: t CLAIM_EVENT_def draw_uuid_def)
  have same: "map g (update_where ?P ?f (events s)) = map g (events s)" if "\<And>e. g (?f e) = g e" for g
    using that by (rule map_update_where)
  have ids: "id_lists t = id_lists s" by (simp add: t id_lists_def same claim_row_def)
  have "claims_ok t"
  proof -
    have "event_claims t \<subseteq> insert (row, next_uuid s) (event_claims s)"
      by (simp add: event_claims_def t) (rule claims_of_claim, simp add: claim_row_def)
    moreover have "decision_claims t = decision_claims s" by (simp add: decision_claims_def t)
    ultimately show ?thesis
      using db_ok_parts(3)[OF ok] by (auto simp: claims_ok_def t intro: tokens_ok_claim tokens_ok_mono)
  qed
  moreover have "keys_ok t" using db_ok_parts(1)[OF ok] unfolding keys_ok_def ids by (auto simp: t less_Suc_eq)
  moreover have "refs_ok t"
    using db_ok_parts(2)[OF ok] by (simp add: refs_ok_def t same_rows claim_row_def)
  moreover have "unique_keys t" using db_ok_parts(4)[OF ok] by (simp add: unique_keys_def t same claim_row_def)
  moreover have "call_links t" "one_sending t" "plans_ok t"
    using db_ok_parts(5,6,7)[OF ok] by (simp_all add: call_links_def one_sending_def plans_ok_def t)
  ultimately show ?thesis by (simp add: db_ok_def)
qed

lemma db_ok_CLAIM_DECISION:
  assumes ok: "db_ok s" and d: "d \<in> set (decisions s)" and idle: "cycle_idle s d"
    and t: "t = snd (CLAIM_DECISION now m (d_id d) (next_uuid s) fence ttl w (snd (draw_uuid s)))"
  shows "db_ok t"
proof -
  let ?P = "\<lambda>q. d_id q = d_id d \<and> decision_due now m q" and ?f = "claim_decision_row now (next_uuid s) fence ttl w"
  have t: "t = s\<lparr>decisions := update_where ?P ?f (decisions s), next_uuid := Suc (next_uuid s)\<rparr>"
    by (simp add: t CLAIM_DECISION_def draw_uuid_def)
  have same: "map g (update_where ?P ?f (decisions s)) = map g (decisions s)" if "\<And>e. g (?f e) = g e" for g
    using that by (rule map_update_where)
  have ids: "id_lists t = id_lists s" by (simp add: t id_lists_def same claim_decision_row_def)
  have "claims_ok t"
  proof -
    have "decision_claims t \<subseteq> insert (d_id d, next_uuid s) (decision_claims s)"
      by (simp add: decision_claims_def t) (rule claims_of_claim, simp add: claim_decision_row_def)
    moreover have "event_claims t = event_claims s" by (simp add: event_claims_def t)
    ultimately show ?thesis
      using db_ok_parts(3)[OF ok] by (auto simp: claims_ok_def t intro: tokens_ok_claim tokens_ok_mono)
  qed
  moreover have "keys_ok t" using db_ok_parts(1)[OF ok] unfolding keys_ok_def ids by (auto simp: t less_Suc_eq)
  moreover have "refs_ok t"
    using db_ok_parts(2)[OF ok] by (simp add: refs_ok_def t same_rows claim_decision_row_def)
  moreover have "unique_keys t"
    using db_ok_parts(4)[OF ok] by (simp add: unique_keys_def t same claim_decision_row_def)
  moreover have "call_links t"
    using db_ok_parts(5)[OF ok]
    by (simp add: call_links_def t same same_rows claim_decision_row_def)
  moreover have "plans_ok t" using db_ok_parts(7)[OF ok] by (simp add: plans_ok_def t)
  moreover have "one_sending t"
  proof -
    have uniq: "q = d" if "q \<in> set (decisions s)" "d_id q = d_id d" for q
      using decision_key_unique[OF db_ok_parts(1)[OF ok] d that(1)] that(2) by simp
    have others: "d_status q \<noteq> D_sending" if "q \<in> set (decisions s)" "d_cycle q = d_cycle d" "q \<noteq> d" for q
      using idle that uniq by (auto simp: cycle_idle_def)
    have row: "p = ?f d \<and> ?P d \<or> p \<in> set (decisions s) \<and> \<not> ?P p" if "p \<in> set (decisions t)" for p
      using that uniq by (auto simp: t set_update_where)
    have fd: "d_cycle (?f d) = d_cycle d" by (simp add: claim_decision_row_def)
    show ?thesis
      unfolding one_sending_def
    proof (intro ballI impI, elim conjE)
      fix p q assume "p \<in> set (decisions t)" "q \<in> set (decisions t)"
        and st: "d_status p = D_sending" "d_status q = D_sending" "d_cycle p = d_cycle q"
      from row[OF this(1)] row[OF this(2)] show "p = q"
        using st others[of p] others[of q] fd db_ok_parts(6)[OF ok] unfolding one_sending_def by metis
    qed
  qed
  ultimately show ?thesis by (simp add: db_ok_def)
qed

end
