(* ===== verification/AdmissionSafety.thy ===== *)
theory AdmissionSafety
  imports Invariants
begin

text \<open>
  Admission keeps the invariant of the database and moves it along \<open>db_le\<close>: each upsert and each
  insert of \<open>accept_event_batch\<close>, with the caches of the hosted chat loop.
\<close>

definition steps_ok :: "db \<Rightarrow> db \<Rightarrow> bool" where
  "steps_ok s t \<longleftrightarrow> db_le s t \<and> (db_ok s \<longrightarrow> db_ok t)"

lemma steps_ok_refl [simp]: "steps_ok s s"
  by (simp add: steps_ok_def)

lemma steps_ok_trans: "steps_ok s t \<Longrightarrow> steps_ok t u \<Longrightarrow> steps_ok s u"
  by (auto simp: steps_ok_def intro: db_le_trans)

lemma keeps_steps_ok: "keeps s t \<Longrightarrow> steps_ok s t"
  by (auto simp: steps_ok_def keeps_db_ok) (simp add: keeps_def)

section \<open>Upserts\<close>

definition has_session :: "string \<Rightarrow> string \<Rightarrow> uuid \<Rightarrow> db \<Rightarrow> bool" where
  "has_session gw sid i s \<longleftrightarrow> (\<exists>r \<in> set (sessions s). s_id r = i \<and> s_gateway r = gw \<and> s_session r = sid)"

definition has_cycle :: "string \<Rightarrow> string \<Rightarrow> int \<Rightarrow> uuid \<Rightarrow> db \<Rightarrow> bool" where
  "has_cycle gw sid g i s \<longleftrightarrow>
     (\<exists>c \<in> set (cycles s). c_id c = i \<and> c_gateway c = gw \<and> c_session c = sid \<and> c_gen c = g)"

lemma has_session_mono: "db_le s t \<Longrightarrow> has_session gw sid i s \<Longrightarrow> has_session gw sid i t"
  unfolding has_session_def
  by (elim bexE, drule (1) db_le_rows(1), elim bexE, rule rev_bexI, assumption) (simp add: session_le_def)

lemma has_cycle_mono: "db_le s t \<Longrightarrow> has_cycle gw sid g i s \<Longrightarrow> has_cycle gw sid g i t"
  unfolding has_cycle_def
  by (elim bexE, drule (1) db_le_rows(2), elim bexE, rule rev_bexI, assumption) (simp add: cycle_le_def)

lemma db_le_insert_row:
  "db_le s (s\<lparr>sessions := sessions s @ [r], next_uuid := Suc (next_uuid s)\<rparr>)"
  "db_le s (s\<lparr>cycles := cycles s @ [c], next_uuid := Suc (next_uuid s)\<rparr>)"
  "e_claim e = no_claim \<Longrightarrow> db_le s (s\<lparr>events := events s @ [e], next_uuid := Suc (next_uuid s)\<rparr>)"
  by (auto simp: db_le_def evolves_refls evolves_appends table_claims)

lemma UPSERT_SESSION_ok:
  assumes "UPSERT_SESSION now who sid s = (i, t)"
  shows "steps_ok s t \<and> has_session (id_gateway who) sid i t"
proof (cases "find (\<lambda>r. s_gateway r = id_gateway who \<and> s_session r = sid) (sessions s)")
  case (Some r)
  with assms show ?thesis by (auto simp: UPSERT_SESSION_def has_session_def dest: find_SomeD)
next
  case None
  let ?r = "\<lparr>s_id = next_uuid s, s_tenant = id_tenant who, s_gateway = id_gateway who, s_session = sid,
     s_gen = None, s_fence = 0, s_status = S_pending, s_last_event_at = now\<rparr>"
  have t: "i = next_uuid s" "t = s\<lparr>sessions := sessions s @ [?r], next_uuid := Suc (next_uuid s)\<rparr>"
    using assms None by (auto simp: UPSERT_SESSION_def draw_uuid_def)
  have "(s_gateway ?r, s_session ?r) \<notin> (\<lambda>r. (s_gateway r, s_session r)) ` set (sessions s)"
    by (fastforce dest: find_NoneD[OF None])
  with db_ok_session[of s ?r] have "steps_ok s t" by (simp add: steps_ok_def t db_le_insert_row)
  then show ?thesis by (auto simp: has_session_def t)
qed

lemma UPSERT_CYCLE_ok:
  assumes "UPSERT_CYCLE who runtime sid gen s = (i, t)" and "has_session (id_gateway who) sid runtime s"
  shows "steps_ok s t \<and> has_cycle (id_gateway who) sid gen i t"
proof (cases "find (\<lambda>c. c_gateway c = id_gateway who \<and> c_session c = sid \<and> c_gen c = gen) (cycles s)")
  case (Some c)
  with assms show ?thesis by (auto simp: UPSERT_CYCLE_def has_cycle_def dest: find_SomeD)
next
  case None
  let ?c = "\<lparr>c_id = next_uuid s, c_tenant = id_tenant who, c_runtime = runtime, c_gateway = id_gateway who,
     c_session = sid, c_gen = gen, c_status = C_pending, c_next = 1, c_state_version = None, c_lease = None,
     c_context = None, c_activity = no_activity, c_started_at = None, c_stopped_at = None\<rparr>"
  have t: "i = next_uuid s" "t = s\<lparr>cycles := cycles s @ [?c], next_uuid := Suc (next_uuid s)\<rparr>"
    using assms None by (auto simp: UPSERT_CYCLE_def draw_uuid_def)
  have "(c_gateway ?c, c_session ?c, c_gen ?c) \<notin> (\<lambda>c. (c_gateway c, c_session c, c_gen c)) ` set (cycles s)"
    by (fastforce dest: find_NoneD[OF None])
  with db_ok_cycle[of s ?c] assms(2) have "steps_ok s t"
    by (auto simp: steps_ok_def t db_le_insert_row has_session_def)
  then show ?thesis by (auto simp: has_cycle_def t)
qed

lemma draw_steps_ok: "draw_uuid s = (i, t) \<Longrightarrow> steps_ok s t"
  using db_ok_draw[of s] db_le_inserts(7)[of s] by (auto simp: steps_ok_def draw_uuid_def)

section \<open>Events\<close>

lemma new_event_row_simps [simp]:
  "e_id (new_event_row now who trace i cy g n p) = i"
  "e_claim (new_event_row now who trace i cy g n p) = no_claim"
  "e_gateway (new_event_row now who trace i cy g n p) = id_gateway who"
  "e_session (new_event_row now who trace i cy g n p) = ev_session (pe_event p)"
  "e_cycle (new_event_row now who trace i cy g n p) = cy"
  "e_gen (new_event_row now who trace i cy g n p) = g"
  by (simp_all add: new_event_row_def)

lemma append_event_ok:
  assumes "draw_uuid s = (i, t)" and "has_cycle (id_gateway who) (ev_session (pe_event p)) g cy t"
    and e: "e = new_event_row now who trace i cy g n p"
    and new: "\<not> (\<exists>f \<in> set (events t). same_identity e f)" "\<not> (\<exists>f \<in> set (events t). same_slot e f)"
  shows "steps_ok s (t\<lparr>events := events t @ [e]\<rparr>)"
proof -
  have t: "i = next_uuid s" "t = s\<lparr>next_uuid := Suc (next_uuid s)\<rparr>"
    using assms(1) by (auto simp: draw_uuid_def)
  obtain c where c: "c \<in> set (cycles s)" "c_id c = e_cycle e" "c_gateway c = e_gateway e"
    "c_session c = e_session e" "c_gen c = e_gen e"
    using assms(2) by (auto simp: has_cycle_def t(2) e)
  have "(e_gateway e, e_event_id e) \<notin> (\<lambda>e. (e_gateway e, e_event_id e)) ` set (events s)"
    "(e_gateway e, e_session e, e_gen e, e_seq e) \<notin> (\<lambda>e. (e_gateway e, e_session e, e_gen e, e_seq e)) ` set (events s)"
    using new by (auto simp: t(2) same_identity_def same_slot_def)
  moreover have "e_id e = next_uuid s" "e_claim e = no_claim" by (simp_all add: e t(1))
  ultimately have "db_ok s \<Longrightarrow> db_ok (s\<lparr>events := events s @ [e], next_uuid := Suc (next_uuid s)\<rparr>)"
    using c by (intro db_ok_event)
  moreover have "t\<lparr>events := events t @ [e]\<rparr> = s\<lparr>events := events s @ [e], next_uuid := Suc (next_uuid s)\<rparr>"
    by (simp add: t(2))
  ultimately show ?thesis using db_le_insert_row(3)[of e s] by (simp add: steps_ok_def e)
qed

lemma insert_event_do_nothing_ok:
  assumes "draw_uuid s = (i, t)" and "has_cycle (id_gateway who) (ev_session (pe_event p)) g cy t"
    and "insert_event_do_nothing (new_event_row now who trace i cy g n p) t = Inr (b, u)"
  shows "steps_ok s u"
  using assms(3) append_event_ok[OF assms(1,2) refl] draw_steps_ok[OF assms(1)]
  by (auto simp: insert_event_do_nothing_def split: if_splits)

lemma INSERT_EVENT_ok:
  assumes "draw_uuid s = (i, t)" and "has_cycle (id_gateway who) (ev_session (pe_event p)) g cy t"
    and "INSERT_EVENT (new_event_row now who trace i cy g n p) t = Inr (b, u)"
  shows "steps_ok s u"
  using assms(3) append_event_ok[OF assms(1,2) refl] draw_steps_ok[OF assms(1)]
  by (auto simp: INSERT_EVENT_def split: if_splits)

lemma steps_ok_le: "steps_ok s t \<Longrightarrow> db_le s t"
  by (simp add: steps_ok_def)

lemma ADMIT_NON_CHAT_EVENTS_ok:
  "ADMIT_NON_CHAT_EVENTS now who trace ps s = Inr (ids, t) \<Longrightarrow> steps_ok s t"
proof (induction ps arbitrary: s ids)
  case (Cons p ps)
  obtain r s1 where u1: "UPSERT_SESSION now who (ev_session (pe_event p)) s = (r, s1)" by fastforce
  obtain cy s2 where u2: "UPSERT_CYCLE who r (ev_session (pe_event p)) (ev_generation (pe_event p)) s1 = (cy, s2)"
    by fastforce
  obtain i s3 where u3: "draw_uuid s2 = (i, s3)" by fastforce
  from Cons.prems obtain b s4 ids' where
    ins: "insert_event_do_nothing (new_event_row now who trace i cy (ev_generation (pe_event p))
        (ev_sequence (pe_event p)) p) s3 = Inr (b, s4)"
    and rest: "ADMIT_NON_CHAT_EVENTS now who trace ps s4 = Inr (ids', t)"
    by (auto simp: u1 u2 u3 split: sum.splits prod.splits)
  note o1 = UPSERT_SESSION_ok[OF u1]
  note o2 = UPSERT_CYCLE_ok[OF u2] 
  from o1 o2 have c: "steps_ok s1 s2" "has_cycle (id_gateway who) (ev_session (pe_event p)) (ev_generation (pe_event p)) cy s2"
    by simp_all
  have "has_cycle (id_gateway who) (ev_session (pe_event p)) (ev_generation (pe_event p)) cy s3"
    using has_cycle_mono[OF steps_ok_le[OF draw_steps_ok[OF u3]] c(2)] .
  from insert_event_do_nothing_ok[OF u3 this ins] Cons.IH[OF rest] o1 c(1)
  show ?case by (blast intro: steps_ok_trans)
qed simp

section \<open>Hosted chat\<close>

definition caches_ok :: "string \<Rightarrow> chat_caches \<Rightarrow> db \<Rightarrow> bool" where
  "caches_ok gw k s \<longleftrightarrow>
     (\<forall>sid i. cc_sessions k sid = Some i \<longrightarrow> has_session gw sid i s) \<and>
     (\<forall>sid i g. cc_cycles k sid = Some (i, g) \<longrightarrow> has_cycle gw sid g i s)"

lemma caches_ok_mono: "caches_ok gw k s \<Longrightarrow> db_le s t \<Longrightarrow> caches_ok gw k t"
  unfolding caches_ok_def by (blast intro: has_session_mono has_cycle_mono)

lemma SELECT_HOSTED_CHAT_CYCLE_ok:
  assumes "db_ok s" and "SELECT_HOSTED_CHAT_CYCLE gw sid s = Some c"
  shows "has_cycle gw sid (c_gen c) (c_id c) s"
proof -
  from assms(2) obtain r where "first_by (\<lambda>(r, c). (hosted_chat_rank r c, - c_gen c)) (\<lambda>_. True)
      (session_cycles gw sid s) = Some (r, c)"
    by (auto simp: SELECT_HOSTED_CHAT_CYCLE_def)
  from first_by_SomeD(1)[OF this] have rc: "r \<in> set (sessions s)" "s_gateway r = gw" "s_session r = sid"
    "c \<in> set (cycles s)" "c_runtime c = s_id r" by (auto simp: session_cycles_def)
  from db_ok_parts(2)[OF assms(1)] rc(4) obtain q where q: "q \<in> set (sessions s)" "s_id q = c_runtime c"
    "s_gateway q = c_gateway c" "s_session q = c_session c" by (auto simp: refs_ok_def)
  with rc session_key_unique[OF db_ok_parts(1)[OF assms(1)] rc(1) q(1)] have "q = r" by simp
  with q rc show ?thesis by (auto simp: has_cycle_def)
qed

lemma hosted_cycle_ok:
  assumes ok: "db_ok s" and k: "caches_ok (id_gateway who) k s"
    and run: "hosted_cycle now who k sid s = (cy, g, k', t)"
  shows "steps_ok s t \<and> has_cycle (id_gateway who) sid g cy t \<and> caches_ok (id_gateway who) k' t"
proof (cases "cc_cycles k sid")
  case (Some x)
  with run k show ?thesis by (cases x) (auto simp: hosted_cycle_def caches_ok_def)
next
  case None
  show ?thesis
  proof (cases "SELECT_HOSTED_CHAT_CYCLE (id_gateway who) sid s")
    case (Some c)
    with None run k SELECT_HOSTED_CHAT_CYCLE_ok[OF ok Some] show ?thesis by (auto simp: hosted_cycle_def)
  next
    case sel: None
    define a where "a = (case cc_sessions k sid of Some runtime \<Rightarrow> (runtime, k, s)
      | None \<Rightarrow> (case UPSERT_SESSION now who sid s of
          (runtime, s) \<Rightarrow> (runtime, k\<lparr>cc_sessions := (cc_sessions k)(sid \<mapsto> runtime)\<rparr>, s)))"
    obtain r k1 s1 where a: "a = (r, k1, s1)" by (cases a)
    have s1: "steps_ok s s1 \<and> has_session (id_gateway who) sid r s1 \<and> caches_ok (id_gateway who) k1 s1"
    proof (cases "cc_sessions k sid")
      case (Some i)
      with k a show ?thesis by (auto simp: a_def caches_ok_def)
    next
      case None
      obtain i u where u: "UPSERT_SESSION now who sid s = (i, u)" by fastforce
      with None a have "r = i" "s1 = u" "k1 = k\<lparr>cc_sessions := (cc_sessions k)(sid \<mapsto> i)\<rparr>"
        by (auto simp: a_def)
      moreover note UPSERT_SESSION_ok[OF u]
      ultimately show ?thesis
        using caches_ok_mono[OF k, of u] steps_ok_le by (auto simp: caches_ok_def)
    qed
    obtain cy' s2 where u2: "UPSERT_CYCLE who r sid 1 s1 = (cy', s2)" by fastforce
    with run None sel a have eqs: "cy = cy'" "g = 1" "t = s2"
      "k' = k1\<lparr>cc_cycles := (cc_cycles k1)(sid \<mapsto> (cy', 1))\<rparr>"
      by (auto simp: hosted_cycle_def a_def[symmetric] Let_def)
    from UPSERT_CYCLE_ok[OF u2] s1 have s2: "steps_ok s1 s2" "has_cycle (id_gateway who) sid 1 cy' s2" by auto
    moreover have "caches_ok (id_gateway who) k' s2"
      using caches_ok_mono[OF _ steps_ok_le[OF s2(1)]] s1 s2(2) by (auto simp: caches_ok_def eqs)
    ultimately show ?thesis using s1 eqs by (auto intro: steps_ok_trans)
  qed
qed

lemma insert_one_ok:
  assumes ok: "db_ok s" and k: "caches_ok (id_gateway who) k s"
    and run: "insert_one now who trace p k s = Inr (c, k', t)"
  shows "steps_ok s t \<and> caches_ok (id_gateway who) k' t"
proof -
  obtain cy g k1 s1 where h: "hosted_cycle now who k (ev_session (pe_event p)) s = (cy, g, k1, s1)"
    by (cases "hosted_cycle now who k (ev_session (pe_event p)) s")
  note h1 = hosted_cycle_ok[OF ok k h]
  from run obtain n where n: "next_hosted_chat_storage_sequence (SELECT_MAX_HOSTED_CHAT_SEQUENCE cy s1) = Inr n"
    by (auto simp: insert_one_def h split: sum.splits)
  obtain i s2 where u: "draw_uuid s1 = (i, s2)" by fastforce
  have c2: "has_cycle (id_gateway who) (ev_session (pe_event p)) g cy s2"
    using h1 has_cycle_mono[OF steps_ok_le[OF draw_steps_ok[OF u]]] by blast
  show ?thesis
  proof (cases "INSERT_EVENT (new_event_row now who trace i cy g n p) s2")
    case (Inl er)
    with run n u k show ?thesis by (auto simp: insert_one_def h split: sum.splits)
  next
    case (Inr x)
    obtain b s3 where x: "x = (b, s3)" by (cases x)
    have s3: "steps_ok s1 s3" using INSERT_EVENT_ok[OF u c2] Inr x by simp
    have "k' = k1" "t = s3"
      using run n u Inr x by (auto simp: insert_one_def h split: sum.splits bool.splits)
    with s3 h1 caches_ok_mono[OF _ steps_ok_le[OF s3]] show ?thesis by (auto intro: steps_ok_trans)
  qed
qed

lemma insert_chats_ok:
  "insert_chats now who trace ps k s = Inr (cs, t) \<Longrightarrow> db_ok s \<Longrightarrow> caches_ok (id_gateway who) k s \<Longrightarrow>
   steps_ok s t"
proof (induction ps arbitrary: k s cs)
  case (Cons p ps)
  from Cons.prems(1) obtain c k' u cs' where one: "insert_one now who trace p k s = Inr (c, k', u)"
    and rest: "insert_chats now who trace ps k' u = Inr (cs', t)"
    by (auto split: sum.splits prod.splits)
  note o = insert_one_ok[OF Cons.prems(2,3) one]
  then have "db_ok u" using Cons.prems(2) by (simp add: steps_ok_def)
  with Cons.IH[OF rest] o show ?case by (auto intro: steps_ok_trans)
qed simp

section \<open>The batch\<close>

lemma keeps_REFRESH: "keeps s (REFRESH_SESSION_LIVENESS now gw sids s)"
  unfolding REFRESH_SESSION_LIVENESS_def
  by (rule keepsI, rule db_le_sessions) (auto simp: session_le_def shape_def)

lemma admit_pending_ok:
  assumes "admit_pending now who trace pending s = Inr (cs, t)" and "db_ok s"
  shows "steps_ok s t"
proof -
  from assms(1) obtain inserted u chats where
    a: "ADMIT_NON_CHAT_EVENTS now who trace (filter (\<lambda>p. \<not> is_hosted_chat_event (pe_event p))
        (order_prepared_events_for_insertion pending)) s = Inr (inserted, u)"
    and b: "insert_chats now who trace (filter (\<lambda>p. is_hosted_chat_event (pe_event p))
        (order_prepared_events_for_insertion pending)) \<lparr>cc_sessions = Map.empty, cc_cycles = Map.empty\<rparr> u =
      Inr (chats, t)"
    by (auto simp: admit_pending_def Let_def split: sum.splits option.splits)
  from ADMIT_NON_CHAT_EVENTS_ok[OF a] have u: "steps_ok s u" .
  then have "db_ok u" using assms(2) by (simp add: steps_ok_def)
  moreover have "caches_ok (id_gateway who) \<lparr>cc_sessions = Map.empty, cc_cycles = Map.empty\<rparr> u"
    by (simp add: caches_ok_def)
  ultimately show ?thesis using insert_chats_ok[OF b] u by (auto intro: steps_ok_trans)
qed

lemma accept_event_batch_ok:
  assumes "accept_event_batch H stale now who trace evs s = Inr (res, t)" and "db_ok s"
  shows "steps_ok s t"
proof -
  from assms(1) obtain prepared cs u where
    a: "admit_pending now who trace (filter (\<lambda>p. load_existing (id_gateway who) prepared s (pe_id p) = None)
        prepared) s = Inr (cs, u)"
    and t: "t = (if live_session_ids now stale prepared = [] then u
      else REFRESH_SESSION_LIVENESS now (id_gateway who) (live_session_ids now stale prepared) u)"
    unfolding accept_event_batch_def Let_def
    by (auto simp del: split_paired_Ex split: sum.splits option.splits if_split)
  from admit_pending_ok[OF a assms(2)] t keeps_steps_ok[OF keeps_REFRESH] show ?thesis
    by (auto intro: steps_ok_trans split: if_splits)
qed

end
