(* ===== verification/SendingFacts.thy ===== *)
theory SendingFacts
  imports OutboxSafety
begin

text \<open>
  What sending decisions guarantees: what a claim hands out, what a response and a failure leave
  behind, how a rejection is merged, and what closing a generation closes.
\<close>

section \<open>Claiming\<close>

lemma decision_claim_loop_final:
  "decision_claim_loop locked now w ttl m s = Inr (Some cd, t) \<Longrightarrow> keys_ok s \<Longrightarrow>
   \<exists>u. keeps s u \<and> decision_claim_step locked now w ttl m u = Inr (Decision_claimed cd, t)"
proof (induction locked now w ttl m s rule: decision_claim_loop.induct)
  case (1 locked now w ttl m s)
  from 1(2) obtain x u where st: "decision_claim_step locked now w ttl m s = Inr (x, u)"
    by (subst (asm) decision_claim_loop.simps) (auto split: sum.splits)
  show ?case
  proof (cases x)
    case Decision_again
    with st have k: "keeps s u"
      by (cases rule: decision_claim_step_cases) (use cancelled_step_keeps[OF 1(3)] in auto)
    have "decision_claim_loop locked now w ttl m u = Inr (Some cd, t)"
      using 1(2) st Decision_again by (subst (asm) decision_claim_loop.simps) simp
    from 1(1)[OF st refl Decision_again this] obtain v where
      "keeps u v" "decision_claim_step locked now w ttl m v = Inr (Decision_claimed cd, t)"
      using keeps_ok(1)[OF k] 1(3) by auto
    with k show ?thesis by (blast intro: keeps_trans)
  next
    case (Decision_claimed cd')
    then show ?thesis using 1(2) st by (subst (asm) decision_claim_loop.simps) (auto intro!: exI[of _ s])
  qed (use 1(2) st in \<open>subst (asm) decision_claim_loop.simps, simp\<close>)
qed

lemma decision_fence_ok:
  assumes "decision_fence_error now claimed d c r = Inr None"
  shows "c_status c = C_active" "s_gen r = Some (d_gen d)" "str_is (c_lease c) (d_lease d)"
    "c_state_version c = Some (d_state_version d)" "lease_current now d" "claimed = Some f \<Longrightarrow> s_fence r = f"
  using assms by (auto simp: decision_fence_error_def split: if_splits option.splits)

text \<open>
  C38: what a decision claim hands out.  The claimed decision is sending under a token never drawn
  before, with at most the allowed attempts, locked until the claim's time to live has passed; its
  cycle is active and its generation, lease and state version are those of the session and the
  cycle, the claim carries the session's fence and the lease has not expired; and it is the only
  decision of its cycle that is sending, while no skill call of the cycle is open.
\<close>

theorem claim_hands_out_valid_decision:
  assumes keys: "keys_ok s" and claim: "claim_next_decision locked now w ttl m s = Inr (Some cd, t)"
  shows "\<exists>d c r. d \<in> set (decisions t) \<and> c \<in> set (cycles t) \<and> r \<in> set (sessions t) \<and>
    c_id c = d_cycle d \<and> s_id r = c_runtime c \<and>
    holds_decision_claim (cd_row cd) (Some (cd_token cd)) (Some (cd_fence cd)) d \<and>
    next_uuid s \<le> cd_token cd \<and> d_attempts d \<le> m \<and> cl_lock_until (d_claim d) = Some (now + ttl) \<and>
    c_status c = C_active \<and> s_gen r = Some (d_gen d) \<and> s_fence r = cd_fence cd \<and>
    str_is (c_lease c) (d_lease d) \<and> c_state_version c = Some (d_state_version d) \<and> lease_current now d \<and>
    (\<forall>q \<in> set (decisions t). d_cycle q = d_cycle d \<and> d_status q = D_sending \<longrightarrow> q = d) \<and>
    (\<forall>k \<in> set (calls t). (\<exists>q \<in> set (decisions t). d_cycle q = d_cycle d \<and> d_id q = k_decision k) \<longrightarrow>
       \<not> open_call (k_status k))"
proof -
  from claim have "decision_claim_loop locked now w ttl m s = Inr (Some cd, t)"
    by (simp add: claim_next_decision_def split: if_splits)
  from decision_claim_loop_final[OF this keys] obtain u where k: "keeps s u"
    and st: "decision_claim_step locked now w ttl m u = Inr (Decision_claimed cd, t)" by blast
  have keys': "keys_ok u" using keys keeps_ok(1)[OF k] by simp
  from st show ?thesis
  proof (cases rule: decision_claim_step_cases)
    case (claimed d c r e q s1)
    let ?f = "claim_decision_row now (next_uuid u) (s_fence r) ttl w"
    have d: "d \<in> set (decisions u)" "c \<in> set (cycles u)" "r \<in> set (sessions u)" "c_id c = d_cycle d"
      "s_id r = c_runtime c" using claimed(1) by (auto simp: in_decision_join)
    have uniq: "p = d" if "p \<in> set (decisions u)" "d_id p = d_id d" for p
      using decision_key_unique[OF keys' d(1) that(1)] that(2) by simp
    have s1: "s1 = u\<lparr>next_uuid := Suc (next_uuid u)\<rparr>" using claimed(5) by (simp add: draw_uuid_def)
    have "find (\<lambda>p. d_id p = d_id d \<and> decision_due now m p) (decisions u) = Some d"
      by (rule find_unique) (use d(1) claimed(2) uniq in auto)
    then have q: "q = ?f d" and ts: "decisions t = update_where (\<lambda>p. d_id p = d_id d \<and> decision_due now m p) ?f (decisions u)"
      "cycles t = cycles u" "sessions t = sessions u" "calls t = calls u"
      using claimed(6) by (auto simp: CLAIM_DECISION_def s1)
    have mem: "p \<in> set (decisions t) \<longleftrightarrow> p = ?f d \<or> p \<in> set (decisions u) \<and> d_id p \<noteq> d_id d" for p
      unfolding ts(1) set_update_where using d(1) claimed(2) uniq by (auto simp: image_iff)
    have idle: "\<forall>p \<in> set (decisions u). d_cycle p = d_cycle d \<and> d_id p \<noteq> d_id d \<longrightarrow> d_status p \<noteq> D_sending"
      "\<forall>k \<in> set (calls u). (\<exists>p \<in> set (decisions u). d_cycle p = d_cycle d \<and> d_id p = k_decision k) \<longrightarrow> \<not> open_call (k_status k)"
      using claimed(3) by (auto simp: cycle_idle_def)
    note fence = decision_fence_ok[OF claimed(4)]
    have n: "next_uuid u = next_uuid s" using k by (simp add: keeps_def shape_def)
    have fd: "d_cycle (?f d) = d_cycle d" "d_id (?f d) = d_id d" "d_gen (?f d) = d_gen d" "d_lease (?f d) = d_lease d"
      "d_state_version (?f d) = d_state_version d" "lease_current now (?f d) = lease_current now d"
      "cl_lock_until (d_claim (?f d)) = Some (now + ttl)" "d_attempts (?f d) \<le> m"
      using claimed(2) by (auto simp: claim_decision_row_def lease_current_def decision_due_def)
    have "cd_row cd = d_id d" "cd_token cd = next_uuid u" "cd_fence cd = s_fence r"
      using claimed(7) by (simp_all add: make_claimed_decision_def q claim_decision_row_def)
    moreover from this have "holds_decision_claim (cd_row cd) (Some (cd_token cd)) (Some (cd_fence cd)) (?f d)"
      by (simp add: holds_decision_claim_def claim_decision_row_def)
    moreover have "\<forall>k \<in> set (calls t). (\<exists>p \<in> set (decisions t). d_cycle p = d_cycle d \<and> d_id p = k_decision k) \<longrightarrow>
       \<not> open_call (k_status k)"
    proof (intro ballI impI, elim bexE conjE)
      fix k p assume k: "k \<in> set (calls t)" "p \<in> set (decisions t)" "d_cycle p = d_cycle d" "d_id p = k_decision k"
      then have "\<exists>p \<in> set (decisions u). d_cycle p = d_cycle d \<and> d_id p = k_decision k"
        using d(1) fd(2) by (auto simp: mem)
      with idle(2) k(1) show "\<not> open_call (k_status k)" by (simp add: ts(4))
    qed
    moreover have "\<forall>p \<in> set (decisions t). d_cycle p = d_cycle (?f d) \<and> d_status p = D_sending \<longrightarrow> p = ?f d"
      using idle(1) by (auto simp: mem fd(1))
    moreover have "?f d \<in> set (decisions t)" by (simp add: mem)
    moreover have "c \<in> set (cycles t)" "r \<in> set (sessions t)" "c_id c = d_cycle (?f d)" "s_gen r = Some (d_gen (?f d))"
      "str_is (c_lease c) (d_lease (?f d))" "c_state_version c = Some (d_state_version (?f d))"
      "lease_current now (?f d)"
      using d fence ts(2,3) fd by simp_all
    ultimately show ?thesis
      using d(5) fence(1) fd(7,8) n unfolding fd(1)[symmetric]
      by (intro exI[of _ "?f d"] exI[of _ c] exI[of _ r] conjI) (assumption | simp)+
  qed simp_all
qed

section \<open>Failures\<close>

lemma find_decision_join:
  assumes "keys_ok s" and "lock_claimed_decision cd s = Inr (Some (d, c, r))"
  shows "\<And>q. q \<in> set (decisions s) \<Longrightarrow> d_id q = cd_row cd \<Longrightarrow> q = d"
  using lock_claimed_decision_SomeD[OF assms(2)] decision_key_unique[OF assms(1)]
  by (metis holds_decision_claim_def)

lemma complete_decision_claim_row:
  assumes "keys_ok s" and "lock_claimed_decision cd s = Inr (Some (d, c, r))"
  shows "complete_decision_claim (cd_row cd) (Some (cd_token cd)) (Some (cd_fence cd)) f s =
    (True, s\<lparr>decisions := update_where (\<lambda>q. d_id q = cd_row cd) f (decisions s)\<rparr>)"
proof -
  note l = lock_claimed_decision_SomeD[OF assms(2)]
  have "holds_decision_claim (cd_row cd) (Some (cd_token cd)) (Some (cd_fence cd)) q \<longleftrightarrow> d_id q = cd_row cd"
    if "q \<in> set (decisions s)" for q
    using find_decision_join[OF assms that] l(6) by (auto simp: holds_decision_claim_def)
  with l(1,6) show ?thesis
    by (auto simp: complete_decision_claim_def update_where_def holds_decision_claim_def)
qed

text \<open>
  A failed send is retried within bounds or buried.  Completing a held claim with a failure, while
  the fence still holds, releases the claim; a decision that has used its attempts becomes a dead
  letter, any other is due again after a delay between the configured base and maximum.  A decision
  whose fence broke is cancelled instead.  No other decision changes.
\<close>

theorem failure_retries_or_buries:
  assumes keys: "keys_ok s" and cfg: "0 < m" "0 < rb" "rb \<le> rm"
    and held: "lock_claimed_decision cd s = Inr (Some (d, c, r))"
    and fence: "decision_fence_error now (cl_fence (d_claim d)) d c r = Inr broken"
  shows "\<exists>t q. complete_decision_failure now cd er body m rb rm s = Inr (True, t) \<and>
    decisions t = update_where (\<lambda>p. d_id p = cd_row cd) (\<lambda>_. q) (decisions s) \<and> d_id q = cd_row cd \<and>
    d_claim q = no_claim \<and>
    (case broken of
       Some category \<Rightarrow> d_status q = D_cancelled \<and> d_error q = (Some ''fence'', Some category)
     | None \<Rightarrow>
         if m \<le> d_attempts d then d_status q = D_dead_letter
         else d_status q = D_retryable_failed \<and> now + rb \<le> d_next_at q \<and> d_next_at q \<le> now + rm)"
proof -
  have upd: "update_where (\<lambda>p. d_id p = cd_row cd) f (decisions s) =
      update_where (\<lambda>p. d_id p = cd_row cd) (\<lambda>_. f d) (decisions s)" for f
    using find_decision_join[OF keys held] by (auto simp: update_where_def)
  have i: "d_id d = cd_row cd" using lock_claimed_decision_SomeD(6)[OF held] by (simp add: holds_decision_claim_def)
  have run: "complete_decision_failure now cd er body m rb rm s =
      (case broken of Some category \<Rightarrow> Inr (True, CANCEL_LOCKED_DECISION now (cd_row cd) category s)
       | None \<Rightarrow> Inr (if m \<le> d_attempts d
           then COMPLETE_DECISION_DEAD_LETTER now (cd_row cd) (Some (cd_token cd)) (Some (cd_fence cd)) er body s
           else COMPLETE_DECISION_RETRYABLE now (cd_row cd) (Some (cd_token cd)) (Some (cd_fence cd)) er body
                  (retry_delay_ms rb rm (d_attempts d)) s))"
    using cfg held fence by (simp add: complete_decision_failure_def split: option.splits)
  have bounds: "now + rb \<le> now + retry_delay_ms rb rm n" "now + retry_delay_ms rb rm n \<le> now + rm" for n
    using retry_delay_bounds[OF cfg(2,3)] by simp_all
  show ?thesis
  proof (cases broken)
    case (Some category)
    then show ?thesis
      unfolding run CANCEL_LOCKED_DECISION_def
      using i by (simp add: upd[of "\<lambda>d. d\<lparr>d_status := D_cancelled, d_claim := no_claim,
        d_error := (Some ''fence'', Some category), d_completed_at := Some now\<rparr>"]) (rule exI, rule conjI[OF refl], simp)
  next
    case None
    show ?thesis
    proof (cases "m \<le> d_attempts d")
      case True
      with None i show ?thesis
        unfolding run COMPLETE_DECISION_DEAD_LETTER_def complete_decision_claim_row[OF keys held]
        by (simp add: upd[of "\<lambda>d. d\<lparr>d_status := D_dead_letter, d_claim := no_claim,
          d_error := (Some (fst er), Some (snd er)), d_response := coalesce_body body (d_response d),
          d_completed_at := Some now\<rparr>"]) (rule exI, rule conjI[OF refl], simp)
    next
      case False
      with None i bounds show ?thesis
        unfolding run COMPLETE_DECISION_RETRYABLE_def complete_decision_claim_row[OF keys held]
        by (simp add: upd[of "\<lambda>x. x\<lparr>d_status := D_retryable_failed,
          d_next_at := now + retry_delay_ms rb rm (d_attempts d), d_claim := no_claim,
          d_error := (Some (fst er), Some (snd er)), d_response := coalesce_body body (d_response x)\<rparr>"])
          (rule exI, rule conjI[OF refl], simp)
    qed
  qed
qed

end
