(* ===== verification/ResponseFacts.thy ===== *)
theory ResponseFacts
  imports SendingFacts TerminalFacts
begin

text \<open>
  What the gateway's answers leave behind: the one skill call of an accepted decision, a merged
  rejection, and a generation that is closed by a session stop.
\<close>

section \<open>Responses\<close>

text \<open>The decision a claim was made from; the columns named here never change.\<close>

definition decision_of :: "claimed_decision \<Rightarrow> db \<Rightarrow> bool" where
  "decision_of cd s \<longleftrightarrow> (\<forall>d \<in> set (decisions s). d_id d = cd_row cd \<longrightarrow>
     d_gateway d = cd_gateway cd \<and> d_decision_id d = cd_decision_id cd \<and> d_action d = cd_action cd)"

lemma one_call_row:
  "call_links s \<Longrightarrow> k \<in> set (calls s) \<Longrightarrow> l \<in> set (calls s) \<Longrightarrow> k_decision l = k_decision k \<Longrightarrow> l = k"
  by (auto simp: call_links_def dest: distinct_key_unique)

lemma call_gateway:
  assumes "call_links s" and "k \<in> set (calls s)" and "d \<in> set (decisions s)" and "k_decision k = d_id d"
  shows "k_gateway k = d_gateway d" "k_decision_id k = d_decision_id d"
proof -
  from assms(1,2) obtain e where e: "e \<in> set (decisions s)" "d_id e = k_decision k" "d_gateway e = k_gateway k"
    "d_decision_id e = k_decision_id k" by (auto simp: call_links_def)
  have "e = d" using assms e(1,2) by (auto simp: call_links_def dest: distinct_key_unique)
  with e show "k_gateway k = d_gateway d" "k_decision_id k = d_decision_id d" by simp_all
qed

lemma accept_call_none:
  assumes "call_links s" and "d \<in> set (decisions s)" and "d_id d = cd_row cd" and "d_gateway d = cd_gateway cd"
    and "LOCK_RESPONSE_CALL_FOR_DECISION (cd_row cd) s = Inr x" and "x = None \<or> k_call_id (the x) = c"
    and "LOCK_RESPONSE_SKILL_CALL (cd_gateway cd) c s = None"
  shows "x = None"
proof (cases x)
  case (Some k)
  with assms(5,6) have k: "k \<in> set (calls s)" "k_decision k = d_id d" "k_call_id k = c"
    by (auto simp: LOCK_RESPONSE_CALL_FOR_DECISION_def assms(3) dest: one_or_none_SomeD)
  with call_gateway[OF assms(1) k(1) assms(2) k(2)] assms(4,7) show ?thesis
    by (auto simp: LOCK_RESPONSE_SKILL_CALL_def find_None_iff)
qed simp

lemma accept_call_outcome:
  assumes links: "call_links s" and d: "d \<in> set (decisions s)" "d_id d = cd_row cd" "d_gateway d = cd_gateway cd"
    and run: "accept_call now cd d c s = Inr ((st, category, c'), t)"
  shows "st = D_manual \<and> category \<noteq> None \<or>
    st = D_accepted \<and> category = None \<and>
      (\<exists>k \<in> set (calls t). k_decision k = cd_row cd \<and> k_call_id k = c \<and> k_status k \<noteq> K_manual \<and>
         (\<forall>l \<in> set (calls t). k_decision l = cd_row cd \<longrightarrow> l = k))"
proof (cases "decision_skill_name d")
  case None
  with run show ?thesis by (auto simp: accept_call_def)
next
  case (Some skill)
  with run obtain x where x: "LOCK_RESPONSE_CALL_FOR_DECISION (cd_row cd) s = Inr x"
    by (auto simp: accept_call_def split: sum.splits)
  show ?thesis
  proof (cases "x \<noteq> None \<and> k_call_id (the x) \<noteq> c")
    case True
    with run Some x show ?thesis by (auto simp: accept_call_def)
  next
    case False
    show ?thesis
    proof (cases "LOCK_RESPONSE_SKILL_CALL (cd_gateway cd) c s")
      case None
      have "x = None" using accept_call_none[OF links d x _ None] False by auto
      with x have none: "\<forall>l \<in> set (calls s). k_decision l \<noteq> cd_row cd"
        by (auto simp: LOCK_RESPONSE_CALL_FOR_DECISION_def dest: one_or_none_NoneD)
      from run Some x False None have "INSERT_PENDING_SKILL_CALL now (cd_tenant cd) (cd_row cd) (cd_gateway cd)
          (cd_session cd) (cd_decision_id cd) c skill
          (if d_tracking d \<noteq> None then Eff_pending else Eff_not_applicable) s = Inr t"
        and res: "st = D_accepted" "category = None"
        by (auto simp: accept_call_def split: sum.splits)
      then obtain k where "calls t = calls s @ [k]" "k_decision k = cd_row cd" "k_call_id k = c" "k_status k = K_pending"
        by (auto simp: INSERT_PENDING_SKILL_CALL_def draw_uuid_def insert_call_def split: if_splits)
      with none res show ?thesis by auto
    next
      case (Some k)
      then have k: "k \<in> set (calls s)" "k_call_id k = c"
        by (auto simp: LOCK_RESPONSE_SKILL_CALL_def dest: find_SomeD)
      have "accept_call now cd d c s =
          (if \<not> response_call_matches k cd skill
           then Inr ((D_manual, Some ''skill_call_identity_conflict'', c), MARK_RESPONSE_CALL_MANUAL now (k_id k) s)
           else if k_status k = K_manual then Inr ((D_manual, Some ''skill_call_state_conflict'', c), s)
           else Inr ((D_accepted, None, c), s))"
        unfolding accept_call_def \<open>decision_skill_name d = Some skill\<close> x Some
        using False by (simp only: option.case sum.case if_False)
      with run have "(st, category) = (D_manual, Some ''skill_call_identity_conflict'') \<or>
          (st, category) = (D_manual, Some ''skill_call_state_conflict'') \<or>
          (st, category, t) = (D_accepted, None, s) \<and> response_call_matches k cd skill \<and> k_status k \<noteq> K_manual"
        by (simp only: split: if_splits) (simp_all only: sum.inject prod.inject simp_thms)
      then have "st = D_manual \<and> category \<noteq> None \<or>
          st = D_accepted \<and> category = None \<and> t = s \<and> k_decision k = cd_row cd \<and> k_status k \<noteq> K_manual"
        by (elim disjE) (simp_all add: response_call_matches_def)
      then show ?thesis
      proof
        assume a: "st = D_accepted \<and> category = None \<and> t = s \<and> k_decision k = cd_row cd \<and> k_status k \<noteq> K_manual"
        have u: "\<forall>l \<in> set (calls t). k_decision l = cd_row cd \<longrightarrow> l = k"
          using a by (intro ballI impI one_call_row[OF links k(1)]) simp_all
        show ?thesis
          by (intro disjI2 conjI bexI[of _ k]) (rule u | use a k in simp)+
      qed simp
    qed
  qed
qed

lemma response_outcome_decisions:
  "response_outcome now cd d res s = Inr (x, t) \<Longrightarrow> decisions t = decisions s"
  by (auto simp: response_outcome_def accept_call_def INSERT_PENDING_SKILL_CALL_def insert_call_def draw_uuid_def
      MARK_RESPONSE_CALL_MANUAL_def Let_def split: if_splits option.splits sum.splits)

text \<open>
  C39: an accepted skill decision has exactly one skill call.  When the response to a held claim is
  recorded and the gateway accepted a skill call or a stop, the decision is either accepted and
  there is exactly one skill call for it, with the id the gateway gave, or it is set aside for
  manual review with an error of the stage \<open>http\<close>; in both cases the claim is released.
\<close>

theorem accepted_skill_has_one_call:
  assumes keys: "keys_ok s" and links: "call_links s" and cd: "decision_of cd s"
    and run: "record_decision_response now cd res s = Inr (True, t)"
    and acc: "cr_status res = R_accepted" "cd_action cd \<in> {A_call_skill, A_stop_hosting}"
  shows "\<exists>q \<in> set (decisions t). d_id q = cd_row cd \<and> d_claim q = no_claim \<and>
    (d_status q = D_manual \<and> fst (d_error q) = Some ''http'' \<or>
     d_status q = D_accepted \<and> d_error q = (None, None) \<and>
     (\<exists>k \<in> set (calls t). k_decision k = cd_row cd \<and> Some (k_call_id k) = cr_call_id res \<and>
        k_status k \<noteq> K_manual \<and> (\<forall>l \<in> set (calls t). k_decision l = cd_row cd \<longrightarrow> l = k)))"
proof -
  from run obtain d c r where held: "lock_claimed_decision cd s = Inr (Some (d, c, r))"
    by (auto simp: record_decision_response_def split: sum.splits option.splits)
  from run held obtain st category i s1 where
    out: "response_outcome now cd d res s = Inr ((st, category, i), s1)"
    and complete: "COMPLETE_DECISION_RESPONSE now (cd_row cd) (Some (cd_token cd)) (Some (cd_fence cd)) st
        \<lparr>rs_http_status = Some (cr_http res), rs_status = Some (response_text (cr_status res)),
         rs_reason = Some (take 256 (cr_reason res)), rs_body = jsonb_param (cr_body res), rs_call_id = i\<rparr>
        (map_option (\<lambda>_. ''http'') category, category) s1 = (True, t)"
    by (auto simp: record_decision_response_def split: sum.splits option.splits)
  note l = lock_claimed_decision_SomeD[OF held]
  have i: "d_id d = cd_row cd" using l(6) by (simp add: holds_decision_claim_def)
  with cd l(1) have g: "d_gateway d = cd_gateway cd" by (auto simp: decision_of_def)
  from out acc obtain call_id where c: "cr_call_id res = Some call_id"
    and call: "\<exists>c'. accept_call now cd d call_id s = Inr ((st, category, c'), s1)"
    by (auto simp: response_outcome_def is_idempotency_conflict_def split: option.splits sum.splits)
  from call obtain c' where "accept_call now cd d call_id s = Inr ((st, category, c'), s1)" by blast
  note o = accept_call_outcome[OF links l(1) i g this]
  have ds: "decisions s1 = decisions s" using response_outcome_decisions[OF out] .
  let ?f = "\<lambda>d. d\<lparr>d_status := st, d_response := \<lparr>rs_http_status = Some (cr_http res),
      rs_status = Some (response_text (cr_status res)), rs_reason = Some (take 256 (cr_reason res)),
      rs_body = jsonb_param (cr_body res), rs_call_id = i\<rparr>, d_claim := no_claim,
      d_error := (map_option (\<lambda>_. ''http'') category, category), d_completed_at := Some now\<rparr>"
  from complete have t: "decisions t = update_where
      (holds_decision_claim (cd_row cd) (Some (cd_token cd)) (Some (cd_fence cd))) ?f (decisions s)" "calls t = calls s1"
    by (auto simp: COMPLETE_DECISION_RESPONSE_def complete_decision_claim_def ds)
  have "?f d \<in> set (decisions t)" 
    unfolding t(1) by (rule update_where_in(1)[where f = ?f, OF l(1)]) (rule l(6))
  with o c i show ?thesis
    by (intro bexI[of _ "?f d"]) (auto simp: t(2))
qed

section \<open>Rejections\<close>

lemma LOCK_REJECTION_APPLY:
  "LOCK_DECISION_FOR_REJECTION gw i (APPLY_REJECTION now row st reason b er s) =
   map_option (\<lambda>d. if d_id d = row then d\<lparr>d_status := st,
           d_response := (d_response d)
             \<lparr>rs_status := (if st = D_rejected then Some ''rejected'' else rs_status (d_response d)),
              rs_reason := (if b then Some reason else rs_reason (d_response d))\<rparr>,
           d_error := er,
           d_completed_at := (if st = D_rejected \<or> st = D_manual then Some now else d_completed_at d)\<rparr> else d)
     (LOCK_DECISION_FOR_REJECTION gw i s)"
  unfolding LOCK_DECISION_FOR_REJECTION_def APPLY_REJECTION_def
  by (simp add: find_update_where)

text \<open>
  A merged rejection is final.  When \<open>decision_rejected\<close> is applied, the decision is rejected with
  the reason of the event and can never be claimed again; delivering the rejection again is
  idempotent, and the decision stays rejected with that reason.
\<close>

theorem merged_rejection_is_final:
  assumes payload: "ev_payload (ce_body ev) = Rejected_decision i action skill reason"
    and run: "merge_decision_rejected now ev s = Inr (res, t)" and ok: "mr_disposition res = M_applied"
  shows "(\<exists>d. LOCK_DECISION_FOR_REJECTION (ce_gateway ev) i t = Some d \<and> d_status d = D_rejected \<and>
      rs_reason (d_response d) = Some reason \<and> (\<forall>now m. \<not> decision_due now m d)) \<and>
    (\<exists>u d. merge_decision_rejected now' ev t = Inr (result M_idempotent, u) \<and>
      LOCK_DECISION_FOR_REJECTION (ce_gateway ev) i u = Some d \<and> d_status d = D_rejected \<and>
      rs_reason (d_response d) = Some reason)"
proof -
  from run payload ok obtain d where d: "LOCK_DECISION_FOR_REJECTION (ce_gateway ev) i s = Some d"
    and m: "decision_rejection_identity_matches d (ce_body ev) action skill"
    by (auto simp: merge_decision_rejected_def failure_def split: option.splits if_splits)
  let ?rj = "resolve_decision_rejection (d_status d) (rs_reason (d_response d)) reason"
  have t: "t = APPLY_REJECTION now (d_id d) (rj_status ?rj) reason (rj_disposition ?rj = M_applied)
      (map_option (\<lambda>_. ''decision_rejected_event'') (rj_category ?rj), rj_category ?rj) s"
    and "rj_disposition ?rj = M_applied"
    using run payload d m ok by (auto simp: merge_decision_rejected_def Let_def)
  then have rj: "rj_status ?rj = D_rejected" "rj_disposition ?rj = M_applied"
    by (auto simp: resolve_decision_rejection_def split: if_splits)
  let ?d = "d\<lparr>d_status := D_rejected, d_response := (d_response d)\<lparr>rs_status := Some ''rejected'', rs_reason := Some reason\<rparr>,
      d_error := (map_option (\<lambda>_. ''decision_rejected_event'') (rj_category ?rj), rj_category ?rj), d_completed_at := Some now\<rparr>"
  have l: "LOCK_DECISION_FOR_REJECTION (ce_gateway ev) i t = Some ?d"
    unfolding t LOCK_REJECTION_APPLY d by (simp add: rj)
  have m': "decision_rejection_identity_matches ?d (ce_body ev) action skill"
    using m unfolding decision_rejection_identity_matches_def by (simp cong: option.case_cong)
  have rj': "resolve_decision_rejection D_rejected (Some reason) reason =
      \<lparr>rj_disposition = M_idempotent, rj_status = D_rejected, rj_reason = Some reason, rj_category = None\<rparr>"
    by (simp add: resolve_decision_rejection_def)
  let ?u = "APPLY_REJECTION now' (d_id d) D_rejected reason False (None, None) t"
  have "merge_decision_rejected now' ev t = Inr (result M_idempotent, ?u)"
    using l m' payload by (simp add: merge_decision_rejected_def rj' result_def)
  moreover have "LOCK_DECISION_FOR_REJECTION (ce_gateway ev) i ?u =
      Some (?d\<lparr>d_error := (None, None), d_completed_at := Some now'\<rparr>)"
    unfolding LOCK_REJECTION_APPLY l by simp
  ultimately show ?thesis using l by (auto simp: decision_due_def)
qed

section \<open>Closing a generation\<close>

lemma keeps_rows:
  assumes "keeps s t"
  shows "k \<in> set (calls t) \<Longrightarrow> \<exists>l \<in> set (calls s). call_le l k"
    and "d \<in> set (decisions t) \<Longrightarrow> \<exists>q \<in> set (decisions s). decision_le q d"
    and "e \<in> set (events t) \<Longrightarrow> \<exists>f \<in> set (events s). event_le f e"
  using assms db_le_rows_back[of s t] by (auto simp: keeps_def)

lemma closed_calls_stay: "call_le l k \<Longrightarrow> \<not> open_call (k_status l) \<Longrightarrow> \<not> open_call (k_status k)"
  by (auto simp: call_le_def)

lemma closed_decisions_stay: "decision_le q d \<Longrightarrow> \<not> open_decision (d_status q) \<Longrightarrow> \<not> open_decision (d_status d)"
  by (auto simp: decision_le_def)

lemma finish_stop_call_closes:
  assumes "finish_stop_call now ev reason (k, d) s = Inr t"
  shows "\<forall>l \<in> set (calls t). k_id l = k_id k \<longrightarrow> \<not> open_call (k_status l)"
proof -
  from assms obtain u st b why eff where "FINISH_STOP_CALL now (k_id k) st b ev why eff u = Inr t"
    and "\<not> open_call st"
    by (auto simp: finish_stop_call_def session_stop_skill_status_def Let_def split: sum.splits if_splits prod.splits)
  then show ?thesis
    by (auto simp: FINISH_STOP_CALL_def Let_def set_update_where split: if_splits)
qed

lemma finish_stop_calls_close:
  "finish_stop_calls now ev reason rows s = Inr t \<Longrightarrow> (k, d) \<in> set rows \<Longrightarrow> l \<in> set (calls t) \<Longrightarrow>
   k_id l = k_id k \<Longrightarrow> \<not> open_call (k_status l)"
proof (induction rows arbitrary: s)
  case (Cons row rows)
  from Cons.prems(1) obtain u where u: "finish_stop_call now ev reason row s = Inr u"
    "finish_stop_calls now ev reason rows u = Inr t" by (auto split: sum.splits)
  show ?case
  proof (cases "(k, d) \<in> set rows")
    case True
    with Cons u(2) show ?thesis by blast
  next
    case False
    with Cons.prems(2) have row: "row = (k, d)" by auto
    from keeps_rows(1)[OF keeps_finish_stop_calls[OF u(2)] Cons.prems(3)] obtain l' where
      l': "l' \<in> set (calls u)" "call_le l' l" by blast
    with finish_stop_call_closes[OF u(1)[unfolded row]] Cons.prems(4) have "\<not> open_call (k_status l')"
      by (auto simp: call_le_def)
    with closed_calls_stay[OF l'(2)] show ?thesis by blast
  qed
qed simp

lemma LOCK_OPEN_CALLS_mem:
  "(k, d) \<in> set (LOCK_OPEN_CALLS cycle s) \<longleftrightarrow> k \<in> set (calls s) \<and> open_call (k_status k) \<and>
     d \<in> set (decisions s) \<and> d_id d = k_decision k \<and> d_cycle d = cycle"
  by (auto simp: LOCK_OPEN_CALLS_def)

lemma keeps_decision_ref:
  assumes "keeps s t" and "k \<in> set (calls t)" and "d \<in> set (decisions t)" and "d_id d = k_decision k"
  obtains l q where "l \<in> set (calls s)" "call_le l k" "q \<in> set (decisions s)" "d_id q = k_decision l"
    "d_cycle q = d_cycle d"
proof -
  from keeps_rows(1,2)[OF assms(1)] assms(2,3) obtain l q where
    "l \<in> set (calls s)" "call_le l k" "q \<in> set (decisions s)" "decision_le q d" by blast
  with assms(4) show thesis by (intro that[of l q]) (auto simp: call_le_def decision_le_def)
qed

text \<open>What \<open>close_locked\<close> leaves behind when it does not raise.\<close>

lemma close_locked_outcome:
  assumes keys: "keys_ok s" and run: "close_locked now ev runtime s = Inr (res, t)"
  shows "\<forall>e \<in> set (events t). e_cycle e = ce_cycle ev \<longrightarrow> \<not> open_event (e_status e)"
    and "\<exists>c \<in> set (cycles t). c_id c = ce_cycle ev \<and> c_status c = C_stopped \<and> ce_seq ev < c_next c"
    and "\<exists>r \<in> set (sessions t). s_id r = runtime \<and> s_status r = S_stopped \<and> s_gen r = Some (ce_gen ev) \<and>
      s_fence r = ce_fence ev + 1"
proof -
  let ?P = "holds_claim (ce_row ev) (Some (ce_token ev)) (Some (ce_fence ev))"
  let ?E = "update_where ?P (close_event now E_succeeded (None, None)) (events s)"
  from run obtain c r where
    e: "\<exists>e \<in> set (events s). ?P e" "events t = update_where (\<lambda>e. e_cycle e = ce_cycle ev \<and> e_id e \<noteq> ce_row ev \<and>
       open_event (e_status e)) (\<lambda>e. retire_event now E_superseded (e_error e) e) ?E"
    and c: "c \<in> set (cycles s)" "c_id c = ce_cycle ev" "open_cycle (c_status c)"
      "cycles t = update_where (\<lambda>c. c_id c = ce_cycle ev \<and> open_cycle (c_status c))
        (\<lambda>c. c\<lparr>c_next := max (c_next c) (ce_seq ev + 1), c_status := C_stopped, c_stopped_at := Some now\<rparr>) (cycles s)"
    and r: "r \<in> set (sessions s)" "s_id r = runtime" "s_gen r = Some (ce_gen ev)" "s_fence r = ce_fence ev"
      "sessions t = update_where (\<lambda>r. s_id r = runtime \<and> s_gen r = Some (ce_gen ev) \<and> s_fence r = ce_fence ev)
         (\<lambda>r. r\<lparr>s_status := S_stopped, s_fence := s_fence r + 1\<rparr>) (sessions s)"
    by (auto simp: close_locked_def COMPLETE_STOP_EVENT_def complete_claim_def CLOSE_CYCLE_def STOP_RUNTIME_def
        SUPERSEDE_STOPPED_CYCLE_EVENTS_def split: if_splits)
  show "\<forall>e \<in> set (events t). e_cycle e = ce_cycle ev \<longrightarrow> \<not> open_event (e_status e)"
  proof (intro ballI impI)
    fix e assume mem: "e \<in> set (events t)" and "e_cycle e = ce_cycle ev"
    from mem obtain f where f: "f \<in> set ?E" "e = (if e_cycle f = ce_cycle ev \<and> e_id f \<noteq> ce_row ev \<and> open_event (e_status f)
        then retire_event now E_superseded (e_error f) f else f)"
      unfolding e(2) by (rule in_update_whereE)
    show "\<not> open_event (e_status e)"
    proof (cases "e_id f = ce_row ev")
      case False
      with f(2) \<open>e_cycle e = ce_cycle ev\<close> show ?thesis by (auto simp: retire_event_def)
    next
      case True
      from f(1) obtain g where g: "g \<in> set (events s)" "f = (if ?P g then close_event now E_succeeded (None, None) g else g)"
        by (rule in_update_whereE)
      from g(2) True have "e_id g = ce_row ev" by (auto simp: close_event_def split: if_splits)
      with e(1) g(1) have "?P g" by (auto simp: holds_claim_def dest: event_key_unique[OF keys])
      with g(2) True f(2) show ?thesis by (simp add: close_event_def)
    qed
  qed
  show "\<exists>c \<in> set (cycles t). c_id c = ce_cycle ev \<and> c_status c = C_stopped \<and> ce_seq ev < c_next c"
  proof -
    have "c\<lparr>c_next := max (c_next c) (ce_seq ev + 1), c_status := C_stopped, c_stopped_at := Some now\<rparr> \<in> set (cycles t)"
      unfolding c(4) by (rule update_where_in(1)[OF c(1)]) (use c(2,3) in auto)
    with c(2) show ?thesis by (auto elim!: rev_bexI)
  qed
  have "r\<lparr>s_status := S_stopped, s_fence := s_fence r + 1\<rparr> \<in> set (sessions t)"
    unfolding r(5) by (rule update_where_in(1)[OF r(1)]) (simp add: r(2-4))
  with r(2-4) show "\<exists>r \<in> set (sessions t). s_id r = runtime \<and> s_status r = S_stopped \<and> s_gen r = Some (ce_gen ev) \<and>
      s_fence r = ce_fence ev + 1" by (auto elim!: rev_bexI)
qed


end
