(* ===== verification/CapacityFacts.thy ===== *)
theory CapacityFacts
  imports Capacity
begin

text \<open>
  Two activities of one place are never counted under one key, and the occupancy snapshot shows for
  every activity with a limit exactly the number of reservations the planner will count.
\<close>

section \<open>Keys\<close>

lemma scope_text_skill:
  "scope_text sc scene snapshot @ a = scope_text sc' scene snapshot @ b \<Longrightarrow> a = b"
  by (cases sc; cases sc') (auto simp: scope_text_def Let_def split: option.splits)

lemma capacity_key_SomeD:
  assumes "capacity_key p g skill snapshot = Inr (Some key)"
  obtains scene r where "scene_id_from_snapshot snapshot = Inr scene" "rule_for p skill scene = Some r"
    "key = g @ scope_text (ru_scope r) scene snapshot @ skill"
  using assms by (auto simp: capacity_key_def split: sum.splits option.splits)

lemma capacity_key_skill:
  assumes "capacity_key p g a snapshot = Inr (Some key)" and "capacity_key p g b snapshot = Inr (Some key)"
  shows "a = b"
  using assms by (auto elim!: capacity_key_SomeD dest!: scope_text_skill)

definition policy_ok :: "capacity_policy \<Rightarrow> bool" where
  "policy_ok p \<longleftrightarrow> (\<forall>((skill, scene), r) \<in> set p. skill = ru_skill r \<and> scene = ru_scene r \<and> 0 < ru_limit r)"

lemma policy_rules_ok:
  "policy_rules rs acc = Inr p \<Longrightarrow> policy_ok acc \<Longrightarrow> \<forall>r \<in> set rs. 0 < ru_limit r \<Longrightarrow> policy_ok p"
  by (induction rs acc rule: policy_rules.induct) (auto simp: policy_ok_def split: if_splits)

lemma make_policy_ok:
  assumes "make_policy rs = Inr p"
  shows "policy_ok p"
proof -
  have "List.find (\<lambda>r. rule_error r \<noteq> None) rs = None" "policy_rules rs [] = Inr p"
    using assms by (auto simp: make_policy_def split: option.splits)
  moreover from this(1) have "0 < ru_limit r" if "r \<in> set rs" for r
  proof -
    from \<open>List.find _ rs = None\<close> that have "rule_error r = None" by (auto simp: find_None_iff)
    then show ?thesis by (auto simp: rule_error_def split: if_splits)
  qed
  moreover have "policy_ok []" by (simp add: policy_ok_def)
  ultimately show ?thesis using policy_rules_ok by blast
qed

lemma rule_for_ok:
  assumes "policy_ok p" and "rule_for p skill scene = Some r"
  shows "r \<in> set (map snd p)" "ru_skill r = skill" "0 < ru_limit r"
proof -
  from assms(2) obtain sc where "map_of p (skill, sc) = Some r"
    by (auto simp: rule_for_def split: option.splits)
  then have r: "((skill, sc), r) \<in> set p" by (rule map_of_SomeD)
  with assms(1) show "ru_skill r = skill" "0 < ru_limit r" by (auto simp: policy_ok_def)
  from r show "r \<in> set (map snd p)" by force
qed

section \<open>The snapshot\<close>

lemma key_to_skill_map:
  assumes "key_to_skill p g snapshot rs acc = Inr keys"
  shows "map_of keys key = Some skill \<longleftrightarrow>
    (\<exists>r \<in> set rs. ru_skill r = skill \<and> capacity_key p g skill snapshot = Inr (Some key)) \<or>
    (map_of acc key = Some skill \<and> (\<forall>r \<in> set rs. capacity_key p g (ru_skill r) snapshot \<noteq> Inr (Some key)))"
  using assms
proof (induction p g snapshot rs acc rule: key_to_skill.induct)
  case (2 p g snapshot r rs acc)
  show ?case
  proof (cases "capacity_key p g (ru_skill r) snapshot")
    case (Inr k)
    show ?thesis
    proof (cases k)
      case (Some key')
      with Inr 2 have ih: "map_of keys key = Some skill \<longleftrightarrow>
          (\<exists>r \<in> set rs. ru_skill r = skill \<and> capacity_key p g skill snapshot = Inr (Some key)) \<or>
          (map_of (AList.update key' (ru_skill r) acc) key = Some skill \<and>
           (\<forall>r \<in> set rs. capacity_key p g (ru_skill r) snapshot \<noteq> Inr (Some key)))" by simp
      show ?thesis
        unfolding ih using Inr Some by (auto simp: update_conv' dest: capacity_key_skill)
    qed (use Inr 2 in auto)
  qed (use 2 in auto)
qed simp

lemma map_of_fold_rows:
  assumes "\<And>key n. (key, n) \<in> set rows \<Longrightarrow> map_of keys key = Some skill \<Longrightarrow> n = m"
  shows "map_of (fold (\<lambda>(key, n) acc. case map_of keys key of None \<Rightarrow> acc
      | Some skill \<Rightarrow> AList.update skill n acc) rows acc) skill =
    (if \<exists>(key, n) \<in> set rows. map_of keys key = Some skill then Some m else map_of acc skill)"
  using assms
proof (induction rows rule: rev_induct)
  case (snoc row rows)
  obtain key n where row: "row = (key, n)" by (cases row)
  let ?f = "\<lambda>(key, n) acc. case map_of keys key of None \<Rightarrow> acc | Some skill \<Rightarrow> AList.update skill n acc"
  have ih: "map_of (fold ?f rows acc) skill =
      (if \<exists>(key, n) \<in> set rows. map_of keys key = Some skill then Some m else map_of acc skill)"
    by (rule snoc.IH) (use snoc.prems in auto)
  have "map_of (fold ?f (rows @ [row]) acc) skill =
      (if map_of keys key = Some skill then Some n else map_of (fold ?f rows acc) skill)"
    by (auto simp: row update_conv' split: option.splits)
  with ih snoc.prems[of key n] show ?case by (auto simp: row)
qed simp

text \<open>
  The planner's view of free places is the one the reservation will be judged by.  The occupancy
  snapshot of a valid policy gives, for every activity that is counted in the place of the
  snapshot, the number of its active reservations; so an activity is shown as available exactly when
  one more reservation stays within its limit.
\<close>

theorem snapshot_agrees_with_reservations:
  assumes policy: "make_policy rules = Inr p"
    and snap: "capacity_snapshot p now g snapshot s = Inr sn"
    and key: "capacity_key p g skill snapshot = Inr (Some key)"
  shows "active_count sn skill = COUNT_ACTIVE_CAPACITY_RESERVATIONS now key s \<and>
    (\<exists>limit. limit_for p skill (sn_scene sn) = Some limit \<and>
       (activity_available sn skill \<longleftrightarrow> int (COUNT_ACTIVE_CAPACITY_RESERVATIONS now key s) + 1 \<le> limit))"
proof -
  let ?n = "COUNT_ACTIVE_CAPACITY_RESERVATIONS now key s"
  from snap obtain keys scene where keys: "key_to_skill p g snapshot (map snd p) [] = Inr keys"
    and scene: "scene_id_from_snapshot snapshot = Inr scene"
    and sn: "sn_scene sn = scene" "sn_policy sn = p"
      "sn_active sn = fold (\<lambda>(key, n) acc. case map_of keys key of
          None \<Rightarrow> acc | Some skill \<Rightarrow> AList.update skill n acc) (SELECT_ACTIVE_CAPACITY now (map fst keys) s) []"
    by (auto simp: capacity_snapshot_def split: sum.splits)
  from key scene obtain r where r: "rule_for p skill scene = Some r"
    by (auto elim!: capacity_key_SomeD)
  note ok = rule_for_ok[OF make_policy_ok[OF policy] r]
  have km: "map_of keys k = Some skill \<longleftrightarrow> k = key" for k
    unfolding key_to_skill_map[OF keys] using ok(1,2) key by auto
  have rows: "(k, n) \<in> set (SELECT_ACTIVE_CAPACITY now (map fst keys) s) \<and> map_of keys k = Some skill \<longleftrightarrow>
      k = key \<and> n = ?n \<and> 0 < ?n" for k n
  proof -
    have "key \<in> fst ` set keys" using km[of key] by (simp add: dom_map_of_conv_image_fst[symmetric] domI)
    then show ?thesis by (auto simp: SELECT_ACTIVE_CAPACITY_def km)
  qed
  have "(\<exists>(k, n) \<in> set (SELECT_ACTIVE_CAPACITY now (map fst keys) s). map_of keys k = Some skill) \<longleftrightarrow> 0 < ?n"
    using rows by blast
  then have "map_of (sn_active sn) skill = (if 0 < ?n then Some ?n else None)"
    unfolding sn(3) by (subst map_of_fold_rows[of _ keys skill ?n]) (use rows in auto)
  then have "active_count sn skill = ?n" by (auto simp: active_count_def)
  moreover from r have "limit_for p skill (sn_scene sn) = Some (ru_limit r)"
    by (simp add: limit_for_def sn(1))
  ultimately show ?thesis
    by (auto simp: activity_available_def remaining_capacity_def sn)
qed

text \<open>
  A scene id that starts with two dashes is not refused but raises.  The digits after all
  leading dashes pass the test of \<open>scene_id_from_snapshot\<close>, and \<open>int()\<close> refuses the text: no
  capacity key and no snapshot can be computed for such a session.
\<close>

theorem double_dash_scene_raises:
  "\<exists>message. scene_id_from_snapshot (JObj [(''SceneId'', JStr ''--5'')]) = Inl (Value_Error message) \<and>
     capacity_key p g skill (JObj [(''SceneId'', JStr ''--5'')]) = Inl (Value_Error message)"
proof -
  have "scene_id_from_snapshot (JObj [(''SceneId'', JStr ''--5'')]) =
      Inl (Value_Error ''invalid literal for int() with base 10'')"
    by code_simp
  then show ?thesis by (simp add: capacity_key_def)
qed

end
