(* ===== verification/PlanningFacts.thy ===== *)
theory PlanningFacts
  imports OutboxSafety CapacityFacts
begin

text \<open>
  What planning a decision guarantees: one decision per source event, replay without effect, the
  capacity limit, and what a refused plan leaves behind.
\<close>

section \<open>Successful plans\<close>

lemma all_checks_Inl: "all_checks xs = Inl er \<Longrightarrow> Inl er \<in> set xs"
  by (induction xs rule: all_checks.induct) auto

lemma plan_fence_raises: "plan_fence_matches row ev ctx = Inl er \<Longrightarrow> er = Type_Error"
  by (cases row)
     (auto simp: plan_fence_matches_def int_is_def split: option.splits dest!: all_checks_Inl)

lemma plan_transaction_stored_raises:
  assumes "plan_transaction now cfg freeze i ev ctx action binding s = Inl er"
    and "SELECT_DECISION_BY_SOURCE (ce_row ev) s \<noteq> None"
  shows "er \<noteq> Plan_raised Integrity_Error"
  using assms
  by (auto simp: plan_transaction_def planned_from_row_def
      split: option.splits sum.splits bool.splits if_splits dest: plan_fence_raises)

lemma plan_decision_InrD:
  assumes "plan_decision now cfg freeze i ev ctx action binding s = (Inr p, t)"
  shows "plan_transaction now cfg freeze i ev ctx action binding s = Inr (Inr p, t)"
proof (cases "plan_transaction now cfg freeze i ev ctx action binding s")
  case (Inr x)
  with assms show ?thesis by (simp add: plan_decision_def split: prod.splits)
next
  case (Inl er)
  then have "er = Plan_raised Integrity_Error" "SELECT_DECISION_BY_SOURCE (ce_row ev) s \<noteq> None"
    using assms
    by (auto simp: plan_decision_def find_by_source_event_def
        split: plan_error.splits db_error.splits sum.splits option.splits)
  with plan_transaction_stored_raises[OF Inl] show ?thesis by simp
qed

lemma track_action_same:
  assumes "track_action ev action s = (tr, t)"
  shows "decisions t = decisions s" "events t = events s" "cycles t = cycles s" "sessions t = sessions s"
    "calls t = calls s"
  using assms
  by (auto simp: track_action_def INSERT_ACTION_TRACKING_def draw_uuid_def Let_def split: option.splits)

lemma event_join_same:
  assumes "events t = events s" and "cycles t = cycles s" and "sessions t = sessions s"
  shows "event_join t = event_join s"
  unfolding event_join_def assms ..

text \<open>The database and the row after a plan that was created.\<close>

lemma created_plan:
  assumes "plan_decision now cfg freeze i ev ctx action binding s = (Inr p, t)" and "pd_created p"
  obtains d frozen capacity deadline row where
    "reserve_capacity now cfg ev ctx action s = Inr capacity" "freeze i (ce_trace ev) ctx action = Inr frozen"
    "d = planned_row now cfg (pd_row p) ev ctx action binding i frozen (pd_tracking p) deadline capacity"
    "decisions t = decisions s @ [d]" "\<forall>q \<in> set (decisions s). \<not> decision_conflicts d q"
    "events t = events s" "cycles t = cycles s" "sessions t = sessions s" "calls t = calls s"
    "LOCK_PLAN_SOURCE (ce_row ev) s = Some row" "plan_fence_matches row ev ctx = Inr True"
    "SELECT_DECISION_BY_SOURCE (ce_row ev) s = None"
    "p = \<lparr>pd_row = d_id d, pd_decision_id = i, pd_lease = ctx_lease ctx, pd_action = aa_action action,
       pd_body = fz_body frozen, pd_bytes = fz_bytes frozen, pd_hash = fz_hash frozen,
       pd_tracking = d_tracking d, pd_created = True\<rparr>"
  using plan_decision_InrD[OF assms(1)]
proof (cases rule: plan_transaction_cases)
  case (created frozen capacity row)
  show thesis
    using created(1)
  proof (cases rule: insert_plan_cases)
    case (1 tr s1 rw s2 deadline d)
    note same = track_action_same[OF 1(1)]
    have "decisions s2 = decisions s1" "events s2 = events s1" "cycles s2 = cycles s1"
      "sessions s2 = sessions s1" "calls s2 = calls s1"
      using 1(2) by (auto simp: draw_uuid_def)
    with 1 same created show thesis
      by (intro that[of capacity frozen d deadline row]) (auto simp: planned_row_def)
  qed
qed (use assms(2) in \<open>auto simp: planned_from_row_def split: if_splits\<close>)

lemma planned_row_simps [simp]:
  "d_id (planned_row now cfg row ev ctx action binding i frozen tr deadline capacity) = row"
  "d_source (planned_row now cfg row ev ctx action binding i frozen tr deadline capacity) = ce_row ev"
  "d_status (planned_row now cfg row ev ctx action binding i frozen tr deadline capacity) = D_planned"
  "d_body (planned_row now cfg row ev ctx action binding i frozen tr deadline capacity) = fz_body frozen"
  "source_decision_matches (planned_row now cfg row ev ctx action binding i frozen tr deadline capacity) ev ctx"
  by (simp_all add: planned_row_def source_decision_matches_def)

lemma planned_from_planned_row:
  assumes "json_is_object (fz_body frozen)"
  shows "planned_from_row (planned_row now cfg row ev ctx action binding i frozen tr deadline capacity) False =
    Inr \<lparr>pd_row = row, pd_decision_id = i, pd_lease = ctx_lease ctx, pd_action = aa_action action,
       pd_body = fz_body frozen, pd_bytes = fz_bytes frozen, pd_hash = fz_hash frozen,
       pd_tracking = tr, pd_created = False\<rparr>"
  using assms by (simp add: planned_from_row_def planned_row_def)

lemma plan_stored:
  assumes "LOCK_PLAN_SOURCE (ce_row ev) s = Some row" and "plan_fence_matches row ev ctx = Inr True"
    and "SELECT_DECISION_BY_SOURCE (ce_row ev) s = Some d" and "source_decision_matches d ev ctx"
    and "planned_from_row d False = Inr p"
  shows "plan_decision now cfg freeze i ev ctx action binding s = (Inr p, s)"
  using assms by (simp add: plan_decision_def plan_transaction_def)

text \<open>
  C36: planning is idempotent.  When planning for a claimed event succeeds, its event has a decision
  with the event's gateway, cycle and generation and the context's lease and state version; planning
  for the same event and context again, at any time and with whatever action, answers that same
  decision as not created and leaves the database as it is.  The frozen body is assumed to be a JSON
  object, as every contract model dumps to one.
\<close>

theorem planning_is_idempotent:
  assumes body: "\<forall>j tr c a f. freeze j tr c a = Inr f \<longrightarrow> json_is_object (fz_body f)"
    and plan: "plan_decision now cfg freeze i ev ctx action binding s = (Inr p, t)"
  shows "(\<exists>d \<in> set (decisions t). d_id d = pd_row p \<and> d_source d = ce_row ev \<and> source_decision_matches d ev ctx) \<and>
    plan_decision now' cfg' freeze' j ev ctx action' binding' t = (Inr (p\<lparr>pd_created := False\<rparr>), t)"
proof (cases "pd_created p")
  case True
  from plan True show ?thesis
  proof (rule created_plan)
    fix d frozen capacity deadline row
    assume frozen: "freeze i (ce_trace ev) ctx action = Inr frozen"
      and d: "d = planned_row now cfg (pd_row p) ev ctx action binding i frozen (pd_tracking p) deadline capacity"
      and t: "decisions t = decisions s @ [d]" "events t = events s" "cycles t = cycles s" "sessions t = sessions s"
      and row: "LOCK_PLAN_SOURCE (ce_row ev) s = Some row" "plan_fence_matches row ev ctx = Inr True"
      and none: "SELECT_DECISION_BY_SOURCE (ce_row ev) s = None"
      and p: "p = \<lparr>pd_row = d_id d, pd_decision_id = i, pd_lease = ctx_lease ctx, pd_action = aa_action action,
         pd_body = fz_body frozen, pd_bytes = fz_bytes frozen, pd_hash = fz_hash frozen,
         pd_tracking = d_tracking d, pd_created = True\<rparr>"
    have src: "d_source d = ce_row ev" "d_id d = pd_row p" "source_decision_matches d ev ctx" by (simp_all add: d)
    have "LOCK_PLAN_SOURCE (ce_row ev) t = Some row"
      using row(1) by (simp add: LOCK_PLAN_SOURCE_def event_join_same[OF t(2-4)])
    moreover have "SELECT_DECISION_BY_SOURCE (ce_row ev) t = Some d"
      unfolding SELECT_DECISION_BY_SOURCE_def
    proof (rule find_unique)
      show "q = d" if "q \<in> set (decisions t)" "d_source q = ce_row ev" for q
        using none that find_NoneD[of _ "decisions s" q] by (auto simp: SELECT_DECISION_BY_SOURCE_def t(1))
    qed (simp_all add: t(1) src(1))
    moreover have "planned_from_row d False = Inr (p\<lparr>pd_created := False\<rparr>)"
    proof -
      have "pd_decision_id p = i" "pd_lease p = ctx_lease ctx" "pd_action p = aa_action action"
        "pd_body p = fz_body frozen" "pd_bytes p = fz_bytes frozen" "pd_hash p = fz_hash frozen"
        by (subst p, simp)+
      moreover have "json_is_object (fz_body frozen)" using body frozen by blast
      ultimately show ?thesis unfolding d by (simp add: planned_from_planned_row)
    qed
    ultimately have "plan_decision now' cfg' freeze' j ev ctx action' binding' t = (Inr (p\<lparr>pd_created := False\<rparr>), t)"
      using plan_stored row(2) src(3) by blast
    with src t(1) show ?thesis by auto
  qed
next
  case False
  from plan_decision_InrD[OF plan] show ?thesis
  proof (cases rule: plan_transaction_cases)
    case (stored d q)
    obtain row where row: "LOCK_PLAN_SOURCE (ce_row ev) s = Some row" "plan_fence_matches row ev ctx = Inr True"
      using plan_decision_InrD[OF plan] by (auto simp: plan_transaction_def split: option.splits sum.splits bool.splits)
    have "p\<lparr>pd_created := False\<rparr> = p" using False by (cases p) simp
    moreover have "planned_from_row d False = Inr p" "d \<in> set (decisions s)" "d_source d = ce_row ev"
      using stored by (auto simp: SELECT_DECISION_BY_SOURCE_def dest: find_SomeD)
    moreover from this(1) have "d_id d = pd_row p" by (auto simp: planned_from_row_def split: if_splits)
    ultimately show ?thesis
      using plan_stored[OF row stored(1,5)] stored(4,5) by auto
  next
    case (created frozen capacity row)
    with False show ?thesis by (auto elim!: insert_plan_cases)
  qed simp_all
qed

section \<open>Capacity\<close>

lemma COUNT_ACTIVE_append:
  assumes "decisions t = decisions s @ [d]" and "calls t = calls s"
  shows "COUNT_ACTIVE_CAPACITY_RESERVATIONS now key t =
    COUNT_ACTIVE_CAPACITY_RESERVATIONS now key s + (if reserves now key t d then 1 else 0)"
proof -
  have "reserves now key t = reserves now key s" by (simp add: fun_eq_iff reserves_def assms(2))
  with assms(1) show ?thesis by (simp add: COUNT_ACTIVE_CAPACITY_RESERVATIONS_def table_simps)
qed

lemma plan_full:
  assumes "plan_decision now cfg freeze i ev ctx action binding s = (Inl (Plan_capacity_full skill key limit), t)"
  shows "t = s \<and> reserve_capacity now cfg ev ctx action s = Inl (Plan_capacity_full skill key limit)"
proof (cases rule: plan_decision_cases[of now cfg freeze i ev ctx action binding s])
  case committed
  from committed[unfolded assms] show ?thesis
    by (cases rule: plan_transaction_cases) (auto elim!: insert_plan_cases)
next
  case rolled_back
  with assms show ?thesis
    by (auto simp: plan_decision_def plan_transaction_def plan_new_def insert_plan_def Let_def
        find_by_source_event_def planned_from_row_def
        split: sum.splits option.splits bool.splits if_splits prod.splits plan_error.splits db_error.splits)
qed

text \<open>
  C37: the limit of an activity holds.  A plan that is created for a skill counted under a capacity key
  reserves that key with the limit of its rule, and right after it the active reservations of the
  key, the new one included, are within the limit.  Conversely a plan is refused as full only if
  that many reservations are active, and then nothing is written.
\<close>

theorem planning_respects_capacity:
  assumes key: "capacity_key (oc_policy cfg) (ce_gateway ev) (aa_skill action) (ctx_snapshot ctx) = Inr (Some key)"
    and act: "aa_action action = A_call_skill"
  shows "(plan_decision now cfg freeze i ev ctx action binding s = (Inr p, t) \<and> pd_created p \<longrightarrow>
      (\<exists>d \<in> set (decisions t). \<exists>c scene. d_id d = pd_row p \<and> d_capacity d = Some c \<and> cr_key c = key \<and>
         scene_id_from_snapshot (ctx_snapshot ctx) = Inr scene \<and>
         limit_for (oc_policy cfg) (aa_skill action) scene = Some (cr_limit c) \<and>
         int (COUNT_ACTIVE_CAPACITY_RESERVATIONS now key t) \<le> cr_limit c)) \<and>
    (plan_decision now cfg freeze i ev ctx action binding s = (Inl (Plan_capacity_full skill full limit), t) \<longrightarrow>
      t = s \<and> full = key \<and> limit \<le> int (COUNT_ACTIVE_CAPACITY_RESERVATIONS now key s))"
proof -
  from key obtain scene r where r: "scene_id_from_snapshot (ctx_snapshot ctx) = Inr scene"
    "rule_for (oc_policy cfg) (aa_skill action) scene = Some r" by (rule capacity_key_SomeD)
  then have par: "capacity_parameters (oc_policy cfg) (ce_gateway ev) (aa_skill action) (ctx_snapshot ctx) =
      Inr (Some key, Some (ru_limit r))"
    using key by (simp add: capacity_parameters_def limit_for_def)
  have "\<exists>d \<in> set (decisions t). \<exists>c scene. d_id d = pd_row p \<and> d_capacity d = Some c \<and> cr_key c = key \<and>
      scene_id_from_snapshot (ctx_snapshot ctx) = Inr scene \<and>
      limit_for (oc_policy cfg) (aa_skill action) scene = Some (cr_limit c) \<and>
      int (COUNT_ACTIVE_CAPACITY_RESERVATIONS now key t) \<le> cr_limit c"
    if "plan_decision now cfg freeze i ev ctx action binding s = (Inr p, t)" "pd_created p"
    using that
  proof (rule created_plan)
    fix d frozen capacity deadline row
    assume cap: "reserve_capacity now cfg ev ctx action s = Inr capacity"
      and d: "d = planned_row now cfg (pd_row p) ev ctx action binding i frozen (pd_tracking p) deadline capacity"
      and t: "decisions t = decisions s @ [d]" "calls t = calls s"
    from cap have c: "capacity = Some (key, ru_limit r)"
      "int (COUNT_ACTIVE_CAPACITY_RESERVATIONS now key s) < ru_limit r"
      by (auto simp: reserve_capacity_def act par split: if_splits)
    then have "int (COUNT_ACTIVE_CAPACITY_RESERVATIONS now key t) \<le> ru_limit r"
      by (simp add: COUNT_ACTIVE_append[OF t])
    then show ?thesis using c(1) t(1) r by (auto simp: d planned_row_def limit_for_def)
  qed
  moreover have "t = s \<and> full = key \<and> limit \<le> int (COUNT_ACTIVE_CAPACITY_RESERVATIONS now key s)"
    if "plan_decision now cfg freeze i ev ctx action binding s = (Inl (Plan_capacity_full skill full limit), t)"
    using plan_full[OF that] by (auto simp: reserve_capacity_def act par split: if_splits)
  ultimately show ?thesis by blast
qed

section \<open>Refused plans\<close>

text \<open>
  A plan that is refused leaves no trace, apart from three conflicts.  If planning raises, the
  database is unchanged, unless the source event or the drawn decision id already names another
  decision: then exactly that decision is set aside for manual review.
\<close>

theorem refused_plan_leaves_no_trace:
  assumes "plan_decision now cfg freeze i ev ctx action binding s = (Inl er, t)"
  shows "t = s \<or> (\<exists>d \<in> set (decisions s). \<exists>category. er = Plan_conflict category \<and>
    t = MARK_PLAN_MANUAL now (d_id d) category s \<and>
    (d_source d = ce_row ev \<and> \<not> source_decision_matches d ev ctx \<or>
     d_gateway d = ce_gateway ev \<and> d_decision_id d = i))"
proof (cases rule: plan_decision_cases[of now cfg freeze i ev ctx action binding s])
  case committed
  from committed[unfolded assms] show ?thesis
    by (cases rule: plan_transaction_cases) (auto elim!: insert_plan_cases)
qed (use assms in simp)

end
