(* ===== verification/InboxLoops.thy ===== *)
theory InboxLoops
  imports InboxFacts
begin

text \<open>
  The loops of the inbox repository: \<open>claim_next_event\<close> runs transactions until one hands out a
  claim, \<open>discard_stale_events\<close> and \<open>sweep_expired_claims\<close> repeat a locking query inside one
  transaction.  Every pass closes an open event, so the number of open events is the measure of
  each loop and all three are total functions.  The passes of the claim loop are separate
  transactions: \<open>envs i\<close> gives the locks and the clock its pass \<open>i\<close> sees.
\<close>

definition open_events :: "db \<Rightarrow> nat" where
  "open_events s = count_where (\<lambda>e. open_event (e_status e)) (events s)"

lemma open_events_close:
  assumes "e \<in> set (events s)" and "open_event (e_status e)" and "e_id e = row"
    and "\<And>x. \<not> open_event (e_status (f x))"
  shows "open_events (s\<lparr>events := update_where (\<lambda>x. e_id x = row) f (events s)\<rparr>) < open_events s"
  unfolding open_events_def
  by simp (rule count_where_update_less, use assms in auto)

lemma open_events_events: "events t = events s \<Longrightarrow> open_events t = open_events s"
  by (simp add: open_events_def)

lemma events_supersede_locked:
  "events (supersede_locked_event now e s) =
     update_where (\<lambda>x. e_id x = e_id e) (close_event now E_superseded (None, None)) (events s)"
  by (simp add: supersede_locked_event_def ADVANCE_STALE_CYCLE_def SUPERSEDE_EVENT_def)

lemma events_skip_completed [simp]: "events (skip_completed_convergence_events e c s) = events s"
  by (simp add: skip_completed_convergence_events_def SKIP_COMPLETED_CONVERGENCE_EVENTS_def)

lemma events_enter_generation [simp]: "events (snd (enter_generation now d e c r s)) = events s"
  by (simp add: enter_generation_def ACTIVATE_CYCLE_def CANCEL_SUPERSEDED_DECISIONS_def
      SUPERSEDE_OLD_CYCLES_def ACTIVATE_GENERATION_def MARK_RUNTIME_ACTIVE_def)

lemma open_events_supersede_locked:
  assumes "e \<in> set (events s)" and "open_event (e_status e)"
  shows "open_events (supersede_locked_event now e s) < open_events s"
proof -
  have "open_events (supersede_locked_event now e s) =
    open_events (s\<lparr>events := update_where (\<lambda>x. e_id x = e_id e) (close_event now E_superseded (None, None))
      (events s)\<rparr>)"
    by (rule open_events_events) (simp add: events_supersede_locked)
  also have "\<dots> < open_events s"
    using assms by (intro open_events_close) (simp_all add: close_event_def)
  finally show ?thesis .
qed

section \<open>The claim loop\<close>

lemma claim_candidate_again:
  assumes "claim_candidate now w ttl m (e, c, r) s = (Claim_again, t)"
    and "e \<in> set (events s)" and "due now m e"
  shows "open_events t < open_events s"
proof -
  have o: "open_event (e_status e)" using assms(3) by (rule due_open)
  consider "event_disposition e r = Stale" | "event_disposition e r = Wait"
    | "event_disposition e r \<notin> {Stale, Wait}" by blast
  then show ?thesis
  proof cases
    case 1
    with assms(1) have "t = supersede_locked_event now e s"
      by (simp add: claim_candidate_def hosted_chat_cycle_is_processable_def)
    with assms(2) o show ?thesis by (simp add: open_events_supersede_locked)
  next
    case 2
    with assms(1) have t: "t = MARK_CYCLE_MANUAL (e_cycle e) (MARK_UNCLAIMED_EVENT_MANUAL now (e_id e) s)"
      by (simp add: claim_candidate_def hosted_chat_cycle_is_processable_def)
    have "open_events t = open_events (MARK_UNCLAIMED_EVENT_MANUAL now (e_id e) s)"
      by (rule open_events_events) (simp add: t MARK_CYCLE_MANUAL_def)
    also have "\<dots> < open_events s"
      unfolding MARK_UNCLAIMED_EVENT_MANUAL_def using assms(2) o
      by (intro open_events_close) (simp_all add: close_event_def)
    finally show ?thesis .
  next
    case 3
    obtain fence s1 where g: "enter_generation now (event_disposition e r) e c r s = (fence, s1)"
      by fastforce
    have "events s1 = events s"
      using events_enter_generation[of now "event_disposition e r" e c r s] g by simp
    then have "find (\<lambda>x. e_id x = e_id e \<and> due now m x) (events (snd (draw_uuid s1))) \<noteq> None"
      using assms(2,3) by (auto simp: find_None_iff draw_uuid_def)
    with assms(1) 3 g show ?thesis
      by (auto simp: claim_candidate_def hosted_chat_cycle_is_processable_def CLAIM_EVENT_def
          split: prod.splits option.splits)
  qed
qed

lemma claim_step_cases:
  obtains "claim_step locks now w ttl m s = (Nothing_to_claim, s)"
  | e c r cy where "(e, c, r) \<in> set (event_join s)" "due now m e" "runnable e c" "e_cycle e = cy"
      "\<not> lv_busy locks cy"
      "claim_step locks now w ttl m s = claim_candidate now w ttl m (e, c, r) s"
proof (cases "find (\<lambda>i. \<not> lv_busy locks i) (SELECT_CLAIM_CYCLE now m s)")
  case None
  then show ?thesis using that(1) by (simp add: claim_step_def)
next
  case (Some cy)
  show ?thesis
  proof (cases "LOCK_CLAIM_CANDIDATE now m (lv_locked locks) cy s")
    case None
    with Some show ?thesis using that(1) by (simp add: claim_step_def)
  next
    case (Some row)
    obtain e c r where row: "row = (e, c, r)" by (cases row)
    have nb: "\<not> lv_busy locks cy"
      using find_SomeD[OF \<open>find _ _ = Some cy\<close>] by simp
    note d = LOCK_CLAIM_CANDIDATE_SomeD[OF Some[unfolded row]]
    show ?thesis
    proof (rule that(2)[of e c r cy])
      show "claim_step locks now w ttl m s = claim_candidate now w ttl m (e, c, r) s"
        using \<open>find _ _ = Some cy\<close> Some row by (simp add: claim_step_def)
    qed (fact d(1) d(4) d(3) d(2) nb)+
  qed
qed

lemma claim_step_again:
  assumes "claim_step locks now w ttl m s = (Claim_again, t)"
  shows "open_events t < open_events s"
proof (cases rule: claim_step_cases[of locks now w ttl m s])
  case (2 e c r)
  with assms show ?thesis
    by (intro claim_candidate_again[of now w ttl m e c r s t]) (simp_all add: in_event_join)
qed (use assms in simp)

function claim_loop ::
  "(nat \<Rightarrow> lock_view \<times> msec) \<Rightarrow> nat \<Rightarrow> string \<Rightarrow> int \<Rightarrow> int \<Rightarrow> db \<Rightarrow> claimed_event option \<times> db" where
  "claim_loop envs i worker ttl max_attempts s =
     (case claim_step (fst (envs i)) (snd (envs i)) worker ttl max_attempts s of
        (Nothing_to_claim, s) \<Rightarrow> (None, s)
      | (Claimed ev, s) \<Rightarrow> (Some ev, s)
      | (Claim_again, t) \<Rightarrow> claim_loop envs (Suc i) worker ttl max_attempts t)"
  by pat_completeness auto

termination
  by (relation "measure (\<lambda>(envs, i, w, ttl, m, s). open_events s)") (auto dest: claim_step_again[OF sym])

declare claim_loop.simps [simp del]

section \<open>The discard loop\<close>

lemma events_CANCEL_STALE [simp]:
  "events (CANCEL_STALE_DECISIONS now row s) = events s"
  "events (CANCEL_STALE_SKILL_CALLS now row s) = events s"
  "events (BUMP_SESSION_FENCE i fence s) = events s"
  by (simp_all add: CANCEL_STALE_DECISIONS_def CANCEL_STALE_SKILL_CALLS_def BUMP_SESSION_FENCE_def)

lemma events_discard_row:
  "events (snd (discard_row now (e, c, r) (n, s))) = events (snd (MARK_STALE_EVENT now (e_id e) s))"
  by (simp add: discard_row_def Let_def split: prod.splits bool.splits)

lemma open_events_discard_row_le: "open_events (snd (discard_row now row acc)) \<le> open_events (snd acc)"
proof -
  obtain e c r n s where [simp]: "row = (e, c, r)" "acc = (n, s)" by (cases row; cases acc)
  show ?thesis
    unfolding open_events_def by (simp add: events_discard_row MARK_STALE_EVENT_def)
       (rule count_where_update_le, simp add: retire_event_def)
qed

lemma open_events_discard_row_less:
  assumes "e \<in> set (events s)" and "open_event (e_status e)"
  shows "open_events (snd (discard_row now (e, c, r) (n, s))) < open_events s"
  unfolding open_events_def events_discard_row MARK_STALE_EVENT_def
  by simp (rule count_where_update_less, use assms in \<open>auto simp: retire_event_def\<close>)

lemma open_events_discard_rows_le: "open_events (snd (discard_rows now rows acc)) \<le> open_events (snd acc)"
proof (induction rows arbitrary: acc)
  case (Cons row rows)
  show ?case
    using order_trans[OF Cons open_events_discard_row_le] by (simp add: discard_rows_def)
qed (simp add: discard_rows_def)

lemma SELECT_STALE_EVENTS_D:
  assumes "(e, c, r) \<in> set (SELECT_STALE_EVENTS now age locked s)"
  shows "(e, c, r) \<in> set (event_join s)" "open_event (e_status e)" "age < now - ev_occurred_at (e_body e)"
  using in_set_takeD[OF assms[unfolded SELECT_STALE_EVENTS_def]] by auto

lemma discard_pass_less:
  assumes "rows = SELECT_STALE_EVENTS now age locked s" and "rows \<noteq> []"
  shows "open_events (snd (discard_rows now rows (n, s))) < open_events s"
proof -
  obtain e c r rest where rows: "rows = (e, c, r) # rest"
    using assms(2) by (metis list.exhaust prod_cases3)
  then have "(e, c, r) \<in> set (SELECT_STALE_EVENTS now age locked s)" using assms(1) by simp
  note d = SELECT_STALE_EVENTS_D[OF this]
  have "open_events (snd (discard_rows now rows (n, s))) \<le>
      open_events (snd (discard_row now (e, c, r) (n, s)))"
    using open_events_discard_rows_le[of now rest] by (simp add: rows discard_rows_def)
  also have "\<dots> < open_events s"
    using d by (intro open_events_discard_row_less) (simp_all add: in_event_join)
  finally show ?thesis .
qed

function discard_loop :: "(uuid \<Rightarrow> bool) \<Rightarrow> msec \<Rightarrow> int \<Rightarrow> nat \<times> db \<Rightarrow> nat \<times> db" where
  "discard_loop locked now max_age acc =
     (let rows = SELECT_STALE_EVENTS now max_age locked (snd acc) in
      if rows = [] then acc
      else discard_loop locked now max_age (discard_rows now rows acc))"
  by pat_completeness auto

termination
proof (relation "measure (\<lambda>(locked, now, age, acc). open_events (snd acc))", simp)
  fix locked now age and acc :: "nat \<times> db" and rows
  assume "rows = SELECT_STALE_EVENTS now age locked (snd acc)" "rows \<noteq> []"
  from discard_pass_less[OF this, of "fst acc"]
  show "((locked, now, age, discard_rows now rows acc), locked, now, age, acc) \<in>
      measure (\<lambda>(locked, now, age, acc). open_events (snd acc))"
    by simp
qed

declare discard_loop.simps [simp del]

text \<open>
  \<open>configured\<close> is the repository's \<open>event_stale_after_seconds\<close>, \<open>override\<close> the argument
  \<open>max_age_seconds\<close>; both are in milliseconds here.
\<close>

definition discard_stale_events ::
  "(uuid \<Rightarrow> bool) \<Rightarrow> msec \<Rightarrow> int option \<Rightarrow> int option \<Rightarrow> db \<Rightarrow> db_error + nat \<times> db" where
  "discard_stale_events locked now configured override s =
     (case (if override = None then configured else override) of
        None \<Rightarrow> Inr (0, s)
      | Some threshold \<Rightarrow>
          if threshold \<le> 0 then Inl (Value_Error ''max_age_seconds must be positive'')
          else Inr (discard_loop locked now threshold (0, s)))"

definition claim_next_event ::
  "int option \<Rightarrow> (nat \<Rightarrow> lock_view \<times> msec) \<Rightarrow> string \<Rightarrow> int \<Rightarrow> int \<Rightarrow> db \<Rightarrow>
   db_error + claimed_event option \<times> db" where
  "claim_next_event stale_after envs worker ttl max_attempts s =
     (if is_blank worker then Inl (Value_Error ''worker_id must not be empty'')
      else if ttl \<le> 0 then Inl (Value_Error ''claim_ttl_ms must be positive'')
      else if max_attempts \<le> 0 then Inl (Value_Error ''max_attempts must be positive'')
      else case (if stale_after = None then Inr (0, s)
                 else discard_stale_events (lv_locked (fst (envs 0))) (snd (envs 0)) stale_after None s) of
          Inl er \<Rightarrow> Inl er
        | Inr (_, s) \<Rightarrow> Inr (claim_loop envs 1 worker ttl max_attempts s))"

section \<open>The sweep loop\<close>

lemma sweep_step_less:
  assumes "sweep_step locked now m n s = Some (Inr (n', t))"
  shows "open_events t < open_events s"
proof -
  from assms obtain e c r where l: "LOCK_EXHAUSTED_CLAIM now m locked s = Some (e, c, r)"
    by (auto simp: sweep_step_def split: option.splits)
  note d = LOCK_EXHAUSTED_CLAIM_SomeD[OF l]
  have e: "e \<in> set (events s)" "open_event (e_status e)" using d(1,2) by (auto simp: in_event_join)
  show ?thesis
  proof (cases "claim_is_valid e r (e_type e) (cl_fence (e_claim e))")
    case False
    with assms l have "t = supersede_locked_event now e s"
      by (auto simp: sweep_step_def hosted_chat_cycle_is_processable_def)
    with e show ?thesis by (simp add: open_events_supersede_locked)
  next
    case True
    let ?P = "holds_claim (e_id e) (cl_token (e_claim e)) (cl_fence (e_claim e))"
    from assms l True obtain u where
      u: "COMPLETE_DEAD_LETTER now (e_id e) (cl_token (e_claim e)) (cl_fence (e_claim e))
        (Some ''worker'', Some ''claim_expired'') s = (True, u)"
      and t: "t = skip_completed_convergence_events e c u"
      by (auto simp: sweep_step_def hosted_chat_cycle_is_processable_def split: prod.splits bool.splits)
    have ev: "events t = update_where ?P (close_event now E_dead_letter
        (Some ''worker'', Some ''claim_expired'')) (events s)"
      and hit: "\<exists>x \<in> set (events s). ?P x"
      using u by (auto simp: t COMPLETE_DEAD_LETTER_def complete_claim_def)
    show ?thesis
      unfolding open_events_def ev
      by (rule count_where_update_less) (use hit in \<open>auto simp: holds_claim_def close_event_def\<close>)
  qed
qed

function sweep_loop ::
  "(uuid \<Rightarrow> bool) \<Rightarrow> msec \<Rightarrow> int \<Rightarrow> nat \<Rightarrow> db \<Rightarrow> db_error + nat \<times> db" where
  "sweep_loop locked now max_attempts n s =
     (case sweep_step locked now max_attempts n s of
        None \<Rightarrow> Inr (n, s)
      | Some (Inl er) \<Rightarrow> Inl er
      | Some (Inr (n', t)) \<Rightarrow> sweep_loop locked now max_attempts n' t)"
  by pat_completeness auto

termination
  by (relation "measure (\<lambda>(locked, now, m, n, s). open_events s)") (auto dest: sweep_step_less)

declare sweep_loop.simps [simp del]

definition sweep_expired_claims ::
  "(uuid \<Rightarrow> bool) \<Rightarrow> msec \<Rightarrow> int \<Rightarrow> db \<Rightarrow> db_error + nat \<times> db" where
  "sweep_expired_claims locked now max_attempts s =
     (if max_attempts \<le> 0 then Inl (Value_Error ''max_attempts must be positive'')
      else sweep_loop locked now max_attempts 0 (CLEANUP_CLOSED_CYCLE_EVENTS now s))"

end
