(* ===== verification/InboxSafety.thy ===== *)
theory InboxSafety
  imports InboxLoops
begin

text \<open>
  What the transactions of the inbox guarantee: each of them moves the database along \<open>db_le\<close>; what
  a claim hands out; what completing, sweeping, discarding, stopping and persisting a lease leave
  behind.
\<close>

section \<open>Every transaction along \<open>db_le\<close>\<close>

lemma shape_CLAIM_EVENT [simp]: "shape (snd (CLAIM_EVENT now m row token fence ttl w s)) = shape s"
  by (simp add: CLAIM_EVENT_def shape_def)

lemma db_le_claim_candidate:
  assumes "locked_rows s e c r" and "due now m e"
  shows "db_le s (snd (claim_candidate now w ttl m (e, c, r) s))"
proof -
  have o: "open_event (e_status e)" using assms(2) by (rule due_open)
  obtain fence s1 where g: "enter_generation now (event_disposition e r) e c r s = (fence, s1)" by fastforce
  have k: "keeps s s1" using keeps_enter_generation[OF assms(1), of now] g by simp
  obtain token s2 where d: "draw_uuid s1 = (token, s2)" by fastforce
  have "db_le s (snd (CLAIM_EVENT now m (e_id e) token fence ttl w s2))"
    using k db_le_CLAIM_EVENT[OF d] by (auto simp: keeps_def intro: db_le_trans)
  moreover have "db_le s (supersede_locked_event now e s)"
    using keeps_supersede_locked[OF assms(1) o] by (simp add: keeps_def)
  moreover have "db_le s (MARK_CYCLE_MANUAL (e_cycle e) (MARK_UNCLAIMED_EVENT_MANUAL now (e_id e) s))"
    using keeps_trans[OF keeps_statements(8) keeps_statements(9), of s "e_id e"] locked_open[OF assms(1) o]
    by (simp add: keeps_def)
  ultimately show ?thesis
    by (simp add: claim_candidate_def hosted_chat_cycle_is_processable_def g d case_prod_beta
        split: option.split)
qed

lemma db_le_claim_step:
  assumes "keys_ok s"
  shows "db_le s (snd (claim_step locks now w ttl m s))"
proof (cases rule: claim_step_cases[of locks now w ttl m s])
  case (2 e c r)
  with assms show ?thesis by (simp add: db_le_claim_candidate locked_rowsI)
qed simp

lemma keeps_discard_row: "keeps s (snd (discard_row now (e, c, r) (n, s)))"
proof -
  obtain b u where m: "MARK_STALE_EVENT now (e_id e) s = (b, u)" by fastforce
  have "keeps s u" using keeps_statements(16)[of s now "e_id e"] m by simp
  then show ?thesis by (auto simp: discard_row_def m Let_def split: bool.splits)
qed

lemma keeps_discard_rows: "keeps s (snd (discard_rows now rows (n, s)))"
proof (induction rows arbitrary: n s)
  case (Cons row rows)
  obtain e c r where row: "row = (e, c, r)" by (cases row)
  obtain n' u where u: "discard_row now row (n, s) = (n', u)" by fastforce
  have "keeps s u" using keeps_discard_row[of s now e c r n] u row by simp
  with Cons[of u n'] u show ?case by (auto simp: discard_rows_def intro: keeps_trans)
qed (simp add: discard_rows_def)

lemma keeps_discard_loop: "keeps (snd acc) (snd (discard_loop locked now age acc))"
proof (induction locked now age acc rule: discard_loop.induct)
  case (1 locked now age acc)
  let ?rows = "SELECT_STALE_EVENTS now age locked (snd acc)"
  have "keeps (snd acc) (snd (discard_rows now ?rows acc))"
    using keeps_discard_rows[of "snd acc" now ?rows "fst acc"] by simp
  with 1 show ?case
    by (subst discard_loop.simps) (auto simp: Let_def intro: keeps_trans)
qed

lemma keeps_discard_stale_events:
  "discard_stale_events locked now cfg ov s = Inr (n, t) \<Longrightarrow> keeps s t"
  using keeps_discard_loop[of "(0, s)" locked now] 
  by (auto simp: discard_stale_events_def split: option.splits if_splits) (metis snd_conv)+

lemma keeps_stop_idle_row: "keeps s (snd (stop_idle_row now r (n, s)))"
proof -
  have "keeps s (snd (STOP_IDLE_SESSION (s_id r) (s_gen r) (s_fence r)
                (CANCEL_IDLE_SKILL_CALLS now (s_id r) (s_gen r)
                  (CANCEL_IDLE_DECISIONS now (s_id r) (s_gen r)
                    (SUPERSEDE_IDLE_EVENTS now (s_id r) (s_gen r)
                      (STOP_IDLE_CYCLES now (s_id r) (s_gen r) s))))))"
    by (intro keeps_then) simp
  then show ?thesis by (simp add: stop_idle_row_def case_prod_beta)
qed

lemma keeps_stop_idle_rows: "keeps s (snd (fold (stop_idle_row now) rows (n, s)))"
proof (induction rows arbitrary: n s)
  case (Cons r rows)
  obtain n' u where u: "stop_idle_row now r (n, s) = (n', u)" by fastforce
  have "keeps s u" using keeps_stop_idle_row[of s now r n] u by simp
  with Cons[of u n'] u show ?case by (auto intro: keeps_trans)
qed simp

lemma keeps_stop_idle_sessions:
  "stop_idle_sessions locked now idle s = Inr (n, t) \<Longrightarrow> keeps s t"
  using keeps_stop_idle_rows[of s now "SELECT_IDLE_SESSIONS now idle locked s" 0]
  by (auto simp: stop_idle_sessions_def split: if_splits)

lemma keeps_complete_cycle_success [simp]: "keeps s (complete_cycle_success now e c ev s)"
  unfolding complete_cycle_success_def by (auto intro!: keeps_then)

lemma keeps_complete_locked:
  assumes "locked_rows s e c r" and "e_status e = E_processing"
  shows "keeps s (snd (complete_locked now ev res m rb rm (e, c, r) s))"
proof -
  have "keeps s (supersede_locked_event now e s)"
    using assms by (simp add: keeps_supersede_locked)
  moreover have "keeps s (complete_cycle_success now e c ev (snd (COMPLETE_SUCCEEDED now row tk fe s)))"
    for row tk fe by (rule keeps_trans[OF keeps_completes(1) keeps_complete_cycle_success])
  ultimately show ?thesis
    by (simp add: complete_locked_def Let_def case_prod_beta keeps_then keeps_skip_completed_then
        split: process_outcome.split bool.split)
qed

lemma complete_event_cases:
  assumes "complete_event now ev res m rb rm s = Inr (b, t)"
  obtains "LOCK_CLAIM_FOR_COMPLETION (ce_row ev) (ce_token ev) (ce_fence ev) s = None" "b = False" "t = s"
  | e c r where "LOCK_CLAIM_FOR_COMPLETION (ce_row ev) (ce_token ev) (ce_fence ev) s = Some (e, c, r)"
      "complete_locked now ev res m rb rm (e, c, r) s = (b, t)"
  using assms by (auto simp: complete_event_def split: if_splits option.splits)

lemma holds_claim_processing: "holds_claim row tok fe e \<Longrightarrow> e_status e = E_processing"
  by (simp add: holds_claim_def)

lemma keeps_complete_event:
  assumes "keys_ok s" and "complete_event now ev res m rb rm s = Inr (b, t)"
  shows "keeps s t"
  using assms(2)
proof (cases rule: complete_event_cases)
  case (2 e c r)
  note d = LOCK_CLAIM_FOR_COMPLETION_SomeD[OF 2(1)]
  have "keeps s (snd (complete_locked now ev res m rb rm (e, c, r) s))"
    by (rule keeps_complete_locked[OF locked_rowsI[OF assms(1) d(1)] holds_claim_processing[OF d(2)]])
  with 2(2) show ?thesis by simp
qed simp

lemma keeps_renew_event_claim: "renew_event_claim now ev ttl s = Inr (b, t) \<Longrightarrow> keeps s t"
  using keeps_statements(25)[of s now "ce_row ev" "ce_token ev" "ce_fence ev" ttl]
  by (auto simp: renew_event_claim_def split: if_splits simp del: keeps_statements(25))

lemma keeps_persist_lease_context:
  assumes "persist_lease_context now ev ctx s = Inr (b, t)"
  shows "keeps s t"
proof -
  have "t = s \<or> keeps s t" if "PERSIST_LEASE_CONTEXT (ctx_state_version ctx) (ctx_lease ctx)
      (ctx_payload ctx) (ce_cycle ev) (ce_row ev) (ce_token ev) (ce_fence ev) s = (b', u)" for b' u
  proof -
    from that have "keeps s u" by (metis keeps_statements(26) snd_conv)
    with assms that show ?thesis
      by (auto simp: persist_lease_context_def split: if_splits bool.splits)
  qed
  then show ?thesis by (metis keeps_refl prod.collapse)
qed

lemma keeps_sweep_step:
  assumes "keys_ok s" and "sweep_step locked now m n s = Some (Inr (n', t))"
  shows "keeps s t"
proof -
  from assms(2) obtain e c r where l: "LOCK_EXHAUSTED_CLAIM now m locked s = Some (e, c, r)"
    by (auto simp: sweep_step_def split: option.splits)
  note d = LOCK_EXHAUSTED_CLAIM_SomeD[OF l]
  have "keeps s (supersede_locked_event now e s)"
    by (rule keeps_supersede_locked[OF locked_rowsI[OF assms(1) d(1)]]) (simp add: d(2))
  moreover have "keeps s u"
    if "COMPLETE_DEAD_LETTER now (e_id e) (cl_token (e_claim e)) (cl_fence (e_claim e))
        (Some ''worker'', Some ''claim_expired'') s = (b, u)" for b u
    using that by (metis keeps_completes(3) snd_conv)
  ultimately show ?thesis
    using assms(2) l
    by (auto simp: sweep_step_def hosted_chat_cycle_is_processable_def split: if_splits prod.splits bool.splits)
qed

lemma keeps_sweep_loop:
  "sweep_loop locked now m n s = Inr (n', t) \<Longrightarrow> keys_ok s \<Longrightarrow> keeps s t"
proof (induction locked now m n s rule: sweep_loop.induct)
  case (1 locked now m n s)
  show ?case
  proof (cases "sweep_step locked now m n s")
    case None
    with 1(2) show ?thesis by (simp add: sweep_loop.simps)
  next
    case (Some x)
    with 1(2) obtain k u where x: "x = Inr (k, u)" "sweep_loop locked now m k u = Inr (n', t)"
      by (subst (asm) sweep_loop.simps) (auto split: sum.splits)
    have k: "keeps s u" using 1(3) Some x(1) by (auto intro: keeps_sweep_step)
    with 1(1)[OF Some x(1) refl x(2)] 1(3) show ?thesis by (auto simp: keeps_ok(1) intro: keeps_trans)
  qed
qed

lemma keeps_sweep_expired_claims:
  "sweep_expired_claims locked now m s = Inr (n, t) \<Longrightarrow> keys_ok s \<Longrightarrow> keeps s t"
  using keeps_statements(15)[of s now] keeps_ok(1)[of s "CLEANUP_CLOSED_CYCLE_EVENTS now s"]
  by (auto simp: sweep_expired_claims_def split: if_splits intro: keeps_trans dest: keeps_sweep_loop
      simp del: keeps_statements(15))

section \<open>Claiming\<close>

lemma enter_generation_session:
  assumes "locked_rows s e c r" and "enter_generation now (event_disposition e r) e c r s = (fence, s1)"
  shows "\<exists>r' \<in> set (sessions s1). s_id r' = s_id r \<and> s_fence r' = fence \<and>
    (event_disposition e r = Activate_new \<longrightarrow> s_gen r' = Some (e_gen e)) \<and>
    (event_disposition e r \<noteq> Activate_new \<longrightarrow> s_gen r' = s_gen r)"
proof -
  have r: "r \<in> set (sessions s)" using assms(1) by (simp add: locked_rows_def in_event_join)
  consider "event_disposition e r = Activate_new"
    | "event_disposition e r = Current" "c_status c = C_pending"
    | "event_disposition e r \<noteq> Activate_new" "\<not> (event_disposition e r = Current \<and> c_status c = C_pending)"
    by (metis generation_disposition.distinct(1))
  then show ?thesis
  proof cases
    case 1
    with assms(2) have "fence = s_fence r + 1" "sessions s1 = update_where (\<lambda>q. s_id q = s_id r)
        (\<lambda>q. q\<lparr>s_gen := Some (e_gen e), s_fence := s_fence q + 1, s_status := S_active\<rparr>) (sessions s)"
      by (auto simp: enter_generation_def ACTIVATE_CYCLE_def CANCEL_SUPERSEDED_DECISIONS_def
          SUPERSEDE_OLD_CYCLES_def ACTIVATE_GENERATION_def)
    moreover from this update_where_in(1)[OF r, of "\<lambda>q. s_id q = s_id r"
        "\<lambda>q. q\<lparr>s_gen := Some (e_gen e), s_fence := s_fence q + 1, s_status := S_active\<rparr>"]
    have "r\<lparr>s_gen := Some (e_gen e), s_fence := s_fence r + 1, s_status := S_active\<rparr> \<in> set (sessions s1)"
      by simp
    ultimately show ?thesis using 1 by (auto elim!: rev_bexI)
  next
    case 2
    with assms(2) have eqs: "fence = s_fence r" "sessions s1 = update_where
        (\<lambda>q. s_id q = s_id r \<and> s_gen q = Some (e_gen e)) (\<lambda>q. q\<lparr>s_status := S_active\<rparr>) (sessions s)"
      by (auto simp: enter_generation_def ACTIVATE_CYCLE_def MARK_RUNTIME_ACTIVE_def)
    have "(if s_gen r = Some (e_gen e) then r\<lparr>s_status := S_active\<rparr> else r) \<in> set (sessions s1)"
      unfolding eqs(2) set_update_where by (rule rev_image_eqI[OF r]) simp
    with 2 eqs(1) show ?thesis by (auto elim!: rev_bexI split: if_splits)
  next
    case 3
    with assms(2) r show ?thesis by (auto simp: enter_generation_def split: if_splits)
  qed
qed

lemma claim_candidate_claimed:
  assumes l: "locked_rows s e c r" and d: "due now m e"
    and c: "claim_candidate now w ttl m (e, c, r) s = (Claimed ev, t)"
  shows "\<exists>fence s1. enter_generation now (event_disposition e r) e c r s = (fence, s1) \<and>
    event_disposition e r \<notin> {Stale, Wait} \<and>
    ev = build_claimed_event e (claim_row now (next_uuid s) fence ttl w e)
      (event_disposition e r = Historical_recovery) \<and>
    events t = update_where (\<lambda>x. e_id x = e_id e) (claim_row now (next_uuid s) fence ttl w) (events s) \<and>
    sessions t = sessions s1 \<and> cycles t = cycles s1"
proof -
  obtain fence s1 where g: "enter_generation now (event_disposition e r) e c r s = (fence, s1)" by fastforce
  have k: "keeps s s1" using keeps_enter_generation[OF l, of now] g by simp
  then have n: "next_uuid s1 = next_uuid s" by (simp add: keeps_def shape_def)
  have ev: "events s1 = events s"
    using events_enter_generation[of now "event_disposition e r" e c r s] g by simp
  have e: "e \<in> set (events s)" and u: "\<And>f. f \<in> set (events s) \<Longrightarrow> e_id f = e_id e \<Longrightarrow> f = e"
    using l by (auto simp: locked_rows_def in_event_join)
  have f: "find (\<lambda>x. e_id x = e_id e \<and> due now m x) (events s) = Some e"
    by (rule find_unique) (use e d u in auto)
  have up: "update_where (\<lambda>x. e_id x = e_id e \<and> due now m x) h (events s) =
      update_where (\<lambda>x. e_id x = e_id e) h (events s)" for h
    unfolding update_where_def using u d by (auto intro!: map_cong)
  have disp: "event_disposition e r \<notin> {Stale, Wait}"
    using c by (auto simp: claim_candidate_def hosted_chat_cycle_is_processable_def)
  with c have "ev = build_claimed_event e (claim_row now (next_uuid s) fence ttl w e)
      (event_disposition e r = Historical_recovery)"
    and "t = snd (CLAIM_EVENT now m (e_id e) (next_uuid s) fence ttl w (snd (draw_uuid s1)))"
    by (auto simp: claim_candidate_def hosted_chat_cycle_is_processable_def g CLAIM_EVENT_def ev n f
        draw_uuid_def split: option.splits)
  with g disp show ?thesis
    by (simp add: CLAIM_EVENT_def draw_uuid_def ev up)
qed


end
