(* ===== verification/InboxCompletion.thy ===== *)
theory InboxCompletion
  imports InboxSafety AdmissionFacts
begin

text \<open>
  Completing a claimed event, and a sample run of the inbox on which the properties are applied.
\<close>

section \<open>Completing under a claim\<close>

lemma holds_claim_unique:
  assumes "keys_ok s" and "e \<in> set (events s)" and "holds_claim row tok fe e"
  shows "update_where (holds_claim row tok fe) f (events s) = update_where (\<lambda>x. e_id x = row) f (events s)"
proof -
  have "holds_claim row tok fe x \<longleftrightarrow> e_id x = row" if "x \<in> set (events s)" for x
    using event_key_unique[OF assms(1,2) that] assms(3) by (auto simp: holds_claim_def)
  then show ?thesis unfolding update_where_def by (auto intro!: map_cong)
qed

lemma complete_claim_hit:
  assumes "keys_ok s" and "e \<in> set (events s)" and "holds_claim row tok fe e"
  shows "complete_claim row tok fe f s =
    (True, s\<lparr>events := update_where (\<lambda>x. e_id x = row) f (events s)\<rparr>)"
  using assms(2,3) holds_claim_unique[OF assms] by (auto simp: complete_claim_def)

lemma LOCK_CLAIM_FOR_COMPLETION_hit:
  assumes "keys_ok s" and "(e, c, r) \<in> set (event_join s)" and "holds_claim row (Some tok) (Some fe) e"
  shows "LOCK_CLAIM_FOR_COMPLETION row tok fe s = Some (e, c, r)"
  unfolding LOCK_CLAIM_FOR_COMPLETION_def
proof (rule find_unique[OF assms(2)])
  show "case (e, c, r) of (e, c, r) \<Rightarrow> holds_claim row (Some tok) (Some fe) e" using assms(3) by simp
next
  fix q assume q: "q \<in> set (event_join s)" "case q of (e, c, r) \<Rightarrow> holds_claim row (Some tok) (Some fe) e"
  obtain f d p where [simp]: "q = (f, d, p)" by (cases q)
  have f: "f = e"
    using q assms by (auto simp: in_event_join holds_claim_def intro: event_key_unique[of s])
  with q(1) assms(2) have "d = c"
    by (auto simp: in_event_join intro: cycle_key_unique[OF assms(1)])
  with f q(1) assms(2) have "p = r"
    by (auto simp: in_event_join intro: session_key_unique[OF assms(1)])
  with f \<open>d = c\<close> show "q = (e, c, r)" by simp
qed

lemma holds_claim_join:
  assumes "refs_ok s" and "e \<in> set (events s)"
  obtains c r where "(e, c, r) \<in> set (event_join s)"
proof -
  from assms obtain c where c: "c \<in> set (cycles s)" "c_id c = e_cycle e" by (auto simp: refs_ok_def)
  with assms(1) obtain r where "r \<in> set (sessions s)" "s_id r = c_runtime c" by (auto simp: refs_ok_def)
  with that c assms(2) show ?thesis by (auto simp: in_event_join)
qed

definition outcome_status :: "process_outcome \<Rightarrow> int \<Rightarrow> int \<Rightarrow> event_status" where
  "outcome_status outcome attempts max_attempts =
     (case outcome of
        O_succeeded \<Rightarrow> E_succeeded
      | O_retryable_failed \<Rightarrow> if max_attempts \<le> attempts then E_dead_letter else E_retryable_failed
      | O_manual \<Rightarrow> E_manual)"

definition completed_row ::
  "msec \<Rightarrow> process_result \<Rightarrow> int \<Rightarrow> int \<Rightarrow> int \<Rightarrow> event_row \<Rightarrow> event_row" where
  "completed_row now res m base maximum e =
     (if outcome_status (pr_outcome res) (e_attempts e) m = E_retryable_failed
      then e\<lparr>e_status := E_retryable_failed,
        e_next_at := now + retry_delay_ms base maximum (e_attempts e), e_claim := no_claim,
        e_error := pr_error res\<rparr>
      else close_event now (outcome_status (pr_outcome res) (e_attempts e) m)
        (if pr_outcome res = O_succeeded then (None, None) else pr_error res) e)"

lemma events_ADVANCE_CYCLE [simp]: "events (ADVANCE_CYCLE c n s) = events s"
  by (simp add: ADVANCE_CYCLE_def)

lemma events_MARK_CYCLE_MANUAL [simp]: "events (MARK_CYCLE_MANUAL c s) = events s"
  by (simp add: MARK_CYCLE_MANUAL_def)

lemma complete_locked_valid:
  assumes keys: "keys_ok s" and j: "(e, c, r) \<in> set (event_join s)"
    and h: "holds_claim (ce_row ev) (Some (ce_token ev)) (Some (ce_fence ev)) e"
    and v: "claim_is_valid e r (ce_type ev) (Some (ce_fence ev))"
  shows "fst (complete_locked now ev res m base maximum (e, c, r) s) = True"
    and "events (snd (complete_locked now ev res m base maximum (e, c, r) s)) =
      (if pr_outcome res = O_succeeded \<and> ce_type ev = Session_stopped
       then events (SUPERSEDE_OPEN_CYCLE_EVENTS now (ce_cycle ev) (ce_row ev)
         (s\<lparr>events := update_where (\<lambda>x. e_id x = ce_row ev) (close_event now E_succeeded (None, None))
            (events s)\<rparr>))
       else update_where (\<lambda>x. e_id x = ce_row ev) (\<lambda>x. completed_row now res m base maximum e) (events s))"
proof -
  have e: "e \<in> set (events s)" and id: "e_id e = ce_row ev"
    using j h by (auto simp: in_event_join holds_claim_def)
  note hit = complete_claim_hit[OF keys e h]
  have same: "update_where (\<lambda>x. e_id x = ce_row ev) f (events s) =
      update_where (\<lambda>x. e_id x = ce_row ev) (\<lambda>_. f e) (events s)" for f
    unfolding update_where_def using event_key_unique[OF keys e] id by (auto intro!: map_cong)
  note defs = complete_locked_def hosted_chat_cycle_is_processable_def v Let_def COMPLETE_SUCCEEDED_def
    COMPLETE_DEAD_LETTER_def COMPLETE_RETRYABLE_def COMPLETE_MANUAL_def hit
  show "fst (complete_locked now ev res m base maximum (e, c, r) s) = True"
    by (simp add: defs split: process_outcome.split)
  have chat: "Session_stopped \<notin> HOSTED_CHAT_EVENT_TYPES" by (simp add: HOSTED_CHAT_EVENT_TYPES_def)
  show "events (snd (complete_locked now ev res m base maximum (e, c, r) s)) =
      (if pr_outcome res = O_succeeded \<and> ce_type ev = Session_stopped
       then events (SUPERSEDE_OPEN_CYCLE_EVENTS now (ce_cycle ev) (ce_row ev)
         (s\<lparr>events := update_where (\<lambda>x. e_id x = ce_row ev) (close_event now E_succeeded (None, None))
            (events s)\<rparr>))
       else update_where (\<lambda>x. e_id x = ce_row ev) (\<lambda>x. completed_row now res m base maximum e) (events s))"
  proof (cases "pr_outcome res")
    case O_succeeded
    then show ?thesis
      using chat same[of "close_event now E_succeeded (None, None)"]
      by (auto simp: defs complete_cycle_success_def completed_row_def outcome_status_def
          STOP_CURRENT_RUNTIME_def STOP_CURRENT_CYCLE_def)
  next
    case O_retryable_failed
    then show ?thesis
      using same[of "close_event now E_dead_letter (pr_error res)"]
        same[of "\<lambda>x. x\<lparr>e_status := E_retryable_failed, e_next_at := now + retry_delay_ms base maximum (e_attempts e),
          e_claim := no_claim, e_error := pr_error res\<rparr>"]
      by (simp add: defs completed_row_def outcome_status_def)
  next
    case O_manual
    then show ?thesis
      using same[of "close_event now E_manual (pr_error res)"] by (simp add: defs completed_row_def outcome_status_def)
  qed
qed

text \<open>
  C33: what completing a valid claim writes.  While the worker holds a valid claim on an event,
  \<open>complete_event\<close> with a legal configuration succeeds: the event ends succeeded, manual, or, after
  a retryable failure, in the dead letters when its attempts are used up and otherwise due again
  after a delay between the base and the maximum; it keeps its attempts and gives its claim back.
  Unless the event was a session stop, no other event changes.
\<close>

theorem completion_follows_outcome:
  assumes keys: "keys_ok s" and j: "(e, c, r) \<in> set (event_join s)"
    and h: "holds_claim (ce_row ev) (Some (ce_token ev)) (Some (ce_fence ev)) e"
    and v: "claim_is_valid e r (ce_type ev) (Some (ce_fence ev))"
    and cfg: "0 < m" "0 < base" "base \<le> maximum"
  shows "\<exists>t e'. complete_event now ev res m base maximum s = Inr (True, t) \<and> e' \<in> set (events t) \<and>
    e_id e' = ce_row ev \<and> e_claim e' = no_claim \<and> e_attempts e' = e_attempts e \<and>
    e_status e' = outcome_status (pr_outcome res) (e_attempts e) m \<and>
    (e_status e' = E_retryable_failed \<longrightarrow> now + base \<le> e_next_at e' \<and> e_next_at e' \<le> now + maximum) \<and>
    (\<not> (pr_outcome res = O_succeeded \<and> ce_type ev = Session_stopped) \<longrightarrow>
       events t = update_where (\<lambda>x. e_id x = ce_row ev) (\<lambda>_. e') (events s))"
proof -
  let ?x = "complete_locked now ev res m base maximum (e, c, r) s"
  let ?e' = "completed_row now res m base maximum e"
  have e: "e \<in> set (events s)" and id: "e_id e = ce_row ev"
    using j h by (auto simp: in_event_join holds_claim_def)
  have run: "complete_event now ev res m base maximum s = Inr (True, snd ?x)"
    using LOCK_CLAIM_FOR_COMPLETION_hit[OF keys j h] complete_locked_valid(1)[OF keys j h v] cfg
    by (simp add: complete_event_def prod_eq_iff)
  have row: "e_id ?e' = ce_row ev" "e_claim ?e' = no_claim" "e_attempts ?e' = e_attempts e"
    "e_status ?e' = outcome_status (pr_outcome res) (e_attempts e) m"
    using id by (auto simp: completed_row_def close_event_def)
  have delay: "now + base \<le> e_next_at ?e' \<and> e_next_at ?e' \<le> now + maximum"
    if "e_status ?e' = E_retryable_failed"
    using that retry_delay_bounds[OF cfg(2,3), of "e_attempts e"] by (auto simp: completed_row_def close_event_def)
  have "?e' \<in> set (events (snd ?x))"
  proof (cases "pr_outcome res = O_succeeded \<and> ce_type ev = Session_stopped")
    case False
    then show ?thesis
      unfolding complete_locked_valid(2)[OF keys j h v] if_not_P[OF False]
      using update_where_in(1)[OF e, of "\<lambda>x. e_id x = ce_row ev" "\<lambda>_. ?e'"] id by simp
  next
    case True
    then have c': "?e' = close_event now E_succeeded (None, None) e"
      by (simp add: completed_row_def outcome_status_def)
    have "?e' \<in> set (update_where (\<lambda>x. e_id x = ce_row ev) (close_event now E_succeeded (None, None)) (events s))"
      unfolding c' by (rule update_where_in(1)) (use e id in simp_all)
    then have "?e' \<in> set (update_where
        (\<lambda>x. e_cycle x = ce_cycle ev \<and> e_id x \<noteq> ce_row ev \<and> open_event (e_status x))
        (\<lambda>x. retire_event now E_superseded (e_error x) x)
        (update_where (\<lambda>x. e_id x = ce_row ev) (close_event now E_succeeded (None, None)) (events s)))"
      by (rule update_where_in(2)) (simp add: row(1))
    then have "?e' \<in> set (events (SUPERSEDE_OPEN_CYCLE_EVENTS now (ce_cycle ev) (ce_row ev)
         (s\<lparr>events := update_where (\<lambda>x. e_id x = ce_row ev) (close_event now E_succeeded (None, None))
            (events s)\<rparr>)))"
      by (simp add: SUPERSEDE_OPEN_CYCLE_EVENTS_def)
    with True show ?thesis
      unfolding complete_locked_valid(2)[OF keys j h v] by simp
  qed
  then show ?thesis
    using run row delay complete_locked_valid(2)[OF keys j h v, of now res m base maximum]
    by (intro exI[of _ "snd ?x"] exI[of _ ?e']) auto
qed

lemma LOCK_CLAIM_lost:
  "\<forall>e \<in> set (events s). \<not> holds_claim row (Some token) (Some fence) e \<Longrightarrow>
   LOCK_CLAIM_FOR_COMPLETION row token fence s = None"
  by (auto simp: LOCK_CLAIM_FOR_COMPLETION_def find_None_iff in_event_join)

text \<open>
  A completion without the claim changes nothing.  If no event is processing under the token and
  fence the worker was given (the claim expired and another worker took it, the event was
  superseded, or it was completed before), \<open>complete_event\<close> answers False and leaves the database
  as it is, whatever the result to record.
\<close>

theorem stale_completion_changes_nothing:
  assumes "\<forall>e \<in> set (events s). \<not> holds_claim (ce_row ev) (Some (ce_token ev)) (Some (ce_fence ev)) e"
    and "0 < m" "0 < base" "base \<le> maximum"
  shows "complete_event now ev res m base maximum s = Inr (False, s)"
  using LOCK_CLAIM_lost[OF assms(1)] assms(2-4) by (simp add: complete_event_def)

section \<open>Stopping a session\<close>

definition claimed_from :: "event_row \<Rightarrow> claimed_event \<Rightarrow> bool" where
  "claimed_from e ev \<longleftrightarrow> ce_row ev = e_id e \<and> ce_cycle ev = e_cycle e \<and> ce_type ev = e_type e \<and>
     ce_gen ev = e_gen e \<and> ce_seq ev = e_seq e \<and> ce_session ev = e_session e"

lemma claimed_from_build: "claimed_from e (build_claimed_event e claimed h)"
  by (simp add: claimed_from_def build_claimed_event_def)

text \<open>
  A completed session stop closes the cycle.  When the worker that claimed a \<open>session_stopped\<close>
  event reports success on a valid claim, afterwards the control cycle is neither pending nor
  active, none of its events is open (no event of a stopped cycle can be claimed again), the
  session is stopped, and its fence has moved past the fence of every claim made before.
\<close>

theorem stop_closes_cycle:
  assumes keys: "keys_ok s" and j: "(e, c, r) \<in> set (event_join s)"
    and h: "holds_claim (ce_row ev) (Some (ce_token ev)) (Some (ce_fence ev)) e"
    and v: "claim_is_valid e r (ce_type ev) (Some (ce_fence ev))"
    and from_e: "claimed_from e ev" and stop: "e_type e = Session_stopped"
    and cfg: "0 < m" "0 < base" "base \<le> maximum" and ok: "pr_outcome res = O_succeeded"
  shows "\<exists>t. complete_event now ev res m base maximum s = Inr (True, t) \<and>
    (\<forall>f \<in> set (events t). e_cycle f = e_cycle e \<longrightarrow> \<not> open_event (e_status f)) \<and>
    (\<forall>d \<in> set (cycles t). c_id d = e_cycle e \<longrightarrow> \<not> open_cycle (c_status d)) \<and>
    (\<exists>q \<in> set (sessions t). s_id q = s_id r \<and> s_status q = S_stopped \<and> ce_fence ev < s_fence q)"
proof -
  let ?x = "complete_locked now ev res m base maximum (e, c, r) s"
  let ?s1 = "s\<lparr>events := update_where (\<lambda>x. e_id x = ce_row ev) (close_event now E_succeeded (None, None))
    (events s)\<rparr>"
  have e: "e \<in> set (events s)" and r: "r \<in> set (sessions s)" "s_id r = c_runtime c"
    using j by (simp_all add: in_event_join)
  have ty: "ce_type ev = Session_stopped" "ce_row ev = e_id e" "ce_cycle ev = e_cycle e"
    "ce_gen ev = e_gen e"
    using from_e stop by (simp_all add: claimed_from_def)
  have nc: "Session_stopped \<notin> HOSTED_CHAT_EVENT_TYPES" "Session_stopped \<notin> CONVERGENCE_EVENT_TYPES"
    by (simp_all add: HOSTED_CHAT_EVENT_TYPES_def CONVERGENCE_EVENT_TYPES_def)
  from v have cur: "s_gen r = Some (e_gen e)" "s_fence r = ce_fence ev"
    using nc stop ty(1)
    by (auto simp: claim_is_valid_def event_disposition_def classify_generation_cases)
  have run: "complete_event now ev res m base maximum s = Inr (True, snd ?x)"
    using LOCK_CLAIM_FOR_COMPLETION_hit[OF keys j h] complete_locked_valid(1)[OF keys j h v] cfg
    by (simp add: complete_event_def prod_eq_iff)
  have x: "snd ?x = STOP_CURRENT_RUNTIME (c_runtime c) (ce_gen ev) (ce_fence ev)
      (STOP_CURRENT_CYCLE now (ce_cycle ev) (ce_seq ev)
        (SUPERSEDE_OPEN_CYCLE_EVENTS now (ce_cycle ev) (ce_row ev) ?s1))"
    using v ok ty(1) nc
    by (simp add: complete_locked_def hosted_chat_cycle_is_processable_def Let_def COMPLETE_SUCCEEDED_def
        complete_claim_hit[OF keys e h] complete_cycle_success_def)
  have "\<not> open_event (e_status f)" if f: "f \<in> set (events (snd ?x))" "e_cycle f = e_cycle e" for f
  proof -
    from f(1) obtain g where g: "g \<in> set (events ?s1)"
      "f = (if e_cycle g = e_cycle e \<and> e_id g \<noteq> e_id e \<and> open_event (e_status g)
        then retire_event now E_superseded (e_error g) g else g)"
      unfolding x STOP_CURRENT_RUNTIME_def STOP_CURRENT_CYCLE_def SUPERSEDE_OPEN_CYCLE_EVENTS_def ty
      by simp (erule in_update_whereE, blast)
    show ?thesis
    proof (cases "e_id g = e_id e")
      case True
      then have "e_status g = E_succeeded"
        using g(1) ty(2) by (auto simp: close_event_def elim!: in_update_whereE split: if_splits)
      with g True show ?thesis by simp
    next
      case False
      with g f(2) show ?thesis by (auto simp: retire_event_def split: if_splits)
    qed
  qed
  moreover have "\<not> open_cycle (c_status d)" if "d \<in> set (cycles (snd ?x))" "c_id d = e_cycle e" for d
    using that unfolding x STOP_CURRENT_RUNTIME_def STOP_CURRENT_CYCLE_def SUPERSEDE_OPEN_CYCLE_EVENTS_def ty
    by (auto elim!: in_update_whereE split: if_splits)
  moreover have "r\<lparr>s_status := S_stopped, s_fence := s_fence r + 1\<rparr> \<in> set (sessions (snd ?x))"
  proof -
    have eq: "sessions (snd ?x) = update_where
        (\<lambda>q. s_id q = c_runtime c \<and> s_gen q = Some (ce_gen ev) \<and> s_fence q = ce_fence ev)
        (\<lambda>q. q\<lparr>s_status := S_stopped, s_fence := s_fence q + 1\<rparr>) (sessions s)"
      by (simp add: x STOP_CURRENT_RUNTIME_def STOP_CURRENT_CYCLE_def SUPERSEDE_OPEN_CYCLE_EVENTS_def)
    show ?thesis
      unfolding eq set_update_where by (rule rev_image_eqI[OF r(1)]) (simp add: r(2) cur ty(4))
  qed
  ultimately show ?thesis
    using run cur(2) by (intro exI[of _ "snd ?x"]) (auto elim!: rev_bexI)
qed

section \<open>The position of a cycle\<close>

lemma skip_positions_between:
  "n \<le> k \<Longrightarrow> k < skip_positions fuel cy es n \<Longrightarrow> \<exists>e \<in> set es. skippable cy k e"
proof (induction fuel arbitrary: n)
  case (Suc fuel)
  show ?case
  proof (cases "\<exists>e \<in> set es. skippable cy n e")
    case True
    then have "skip_positions (Suc fuel) cy es n = skip_positions fuel cy es (n + 1)" by simp
    with Suc.prems Suc.IH[of "n + 1"] True show ?thesis by (cases "k = n") simp_all
  qed (use Suc in simp)
qed simp

lemma skip_positions_stuck:
  "skip_positions fuel cy es n < n + int fuel \<Longrightarrow> \<not> (\<exists>e \<in> set es. skippable cy (skip_positions fuel cy es n) e)"
proof (induction fuel arbitrary: n)
  case (Suc fuel)
  show ?case
  proof (cases "\<exists>e \<in> set es. skippable cy n e")
    case True
    then have "skip_positions (Suc fuel) cy es n = skip_positions fuel cy es (n + 1)" by simp
    with Suc.prems Suc.IH[of "n + 1"] show ?thesis by simp
  qed simp
qed simp

lemma skip_positions_le: "skip_positions fuel cy es n \<le> n + int fuel"
proof (induction fuel arbitrary: n)
  case (Suc fuel)
  from Suc[of "n + 1"] show ?case by auto
qed simp

text \<open>Every position stepped over has a row of its own, so the table is long enough a fuel.\<close>

lemma skip_positions_fixed:
  "\<not> (\<exists>e \<in> set es. skippable cy (skip_positions (length es) cy es n) e)"
proof
  let ?m = "skip_positions (length es) cy es n"
  assume hit: "\<exists>e \<in> set es. skippable cy ?m e"
  then have m: "?m = n + int (length es)"
    using skip_positions_stuck[of "length es" cy es n] skip_positions_le[of "length es" cy es n]
    by linarith
  have "{n..?m} \<subseteq> e_seq ` set es"
  proof
    fix k assume k: "k \<in> {n..?m}"
    have "\<exists>e \<in> set es. skippable cy k e"
      using hit skip_positions_between[of n k "length es" cy es] k by (cases "k = ?m") auto
    then show "k \<in> e_seq ` set es" by (auto simp: skippable_def)
  qed
  then have "card {n..?m} \<le> card (e_seq ` set es)" by (intro card_mono) simp_all
  also have "\<dots> \<le> length es" by (metis card_image_le card_length finite_set order_trans)
  finally show False using m by simp
qed

text \<open>
  The recursive skip query advances a cycle exactly over finished work.  After
  \<open>_SKIP_COMPLETED_CONVERGENCE_EVENTS\<close> every position between the old and the new
  \<open>next_event_sequence\<close> holds a superseded event or a finished convergence event, the new position
  holds none, and other cycles keep theirs.  The model's fuel, the number of event rows, always
  suffices.
\<close>

theorem skip_reaches_first_unfinished:
  assumes "c' \<in> set (cycles (SKIP_COMPLETED_CONVERGENCE_EVENTS cy s))"
  shows "\<exists>c \<in> set (cycles s). c' = c\<lparr>c_next := c_next c'\<rparr> \<and> c_next c \<le> c_next c' \<and>
    (if c_id c = cy
     then (\<forall>k. c_next c \<le> k \<and> k < c_next c' \<longrightarrow> (\<exists>e \<in> set (events s). skippable cy k e)) \<and>
       \<not> (\<exists>e \<in> set (events s). skippable cy (c_next c') e)
     else c' = c)"
proof -
  from assms obtain c where c: "c \<in> set (cycles s)"
    "c' = (if c_id c = cy then c\<lparr>c_next := skip_positions (length (events s)) cy (events s) (c_next c)\<rparr> else c)"
    unfolding SKIP_COMPLETED_CONVERGENCE_EVENTS_def by (auto elim!: in_update_whereE)
  then show ?thesis
    using skip_positions_ge[of "c_next c" "length (events s)" cy "events s"]
      skip_positions_fixed[of "events s" cy "c_next c"] skip_positions_between[of "c_next c"]
    by (intro bexI[of _ c]) auto
qed

end
