(* ===== verification/InboxMaintenance.thy ===== *)
theory InboxMaintenance
  imports InboxCompletion
begin

text \<open>
  What the maintenance transactions leave behind: the sweep of exhausted claims, the discarding of
  stale events, the stop of idle sessions, and the change of a decision lease.
\<close>

section \<open>Sweep\<close>

text \<open>A processing event carries a whole claim.\<close>

definition event_claims_whole :: "db \<Rightarrow> bool" where
  "event_claims_whole s \<longleftrightarrow> (\<forall>e \<in> set (events s). e_status e = E_processing \<longrightarrow>
     cl_token (e_claim e) \<noteq> None \<and> cl_fence (e_claim e) \<noteq> None \<and> cl_lock_until (e_claim e) \<noteq> None)"

lemma event_claims_whole_update:
  assumes "event_claims_whole s" and "events t = update_where P f (events s)"
    and "\<And>e. P e \<Longrightarrow> e_status (f e) \<noteq> E_processing"
  shows "event_claims_whole t"
  unfolding event_claims_whole_def assms(2)
  by (rule ball_update_where) (use assms(1,3) in \<open>auto simp: event_claims_whole_def\<close>)

definition exhausted :: "msec \<Rightarrow> int \<Rightarrow> event_row \<Rightarrow> bool" where
  "exhausted now m e \<longleftrightarrow> e_status e = E_processing \<and> m \<le> e_attempts e \<and>
     (case cl_lock_until (e_claim e) of None \<Rightarrow> False | Some u \<Rightarrow> u \<le> now)"

lemma LOCK_EXHAUSTED_CLAIM_None:
  assumes "LOCK_EXHAUSTED_CLAIM now m (\<lambda>_. False) s = None" and "refs_ok s" and "e \<in> set (events s)"
  shows "\<not> exhausted now m e"
proof -
  from holds_claim_join[OF assms(2,3)] obtain c r where "(e, c, r) \<in> set (event_join s)" by blast
  with assms(1) show ?thesis
    by (fastforce simp: LOCK_EXHAUSTED_CLAIM_def first_by_None_iff exhausted_def)
qed

lemma sweep_step_result:
  assumes keys: "keys_ok s" and whole: "event_claims_whole s"
    and l: "LOCK_EXHAUSTED_CLAIM now m locked s = Some (e, c, r)"
  shows "\<exists>n' t. sweep_step locked now m n s = Some (Inr (n', t)) \<and> event_claims_whole t"
proof -
  note d = LOCK_EXHAUSTED_CLAIM_SomeD[OF l]
  have e: "e \<in> set (events s)" using d(1) by (simp add: in_event_join)
  with whole d(2) have h: "holds_claim (e_id e) (cl_token (e_claim e)) (cl_fence (e_claim e)) e"
    by (auto simp: event_claims_whole_def holds_claim_def)
  have a: "event_claims_whole (supersede_locked_event now e s)"
    by (rule event_claims_whole_update[OF whole events_supersede_locked]) (simp add: close_event_def)
  have b: "event_claims_whole (skip_completed_convergence_events e c
      (s\<lparr>events := update_where (\<lambda>x. e_id x = e_id e)
         (close_event now E_dead_letter (Some ''worker'', Some ''claim_expired'')) (events s)\<rparr>))"
    by (rule event_claims_whole_update[OF whole, of _ "\<lambda>x. e_id x = e_id e"
        "close_event now E_dead_letter (Some ''worker'', Some ''claim_expired'')"])
       (simp_all add: close_event_def)
  show ?thesis
    using a b
    by (simp add: sweep_step_def l hosted_chat_cycle_is_processable_def COMPLETE_DEAD_LETTER_def
        complete_claim_hit[OF keys e h])
qed

lemma sweep_loop_result:
  "keys_ok s \<Longrightarrow> refs_ok s \<Longrightarrow> event_claims_whole s \<Longrightarrow>
   \<exists>n' t. sweep_loop (\<lambda>_. False) now m n s = Inr (n', t) \<and> (\<forall>e \<in> set (events t). \<not> exhausted now m e)"
proof (induction "\<lambda>_ :: uuid. False" now m n s rule: sweep_loop.induct)
  case (1 now m n s)
  show ?case
  proof (cases "LOCK_EXHAUSTED_CLAIM now m (\<lambda>_. False) s")
    case None
    with 1(3) have "\<forall>e \<in> set (events s). \<not> exhausted now m e"
      using LOCK_EXHAUSTED_CLAIM_None by blast
    with None show ?thesis by (simp add: sweep_loop.simps sweep_step_def)
  next
    case (Some row)
    obtain e c r where row: "row = (e, c, r)" by (cases row)
    from sweep_step_result[OF 1(2) 1(4) Some[unfolded row], of n] obtain n' t where
      st: "sweep_step (\<lambda>_. False) now m n s = Some (Inr (n', t))" and w: "event_claims_whole t" by blast
    have k: "keeps s t" using 1(2) st by (rule keeps_sweep_step)
    from 1(1)[OF st refl refl _ _ w] 1(2,3) k show ?thesis
      by (subst sweep_loop.simps) (auto simp: st keeps_ok)
  qed
qed


section \<open>Stale events\<close>

lemma sort_key_Nil: "sort_key f xs = [] \<Longrightarrow> xs = []"
  by (metis length_0_conv length_sort)

lemma discard_loop_result:
  "refs_ok (snd acc) \<Longrightarrow> \<forall>e \<in> set (events (snd (discard_loop (\<lambda>_. False) now age acc))).
     open_event (e_status e) \<longrightarrow> now - ev_occurred_at (e_body e) \<le> age"
proof (induction "\<lambda>_ :: uuid. False" now age acc rule: discard_loop.induct)
  case (1 now age acc)
  let ?rows = "SELECT_STALE_EVENTS now age (\<lambda>_. False) (snd acc)"
  show ?case
  proof (cases "?rows = []")
    case False
    have "keeps (snd acc) (snd (discard_rows now ?rows acc))"
      using keeps_discard_rows[of "snd acc" now ?rows "fst acc"] by simp
    with 1 False show ?thesis by (subst discard_loop.simps) (simp add: Let_def keeps_ok(2))
  next
    case True
    have "now - ev_occurred_at (e_body e) \<le> age"
      if "e \<in> set (events (snd acc))" "open_event (e_status e)" for e
    proof -
      from holds_claim_join[OF 1(2) that(1)] obtain c r where
        j: "(e, c, r) \<in> set (event_join (snd acc))" by blast
      have "filter (\<lambda>(e, c, r). open_event (e_status e) \<and> age < now - ev_occurred_at (e_body e) \<and>
          \<not> (False \<or> False)) (event_join (snd acc)) = []"
        using arg_cong[OF True, of set] by (auto simp: SELECT_STALE_EVENTS_def dest!: sort_key_Nil)
      with j that(2) show ?thesis by (force simp: filter_empty_conv)
    qed
    with True show ?thesis by (subst discard_loop.simps) (simp add: Let_def)
  qed
qed

text \<open>
  Discarding leaves no stale event open.  When \<open>discard_stale_events\<close> with an age limit returns
  and no row was locked elsewhere, every event still open occurred within the limit.
\<close>

theorem discard_leaves_no_stale_event:
  assumes "refs_ok s" and "discard_stale_events (\<lambda>_. False) now configured (Some age) s = Inr (n, t)"
  shows "0 < age \<and> (\<forall>e \<in> set (events t). open_event (e_status e) \<longrightarrow> now - ev_occurred_at (e_body e) \<le> age)"
  using assms discard_loop_result[of "(0, s)" now age]
  by (auto simp: discard_stale_events_def split: if_splits)

section \<open>Leases\<close>

lemma PERSIST_LEASE_CONTEXT_True:
  assumes "PERSIST_LEASE_CONTEXT v l x cy row tok fe s = (True, s1)"
  shows "\<exists>c \<in> set (cycles s). c_id c = cy \<and>
    c\<lparr>c_state_version := Some v, c_lease := Some l, c_context := Some x\<rparr> \<in> set (cycles s1)"
proof -
  define hit where "hit = (\<lambda>c :: cycle_row. c_id c = cy \<and>
    (\<exists>e \<in> set (events s). holds_claim row (Some tok) (Some fe) e \<and> e_cycle e = c_id c \<and>
      (\<exists>r \<in> set (sessions s). s_id r = c_runtime c \<and> s_gen r = Some (e_gen e) \<and> s_fence r = fe)))"
  let ?set = "\<lambda>c. c\<lparr>c_state_version := Some v, c_lease := Some l, c_context := Some x\<rparr>"
  have "PERSIST_LEASE_CONTEXT v l x cy row tok fe s =
      (\<exists>c \<in> set (cycles s). hit c, s\<lparr>cycles := update_where hit ?set (cycles s)\<rparr>)"
    unfolding PERSIST_LEASE_CONTEXT_def Let_def hit_def by (rule refl)
  with assms obtain c where c: "c \<in> set (cycles s)" "hit c" and s1: "cycles s1 = update_where hit ?set (cycles s)"
    by auto
  have "?set c \<in> set (cycles s1)"
    unfolding s1 using c by (rule update_where_in(1))
  with c show ?thesis unfolding hit_def by blast
qed

text \<open>
  A new lease leaves nothing of an older one in flight.  After \<open>persist_lease_context\<close> answers
  True, the cycle carries the lease and the state version of the context, every open decision of
  the cycle has them too, and no session start or observation with an earlier sequence and another
  lease or state version is still open, the claimed event apart.
\<close>

theorem lease_change_cancels_older_work:
  assumes "persist_lease_context now ev ctx s = Inr (True, t)"
  shows "(\<exists>c \<in> set (cycles t). c_id c = ce_cycle ev \<and> c_lease c = Some (ctx_lease ctx) \<and>
      c_state_version c = Some (ctx_state_version ctx) \<and> c_context c = Some (ctx_payload ctx)) \<and>
    (\<forall>d \<in> set (decisions t). d_cycle d = ce_cycle ev \<and> open_decision (d_status d) \<longrightarrow>
      d_lease d = ctx_lease ctx \<and> d_state_version d = ctx_state_version ctx) \<and>
    (\<forall>e \<in> set (events t). e_cycle e = ce_cycle ev \<and> e_id e \<noteq> ce_row ev \<and> e_seq e < ce_seq ev \<and>
      open_event (e_status e) \<and> e_type e \<in> {Session_started, Observation_updated} \<longrightarrow>
      ev_lease (e_body e) = None \<or>
      (ev_lease (e_body e) = Some (ctx_lease ctx) \<and> ev_state_version (e_body e) = ctx_state_version ctx))"
proof -
  from assms obtain s1 where
    p: "PERSIST_LEASE_CONTEXT (ctx_state_version ctx) (ctx_lease ctx) (ctx_payload ctx)
        (ce_cycle ev) (ce_row ev) (ce_token ev) (ce_fence ev) s = (True, s1)"
    and t: "t = SKIP_COMPLETED_CONVERGENCE_EVENTS (ce_cycle ev)
        (SUPERSEDE_OLDER_LEASE_EVENTS now (ce_cycle ev) (ce_row ev) (ce_seq ev)
          (ctx_state_version ctx) (ctx_lease ctx)
          (CANCEL_OLDER_LEASE_DECISIONS now (ce_cycle ev) (ctx_state_version ctx) (ctx_lease ctx) s1))"
    by (auto simp: persist_lease_context_def split: if_splits prod.splits bool.splits)
  let ?set = "\<lambda>c. c\<lparr>c_state_version := Some (ctx_state_version ctx), c_lease := Some (ctx_lease ctx),
    c_context := Some (ctx_payload ctx)\<rparr>"
  from PERSIST_LEASE_CONTEXT_True[OF p] obtain c where "?set c \<in> set (cycles s1)" "c_id c = ce_cycle ev"
    by blast
  moreover define u where "u = SUPERSEDE_OLDER_LEASE_EVENTS now (ce_cycle ev) (ce_row ev) (ce_seq ev)
          (ctx_state_version ctx) (ctx_lease ctx)
          (CANCEL_OLDER_LEASE_DECISIONS now (ce_cycle ev) (ctx_state_version ctx) (ctx_lease ctx) s1)"
  define n where "n = (\<lambda>c :: cycle_row. skip_positions (length (events u)) (ce_cycle ev) (events u) (c_next c))"
  have "cycles u = cycles s1"
    by (simp add: u_def SUPERSEDE_OLDER_LEASE_EVENTS_def CANCEL_OLDER_LEASE_DECISIONS_def)
  then have ct: "cycles t = update_where (\<lambda>c. c_id c = ce_cycle ev) (\<lambda>c. c\<lparr>c_next := n c\<rparr>) (cycles s1)"
    by (simp add: t SKIP_COMPLETED_CONVERGENCE_EVENTS_def n_def flip: u_def)
  ultimately have "(?set c)\<lparr>c_next := n (?set c)\<rparr> \<in> set (cycles t)"
    unfolding ct by (intro update_where_in(1)) simp_all
  with \<open>c_id c = _\<close> have "\<exists>c \<in> set (cycles t). c_id c = ce_cycle ev \<and> c_lease c = Some (ctx_lease ctx) \<and>
      c_state_version c = Some (ctx_state_version ctx) \<and> c_context c = Some (ctx_payload ctx)"
    by (auto elim!: rev_bexI)
  moreover have "d_lease d = ctx_lease ctx \<and> d_state_version d = ctx_state_version ctx"
    if "d \<in> set (decisions t)" "d_cycle d = ce_cycle ev" "open_decision (d_status d)" for d
    using that unfolding t SKIP_COMPLETED_CONVERGENCE_EVENTS_def SUPERSEDE_OLDER_LEASE_EVENTS_def
      CANCEL_OLDER_LEASE_DECISIONS_def
    by (auto elim!: in_update_whereE simp: cancel_decision_def split: if_splits)
  moreover have "ev_lease (e_body e) = None \<or>
      (ev_lease (e_body e) = Some (ctx_lease ctx) \<and> ev_state_version (e_body e) = ctx_state_version ctx)"
    if "e \<in> set (events t)" "e_cycle e = ce_cycle ev" "e_id e \<noteq> ce_row ev" "e_seq e < ce_seq ev"
      "open_event (e_status e)" "e_type e \<in> {Session_started, Observation_updated}" for e
    using that unfolding t SKIP_COMPLETED_CONVERGENCE_EVENTS_def SUPERSEDE_OLDER_LEASE_EVENTS_def
    by (auto elim!: in_update_whereE simp: retire_event_def split: if_splits)
  ultimately show ?thesis by blast
qed

end
