(* ===== verification/TransactionSafety.thy ===== *)
theory TransactionSafety
  imports AdmissionSafety ResponseFacts PlanningFacts InboxMaintenance
begin

text \<open>
  Every other transaction of the repositories keeps the invariant of the database: the ones that
  insert a row or claim one are done here one by one, the rest keep the shape.
\<close>

section \<open>Claims\<close>

lemma claim_candidate_ok:
  assumes l: "locked_rows s e c r" and d: "due now m e" and ok: "db_ok s"
  shows "db_ok (snd (claim_candidate now w ttl m (e, c, r) s))"
proof -
  have o: "open_event (e_status e)" using d by (rule due_open)
  obtain fence s1 where g: "enter_generation now (event_disposition e r) e c r s = (fence, s1)" by fastforce
  have k: "keeps s s1" using keeps_enter_generation[OF l, of now] g by simp
  then have n: "next_uuid s1 = next_uuid s" by (simp add: keeps_def shape_def)
  obtain s2 where u: "draw_uuid s1 = (next_uuid s, s2)" by (simp add: draw_uuid_def n)
  have "db_ok (snd (CLAIM_EVENT now m (e_id e) (next_uuid s) fence ttl w s2))"
    using db_ok_CLAIM_EVENT[OF keeps_db_ok[OF k ok] refl] u n by simp
  moreover have "db_ok (supersede_locked_event now e s)"
    using keeps_db_ok[OF keeps_supersede_locked[OF l o] ok] .
  moreover have "db_ok (MARK_CYCLE_MANUAL (e_cycle e) (MARK_UNCLAIMED_EVENT_MANUAL now (e_id e) s))"
    using keeps_db_ok[OF keeps_trans[OF keeps_statements(8) keeps_statements(9)] ok] locked_open[OF l o]
    by blast
  ultimately show ?thesis
    using ok by (simp add: claim_candidate_def hosted_chat_cycle_is_processable_def g u case_prod_beta
        split: option.split)
qed

lemma claim_step_ok: "db_ok s \<Longrightarrow> db_ok (snd (claim_step locks now w ttl m s))"
proof (cases rule: claim_step_cases[of locks now w ttl m s])
  case (2 e c r)
  assume ok: "db_ok s"
  have "locked_rows s e c r" using db_ok_parts(1)[OF ok] 2 by (intro locked_rowsI) simp_all
  with claim_candidate_ok[OF this _ ok] 2 show ?thesis by simp
qed simp

lemma decision_claim_step_ok:
  assumes ok: "db_ok s" and run: "decision_claim_step locked now w ttl m s = Inr (out, t)"
  shows "db_ok t"
  using run
proof (cases rule: decision_claim_step_cases)
  case cancelled
  with keeps_db_ok[OF cancelled_step_keeps[OF db_ok_parts(1)[OF ok]] ok] show ?thesis by simp
next
  case (claimed d c r e q s1)
  have "t = snd (CLAIM_DECISION now m (d_id d) (next_uuid s) (s_fence r) ttl w (snd (draw_uuid s)))"
    using claimed(5,6) by simp
  with db_ok_CLAIM_DECISION[OF ok _ claimed(3)] claimed(1) show ?thesis by (simp add: in_decision_join)
qed (use ok in simp)

lemma claim_next_decision_ok:
  assumes ok: "db_ok s" and run: "claim_next_decision locked now w ttl m s = Inr (out, t)"
  shows "db_ok t"
proof -
  have "decision_claim_loop locked now w ttl m s = Inr (out, t) \<Longrightarrow> db_ok s \<Longrightarrow> db_ok t" for s
  proof (induction locked now w ttl m s rule: decision_claim_loop.induct)
    case (1 locked now w ttl m s)
    from 1(2) obtain x u where st: "decision_claim_step locked now w ttl m s = Inr (x, u)"
      by (subst (asm) decision_claim_loop.simps) (auto split: sum.splits)
    note u = decision_claim_step_ok[OF 1(3) st]
    show ?case
    proof (cases x)
      case Decision_again
      then have "decision_claim_loop locked now w ttl m u = Inr (out, t)"
        using 1(2) st by (subst (asm) decision_claim_loop.simps) simp
      then show ?thesis using 1(1)[OF st, of x u] Decision_again u by simp
    qed (use 1(2) st u in \<open>subst (asm) decision_claim_loop.simps, simp\<close>)+
  qed
  with assms show ?thesis by (auto simp: claim_next_decision_def split: if_splits)
qed

section \<open>Plans\<close>

lemma drawn_tracking_ok:
  "db_ok s \<Longrightarrow> t_id q = next_uuid s \<Longrightarrow>
   db_ok (s\<lparr>next_uuid := Suc (next_uuid s), trackings := trackings s @ [q]\<rparr>)"
proof -
  assume "db_ok s" "t_id q = next_uuid s"
  then have "db_ok (s\<lparr>trackings := trackings s @ [q], next_uuid := Suc (next_uuid s)\<rparr>)" by (rule db_ok_tracking)
  moreover have "s\<lparr>next_uuid := Suc (next_uuid s), trackings := trackings s @ [q]\<rparr> =
      s\<lparr>trackings := trackings s @ [q], next_uuid := Suc (next_uuid s)\<rparr>" by simp
  ultimately show ?thesis by (simp only:)
qed

lemma track_action_ok: "track_action ev action s = (tr, t) \<Longrightarrow> db_ok s \<Longrightarrow> db_ok t"
  using drawn_tracking_ok[of s]
  by (auto simp: track_action_def INSERT_ACTION_TRACKING_def draw_uuid_def Let_def split: option.splits)

lemma insert_plan_ok:
  assumes ok: "db_ok s" and row: "LOCK_PLAN_SOURCE (ce_row ev) s = Some row" "plan_fence_matches row ev ctx = Inr True"
    and run: "insert_plan now cfg ev ctx action binding i frozen capacity s = Inr (res, t)"
  shows "db_ok t"
  using run
proof (cases rule: insert_plan_cases)
  case (1 tr s1 row' s2 deadline d)
  obtain e c r where ecr: "row = (e, c, r)" by (cases row)
  have e: "e \<in> set (events s)" "e_id e = ce_row ev" "c \<in> set (cycles s)"
    using find_SomeD[OF row(1)[unfolded LOCK_PLAN_SOURCE_def ecr]] by (auto simp: in_event_join)
  have c: "c_id c = ce_cycle ev"
    using row(2) unfolding ecr plan_fence_matches_def prod.case all_checks_True by simp
  note same = track_action_same[OF 1(1)]
  have s2: "row' = next_uuid s1" "s2 = s1\<lparr>next_uuid := Suc (next_uuid s1)\<rparr>"
    using 1(2) by (auto simp: draw_uuid_def)
  have d: "d_id d = next_uuid s1" "d_claim d = no_claim" "d_status d = D_planned" "d_cycle d = ce_cycle ev"
    "d_source d = ce_row ev" by (simp_all add: 1(3) planned_row_def s2(1))
  have "db_ok (s1\<lparr>decisions := decisions s1 @ [d], next_uuid := Suc (next_uuid s1)\<rparr>)"
    by (rule db_ok_decision[OF track_action_ok[OF 1(1) ok] d(1-3)])
       (use 1(5) e c d(4,5) same in \<open>auto simp: s2(2)\<close>)
  moreover have "t = s1\<lparr>decisions := decisions s1 @ [d], next_uuid := Suc (next_uuid s1)\<rparr>"
    by (simp add: 1(4) s2(2))
  ultimately show ?thesis by simp
qed

lemma plan_decision_ok:
  assumes ok: "db_ok s" and run: "plan_decision now cfg freeze i ev ctx action binding s = (res, t)"
  shows "db_ok t"
proof (cases rule: plan_decision_cases[of now cfg freeze i ev ctx action binding s])
  case committed
  from committed[unfolded run] show ?thesis
  proof (cases rule: plan_transaction_cases)
    case (created frozen capacity row)
    then show ?thesis using insert_plan_ok[OF ok] by blast
  qed (use ok keeps_db_ok[OF keeps_outbox_statements(1)] in auto)
qed (use ok run in simp)

section \<open>Skill calls\<close>

lemma insert_drawn_call_ok:
  assumes ok: "db_ok s" and u: "draw_uuid s = (i, s1)" and ins: "insert_call k s1 = Inr t" and k: "k_id k = i"
    and d: "d \<in> set (decisions s)" "d_id d = k_decision k" "d_gateway d = k_gateway k" "d_decision_id d = k_decision_id k"
    and none: "\<forall>l \<in> set (calls s). k_decision l \<noteq> k_decision k"
  shows "db_ok t"
proof -
  have s1: "i = next_uuid s" "s1 = s\<lparr>next_uuid := Suc (next_uuid s)\<rparr>" using u by (auto simp: draw_uuid_def)
  have new: "\<forall>l \<in> set (calls s). \<not> call_conflicts k l" "t = s\<lparr>calls := calls s @ [k], next_uuid := Suc (next_uuid s)\<rparr>"
    using ins by (auto simp: insert_call_def s1(2) split: if_splits)
  show ?thesis
    unfolding new(2)
    by (rule db_ok_call[OF ok _ _ _ d]) (use new(1) none k s1(1) in \<open>auto simp: call_conflicts_def\<close>)
qed

lemma INSERT_PENDING_ok:
  assumes ok: "db_ok s" and d: "d \<in> set (decisions s)" "d_id d = row" "d_gateway d = gw" "d_decision_id d = i"
    and none: "\<forall>l \<in> set (calls s). k_decision l \<noteq> row"
    and run: "INSERT_PENDING_SKILL_CALL now tenant row gw sid i c skill eff s = Inr t"
  shows "db_ok t"
  using run insert_drawn_call_ok[OF ok] d none
  by (auto simp: INSERT_PENDING_SKILL_CALL_def Let_def split: prod.splits)

lemma INSERT_STARTED_ok:
  assumes ok: "db_ok s" and d: "d \<in> set (decisions s)" "d_gateway d = gw" "d_decision_id d = i"
    and none: "\<forall>l \<in> set (calls s). k_decision l \<noteq> d_id d"
    and run: "INSERT_STARTED now tenant d gw sid i c skill s = Inr t"
  shows "db_ok t"
  using run insert_drawn_call_ok[OF ok] d none
  by (auto simp: INSERT_STARTED_def Let_def split: prod.splits)

lemma INSERT_TERMINAL_ok:
  assumes ok: "db_ok s" and d: "d \<in> set (decisions s)" "d_gateway d = gw" "d_decision_id d = i"
    and none: "\<forall>l \<in> set (calls s). k_decision l \<noteq> d_id d"
    and run: "INSERT_TERMINAL now tenant d ev gw sid i c skill r eff s = Inr (row, t)"
  shows "db_ok t"
  using run insert_drawn_call_ok[OF ok] d none
  by (auto simp: INSERT_TERMINAL_def Let_def split: prod.splits sum.splits)

text \<open>A located call that is missing: its decision has none.\<close>

lemma located_none:
  assumes "locate_call ev i c n s = Inr (Inr (d, skill, None))"
  shows "d \<in> set (decisions s)" "d_gateway d = ce_gateway ev" "d_decision_id d = i"
    "\<forall>l \<in> set (calls s). k_decision l \<noteq> d_id d"
  using LOCK_DECISION_SomeD[OF locate_call_cases(1)[OF assms]] locate_call_cases(5)[OF assms]
  by (auto simp: LOCK_SKILL_CALL_FOR_DECISION_def dest: one_or_none_NoneD)

lemma record_skill_started_ok:
  assumes ok: "db_ok s" and run: "record_skill_started now ev s = Inr (res, t)"
  shows "db_ok t"
proof (cases "ev_payload (ce_body ev)")
  case (Started_skill i c n)
  with run obtain x where x: "locate_call ev i c n s = Inr x"
    by (auto simp: record_skill_started_def split: sum.splits)
  show ?thesis
  proof (cases x)
    case (Inl refusal)
    with run Started_skill x ok show ?thesis by (simp add: record_skill_started_def)
  next
    case (Inr y)
    obtain d skill found where y: "y = (d, skill, found)" by (cases y)
    show ?thesis
    proof (cases found)
      case None
      from located_none[of ev i c n s d skill] x Inr y None have l: "d \<in> set (decisions s)"
        "d_gateway d = ce_gateway ev" "d_decision_id d = i" "\<forall>l \<in> set (calls s). k_decision l \<noteq> d_id d" by simp_all
      from run Started_skill x Inr y None
      have "INSERT_STARTED now (ce_tenant ev) d (ce_gateway ev) (ce_session ev) i c skill s = Inr t"
        by (auto simp: record_skill_started_def split: sum.splits)
      with INSERT_STARTED_ok[OF ok l] show ?thesis .
    next
      case (Some k)
      with run Started_skill x Inr y have "t = s \<or> t = MARK_STARTED now (k_id k) s"
        by (auto simp: record_skill_started_def split: if_splits)
      with ok keeps_db_ok[OF keeps_mark_statements(1)] show ?thesis by auto
    qed
  qed
qed (use run in \<open>simp_all add: record_skill_started_def\<close>)

lemma record_skill_finished_ok:
  assumes ok: "db_ok s" and run: "record_skill_finished now ev s = Inr (res, t)"
  shows "db_ok t"
proof (cases "ev_payload (ce_body ev)")
  case (Finished_skill i c n fin)
  let ?in = "(normalize_skill_terminal fin)\<lparr>tr_event := Some (ev_id (ce_body ev))\<rparr>"
  from run Finished_skill obtain x where x: "locate_call ev i c n s = Inr x"
    by (auto simp: record_skill_finished_def Let_def split: sum.splits)
  show ?thesis
  proof (cases x)
    case (Inl refusal)
    with run Finished_skill x ok show ?thesis by (simp add: record_skill_finished_def Let_def)
  next
    case (Inr y)
    obtain d skill found where y: "y = (d, skill, found)" by (cases y)
    let ?eff = "if d_tracking d \<noteq> None then Eff_pending else Eff_not_applicable"
    show ?thesis
    proof (cases found)
      case None
      from located_none[of ev i c n s d skill] x Inr y None have l: "d \<in> set (decisions s)"
        "d_gateway d = ce_gateway ev" "d_decision_id d = i" "\<forall>l \<in> set (calls s). k_decision l \<noteq> d_id d" by simp_all
      from run Finished_skill x Inr y None obtain row u where
        ins: "INSERT_TERMINAL now (ce_tenant ev) d (ce_row ev) (ce_gateway ev) (ce_session ev) i c skill ?in ?eff s =
            Inr (row, u)"
        and eff: "apply_effect now row (d_tracking d) (tr_status ?in) u = Inr t"
        by (auto simp: record_skill_finished_def Let_def split: sum.splits)
      from keeps_db_ok[OF keeps_apply_effect[OF eff] INSERT_TERMINAL_ok[OF ok l ins]] show ?thesis .
    next
      case (Some k)
      with run Finished_skill x Inr y have "t = s \<or> finish_call now ev d k ?in ?eff s = Inr (res, t)"
        by (auto simp: record_skill_finished_def Let_def split: if_splits)
      with ok keeps_db_ok[OF keeps_finish_call[of now ev d k ?in ?eff s res t]] normalized_status[of fin]
      show ?thesis by auto
    qed
  qed
qed (use run in \<open>simp_all add: record_skill_finished_def Let_def\<close>)

section \<open>Responses\<close>

text \<open>What a claimed decision says of its row, in the columns that never change.\<close>

definition handed_decision :: "claimed_decision \<Rightarrow> db \<Rightarrow> bool" where
  "handed_decision cd s \<longleftrightarrow> (\<exists>d \<in> set (decisions s). d_id d = cd_row cd \<and> d_gateway d = cd_gateway cd \<and>
     d_decision_id d = cd_decision_id cd \<and> d_action d = cd_action cd)"

lemma handed_decision_mono: "handed_decision cd s \<Longrightarrow> db_le s t \<Longrightarrow> handed_decision cd t"
  unfolding handed_decision_def
  by (elim bexE, drule (1) db_le_rows(4), elim bexE, rule rev_bexI, assumption) (simp add: decision_le_def)

lemma handed_decision_of: "keys_ok s \<Longrightarrow> handed_decision cd s \<Longrightarrow> decision_of cd s"
  unfolding handed_decision_def decision_of_def using decision_key_unique by metis

lemma accept_call_ok:
  assumes ok: "db_ok s" and d: "d \<in> set (decisions s)" "d_id d = cd_row cd" "d_gateway d = cd_gateway cd"
      "d_decision_id d = cd_decision_id cd"
    and run: "accept_call now cd d c s = Inr (x, t)"
  shows "db_ok t"
proof (cases "decision_skill_name d")
  case None
  with run ok show ?thesis by (auto simp: accept_call_def)
next
  case (Some skill)
  with run obtain y where y: "LOCK_RESPONSE_CALL_FOR_DECISION (cd_row cd) s = Inr y"
    by (auto simp: accept_call_def split: sum.splits)
  show ?thesis
  proof (cases "(y \<noteq> None \<and> k_call_id (the y) \<noteq> c) \<or> LOCK_RESPONSE_SKILL_CALL (cd_gateway cd) c s \<noteq> None")
    case True
    with run Some y ok keeps_db_ok[OF keeps_outbox_statements(4)] show ?thesis
      by (auto simp: accept_call_def split: if_splits option.splits)
  next
    case False
    then have none: "LOCK_RESPONSE_SKILL_CALL (cd_gateway cd) c s = None" by simp
    have "y = None" using accept_call_none[OF db_ok_parts(5)[OF ok] d(1-3) y _ none] False by auto
    with y have "\<forall>l \<in> set (calls s). k_decision l \<noteq> cd_row cd"
      by (auto simp: LOCK_RESPONSE_CALL_FOR_DECISION_def dest: one_or_none_NoneD)
    moreover from run Some y False \<open>y = None\<close> none
    have "INSERT_PENDING_SKILL_CALL now (cd_tenant cd) (cd_row cd) (cd_gateway cd) (cd_session cd)
        (cd_decision_id cd) c skill (if d_tracking d \<noteq> None then Eff_pending else Eff_not_applicable) s = Inr t"
      by (auto simp: accept_call_def split: sum.splits)
    ultimately show ?thesis using INSERT_PENDING_ok[OF ok d] by blast
  qed
qed

lemma record_decision_response_ok:
  assumes ok: "db_ok s" and cd: "handed_decision cd s" and run: "record_decision_response now cd res s = Inr (b, t)"
  shows "db_ok t"
proof -
  have complete: "db_ok v" if "COMPLETE_DECISION_RESPONSE now row tok fe st rsp er u = (b, v)" "db_ok u"
    for row tok fe st rsp er u v
    using keeps_db_ok[OF keeps_results(3)[OF that(1)] that(2)] .
  have response: "db_ok u" if l: "lock_claimed_decision cd s = Inr (Some (d, c, r))"
    and out: "response_outcome now cd d res s = Inr (x, u)" for d c r x u
  proof -
    note d = lock_claimed_decision_SomeD[OF l]
    obtain q where q: "q \<in> set (decisions s)" "d_id q = cd_row cd" "d_gateway q = cd_gateway cd"
      "d_decision_id q = cd_decision_id cd" using cd by (auto simp: handed_decision_def)
    have "d_id d = cd_row cd" using d(6) by (simp add: holds_decision_claim_def)
    with decision_key_unique[OF db_ok_parts(1)[OF ok] q(1) d(1)] q(2) have "d = q" by simp
    with out ok accept_call_ok[OF ok q] show ?thesis
      by (auto simp: response_outcome_def split: if_splits option.splits sum.splits)
  qed
  from run obtain y where y: "lock_claimed_decision cd s = Inr y"
    by (auto simp: record_decision_response_def split: sum.splits)
  show ?thesis
  proof (cases y)
    case None
    with run y ok show ?thesis by (simp add: record_decision_response_def)
  next
    case (Some row)
    obtain d c r where row: "row = (d, c, r)" by (cases row)
    from run y Some row obtain fence where f: "decision_fence_error now (cl_fence (d_claim d)) d c r = Inr fence"
      by (auto simp: record_decision_response_def split: sum.splits)
    show ?thesis
    proof (cases fence)
      case None
      with run y Some row f obtain st category i u where out: "response_outcome now cd d res s = Inr ((st, category, i), u)"
        and c: "COMPLETE_DECISION_RESPONSE now (cd_row cd) (Some (cd_token cd)) (Some (cd_fence cd)) st
          \<lparr>rs_http_status = Some (cr_http res), rs_status = Some (response_text (cr_status res)),
           rs_reason = Some (take 256 (cr_reason res)), rs_body = jsonb_param (cr_body res), rs_call_id = i\<rparr>
          (map_option (\<lambda>_. ''http'') category, category) u = (b, t)"
        by (auto simp: record_decision_response_def split: sum.splits)
      from complete[OF c response[OF _ out]] y Some row show ?thesis by simp
    next
      case (Some category)
      with run y \<open>y = Some row\<close> row f ok show ?thesis by (simp add: record_decision_response_def)
    qed
  qed
qed

end
