(* ===== verification/Competitive.thy ===== *)
theory Competitive
  imports Canonical "HOL-Library.Word"
begin

text \<open>
  The arguments the gateway makes up for skills that compete for a score (\<open>competitive_activity.py\<close>) or
  fly a paper plane (\<open>paper_plane.py\<close>): they are drawn from the SHA-256 digest of a seed, so the same
  event always gets the same arguments.  The digest function is the parameter \<open>sha256\<close>; what the code
  relies on is that a digest has 32 bytes.
\<close>

section \<open>Constants\<close>

definition DART_ITEMS :: "string list" where
  "DART_ITEMS = [''general'', ''elementary'', ''advanced'']"

definition DANCE_SCORE_MIN :: int where "DANCE_SCORE_MIN = 70"

definition DANCE_SCORE_MAX :: int where "DANCE_SCORE_MAX = 120"

definition SHOOTING_PROJECTS :: "(string \<times> string \<times> string) list" where
  "SHOOTING_PROJECTS =
     [(''10m'', ''pistol'', ''standing''), (''10m'', ''rifle'', ''standing''), (''25m'', ''pistol'', ''standing''),
      (''50m'', ''rifle'', ''standing''), (''50m'', ''rifle'', ''crouching''), (''50m'', ''rifle'', ''prone'')]"

definition CORRECTABLE_FAILURE_REASONS :: "string \<Rightarrow> string list option" where
  "CORRECTABLE_FAILURE_REASONS = map_of
     [(''darts_auto_schedule'',
       [''darts_score_invalid'', ''darts_score_exceeds_limit'', ''darts_dart_plan_invalid'',
        ''darts_dart_item_invalid'', ''darts_dart_count_invalid'', ''darts_dart_pos_invalid'',
        ''darts_score_below_limit'']),
      (''dance_auto_schedule'',
       [''dance_score_invalid'', ''dance_score_exceeds_limit'', ''dance_score_below_limit'']),
      (''shooting_auto_schedule'',
       [''shooting_distance_invalid'', ''shooting_weapon_invalid'', ''shooting_posture_invalid'',
        ''shooting_score_invalid'', ''shooting_score_exceeds_limit'', ''shooting_project_invalid'',
        ''shooting_game_mode_invalid'', ''shooting_table_num_invalid'', ''shooting_score_below_limit'']),
      (''paper_plane_auto_schedule'',
       [''paper_plane_plane_name_invalid'', ''paper_plane_use_time_ms_invalid'',
        ''paper_plane_use_time_ms_out_of_range''])]"

text \<open>The three names of a paper plane in UTF-8: novice, intermediate, advanced grade.\<close>

definition utf8_name :: "nat list \<Rightarrow> string" where
  "utf8_name bytes = map char_of (bytes @ [0xE7, 0xBA, 0xA7])"

definition PAPER_PLANE_NAMES :: "string list" where
  "PAPER_PLANE_NAMES =
     [utf8_name [0xE5, 0x88, 0x9D], utf8_name [0xE4, 0xB8, 0xAD], utf8_name [0xE9, 0xAB, 0x98]]"

definition PAPER_PLANE_DURATION_RANGES_MS :: "string \<Rightarrow> (int \<times> int) option" where
  "PAPER_PLANE_DURATION_RANGES_MS = map_of
     (zip PAPER_PLANE_NAMES [(100000, 200000), (90000, 180000), (70000, 130000)])"

section \<open>Seeds\<close>

definition seed_values ::
  "string \<Rightarrow> string \<Rightarrow> string option \<Rightarrow> int \<Rightarrow> int \<Rightarrow> string \<Rightarrow> int \<Rightarrow> string list" where
  "seed_values session event account generation sequence lease version =
     [session, event, (case account of None \<Rightarrow> [] | Some a \<Rightarrow> a), int_str generation, int_str sequence, lease,
      int_str version]"

definition competitive_activity_seed ::
  "string \<Rightarrow> string \<Rightarrow> string \<Rightarrow> string option \<Rightarrow> int \<Rightarrow> int \<Rightarrow> string \<Rightarrow> int \<Rightarrow> string" where
  "competitive_activity_seed skill session event account generation sequence lease version =
     ''competitive-activity:'' @
     join (CHR '':'') (skill # seed_values session event account generation sequence lease version)"

definition paper_plane_arguments_seed ::
  "string \<Rightarrow> string \<Rightarrow> string option \<Rightarrow> int \<Rightarrow> int \<Rightarrow> string \<Rightarrow> int \<Rightarrow> string" where
  "paper_plane_arguments_seed session event account generation sequence lease version =
     ''paper-plane:'' @ join (CHR '':'') (seed_values session event account generation sequence lease version)"

section \<open>Building arguments\<close>

type_synonym arguments = "(string \<times> json) list"

definition from_bytes_big :: "8 word list \<Rightarrow> int" where
  "from_bytes_big bs = foldl (\<lambda>n b. n * 256 + uint b) 0 bs"

definition stable_int :: "8 word list \<Rightarrow> nat \<Rightarrow> int \<Rightarrow> int \<Rightarrow> string + int" where
  "stable_int digest offset minimum maximum =
     (if minimum > maximum then Inl ''invalid score range''
      else Inr (minimum + from_bytes_big (take 8 (drop offset digest)) mod (maximum - minimum + 1)))"

definition dart_counts :: "8 word list \<Rightarrow> int list" where
  "dart_counts digest =
     (let first = uint (digest ! 8) mod 10; second = first + uint (digest ! 9) mod (10 - first) in
      [first, second - first, 9 - second])"

definition build_darts_arguments :: "(string \<Rightarrow> 8 word list) \<Rightarrow> string \<Rightarrow> string + arguments" where
  "build_darts_arguments sha256 seed =
     (case stable_int (sha256 seed) 0 1 50 of
        Inl e \<Rightarrow> Inl e
      | Inr score \<Rightarrow> Inr
          [(''score'', JInt score),
           (''darts'', JArr (map (\<lambda>(item, count). JObj [(''dartItem'', JStr item), (''count'', JInt count)])
              (zip DART_ITEMS (dart_counts (sha256 seed))))),
           (''allowPurchaseWhenInsufficient'', JBool False)])"

definition build_shooting_arguments :: "(string \<Rightarrow> 8 word list) \<Rightarrow> string \<Rightarrow> string + arguments" where
  "build_shooting_arguments sha256 seed =
     (let digest = sha256 seed;
          (distance, weapon, posture) = SHOOTING_PROJECTS ! (unat (digest ! 0) mod length SHOOTING_PROJECTS) in
      case stable_int digest 1 30 80 of
        Inl e \<Rightarrow> Inl e
      | Inr score \<Rightarrow> Inr [(''distance'', JStr distance), (''weapon'', JStr weapon), (''posture'', JStr posture),
          (''score'', JInt score)])"

definition build_dance_arguments :: "(string \<Rightarrow> 8 word list) \<Rightarrow> string \<Rightarrow> string + arguments" where
  "build_dance_arguments sha256 seed =
     map_sum id (\<lambda>score. [(''score'', JInt score)])
       (stable_int (sha256 seed) 0 DANCE_SCORE_MIN DANCE_SCORE_MAX)"

text \<open>The name drawn is a key of the table of ranges: a missing one would be a \<open>KeyError\<close>.\<close>

definition build_paper_plane_arguments :: "(string \<Rightarrow> 8 word list) \<Rightarrow> string \<Rightarrow> string + arguments" where
  "build_paper_plane_arguments sha256 seed =
     (let digest = sha256 seed; name = PAPER_PLANE_NAMES ! (unat (digest ! 0) mod length PAPER_PLANE_NAMES) in
      case PAPER_PLANE_DURATION_RANGES_MS name of
        None \<Rightarrow> Inl ''KeyError''
      | Some (minimum, maximum) \<Rightarrow> Inr
          [(''planeName'', JStr name),
           (''useTimeMs'', JInt (minimum + from_bytes_big (take 8 (drop 1 digest)) mod (maximum - minimum + 1))),
           (''isComplete'', JBool True)])"

section \<open>Checking arguments\<close>

definition int_within :: "int \<Rightarrow> int \<Rightarrow> json option \<Rightarrow> bool" where
  "int_within a b v = (case v of Some (JInt n) \<Rightarrow> a \<le> n \<and> n \<le> b | _ \<Rightarrow> False)"

fun dart_item_count :: "json \<Rightarrow> string \<Rightarrow> int option" where
  "dart_item_count (JObj kvs) name =
     (if set (map fst kvs) = {''dartItem'', ''count''} \<and> map_of kvs ''dartItem'' = Some (JStr name) \<and>
         int_within 0 9 (map_of kvs ''count'')
      then (case map_of kvs ''count'' of Some (JInt n) \<Rightarrow> Some n | _ \<Rightarrow> None) else None)"
| "dart_item_count _ name = None"

fun dart_total :: "(json \<times> string) list \<Rightarrow> int option" where
  "dart_total [] = Some 0"
| "dart_total ((item, name) # rest) =
     (case dart_item_count item name of None \<Rightarrow> None
      | Some n \<Rightarrow> map_option (\<lambda>m. n + m) (dart_total rest))"

definition is_valid_darts_arguments :: "arguments \<Rightarrow> bool" where
  "is_valid_darts_arguments value \<longleftrightarrow>
     set (map fst value) = {''score'', ''darts'', ''allowPurchaseWhenInsufficient''} \<and>
     int_within 1 50 (map_of value ''score'') \<and>
     map_of value ''allowPurchaseWhenInsufficient'' = Some (JBool False) \<and>
     (case map_of value ''darts'' of
        Some (JArr items) \<Rightarrow> length items = length DART_ITEMS \<and> dart_total (zip items DART_ITEMS) = Some 9
      | _ \<Rightarrow> False)"

definition is_valid_shooting_arguments :: "arguments \<Rightarrow> bool" where
  "is_valid_shooting_arguments value \<longleftrightarrow>
     set (map fst value) = {''distance'', ''weapon'', ''posture'', ''score''} \<and>
     list_ex (\<lambda>(d, w, p). map_of value ''distance'' = Some (JStr d) \<and> map_of value ''weapon'' = Some (JStr w) \<and>
       map_of value ''posture'' = Some (JStr p)) SHOOTING_PROJECTS \<and>
     int_within 30 80 (map_of value ''score'')"

definition is_valid_dance_arguments :: "arguments \<Rightarrow> bool" where
  "is_valid_dance_arguments value \<longleftrightarrow>
     set (map fst value) = {''score''} \<and> int_within DANCE_SCORE_MIN DANCE_SCORE_MAX (map_of value ''score'')"

text \<open>\<open>None\<close> is the \<open>TypeError\<close> of looking up a list or an object in a \<open>dict\<close>.\<close>

definition is_valid_paper_plane_arguments :: "arguments \<Rightarrow> bool option" where
  "is_valid_paper_plane_arguments value =
     (if set (map fst value) \<noteq> {''planeName'', ''useTimeMs'', ''isComplete''} then Some False
      else case map_of value ''planeName'' of
        Some (JArr _) \<Rightarrow> None
      | Some (JObj _) \<Rightarrow> None
      | Some (JStr name) \<Rightarrow>
          (case PAPER_PLANE_DURATION_RANGES_MS name of
             None \<Rightarrow> Some False
           | Some (minimum, maximum) \<Rightarrow>
               Some (int_within minimum maximum (map_of value ''useTimeMs'') \<and>
                 map_of value ''isComplete'' = Some (JBool True)))
      | _ \<Rightarrow> Some False)"

definition is_correctable_skill_failure :: "string \<Rightarrow> string \<Rightarrow> bool" where
  "is_correctable_skill_failure skill reason \<longleftrightarrow>
     (case CORRECTABLE_FAILURE_REASONS skill of None \<Rightarrow> False | Some rs \<Rightarrow> reason \<in> set rs)"

section \<open>What is built is valid\<close>

lemma mod_within: "(a :: int) \<le> b \<Longrightarrow> a \<le> a + x mod (b - a + 1) \<and> a + x mod (b - a + 1) \<le> b"
  using pos_mod_sign[of "b - a + 1" x] pos_mod_bound[of "b - a + 1" x] by linarith

lemma stable_int_within:
  "a \<le> b \<Longrightarrow> \<exists>n. stable_int digest k a b = Inr n \<and> a \<le> n \<and> n \<le> b"
  using mod_within[of a b] by (simp add: stable_int_def)

lemma dart_counts_nine:
  obtains a b c where "dart_counts digest = [a, b, c]" "0 \<le> a" "0 \<le> b" "0 \<le> c" "a + b + c = 9"
proof -
  let ?f = "uint (digest ! 8) mod 10"
  let ?d = "uint (digest ! 9) mod (10 - ?f)"
  have f: "0 \<le> ?f" "?f < 10" using pos_mod_sign pos_mod_bound by simp_all
  then have "0 \<le> ?d" "?d < 10 - ?f" using pos_mod_sign pos_mod_bound by simp_all
  with f show thesis
    by (intro that[of ?f ?d "9 - (?f + ?d)"]; (simp only: dart_counts_def Let_def list.inject; linarith)?)
      (simp add: dart_counts_def Let_def)
qed

lemma built_darts: "\<exists>a. build_darts_arguments sha256 seed = Inr a \<and> is_valid_darts_arguments a"
proof -
  obtain n where n: "stable_int (sha256 seed) 0 1 50 = Inr n" "1 \<le> n" "n \<le> 50"
    using stable_int_within[of 1 50] by force
  obtain a b c where abc: "dart_counts (sha256 seed) = [a, b, c]" "0 \<le> a" "0 \<le> b" "0 \<le> c" "a + b + c = 9"
    by (rule dart_counts_nine)
  then have "a \<le> 9" "b \<le> 9" "c \<le> 9" by simp_all
  with n abc show ?thesis
    by (simp add: build_darts_arguments_def is_valid_darts_arguments_def DART_ITEMS_def int_within_def)
qed

lemma built_dance: "\<exists>a. build_dance_arguments sha256 seed = Inr a \<and> is_valid_dance_arguments a"
proof -
  obtain n where "stable_int (sha256 seed) 0 DANCE_SCORE_MIN DANCE_SCORE_MAX = Inr n"
    "DANCE_SCORE_MIN \<le> n" "n \<le> DANCE_SCORE_MAX"
    using stable_int_within[of DANCE_SCORE_MIN DANCE_SCORE_MAX] by (force simp: DANCE_SCORE_MIN_def DANCE_SCORE_MAX_def)
  then show ?thesis by (simp add: build_dance_arguments_def is_valid_dance_arguments_def int_within_def)
qed

lemma built_shooting: "\<exists>a. build_shooting_arguments sha256 seed = Inr a \<and> is_valid_shooting_arguments a"
proof -
  obtain n where n: "stable_int (sha256 seed) 1 30 80 = Inr n" "30 \<le> n" "n \<le> 80"
    using stable_int_within[of 30 80] by force
  let ?i = "unat (sha256 seed ! 0) mod length SHOOTING_PROJECTS"
  obtain d w p where p: "SHOOTING_PROJECTS ! ?i = (d, w, p)" by (cases "SHOOTING_PROJECTS ! ?i") auto
  have "?i < length SHOOTING_PROJECTS" by (simp add: SHOOTING_PROJECTS_def)
  with p have "(d, w, p) \<in> set SHOOTING_PROJECTS" by (metis nth_mem)
  with n show ?thesis
    by (auto simp: build_shooting_arguments_def is_valid_shooting_arguments_def p Let_def int_within_def list_ex_iff
        intro!: bexI[of _ "(d, w, p)"])
qed

lemma built_paper_plane:
  "\<exists>a. build_paper_plane_arguments sha256 seed = Inr a \<and> is_valid_paper_plane_arguments a = Some True"
proof -
  let ?name = "PAPER_PLANE_NAMES ! (unat (sha256 seed ! 0) mod length PAPER_PLANE_NAMES)"
  have "?name \<in> set PAPER_PLANE_NAMES" by (rule nth_mem) (simp add: PAPER_PLANE_NAMES_def)
  moreover have "list_all (\<lambda>n. case PAPER_PLANE_DURATION_RANGES_MS n of None \<Rightarrow> False | Some (a, b) \<Rightarrow> a \<le> b) PAPER_PLANE_NAMES"
    by code_simp
  ultimately obtain a b where ab: "PAPER_PLANE_DURATION_RANGES_MS ?name = Some (a, b)" "a \<le> b"
    by (auto simp: list_all_iff split: option.splits)
  with mod_within[of a b] show ?thesis
    by (simp add: build_paper_plane_arguments_def is_valid_paper_plane_arguments_def Let_def int_within_def)
qed

text \<open>
  C20: what the gateway makes up is well formed.  Whatever the digest of the seed, the arguments built for
  darts, shooting, dance and paper planes are built without an error and pass the validator of their skill:
  scores and durations within their ranges, three dart counts that add up to nine, a known project, a known
  plane name.
\<close>

theorem built_arguments_are_valid:
  "(\<exists>a. build_darts_arguments sha256 seed = Inr a \<and> is_valid_darts_arguments a) \<and>
   (\<exists>a. build_shooting_arguments sha256 seed = Inr a \<and> is_valid_shooting_arguments a) \<and>
   (\<exists>a. build_dance_arguments sha256 seed = Inr a \<and> is_valid_dance_arguments a) \<and>
   (\<exists>a. build_paper_plane_arguments sha256 seed = Inr a \<and> is_valid_paper_plane_arguments a = Some True)"
  by (intro conjI built_darts built_shooting built_dance built_paper_plane)

end
