(* ===== verification/ActivityRepository.thy ===== *)
theory ActivityRepository
  imports Competitive Terminal
begin

text \<open>
  The plan of a hosted session in the database (\<open>activity_plan_repository.py\<close>): loading it, preparing
  it for a decision, and moving it on when an event of its cycle reports on the current step.

  The JSON column \<open>activity_plan\<close> holds the plan; the columns \<open>activity_plan_id\<close>, \<open>activity_goal\<close>,
  \<open>activity_phase\<close>, \<open>activity_status\<close> and \<open>activity_current_step_id\<close>, which are written together with
  it and repeat its fields, have no field of their own.  A raised error rolls the transaction back, so
  it comes without a database.  Advisory locks, the retry decorator and logging are left out.
\<close>

text \<open>\<open>Activity_raised\<close> is an exception the repository lets through.\<close>

datatype activity_error = Plan_unavailable | Activity_raised db_error

record activity_context =
  ax_plan :: activity_plan
  ax_binding :: activity_binding
  ax_actions :: "(decision_row \<times> call_row option) list"
  ax_failures :: "(decision_row \<times> call_row option) list"

record activity_snapshot =
  as_plan :: "activity_plan option"
  as_actions :: "(decision_row \<times> call_row option) list"
  as_failures :: "(decision_row \<times> call_row option) list"
  as_version :: int
  as_last_sequence :: int

section \<open>Statements\<close>

definition LOCK_CYCLE_FOR_ACTIVITY ::
  "uuid \<Rightarrow> uuid \<Rightarrow> db \<Rightarrow> db_error + (event_row \<times> cycle_row \<times> session_row) option" where
  "LOCK_CYCLE_FOR_ACTIVITY cycle event s =
     one_or_none (\<lambda>(e, c, r). c_id c = cycle \<and> e_id e = event) (event_join s)"

text \<open>The last twelve decisions of the cycle, each with its skill call if it has one, the newest first.\<close>

definition decision_calls :: "db \<Rightarrow> decision_row \<Rightarrow> (decision_row \<times> call_row option) list" where
  "decision_calls s d =
     (case filter (\<lambda>k. k_decision k = d_id d) (calls s) of
        [] \<Rightarrow> [(d, None)] | ks \<Rightarrow> map (\<lambda>k. (d, Some k)) ks)"

definition SELECT_ACTIVITY_HISTORY :: "uuid \<Rightarrow> db \<Rightarrow> (decision_row \<times> call_row option) list" where
  "SELECT_ACTIVITY_HISTORY cycle s =
     take 12 (rev (sort_key (\<lambda>(d, k). (d_created_at d, d_id d))
       (concat (map (decision_calls s) (filter (\<lambda>d. d_cycle d = cycle) (decisions s))))))"

definition write_activity :: "activity_plan \<Rightarrow> cycle_row \<Rightarrow> cycle_row" where
  "write_activity p c = c\<lparr>c_activity := (c_activity c)\<lparr>ac_plan := Some p, ac_version := pl_version p\<rparr>\<rparr>"

definition activity_event_new :: "int \<Rightarrow> uuid \<Rightarrow> cycle_row \<Rightarrow> bool" where
  "activity_event_new sequence event c \<longleftrightarrow>
     (case ac_last_sequence (c_activity c) of
        None \<Rightarrow> True
      | Some n \<Rightarrow> n < sequence \<or> (n = sequence \<and> ac_last_event (c_activity c) = Some event))"

definition UPDATE_ACTIVITY_STATE :: "uuid \<Rightarrow> activity_plan \<Rightarrow> uuid \<Rightarrow> int \<Rightarrow> db \<Rightarrow> bool \<times> db" where
  "UPDATE_ACTIVITY_STATE cycle p event sequence s =
     (let hit = (\<lambda>c. c_id c = cycle \<and> open_cycle (c_status c) \<and> activity_event_new sequence event c) in
      (\<exists>c \<in> set (cycles s). hit c,
       s\<lparr>cycles := update_where hit
          (\<lambda>c. let c = write_activity p c in
             c\<lparr>c_activity := (c_activity c)\<lparr>ac_last_event := Some event, ac_last_sequence := Some sequence\<rparr>\<rparr>)
          (cycles s)\<rparr>))"

definition UPDATE_HOSTED_CHAT_ACTIVITY_STATE :: "uuid \<Rightarrow> activity_plan \<Rightarrow> db \<Rightarrow> bool \<times> db" where
  "UPDATE_HOSTED_CHAT_ACTIVITY_STATE cycle p s =
     (let hit = (\<lambda>c. c_id c = cycle \<and> open_cycle (c_status c)) in
      (\<exists>c \<in> set (cycles s). hit c,
       s\<lparr>cycles := update_where hit (write_activity p) (cycles s)\<rparr>))"

definition SELECT_DECISION_BINDING :: "uuid \<Rightarrow> string \<Rightarrow> db \<Rightarrow> db_error + decision_row option" where
  "SELECT_DECISION_BINDING cycle decision_id s =
     one_or_none (\<lambda>d. d_cycle d = cycle \<and> d_decision_id d = decision_id) (decisions s)"

definition SELECT_ACTIVITY_CYCLE :: "uuid \<Rightarrow> db \<Rightarrow> db_error + cycle_row option" where
  "SELECT_ACTIVITY_CYCLE cycle s = one_or_none (\<lambda>c. c_id c = cycle) (cycles s)"

section \<open>The parts of a transaction\<close>

definition failed_item :: "decision_row \<times> call_row option \<Rightarrow> bool" where
  "failed_item item \<longleftrightarrow>
     (case snd (d_error (fst item)) of None \<Rightarrow> False | Some category \<Rightarrow> category \<noteq> []) \<or>
     (case snd item of None \<Rightarrow> False | Some k \<Rightarrow> k_status k \<in> {K_failed, K_cancelled, K_timeout, K_manual})"

definition history_rows ::
  "(decision_row \<times> call_row option) list \<Rightarrow>
   (decision_row \<times> call_row option) list \<times> (decision_row \<times> call_row option) list" where
  "history_rows rows = (take 12 rows, take 6 (filter failed_item rows))"

text \<open>\<open>int(None)\<close> is a \<open>TypeError\<close>.\<close>

definition validate_activity_claim :: "event_row \<Rightarrow> session_row \<Rightarrow> claimed_event \<Rightarrow> activity_error option" where
  "validate_activity_claim e r ev =
     (if e_status e \<noteq> E_processing \<or> cl_token (e_claim e) \<noteq> Some (ce_token ev) then Some Plan_unavailable
      else case cl_fence (e_claim e) of
        None \<Rightarrow> Some (Activity_raised Type_Error)
      | Some fence \<Rightarrow>
          if fence \<noteq> ce_fence ev then Some Plan_unavailable
          else case s_gen r of
            None \<Rightarrow> Some (Activity_raised Type_Error)
          | Some g \<Rightarrow>
              if g \<noteq> ce_gen ev \<or> s_fence r \<noteq> ce_fence ev then Some Plan_unavailable else None)"

definition load_plan :: "cycle_row \<Rightarrow> activity_error + activity_plan option" where
  "load_plan c =
     (case ac_plan (c_activity c) of
        None \<Rightarrow> Inr None
      | Some raw \<Rightarrow>
          (case validate_activity_plan raw of Inl _ \<Rightarrow> Inl Plan_unavailable | Inr p \<Rightarrow> Inr (Some p)))"

text \<open>Locking the cycle, checking the claim and loading the plan begin every transaction.\<close>

definition begin_activity ::
  "claimed_event \<Rightarrow> db \<Rightarrow> activity_error + cycle_row \<times> activity_plan option" where
  "begin_activity ev s =
     (case LOCK_CYCLE_FOR_ACTIVITY (ce_cycle ev) (ce_row ev) s of
        Inl _ \<Rightarrow> Inl Plan_unavailable
      | Inr None \<Rightarrow> Inl Plan_unavailable
      | Inr (Some (e, c, r)) \<Rightarrow>
          (case validate_activity_claim e r ev of
             Some er \<Rightarrow> Inl er
           | None \<Rightarrow>
               (case load_plan c of Inl er \<Rightarrow> Inl er | Inr p \<Rightarrow> Inr (c, p))))"

text \<open>A write that hits nothing is no error when a later event was already written.\<close>

definition write_state :: "claimed_event \<Rightarrow> activity_plan \<Rightarrow> db \<Rightarrow> activity_error + db" where
  "write_state ev p s =
     (case UPDATE_ACTIVITY_STATE (ce_cycle ev) p (ce_row ev) (ce_seq ev) s of
        (True, t) \<Rightarrow> Inr t
      | (False, t) \<Rightarrow>
          (case SELECT_ACTIVITY_CYCLE (ce_cycle ev) t of
             Inr (Some c) \<Rightarrow>
               (case ac_last_sequence (c_activity c) of
                  None \<Rightarrow> Inl Plan_unavailable
                | Some n \<Rightarrow> if n < ce_seq ev then Inl Plan_unavailable else Inr t)
           | _ \<Rightarrow> Inl Plan_unavailable))"

definition write_hosted_chat_state :: "claimed_event \<Rightarrow> activity_plan \<Rightarrow> db \<Rightarrow> activity_error + db" where
  "write_hosted_chat_state ev p s =
     (case UPDATE_HOSTED_CHAT_ACTIVITY_STATE (ce_cycle ev) p s of
        (True, t) \<Rightarrow> Inr t
      | (False, _) \<Rightarrow> Inl Plan_unavailable)"

definition plan_binding :: "activity_plan \<Rightarrow> activity_error + activity_binding" where
  "plan_binding p =
     (case current_step p of
        Inl _ \<Rightarrow> Inl Plan_unavailable
      | Inr st \<Rightarrow> Inr \<lparr>ab_plan_id = pl_id p, ab_version = pl_version p, ab_step_id = st_id st,
          ab_phase = st_phase st\<rparr>)"

text \<open>
  The functions on plans raise \<open>ActivityPlanValidationError\<close>, which the repository turns into
  \<open>ActivityPlanUnavailableError\<close>; a \<open>StopIteration\<close> inside a coroutine would be a \<open>RuntimeError\<close>.
\<close>

definition plan_failure :: "string \<Rightarrow> activity_error" where
  "plan_failure e = (if e = ''StopIteration'' then Activity_raised (Runtime_Error e) else Plan_unavailable)"

section \<open>Transactions\<close>

definition load :: "claimed_event \<Rightarrow> db \<Rightarrow> activity_error + activity_snapshot" where
  "load ev s =
     (case SELECT_ACTIVITY_CYCLE (ce_cycle ev) s of
        Inr (Some c) \<Rightarrow>
          (case load_plan c of
             Inl er \<Rightarrow> Inl er
           | Inr p \<Rightarrow>
               let (actions, failures) = history_rows (SELECT_ACTIVITY_HISTORY (ce_cycle ev) s) in
               Inr \<lparr>as_plan = p, as_actions = actions, as_failures = failures,
                 as_version = ac_version (c_activity c),
                 as_last_sequence = (case ac_last_sequence (c_activity c) of None \<Rightarrow> 0 | Some n \<Rightarrow> n)\<rparr>)
      | _ \<Rightarrow> Inl Plan_unavailable)"

definition must_replace :: "activity_plan option \<Rightarrow> activity_plan option \<Rightarrow> bool" where
  "must_replace proposed plan \<longleftrightarrow>
     (case (proposed, plan) of
        (_, None) \<Rightarrow> True
      | (None, Some p) \<Rightarrow> pl_status p \<noteq> P_active
      | (Some q, Some p) \<Rightarrow> pl_id q \<noteq> pl_id p \<or> pl_version p < pl_version q \<or> pl_status p \<noteq> P_active)"

definition finish_prepare ::
  "claimed_event \<Rightarrow> activity_plan \<Rightarrow> db \<Rightarrow> activity_error + activity_context \<times> db" where
  "finish_prepare ev p s =
     (case plan_binding p of
        Inl er \<Rightarrow> Inl er
      | Inr b \<Rightarrow>
          let (actions, failures) = history_rows (SELECT_ACTIVITY_HISTORY (ce_cycle ev) s) in
          Inr (\<lparr>ax_plan = p, ax_binding = b, ax_actions = actions, ax_failures = failures\<rparr>, s))"

definition prepare ::
  "claimed_event \<Rightarrow> activity_plan option \<Rightarrow> db \<Rightarrow> activity_error + activity_context \<times> db" where
  "prepare ev proposed s =
     (case begin_activity ev s of
        Inl er \<Rightarrow> Inl er
      | Inr (c, plan) \<Rightarrow>
          if must_replace proposed plan then
            (case proposed of
               None \<Rightarrow> Inl Plan_unavailable
             | Some q \<Rightarrow>
                 (case validate_activity_plan (q\<lparr>pl_version := ac_version (c_activity c) + 1\<rparr>) of
                    Inl _ \<Rightarrow> Inl Plan_unavailable
                  | Inr p \<Rightarrow>
                      (case write_state ev p s of Inl er \<Rightarrow> Inl er | Inr t \<Rightarrow> finish_prepare ev p t)))
          else
            (case plan of
               None \<Rightarrow> Inl Plan_unavailable
             | Some p \<Rightarrow>
                 if (case ac_last_sequence (c_activity c) of None \<Rightarrow> 0 | Some n \<Rightarrow> n) < ce_seq ev
                 then (case write_state ev p s of Inl er \<Rightarrow> Inl er | Inr t \<Rightarrow> finish_prepare ev p t)
                 else finish_prepare ev p s))"

text \<open>What an event says of the current step.\<close>

datatype terminal_note =
    Note_started
  | Note_ended bool bool bool
  | Note_target_lost

definition apply_note :: "terminal_note \<Rightarrow> activity_plan \<Rightarrow> string \<Rightarrow> string + activity_plan" where
  "apply_note note p step =
     (case note of
        Note_started \<Rightarrow> record_step_started p step
      | Note_ended succeeded retryable corrected \<Rightarrow> record_step_terminal p step succeeded retryable corrected
      | Note_target_lost \<Rightarrow>
          (case current_step p of
             Inl e \<Rightarrow> Inl e
           | Inr st \<Rightarrow>
               if st_skill st = Some ''move_to'' then invalidate_move_target p step
               else record_step_terminal p step False False False))"

definition record_terminal_event ::
  "claimed_event \<Rightarrow> terminal_note \<Rightarrow> string \<Rightarrow> db \<Rightarrow> activity_error + bool \<times> db" where
  "record_terminal_event ev note decision_id s =
     (case begin_activity ev s of
        Inl er \<Rightarrow> Inl er
      | Inr (c, None) \<Rightarrow> Inr (True, s)
      | Inr (c, Some p) \<Rightarrow>
          if pl_status p \<noteq> P_active then Inr (True, s)
          else (case SELECT_DECISION_BINDING (ce_cycle ev) decision_id s of
             Inl _ \<Rightarrow> Inl Plan_unavailable
           | Inr None \<Rightarrow> Inr (True, s)
           | Inr (Some d) \<Rightarrow>
               let (plan_id, step) = (case d_binding d of None \<Rightarrow> ([], []) | Some b \<Rightarrow> (ab_plan_id b, ab_step_id b)) in
               if plan_id \<noteq> pl_id p \<or> pl_current p \<noteq> Some step then Inr (True, s)
               else (case apply_note note p step of
                  Inl e \<Rightarrow> Inl (plan_failure e)
                | Inr q \<Rightarrow>
                    (case write_state ev q s of Inl er \<Rightarrow> Inl er | Inr t \<Rightarrow> Inr (True, t)))))"

fun payload_decision_id :: "event_payload \<Rightarrow> string" where
  "payload_decision_id (Started_skill i _ _) = i"
| "payload_decision_id (Finished_skill i _ _ _) = i"
| "payload_decision_id (Rejected_decision i _ _ _) = i"
| "payload_decision_id _ = []"

definition record_activity_started :: "claimed_event \<Rightarrow> db \<Rightarrow> activity_error + bool \<times> db" where
  "record_activity_started ev = record_terminal_event ev Note_started (payload_decision_id (ev_payload (ce_body ev)))"

text \<open>
  How a skill ended, for the plan: whether it succeeded, whether its step may be tried again, and whether
  a corrected decision is allowed.  \<open>SkillFinishedPayload\<close> has a lease exactly when the event has one.
\<close>

fun terminal_reason :: "skill_terminal \<Rightarrow> string \<times> bool" where
  "terminal_reason T_success = ([], False)"
| "terminal_reason (T_failed _ reason retryable) = (reason, retryable)"
| "terminal_reason (T_cancelled reason retryable) = (reason, retryable)"
| "terminal_reason (T_timeout reason retryable) = (reason, retryable)"

definition finished_note :: "gateway_event \<Rightarrow> terminal_note" where
  "finished_note body =
     (case ev_payload body of
        Finished_skill _ _ skill terminal \<Rightarrow>
          let (reason, retryable) = terminal_reason terminal; succeeded = (terminal = T_success) in
          Note_ended succeeded (should_retry_activity_failure skill reason retryable)
            (\<not> succeeded \<and> ev_lease body \<noteq> None \<and> is_correctable_skill_failure skill reason)
      | _ \<Rightarrow> Note_ended False False False)"

definition record_activity_finished :: "claimed_event \<Rightarrow> db \<Rightarrow> activity_error + bool \<times> db" where
  "record_activity_finished ev =
     record_terminal_event ev (finished_note (ce_body ev)) (payload_decision_id (ev_payload (ce_body ev)))"

definition rejected_note :: "gateway_event \<Rightarrow> terminal_note" where
  "rejected_note body =
     (case ev_payload body of
        Rejected_decision _ _ _ reason \<Rightarrow>
          if is_target_rejection_reason reason then Note_target_lost else Note_ended False False False
      | _ \<Rightarrow> Note_ended False False False)"

definition record_activity_rejected :: "claimed_event \<Rightarrow> db \<Rightarrow> activity_error + bool \<times> db" where
  "record_activity_rejected ev s =
     (let i = payload_decision_id (ev_payload (ce_body ev)) in
      if i = [] then Inr (True, s) else record_terminal_event ev (rejected_note (ce_body ev)) i s)"

definition complete_passive :: "bool \<Rightarrow> claimed_event \<Rightarrow> db \<Rightarrow> activity_error + bool \<times> db" where
  "complete_passive track_event_order ev s =
     (case begin_activity ev s of
        Inl er \<Rightarrow> Inl er
      | Inr (c, None) \<Rightarrow> Inr (True, s)
      | Inr (c, Some p) \<Rightarrow>
          if pl_status p \<noteq> P_active \<or> pl_current p = None then Inr (True, s)
          else (case current_step p of
             Inl _ \<Rightarrow> Inl Plan_unavailable
           | Inr st \<Rightarrow>
               if st_phase st \<noteq> ''social'' \<or> st_skill st \<noteq> None then Inr (True, s)
               else (case complete_social_opportunity p of
                  Inl e \<Rightarrow> Inl (plan_failure e)
                | Inr q \<Rightarrow>
                    (case (if track_event_order then write_state ev q s else write_hosted_chat_state ev q s) of
                       Inl er \<Rightarrow> Inl er | Inr t \<Rightarrow> Inr (True, t)))))"

definition record_observation :: "claimed_event \<Rightarrow> db \<Rightarrow> activity_error + bool \<times> db" where
  "record_observation = complete_passive True"

definition record_chat_opportunity :: "claimed_event \<Rightarrow> db \<Rightarrow> activity_error + bool \<times> db" where
  "record_chat_opportunity = complete_passive False"

definition complete_passive_step :: "claimed_event \<Rightarrow> db \<Rightarrow> activity_error + bool \<times> db" where
  "complete_passive_step = complete_passive True"

definition close_activity :: "claimed_event \<Rightarrow> db \<Rightarrow> activity_error + bool \<times> db" where
  "close_activity ev s =
     (case begin_activity ev s of
        Inl er \<Rightarrow> Inl er
      | Inr (c, None) \<Rightarrow> Inr (True, s)
      | Inr (c, Some p) \<Rightarrow>
          (case write_state ev (p\<lparr>pl_status := P_paused\<rparr>) s of Inl er \<Rightarrow> Inl er | Inr t \<Rightarrow> Inr (True, t)))"

end
