(* ===== verification/ActivityFacts.thy ===== *)
theory ActivityFacts
  imports ActivityRepository Invariants
begin

text \<open>
  What the plan transactions do: each writes at most the activity columns of the cycle of its event,
  keeps the version of the plan in step, and never goes back behind an event already written.
\<close>

section \<open>Versions\<close>

lemma advance_version: "advance_after_terminal p st = Inr q \<Longrightarrow> pl_version q = pl_version p"
  by (auto simp: advance_after_terminal_def Let_def split: option.splits if_splits)

lemma apply_note_version: "apply_note note p step = Inr q \<Longrightarrow> pl_version q = pl_version p"
proof -
  have "pl_version q = pl_version p" if "record_step_terminal p step a b c = Inr q" for a b c
    using that by (auto simp: record_step_terminal_def Let_def dest: advance_version split: sum.splits if_splits)
  then show "apply_note note p step = Inr q \<Longrightarrow> pl_version q = pl_version p"
    by (auto simp: apply_note_def record_step_started_def invalidate_move_target_def
        split: terminal_note.splits sum.splits if_splits)
qed

lemma social_version: "complete_social_opportunity p = Inr q \<Longrightarrow> pl_version q = pl_version p"
  by (auto simp: complete_social_opportunity_def dest: advance_version split: sum.splits if_splits)

lemma validate_version: "validate_activity_plan raw = Inr p \<Longrightarrow> pl_version p = pl_version raw"
  by (auto simp: validate_activity_plan_def strip_plan_def Let_def split: if_splits option.splits)

section \<open>The begin of a transaction\<close>

lemma begin_activity_Inr:
  assumes "begin_activity ev s = Inr (c, plan)"
  shows "\<exists>e r. (e, c, r) \<in> set (event_join s) \<and> c_id c = ce_cycle ev \<and> e_id e = ce_row ev \<and>
      validate_activity_claim e r ev = None \<and> load_plan c = Inr plan"
  using assms
  by (auto simp: begin_activity_def LOCK_CYCLE_FOR_ACTIVITY_def split: sum.splits option.splits
      dest!: one_or_none_SomeD; blast)

lemma load_plan_Inr:
  assumes "load_plan c = Inr plan"
  shows "\<not> poisoned (c_activity c)"
    and "plan = Some p \<Longrightarrow> version_kept (c_activity c) \<Longrightarrow> pl_version p = ac_version (c_activity c)"
  using assms
  by (auto simp: load_plan_def poisoned_def version_kept_def validate_version split: option.splits sum.splits)

lemma begun_cycle:
  assumes "begin_activity ev s = Inr (c, plan)"
  shows "c \<in> set (cycles s)" "c_id c = ce_cycle ev" "\<not> poisoned (c_activity c)"
    and "plan = Some p \<Longrightarrow> version_kept (c_activity c) \<Longrightarrow> pl_version p = ac_version (c_activity c)"
  using begin_activity_Inr[OF assms] load_plan_Inr by (auto simp: in_event_join)

lemma begin_poisoned:
  assumes "keys_ok s" and "c \<in> set (cycles s)" and "c_id c = ce_cycle ev" and "poisoned (c_activity c)"
  shows "\<exists>er. begin_activity ev s = Inl er"
proof (cases "begin_activity ev s")
  case (Inr x)
  obtain d plan where x: "x = (d, plan)" by (cases x)
  note d = begun_cycle[OF Inr[unfolded x]]
  have "d = c" using cycle_key_unique[OF assms(1)] d(1,2) assms(2,3) by simp
  with d(3) assms(4) show ?thesis by simp
qed simp

section \<open>Writing\<close>

lemma write_activity_le:
  assumes "\<not> poisoned a" and "version_kept a \<Longrightarrow> ac_version a \<le> pl_version p"
    and "\<And>n. ac_last_sequence a = Some n \<Longrightarrow> \<exists>m. seq = Some m \<and> n \<le> m"
  shows "activity_le a (a\<lparr>ac_plan := Some p, ac_version := pl_version p, ac_last_event := ev, ac_last_sequence := seq\<rparr>)"
  using assms by (auto simp: activity_le_def version_kept_def)

lemma keeps_UPDATE_ACTIVITY:
  assumes keys: "keys_ok s" and c: "c \<in> set (cycles s)" "c_id c = cycle"
    and p: "\<not> poisoned (c_activity c)" "version_kept (c_activity c) \<Longrightarrow> ac_version (c_activity c) \<le> pl_version p"
  shows "keeps s (snd (UPDATE_ACTIVITY_STATE cycle p event sequence s))"
    and "keeps s (snd (UPDATE_HOSTED_CHAT_ACTIVITY_STATE cycle p s))"
proof -
  have one: "r = c" if "r \<in> set (cycles s)" "c_id r = cycle" for r
    using cycle_key_unique[OF keys] c that by simp
  have le: "cycle_le c (c\<lparr>c_activity := a\<rparr>)" if "activity_le (c_activity c) a" for a
    using that by (simp add: cycle_le_def)
  have "activity_le (c_activity c) (c_activity (write_activity p c))"
    using write_activity_le[OF p, of "ac_last_sequence (c_activity c)" "ac_last_event (c_activity c)"]
    by (simp add: write_activity_def)
  then show "keeps s (snd (UPDATE_HOSTED_CHAT_ACTIVITY_STATE cycle p s))"
    unfolding UPDATE_HOSTED_CHAT_ACTIVITY_STATE_def Let_def snd_conv
    by (intro keepsI db_le_cycles) (auto simp: shape_def write_activity_def intro!: le dest!: one)
  show "keeps s (snd (UPDATE_ACTIVITY_STATE cycle p event sequence s))"
    unfolding UPDATE_ACTIVITY_STATE_def Let_def snd_conv
  proof (intro keepsI db_le_cycles)
    fix r assume "r \<in> set (cycles s)"
      and hit: "c_id r = cycle \<and> open_cycle (c_status r) \<and> activity_event_new sequence event r"
    then have r: "r = c" using one by simp
    have "activity_le (c_activity c) ((c_activity c)\<lparr>ac_plan := Some p, ac_version := pl_version p,
        ac_last_event := Some event, ac_last_sequence := Some sequence\<rparr>)"
      by (rule write_activity_le[OF p]) (use hit r in \<open>auto simp: activity_event_new_def\<close>)
    from le[OF this] show "cycle_le r (write_activity p r\<lparr>c_activity := (c_activity (write_activity p r))
        \<lparr>ac_last_event := Some event, ac_last_sequence := Some sequence\<rparr>\<rparr>)"
      by (simp add: r write_activity_def)
  qed (simp add: shape_def)
qed

lemma keeps_write_state:
  assumes "keys_ok s" and "begin_activity ev s = Inr (c, plan)"
    and "version_kept (c_activity c) \<Longrightarrow> ac_version (c_activity c) \<le> pl_version p"
  shows "write_state ev p s = Inr t \<Longrightarrow> keeps s t" and "write_hosted_chat_state ev p s = Inr t \<Longrightarrow> keeps s t"
  using keeps_UPDATE_ACTIVITY[OF assms(1) begun_cycle(1-3)[OF assms(2)] assms(3)]
  by (auto simp: write_state_def write_hosted_chat_state_def
      split: prod.splits bool.splits sum.splits option.splits if_splits) (metis snd_conv)+

section \<open>Transactions\<close>

lemma keeps_record_terminal_event:
  assumes keys: "keys_ok s" and run: "record_terminal_event ev note i s = Inr (b, t)"
  shows "keeps s t"
proof (cases "begin_activity ev s")
  case (Inr x)
  obtain c plan where x: "x = (c, plan)" by (cases x)
  note start = Inr[unfolded x]
  show ?thesis
  proof (cases "t = s")
    case False
    with run start obtain p q step where p: "plan = Some p" "apply_note note p step = Inr q" "write_state ev q s = Inr t"
      by (auto simp: record_terminal_event_def Let_def split: option.splits if_splits sum.splits prod.splits)
    show ?thesis
      by (rule keeps_write_state(1)[OF keys start _ p(3)])
         (use begun_cycle(4)[OF start p(1)] apply_note_version[OF p(2)] in simp)
  qed simp
qed (use run in \<open>simp add: record_terminal_event_def\<close>)

lemma keeps_complete_passive:
  assumes keys: "keys_ok s" and run: "complete_passive track ev s = Inr (b, t)"
  shows "keeps s t"
proof (cases "begin_activity ev s")
  case (Inr x)
  obtain c plan where x: "x = (c, plan)" by (cases x)
  note start = Inr[unfolded x]
  show ?thesis
  proof (cases "t = s")
    case False
    with run start obtain p q where p: "plan = Some p" "complete_social_opportunity p = Inr q"
      "write_state ev q s = Inr t \<or> write_hosted_chat_state ev q s = Inr t"
      by (auto simp: complete_passive_def split: option.splits if_splits sum.splits)
    have "version_kept (c_activity c) \<Longrightarrow> ac_version (c_activity c) \<le> pl_version q"
      using begun_cycle(4)[OF start p(1)] social_version[OF p(2)] by simp
    from keeps_write_state[OF keys start this] p(3) show ?thesis by blast
  qed simp
qed (use run in \<open>simp add: complete_passive_def\<close>)

lemma keeps_close_activity:
  assumes keys: "keys_ok s" and run: "close_activity ev s = Inr (b, t)"
  shows "keeps s t"
proof (cases "begin_activity ev s")
  case (Inr x)
  obtain c plan where x: "x = (c, plan)" by (cases x)
  note start = Inr[unfolded x]
  show ?thesis
  proof (cases "t = s")
    case False
    with run start obtain p where p: "plan = Some p" "write_state ev (p\<lparr>pl_status := P_paused\<rparr>) s = Inr t"
      by (auto simp: close_activity_def split: option.splits if_splits sum.splits)
    show ?thesis
      by (rule keeps_write_state(1)[OF keys start _ p(2)]) (use begun_cycle(4)[OF start p(1)] in simp)
  qed simp
qed (use run in \<open>simp add: close_activity_def\<close>)

lemma keeps_prepare:
  assumes keys: "keys_ok s" and run: "prepare ev proposed s = Inr (ctx, t)"
  shows "keeps s t"
proof (cases "begin_activity ev s")
  case (Inr x)
  obtain c plan where x: "x = (c, plan)" by (cases x)
  note start = Inr[unfolded x]
  have finish: "u = t" if "finish_prepare ev p u = Inr (ctx, t)" for p u
    using that by (auto simp: finish_prepare_def Let_def split: sum.splits prod.splits)
  consider "t = s" | q p where "validate_activity_plan (q\<lparr>pl_version := ac_version (c_activity c) + 1\<rparr>) = Inr p"
      "write_state ev p s = Inr t"
    | p where "plan = Some p" "write_state ev p s = Inr t"
    using run start by (auto simp: prepare_def dest!: finish split: option.splits if_splits sum.splits)
  then show ?thesis
  proof cases
    case 2
    then show ?thesis
      using keeps_write_state(1)[OF keys start, of p t] validate_version[OF 2(1)] by simp
  next
    case 3
    then show ?thesis
      using keeps_write_state(1)[OF keys start, of p t] begun_cycle(4)[OF start 3(1)] by simp
  qed simp
qed (use run in \<open>simp add: prepare_def\<close>)

lemma keeps_activity:
  assumes "keys_ok s"
  shows "record_activity_started ev s = Inr (b, t) \<Longrightarrow> keeps s t"
    and "record_activity_finished ev s = Inr (b, t) \<Longrightarrow> keeps s t"
    and "record_activity_rejected ev s = Inr (b, t) \<Longrightarrow> keeps s t"
    and "record_observation ev s = Inr (b, t) \<Longrightarrow> keeps s t"
    and "record_chat_opportunity ev s = Inr (b, t) \<Longrightarrow> keeps s t"
    and "complete_passive_step ev s = Inr (b, t) \<Longrightarrow> keeps s t"
    and "close_activity ev s = Inr (b, t) \<Longrightarrow> keeps s t"
    and "prepare ev proposed s = Inr (ctx, t) \<Longrightarrow> keeps s t"
  using keeps_record_terminal_event[OF assms] keeps_complete_passive[OF assms] keeps_close_activity[OF assms]
    keeps_prepare[OF assms]
  by (auto simp: record_activity_started_def record_activity_finished_def record_activity_rejected_def
      record_observation_def record_chat_opportunity_def complete_passive_step_def Let_def split: if_splits)

section \<open>A plan that does not load\<close>

lemma poisoned_transactions:
  assumes "keys_ok s" and "c \<in> set (cycles s)" and "c_id c = ce_cycle ev" and "poisoned (c_activity c)"
  shows "\<exists>er. record_terminal_event ev note i s = Inl er" "\<exists>er. complete_passive track ev s = Inl er"
    "\<exists>er. close_activity ev s = Inl er" "\<exists>er. prepare ev proposed s = Inl er"
  using begin_poisoned[OF assms]
  by (auto simp: record_terminal_event_def complete_passive_def close_activity_def prepare_def)

end
