(* ===== verification/System.thy ===== *)
theory System
  imports TransactionSafety ActivityFacts
begin

text \<open>
  The gateway as one system: the database, and the claims its workers were handed.  A step is one
  transaction of a repository, with the arguments the workers may pass: any batch, any time, any
  configuration, but only claimed events and decisions that a claim handed out.  The reachable
  states satisfy the invariant \<open>db_ok\<close>; rows that are closed stay closed; and a claim that was
  released never works again.
\<close>

section \<open>Steps\<close>

record system =
  sys_db :: db
  sys_events :: "claimed_event set"
  sys_decisions :: "claimed_decision set"

definition initial :: system where
  "initial = \<lparr>sys_db = empty_db, sys_events = {}, sys_decisions = {}\<rparr>"

definition handed_out :: "claim_outcome \<Rightarrow> claimed_event set" where
  "handed_out out = (case out of Claimed ev \<Rightarrow> {ev} | _ \<Rightarrow> {})"

text \<open>A claim as its worker got it names the row and the columns that never change.\<close>

inductive transaction :: "claimed_event set \<Rightarrow> claimed_decision set \<Rightarrow> db \<Rightarrow> db \<Rightarrow> bool" for E D s where
  admit: "accept_event_batch H stale now who trace evs s = Inr (res, t) \<Longrightarrow> transaction E D s t"
| complete: "ev \<in> E \<Longrightarrow> complete_event now ev res m rb rm s = Inr (b, t) \<Longrightarrow> transaction E D s t"
| renew: "ev \<in> E \<Longrightarrow> renew_event_claim now ev ttl s = Inr (b, t) \<Longrightarrow> transaction E D s t"
| lease: "ev \<in> E \<Longrightarrow> persist_lease_context now ev ctx s = Inr (b, t) \<Longrightarrow> transaction E D s t"
| sweep: "sweep_expired_claims locked now m s = Inr (n, t) \<Longrightarrow> transaction E D s t"
| discard: "discard_stale_events locked now configured override s = Inr (n, t) \<Longrightarrow> transaction E D s t"
| stop_idle: "stop_idle_sessions locked now idle s = Inr (n, t) \<Longrightarrow> transaction E D s t"
| skill_started: "ev \<in> E \<Longrightarrow> record_skill_started now ev s = Inr (mr, t) \<Longrightarrow> transaction E D s t"
| skill_finished: "ev \<in> E \<Longrightarrow> record_skill_finished now ev s = Inr (mr, t) \<Longrightarrow> transaction E D s t"
| plan: "ev \<in> E \<Longrightarrow> plan_decision now cfg freeze i ev ctx action binding s = (pr, t) \<Longrightarrow> transaction E D s t"
| token_usage: "ev \<in> E \<Longrightarrow> record_decision_token_usage ev usage s = (b, t) \<Longrightarrow> transaction E D s t"
| renew_decision: "cd \<in> D \<Longrightarrow> renew_decision_claim now cd ttl s = Inr (b, t) \<Longrightarrow> transaction E D s t"
| failure: "cd \<in> D \<Longrightarrow> complete_decision_failure now cd er body m rb rm s = Inr (b, t) \<Longrightarrow> transaction E D s t"
| response: "cd \<in> D \<Longrightarrow> record_decision_response now cd cr s = Inr (b, t) \<Longrightarrow> transaction E D s t"
| sweep_decisions: "sweep_expired_decision_claims locked now m s = Inr (n, t) \<Longrightarrow> transaction E D s t"
| rejection: "ev \<in> E \<Longrightarrow> merge_decision_rejected now ev s = Inr (mr, t) \<Longrightarrow> transaction E D s t"
| close: "ev \<in> E \<Longrightarrow> close_generation now ev s = Inr (mr, t) \<Longrightarrow> transaction E D s t"
| prepare_plan: "ev \<in> E \<Longrightarrow> prepare ev proposed s = Inr (x, t) \<Longrightarrow> transaction E D s t"
| plan_started: "ev \<in> E \<Longrightarrow> record_activity_started ev s = Inr (b, t) \<Longrightarrow> transaction E D s t"
| plan_finished: "ev \<in> E \<Longrightarrow> record_activity_finished ev s = Inr (b, t) \<Longrightarrow> transaction E D s t"
| plan_rejected: "ev \<in> E \<Longrightarrow> record_activity_rejected ev s = Inr (b, t) \<Longrightarrow> transaction E D s t"
| plan_passive: "ev \<in> E \<Longrightarrow> complete_passive track ev s = Inr (b, t) \<Longrightarrow> transaction E D s t"
| plan_closed: "ev \<in> E \<Longrightarrow> close_activity ev s = Inr (b, t) \<Longrightarrow> transaction E D s t"

inductive system_step :: "system \<Rightarrow> system \<Rightarrow> bool" where
  transacted: "transaction (sys_events g) (sys_decisions g) (sys_db g) t \<Longrightarrow>
    system_step g (g\<lparr>sys_db := t\<rparr>)"
| claimed_event: "claim_step locks now w ttl m (sys_db g) = (out, t) \<Longrightarrow>
    system_step g (g\<lparr>sys_db := t, sys_events := sys_events g \<union> handed_out out\<rparr>)"
| claimed_decision: "claim_next_decision locked now w ttl m (sys_db g) = Inr (out, t) \<Longrightarrow>
    system_step g (g\<lparr>sys_db := t, sys_decisions := sys_decisions g \<union> set_option out\<rparr>)"

inductive_cases system_stepE: "system_step g h"

definition reachable :: "system \<Rightarrow> bool" where
  "reachable g \<longleftrightarrow> system_step\<^sup>*\<^sup>* initial g"

section \<open>One transaction\<close>

lemma keeps_token_usage: "record_decision_token_usage ev usage s = (b, t) \<Longrightarrow> keeps s t"
  using keeps_outbox_statements(2)[of s "ce_row ev" usage] by (simp add: record_decision_token_usage_def)

lemma keeps_renew_decision_claim: "renew_decision_claim now cd ttl s = Inr (b, t) \<Longrightarrow> keeps s t"
  using keeps_outbox_statements(3)[of s now "cd_row cd" "cd_token cd" "cd_fence cd" ttl]
  by (auto simp: renew_decision_claim_def split: if_splits simp del: keeps_outbox_statements)

lemma transaction_steps_ok:
  assumes tr: "transaction E D s t" and ok: "db_ok s" and D: "\<forall>cd \<in> D. handed_decision cd s"
  shows "db_le s t \<and> db_ok t"
proof -
  have keeps: ?thesis if "keeps s t"
    using keeps_db_ok[OF that ok] that by (simp add: keeps_def)
  note keys = db_ok_parts(1)[OF ok]
  from tr show ?thesis
  proof cases
    case admit
    with accept_event_batch_ok ok show ?thesis by (metis steps_ok_def)
  next
    case skill_started
    with db_le_record_skill_started record_skill_started_ok[OF ok] show ?thesis by metis
  next
    case skill_finished
    with db_le_record_skill_finished record_skill_finished_ok[OF ok] show ?thesis by metis
  next
    case plan
    with db_le_plan_decision plan_decision_ok[OF ok] show ?thesis by (metis snd_conv)
  next
    case response
    with db_le_record_decision_response record_decision_response_ok[OF ok] D show ?thesis by metis
  next
    case complete
    then show ?thesis using keeps keeps_complete_event[OF keys] by metis
  next
    case renew
    then show ?thesis using keeps keeps_renew_event_claim by metis
  next
    case lease
    then show ?thesis using keeps keeps_persist_lease_context by metis
  next
    case sweep
    then show ?thesis using keeps keeps_sweep_expired_claims keys by metis
  next
    case discard
    then show ?thesis using keeps keeps_discard_stale_events by metis
  next
    case stop_idle
    then show ?thesis using keeps keeps_stop_idle_sessions by metis
  next
    case token_usage
    then show ?thesis using keeps keeps_token_usage by metis
  next
    case renew_decision
    then show ?thesis using keeps keeps_renew_decision_claim by metis
  next
    case failure
    then show ?thesis using keeps keeps_complete_decision_failure[OF keys] by metis
  next
    case sweep_decisions
    then show ?thesis using keeps keeps_sweep_decisions by metis
  next
    case rejection
    then show ?thesis using keeps keeps_merge_decision_rejected[OF keys] by metis
  next
    case close
    then show ?thesis using keeps keeps_close_generation by metis
  next
    case prepare_plan
    then show ?thesis using keeps keeps_prepare[OF keys] by metis
  next
    case plan_started
    then show ?thesis using keeps keeps_activity(1)[OF keys] by metis
  next
    case plan_finished
    then show ?thesis using keeps keeps_activity(2)[OF keys] by metis
  next
    case plan_rejected
    then show ?thesis using keeps keeps_activity(3)[OF keys] by metis
  next
    case plan_passive
    then show ?thesis using keeps keeps_complete_passive[OF keys] by metis
  next
    case plan_closed
    then show ?thesis using keeps keeps_close_activity[OF keys] by metis
  qed
qed

section \<open>Claims handed out\<close>

definition handed_event :: "claimed_event \<Rightarrow> db \<Rightarrow> bool" where
  "handed_event ev s \<longleftrightarrow> (\<exists>e \<in> set (events s). claimed_from e ev \<and> e_gateway e = ce_gateway ev \<and>
     e_tenant e = ce_tenant ev \<and> e_body e = ce_body ev)"

lemma handed_event_mono: "handed_event ev s \<Longrightarrow> db_le s t \<Longrightarrow> handed_event ev t"
  unfolding handed_event_def
  by (elim bexE, drule (1) db_le_rows(3), elim bexE, rule rev_bexI, assumption)
     (simp add: event_le_def claimed_from_def)

lemma claim_step_hands_out:
  assumes ok: "db_ok s" and run: "claim_step locks now w ttl m s = (Claimed ev, t)"
  shows "handed_event ev t \<and> ce_token ev < next_uuid t"
proof (cases rule: claim_step_cases[of locks now w ttl m s])
  case 1
  with run show ?thesis by simp
next
  case (2 e c r cy)
  have l: "locked_rows s e c r" using db_ok_parts(1)[OF ok] 2(1) by (rule locked_rowsI)
  from claim_candidate_claimed[OF l 2(2), of w ttl ev t] run 2(6) obtain fence where
    ev: "ev = build_claimed_event e (claim_row now (next_uuid s) fence ttl w e) (event_disposition e r = Historical_recovery)"
    and t: "events t = update_where (\<lambda>x. e_id x = e_id e) (claim_row now (next_uuid s) fence ttl w) (events s)"
    by auto
  have le: "db_le s t" using db_le_claim_step[OF db_ok_parts(1)[OF ok]] run by (metis snd_conv)
  have e: "e \<in> set (events s)" using 2(1) by (simp add: in_event_join)
  then have "handed_event ev s"
    by (auto simp: handed_event_def ev build_claimed_event_def claimed_from_def)
  moreover have "(e_id e, next_uuid s) \<in> event_claims t"
    unfolding event_claims_def claims_of_def t using e
    by (auto simp: set_update_where claim_row_def intro!: exI[of _ "claim_row now (next_uuid s) fence ttl w e"])
  then have "next_uuid s < next_uuid t"
    using db_ok_parts(3)[OF claim_step_ok[OF ok, of locks now w ttl m]] run
    by (auto simp: claims_ok_def tokens_ok_def)
  ultimately show ?thesis using handed_event_mono[OF _ le] by (simp add: ev build_claimed_event_def claim_row_def)
qed

lemma claim_next_hands_out:
  assumes ok: "db_ok s" and run: "claim_next_decision locked now w ttl m s = Inr (Some cd, t)"
  shows "handed_decision cd t \<and> cd_token cd < next_uuid t"
proof -
  from run have "decision_claim_loop locked now w ttl m s = Inr (Some cd, t)"
    by (simp add: claim_next_decision_def split: if_splits)
  from decision_claim_loop_final[OF this db_ok_parts(1)[OF ok]] obtain u where
    k: "keeps s u" and st: "decision_claim_step locked now w ttl m u = Inr (Decision_claimed cd, t)" by blast
  have ok': "db_ok u" using keeps_db_ok[OF k ok] .
  from st show ?thesis
  proof (cases rule: decision_claim_step_cases)
    case (claimed d c r e q s1)
    have d: "d \<in> set (decisions u)" using claimed(1) by (simp add: in_decision_join)
    have "handed_decision cd u"
      using d claimed(7) by (auto simp: handed_decision_def make_claimed_decision_def)
    moreover have "next_uuid t = Suc (next_uuid u)" "cl_token (d_claim q) = Some (next_uuid u)"
      using claimed(5,6) by (auto simp: CLAIM_DECISION_def draw_uuid_def claim_decision_row_def)
    ultimately show ?thesis
      using handed_decision_mono[OF _ db_le_decision_claim_step[OF db_ok_parts(1)[OF ok'] st]] claimed(7)
      by (simp add: make_claimed_decision_def)
  qed simp_all
qed

section \<open>Reachable states\<close>

definition system_ok :: "system \<Rightarrow> bool" where
  "system_ok g \<longleftrightarrow> db_ok (sys_db g) \<and>
     (\<forall>ev \<in> sys_events g. handed_event ev (sys_db g) \<and> ce_token ev < next_uuid (sys_db g)) \<and>
     (\<forall>cd \<in> sys_decisions g. handed_decision cd (sys_db g) \<and> cd_token cd < next_uuid (sys_db g))"

lemma db_le_uuid: "db_le s t \<Longrightarrow> n < next_uuid s \<Longrightarrow> n < next_uuid t"
  by (simp add: db_le_def)

lemma system_step_ok:
  assumes st: "system_step g h" and ok: "system_ok g"
  shows "db_le (sys_db g) (sys_db h) \<and> system_ok h"
proof -
  have old: "system_ok h" if "db_le (sys_db g) (sys_db h)" "db_ok (sys_db h)"
    "\<forall>ev \<in> sys_events h - sys_events g. handed_event ev (sys_db h) \<and> ce_token ev < next_uuid (sys_db h)"
    "\<forall>cd \<in> sys_decisions h - sys_decisions g. handed_decision cd (sys_db h) \<and> cd_token cd < next_uuid (sys_db h)"
    using ok that handed_event_mono[OF _ that(1)] handed_decision_mono[OF _ that(1)] db_le_uuid[OF that(1)]
    unfolding system_ok_def by blast
  have g: "db_ok (sys_db g)" using ok by (simp add: system_ok_def)
  from st show ?thesis
  proof cases
    case (transacted t)
    have "\<forall>cd \<in> sys_decisions g. handed_decision cd (sys_db g)" using ok by (simp add: system_ok_def)
    from transaction_steps_ok[OF transacted(2) g this] transacted(1) old show ?thesis by simp
  next
    case (claimed_event locks now w ttl m out t)
    have "db_ok t" "db_le (sys_db g) t"
      using claim_step_ok[OF g, of locks now w ttl m] db_le_claim_step[OF db_ok_parts(1)[OF g], of locks now w ttl m]
        claimed_event(2) by simp_all
    moreover have "handed_event ev t \<and> ce_token ev < next_uuid t" if "ev \<in> handed_out out" for ev
      using claim_step_hands_out[OF g] claimed_event(2) that by (auto simp: handed_out_def split: claim_outcome.splits)
    ultimately show ?thesis using old claimed_event(1) by auto
  next
    case (claimed_decision locked now w ttl m out t)
    have "db_ok t" "db_le (sys_db g) t"
      using claim_next_decision_ok[OF g claimed_decision(2)]
        db_le_claim_next_decision[OF claimed_decision(2) db_ok_parts(1)[OF g]] by simp_all
    moreover have "handed_decision cd t \<and> cd_token cd < next_uuid t" if "cd \<in> set_option out" for cd
      using claim_next_hands_out[OF g] claimed_decision(2) that by auto
    ultimately show ?thesis using old claimed_decision(1) by auto
  qed
qed

lemma system_steps_ok: "system_step\<^sup>*\<^sup>* g h \<Longrightarrow> system_ok g \<Longrightarrow> db_le (sys_db g) (sys_db h) \<and> system_ok h"
proof (induction rule: rtranclp_induct)
  case (step h i)
  with system_step_ok[of h i] show ?case by (blast intro: db_le_trans)
qed simp

lemma reachable_ok: "reachable g \<Longrightarrow> system_ok g"
  using system_steps_ok[of initial g] db_ok_empty
  by (simp add: reachable_def system_ok_def initial_def)

lemma reachable_steps: "reachable g \<Longrightarrow> system_step\<^sup>*\<^sup>* g h \<Longrightarrow> reachable h"
  by (simp add: reachable_def)

section \<open>Claims that were released\<close>

text \<open>
  What claiming promises, whatever the queue: a step may drop claims and make new ones only under
  tokens it drew itself.  Then a token that was handed out and whose claim is gone never holds a row
  again.  Inbox and outbox are both such queues.
\<close>

locale claim_queue =
  fixes step :: "'s \<Rightarrow> 's \<Rightarrow> bool" and claims :: "'s \<Rightarrow> (uuid \<times> uuid) set" and fresh :: "'s \<Rightarrow> nat"
  assumes fresh_grows: "step s t \<Longrightarrow> fresh s \<le> fresh t"
    and new_claims: "step s t \<Longrightarrow> (i, k) \<in> claims t \<Longrightarrow> (i, k) \<in> claims s \<or> fresh s \<le> k"
begin

lemma released:
  assumes "step\<^sup>*\<^sup>* s t" and "k < fresh s" and "(i, k) \<notin> claims s"
  shows "(i, k) \<notin> claims t"
proof -
  from assms(1) have "fresh s \<le> fresh t \<and> (i, k) \<notin> claims t"
  proof (induction rule: rtranclp_induct)
    case (step t u)
    then show ?case using fresh_grows[of t u] new_claims[of t u i k] assms(2) by linarith
  qed (use assms(3) in simp)
  then show ?thesis ..
qed

end

text \<open>The steps between reachable states.\<close>

definition live_step :: "system \<Rightarrow> system \<Rightarrow> bool" where
  "live_step g h \<longleftrightarrow> system_ok g \<and> system_step g h"

lemma live_step_le: "live_step g h \<Longrightarrow> db_le (sys_db g) (sys_db h)"
  using system_step_ok by (simp add: live_step_def)

interpretation inbox: claim_queue live_step "\<lambda>g. event_claims (sys_db g)" "\<lambda>g. next_uuid (sys_db g)"
  by unfold_locales (use live_step_le in \<open>force simp: db_le_def\<close>)+

interpretation outbox: claim_queue live_step "\<lambda>g. decision_claims (sys_db g)" "\<lambda>g. next_uuid (sys_db g)"
  by unfold_locales (use live_step_le in \<open>force simp: db_le_def\<close>)+

lemma live_steps: "system_step\<^sup>*\<^sup>* g h \<Longrightarrow> system_ok g \<Longrightarrow> live_step\<^sup>*\<^sup>* g h"
proof (induction rule: rtranclp_induct)
  case (step h i)
  then have "live_step h i" using system_steps_ok by (simp add: live_step_def)
  with step show ?case by simp
qed simp

lemma not_claimed_event:
  "(ce_row ev, ce_token ev) \<notin> event_claims s \<Longrightarrow> e \<in> set (events s) \<Longrightarrow>
   \<not> holds_claim (ce_row ev) (Some (ce_token ev)) (Some (ce_fence ev)) e"
  by (auto simp: event_claims_def claims_of_def holds_claim_def)

lemma not_claimed_decision:
  assumes "(cd_row cd, cd_token cd) \<notin> decision_claims s"
  shows "lock_claimed_decision cd s = Inr None"
proof (cases "LOCK_CLAIMED_DECISION (cd_row cd) s")
  case (Some row)
  obtain d c r e where row: "row = (d, c, r, e)" by (cases row)
  from LOCK_CLAIMED_DECISION_SomeD[OF Some[unfolded row]]
  have "d \<in> set (decisions s)" "d_id d = cd_row cd" by (simp_all add: in_decision_join)
  with assms have "cl_token (d_claim d) \<noteq> Some (cd_token cd)"
    by (auto simp: decision_claims_def claims_of_def)
  with Some row show ?thesis by (cases "d_status d = D_sending") (simp_all add: lock_claimed_decision_def)
qed (simp add: lock_claimed_decision_def)

section \<open>The properties\<close>


text \<open>
  C2: one decision at a time, and one call per decision.  In every reachable state an event is the
  source of at most one decision, a decision has at most one skill call, and of the decisions of a
  control cycle at most one is being sent.
\<close>

theorem one_decision_in_flight:
  assumes "reachable g"
  shows "card {d \<in> set (decisions (sys_db g)). d_source d = i} \<le> 1 \<and>
    card {k \<in> set (calls (sys_db g)). k_decision k = i} \<le> 1 \<and>
    card {d \<in> set (decisions (sys_db g)). d_cycle d = i \<and> d_status d = D_sending} \<le> 1"
proof -
  have ok: "db_ok (sys_db g)" using reachable_ok[OF assms] by (simp add: system_ok_def)
  have "d = q" if "d \<in> set (decisions (sys_db g))" "q \<in> set (decisions (sys_db g))" "d_source d = d_source q" for d q
    using distinct_key_unique[of d_source "decisions (sys_db g)" q d] db_ok_parts(4)[OF ok] that
    by (simp add: unique_keys_def)
  moreover have "k = l" if "k \<in> set (calls (sys_db g))" "l \<in> set (calls (sys_db g))" "k_decision k = k_decision l" for k l
    using one_call_row[OF db_ok_parts(5)[OF ok] that(2,1,3)] .
  moreover note db_ok_parts(6)[OF ok]
  ultimately show ?thesis
    unfolding one_sending_def by (simp add: card_le_Suc0_iff_eq)
qed

text \<open>
  C3: what is closed stays closed.  From any reachable state on, an event that is closed keeps its
  status; a decision that is closed is never sent again (its attempts stay as they are) and one in
  manual review stays there; a skill call that has ended keeps its status or goes to manual review.
\<close>

theorem closed_rows_stay_closed:
  assumes "reachable g" and "system_step\<^sup>*\<^sup>* g h"
  shows "(\<forall>e \<in> set (events (sys_db g)). \<not> open_event (e_status e) \<longrightarrow>
      (\<exists>e' \<in> set (events (sys_db h)). e_id e' = e_id e \<and> e_status e' = e_status e)) \<and>
    (\<forall>d \<in> set (decisions (sys_db g)). \<not> open_decision (d_status d) \<longrightarrow>
      (\<exists>d' \<in> set (decisions (sys_db h)). d_id d' = d_id d \<and> \<not> open_decision (d_status d') \<and>
         d_attempts d' = d_attempts d \<and> (d_status d = D_manual \<longrightarrow> d_status d' = D_manual))) \<and>
    (\<forall>k \<in> set (calls (sys_db g)). \<not> open_call (k_status k) \<longrightarrow>
      (\<exists>k' \<in> set (calls (sys_db h)). k_id k' = k_id k \<and> k_status k' \<in> {k_status k, K_manual}))"
proof -
  have le: "db_le (sys_db g) (sys_db h)" using system_steps_ok[OF assms(2) reachable_ok[OF assms(1)]] ..
  show ?thesis
  proof (intro conjI ballI impI)
    fix e assume e: "e \<in> set (events (sys_db g))" "\<not> open_event (e_status e)"
    from db_le_rows(3)[OF le e(1)] e(2)
    show "\<exists>e' \<in> set (events (sys_db h)). e_id e' = e_id e \<and> e_status e' = e_status e"
      by (auto simp: event_le_def)
  next
    fix d assume d: "d \<in> set (decisions (sys_db g))" "\<not> open_decision (d_status d)"
    from db_le_rows(4)[OF le d(1)] d(2)
    show "\<exists>d' \<in> set (decisions (sys_db h)). d_id d' = d_id d \<and> \<not> open_decision (d_status d') \<and>
        d_attempts d' = d_attempts d \<and> (d_status d = D_manual \<longrightarrow> d_status d' = D_manual)"
      by (auto simp: decision_le_def)
  next
    fix k assume k: "k \<in> set (calls (sys_db g))" "\<not> open_call (k_status k)"
    from db_le_rows(5)[OF le k(1)] k(2)
    show "\<exists>k' \<in> set (calls (sys_db h)). k_id k' = k_id k \<and> k_status k' \<in> {k_status k, K_manual}"
      by (auto simp: call_le_def)
  qed
qed

text \<open>
  C4: a released event claim never works again.  If a worker was handed a claim in a reachable state and
  the event is no longer held under its token, then in that state and in every later one completing
  the event with that claim answers False and writes nothing.
\<close>

theorem released_event_claim_is_dead:
  assumes "reachable g" and "ev \<in> sys_events g" and "(ce_row ev, ce_token ev) \<notin> event_claims (sys_db g)"
    and "system_step\<^sup>*\<^sup>* g h" and "0 < m" "0 < base" "base \<le> maximum"
  shows "complete_event now ev res m base maximum (sys_db h) = Inr (False, sys_db h)"
proof -
  have ok: "system_ok g" using reachable_ok[OF assms(1)] .
  with assms(2) have "ce_token ev < next_uuid (sys_db g)" by (simp add: system_ok_def)
  from inbox.released[OF live_steps[OF assms(4) ok] this assms(3)]
  have "LOCK_CLAIM_FOR_COMPLETION (ce_row ev) (ce_token ev) (ce_fence ev) (sys_db h) = None"
    by (rule LOCK_CLAIM_lost[OF ballI[OF not_claimed_event]])
  with assms(5-7) show ?thesis by (simp add: complete_event_def)
qed

text \<open>
  C5: a released decision claim never works again: in every later state a response and a failure
  reported under it answer False and write nothing.
\<close>

theorem released_decision_claim_is_dead:
  assumes "reachable g" and "cd \<in> sys_decisions g"
    and "(cd_row cd, cd_token cd) \<notin> decision_claims (sys_db g)"
    and "system_step\<^sup>*\<^sup>* g h" and "0 < m" "0 < base" "base \<le> maximum"
  shows "record_decision_response now cd res (sys_db h) = Inr (False, sys_db h) \<and>
    complete_decision_failure now cd er body m base maximum (sys_db h) = Inr (False, sys_db h)"
proof -
  have ok: "system_ok g" using reachable_ok[OF assms(1)] .
  with assms(2) have "cd_token cd < next_uuid (sys_db g)" by (simp add: system_ok_def)
  from outbox.released[OF live_steps[OF assms(4) ok] this assms(3)]
  have "lock_claimed_decision cd (sys_db h) = Inr None" by (rule not_claimed_decision)
  with assms(5-7) show ?thesis by (simp add: record_decision_response_def complete_decision_failure_def)
qed

end
