(* ===== verification/EventDispatcher.thy ===== *)
theory EventDispatcher
  imports System
begin

text \<open>
  What a worker does with an event it claimed (\<open>GatewayV2EventDispatcher\<close> in \<open>event_service.py\<close>,
  \<open>_process_claimed_event\<close> in \<open>event_worker.py\<close>): the transactions an event of each type causes, in
  their order, the result they add up to, and the completion that records it.

  The hosted chat service, which talks to the chat server, the decision planner and the body of the
  decision context are parameters.  An exception ends the processing; the transactions committed before
  it stay.
\<close>

section \<open>Results\<close>

definition succeeded :: process_result where
  "succeeded = \<lparr>pr_outcome = O_succeeded, pr_error = (None, None)\<rparr>"

definition retryable :: "string \<Rightarrow> string \<Rightarrow> process_result" where
  "retryable stage category = \<lparr>pr_outcome = O_retryable_failed, pr_error = (Some stage, Some category)\<rparr>"

definition manual :: "string \<Rightarrow> string \<Rightarrow> process_result" where
  "manual stage category = \<lparr>pr_outcome = O_manual, pr_error = (Some stage, Some category)\<rparr>"

definition operation_failed :: process_result where
  "operation_failed = retryable ''database'' ''operation_failed''"

definition category_or :: "string option \<Rightarrow> string \<Rightarrow> string" where
  "category_or c d = (case c of None \<Rightarrow> d | Some x \<Rightarrow> if x = [] then d else x)"

fun mutation_outcome :: "string \<Rightarrow> mutation_result \<Rightarrow> process_result" where
  "mutation_outcome stage m =
     (case mr_disposition m of
        M_applied \<Rightarrow> succeeded
      | M_idempotent \<Rightarrow> succeeded
      | M_missing \<Rightarrow> retryable stage (category_or (mr_category m) ''missing_dependency'')
      | M_fenced \<Rightarrow> manual ''fence'' (category_or (mr_category m) ''claim_lost'')
      | M_conflict \<Rightarrow> manual stage (category_or (mr_category m) ''state_conflict''))"

section \<open>The collaborators\<close>

datatype chat_outcome = Chat_done | Chat_retryable string | Chat_permanent string | Chat_failed

text \<open>The planner returns a result or raises; \<open>Planner_agent\<close> carries the stage and the category.\<close>

datatype planner_outcome =
    Planned process_result
  | Planner_agent string string
  | Planner_plan_unavailable
  | Planner_failed

record dispatcher =
  dp_chat :: "(string \<Rightarrow> gateway_event \<Rightarrow> chat_outcome) option"
  dp_activity :: bool
  dp_payload :: "gateway_event \<Rightarrow> json"
  dp_planner :: "claimed_event \<Rightarrow> agent_context \<Rightarrow> db \<Rightarrow> planner_outcome \<times> db"

fun planner_result :: "planner_outcome \<Rightarrow> process_result" where
  "planner_result (Planned r) = r"
| "planner_result (Planner_agent stage category) = retryable stage category"
| "planner_result Planner_plan_unavailable = retryable ''database'' ''activity_plan_unavailable''"
| "planner_result Planner_failed = operation_failed"

definition build_agent_context :: "(gateway_event \<Rightarrow> json) \<Rightarrow> gateway_event \<Rightarrow> agent_context option" where
  "build_agent_context payload body =
     (case ev_lease body of
        None \<Rightarrow> None
      | Some lease \<Rightarrow>
          if ev_type body \<in> {Session_started, Observation_updated, Skill_finished}
          then Some \<lparr>ctx_event_id = ev_id body, ctx_session = ev_session body, ctx_gen = ev_generation body,
            ctx_seq = ev_sequence body, ctx_state_version = ev_state_version body, ctx_lease = lease,
            ctx_payload = payload body\<rparr>
          else None)"

section \<open>Steps of the processing\<close>

text \<open>A step ends the processing with a result, or lets it go on; the database is the one it leaves.\<close>

type_synonym step = "db \<Rightarrow> process_result option \<times> db"

definition and_then :: "process_result option \<times> db \<Rightarrow> (db \<Rightarrow> process_result \<times> db) \<Rightarrow> process_result \<times> db" where
  "and_then x f = (case x of (Some r, s) \<Rightarrow> (r, s) | (None, s) \<Rightarrow> f s)"

definition chat_step :: "dispatcher \<Rightarrow> claimed_event \<Rightarrow> step" where
  "chat_step d ev s =
     (case dp_chat d of
        None \<Rightarrow> (Some (manual ''chat'' ''chat_not_configured''), s)
      | Some chat \<Rightarrow>
          (case chat (ce_gateway ev) (ce_body ev) of
             Chat_done \<Rightarrow> (None, s)
           | Chat_retryable category \<Rightarrow> (Some (retryable ''chat'' category), s)
           | Chat_permanent category \<Rightarrow> (Some (manual ''chat'' category), s)
           | Chat_failed \<Rightarrow> (Some operation_failed, s)))"

definition run_activity :: "(claimed_event \<Rightarrow> db \<Rightarrow> activity_error + bool \<times> db) \<Rightarrow> claimed_event \<Rightarrow> step" where
  "run_activity op ev s =
     (case op ev s of
        Inl Plan_unavailable \<Rightarrow> (Some (retryable ''database'' ''activity_plan_unavailable''), s)
      | Inl (Activity_raised _) \<Rightarrow> (Some operation_failed, s)
      | Inr (_, t) \<Rightarrow> (None, t))"

definition activity_step ::
  "dispatcher \<Rightarrow> (claimed_event \<Rightarrow> db \<Rightarrow> activity_error + bool \<times> db) \<Rightarrow> claimed_event \<Rightarrow> step" where
  "activity_step d op ev s =
     (if dp_activity d \<and> \<not> ce_historical ev then run_activity op ev s else (None, s))"

text \<open>Recording a report ends the processing unless it succeeded.\<close>

definition mutation_step ::
  "string \<Rightarrow> (claimed_event \<Rightarrow> db \<Rightarrow> db_error + mutation_result \<times> db) \<Rightarrow> claimed_event \<Rightarrow> step" where
  "mutation_step stage op ev s =
     (case op ev s of
        Inl _ \<Rightarrow> (Some operation_failed, s)
      | Inr (m, t) \<Rightarrow>
          let r = mutation_outcome stage m in
          if pr_outcome r = O_succeeded then (None, t) else (Some r, t))"

definition process_lease_event :: "dispatcher \<Rightarrow> msec \<Rightarrow> claimed_event \<Rightarrow> db \<Rightarrow> process_result \<times> db" where
  "process_lease_event d now ev s =
     (case build_agent_context (dp_payload d) (ce_body ev) of
        None \<Rightarrow> (operation_failed, s)
      | Some ctx \<Rightarrow>
          (case persist_lease_context now ev ctx s of
             Inl _ \<Rightarrow> (operation_failed, s)
           | Inr (False, t) \<Rightarrow> (manual ''fence'' ''claim_lost'', t)
           | Inr (True, t) \<Rightarrow> (case dp_planner d ev ctx t of (p, u) \<Rightarrow> (planner_result p, u))))"

definition dispatch :: "dispatcher \<Rightarrow> msec \<Rightarrow> claimed_event \<Rightarrow> db \<Rightarrow> process_result \<times> db" where
  "dispatch d now ev s =
     (case ev_type (ce_body ev) of
        Chat_received \<Rightarrow> and_then (chat_step d ev s) (\<lambda>s. (succeeded, s))
      | Nearby_friend_chat_requested \<Rightarrow>
          and_then (chat_step d ev s) (\<lambda>s.
          and_then (activity_step d record_chat_opportunity ev s) (\<lambda>s. (succeeded, s)))
      | Chat_send_result \<Rightarrow> and_then (chat_step d ev s) (\<lambda>s. (succeeded, s))
      | Session_started \<Rightarrow> process_lease_event d now ev s
      | Observation_updated \<Rightarrow> and_then (activity_step d record_observation ev s) (process_lease_event d now ev)
      | Skill_started \<Rightarrow>
          and_then (mutation_step ''terminal'' (record_skill_started now) ev s) (\<lambda>s.
          and_then (activity_step d record_activity_started ev s) (\<lambda>s. (succeeded, s)))
      | Skill_finished \<Rightarrow>
          and_then (mutation_step ''terminal'' (record_skill_finished now) ev s) (\<lambda>s.
          and_then (activity_step d record_activity_finished ev s) (\<lambda>s.
          and_then (activity_step d complete_passive_step ev s) (\<lambda>s.
            if ev_lease (ce_body ev) = None \<or> ce_historical ev then (succeeded, s)
            else process_lease_event d now ev s)))
      | Decision_rejected \<Rightarrow>
          and_then (mutation_step ''decision'' (merge_decision_rejected now) ev s) (\<lambda>s.
          and_then (activity_step d record_activity_rejected ev s) (\<lambda>s. (succeeded, s)))
      | Session_stopped \<Rightarrow>
          and_then (if dp_activity d then run_activity close_activity ev s else (None, s)) (\<lambda>s.
          and_then (mutation_step ''session'' (close_generation now) ev s) (\<lambda>s. (succeeded, s))))"

text \<open>
  The worker records the result; when the processor or the completion raises, the claim is left to expire.
\<close>

definition process_claimed_event ::
  "worker_config \<Rightarrow> dispatcher \<Rightarrow> msec \<Rightarrow> msec \<Rightarrow> claimed_event \<Rightarrow> db \<Rightarrow> db" where
  "process_claimed_event cfg d now later ev s =
     (case dispatch d now ev s of
        (r, t) \<Rightarrow>
          (case complete_event later ev r (wc_max_attempts cfg) (wc_retry_base_ms cfg) (wc_retry_max_ms cfg) t of
             Inl _ \<Rightarrow> t
           | Inr (_, u) \<Rightarrow> u))"

section \<open>Processing is a run of transactions\<close>

abbreviation transactions :: "claimed_event set \<Rightarrow> claimed_decision set \<Rightarrow> db \<Rightarrow> db \<Rightarrow> bool" where
  "transactions E D \<equiv> (transaction E D)\<^sup>*\<^sup>*"

definition runs :: "claimed_event set \<Rightarrow> claimed_decision set \<Rightarrow> (db \<Rightarrow> 'a \<times> db) \<Rightarrow> bool" where
  "runs E D f \<longleftrightarrow> (\<forall>s. transactions E D s (snd (f s)))"

lemma runs_and_then:
  assumes "runs E D f" and "runs E D g"
  shows "runs E D (\<lambda>s. and_then (f s) g)"
  unfolding runs_def
proof
  fix s
  have "transactions E D s (snd (f s))" "transactions E D (snd (f s)) (snd (g (snd (f s))))"
    using assms by (simp_all add: runs_def)
  then show "transactions E D s (snd (and_then (f s) g))"
    by (auto simp: and_then_def split: prod.splits option.splits intro: rtranclp_trans)
qed

lemma runs_result: "runs E D (\<lambda>s. (r, s))"
  by (simp add: runs_def)

lemma runs_if: "runs E D f \<Longrightarrow> runs E D g \<Longrightarrow> runs E D (\<lambda>s. if b then f s else g s)"
  by (simp add: runs_def)

lemma runs_chat_step: "runs E D (chat_step d ev)"
  by (auto simp: runs_def chat_step_def split: option.splits chat_outcome.splits)

lemma runs_run_activity:
  assumes "\<And>s b t. op ev s = Inr (b, t) \<Longrightarrow> transaction E D s t"
  shows "runs E D (run_activity op ev)" and "runs E D (activity_step d op ev)"
  using assms unfolding runs_def activity_step_def run_activity_def
  by (auto split: sum.splits activity_error.splits)

lemma runs_mutation_step:
  assumes "\<And>s m t. op ev s = Inr (m, t) \<Longrightarrow> transaction E D s t"
  shows "runs E D (mutation_step stage op ev)"
  using assms unfolding runs_def mutation_step_def Let_def
  by (auto simp del: mutation_outcome.simps split: sum.splits)

lemma runs_process_lease_event:
  assumes ev: "ev \<in> E" and planner: "\<And>ctx. runs E D (dp_planner d ev ctx)"
  shows "runs E D (process_lease_event d now ev)"
  unfolding runs_def
proof
  fix s
  show "transactions E D s (snd (process_lease_event d now ev s))"
  proof (cases "build_agent_context (dp_payload d) (ce_body ev)")
    case (Some ctx)
    show ?thesis
    proof (cases "persist_lease_context now ev ctx s")
      case (Inr x)
      obtain b t where x: "x = (b, t)" by (cases x)
      have "transaction E D s t" using lease[OF ev Inr[unfolded x]] .
      moreover have "transactions E D t (snd (dp_planner d ev ctx t))" using planner by (simp add: runs_def)
      ultimately show ?thesis
        using Some Inr x by (cases b) (auto simp: process_lease_event_def split: prod.splits
            intro: converse_rtranclp_into_rtranclp)
    qed (use Some in \<open>simp add: process_lease_event_def\<close>)
  qed (simp add: process_lease_event_def)
qed

lemma runs_dispatch:
  assumes ev: "ev \<in> E" and planner: "\<And>ctx. runs E D (dp_planner d ev ctx)"
  shows "runs E D (dispatch d now ev)"
proof -
  note steps = runs_and_then runs_result runs_if runs_chat_step runs_run_activity runs_mutation_step
    runs_process_lease_event[OF ev planner]
  note txs = plan_started[OF ev] plan_finished[OF ev] plan_rejected[OF ev] plan_passive[OF ev] plan_closed[OF ev]
    skill_started[OF ev] skill_finished[OF ev] rejection[OF ev] close[OF ev]
  note ops = record_chat_opportunity_def record_observation_def complete_passive_step_def
  show ?thesis
    unfolding dispatch_def[abs_def] ops
    by (cases "ev_type (ce_body ev)"; simp only: event_type.case; (rule steps | erule txs)+)
qed

lemma process_claimed_event_runs:
  assumes ev: "ev \<in> E" and planner: "\<And>ctx. runs E D (dp_planner d ev ctx)"
  shows "transactions E D s (process_claimed_event cfg d now later ev s)"
proof -
  obtain r t where rt: "dispatch d now ev s = (r, t)" by (cases "dispatch d now ev s")
  have run: "transactions E D s t" using runs_dispatch[OF assms] rt by (metis runs_def snd_conv)
  show ?thesis
  proof (cases "complete_event later ev r (wc_max_attempts cfg) (wc_retry_base_ms cfg) (wc_retry_max_ms cfg) t")
    case (Inr x)
    obtain b u where x: "x = (b, u)" by (cases x)
    have "transaction E D t u" using complete[OF ev Inr[unfolded x]] .
    with run rt Inr x show ?thesis by (simp add: process_claimed_event_def)
  qed (use run rt in \<open>simp add: process_claimed_event_def\<close>)
qed

lemma transactions_system_steps:
  assumes "transactions (sys_events g) (sys_decisions g) (sys_db g) t"
  shows "system_step\<^sup>*\<^sup>* g (g\<lparr>sys_db := t\<rparr>)"
  using assms
proof (induction rule: rtranclp_induct)
  case (step s t)
  have "system_step (g\<lparr>sys_db := s\<rparr>) (g\<lparr>sys_db := s\<rparr>\<lparr>sys_db := t\<rparr>)"
    by (rule transacted) (use step(2) in simp)
  with step(3) show ?case by simp
qed simp

end
