(* ===== verification/ActivityReports.thy ===== *)
theory ActivityReports
  imports ActivityFacts
begin

text \<open>What a report about the current step does to the stored plan, and what a report given twice does.\<close>

section \<open>The cycle after a write\<close>

lemma event_join_update_cycles:
  assumes "\<And>c. c_id (f c) = c_id c" and "\<And>c. c_runtime (f c) = c_runtime c"
  shows "event_join (s\<lparr>cycles := update_where P f (cycles s)\<rparr>) =
    map (\<lambda>(e, c, r). (e, if P c then f c else c, r)) (event_join s)"
  using assms
  by (auto simp: event_join_def update_where_def map_concat comp_def intro!: arg_cong[where f = concat] map_cong)

lemma one_or_none_map: "one_or_none P (map g xs) = map_sum id (map_option g) (one_or_none (\<lambda>x. P (g x)) xs)"
  by (auto simp: one_or_none.simps filter_map comp_def split: list.splits)

definition activity_written :: "claimed_event \<Rightarrow> activity_plan \<Rightarrow> cycle_row \<Rightarrow> cycle_row" where
  "activity_written ev q c = c\<lparr>c_activity := \<lparr>ac_plan = Some q, ac_version = pl_version q,
     ac_last_event = Some (ce_row ev), ac_last_sequence = Some (ce_seq ev)\<rparr>\<rparr>"

lemma activity_written_same [simp]:
  "c_id (activity_written ev q c) = c_id c" "c_runtime (activity_written ev q c) = c_runtime c"
  "c_status (activity_written ev q c) = c_status c"
  by (simp_all add: activity_written_def)

definition with_activity :: "claimed_event \<Rightarrow> activity_plan \<Rightarrow> db \<Rightarrow> db" where
  "with_activity ev q s = s\<lparr>cycles := update_where (\<lambda>c. c_id c = ce_cycle ev) (activity_written ev q) (cycles s)\<rparr>"

definition writable :: "claimed_event \<Rightarrow> cycle_row \<Rightarrow> bool" where
  "writable ev c \<longleftrightarrow> open_cycle (c_status c) \<and> activity_event_new (ce_seq ev) (ce_row ev) c"

lemma UPDATE_ACTIVITY_STATE_written:
  assumes "keys_ok s" and "c \<in> set (cycles s)" and "c_id c = ce_cycle ev"
  shows "UPDATE_ACTIVITY_STATE (ce_cycle ev) q (ce_row ev) (ce_seq ev) s =
    (if writable ev c then (True, with_activity ev q s) else (False, s))"
proof -
  have one: "r = c" if "r \<in> set (cycles s)" "c_id r = ce_cycle ev" for r
    using cycle_key_unique[OF assms(1)] assms(2,3) that by simp
  have row: "(let d = write_activity q r in d\<lparr>c_activity := (c_activity d)\<lparr>ac_last_event := Some (ce_row ev),
      ac_last_sequence := Some (ce_seq ev)\<rparr>\<rparr>) = activity_written ev q r" for r
    by (simp add: write_activity_def activity_written_def)
  show ?thesis
  proof (cases "writable ev c")
    case True
    then have "update_where (\<lambda>c. c_id c = ce_cycle ev \<and> open_cycle (c_status c) \<and>
        activity_event_new (ce_seq ev) (ce_row ev) c) (activity_written ev q) (cycles s) =
      update_where (\<lambda>c. c_id c = ce_cycle ev) (activity_written ev q) (cycles s)"
      unfolding update_where_def by (intro map_cong refl) (auto simp: writable_def dest!: one)
    moreover have "\<exists>c \<in> set (cycles s). c_id c = ce_cycle ev \<and> open_cycle (c_status c) \<and>
        activity_event_new (ce_seq ev) (ce_row ev) c"
      using True assms(2,3) by (auto simp: writable_def)
    ultimately show ?thesis
      using True by (simp only: UPDATE_ACTIVITY_STATE_def Let_def[of "\<lambda>c. _ c"] row with_activity_def if_True)
  next
    case False
    then have miss: "\<not> (c_id r = ce_cycle ev \<and> open_cycle (c_status r) \<and>
        activity_event_new (ce_seq ev) (ce_row ev) r)" if "r \<in> set (cycles s)" for r
      using one that by (auto simp: writable_def)
    then show ?thesis
      using False by (auto simp: UPDATE_ACTIVITY_STATE_def Let_def)
  qed
qed

lemma write_state_written:
  assumes "keys_ok s" and "c \<in> set (cycles s)" and "c_id c = ce_cycle ev" and "write_state ev q s = Inr t"
  shows "t = (if writable ev c then with_activity ev q s else s)"
  using assms(4) UPDATE_ACTIVITY_STATE_written[OF assms(1-3), of q]
  by (auto simp: write_state_def split: if_splits sum.splits option.splits)

lemma write_state_writable:
  assumes "keys_ok s" and "c \<in> set (cycles s)" and "c_id c = ce_cycle ev" and "writable ev c"
  shows "write_state ev q s = Inr (with_activity ev q s)"
  using UPDATE_ACTIVITY_STATE_written[OF assms(1-3), of q] assms(4) by (simp add: write_state_def)

lemma begin_activity_written:
  assumes "begin_activity ev s = Inr (c, plan)" and "validate_activity_plan q = Inr q"
  shows "begin_activity ev (with_activity ev q s) = Inr (activity_written ev q c, Some q)"
proof -
  let ?P = "\<lambda>(e, c, r). c_id c = ce_cycle ev \<and> e_id e = ce_row ev"
  let ?g = "\<lambda>(e :: event_row, c, r :: session_row). (e, if c_id c = ce_cycle ev then activity_written ev q c else c, r)"
  from assms(1) obtain e r where lock: "one_or_none ?P (event_join s) = Inr (Some (e, c, r))"
    and claim: "validate_activity_claim e r ev = None"
    by (auto simp: begin_activity_def LOCK_CYCLE_FOR_ACTIVITY_def split: sum.splits option.splits)
  have "one_or_none ?P (event_join (with_activity ev q s)) = map_sum id (map_option ?g) (one_or_none (\<lambda>x. ?P (?g x)) (event_join s))"
    unfolding with_activity_def by (subst event_join_update_cycles) (simp_all add: one_or_none_map)
  also have "(\<lambda>x. ?P (?g x)) = ?P" by (auto simp: fun_eq_iff)
  finally have "one_or_none ?P (event_join (with_activity ev q s)) = Inr (Some (e, activity_written ev q c, r))"
    using lock begun_cycle(2)[OF assms(1)] by simp
  with claim assms(2) show ?thesis
    by (simp add: begin_activity_def LOCK_CYCLE_FOR_ACTIVITY_def load_plan_def activity_written_def)
qed

lemma keys_with_activity: "keys_ok s \<Longrightarrow> keys_ok (with_activity ev q s)"
proof -
  have "map c_id (update_where P (activity_written ev q) cs) = map c_id cs" for P cs
    by (rule map_update_where) simp
  then show "keys_ok s \<Longrightarrow> keys_ok (with_activity ev q s)"
    by (simp add: keys_ok_def id_lists_def with_activity_def)
qed

section \<open>One report\<close>

text \<open>The decision \<open>d\<close> is bound to the current step of the active plan \<open>p\<close>.\<close>

definition bound_to_current :: "claimed_event \<Rightarrow> string \<Rightarrow> db \<Rightarrow> activity_plan \<Rightarrow> string \<Rightarrow> bool" where
  "bound_to_current ev i s p step \<longleftrightarrow> pl_status p = P_active \<and> pl_current p = Some step \<and>
     (\<exists>d b. SELECT_DECISION_BINDING (ce_cycle ev) i s = Inr (Some d) \<and> d_binding d = Some b \<and>
        ab_plan_id b = pl_id p \<and> ab_step_id b = step)"

lemma validated_id: "validate_activity_plan raw = Inr p \<Longrightarrow> pl_id p \<noteq> []"
  by (auto simp: validate_activity_plan_def plan_fields_ok_def bounded_string_def Let_def
      split: if_splits option.splits)

lemma begun_id: "begin_activity ev s = Inr (c, Some p) \<Longrightarrow> pl_id p \<noteq> []"
  using begin_activity_Inr[of ev s c "Some p"]
  by (auto simp: load_plan_def dest: validated_id split: option.splits sum.splits)

lemma record_bound:
  assumes "begin_activity ev s = Inr (c, Some p)" and "bound_to_current ev i s p step"
  shows "record_terminal_event ev note i s =
    (case apply_note note p step of Inl e \<Rightarrow> Inl (plan_failure e)
     | Inr q \<Rightarrow> (case write_state ev q s of Inl er \<Rightarrow> Inl er | Inr t \<Rightarrow> Inr (True, t)))"
  using assms by (auto simp: record_terminal_event_def bound_to_current_def)

lemma record_unbound:
  assumes "begin_activity ev s = Inr (c, Some p)" and "record_terminal_event ev note i s = Inr (b, t)"
    and "\<nexists>step. bound_to_current ev i s p step"
  shows "b \<and> t = s"
  using assms begun_id[OF assms(1)]
  by (auto simp: record_terminal_event_def bound_to_current_def Let_def
      split: if_splits sum.splits option.splits prod.splits)

lemma record_terminal_event_outcome:
  assumes keys: "keys_ok s" and run: "record_terminal_event ev note i s = Inr (b, t)"
  shows "b \<and> (t = s \<or> (\<exists>c p step q. begin_activity ev s = Inr (c, Some p) \<and> bound_to_current ev i s p step \<and>
    writable ev c \<and> apply_note note p step = Inr q \<and> t = with_activity ev q s))"
proof (cases "begin_activity ev s")
  case (Inr x)
  obtain c plan where x: "x = (c, plan)" by (cases x)
  show ?thesis
  proof (cases plan)
    case None
    with run Inr x show ?thesis by (simp add: record_terminal_event_def)
  next
    case (Some p)
    note start = Inr[unfolded x Some]
    show ?thesis
    proof (cases "\<exists>step. bound_to_current ev i s p step")
      case True
      then obtain step where bound: "bound_to_current ev i s p step" ..
      with run record_bound[OF start bound] obtain q where q: "apply_note note p step = Inr q" "b"
        "write_state ev q s = Inr t" by (auto split: sum.splits)
      from write_state_written[OF keys begun_cycle(1,2)[OF start] q(3)] q start bound show ?thesis by auto
    next
      case False
      with record_unbound[OF start run] show ?thesis by blast
    qed
  qed
qed (use run in \<open>simp add: record_terminal_event_def\<close>)

text \<open>
  A report moves the current step and nothing else.  When the recording of a started, ended or
  rejected skill returns, either the database is as before, or the active plan of the event's cycle was
  moved on by exactly that report, about the step the reported decision was bound to, which is the
  current one, and the cycle was open and no later event had been written.
\<close>

theorem report_moves_current_step:
  assumes "keys_ok s" and "record_terminal_event ev note i s = Inr (b, t)"
  shows "b \<and> (t = s \<or> (\<exists>c p step q. begin_activity ev s = Inr (c, Some p) \<and> bound_to_current ev i s p step \<and>
    writable ev c \<and> apply_note note p step = Inr q \<and> t = with_activity ev q s))"
  by (rule record_terminal_event_outcome[OF assms])

section \<open>One report given twice\<close>

lemma advance_skips:
  assumes "advance_after_terminal p st = Inr q"
  shows "st \<in> set (pl_steps q)"
proof -
  from assms obtain i where i: "step_index (st_id st) (pl_steps p) = Some i"
    by (auto simp: advance_after_terminal_def split: option.splits)
  have "step_index j ss = Some k \<Longrightarrow> \<exists>s \<in> set ss. st_id s = j" for j ss k
    by (induction ss arbitrary: k) (auto split: if_splits)
  from this[OF i] have "st \<in> set (replace_step p st)" by (force simp: replace_step_def)
  with assms i show ?thesis by (auto simp: advance_after_terminal_def Let_def split: if_splits)
qed

lemma retry_twice:
  assumes inv: "plan_inv p" and cur: "pl_current p = Some step" "current_step p = Inr st"
    and skill: "st_skill st \<noteq> None" and next_ge: "1 \<le> next_attempts st" and left: "next_attempts st < st_max_attempts st"
  obtains q q' st' where "record_step_terminal p step False True corr = Inr q" and "plan_inv q"
    and "pl_id q = pl_id p" and "pl_status q = P_active" and "pl_current q = Some step"
    and "record_step_terminal q step False True corr = Inr q'"
    and "current_step q = Inr (st\<lparr>st_status := St_pending, st_attempts := next_attempts st\<rparr>)"
    and "st' \<in> set (pl_steps q')" and "st_id st' = step" and "st_status st' = St_skipped"
proof -
  from plan_invE[OF inv cur(1)] cur(2) obtain a b where d: "pl_steps p = a @ st # b" "st_id st = step"
    "step \<notin> set (map st_id a)" "step \<notin> set (map st_id b)" "pl_status p = P_active" "live_step st"
    by (metis sum.inject(2))
  have mem: "st \<in> set (pl_steps p)" using d by simp
  have m: "1 \<le> st_max_attempts st" "st_max_attempts st \<le> 2" "0 \<le> st_attempts st"
    using plan_inv_step_facts(2)[OF inv mem] by (auto simp: step_fields_ok_def)
  define st1 where "st1 = st\<lparr>st_status := St_pending, st_attempts := next_attempts st\<rparr>"
  define q where "q = p\<lparr>pl_steps := replace_step p st1\<rparr>"
  have step1: "record_step_terminal p step False True corr = Inr q"
    using cur(2) d(2) skill left by (simp add: record_step_terminal_def q_def st1_def)
  have rep: "pl_steps q = a @ st1 # b"
    using replace_step_split[OF d(1), of st1] d by (simp add: q_def st1_def)
  have "find (\<lambda>s. st_id s = step) (pl_steps q) = Some st1"
    by (rule find_unique) (use rep d in \<open>auto simp: st1_def\<close>)
  then have cur1: "current_step q = Inr st1"
    using cur(1) by (simp add: current_step_def plan_step_of_def q_def)
  have full: "\<not> next_attempts st1 < st_max_attempts st1" using next_ge m by (simp add: st1_def next_attempts_def)
  define st2 where "st2 = st1\<lparr>st_status := St_skipped, st_attempts := next_attempts st1\<rparr>"
  have step2: "record_step_terminal q step False True corr = advance_after_terminal q st2"
  proof -
    obtain k where "st_skill st1 = Some k" using skill by (auto simp: st1_def)
    moreover have "st_id st1 = step" using d(2) by (simp add: st1_def)
    ultimately show ?thesis using cur1 full by (simp add: record_step_terminal_def st2_def)
  qed
  obtain q' where q': "advance_after_terminal q st2 = Inr q'"
    using advance_split[OF rep, of st2] d by (cases b) (simp_all add: st2_def st1_def)
  show thesis
    by (rule that[OF step1 plan_inv_terminal[OF inv step1] _ _ _ step2[unfolded q'] cur1[unfolded st1_def]
          advance_skips[OF q']])
       (simp_all add: q_def st2_def st1_def d cur)
qed

lemma activity_written_twice:
  "writable ev c \<Longrightarrow> writable ev (activity_written ev q c)"
  by (simp add: writable_def activity_event_new_def activity_written_def)

lemma bound_with_activity:
  "bound_to_current ev i (with_activity ev q' s) q step \<longleftrightarrow> bound_to_current ev i s q step"
  by (simp add: bound_to_current_def SELECT_DECISION_BINDING_def with_activity_def)

lemma with_activity_cycle:
  "c \<in> set (cycles s) \<Longrightarrow> c_id c = ce_cycle ev \<Longrightarrow> activity_written ev q c \<in> set (cycles (with_activity ev q s))"
  by (simp add: with_activity_def update_where_in)

text \<open>
  C19: a failure reported once may count twice.  When the skill of the current step fails and may be tried
  again, recording the event leaves the step pending for its next attempt; when the worker processes the
  same event once more (a later part of its processing failed and the event was retried), the failure is
  counted again, and the step is skipped although it ran only once.
\<close>

theorem retried_failure_counts_twice:
  assumes keys: "keys_ok s" and start: "begin_activity ev s = Inr (c, Some p)" and inv: "plan_inv p"
    and bound: "bound_to_current ev (payload_decision_id (ev_payload (ce_body ev))) s p step"
    and failed: "finished_note (ce_body ev) = Note_ended False True corr" and hit: "writable ev c"
    and st: "current_step p = Inr st" "st_skill st \<noteq> None"
    and left: "1 \<le> next_attempts st" "next_attempts st < st_max_attempts st"
  shows "\<exists>q q' st'. record_activity_finished ev s = Inr (True, with_activity ev q s) \<and>
    current_step q = Inr (st\<lparr>st_status := St_pending, st_attempts := next_attempts st\<rparr>) \<and>
    record_activity_finished ev (with_activity ev q s) = Inr (True, with_activity ev q' (with_activity ev q s)) \<and>
    st' \<in> set (pl_steps q') \<and> st_id st' = step \<and> st_status st' = St_skipped"
proof -
  let ?i = "payload_decision_id (ev_payload (ce_body ev))"
  have cur: "pl_current p = Some step" using bound by (simp add: bound_to_current_def)
  obtain q q' st' where q: "record_step_terminal p step False True corr = Inr q" "plan_inv q" "pl_id q = pl_id p"
      "pl_status q = P_active" "pl_current q = Some step" "record_step_terminal q step False True corr = Inr q'"
      "current_step q = Inr (st\<lparr>st_status := St_pending, st_attempts := next_attempts st\<rparr>)"
    and st': "st' \<in> set (pl_steps q')" "st_id st' = step" "st_status st' = St_skipped"
    by (rule retry_twice[OF inv cur st left, of corr])
  note begun = begun_cycle(1,2)[OF start]
  let ?t = "with_activity ev q s"
  have first: "record_activity_finished ev s = Inr (True, ?t)"
    using record_bound[OF start bound, of "finished_note (ce_body ev)"] q(1)
      write_state_writable[OF keys begun hit, of q]
    by (simp add: record_activity_finished_def failed apply_note_def)
  have start2: "begin_activity ev ?t = Inr (activity_written ev q c, Some q)"
    by (rule begin_activity_written[OF start plan_inv_loadable[OF q(2)]])
  have "bound_to_current ev ?i ?t q step"
    using bound q by (simp add: bound_with_activity) (simp add: bound_to_current_def)
  note again = record_bound[OF start2 this, of "finished_note (ce_body ev)"]
  have "write_state ev q' ?t = Inr (with_activity ev q' ?t)"
    by (rule write_state_writable[OF keys_with_activity[OF keys] with_activity_cycle[OF begun] _
          activity_written_twice[OF hit]]) (simp add: begun(2))
  with again q(6) have "record_activity_finished ev ?t = Inr (True, with_activity ev q' ?t)"
    by (simp add: record_activity_finished_def failed apply_note_def)
  with first q(7) st' show ?thesis by blast
qed

end
