(* ===== verification/Wire.thy ===== *)
theory Wire
  imports Canonical "HOL-Library.Monad_Syntax"
begin

text \<open>
  The fields of the wire models (\<open>contracts.py\<close>, \<open>auto_chat.py\<close>).

  A wire model is parsed from a JSON object: \<open>wire_object\<close> refuses a value that is not an object and
  an object with a key the model does not declare (\<open>extra="forbid"\<close>), and answers the lookup of its
  members; a field reads the member of its alias, \<open>None\<close> when it is absent.  A validation error is
  \<open>None\<close>.  For every field there is the predicate its values satisfy (\<open>text_ok\<close>, ...), which is what
  the field promises, and the lemma that a value satisfying it is read back unchanged; the
  lemmas are collected in \<open>wire_back\<close> and carry the round trips of the models.

  The length constraints count code points (\<open>py_len\<close>), and white space is the ASCII one of \<open>py_strip\<close>.
\<close>

named_theorems wire_back \<open>a field reads back what it accepted\<close>
named_theorems wire_ok \<open>what a field accepts is valid\<close>

section \<open>Objects\<close>

definition wire_object :: "string list \<Rightarrow> json \<Rightarrow> (string \<Rightarrow> json option) option" where
  "wire_object names v = (case v of
     JObj kvs \<Rightarrow> if list_all (\<lambda>k. k \<in> set names) (map fst kvs) then Some (map_of kvs) else None
   | _ \<Rightarrow> None)"

lemma wire_object_members [wire_back]:
  "wire_object names (JObj kvs) = (if list_all (\<lambda>k. k \<in> set names) (map fst kvs) then Some (map_of kvs) else None)"
  by (simp add: wire_object_def)

lemma wire_object_is_object: "wire_object names v = Some m \<Longrightarrow> \<exists>kvs. v = JObj kvs \<and> m = map_of kvs"
  by (auto simp: wire_object_def split: json.splits if_splits)

section \<open>Strings\<close>

text \<open>\<open>Annotated[str, StringConstraints(strip_whitespace=True, min_length=1, max_length=n, strict=True)]\<close>,
  and the same without a greatest length.\<close>

definition within_length :: "nat option \<Rightarrow> string \<Rightarrow> bool" where
  "within_length n s = (case n of None \<Rightarrow> True | Some k \<Rightarrow> py_len s \<le> k)"

definition text_ok :: "nat option \<Rightarrow> string \<Rightarrow> bool" where
  "text_ok n s \<longleftrightarrow> py_strip s = s \<and> s \<noteq> [] \<and> within_length n s"

definition text_field :: "nat option \<Rightarrow> json option \<Rightarrow> string option" where
  "text_field n x = (case x of
     Some (JStr s) \<Rightarrow> if py_strip s \<noteq> [] \<and> within_length n (py_strip s) then Some (py_strip s) else None
   | _ \<Rightarrow> None)"

abbreviation text128 :: "json option \<Rightarrow> string option" where "text128 \<equiv> text_field (Some 128)"
abbreviation text256 :: "json option \<Rightarrow> string option" where "text256 \<equiv> text_field (Some 256)"

lemma text_field_ok [wire_ok]: "text_field n x = Some s \<Longrightarrow> text_ok n s"
  by (auto simp: text_field_def text_ok_def split: option.splits json.splits if_splits)

lemma text_field_back [wire_back]: "text_ok n s \<Longrightarrow> text_field n (Some (JStr s)) = Some s"
  by (simp add: text_field_def text_ok_def)

text \<open>\<open>Annotated[str, Strict()]\<close>\<close>

definition string_field :: "json option \<Rightarrow> string option" where
  "string_field x = (case x of Some (JStr s) \<Rightarrow> Some s | _ \<Rightarrow> None)"

lemma string_field_back [wire_back]: "string_field (Some (JStr s)) = Some s"
  by (simp add: string_field_def)

section \<open>Numbers and flags\<close>

text \<open>\<open>Annotated[int, Strict(), Field(ge=least)]\<close>; a strict integer is not a boolean.\<close>

definition int_field :: "int option \<Rightarrow> json option \<Rightarrow> int option" where
  "int_field least x = (case x of
     Some (JInt i) \<Rightarrow> if case least of None \<Rightarrow> True | Some l \<Rightarrow> l \<le> i then Some i else None
   | _ \<Rightarrow> None)"

abbreviation nat_field :: "json option \<Rightarrow> int option" where "nat_field \<equiv> int_field (Some 0)"
abbreviation pos_field :: "json option \<Rightarrow> int option" where "pos_field \<equiv> int_field (Some 1)"

definition int_ok :: "int option \<Rightarrow> int \<Rightarrow> bool" where
  "int_ok least i = (case least of None \<Rightarrow> True | Some l \<Rightarrow> l \<le> i)"

lemma int_field_ok [wire_ok]: "int_field least x = Some i \<Longrightarrow> int_ok least i"
  by (auto simp: int_field_def int_ok_def split: option.splits json.splits if_splits)

lemma int_field_back [wire_back]: "int_ok least i \<Longrightarrow> int_field least (Some (JInt i)) = Some i"
  by (auto simp: int_field_def int_ok_def split: option.splits)

definition bool_field :: "json option \<Rightarrow> bool option" where
  "bool_field x = (case x of Some (JBool b) \<Rightarrow> Some b | _ \<Rightarrow> None)"

lemma bool_field_back [wire_back]: "bool_field (Some (JBool b)) = Some b"
  by (simp add: bool_field_def)

text \<open>\<open>Literal[...]\<close>: one of the given values.\<close>

definition literal_field :: "json list \<Rightarrow> json option \<Rightarrow> json option" where
  "literal_field vs x = (case x of Some v \<Rightarrow> if v \<in> set vs then Some v else None | None \<Rightarrow> None)"

lemma literal_field_back [wire_back]: "literal_field vs (Some v) = (if v \<in> set vs then Some v else None)"
  by (simp add: literal_field_def)

text \<open>A literal whose values name the constructors of an enumeration.\<close>

definition enum_field :: "(string \<times> 'a) list \<Rightarrow> json option \<Rightarrow> 'a option" where
  "enum_field names x = (case x of Some (JStr s) \<Rightarrow> map_of names s | _ \<Rightarrow> None)"

lemma enum_field_back [wire_back]: "enum_field names (Some (JStr s)) = map_of names s"
  by (simp add: enum_field_def)

section \<open>Optional members, arrays and free objects\<close>

text \<open>\<open>T | None\<close>: the member may be null.\<close>

definition nullable :: "(json option \<Rightarrow> 'a option) \<Rightarrow> json option \<Rightarrow> 'a option option" where
  "nullable p x = (case x of Some JNull \<Rightarrow> Some None | _ \<Rightarrow> map_option Some (p x))"

definition dump_nullable :: "('a \<Rightarrow> json) \<Rightarrow> 'a option \<Rightarrow> json" where
  "dump_nullable d a = (case a of None \<Rightarrow> JNull | Some b \<Rightarrow> d b)"

lemma dump_nullable_Some: "dump_nullable d (Some b) = d b"
  by (simp add: dump_nullable_def)

lemma nullable_ok [wire_ok]:
  "nullable p x = Some a \<Longrightarrow> (\<And>b. p x = Some b \<Longrightarrow> P b) \<Longrightarrow> pred_option P a"
  by (auto simp: nullable_def split: option.splits json.splits)

lemma nullable_back:
  "pred_option P a \<Longrightarrow> (\<And>b. P b \<Longrightarrow> p (Some (d b)) = Some b) \<Longrightarrow> (\<And>b. d b \<noteq> JNull) \<Longrightarrow>
   nullable p (Some (dump_nullable d a)) = Some a"
proof (cases a)
  case (Some b)
  assume "pred_option P a" "\<And>b. P b \<Longrightarrow> p (Some (d b)) = Some b" "\<And>b. d b \<noteq> JNull"
  with Some have "p (Some (d b)) = Some b" "d b \<noteq> JNull" by auto
  with Some show ?thesis by (cases "d b") (simp_all add: nullable_def dump_nullable_def)
qed (simp add: nullable_def dump_nullable_def)

lemma nullable_text [wire_back]:
  "pred_option (text_ok n) a \<Longrightarrow> nullable (text_field n) (Some (dump_nullable JStr a)) = Some a"
  by (rule nullable_back[where P = "text_ok n"]) (auto intro: text_field_back)

lemma nullable_int [wire_back]:
  "pred_option (int_ok l) a \<Longrightarrow> nullable (int_field l) (Some (dump_nullable JInt a)) = Some a"
  by (rule nullable_back[where P = "int_ok l"]) (auto intro: int_field_back)

text \<open>A field with a default may be absent.\<close>

definition default_to :: "'a \<Rightarrow> (json option \<Rightarrow> 'a option) \<Rightarrow> json option \<Rightarrow> 'a option" where
  "default_to d p x = (case x of None \<Rightarrow> Some d | Some v \<Rightarrow> p (Some v))"

lemma default_to_back [wire_back]: "default_to d p (Some v) = p (Some v)"
  by (simp add: default_to_def)

lemma default_to_None [wire_back]: "default_to d p None = Some d"
  by (simp add: default_to_def)

lemma default_to_ok: "default_to d p x = Some a \<Longrightarrow> P d \<Longrightarrow> (\<And>y a. p y = Some a \<Longrightarrow> P a) \<Longrightarrow> P a"
  by (auto simp: default_to_def split: option.splits)

definition array_field :: "(json option \<Rightarrow> 'a option) \<Rightarrow> json option \<Rightarrow> 'a list option" where
  "array_field p x = (case x of Some (JArr vs) \<Rightarrow> those (map (\<lambda>v. p (Some v)) vs) | _ \<Rightarrow> None)"

lemma those_ok: "those xs = Some ys \<Longrightarrow> (\<And>y. Some y \<in> set xs \<Longrightarrow> P y) \<Longrightarrow> list_all P ys"
  by (induction xs arbitrary: ys) (auto split: option.splits)

lemma those_back: "list_all (\<lambda>a. p (f a) = Some a) as \<Longrightarrow> those (map p (map f as)) = Some as"
  by (induction as) auto

lemma array_field_ok [wire_ok]:
  "array_field p x = Some as \<Longrightarrow> (\<And>y a. p y = Some a \<Longrightarrow> P a) \<Longrightarrow> list_all P as"
  by (auto simp: array_field_def split: option.splits json.splits intro!: those_ok)

lemma array_field_back:
  assumes "list_all P as" and "\<And>a. P a \<Longrightarrow> p (Some (f a)) = Some a"
  shows "array_field p (Some (JArr (map f as))) = Some as"
proof -
  have "list_all (\<lambda>a. p (Some (f a)) = Some a) as"
    using assms by (auto simp: list_all_iff)
  from those_back[of "\<lambda>v. p (Some v)", OF this] show ?thesis by (simp add: array_field_def)
qed

lemma array_text [wire_back]:
  "list_all (text_ok n) as \<Longrightarrow> array_field (text_field n) (Some (JArr (map JStr as))) = Some as"
  by (rule array_field_back[where P = "text_ok n"]) (auto intro: text_field_back)

text \<open>
  \<open>Mapping[str, Any]\<close>.  The value is kept deeply frozen: dictionaries become mapping proxies, lists
  become tuples.  Thawing it gives the JSON value back.
\<close>

datatype frozen =
    Fz_none | Fz_bool bool | Fz_int int | Fz_str string
  | Fz_tuple "frozen list" | Fz_proxy "(string \<times> frozen) list"

fun deep_freeze :: "json \<Rightarrow> frozen" where
  "deep_freeze JNull = Fz_none"
| "deep_freeze (JBool b) = Fz_bool b"
| "deep_freeze (JInt i) = Fz_int i"
| "deep_freeze (JStr s) = Fz_str s"
| "deep_freeze (JObj kvs) = Fz_proxy (map (\<lambda>(k, v). (k, deep_freeze v)) kvs)"
| "deep_freeze (JArr vs) = Fz_tuple (map deep_freeze vs)"

fun deep_thaw :: "frozen \<Rightarrow> json" where
  "deep_thaw (Fz_proxy kvs) = JObj (map (\<lambda>(k, v). (k, deep_thaw v)) kvs)"
| "deep_thaw (Fz_tuple vs) = JArr (map deep_thaw vs)"
| "deep_thaw Fz_none = JNull"
| "deep_thaw (Fz_bool b) = JBool b"
| "deep_thaw (Fz_int i) = JInt i"
| "deep_thaw (Fz_str s) = JStr s"

lemma deep_thaw_freeze [simp]: "deep_thaw (deep_freeze v) = v"
  by (induction v rule: deep_freeze.induct)
    (auto simp: o_def split_beta intro!: map_idI)

lemma deep_freeze_thaw [simp]: "deep_freeze (deep_thaw z) = z"
  by (induction z rule: deep_thaw.induct)
    (auto simp: o_def split_beta intro!: map_idI)

fun is_proxy :: "frozen \<Rightarrow> bool" where
  "is_proxy (Fz_proxy _) = True"
| "is_proxy _ = False"

definition mapping_field :: "json option \<Rightarrow> frozen option" where
  "mapping_field x = (case x of Some (JObj kvs) \<Rightarrow> Some (deep_freeze (JObj kvs)) | _ \<Rightarrow> None)"

lemma mapping_field_ok [wire_ok]: "mapping_field x = Some z \<Longrightarrow> is_proxy z"
  by (auto simp: mapping_field_def split: option.splits json.splits)

lemma mapping_field_back [wire_back]: "is_proxy z \<Longrightarrow> mapping_field (Some (deep_thaw z)) = Some z"
proof (cases z)
  case (Fz_proxy kvs)
  then have "deep_thaw z = JObj (map (\<lambda>(k, v). (k, deep_thaw v)) kvs)" by simp
  then show ?thesis using deep_freeze_thaw[of z] by (simp add: mapping_field_def)
qed simp_all

lemma deep_thaw_not_null [simp]: "is_proxy z \<Longrightarrow> deep_thaw z \<noteq> JNull"
  by (cases z) auto

end
