(* ===== verification/WireContext.thy ===== *)
theory WireContext
  imports Wire Schema
begin

text \<open>
  The lease and the decision context of an event (\<open>contracts.py\<close>: \<open>AvailableSkill\<close>,
  \<open>SkillArgumentHint\<close>, \<open>DecisionLeaseContext\<close>, \<open>DecisionContext\<close> and their parts).

  For each wire model there is its record, \<open>parse_...\<close>, which validates a JSON value with the
  constraints of the fields and the validators of the class, \<open>dump_...\<close>, which is
  \<open>model_dump(mode="json", by_alias=True)\<close> with the class's serializers, and the predicate \<open>..._ok\<close> of
  the values that validation can return.
\<close>

definition model_field :: "(json \<Rightarrow> 'a option) \<Rightarrow> json option \<Rightarrow> 'a option" where
  "model_field p x = Option.bind x p"

lemma model_field_back [wire_back]: "model_field p (Some v) = p v"
  by (simp add: model_field_def)

lemma model_field_ok: "model_field p x = Some a \<Longrightarrow> (\<And>v. p v = Some a \<Longrightarrow> P a) \<Longrightarrow> P a"
  by (auto simp: model_field_def bind_eq_Some_conv)

section \<open>Skills\<close>

record exposure =
  xp_state :: string
  xp_reason :: string
  xp_admin :: bool
  xp_provider :: bool
  xp_explicit :: bool

definition exposure_ok :: "exposure \<Rightarrow> bool" where
  "exposure_ok x \<longleftrightarrow> text_ok (Some 128) (xp_state x)"

definition parse_exposure :: "json \<Rightarrow> exposure option" where
  "parse_exposure v = do {
     m \<leftarrow> wire_object [''state'', ''reason'', ''exposeToAdminDefault'', ''exposeToDecisionProvider'',
       ''allowExplicitCall''] v;
     st \<leftarrow> text128 (m ''state'');
     rs \<leftarrow> string_field (m ''reason'');
     ad \<leftarrow> bool_field (m ''exposeToAdminDefault'');
     pr \<leftarrow> bool_field (m ''exposeToDecisionProvider'');
     ex \<leftarrow> bool_field (m ''allowExplicitCall'');
     Some \<lparr>xp_state = st, xp_reason = rs, xp_admin = ad, xp_provider = pr, xp_explicit = ex\<rparr> }"

definition dump_exposure :: "exposure \<Rightarrow> json" where
  "dump_exposure x = JObj
     [(''state'', JStr (xp_state x)), (''reason'', JStr (xp_reason x)),
      (''exposeToAdminDefault'', JBool (xp_admin x)), (''exposeToDecisionProvider'', JBool (xp_provider x)),
      (''allowExplicitCall'', JBool (xp_explicit x))]"

record available_skill =
  as_name :: string
  as_schema :: string
  as_running :: bool
  as_cooldown :: int
  as_exposure :: "exposure option"

definition skill_ok :: "available_skill \<Rightarrow> bool" where
  "skill_ok k \<longleftrightarrow> text_ok (Some 128) (as_name k) \<and> text_ok (Some 128) (as_schema k) \<and>
     int_ok (Some 0) (as_cooldown k) \<and> pred_option exposure_ok (as_exposure k)"

definition parse_skill :: "json \<Rightarrow> available_skill option" where
  "parse_skill v = do {
     m \<leftarrow> wire_object [''SkillName'', ''SchemaVersion'', ''RequireRunning'', ''CooldownMs'', ''exposure''] v;
     n \<leftarrow> text128 (m ''SkillName'');
     sv \<leftarrow> text128 (m ''SchemaVersion'');
     r \<leftarrow> bool_field (m ''RequireRunning'');
     c \<leftarrow> nat_field (m ''CooldownMs'');
     x \<leftarrow> default_to None (nullable (model_field parse_exposure)) (m ''exposure'');
     Some \<lparr>as_name = n, as_schema = sv, as_running = r, as_cooldown = c, as_exposure = x\<rparr> }"

definition dump_skill :: "available_skill \<Rightarrow> json" where
  "dump_skill k = JObj
     [(''SkillName'', JStr (as_name k)), (''SchemaVersion'', JStr (as_schema k)),
      (''RequireRunning'', JBool (as_running k)), (''CooldownMs'', JInt (as_cooldown k)),
      (''exposure'', dump_nullable dump_exposure (as_exposure k))]"

lemma nullable_text_ok: "nullable (text_field n) x = Some a \<Longrightarrow> pred_option (text_ok n) a"
  by (erule nullable_ok) (rule text_field_ok)

lemma nullable_int_ok: "nullable (int_field n) x = Some a \<Longrightarrow> pred_option (int_ok n) a"
  by (erule nullable_ok) (rule int_field_ok)

lemma array_text_ok: "array_field (text_field n) x = Some a \<Longrightarrow> list_all (text_ok n) a"
  by (erule array_field_ok) (rule text_field_ok)

lemma default_nullable_text_ok: "default_to None (nullable (text_field n)) x = Some a \<Longrightarrow> pred_option (text_ok n) a"
  by (erule default_to_ok) (auto intro: nullable_text_ok)

lemma default_nullable_int_ok: "default_to None (nullable (int_field n)) x = Some a \<Longrightarrow> pred_option (int_ok n) a"
  by (erule default_to_ok) (auto intro: nullable_int_ok)

lemmas field_oks = text_field_ok int_field_ok mapping_field_ok nullable_text_ok nullable_int_ok array_text_ok
  default_nullable_text_ok default_nullable_int_ok

lemma parse_exposure_ok: "parse_exposure v = Some x \<Longrightarrow> exposure_ok x"
  by (auto simp: parse_exposure_def exposure_ok_def bind_eq_Some_conv intro: field_oks)

lemma exposure_back: "exposure_ok x \<Longrightarrow> parse_exposure (dump_exposure x) = Some x"
  by (simp add: parse_exposure_def dump_exposure_def exposure_ok_def wire_back)

lemma dump_exposure_not_null: "dump_exposure x \<noteq> JNull"
  by (simp add: dump_exposure_def)

lemma nullable_exposure_back:
  "pred_option exposure_ok a \<Longrightarrow>
   nullable (model_field parse_exposure) (Some (dump_nullable dump_exposure a)) = Some a"
  by (rule nullable_back[where P = exposure_ok])
    (simp_all add: model_field_back exposure_back dump_exposure_not_null)

lemma parse_skill_ok: "parse_skill v = Some k \<Longrightarrow> skill_ok k"
  by (auto simp: parse_skill_def skill_ok_def bind_eq_Some_conv intro: field_oks
      elim!: default_to_ok nullable_ok model_field_ok intro: parse_exposure_ok)

lemma skill_back: "skill_ok k \<Longrightarrow> parse_skill (dump_skill k) = Some k"
  by (simp add: parse_skill_def dump_skill_def skill_ok_def wire_back nullable_exposure_back)

section \<open>Argument hints\<close>

record argument_field =
  af_path :: string
  af_type :: "string option"
  af_status :: "string option"
  af_source :: "string option"
  af_state_path :: "string option"
  af_reason :: "string option"
  af_next_step :: "string option"
  af_minimum :: "int option"
  af_maximum :: "int option"

definition validate_numeric_range :: "int option \<Rightarrow> int option \<Rightarrow> bool" where
  "validate_numeric_range lo hi =
     (case (lo, hi) of (None, None) \<Rightarrow> True | (Some a, Some b) \<Rightarrow> a \<le> b | _ \<Rightarrow> False)"

definition argument_field_ok :: "argument_field \<Rightarrow> bool" where
  "argument_field_ok f \<longleftrightarrow> text_ok (Some 128) (af_path f) \<and> pred_option (text_ok (Some 128)) (af_type f) \<and>
     pred_option (text_ok (Some 128)) (af_status f) \<and> pred_option (text_ok (Some 128)) (af_source f) \<and>
     pred_option (text_ok (Some 256)) (af_state_path f) \<and> pred_option (text_ok (Some 256)) (af_reason f) \<and>
     pred_option (text_ok (Some 256)) (af_next_step f) \<and> validate_numeric_range (af_minimum f) (af_maximum f)"

abbreviation optional :: "(json option \<Rightarrow> 'a option) \<Rightarrow> json option \<Rightarrow> 'a option option" where
  "optional p \<equiv> default_to None (nullable p)"

definition parse_argument_field :: "json \<Rightarrow> argument_field option" where
  "parse_argument_field v = do {
     m \<leftarrow> wire_object [''path'', ''type'', ''status'', ''source'', ''statePath'', ''reason'', ''nextStep'',
       ''minimum'', ''maximum''] v;
     p \<leftarrow> text128 (m ''path'');
     ty \<leftarrow> optional text128 (m ''type'');
     st \<leftarrow> optional text128 (m ''status'');
     so \<leftarrow> optional text128 (m ''source'');
     sp \<leftarrow> optional text256 (m ''statePath'');
     re \<leftarrow> optional text256 (m ''reason'');
     ns \<leftarrow> optional text256 (m ''nextStep'');
     lo \<leftarrow> optional (int_field None) (m ''minimum'');
     hi \<leftarrow> optional (int_field None) (m ''maximum'');
     if validate_numeric_range lo hi
     then Some \<lparr>af_path = p, af_type = ty, af_status = st, af_source = so, af_state_path = sp, af_reason = re,
       af_next_step = ns, af_minimum = lo, af_maximum = hi\<rparr>
     else None }"

definition dump_argument_field :: "argument_field \<Rightarrow> json" where
  "dump_argument_field f = JObj
     ([(''path'', JStr (af_path f)), (''type'', dump_nullable JStr (af_type f)),
       (''status'', dump_nullable JStr (af_status f)), (''source'', dump_nullable JStr (af_source f)),
       (''statePath'', dump_nullable JStr (af_state_path f)), (''reason'', dump_nullable JStr (af_reason f)),
       (''nextStep'', dump_nullable JStr (af_next_step f))] @
      (if af_minimum f = None then []
       else [(''minimum'', dump_nullable JInt (af_minimum f)), (''maximum'', dump_nullable JInt (af_maximum f))]))"

lemma parse_argument_field_ok: "parse_argument_field v = Some f \<Longrightarrow> argument_field_ok f"
  by (auto simp: parse_argument_field_def argument_field_ok_def bind_eq_Some_conv split: if_splits intro: field_oks)

lemma any_int [simp]: "int_ok None i"
  by (simp add: int_ok_def)

lemma any_nullable_int [wire_back]: "nullable (int_field None) (Some (dump_nullable JInt a)) = Some a"
  by (rule nullable_int) (cases a; simp)

lemma argument_field_back: "argument_field_ok f \<Longrightarrow> parse_argument_field (dump_argument_field f) = Some f"
  by (cases f) (auto simp: parse_argument_field_def dump_argument_field_def argument_field_ok_def wire_back
      validate_numeric_range_def split: option.splits)

record argument_step =
  ns_kind :: string
  ns_label :: "string option"
  ns_skill :: "string option"
  ns_reason :: "string option"

definition argument_step_ok :: "argument_step \<Rightarrow> bool" where
  "argument_step_ok s \<longleftrightarrow> text_ok (Some 128) (ns_kind s) \<and> pred_option (text_ok (Some 256)) (ns_label s) \<and>
     pred_option (text_ok (Some 128)) (ns_skill s) \<and> pred_option (text_ok (Some 256)) (ns_reason s)"

definition parse_argument_step :: "json \<Rightarrow> argument_step option" where
  "parse_argument_step v = do {
     m \<leftarrow> wire_object [''kind'', ''label'', ''skillName'', ''reason''] v;
     k \<leftarrow> text128 (m ''kind'');
     l \<leftarrow> optional text256 (m ''label'');
     n \<leftarrow> optional text128 (m ''skillName'');
     r \<leftarrow> optional text256 (m ''reason'');
     Some \<lparr>ns_kind = k, ns_label = l, ns_skill = n, ns_reason = r\<rparr> }"

definition dump_argument_step :: "argument_step \<Rightarrow> json" where
  "dump_argument_step s = JObj
     [(''kind'', JStr (ns_kind s)), (''label'', dump_nullable JStr (ns_label s)),
      (''skillName'', dump_nullable JStr (ns_skill s)), (''reason'', dump_nullable JStr (ns_reason s))]"

lemma parse_argument_step_ok: "parse_argument_step v = Some s \<Longrightarrow> argument_step_ok s"
  by (auto simp: parse_argument_step_def argument_step_ok_def bind_eq_Some_conv intro: field_oks)

lemma argument_step_back: "argument_step_ok s \<Longrightarrow> parse_argument_step (dump_argument_step s) = Some s"
  by (simp add: parse_argument_step_def dump_argument_step_def argument_step_ok_def wire_back)

record argument_hint =
  ah_skill :: string
  ah_schema :: string
  ah_status :: string
  ah_suggested :: frozen
  ah_allowed :: "argument_field list"
  ah_missing :: "argument_field list"
  ah_warnings :: "string list"
  ah_steps :: "argument_step list"

definition unique_paths :: "argument_field list \<Rightarrow> bool" where
  "unique_paths fs \<longleftrightarrow> distinct (map af_path fs)"

definition hint_ok :: "argument_hint \<Rightarrow> bool" where
  "hint_ok h \<longleftrightarrow> text_ok (Some 128) (ah_skill h) \<and> text_ok (Some 128) (ah_schema h) \<and>
     text_ok (Some 128) (ah_status h) \<and> is_proxy (ah_suggested h) \<and>
     list_all argument_field_ok (ah_allowed h) \<and> unique_paths (ah_allowed h) \<and>
     list_all argument_field_ok (ah_missing h) \<and> unique_paths (ah_missing h) \<and>
     list_all (text_ok (Some 256)) (ah_warnings h) \<and> list_all argument_step_ok (ah_steps h)"

definition parse_hint :: "json \<Rightarrow> argument_hint option" where
  "parse_hint v = do {
     m \<leftarrow> wire_object [''skillName'', ''schemaVersion'', ''argumentStatus'', ''suggestedArgs'', ''allowedArgs'',
       ''missingArgs'', ''warnings'', ''nextSteps''] v;
     n \<leftarrow> text128 (m ''skillName'');
     sv \<leftarrow> text128 (m ''schemaVersion'');
     st \<leftarrow> text128 (m ''argumentStatus'');
     sg \<leftarrow> mapping_field (m ''suggestedArgs'');
     al \<leftarrow> array_field (model_field parse_argument_field) (m ''allowedArgs'');
     ms \<leftarrow> array_field (model_field parse_argument_field) (m ''missingArgs'');
     ws \<leftarrow> array_field text256 (m ''warnings'');
     ns \<leftarrow> array_field (model_field parse_argument_step) (m ''nextSteps'');
     if unique_paths al \<and> unique_paths ms
     then Some \<lparr>ah_skill = n, ah_schema = sv, ah_status = st, ah_suggested = sg, ah_allowed = al, ah_missing = ms,
       ah_warnings = ws, ah_steps = ns\<rparr>
     else None }"

definition dump_hint :: "argument_hint \<Rightarrow> json" where
  "dump_hint h = JObj
     [(''skillName'', JStr (ah_skill h)), (''schemaVersion'', JStr (ah_schema h)),
      (''argumentStatus'', JStr (ah_status h)), (''suggestedArgs'', deep_thaw (ah_suggested h)),
      (''allowedArgs'', JArr (map dump_argument_field (ah_allowed h))),
      (''missingArgs'', JArr (map dump_argument_field (ah_missing h))),
      (''warnings'', JArr (map JStr (ah_warnings h))),
      (''nextSteps'', JArr (map dump_argument_step (ah_steps h)))]"

lemma array_model_ok:
  "array_field (model_field p) x = Some as \<Longrightarrow> (\<And>v a. p v = Some a \<Longrightarrow> P a) \<Longrightarrow> list_all P as"
  by (erule array_field_ok) (erule model_field_ok)

lemma array_model_back:
  "list_all P as \<Longrightarrow> (\<And>a. P a \<Longrightarrow> p (f a) = Some a) \<Longrightarrow>
   array_field (model_field p) (Some (JArr (map f as))) = Some as"
  by (rule array_field_back[where P = P]) (simp_all add: model_field_back)

lemmas hint_parts_back = array_model_back[where P = argument_field_ok, OF _ argument_field_back]
  array_model_back[where P = argument_step_ok, OF _ argument_step_back]

lemma parse_hint_ok: "parse_hint v = Some h \<Longrightarrow> hint_ok h"
  by (auto simp: parse_hint_def hint_ok_def bind_eq_Some_conv split: if_splits
      intro: field_oks array_model_ok parse_argument_field_ok parse_argument_step_ok)

lemma hint_back: "hint_ok h \<Longrightarrow> parse_hint (dump_hint h) = Some h"
  by (simp add: parse_hint_def dump_hint_def hint_ok_def wire_back hint_parts_back)

section \<open>The lease of an event\<close>

definition action_names :: "(string \<times> decision_action) list" where
  "action_names = [(''call_skill'', A_call_skill), (''wait'', A_wait), (''no_op'', A_no_op),
     (''stop_hosting'', A_stop_hosting)]"

fun action_name :: "decision_action \<Rightarrow> string" where
  "action_name A_call_skill = ''call_skill''"
| "action_name A_wait = ''wait''"
| "action_name A_no_op = ''no_op''"
| "action_name A_stop_hosting = ''stop_hosting''"

lemma action_back [wire_back]: "map_of action_names (action_name a) = Some a"
  by (cases a) (simp_all add: action_names_def)

lemma actions_back [wire_back]:
  "array_field (enum_field action_names) (Some (JArr (map (\<lambda>a. JStr (action_name a)) as))) = Some as"
  by (rule array_field_back[where P = "\<lambda>_. True"]) (simp_all add: enum_field_back action_back list_all_iff)

record lease_context =
  dl_session :: string
  dl_generation :: int
  dl_lease :: string
  dl_state_version :: int
  dl_kind :: string
  dl_actions :: "decision_action list"
  dl_skill :: "string option"
  dl_skills :: "string list"
  dl_parent :: "string option"

definition lease_ok :: "lease_context \<Rightarrow> bool" where
  "lease_ok l \<longleftrightarrow> text_ok (Some 128) (dl_session l) \<and> int_ok (Some 1) (dl_generation l) \<and>
     text_ok (Some 128) (dl_lease l) \<and> int_ok (Some 0) (dl_state_version l) \<and> text_ok (Some 128) (dl_kind l) \<and>
     dl_actions l \<noteq> [] \<and> distinct (dl_actions l) \<and> pred_option (text_ok (Some 128)) (dl_skill l) \<and>
     list_all (text_ok (Some 128)) (dl_skills l) \<and> distinct (dl_skills l) \<and>
     pred_option (text_ok (Some 128)) (dl_parent l) \<and> pred_option (\<lambda>n. n \<in> set (dl_skills l)) (dl_skill l)"

definition parse_lease :: "json \<Rightarrow> lease_context option" where
  "parse_lease v = do {
     m \<leftarrow> wire_object [''sessionId'', ''controlGeneration'', ''decisionLeaseId'', ''stateVersion'', ''leaseKind'',
       ''allowedActions'', ''allowedSkillName'', ''allowedSkillNames'', ''parentSkillName''] v;
     s \<leftarrow> text128 (m ''sessionId'');
     g \<leftarrow> pos_field (m ''controlGeneration'');
     l \<leftarrow> text128 (m ''decisionLeaseId'');
     sv \<leftarrow> nat_field (m ''stateVersion'');
     k \<leftarrow> text128 (m ''leaseKind'');
     as \<leftarrow> array_field (enum_field action_names) (m ''allowedActions'');
     n \<leftarrow> nullable text128 (m ''allowedSkillName'');
     ns \<leftarrow> array_field text128 (m ''allowedSkillNames'');
     p \<leftarrow> nullable text128 (m ''parentSkillName'');
     if as \<noteq> [] \<and> distinct as \<and> distinct ns \<and> pred_option (\<lambda>n. n \<in> set ns) n
     then Some \<lparr>dl_session = s, dl_generation = g, dl_lease = l, dl_state_version = sv, dl_kind = k,
       dl_actions = as, dl_skill = n, dl_skills = ns, dl_parent = p\<rparr>
     else None }"

definition dump_lease :: "lease_context \<Rightarrow> json" where
  "dump_lease l = JObj
     [(''sessionId'', JStr (dl_session l)), (''controlGeneration'', JInt (dl_generation l)),
      (''decisionLeaseId'', JStr (dl_lease l)), (''stateVersion'', JInt (dl_state_version l)),
      (''leaseKind'', JStr (dl_kind l)), (''allowedActions'', JArr (map (\<lambda>a. JStr (action_name a)) (dl_actions l))),
      (''allowedSkillName'', dump_nullable JStr (dl_skill l)),
      (''allowedSkillNames'', JArr (map JStr (dl_skills l))),
      (''parentSkillName'', dump_nullable JStr (dl_parent l))]"

lemma parse_lease_ok: "parse_lease v = Some l \<Longrightarrow> lease_ok l"
  by (auto simp: parse_lease_def lease_ok_def bind_eq_Some_conv split: if_splits intro: field_oks)

lemma lease_back: "lease_ok l \<Longrightarrow> parse_lease (dump_lease l) = Some l"
  by (simp add: parse_lease_def dump_lease_def lease_ok_def wire_back)

section \<open>The decision context of an event\<close>

record decision_context =
  dc_session :: frozen
  dc_skills :: "available_skill list"
  dc_hints :: "argument_hint list"
  dc_last_result :: "frozen option"

definition validate_skill_references :: "available_skill list \<Rightarrow> argument_hint list \<Rightarrow> bool" where
  "validate_skill_references ks hs \<longleftrightarrow>
     distinct (map as_name ks) \<and> distinct (map ah_skill hs) \<and>
     list_all (\<lambda>h. map_of (map (\<lambda>k. (as_name k, as_schema k)) ks) (ah_skill h) = Some (ah_schema h)) hs"

fun empty_proxy :: "frozen \<Rightarrow> bool" where
  "empty_proxy (Fz_proxy []) = True"
| "empty_proxy _ = False"

definition decision_context_ok :: "decision_context \<Rightarrow> bool" where
  "decision_context_ok c \<longleftrightarrow> is_proxy (dc_session c) \<and> \<not> empty_proxy (dc_session c) \<and>
     list_all skill_ok (dc_skills c) \<and> list_all hint_ok (dc_hints c) \<and>
     pred_option is_proxy (dc_last_result c) \<and> validate_skill_references (dc_skills c) (dc_hints c)"

definition parse_decision_context :: "json \<Rightarrow> decision_context option" where
  "parse_decision_context v = do {
     m \<leftarrow> wire_object [''session'', ''availableSkills'', ''skillArgumentHints'', ''lastSkillResult''] v;
     s \<leftarrow> mapping_field (m ''session'');
     ks \<leftarrow> array_field (model_field parse_skill) (m ''availableSkills'');
     hs \<leftarrow> array_field (model_field parse_hint) (m ''skillArgumentHints'');
     r \<leftarrow> nullable mapping_field (m ''lastSkillResult'');
     if \<not> empty_proxy s \<and> validate_skill_references ks hs
     then Some \<lparr>dc_session = s, dc_skills = ks, dc_hints = hs, dc_last_result = r\<rparr>
     else None }"

definition dump_decision_context :: "decision_context \<Rightarrow> json" where
  "dump_decision_context c = JObj
     [(''session'', deep_thaw (dc_session c)), (''availableSkills'', JArr (map dump_skill (dc_skills c))),
      (''skillArgumentHints'', JArr (map dump_hint (dc_hints c))),
      (''lastSkillResult'', dump_nullable deep_thaw (dc_last_result c))]"

lemmas context_parts_back = array_model_back[where P = skill_ok, OF _ skill_back]
  array_model_back[where P = hint_ok, OF _ hint_back]

lemma nullable_mapping_ok: "nullable mapping_field x = Some a \<Longrightarrow> pred_option is_proxy a"
  by (erule nullable_ok) (rule mapping_field_ok)

lemma nullable_mapping_back [wire_back]:
  "pred_option is_proxy a \<Longrightarrow> nullable mapping_field (Some (dump_nullable deep_thaw a)) = Some a"
proof (cases a)
  case (Some z)
  assume "pred_option is_proxy a"
  with Some have "mapping_field (Some (deep_thaw z)) = Some z" "deep_thaw z \<noteq> JNull"
    by (simp_all add: mapping_field_back)
  with Some show ?thesis by (cases "deep_thaw z") (simp_all add: nullable_def dump_nullable_def)
qed (simp add: nullable_def dump_nullable_def)

lemma parse_decision_context_ok: "parse_decision_context v = Some c \<Longrightarrow> decision_context_ok c"
  by (auto simp: parse_decision_context_def decision_context_ok_def bind_eq_Some_conv split: if_splits
      intro: field_oks nullable_mapping_ok array_model_ok parse_skill_ok parse_hint_ok)

lemma decision_context_back: "decision_context_ok c \<Longrightarrow> parse_decision_context (dump_decision_context c) = Some c"
  by (simp add: parse_decision_context_def dump_decision_context_def decision_context_ok_def wire_back
      context_parts_back)

end
