(* ===== verification/AutoChat.thy ===== *)
theory AutoChat
  imports WireContext
begin

text \<open>
  Conversations and the client of the auto chat service (\<open>auto_chat.py\<close>): the two wire models of a
  conversation, the request and the message of the service, and what the client makes of an HTTP
  exchange.  \<open>populate_by_name=True\<close> lets a member come under its alias or its field name, not both.
\<close>

section \<open>Models populated by name\<close>

definition named_object :: "(string \<times> string) list \<Rightarrow> json \<Rightarrow> (string \<Rightarrow> json option) option" where
  "named_object names v = do {
     m \<leftarrow> wire_object (map fst names @ map snd names) v;
     if list_all (\<lambda>(alias, name). alias = name \<or> m alias = None \<or> m name = None) names
     then Some (\<lambda>alias. case m alias of None \<Rightarrow> Option.bind (map_of names alias) m | Some w \<Rightarrow> Some w)
     else None }"

text \<open>\<open>str\<close> with \<open>min_length\<close> and \<open>max_length\<close>, not stripped.\<close>

definition raw_text :: "nat \<Rightarrow> nat \<Rightarrow> json option \<Rightarrow> string option" where
  "raw_text lo hi x = (case x of
     Some (JStr s) \<Rightarrow> if lo \<le> py_len s \<and> py_len s \<le> hi then Some s else None | _ \<Rightarrow> None)"

definition raw_ok :: "nat \<Rightarrow> nat \<Rightarrow> string \<Rightarrow> bool" where
  "raw_ok lo hi s \<longleftrightarrow> lo \<le> py_len s \<and> py_len s \<le> hi"

lemma raw_text_ok [wire_ok]: "raw_text lo hi x = Some s \<Longrightarrow> raw_ok lo hi s"
  by (auto simp: raw_text_def raw_ok_def split: option.splits json.splits if_splits)

lemma raw_text_back [wire_back]: "raw_ok lo hi s \<Longrightarrow> raw_text lo hi (Some (JStr s)) = Some s"
  by (simp add: raw_text_def raw_ok_def)

text \<open>\<open>str\<close> with \<open>min_length=1\<close> and a validator that then strips the text and refuses a blank one.\<close>

definition stripped_text :: "nat option \<Rightarrow> json option \<Rightarrow> string option" where
  "stripped_text hi x = (case x of
     Some (JStr s) \<Rightarrow> if s \<noteq> [] \<and> within_length hi s \<and> py_strip s \<noteq> [] then Some (py_strip s) else None
   | _ \<Rightarrow> None)"

lemma py_len_dropWhile: "py_len (dropWhile P s) \<le> py_len s"
  by (induction s) (auto simp: py_len_def)

lemma py_len_rev [simp]: "py_len (rev s) = py_len s"
  by (simp add: py_len_def rev_filter [symmetric])

lemma py_len_strip: "py_len (py_strip s) \<le> py_len s"
  unfolding py_strip_def
  using order_trans[OF py_len_dropWhile[of is_ws "rev (dropWhile is_ws s)"], of "py_len s"] py_len_dropWhile[of is_ws s]
  by simp

lemma stripped_text_ok [wire_ok]: "stripped_text hi x = Some s \<Longrightarrow> text_ok hi s"
  by (auto simp: stripped_text_def text_ok_def within_length_def
      split: option.splits json.splits if_splits intro: order_trans[OF py_len_strip])

lemma stripped_text_back [wire_back]: "text_ok hi s \<Longrightarrow> stripped_text hi (Some (JStr s)) = Some s"
  by (simp add: stripped_text_def text_ok_def)

section \<open>Conversations\<close>

definition MAX_ROLE_ID :: int where "MAX_ROLE_ID = 9223372036854775807"

definition role_id_field :: "json option \<Rightarrow> int option" where
  "role_id_field x = Option.bind (pos_field x) (\<lambda>i. if i \<le> MAX_ROLE_ID then Some i else None)"

definition role_id_ok :: "int \<Rightarrow> bool" where
  "role_id_ok i \<longleftrightarrow> 0 < i \<and> i \<le> MAX_ROLE_ID"

lemma role_id_field_ok: "role_id_field x = Some i \<Longrightarrow> role_id_ok i"
  by (auto simp: role_id_field_def role_id_ok_def bind_eq_Some_conv int_ok_def dest!: int_field_ok split: if_splits)

lemma role_id_field_back [wire_back]: "role_id_ok i \<Longrightarrow> role_id_field (Some (JInt i)) = Some i"
  by (simp add: role_id_field_def role_id_ok_def int_field_def)

record history_round =
  hr_ask_role :: int
  hr_ask :: string
  hr_answer_role :: int
  hr_answer :: string

definition parse_history_round :: "json \<Rightarrow> history_round option" where
  "parse_history_round v = do {
     m \<leftarrow> named_object [(''askRoleId'', ''ask_role_id''), (''askContent'', ''ask_content''),
       (''answerRoleId'', ''answer_role_id''), (''answerContent'', ''answer_content'')] v;
     ar \<leftarrow> role_id_field (m ''askRoleId'');
     a \<leftarrow> stripped_text None (m ''askContent'');
     br \<leftarrow> role_id_field (m ''answerRoleId'');
     b \<leftarrow> stripped_text None (m ''answerContent'');
     Some \<lparr>hr_ask_role = ar, hr_ask = a, hr_answer_role = br, hr_answer = b\<rparr> }"

definition history_round_ok :: "history_round \<Rightarrow> bool" where
  "history_round_ok h \<longleftrightarrow> role_id_ok (hr_ask_role h) \<and> text_ok None (hr_ask h) \<and> role_id_ok (hr_answer_role h) \<and>
     text_ok None (hr_answer h)"

definition dump_history_round :: "history_round \<Rightarrow> json" where
  "dump_history_round h = JObj
     [(''askRoleId'', JInt (hr_ask_role h)), (''askContent'', JStr (hr_ask h)),
      (''answerRoleId'', JInt (hr_answer_role h)), (''answerContent'', JStr (hr_answer h))]"

record conversation =
  cv_id :: string
  cv_pair :: string
  cv_speaker :: int
  cv_target :: int
  cv_brain :: string
  cv_rounds :: "history_round list"
  cv_completed :: int
  cv_max :: int
  cv_expires :: int

definition validate_pair :: "conversation \<Rightarrow> bool" where
  "validate_pair c \<longleftrightarrow>
     cv_speaker c \<noteq> cv_target c \<and>
     cv_pair c = int_str (min (cv_speaker c) (cv_target c)) @ '':'' @ int_str (max (cv_speaker c) (cv_target c)) \<and>
     cv_completed c \<le> cv_max c \<and>
     list_all (\<lambda>h. {hr_ask_role h, hr_answer_role h} = {cv_speaker c, cv_target c}) (cv_rounds c)"

definition parse_conversation :: "json \<Rightarrow> conversation option" where
  "parse_conversation v = do {
     m \<leftarrow> named_object [(''conversationId'', ''conversation_id''), (''pairKey'', ''pair_key''),
       (''speakerRoleId'', ''speaker_role_id''), (''targetRoleId'', ''target_role_id''),
       (''brainUsername'', ''brain_username''), (''historyRounds'', ''history_rounds''),
       (''completedRounds'', ''completed_rounds''), (''maxRounds'', ''max_rounds''),
       (''expiresAtMs'', ''expires_at_ms'')] v;
     i \<leftarrow> stripped_text (Some 128) (m ''conversationId'');
     p \<leftarrow> raw_text 3 128 (m ''pairKey'');
     s \<leftarrow> role_id_field (m ''speakerRoleId'');
     t \<leftarrow> role_id_field (m ''targetRoleId'');
     b \<leftarrow> stripped_text (Some 255) (m ''brainUsername'');
     rs \<leftarrow> default_to [] (array_field (model_field parse_history_round)) (m ''historyRounds'');
     k \<leftarrow> nat_field (m ''completedRounds'');
     _ \<leftarrow> literal_field [JInt 6] (m ''maxRounds'');
     x \<leftarrow> pos_field (m ''expiresAtMs'');
     let c = \<lparr>cv_id = i, cv_pair = p, cv_speaker = s, cv_target = t, cv_brain = b, cv_rounds = rs,
       cv_completed = k, cv_max = 6, cv_expires = x\<rparr> in
     if length rs \<le> 5 \<and> validate_pair c then Some c else None }"

definition dump_conversation :: "conversation \<Rightarrow> json" where
  "dump_conversation c = JObj
     [(''conversationId'', JStr (cv_id c)), (''pairKey'', JStr (cv_pair c)),
      (''speakerRoleId'', JInt (cv_speaker c)), (''targetRoleId'', JInt (cv_target c)),
      (''brainUsername'', JStr (cv_brain c)), (''historyRounds'', JArr (map dump_history_round (cv_rounds c))),
      (''completedRounds'', JInt (cv_completed c)), (''maxRounds'', JInt (cv_max c)),
      (''expiresAtMs'', JInt (cv_expires c))]"

definition conversation_ok :: "conversation \<Rightarrow> bool" where
  "conversation_ok c \<longleftrightarrow> text_ok (Some 128) (cv_id c) \<and> raw_ok 3 128 (cv_pair c) \<and> role_id_ok (cv_speaker c) \<and>
     role_id_ok (cv_target c) \<and> text_ok (Some 255) (cv_brain c) \<and> list_all history_round_ok (cv_rounds c) \<and>
     length (cv_rounds c) \<le> 5 \<and> int_ok (Some 0) (cv_completed c) \<and> cv_max c = 6 \<and>
     int_ok (Some 1) (cv_expires c) \<and> validate_pair c"

lemma named_object_members:
  assumes "list_all (\<lambda>k. k \<in> set (map fst names)) (map fst kvs)"
    and "list_all (\<lambda>(alias, name). alias = name \<or> map_of kvs name = None) names"
  shows "named_object names (JObj kvs) =
    Some (\<lambda>alias. case map_of kvs alias of None \<Rightarrow> Option.bind (map_of names alias) (map_of kvs) | Some w \<Rightarrow> Some w)"
proof -
  have "list_all (\<lambda>k. k \<in> set (map fst names @ map snd names)) (map fst kvs)"
    using assms(1) by (auto simp: list_all_iff)
  moreover have "list_all (\<lambda>(alias, name). alias = name \<or> map_of kvs alias = None \<or> map_of kvs name = None) names"
    using assms(2) by (auto simp: list_all_iff)
  ultimately show ?thesis by (simp add: named_object_def wire_object_members)
qed

lemma parse_history_round_ok: "parse_history_round v = Some h \<Longrightarrow> history_round_ok h"
  by (auto simp: parse_history_round_def history_round_ok_def bind_eq_Some_conv
      intro: role_id_field_ok stripped_text_ok)

lemma history_round_back: "history_round_ok h \<Longrightarrow> parse_history_round (dump_history_round h) = Some h"
  by (simp add: parse_history_round_def dump_history_round_def history_round_ok_def named_object_members wire_back)

lemma history_rounds_ok:
  "default_to [] (array_field (model_field parse_history_round)) x = Some rs \<Longrightarrow> list_all history_round_ok rs"
  by (erule default_to_ok) (auto intro: array_model_ok parse_history_round_ok)

lemmas history_rounds_back = array_model_back[where P = history_round_ok, OF _ history_round_back]

lemma parse_conversation_ok: "parse_conversation v = Some c \<Longrightarrow> conversation_ok c"
  by (auto simp: parse_conversation_def conversation_ok_def bind_eq_Some_conv Let_def split: if_splits
      intro: field_oks role_id_field_ok stripped_text_ok raw_text_ok history_rounds_ok)

lemma conversation_back: "conversation_ok c \<Longrightarrow> parse_conversation (dump_conversation c) = Some c"
  by (cases c) (simp add: parse_conversation_def dump_conversation_def conversation_ok_def named_object_members
      history_rounds_back wire_back Let_def)

section \<open>The service\<close>

definition event_id_char :: "char \<Rightarrow> bool" where
  "event_id_char c \<longleftrightarrow> digit c \<or> 65 \<le> code c \<and> code c \<le> 90 \<or> 97 \<le> code c \<and> code c \<le> 122 \<or> c = CHR ''_'' \<or> c = CHR ''-''"

definition auto_chat_event_id :: "string \<Rightarrow> bool" where
  "auto_chat_event_id s \<longleftrightarrow> s \<noteq> [] \<and> py_len s \<le> 64 \<and> list_all event_id_char s"

record chat_request =
  cq_speaker :: int
  cq_target :: int
  cq_pair :: string
  cq_question :: string

definition request_pair_key :: "int \<Rightarrow> int \<Rightarrow> string \<Rightarrow> string" where
  "request_pair_key s t i = int_str (min s t) @ '':'' @ int_str (max s t) @ '':'' @ i"

definition chat_request_from_event :: "int \<Rightarrow> int \<Rightarrow> string \<Rightarrow> string \<Rightarrow> chat_request option" where
  "chat_request_from_event s t i q = do {
     _ \<leftarrow> if auto_chat_event_id i then Some () else None;
     sp \<leftarrow> role_id_field (Some (JInt s));
     tg \<leftarrow> role_id_field (Some (JInt t));
     p \<leftarrow> raw_text 5 104 (Some (JStr (request_pair_key s t i)));
     qn \<leftarrow> stripped_text None (Some (JStr q));
     if sp \<noteq> tg then Some \<lparr>cq_speaker = sp, cq_target = tg, cq_pair = p, cq_question = qn\<rparr> else None }"

definition dump_chat_request :: "chat_request \<Rightarrow> json" where
  "dump_chat_request r = JObj
     [(''speakerRoleId'', JInt (cq_speaker r)), (''targetRoleId'', JInt (cq_target r)),
      (''pairKey'', JStr (cq_pair r)), (''question'', JStr (cq_question r))]"

record chat_message =
  cm_speaker :: int
  cm_target :: int
  cm_pair :: string
  cm_content :: string

text \<open>\<open>len(s.encode("utf-16-le")) // 2\<close>: a code point outside the basic plane, four bytes long in UTF-8, counts twice.\<close>

definition utf16_len :: "string \<Rightarrow> nat" where
  "utf16_len s = py_len s + length (filter (\<lambda>c. 240 \<le> code c) s)"

definition parse_chat_message :: "json \<Rightarrow> chat_message option" where
  "parse_chat_message v = do {
     m \<leftarrow> named_object [(''speakerRoleId'', ''speaker_role_id''), (''targetRoleId'', ''target_role_id''),
       (''pairKey'', ''pair_key''), (''content'', ''content'')] v;
     s \<leftarrow> role_id_field (m ''speakerRoleId'');
     t \<leftarrow> role_id_field (m ''targetRoleId'');
     p \<leftarrow> raw_text 5 104 (m ''pairKey'');
     c \<leftarrow> stripped_text None (m ''content'');
     if utf16_len c \<le> 1000 then Some \<lparr>cm_speaker = s, cm_target = t, cm_pair = p, cm_content = c\<rparr> else None }"

text \<open>What comes of a POST: no answer in time, no answer, or a status and the body, \<open>None\<close> when it is not JSON.\<close>

datatype http_outcome = Http_timeout | Http_request_error | Http_response int "json option"

datatype chat_failure = Chat_retry string | Chat_give_up string

definition generate_chat ::
  "(json \<Rightarrow> http_outcome) \<Rightarrow> int \<Rightarrow> int \<Rightarrow> string \<Rightarrow> string \<Rightarrow> chat_failure + chat_message" where
  "generate_chat post s t i q =
     (case chat_request_from_event s t i q of
        None \<Rightarrow> Inl (Chat_give_up ''request_schema_invalid'')
      | Some r \<Rightarrow>
          (case post (dump_chat_request r) of
             Http_timeout \<Rightarrow> Inl (Chat_retry ''timeout'')
           | Http_request_error \<Rightarrow> Inl (Chat_retry ''request_failed'')
           | Http_response status body \<Rightarrow>
               if status = 429 \<or> 500 \<le> status then Inl (Chat_retry ''upstream_server_error'')
               else if \<not> (200 \<le> status \<and> status < 300) then Inl (Chat_give_up ''upstream_request_rejected'')
               else (case body of
                  None \<Rightarrow> Inl (Chat_give_up ''response_not_json'')
                | Some payload \<Rightarrow>
                    (case parse_chat_message payload of
                       None \<Rightarrow> Inl (Chat_give_up ''response_schema_invalid'')
                     | Some msg \<Rightarrow>
                         if cm_speaker msg \<noteq> cq_speaker r \<or> cm_target msg \<noteq> cq_target r \<or> cm_pair msg \<noteq> cq_pair r
                         then Inl (Chat_give_up ''response_identity_mismatch'')
                         else Inr msg))))"

end
