(* ===== verification/WireEvents.thy ===== *)
theory WireEvents
  imports AutoChat
begin

text \<open>
  The events of the wire (\<open>contracts.py\<close>): the payloads, the nine event models, the parser that
  picks the model by \<open>eventType\<close>, and the batch envelope and its acknowledgement.

  JSON numbers with a fraction are not part of \<open>json\<close>; the distance of a nearby friend, the only
  such member, is read by the parameter \<open>num\<close>, which stands for pydantic's validation of a finite,
  non-negative \<open>float\<close> and answers the number as it is dumped.
\<close>

type_synonym number_field = "json option \<Rightarrow> json option"

section \<open>Payloads of the decision events\<close>

record session_started_payload =
  ss_reason :: string
  ss_lease :: lease_context
  ss_context :: decision_context

definition session_started_ok :: "session_started_payload \<Rightarrow> bool" where
  "session_started_ok p \<longleftrightarrow> text_ok (Some 256) (ss_reason p) \<and> lease_ok (ss_lease p) \<and> decision_context_ok (ss_context p)"

definition parse_session_started :: "json \<Rightarrow> session_started_payload option" where
  "parse_session_started v = do {
     m \<leftarrow> wire_object [''reason'', ''lease'', ''decisionContext''] v;
     r \<leftarrow> text256 (m ''reason'');
     l \<leftarrow> model_field parse_lease (m ''lease'');
     c \<leftarrow> model_field parse_decision_context (m ''decisionContext'');
     Some \<lparr>ss_reason = r, ss_lease = l, ss_context = c\<rparr> }"

definition dump_session_started :: "session_started_payload \<Rightarrow> json" where
  "dump_session_started p = JObj
     [(''reason'', JStr (ss_reason p)), (''lease'', dump_lease (ss_lease p)),
      (''decisionContext'', dump_decision_context (ss_context p))]"

record observation_payload =
  ob_reason :: "string option"
  ob_lease :: lease_context
  ob_context :: decision_context

definition observation_ok :: "observation_payload \<Rightarrow> bool" where
  "observation_ok p \<longleftrightarrow> pred_option (text_ok (Some 256)) (ob_reason p) \<and> lease_ok (ob_lease p) \<and>
     decision_context_ok (ob_context p)"

definition parse_observation :: "json \<Rightarrow> observation_payload option" where
  "parse_observation v = do {
     m \<leftarrow> wire_object [''reason'', ''lease'', ''decisionContext''] v;
     r \<leftarrow> nullable text256 (m ''reason'');
     l \<leftarrow> model_field parse_lease (m ''lease'');
     c \<leftarrow> model_field parse_decision_context (m ''decisionContext'');
     Some \<lparr>ob_reason = r, ob_lease = l, ob_context = c\<rparr> }"

definition dump_observation :: "observation_payload \<Rightarrow> json" where
  "dump_observation p = JObj
     [(''reason'', dump_nullable JStr (ob_reason p)), (''lease'', dump_lease (ob_lease p)),
      (''decisionContext'', dump_decision_context (ob_context p))]"

record skill_started_payload =
  sp_decision :: string
  sp_call :: string
  sp_skill :: string
  sp_started :: int

definition skill_started_ok :: "skill_started_payload \<Rightarrow> bool" where
  "skill_started_ok p \<longleftrightarrow> text_ok (Some 128) (sp_decision p) \<and> text_ok (Some 128) (sp_call p) \<and>
     text_ok (Some 128) (sp_skill p) \<and> int_ok (Some 0) (sp_started p)"

definition parse_skill_started :: "json \<Rightarrow> skill_started_payload option" where
  "parse_skill_started v = do {
     m \<leftarrow> wire_object [''decisionId'', ''skillCallId'', ''skillName'', ''startedAtMs''] v;
     d \<leftarrow> text128 (m ''decisionId'');
     c \<leftarrow> text128 (m ''skillCallId'');
     n \<leftarrow> text128 (m ''skillName'');
     t \<leftarrow> nat_field (m ''startedAtMs'');
     Some \<lparr>sp_decision = d, sp_call = c, sp_skill = n, sp_started = t\<rparr> }"

definition dump_skill_started :: "skill_started_payload \<Rightarrow> json" where
  "dump_skill_started p = JObj
     [(''decisionId'', JStr (sp_decision p)), (''skillCallId'', JStr (sp_call p)),
      (''skillName'', JStr (sp_skill p)), (''startedAtMs'', JInt (sp_started p))]"

lemmas lease_field_ok = model_field_ok[where p = parse_lease and P = lease_ok, OF _ parse_lease_ok]
lemmas context_field_ok =
  model_field_ok[where p = parse_decision_context and P = decision_context_ok, OF _ parse_decision_context_ok]
lemmas payload_oks = field_oks lease_field_ok context_field_ok

lemma parse_session_started_ok: "parse_session_started v = Some p \<Longrightarrow> session_started_ok p"
  by (auto simp: parse_session_started_def session_started_ok_def bind_eq_Some_conv intro: payload_oks)

lemma session_started_back: "session_started_ok p \<Longrightarrow> parse_session_started (dump_session_started p) = Some p"
  by (simp add: parse_session_started_def dump_session_started_def session_started_ok_def wire_back lease_back
      decision_context_back)

lemma parse_observation_ok: "parse_observation v = Some p \<Longrightarrow> observation_ok p"
  by (auto simp: parse_observation_def observation_ok_def bind_eq_Some_conv intro: payload_oks)

lemma observation_back: "observation_ok p \<Longrightarrow> parse_observation (dump_observation p) = Some p"
  by (simp add: parse_observation_def dump_observation_def observation_ok_def wire_back lease_back
      decision_context_back)

lemma parse_skill_started_ok: "parse_skill_started v = Some p \<Longrightarrow> skill_started_ok p"
  by (auto simp: parse_skill_started_def skill_started_ok_def bind_eq_Some_conv intro: payload_oks)

lemma skill_started_back: "skill_started_ok p \<Longrightarrow> parse_skill_started (dump_skill_started p) = Some p"
  by (simp add: parse_skill_started_def dump_skill_started_def skill_started_ok_def wire_back)

section \<open>The end of a skill\<close>

text \<open>A member with a default that may be left out but not be null.\<close>

definition omittable :: "(json \<Rightarrow> 'a option) \<Rightarrow> json option \<Rightarrow> 'a option option" where
  "omittable p x = (case x of None \<Rightarrow> Some None | Some v \<Rightarrow> if v = JNull then None else map_option Some (p v))"

lemma omittable_ok: "omittable p x = Some a \<Longrightarrow> (\<And>v b. p v = Some b \<Longrightarrow> P b) \<Longrightarrow> pred_option P a"
  by (auto simp: omittable_def split: option.splits if_splits)

lemma omittable_None [wire_back]: "omittable p None = Some None"
  by (simp add: omittable_def)

lemma omittable_back: "p v = Some b \<Longrightarrow> v \<noteq> JNull \<Longrightarrow> omittable p (Some v) = Some (Some b)"
  by (simp add: omittable_def)

datatype terminal_status = Ts_success | Ts_failed | Ts_cancelled | Ts_timeout

definition terminal_names :: "(string \<times> terminal_status) list" where
  "terminal_names = [(''success'', Ts_success), (''failed'', Ts_failed), (''cancelled'', Ts_cancelled),
     (''timeout'', Ts_timeout)]"

fun terminal_name :: "terminal_status \<Rightarrow> string" where
  "terminal_name Ts_success = ''success''"
| "terminal_name Ts_failed = ''failed''"
| "terminal_name Ts_cancelled = ''cancelled''"
| "terminal_name Ts_timeout = ''timeout''"

lemma terminal_name_back [wire_back]: "map_of terminal_names (terminal_name t) = Some t"
  by (cases t) (simp_all add: terminal_names_def)

definition failure_categories :: "string list" where
  "failure_categories = [''business_rejected'', ''transport_failed'', ''protocol_failed'', ''internal_failed'']"

definition category_field :: "json option \<Rightarrow> string option" where
  "category_field = enum_field (map (\<lambda>c. (c, c)) failure_categories)"

definition category_ok :: "string \<Rightarrow> bool" where
  "category_ok c \<longleftrightarrow> c \<in> set failure_categories"

lemma category_field_ok: "category_field x = Some c \<Longrightarrow> category_ok c"
  by (auto simp: category_field_def enum_field_def category_ok_def failure_categories_def
      split: option.splits json.splits if_splits)

lemma category_field_back [wire_back]: "category_ok c \<Longrightarrow> category_field (Some (JStr c)) = Some c"
  by (auto simp: category_field_def enum_field_def category_ok_def failure_categories_def)

lemma nullable_category_ok: "nullable category_field x = Some a \<Longrightarrow> pred_option category_ok a"
  by (erule nullable_ok) (rule category_field_ok)

lemma nullable_category_back [wire_back]:
  "pred_option category_ok a \<Longrightarrow> nullable category_field (Some (dump_nullable JStr a)) = Some a"
  by (rule nullable_back[where P = category_ok]) (simp_all add: category_field_back)

definition parse_skill_terminal :: "json \<Rightarrow> skill_terminal option" where
  "parse_skill_terminal v = (case Option.bind (json_get v ''status'') (\<lambda>s. enum_field terminal_names (Some s)) of
     None \<Rightarrow> None
   | Some Ts_success \<Rightarrow> do { m \<leftarrow> wire_object [''status''] v; Some T_success }
   | Some Ts_failed \<Rightarrow> do {
       m \<leftarrow> wire_object [''status'', ''failureCategory'', ''reason'', ''retryable''] v;
       c \<leftarrow> category_field (m ''failureCategory'');
       r \<leftarrow> text256 (m ''reason'');
       b \<leftarrow> bool_field (m ''retryable'');
       Some (T_failed c r b) }
   | Some Ts_cancelled \<Rightarrow> do {
       m \<leftarrow> wire_object [''status'', ''reason'', ''retryable''] v;
       r \<leftarrow> text256 (m ''reason'');
       b \<leftarrow> bool_field (m ''retryable'');
       Some (T_cancelled r b) }
   | Some Ts_timeout \<Rightarrow> do {
       m \<leftarrow> wire_object [''status'', ''reason'', ''retryable''] v;
       r \<leftarrow> text256 (m ''reason'');
       b \<leftarrow> bool_field (m ''retryable'');
       Some (T_timeout r b) })"

record skill_finished_payload =
  fp_decision :: string
  fp_call :: string
  fp_skill :: string
  fp_status :: terminal_status
  fp_reason :: string
  fp_category :: "string option"
  fp_retryable :: bool
  fp_started :: int
  fp_finished :: int
  fp_lease :: "lease_context option"
  fp_context :: "decision_context option"

definition validate_terminal_fields :: "skill_finished_payload \<Rightarrow> bool" where
  "validate_terminal_fields p \<longleftrightarrow> fp_started p \<le> fp_finished p \<and>
     (fp_status p = Ts_failed \<longleftrightarrow> fp_category p \<noteq> None) \<and> (fp_lease p = None \<longleftrightarrow> fp_context p = None)"

definition skill_finished_ok :: "skill_finished_payload \<Rightarrow> bool" where
  "skill_finished_ok p \<longleftrightarrow> text_ok (Some 128) (fp_decision p) \<and> text_ok (Some 128) (fp_call p) \<and>
     text_ok (Some 128) (fp_skill p) \<and> text_ok (Some 256) (fp_reason p) \<and> pred_option category_ok (fp_category p) \<and>
     int_ok (Some 0) (fp_started p) \<and> int_ok (Some 0) (fp_finished p) \<and> pred_option lease_ok (fp_lease p) \<and>
     pred_option decision_context_ok (fp_context p) \<and> validate_terminal_fields p"

definition parse_skill_finished :: "json \<Rightarrow> skill_finished_payload option" where
  "parse_skill_finished v = do {
     m \<leftarrow> wire_object [''decisionId'', ''skillCallId'', ''skillName'', ''status'', ''reason'', ''failureCategory'',
       ''retryable'', ''startedAtMs'', ''finishedAtMs'', ''lease'', ''decisionContext''] v;
     d \<leftarrow> text128 (m ''decisionId'');
     c \<leftarrow> text128 (m ''skillCallId'');
     n \<leftarrow> text128 (m ''skillName'');
     st \<leftarrow> enum_field terminal_names (m ''status'');
     r \<leftarrow> text256 (m ''reason'');
     fc \<leftarrow> nullable category_field (m ''failureCategory'');
     b \<leftarrow> bool_field (m ''retryable'');
     t0 \<leftarrow> nat_field (m ''startedAtMs'');
     t1 \<leftarrow> nat_field (m ''finishedAtMs'');
     l \<leftarrow> omittable parse_lease (m ''lease'');
     x \<leftarrow> omittable parse_decision_context (m ''decisionContext'');
     let p = \<lparr>fp_decision = d, fp_call = c, fp_skill = n, fp_status = st, fp_reason = r, fp_category = fc,
       fp_retryable = b, fp_started = t0, fp_finished = t1, fp_lease = l, fp_context = x\<rparr> in
     if validate_terminal_fields p then Some p else None }"

definition dump_skill_finished :: "skill_finished_payload \<Rightarrow> json" where
  "dump_skill_finished p = JObj
     ([(''decisionId'', JStr (fp_decision p)), (''skillCallId'', JStr (fp_call p)), (''skillName'', JStr (fp_skill p)),
       (''status'', JStr (terminal_name (fp_status p))), (''reason'', JStr (fp_reason p)),
       (''failureCategory'', dump_nullable JStr (fp_category p)), (''retryable'', JBool (fp_retryable p)),
       (''startedAtMs'', JInt (fp_started p)), (''finishedAtMs'', JInt (fp_finished p))] @
      (if fp_lease p = None then []
       else [(''lease'', dump_nullable dump_lease (fp_lease p)),
         (''decisionContext'', dump_nullable dump_decision_context (fp_context p))]))"

definition terminal :: "skill_finished_payload \<Rightarrow> skill_terminal option" where
  "terminal p = parse_skill_terminal (JObj
     ([(''status'', JStr (terminal_name (fp_status p)))] @
      (if fp_status p = Ts_success then []
       else [(''reason'', JStr (fp_reason p)), (''retryable'', JBool (fp_retryable p))]) @
      (case fp_category p of None \<Rightarrow> [] | Some c \<Rightarrow> [(''failureCategory'', JStr c)])))"

lemma parse_skill_finished_ok: "parse_skill_finished v = Some p \<Longrightarrow> skill_finished_ok p"
  by (auto simp: parse_skill_finished_def skill_finished_ok_def bind_eq_Some_conv Let_def split: if_splits
      intro: payload_oks nullable_category_ok omittable_ok[OF _ parse_lease_ok] omittable_ok[OF _ parse_decision_context_ok])

lemma dump_lease_not_null: "dump_lease l \<noteq> JNull"
  by (simp add: dump_lease_def)

lemma dump_decision_context_not_null: "dump_decision_context c \<noteq> JNull"
  by (simp add: dump_decision_context_def)

lemma omittable_parts_back:
  "lease_ok l \<Longrightarrow> omittable parse_lease (Some (dump_lease l)) = Some (Some l)"
  "decision_context_ok c \<Longrightarrow> omittable parse_decision_context (Some (dump_decision_context c)) = Some (Some c)"
  by (simp_all add: omittable_back lease_back decision_context_back dump_lease_not_null dump_decision_context_not_null)

lemma skill_finished_back:
  assumes "skill_finished_ok p"
  shows "parse_skill_finished (dump_skill_finished p) = Some p"
proof (cases "fp_lease p")
  case None
  with assms show ?thesis
    by (cases p) (simp add: parse_skill_finished_def dump_skill_finished_def skill_finished_ok_def wire_back
        validate_terminal_fields_def Let_def)
next
  case (Some l)
  with assms obtain c where "fp_context p = Some c"
    by (auto simp: skill_finished_ok_def validate_terminal_fields_def)
  with Some assms show ?thesis
    by (cases p) (simp add: parse_skill_finished_def dump_skill_finished_def skill_finished_ok_def wire_back
        validate_terminal_fields_def Let_def dump_nullable_Some omittable_parts_back)
qed

text \<open>The terminal of a payload that was validated exists, and is the one its members name.\<close>

lemma terminal_of_finished:
  assumes "skill_finished_ok p"
  shows "terminal p = Some (case fp_status p of
     Ts_success \<Rightarrow> T_success
   | Ts_failed \<Rightarrow> T_failed (the (fp_category p)) (fp_reason p) (fp_retryable p)
   | Ts_cancelled \<Rightarrow> T_cancelled (fp_reason p) (fp_retryable p)
   | Ts_timeout \<Rightarrow> T_timeout (fp_reason p) (fp_retryable p))"
  using assms by (cases "fp_status p")
    (auto simp: terminal_def parse_skill_terminal_def skill_finished_ok_def validate_terminal_fields_def wire_back
      enum_field_def terminal_names_def)

section \<open>Rejections and stops\<close>

record rejected_payload =
  rp_decision :: string
  rp_action :: decision_action
  rp_skill :: "string option"
  rp_reason :: string
  rp_at :: int

definition rejected_ok :: "rejected_payload \<Rightarrow> bool" where
  "rejected_ok p \<longleftrightarrow> text_ok (Some 128) (rp_decision p) \<and> pred_option (text_ok (Some 128)) (rp_skill p) \<and>
     text_ok (Some 256) (rp_reason p) \<and> int_ok (Some 0) (rp_at p)"

definition parse_rejected :: "json \<Rightarrow> rejected_payload option" where
  "parse_rejected v = do {
     m \<leftarrow> wire_object [''decisionId'', ''action'', ''skillName'', ''reason'', ''rejectedAtMs''] v;
     d \<leftarrow> text128 (m ''decisionId'');
     a \<leftarrow> enum_field action_names (m ''action'');
     n \<leftarrow> nullable text128 (m ''skillName'');
     r \<leftarrow> text256 (m ''reason'');
     t \<leftarrow> nat_field (m ''rejectedAtMs'');
     Some \<lparr>rp_decision = d, rp_action = a, rp_skill = n, rp_reason = r, rp_at = t\<rparr> }"

definition dump_rejected :: "rejected_payload \<Rightarrow> json" where
  "dump_rejected p = JObj
     [(''decisionId'', JStr (rp_decision p)), (''action'', JStr (action_name (rp_action p))),
      (''skillName'', dump_nullable JStr (rp_skill p)), (''reason'', JStr (rp_reason p)),
      (''rejectedAtMs'', JInt (rp_at p))]"

record stopped_payload =
  st_why :: string
  st_at :: int

definition stopped_ok :: "stopped_payload \<Rightarrow> bool" where
  "stopped_ok p \<longleftrightarrow> text_ok (Some 256) (st_why p) \<and> int_ok (Some 0) (st_at p)"

definition parse_stopped :: "json \<Rightarrow> stopped_payload option" where
  "parse_stopped v = do {
     m \<leftarrow> wire_object [''reason'', ''stoppedAtMs''] v;
     r \<leftarrow> text256 (m ''reason'');
     t \<leftarrow> nat_field (m ''stoppedAtMs'');
     Some \<lparr>st_why = r, st_at = t\<rparr> }"

definition dump_stopped :: "stopped_payload \<Rightarrow> json" where
  "dump_stopped p = JObj [(''reason'', JStr (st_why p)), (''stoppedAtMs'', JInt (st_at p))]"

lemma parse_rejected_ok: "parse_rejected v = Some p \<Longrightarrow> rejected_ok p"
  by (auto simp: parse_rejected_def rejected_ok_def bind_eq_Some_conv intro: payload_oks)

lemma rejected_back: "rejected_ok p \<Longrightarrow> parse_rejected (dump_rejected p) = Some p"
  by (simp add: parse_rejected_def dump_rejected_def rejected_ok_def wire_back)

lemma parse_stopped_ok: "parse_stopped v = Some p \<Longrightarrow> stopped_ok p"
  by (auto simp: parse_stopped_def stopped_ok_def bind_eq_Some_conv intro: payload_oks)

lemma stopped_back: "stopped_ok p \<Longrightarrow> parse_stopped (dump_stopped p) = Some p"
  by (simp add: parse_stopped_def dump_stopped_def stopped_ok_def wire_back)

section \<open>Chat payloads\<close>

text \<open>\<open>str.isdigit\<close> and \<open>int\<close> of a text of ASCII digits.\<close>

definition py_isdigit :: "string \<Rightarrow> bool" where
  "py_isdigit s \<longleftrightarrow> s \<noteq> [] \<and> list_all digit s"

definition digits_value :: "string \<Rightarrow> int" where
  "digits_value s = int (fst (parse_digits 0 s))"

definition validate_positive_int64_identifier :: "string \<Rightarrow> bool" where
  "validate_positive_int64_identifier s \<longleftrightarrow> py_isdigit s \<and> s \<noteq> ''0'' \<and> digits_value s \<le> MAX_ROLE_ID"

definition identifier_field :: "json option \<Rightarrow> string option" where
  "identifier_field x =
     Option.bind (text128 x) (\<lambda>s. if validate_positive_int64_identifier s then Some s else None)"

definition identifier_ok :: "string \<Rightarrow> bool" where
  "identifier_ok s \<longleftrightarrow> text_ok (Some 128) s \<and> validate_positive_int64_identifier s"

lemma identifier_field_ok: "identifier_field x = Some s \<Longrightarrow> identifier_ok s"
  by (auto simp: identifier_field_def identifier_ok_def bind_eq_Some_conv split: if_splits intro: field_oks)

lemma identifier_field_back [wire_back]: "identifier_ok s \<Longrightarrow> identifier_field (Some (JStr s)) = Some s"
  by (simp add: identifier_field_def identifier_ok_def wire_back)

text \<open>\<open>ChatSender\<close> and \<open>ChatTarget\<close> have the same fields and validators.\<close>

record chat_person =
  pe_avatar :: string
  pe_role :: string

definition person_ok :: "chat_person \<Rightarrow> bool" where
  "person_ok p \<longleftrightarrow> identifier_ok (pe_avatar p) \<and> identifier_ok (pe_role p)"

definition parse_person :: "json \<Rightarrow> chat_person option" where
  "parse_person v = do {
     m \<leftarrow> wire_object [''avatarId'', ''roleId''] v;
     a \<leftarrow> identifier_field (m ''avatarId'');
     r \<leftarrow> identifier_field (m ''roleId'');
     Some \<lparr>pe_avatar = a, pe_role = r\<rparr> }"

definition dump_person :: "chat_person \<Rightarrow> json" where
  "dump_person p = JObj [(''avatarId'', JStr (pe_avatar p)), (''roleId'', JStr (pe_role p))]"

lemma parse_person_ok: "parse_person v = Some p \<Longrightarrow> person_ok p"
  by (auto simp: parse_person_def person_ok_def bind_eq_Some_conv intro: identifier_field_ok)

lemma person_back: "person_ok p \<Longrightarrow> parse_person (dump_person p) = Some p"
  by (simp add: parse_person_def dump_person_def person_ok_def wire_back)

text \<open>An identifier of zeros only passes the validator, although it is not positive.\<close>

lemma zero_identifier_accepted: "identifier_ok ''00'' \<and> digits_value ''00'' = 0"
  by (simp add: identifier_ok_def validate_positive_int64_identifier_def py_isdigit_def digit_def digits_value_def
      text_ok_def within_length_def py_len_def py_strip_def is_ws_def MAX_ROLE_ID_def)

datatype chat_type = Friend_chat | Private_chat

definition chat_type_names :: "(string \<times> chat_type) list" where
  "chat_type_names = [(''friend'', Friend_chat), (''private'', Private_chat)]"

fun chat_type_name :: "chat_type \<Rightarrow> string" where
  "chat_type_name Friend_chat = ''friend''"
| "chat_type_name Private_chat = ''private''"

lemma chat_type_back [wire_back]: "map_of chat_type_names (chat_type_name c) = Some c"
  by (cases c) (simp_all add: chat_type_names_def)

definition schema_v1 :: "json option \<Rightarrow> json option" where
  "schema_v1 = default_to (JStr ''v1'') (literal_field [JStr ''v1''])"

lemma schema_v1_back [wire_back]: "schema_v1 (Some (JStr ''v1'')) = Some (JStr ''v1'')"
  by (simp add: schema_v1_def wire_back)

definition chat_text_ok :: "string \<Rightarrow> bool" where
  "chat_text_ok s \<longleftrightarrow> py_strip s \<noteq> [] \<and> utf16_len s \<le> 1000"

definition chat_text :: "json option \<Rightarrow> string option" where
  "chat_text x = Option.bind (string_field x) (\<lambda>s. if chat_text_ok s then Some s else None)"

lemma chat_text_field_ok: "chat_text x = Some s \<Longrightarrow> chat_text_ok s"
  by (auto simp: chat_text_def bind_eq_Some_conv split: if_splits)

lemma chat_text_back [wire_back]: "chat_text_ok s \<Longrightarrow> chat_text (Some (JStr s)) = Some s"
  by (simp add: chat_text_def wire_back)

lemma optional_chat_text_ok: "optional chat_text x = Some a \<Longrightarrow> pred_option chat_text_ok a"
  by (erule default_to_ok) (auto elim!: nullable_ok intro: chat_text_field_ok)

lemma nullable_chat_text_back [wire_back]:
  "pred_option chat_text_ok a \<Longrightarrow> nullable chat_text (Some (dump_nullable JStr a)) = Some a"
  by (rule nullable_back[where P = chat_text_ok]) (simp_all add: chat_text_back)

lemma optional_conversation_ok:
  "optional (model_field parse_conversation) x = Some a \<Longrightarrow> pred_option conversation_ok a"
  by (erule default_to_ok) (auto elim!: nullable_ok model_field_ok intro: parse_conversation_ok)

lemma nullable_conversation_back [wire_back]:
  "pred_option conversation_ok a \<Longrightarrow>
   nullable (model_field parse_conversation) (Some (dump_nullable dump_conversation a)) = Some a"
  by (rule nullable_back[where P = conversation_ok])
    (simp_all add: model_field_back conversation_back, simp add: dump_conversation_def)

end
