(* ===== verification/WireFacts.thy ===== *)
theory WireFacts
  imports WireBatch
begin

text \<open>
  What a validated event satisfies, the reading back of dumped events, the batch envelope and the
  acknowledgement (\<open>contracts.py\<close>), and the correspondence with the events of the repositories.
\<close>

section \<open>Validated events\<close>

definition head_ok :: "event_head \<Rightarrow> bool" where
  "head_ok h \<longleftrightarrow> text_ok (Some 128) (eh_id h) \<and> text_ok (Some 128) (eh_session h) \<and>
     int_ok (Some 0) (eh_state_version h) \<and> pred_option (text_ok (Some 128)) (eh_lease h) \<and> int_ok (Some 0) (eh_occurred h)"

definition control_ok :: "event_control \<Rightarrow> bool" where
  "control_ok c \<longleftrightarrow> int_ok (Some 1) (ec_generation c) \<and> int_ok (Some 1) (ec_sequence c)"

fun controlled_ok :: "controlled_payload \<Rightarrow> bool" where
  "controlled_ok (P_session_started p) = session_started_ok p"
| "controlled_ok (P_observation p) = observation_ok p"
| "controlled_ok (P_skill_started p) = skill_started_ok p"
| "controlled_ok (P_skill_finished p) = skill_finished_ok p"
| "controlled_ok (P_rejected p) = rejected_ok p"
| "controlled_ok (P_stopped p) = stopped_ok p"

fun chat_ok :: "number_field \<Rightarrow> chat_payload \<Rightarrow> bool" where
  "chat_ok num (P_chat_received p) = chat_received_ok p"
| "chat_ok num (P_nearby p) = nearby_ok num p"
| "chat_ok num (P_send_result p) = send_result_ok p"

fun wire_event_ok :: "number_field \<Rightarrow> wire_event \<Rightarrow> bool" where
  "wire_event_ok num (Controlled h c p) \<longleftrightarrow> head_ok h \<and> control_ok c \<and> controlled_ok p \<and> controlled_consistent h c p"
| "wire_event_ok num (Chat h p) \<longleftrightarrow> head_ok h \<and> chat_ok num p \<and> validate_chat_event h p"

lemma parse_head_ok: "parse_head m = Some h \<Longrightarrow> head_ok h"
  by (auto simp: parse_head_def head_ok_def bind_eq_Some_conv intro: field_oks)

lemma parse_control_ok: "parse_control m = Some c \<Longrightarrow> control_ok c"
  by (auto simp: parse_control_def control_ok_def bind_eq_Some_conv intro: field_oks)

lemma parse_controlled_ok: "parse_controlled t v = Some p \<Longrightarrow> controlled_ok p \<and> controlled_type p = t"
  by (cases t) (auto simp: parse_controlled_def intro: parse_session_started_ok parse_observation_ok
      parse_skill_started_ok parse_skill_finished_ok parse_rejected_ok parse_stopped_ok)

lemma parse_chat_ok:
  assumes "stable_number num" and "parse_chat num t v = Some p"
  shows "chat_ok num p \<and> chat_payload_type p = t"
  using assms(2) by (cases t)
    (auto simp: parse_chat_def intro: parse_chat_received_ok parse_nearby_ok[OF assms(1)] parse_send_result_ok)

lemma parse_event_ok:
  assumes num: "stable_number num" and "parse_gateway_v2_event num v = Some e"
  shows "wire_event_ok num e"
  using assms(2) by (auto simp: parse_gateway_v2_event_def bind_eq_Some_conv split: if_splits
      dest: parse_head_ok parse_control_ok parse_controlled_ok parse_chat_ok[OF num] elim!: model_field_ok)

lemma head_back:
  "head_ok h \<Longrightarrow> parse_head (map_of (dump_head h @ kvs)) = Some h"
  by (cases h) (simp add: parse_head_def dump_head_def head_ok_def wire_back)

lemma control_back:
  "control_ok c \<Longrightarrow> parse_control (map_of (dump_head h @
     (''controlGeneration'', JInt (ec_generation c)) # (''eventSequence'', JInt (ec_sequence c)) # kvs)) = Some c"
  by (cases c) (simp add: parse_control_def dump_head_def control_ok_def wire_back)

lemma controlled_back: "controlled_ok p \<Longrightarrow> parse_controlled (controlled_type p) (dump_controlled p) = Some p"
  by (cases p) (simp_all add: parse_controlled_def session_started_back observation_back skill_started_back
      skill_finished_back rejected_back stopped_back)

lemma chat_back: "chat_ok num p \<Longrightarrow> parse_chat num (chat_payload_type p) (dump_chat p) = Some p"
  by (cases p) (simp_all add: parse_chat_def chat_received_back nearby_back send_result_back)

lemma member_types:
  "controlled_type p \<notin> HOSTED_CHAT_EVENT_TYPES" "chat_payload_type q \<in> HOSTED_CHAT_EVENT_TYPES"
  by (cases p; simp add: HOSTED_CHAT_EVENT_TYPES_def) (cases q; simp add: HOSTED_CHAT_EVENT_TYPES_def)

lemma head_members:
  "map_of (dump_head h @ kvs) ''eventType'' = map_of kvs ''eventType''"
  "map_of (dump_head h @ kvs) ''payload'' = map_of kvs ''payload''"
  "map fst (dump_head h) = head_names"
  by (simp_all add: dump_head_def head_names_def map_add_def)

lemma event_back: "wire_event_ok num e \<Longrightarrow> parse_gateway_v2_event num (dump_event e) = Some e"
proof (cases e)
  case (Controlled h c p)
  assume "wire_event_ok num e"
  with Controlled show ?thesis
    by (simp add: parse_gateway_v2_event_def wire_back head_members head_back control_back controlled_back
        member_types list_all_iff del: map_of_append)
next
  case (Chat h p)
  assume "wire_event_ok num e"
  with Chat show ?thesis
    by (simp add: parse_gateway_v2_event_def wire_back head_members head_back chat_back
        member_types list_all_iff del: map_of_append)
qed

section \<open>The events of the repositories\<close>

fun controlled_event_payload :: "controlled_payload \<Rightarrow> event_payload" where
  "controlled_event_payload (P_session_started p) = Started_session (ss_reason p)"
| "controlled_event_payload (P_observation p) = Observation (ob_reason p)"
| "controlled_event_payload (P_skill_started p) = Started_skill (sp_decision p) (sp_call p) (sp_skill p)"
| "controlled_event_payload (P_skill_finished p) =
     Finished_skill (fp_decision p) (fp_call p) (fp_skill p) (the (terminal p))"
| "controlled_event_payload (P_rejected p) =
     Rejected_decision (rp_decision p) (rp_action p) (rp_skill p) (rp_reason p)"
| "controlled_event_payload (P_stopped p) = Stopped_session (st_why p)"

fun chat_event_payload :: "chat_payload \<Rightarrow> event_payload" where
  "chat_event_payload (P_chat_received p) = Chat_in (dump_chat_received p)"
| "chat_event_payload (P_nearby p) = Chat_nearby (dump_nearby p)"
| "chat_event_payload (P_send_result p) = Chat_result (dump_send_result p)"

text \<open>
  The part of an event the repositories work with.  \<open>terminal\<close> is defined for a validated payload
  (\<open>terminal_of_finished\<close>); a chat event has no generation and no sequence.
\<close>

fun to_gateway_event :: "wire_event \<Rightarrow> gateway_event" where
  "to_gateway_event (Controlled h c p) =
     \<lparr>ev_id = eh_id h, ev_session = eh_session h, ev_generation = ec_generation c, ev_sequence = ec_sequence c,
      ev_state_version = eh_state_version h, ev_lease = eh_lease h, ev_occurred_at = eh_occurred h,
      ev_payload = controlled_event_payload p\<rparr>"
| "to_gateway_event (Chat h p) =
     \<lparr>ev_id = eh_id h, ev_session = eh_session h, ev_generation = 0, ev_sequence = 0,
      ev_state_version = eh_state_version h, ev_lease = eh_lease h, ev_occurred_at = eh_occurred h,
      ev_payload = chat_event_payload p\<rparr>"

fun event_head_of :: "wire_event \<Rightarrow> event_head" where
  "event_head_of (Controlled h _ _) = h"
| "event_head_of (Chat h _) = h"

lemma gateway_event_head [simp]:
  "ev_id (to_gateway_event e) = eh_id (event_head_of e)"
  "ev_session (to_gateway_event e) = eh_session (event_head_of e)"
  "ev_occurred_at (to_gateway_event e) = eh_occurred (event_head_of e)"
  by (cases e; simp)+

lemma gateway_event_type:
  "ev_type (to_gateway_event (Controlled h c p)) = controlled_type p"
  "ev_type (to_gateway_event (Chat h q)) = chat_payload_type q"
  by (cases p; simp add: ev_type_def) (cases q; simp add: ev_type_def)

section \<open>Batches\<close>

record batch_envelope =
  be_trace :: string
  be_gateway :: string
  be_sent_at :: int
  be_events :: "wire_event list"

definition CONTRACT_VERSION :: string where
  "CONTRACT_VERSION = ''llm-gateway-http-v2''"

definition parse_envelope :: "number_field \<Rightarrow> json \<Rightarrow> batch_envelope option" where
  "parse_envelope num v = do {
     m \<leftarrow> wire_object [''traceId'', ''gatewayId'', ''contractVersion'', ''sentAtMs'', ''events''] v;
     t \<leftarrow> text128 (m ''traceId'');
     g \<leftarrow> text128 (m ''gatewayId'');
     _ \<leftarrow> literal_field [JStr CONTRACT_VERSION] (m ''contractVersion'');
     a \<leftarrow> nat_field (m ''sentAtMs'');
     es \<leftarrow> array_field (model_field (parse_gateway_v2_event num)) (m ''events'');
     if es \<noteq> [] then Some \<lparr>be_trace = t, be_gateway = g, be_sent_at = a, be_events = es\<rparr> else None }"

definition dump_envelope :: "batch_envelope \<Rightarrow> json" where
  "dump_envelope b = JObj
     [(''traceId'', JStr (be_trace b)), (''gatewayId'', JStr (be_gateway b)),
      (''contractVersion'', JStr CONTRACT_VERSION), (''sentAtMs'', JInt (be_sent_at b)),
      (''events'', JArr (map dump_event (be_events b)))]"

definition envelope_ok :: "number_field \<Rightarrow> batch_envelope \<Rightarrow> bool" where
  "envelope_ok num b \<longleftrightarrow> text_ok (Some 128) (be_trace b) \<and> text_ok (Some 128) (be_gateway b) \<and>
     int_ok (Some 0) (be_sent_at b) \<and> be_events b \<noteq> [] \<and> list_all (wire_event_ok num) (be_events b)"

lemma parse_envelope_ok: "stable_number num \<Longrightarrow> parse_envelope num v = Some b \<Longrightarrow> envelope_ok num b"
  by (auto simp: parse_envelope_def envelope_ok_def bind_eq_Some_conv split: if_splits
      intro: field_oks array_model_ok parse_event_ok)

lemma envelope_back: "envelope_ok num b \<Longrightarrow> parse_envelope num (dump_envelope b) = Some b"
  by (cases b) (simp add: parse_envelope_def dump_envelope_def envelope_ok_def wire_back
      array_model_back[where P = "wire_event_ok num", OF _ event_back])

record batch_ack =
  ak_trace :: string
  ak_received :: "string list"
  ak_duplicates :: "string list"

definition validate_event_ids :: "string list \<Rightarrow> string list \<Rightarrow> bool" where
  "validate_event_ids rs ds \<longleftrightarrow> distinct rs \<and> distinct ds \<and> set rs \<inter> set ds = {}"

definition parse_ack :: "json \<Rightarrow> batch_ack option" where
  "parse_ack v = do {
     m \<leftarrow> wire_object [''accepted'', ''traceId'', ''receivedEventIds'', ''duplicateEventIds''] v;
     _ \<leftarrow> literal_field [JBool True] (m ''accepted'');
     t \<leftarrow> text128 (m ''traceId'');
     rs \<leftarrow> array_field text128 (m ''receivedEventIds'');
     ds \<leftarrow> array_field text128 (m ''duplicateEventIds'');
     if validate_event_ids rs ds then Some \<lparr>ak_trace = t, ak_received = rs, ak_duplicates = ds\<rparr> else None }"

definition dump_ack :: "batch_ack \<Rightarrow> json" where
  "dump_ack a = JObj
     [(''accepted'', JBool True), (''traceId'', JStr (ak_trace a)),
      (''receivedEventIds'', JArr (map JStr (ak_received a))),
      (''duplicateEventIds'', JArr (map JStr (ak_duplicates a)))]"

definition ack_ok :: "batch_ack \<Rightarrow> bool" where
  "ack_ok a \<longleftrightarrow> text_ok (Some 128) (ak_trace a) \<and> list_all (text_ok (Some 128)) (ak_received a) \<and>
     list_all (text_ok (Some 128)) (ak_duplicates a) \<and> validate_event_ids (ak_received a) (ak_duplicates a)"

lemma parse_ack_ok: "parse_ack v = Some a \<Longrightarrow> ack_ok a"
  by (auto simp: parse_ack_def ack_ok_def bind_eq_Some_conv split: if_splits intro: field_oks)

lemma ack_back: "ack_ok a \<Longrightarrow> parse_ack (dump_ack a) = Some a"
  by (cases a) (simp add: parse_ack_def dump_ack_def ack_ok_def wire_back)

section \<open>Capabilities\<close>

record capabilities =
  ca_batch :: int
  ca_ttl :: int

definition build_gateway_v2_capabilities :: "int \<Rightarrow> int \<Rightarrow> capabilities option" where
  "build_gateway_v2_capabilities batch ttl = do {
     b \<leftarrow> pos_field (Some (JInt batch));
     t \<leftarrow> pos_field (Some (JInt ttl));
     Some \<lparr>ca_batch = b, ca_ttl = t\<rparr> }"

definition dump_capabilities :: "capabilities \<Rightarrow> json" where
  "dump_capabilities c = JObj
     [(''contractVersion'', JStr CONTRACT_VERSION), (''receiveEventsPath'', JStr ''/api/gateway/v2/events''),
      (''supportedDecisionActions'', JArr (map (JStr \<circ> fst) action_names)),
      (''perEventAck'', JBool True), (''controlGeneration'', JBool True), (''eventSequence'', JBool True),
      (''asyncSkillTerminal'', JBool True), (''supportedEventTypes'', JArr (map (JStr \<circ> fst) event_type_names)),
      (''maxEventBatchSize'', JInt (ca_batch c)), (''maxDecisionTtlMs'', JInt (ca_ttl c))]"

end
