(* ===== verification/DecisionContract.thy ===== *)
theory DecisionContract
  imports WireFacts OutboxRepository
begin

text \<open>
  Decisions and the answers to them on the wire (\<open>contracts.py\<close>), and the checks the client makes on
  an answer (\<open>decision_client.py\<close>).
\<close>

section \<open>Decisions\<close>

record decision_base =
  db_trace :: string
  db_session :: string
  db_decision :: string
  db_lease :: string
  db_state_version :: int
  db_generation :: int
  db_ttl :: int

datatype wire_decision =
    Call_skill_decision decision_base string string frozen
  | Wait_decision decision_base int
  | No_op_decision decision_base
  | Stop_hosting_decision decision_base

text \<open>\<open>Call_skill_decision\<close> carries skill name, schema version and arguments, \<open>Wait_decision\<close> the milliseconds to wait.\<close>

definition decision_base_ok :: "decision_base \<Rightarrow> bool" where
  "decision_base_ok b \<longleftrightarrow> text_ok (Some 128) (db_trace b) \<and> text_ok (Some 128) (db_session b) \<and>
     text_ok (Some 128) (db_decision b) \<and> text_ok (Some 128) (db_lease b) \<and> int_ok (Some 0) (db_state_version b) \<and>
     int_ok (Some 1) (db_generation b) \<and> int_ok (Some 1) (db_ttl b)"

definition decision_base_names :: "string list" where
  "decision_base_names = [''traceId'', ''contractVersion'', ''sessionId'', ''decisionId'', ''decisionLeaseId'',
     ''stateVersion'', ''controlGeneration'', ''ttlMs'']"

definition parse_decision_base :: "(string \<Rightarrow> json option) \<Rightarrow> decision_base option" where
  "parse_decision_base m = do {
     t \<leftarrow> text128 (m ''traceId'');
     _ \<leftarrow> literal_field [JStr CONTRACT_VERSION] (m ''contractVersion'');
     s \<leftarrow> text128 (m ''sessionId'');
     d \<leftarrow> text128 (m ''decisionId'');
     l \<leftarrow> text128 (m ''decisionLeaseId'');
     sv \<leftarrow> nat_field (m ''stateVersion'');
     g \<leftarrow> pos_field (m ''controlGeneration'');
     tt \<leftarrow> pos_field (m ''ttlMs'');
     Some \<lparr>db_trace = t, db_session = s, db_decision = d, db_lease = l, db_state_version = sv,
       db_generation = g, db_ttl = tt\<rparr> }"

definition parse_gateway_v2_decision :: "json \<Rightarrow> wire_decision option" where
  "parse_gateway_v2_decision v = do {
     a \<leftarrow> enum_field action_names (json_get v ''action'');
     (case a of
        A_call_skill \<Rightarrow> do {
          m \<leftarrow> wire_object (decision_base_names @ [''action'', ''skillName'', ''schemaVersion'', ''arguments'']) v;
          b \<leftarrow> parse_decision_base m;
          n \<leftarrow> text128 (m ''skillName'');
          sv \<leftarrow> text128 (m ''schemaVersion'');
          args \<leftarrow> mapping_field (m ''arguments'');
          Some (Call_skill_decision b n sv args) }
      | A_wait \<Rightarrow> do {
          m \<leftarrow> wire_object (decision_base_names @ [''action'', ''waitMs'']) v;
          b \<leftarrow> parse_decision_base m;
          w \<leftarrow> default_to 10000 nat_field (m ''waitMs'');
          Some (Wait_decision b w) }
      | A_no_op \<Rightarrow> do {
          m \<leftarrow> wire_object (decision_base_names @ [''action'']) v;
          b \<leftarrow> parse_decision_base m;
          Some (No_op_decision b) }
      | A_stop_hosting \<Rightarrow> do {
          m \<leftarrow> wire_object (decision_base_names @ [''action'']) v;
          b \<leftarrow> parse_decision_base m;
          Some (Stop_hosting_decision b) }) }"

definition dump_decision_base :: "decision_base \<Rightarrow> (string \<times> json) list" where
  "dump_decision_base b =
     [(''traceId'', JStr (db_trace b)), (''contractVersion'', JStr CONTRACT_VERSION),
      (''sessionId'', JStr (db_session b)), (''decisionId'', JStr (db_decision b)),
      (''decisionLeaseId'', JStr (db_lease b)), (''stateVersion'', JInt (db_state_version b)),
      (''controlGeneration'', JInt (db_generation b)), (''ttlMs'', JInt (db_ttl b))]"

fun dump_decision :: "wire_decision \<Rightarrow> json" where
  "dump_decision (Call_skill_decision b n sv args) = JObj (dump_decision_base b @
     [(''action'', JStr ''call_skill''), (''skillName'', JStr n), (''schemaVersion'', JStr sv),
      (''arguments'', deep_thaw args)])"
| "dump_decision (Wait_decision b w) = JObj (dump_decision_base b @ [(''action'', JStr ''wait''), (''waitMs'', JInt w)])"
| "dump_decision (No_op_decision b) = JObj (dump_decision_base b @ [(''action'', JStr ''no_op'')])"
| "dump_decision (Stop_hosting_decision b) = JObj (dump_decision_base b @ [(''action'', JStr ''stop_hosting'')])"

fun decision_base_of :: "wire_decision \<Rightarrow> decision_base" where
  "decision_base_of (Call_skill_decision b _ _ _) = b"
| "decision_base_of (Wait_decision b _) = b"
| "decision_base_of (No_op_decision b) = b"
| "decision_base_of (Stop_hosting_decision b) = b"

fun decision_ok :: "wire_decision \<Rightarrow> bool" where
  "decision_ok (Call_skill_decision b n sv args) \<longleftrightarrow> decision_base_ok b \<and> text_ok (Some 128) n \<and>
     text_ok (Some 128) sv \<and> is_proxy args"
| "decision_ok (Wait_decision b w) \<longleftrightarrow> decision_base_ok b \<and> int_ok (Some 0) w"
| "decision_ok (No_op_decision b) \<longleftrightarrow> decision_base_ok b"
| "decision_ok (Stop_hosting_decision b) \<longleftrightarrow> decision_base_ok b"

lemma parse_decision_base_ok: "parse_decision_base m = Some b \<Longrightarrow> decision_base_ok b"
  by (auto simp: parse_decision_base_def decision_base_ok_def bind_eq_Some_conv intro: field_oks)

lemma default_wait_ok: "default_to 10000 nat_field x = Some w \<Longrightarrow> int_ok (Some 0) w"
  by (erule default_to_ok) (auto simp: int_ok_def dest!: int_field_ok)

lemma parse_decision_ok: "parse_gateway_v2_decision v = Some d \<Longrightarrow> decision_ok d"
proof -
  assume "parse_gateway_v2_decision v = Some d"
  then obtain a where a: "enum_field action_names (json_get v ''action'') = Some a"
    and d: "parse_gateway_v2_decision v = Some d"
    by (auto simp: parse_gateway_v2_decision_def bind_eq_Some_conv)
  show ?thesis
    by (cases a) (use a d in \<open>auto simp: parse_gateway_v2_decision_def bind_eq_Some_conv
        intro: field_oks parse_decision_base_ok default_wait_ok\<close>)
qed

lemma decision_base_back:
  "decision_base_ok b \<Longrightarrow> parse_decision_base (map_of (dump_decision_base b @ kvs)) = Some b"
  by (cases b) (simp add: parse_decision_base_def dump_decision_base_def decision_base_ok_def wire_back)

lemma decision_members:
  "map_of (dump_decision_base b @ kvs) ''action'' = map_of kvs ''action''"
  "map_of (dump_decision_base b @ kvs) ''skillName'' = map_of kvs ''skillName''"
  "map_of (dump_decision_base b @ kvs) ''schemaVersion'' = map_of kvs ''schemaVersion''"
  "map_of (dump_decision_base b @ kvs) ''arguments'' = map_of kvs ''arguments''"
  "map_of (dump_decision_base b @ kvs) ''waitMs'' = map_of kvs ''waitMs''"
  "map fst (dump_decision_base b) = decision_base_names"
  by (simp_all add: dump_decision_base_def decision_base_names_def map_add_def)

lemma action_names_of:
  "map_of action_names ''call_skill'' = Some A_call_skill" "map_of action_names ''wait'' = Some A_wait"
  "map_of action_names ''no_op'' = Some A_no_op" "map_of action_names ''stop_hosting'' = Some A_stop_hosting"
  by (simp_all add: action_names_def)

lemma decision_back: "decision_ok d \<Longrightarrow> parse_gateway_v2_decision (dump_decision d) = Some d"
  by (cases d) (simp_all add: parse_gateway_v2_decision_def wire_back decision_members decision_base_back
      action_names_of list_all_iff del: map_of_append)

section \<open>Answers\<close>

record accepted_answer =
  an_trace :: string
  an_session :: string
  an_decision :: string
  an_lease :: "string option"
  an_generation :: int
  an_call :: "string option"
  an_state_version :: int
  an_reason :: string

text \<open>
  The four members that say what blocked a decision are dumped only when they were supplied: \<open>None\<close> is a
  member that was not, \<open>Some None\<close> one that was null.
\<close>

record rejected_answer =
  re_trace :: "string option"
  re_session :: "string option"
  re_decision :: "string option"
  re_lease :: "string option"
  re_generation :: int
  re_call :: "string option"
  re_state_version :: int
  re_reason :: string
  re_state :: "string option option"
  re_activity :: "string option option"
  re_scene :: "int option option"
  re_chair :: "int option option"

datatype decision_answer = Accepted_answer accepted_answer | Rejected_answer rejected_answer

definition supplied :: "(json option \<Rightarrow> 'a option) \<Rightarrow> json option \<Rightarrow> 'a option option" where
  "supplied p x = (case x of None \<Rightarrow> Some None | Some v \<Rightarrow> map_option Some (p (Some v)))"

definition null_field :: "json option \<Rightarrow> unit option" where
  "null_field x = (if x = Some JNull then Some () else None)"

definition parse_accepted :: "json \<Rightarrow> accepted_answer option" where
  "parse_accepted v = do {
     m \<leftarrow> wire_object [''accepted'', ''status'', ''traceId'', ''sessionId'', ''decisionId'', ''decisionLeaseId'',
       ''controlGeneration'', ''skillCallId'', ''stateVersion'', ''nextDecisionLeaseId'', ''reason''] v;
     _ \<leftarrow> literal_field [JBool True] (m ''accepted'');
     t \<leftarrow> text128 (m ''traceId'');
     s \<leftarrow> text128 (m ''sessionId'');
     d \<leftarrow> text128 (m ''decisionId'');
     l \<leftarrow> optional text128 (m ''decisionLeaseId'');
     g \<leftarrow> pos_field (m ''controlGeneration'');
     c \<leftarrow> nullable text128 (m ''skillCallId'');
     sv \<leftarrow> nat_field (m ''stateVersion'');
     _ \<leftarrow> null_field (m ''nextDecisionLeaseId'');
     r \<leftarrow> text256 (m ''reason'');
     Some \<lparr>an_trace = t, an_session = s, an_decision = d, an_lease = l, an_generation = g, an_call = c,
       an_state_version = sv, an_reason = r\<rparr> }"

definition parse_rejected_answer :: "json \<Rightarrow> rejected_answer option" where
  "parse_rejected_answer v = do {
     m \<leftarrow> wire_object [''accepted'', ''status'', ''traceId'', ''sessionId'', ''decisionId'', ''decisionLeaseId'',
       ''controlGeneration'', ''skillCallId'', ''stateVersion'', ''nextDecisionLeaseId'', ''reason'',
       ''blockedByState'', ''blockedByActivity'', ''blockedBySceneId'', ''blockedByChairId''] v;
     _ \<leftarrow> literal_field [JBool False] (m ''accepted'');
     t \<leftarrow> nullable text128 (m ''traceId'');
     s \<leftarrow> nullable text128 (m ''sessionId'');
     d \<leftarrow> nullable text128 (m ''decisionId'');
     l \<leftarrow> nullable text128 (m ''decisionLeaseId'');
     g \<leftarrow> nat_field (m ''controlGeneration'');
     c \<leftarrow> nullable text128 (m ''skillCallId'');
     sv \<leftarrow> nat_field (m ''stateVersion'');
     _ \<leftarrow> null_field (m ''nextDecisionLeaseId'');
     r \<leftarrow> text_field None (m ''reason'');
     bs \<leftarrow> supplied (nullable text256) (m ''blockedByState'');
     ba \<leftarrow> supplied (nullable text256) (m ''blockedByActivity'');
     bi \<leftarrow> supplied (nullable nat_field) (m ''blockedBySceneId'');
     bc \<leftarrow> supplied (nullable nat_field) (m ''blockedByChairId'');
     Some \<lparr>re_trace = t, re_session = s, re_decision = d, re_lease = l, re_generation = g, re_call = c,
       re_state_version = sv, re_reason = r, re_state = bs, re_activity = ba, re_scene = bi, re_chair = bc\<rparr> }"

definition parse_gateway_v2_decision_response :: "json \<Rightarrow> decision_answer option" where
  "parse_gateway_v2_decision_response v =
     (if json_get v ''status'' = Some (JStr ''accepted'') then map_option Accepted_answer (parse_accepted v)
      else if json_get v ''status'' = Some (JStr ''rejected'') then map_option Rejected_answer (parse_rejected_answer v)
      else None)"

section \<open>The client\<close>

text \<open>
  The identity of a request: the six members its body has, as JSON values.  An answer's identity members
  are compared with them; a number of an answer is an integer.
\<close>

record answer_identity =
  ai_accepted :: bool
  ai_trace :: "json option"
  ai_session :: "json option"
  ai_decision :: "json option"
  ai_lease :: "json option"
  ai_generation :: "json option"
  ai_state_version :: "json option"

fun answer_identity_of :: "decision_answer \<Rightarrow> answer_identity" where
  "answer_identity_of (Accepted_answer a) =
     \<lparr>ai_accepted = True, ai_trace = Some (JStr (an_trace a)), ai_session = Some (JStr (an_session a)),
      ai_decision = Some (JStr (an_decision a)), ai_lease = map_option JStr (an_lease a),
      ai_generation = Some (JInt (an_generation a)), ai_state_version = Some (JInt (an_state_version a))\<rparr>"
| "answer_identity_of (Rejected_answer r) =
     \<lparr>ai_accepted = False, ai_trace = map_option JStr (re_trace r), ai_session = map_option JStr (re_session r),
      ai_decision = map_option JStr (re_decision r), ai_lease = map_option JStr (re_lease r),
      ai_generation = Some (JInt (re_generation r)), ai_state_version = Some (JInt (re_state_version r))\<rparr>"

fun check_identity :: "bool \<Rightarrow> (string \<Rightarrow> json option) \<Rightarrow> (string \<times> json option) list \<Rightarrow> string option" where
  "check_identity accepted expected [] = None"
| "check_identity accepted expected ((key, actual) # rest) =
     (case actual of
        None \<Rightarrow> if accepted \<and> key \<noteq> ''decisionLeaseId'' then Some ''response_identity_missing''
                else check_identity accepted expected rest
      | Some v \<Rightarrow> if expected key \<noteq> Some v then Some ''response_identity_mismatch''
                else check_identity accepted expected rest)"

definition validate_response_identity :: "answer_identity \<Rightarrow> (string \<Rightarrow> json option) \<Rightarrow> string option" where
  "validate_response_identity a expected = check_identity (ai_accepted a) expected
     [(''traceId'', ai_trace a), (''sessionId'', ai_session a), (''decisionId'', ai_decision a),
      (''decisionLeaseId'', ai_lease a), (''controlGeneration'', ai_generation a),
      (''stateVersion'', ai_state_version a)]"

definition identity_members :: "string list" where
  "identity_members =
     [''traceId'', ''sessionId'', ''decisionId'', ''decisionLeaseId'', ''controlGeneration'', ''stateVersion'']"

definition request_identity :: "string \<Rightarrow> (string \<Rightarrow> json option) option" where
  "request_identity raw = (case json_loads raw of
     Some (JObj kvs) \<Rightarrow>
       if list_all (\<lambda>k. map_of kvs k \<noteq> None) identity_members
       then Some (\<lambda>k. if k \<in> set identity_members then map_of kvs k else None) else None
   | _ \<Rightarrow> None)"

text \<open>What the client answers: a result with the identity of the answer, or an error.\<close>

record decision_result =
  dr_client :: client_result
  dr_trace :: "string option"
  dr_session :: "string option"
  dr_decision :: "string option"
  dr_lease :: "string option"
  dr_generation :: int
  dr_state_version :: int

datatype client_error = Transport_error string | Protocol_error string "int option" "string option"

definition protocol_error :: "string \<Rightarrow> client_error" where
  "protocol_error category = Protocol_error category None None"

definition json_text :: "json option \<Rightarrow> string option" where
  "json_text x = (case x of Some (JStr s) \<Rightarrow> if s = [] then None else Some s | _ \<Rightarrow> None)"

definition json_dict :: "json \<Rightarrow> json option" where
  "json_dict v = (if json_is_object v then Some v else None)"

definition validate_decision_response ::
  "decision_action \<Rightarrow> int \<Rightarrow> json \<Rightarrow> (string \<Rightarrow> json option) option \<Rightarrow> client_error + decision_result" where
  "validate_decision_response action http payload identity =
     (case parse_gateway_v2_decision_response payload of
        None \<Rightarrow> Inl (Protocol_error ''response_schema_invalid'' (Some http) None)
      | Some answer \<Rightarrow>
          (case Option.bind identity (validate_response_identity (answer_identity_of answer)) of
             Some category \<Rightarrow> Inl (protocol_error category)
           | None \<Rightarrow>
               (case answer of
                  Rejected_answer r \<Rightarrow>
                    Inr \<lparr>dr_client = \<lparr>cr_http = http, cr_status = R_rejected, cr_reason = re_reason r,
                           cr_call_id = None, cr_body = json_dict payload\<rparr>,
                         dr_trace = re_trace r, dr_session = re_session r, dr_decision = re_decision r,
                         dr_lease = re_lease r, dr_generation = re_generation r,
                         dr_state_version = re_state_version r\<rparr>
                | Accepted_answer a \<Rightarrow>
                    (case (case an_lease a of Some l \<Rightarrow> Some l
                           | None \<Rightarrow> json_text (Option.bind identity (\<lambda>m. m ''decisionLeaseId''))) of
                       None \<Rightarrow> Inl (protocol_error ''response_identity_missing'')
                     | Some lease \<Rightarrow>
                         if \<not> (200 \<le> http \<and> http < 300)
                         then Inl (Protocol_error ''accepted_http_status_invalid'' (Some http) None)
                         else if action \<in> {A_call_skill, A_stop_hosting} \<and> an_call a = None
                         then Inl (Protocol_error ''accepted_skill_call_id_missing'' (Some http) None)
                         else if action \<in> {A_wait, A_no_op} \<and> an_call a \<noteq> None
                         then Inl (Protocol_error ''accepted_skill_call_id_unexpected'' (Some http) None)
                         else Inr \<lparr>dr_client = \<lparr>cr_http = http, cr_status = R_accepted, cr_reason = an_reason a,
                             cr_call_id = an_call a, cr_body = json_dict payload\<rparr>,
                           dr_trace = Some (an_trace a), dr_session = Some (an_session a),
                           dr_decision = Some (an_decision a), dr_lease = Some lease,
                           dr_generation = an_generation a, dr_state_version = an_state_version a\<rparr>))))"

end
