(* ===== verification/DecisionClient.thy ===== *)
theory DecisionClient
  imports DecisionContract CanonicalFacts
begin

text \<open>
  Sending a decision (\<open>decision_client.py\<close>: \<open>GatewayV2DecisionClient.send\<close>) and what the answer it
  accepts says about the request.  The signed headers are left out; the HTTP exchange is the parameter
  \<open>post\<close>.  The preview of a body keeps its first 4096 bytes (bytes that are not UTF-8 are not
  represented).
\<close>

definition MAX_RESPONSE_BODY_PREVIEW :: nat where
  "MAX_RESPONSE_BODY_PREVIEW = 4096"

definition response_body_preview :: "string \<Rightarrow> string" where
  "response_body_preview content = take MAX_RESPONSE_BODY_PREVIEW content"

datatype exchange = Timed_out | Request_failed | Answered int string

definition send_decision :: "(string \<Rightarrow> exchange) \<Rightarrow> decision_action \<Rightarrow> string \<Rightarrow> client_error + decision_result" where
  "send_decision post action raw =
     (case post raw of
        Timed_out \<Rightarrow> Inl (Transport_error ''timeout'')
      | Request_failed \<Rightarrow> Inl (Transport_error ''request_failed'')
      | Answered http content \<Rightarrow>
          (case json_loads content of
             None \<Rightarrow> Inl (Protocol_error ''response_not_json'' (Some http) (Some (response_body_preview content)))
           | Some payload \<Rightarrow>
               (case validate_decision_response action http payload (request_identity raw) of
                  Inl (Protocol_error category status None) \<Rightarrow>
                    Inl (Protocol_error category status (Some (response_body_preview content)))
                | r \<Rightarrow> r)))"

section \<open>The identity of a request\<close>

definition identity_of :: "wire_decision \<Rightarrow> (string \<times> json) list" where
  "identity_of d = (let b = decision_base_of d in
     [(''traceId'', JStr (db_trace b)), (''sessionId'', JStr (db_session b)), (''decisionId'', JStr (db_decision b)),
      (''decisionLeaseId'', JStr (db_lease b)), (''controlGeneration'', JInt (db_generation b)),
      (''stateVersion'', JInt (db_state_version b))])"

lemma dump_decision_object: "\<exists>kvs. dump_decision d = JObj (dump_decision_base (decision_base_of d) @ kvs) \<and>
    (\<forall>k \<in> set identity_members. map_of kvs k = None)"
  by (cases d) (simp_all add: identity_members_def)

lemma sorted_object:
  assumes "wf_json (JObj kvs)"
  shows "\<exists>kvs'. sort_keys (JObj kvs) = JObj kvs' \<and> (\<forall>k. map_of kvs' k = map_option sort_keys (map_of kvs k))"
proof -
  have d: "distinct (map fst (map (\<lambda>(k, v). (k, sort_keys v)) kvs))"
    using assms by (simp add: o_def split_beta)
  have "map_of (sort_key fst (map (\<lambda>(k, v). (k, sort_keys v)) kvs)) k =
      map_option sort_keys (map_of kvs k)" for k
    using map_of_sort_key[OF d] by (simp add: map_of_map)
  then show ?thesis by simp
qed

lemma request_identity_of_decision:
  assumes "wf_json (dump_decision d)"
  shows "request_identity (canonical_json_bytes (dump_decision d)) = Some (map_of (identity_of d))"
proof -
  obtain kvs where d: "dump_decision d = JObj (dump_decision_base (decision_base_of d) @ kvs)"
    and free: "\<forall>k \<in> set identity_members. map_of kvs k = None"
    using dump_decision_object by blast
  obtain kvs' where s: "sort_keys (dump_decision d) = JObj kvs'"
    and m: "\<And>k. map_of kvs' k = map_option sort_keys (map_of (dump_decision_base (decision_base_of d) @ kvs) k)"
    using sorted_object assms unfolding d by blast
  have loaded: "json_loads (canonical_json_bytes (dump_decision d)) = Some (JObj kvs')"
    unfolding canonical_json_bytes_def s[symmetric] by (rule json_loads_dumps[OF wf_sort_keys[OF assms]])
  have members: "map_of kvs' k = map_of (identity_of d) k" if "k \<in> set identity_members" for k
    using that free m[of k]
    by (auto simp: identity_members_def identity_of_def dump_decision_base_def Let_def map_add_def)
  have others: "map_of (identity_of d) k = None" if "k \<notin> set identity_members" for k
    using that by (auto simp: identity_members_def identity_of_def Let_def)
  have "map_of (identity_of d) k \<noteq> None" if "k \<in> set identity_members" for k
    using that by (auto simp: identity_members_def identity_of_def Let_def)
  then have "list_all (\<lambda>k. map_of kvs' k \<noteq> None) identity_members"
    by (simp add: list_all_iff members)
  with members others show ?thesis by (auto simp: request_identity_def loaded)
qed

lemma identity_checked:
  assumes "validate_response_identity (answer_identity_of answer) (map_of (identity_of d)) = None"
  shows "case answer of
      Accepted_answer a \<Rightarrow> an_trace a = db_trace (decision_base_of d) \<and> an_session a = db_session (decision_base_of d) \<and>
        an_decision a = db_decision (decision_base_of d) \<and> an_lease a \<in> {None, Some (db_lease (decision_base_of d))} \<and>
        an_generation a = db_generation (decision_base_of d) \<and> an_state_version a = db_state_version (decision_base_of d)
    | Rejected_answer r \<Rightarrow> re_trace r \<in> {None, Some (db_trace (decision_base_of d))} \<and>
        re_session r \<in> {None, Some (db_session (decision_base_of d))} \<and>
        re_decision r \<in> {None, Some (db_decision (decision_base_of d))} \<and>
        re_lease r \<in> {None, Some (db_lease (decision_base_of d))} \<and>
        re_generation r = db_generation (decision_base_of d) \<and> re_state_version r = db_state_version (decision_base_of d)"
  using assms by (cases answer)
    (auto simp: validate_response_identity_def identity_of_def Let_def split: option.splits if_splits)

lemma accepted_result:
  assumes "validate_decision_response action http payload identity = Inr r"
    and "parse_gateway_v2_decision_response payload = Some (Accepted_answer a)"
  shows "\<exists>lease. (an_lease a = Some lease \<or> an_lease a = None \<and>
      json_text (Option.bind identity (\<lambda>m. m ''decisionLeaseId'')) = Some lease) \<and>
    dr_trace r = Some (an_trace a) \<and> dr_session r = Some (an_session a) \<and> dr_decision r = Some (an_decision a) \<and>
    dr_lease r = Some lease \<and> dr_generation r = an_generation a \<and> dr_state_version r = an_state_version a \<and>
    cr_status (dr_client r) = R_accepted \<and> 200 \<le> cr_http (dr_client r) \<and> cr_http (dr_client r) < 300 \<and>
    (cr_call_id (dr_client r) \<noteq> None \<longleftrightarrow> action \<in> {A_call_skill, A_stop_hosting})"
  using assms by (cases action) (auto simp: validate_decision_response_def split: option.splits if_splits)

text \<open>The client passes a validated answer on unchanged.\<close>

lemma send_validated:
  assumes "send_decision post action raw = Inr r"
  obtains http content payload where "post raw = Answered http content" and "json_loads content = Some payload"
    and "validate_decision_response action http payload (request_identity raw) = Inr r"
  using assms by (auto simp: send_decision_def split: exchange.splits option.splits sum.splits client_error.splits)

text \<open>
  C24: an answer that is recorded belongs to its request.  When the client returns a result for the frozen
  body of a decision, its generation and state version are those of the decision, and so are trace,
  session, decision and lease id wherever the answer names them.  An accepted answer names
  all of them, came with a success status, and has a skill call id exactly when the action starts one.
\<close>

theorem answer_belongs_to_request:
  assumes wf: "wf_json (dump_decision d)"
    and sent: "send_decision post action (canonical_json_bytes (dump_decision d)) = Inr r"
  shows "dr_generation r = db_generation (decision_base_of d) \<and> dr_state_version r = db_state_version (decision_base_of d) \<and>
    dr_trace r \<in> {None, Some (db_trace (decision_base_of d))} \<and>
    dr_session r \<in> {None, Some (db_session (decision_base_of d))} \<and>
    dr_decision r \<in> {None, Some (db_decision (decision_base_of d))} \<and>
    dr_lease r \<in> {None, Some (db_lease (decision_base_of d))} \<and>
    (cr_status (dr_client r) = R_accepted \<longrightarrow>
      None \<notin> {dr_trace r, dr_session r, dr_decision r, dr_lease r} \<and>
      200 \<le> cr_http (dr_client r) \<and> cr_http (dr_client r) < 300 \<and>
      (cr_call_id (dr_client r) \<noteq> None \<longleftrightarrow> action \<in> {A_call_skill, A_stop_hosting}))"
proof -
  let ?id = "map_of (identity_of d)"
  obtain http payload where v: "validate_decision_response action http payload (Some ?id) = Inr r"
    using send_validated[OF sent] request_identity_of_decision[OF wf] by metis
  then obtain answer where a: "parse_gateway_v2_decision_response payload = Some answer"
    by (auto simp: validate_decision_response_def split: option.splits)
  from v a have checked: "validate_response_identity (answer_identity_of answer) ?id = None"
    by (auto simp: validate_decision_response_def split: option.splits)
  note same = identity_checked[OF this]
  have lease: "json_text (?id ''decisionLeaseId'') \<in> {None, Some (db_lease (decision_base_of d))}"
    by (auto simp: identity_of_def json_text_def Let_def)
  show ?thesis
  proof (cases answer)
    case (Accepted_answer x)
    with same have same: "an_trace x = db_trace (decision_base_of d)" "an_session x = db_session (decision_base_of d)"
      "an_decision x = db_decision (decision_base_of d)" "an_lease x \<in> {None, Some (db_lease (decision_base_of d))}"
      "an_generation x = db_generation (decision_base_of d)" "an_state_version x = db_state_version (decision_base_of d)"
      by simp_all
    from accepted_result[OF v a[unfolded Accepted_answer]] obtain l where
      l: "an_lease x = Some l \<or> an_lease x = None \<and> json_text (?id ''decisionLeaseId'') = Some l"
      and r: "dr_trace r = Some (an_trace x)" "dr_session r = Some (an_session x)" "dr_decision r = Some (an_decision x)"
        "dr_lease r = Some l" "dr_generation r = an_generation x" "dr_state_version r = an_state_version x"
        "200 \<le> cr_http (dr_client r)" "cr_http (dr_client r) < 300"
        "cr_call_id (dr_client r) \<noteq> None \<longleftrightarrow> action \<in> {A_call_skill, A_stop_hosting}"
      unfolding Option.bind.simps by blast
    have "l = db_lease (decision_base_of d)"
      using l same(4) lease by (elim disjE conjE) simp_all
    with r same show ?thesis by simp
  next
    case (Rejected_answer x)
    have "r = \<lparr>dr_client = \<lparr>cr_http = http, cr_status = R_rejected, cr_reason = re_reason x,
        cr_call_id = None, cr_body = json_dict payload\<rparr>, dr_trace = re_trace x, dr_session = re_session x,
        dr_decision = re_decision x, dr_lease = re_lease x, dr_generation = re_generation x,
        dr_state_version = re_state_version x\<rparr>"
      using v a checked by (simp add: Rejected_answer validate_decision_response_def)
    with same Rejected_answer show ?thesis by simp
  qed
qed

end
