(* ===== verification/DecisionWorker.thy ===== *)
theory DecisionWorker
  imports DecisionClient System
begin

text \<open>
  The decision worker (\<open>decision_worker.py\<close>): one poll claims up to \<open>max_parallelism\<close> decisions, sends
  them and records each answer or failure.  What the HTTP task of a decision came to is the parameter
  \<open>sent\<close>: the claim was lost first, the task stopped with another error, or the client returned.  The
  renewals of a claim while it is being sent are transactions of their own; the tasks of a poll each
  make one transaction at their end, so a run of them is one of the orders of the list of claims.
  Logging, metrics, the audit trail and the timers of the loops are left out.
\<close>

section \<open>Outcomes\<close>

fun contains :: "string \<Rightarrow> string \<Rightarrow> bool" where
  "contains needle [] \<longleftrightarrow> needle = []"
| "contains needle (c # cs) \<longleftrightarrow> take (length needle) (c # cs) = needle \<or> contains needle cs"

definition CALLBACK_REJECTION_REASONS :: "string list" where
  "CALLBACK_REJECTION_REASONS = [''lease_not_found'', ''lease_expired'', ''generation_mismatch'',
     ''state_version_mismatch'', ''session_not_running'', ''invalid_payload'']"

definition normal_reason :: "string \<Rightarrow> string" where
  "normal_reason reason = map (\<lambda>c. if c = CHR ''-'' \<or> c = CHR '' '' then CHR ''_'' else c)
     (map lower_char (py_strip reason))"

definition callback_metric_outcome :: "client_result \<Rightarrow> string" where
  "callback_metric_outcome res =
     (if cr_status res \<noteq> R_rejected then response_text (cr_status res)
      else let reason = normal_reason (cr_reason res) in
        ''rejected_'' @
        (if contains ''stale_control_generation'' reason \<or> contains ''generation_mismatch'' reason
         then ''generation_mismatch''
         else case find (\<lambda>c. contains c reason) CALLBACK_REJECTION_REASONS of None \<Rightarrow> ''other'' | Some c \<Rightarrow> c))"

definition failure_response_body :: "int option \<Rightarrow> string option \<Rightarrow> json option" where
  "failure_response_body http body =
     (let kvs = (case http of None \<Rightarrow> [] | Some i \<Rightarrow> [(''httpStatus'', JInt i)]) @
                (case body of None \<Rightarrow> [] | Some t \<Rightarrow> if t = [] then [] else [(''rawBody'', JStr t)]) in
      if kvs = [] then None else Some (JObj kvs))"

datatype send_outcome = Claim_lost | Send_stopped | Send_returned "client_error + decision_result"

section \<open>One decision\<close>

text \<open>\<open>_complete_failure\<close>: an error of the transaction is logged and forgotten.\<close>

definition complete_failure ::
  "worker_config \<Rightarrow> msec \<Rightarrow> claimed_decision \<Rightarrow> string \<Rightarrow> json option \<Rightarrow> db \<Rightarrow> db" where
  "complete_failure cfg now cd category body s =
     (case complete_decision_failure now cd (''http'', category) body (wc_max_attempts cfg) (wc_retry_base_ms cfg)
             (wc_retry_max_ms cfg) s of
        Inl _ \<Rightarrow> s
      | Inr (_, t) \<Rightarrow> t)"

definition process_claimed_decision ::
  "worker_config \<Rightarrow> msec \<Rightarrow> send_outcome \<Rightarrow> claimed_decision \<Rightarrow> db \<Rightarrow> string \<times> db" where
  "process_claimed_decision cfg now sent cd s =
     (case sent of
        Claim_lost \<Rightarrow> (''claim_lost'', s)
      | Send_stopped \<Rightarrow> (''error'', s)
      | Send_returned (Inl (Transport_error category)) \<Rightarrow>
          (''transport_error'', complete_failure cfg now cd category None s)
      | Send_returned (Inl (Protocol_error category http body)) \<Rightarrow>
          (''protocol_error'', complete_failure cfg now cd category (failure_response_body http body) s)
      | Send_returned (Inr r) \<Rightarrow>
          (callback_metric_outcome (dr_client r),
           case record_decision_response now cd (dr_client r) s of Inl _ \<Rightarrow> s | Inr (_, t) \<Rightarrow> t))"

section \<open>One poll\<close>

text \<open>
  The claims of a poll.  A drain or a stop may be requested before each of them; an error
  of a claim ends the poll and leaves the decisions claimed before it unsent.
\<close>

fun claim_decisions ::
  "worker_config \<Rightarrow> (uuid \<Rightarrow> bool) \<Rightarrow> msec \<Rightarrow> (nat \<Rightarrow> bool) \<Rightarrow> nat \<Rightarrow> db \<Rightarrow>
   (db_error + claimed_decision list) \<times> db" where
  "claim_decisions cfg locked now stopping 0 s = (Inr [], s)"
| "claim_decisions cfg locked now stopping (Suc n) s =
     (if stopping (Suc n) then (Inr [], s)
      else case claim_next_decision locked now (wc_worker_id cfg) (wc_claim_ttl_ms cfg) (wc_max_attempts cfg) s of
        Inl er \<Rightarrow> (Inl er, s)
      | Inr (None, t) \<Rightarrow> (Inr [], t)
      | Inr (Some cd, t) \<Rightarrow>
          (case claim_decisions cfg locked now stopping n t of
             (Inl er, u) \<Rightarrow> (Inl er, u)
           | (Inr cds, u) \<Rightarrow> (Inr (cd # cds), u)))"

fun process_decisions ::
  "worker_config \<Rightarrow> msec \<Rightarrow> (claimed_decision \<Rightarrow> send_outcome) \<Rightarrow> claimed_decision list \<Rightarrow> db \<Rightarrow> db" where
  "process_decisions cfg now sent [] s = s"
| "process_decisions cfg now sent (cd # cds) s =
     process_decisions cfg now sent cds (snd (process_claimed_decision cfg now (sent cd) cd s))"

definition run_decision_maintenance ::
  "worker_config \<Rightarrow> (uuid \<Rightarrow> bool) \<Rightarrow> msec \<Rightarrow> db \<Rightarrow> (db_error + nat) \<times> db" where
  "run_decision_maintenance cfg locked now s =
     (case sweep_expired_decision_claims locked now (wc_max_attempts cfg) s of
        Inl er \<Rightarrow> (Inl er, s)
      | Inr (_, t) \<Rightarrow> (Inr (count_decision_dead_letters t), t))"

definition run_decisions_once ::
  "worker_config \<Rightarrow> bool \<Rightarrow> (uuid \<Rightarrow> bool) \<Rightarrow> msec \<Rightarrow> (nat \<Rightarrow> bool) \<Rightarrow> (claimed_decision \<Rightarrow> send_outcome) \<Rightarrow> db \<Rightarrow>
   (db_error + nat) \<times> db" where
  "run_decisions_once cfg maintain locked now stopping sent s =
     (case (if maintain then run_decision_maintenance cfg locked now s else (Inr 0, s)) of
        (Inl er, t) \<Rightarrow> (Inl er, t)
      | (Inr _, t) \<Rightarrow>
          (case claim_decisions cfg locked now stopping (nat (wc_max_parallelism cfg)) t of
             (Inl er, u) \<Rightarrow> (Inl er, u)
           | (Inr cds, u) \<Rightarrow> (Inr (length cds), process_decisions cfg now sent cds u)))"

section \<open>A poll is a run of the system\<close>

lemma transact:
  "transaction (sys_events g) (sys_decisions g) (sys_db g) t \<Longrightarrow> system_step\<^sup>*\<^sup>* g (g\<lparr>sys_db := t\<rparr>)"
  by (rule r_into_rtranclp, rule transacted)

lemma process_run:
  assumes "cd \<in> sys_decisions g"
  shows "system_step\<^sup>*\<^sup>* g (g\<lparr>sys_db := snd (process_claimed_decision cfg now sent cd (sys_db g))\<rparr>)"
proof -
  let ?E = "sys_events g" and ?D = "sys_decisions g" and ?s = "sys_db g"
  have stay: "system_step\<^sup>*\<^sup>* g (g\<lparr>sys_db := ?s\<rparr>)" by simp
  have fail: "system_step\<^sup>*\<^sup>* g (g\<lparr>sys_db := complete_failure cfg now cd category body ?s\<rparr>)" for category body
    using stay by (auto simp: complete_failure_def split: sum.split intro!: transact failure[OF assms])
  have recorded: "system_step\<^sup>*\<^sup>* g (g\<lparr>sys_db :=
      (case record_decision_response now cd (dr_client r) ?s of Inl _ \<Rightarrow> ?s | Inr (_, t) \<Rightarrow> t)\<rparr>)" for r
    using stay by (auto split: sum.split intro!: transact response[OF assms])
  show ?thesis
  proof (cases sent)
    case (Send_returned x)
    then show ?thesis using fail recorded
      by (cases x) (simp_all add: process_claimed_decision_def split: client_error.split)
  qed (simp_all add: process_claimed_decision_def)
qed

lemma process_all_run:
  assumes "set cds \<subseteq> sys_decisions g"
  shows "system_step\<^sup>*\<^sup>* g (g\<lparr>sys_db := process_decisions cfg now sent cds (sys_db g)\<rparr>)"
  using assms
proof (induction cds arbitrary: g)
  case (Cons cd cds)
  let ?h = "g\<lparr>sys_db := snd (process_claimed_decision cfg now (sent cd) cd (sys_db g))\<rparr>"
  have "system_step\<^sup>*\<^sup>* g ?h" using Cons.prems by (intro process_run) simp
  moreover have "system_step\<^sup>*\<^sup>* ?h (?h\<lparr>sys_db := process_decisions cfg now sent cds (sys_db ?h)\<rparr>)"
    using Cons.prems by (intro Cons.IH) simp
  ultimately show ?case by (simp add: rtranclp_trans[of _ g ?h])
qed simp

text \<open>What a run hands out is added to what was handed out before.\<close>

definition grows :: "system \<Rightarrow> claimed_decision set \<Rightarrow> db \<Rightarrow> system" where
  "grows g cds t = g\<lparr>sys_db := t, sys_decisions := sys_decisions g \<union> cds\<rparr>"

lemma grows_write [simp]: "(grows g cds u)\<lparr>sys_db := t\<rparr> = grows g cds t" "grows (g\<lparr>sys_db := u\<rparr>) cds t = grows g cds t"
  "sys_db (grows g cds t) = t" "sys_decisions (grows g cds t) = sys_decisions g \<union> cds"
  by (cases g; simp add: grows_def)+

lemma grows_nothing: "grows g {} t = g\<lparr>sys_db := t\<rparr>"
  by (simp add: grows_def)

lemma claims_run:
  "claim_decisions cfg locked now stopping n (sys_db g) = (r, t) \<Longrightarrow>
   \<exists>cds. system_step\<^sup>*\<^sup>* g (grows g cds t) \<and> (case r of Inl _ \<Rightarrow> True | Inr l \<Rightarrow> set l = cds \<and> length l \<le> n)"
proof (induction n arbitrary: g r t)
  case 0
  then show ?case by (auto simp: grows_def intro!: exI[of _ "{}"])
next
  case (Suc n)
  let ?claim = "claim_next_decision locked now (wc_worker_id cfg) (wc_claim_ttl_ms cfg) (wc_max_attempts cfg) (sys_db g)"
  consider "stopping (Suc n)" | er where "\<not> stopping (Suc n)" "?claim = Inl er"
    | u where "\<not> stopping (Suc n)" "?claim = Inr (None, u)"
    | cd u where "\<not> stopping (Suc n)" "?claim = Inr (Some cd, u)"
    by (metis Inl_Inr_False option.exhaust old.sum.exhaust prod.exhaust)
  then show ?case
  proof cases
    case 1
    with Suc.prems show ?thesis by (auto simp: grows_def intro!: exI[of _ "{}"])
  next
    case 2
    with Suc.prems show ?thesis by (auto simp: grows_def intro!: exI[of _ "{}"])
  next
    case (3 u)
    with Suc.prems claimed_decision[OF 3(2)] show ?thesis
      by (auto simp: grows_def intro!: exI[of _ "{}"] r_into_rtranclp)
  next
    case (4 cd u)
    let ?h = "grows g {cd} u"
    have step: "system_step g ?h" using claimed_decision[OF 4(2)] by (simp add: grows_def)
    obtain r' where rest: "claim_decisions cfg locked now stopping n (sys_db ?h) = (r', t)"
      and r: "r = (case r' of Inl er \<Rightarrow> Inl er | Inr cds \<Rightarrow> Inr (cd # cds))"
      using Suc.prems 4 by (auto simp: grows_def split: prod.splits sum.splits)
    obtain cds where cds: "system_step\<^sup>*\<^sup>* ?h (grows ?h cds t)"
      "case r' of Inl _ \<Rightarrow> True | Inr l \<Rightarrow> set l = cds \<and> length l \<le> n"
      using Suc.IH[OF rest] by blast
    have "grows ?h cds t = grows g (insert cd cds) t" by (simp add: grows_def)
    with step cds r show ?thesis
      by (intro exI[of _ "insert cd cds"]) (auto simp: converse_rtranclp_into_rtranclp split: sum.splits)
  qed
qed

lemma maintenance_run:
  assumes "run_decision_maintenance cfg locked now (sys_db g) = (r, t)"
  shows "system_step\<^sup>*\<^sup>* g (g\<lparr>sys_db := t\<rparr>)"
  using assms transact[OF sweep_decisions, of locked now "wc_max_attempts cfg" g]
  by (auto simp: run_decision_maintenance_def split: sum.splits)

text \<open>
  C26: the decision worker stays within the system.  A poll, with or without maintenance, whatever its
  exchanges come to and wherever it is stopped or fails, is a run of the system that hands out at most
  \<open>max_parallelism\<close> decisions; so every property of the reachable states holds after it.
\<close>

theorem decision_poll_is_a_run:
  assumes "reachable g" and "run_decisions_once cfg maintain locked now stopping sent (sys_db g) = (r, t)"
  shows "\<exists>cds. system_step\<^sup>*\<^sup>* g (grows g cds t) \<and> reachable (grows g cds t) \<and>
    (\<forall>n. r = Inr n \<longrightarrow> n \<le> nat (wc_max_parallelism cfg) \<and> card cds \<le> n)"
proof -
  obtain m u where m: "(if maintain then run_decision_maintenance cfg locked now (sys_db g) else (Inr 0, sys_db g)) = (m, u)"
    by (metis surj_pair)
  let ?g = "g\<lparr>sys_db := u\<rparr>"
  have first: "system_step\<^sup>*\<^sup>* g ?g" using m by (auto split: if_splits intro: maintenance_run)
  have run: "\<exists>cds. system_step\<^sup>*\<^sup>* ?g (grows ?g cds t) \<and> (\<forall>n. r = Inr n \<longrightarrow> n \<le> nat (wc_max_parallelism cfg) \<and> card cds \<le> n)"
  proof (cases m)
    case (Inl er)
    with assms(2) m show ?thesis by (auto simp: run_decisions_once_def grows_def intro!: exI[of _ "{}"])
  next
    case (Inr k)
    obtain c v where c: "claim_decisions cfg locked now stopping (nat (wc_max_parallelism cfg)) u = (c, v)"
      by (metis surj_pair)
    obtain cds where cds: "system_step\<^sup>*\<^sup>* ?g (grows ?g cds v)"
      "case c of Inl _ \<Rightarrow> True | Inr l \<Rightarrow> set l = cds \<and> length l \<le> nat (wc_max_parallelism cfg)"
      using claims_run[of cfg locked now stopping _ ?g, simplified, OF c] by auto
    show ?thesis
    proof (cases c)
      case Inl
      with assms(2) m \<open>m = Inr k\<close> c cds show ?thesis by (auto simp: run_decisions_once_def)
    next
      case (Inr l)
      have "r = Inr (length l)" "t = process_decisions cfg now sent l v"
        using assms(2) m \<open>m = Inr k\<close> c Inr by (auto simp: run_decisions_once_def)
      moreover have "system_step\<^sup>*\<^sup>* (grows ?g cds v)
          ((grows ?g cds v)\<lparr>sys_db := process_decisions cfg now sent l (sys_db (grows ?g cds v))\<rparr>)"
        using cds Inr by (intro process_all_run) simp
      ultimately show ?thesis
        using cds Inr card_length[of l] by (intro exI[of _ cds]) (auto elim!: rtranclp_trans)
    qed
  qed
  then obtain cds where "system_step\<^sup>*\<^sup>* g (grows g cds t)"
    "\<forall>n. r = Inr n \<longrightarrow> n \<le> nat (wc_max_parallelism cfg) \<and> card cds \<le> n"
    using first by (auto intro: rtranclp_trans)
  with reachable_steps[OF assms(1)] show ?thesis by blast
qed

end
