(* ===== verification/InboxWitnesses.thy ===== *)
theory InboxWitnesses
  imports InboxMaintenance
begin

text \<open>
  A sample run of the inbox (a batch admitted, its session start claimed and completed, a session
  stop claimed) and the properties of the inbox applied to it.
\<close>

section \<open>The run\<close>

definition sample_stop :: gateway_event where
  "sample_stop = \<lparr>ev_id = ''evt-stop'', ev_session = ''room'', ev_generation = 1, ev_sequence = 2,
     ev_state_version = 2, ev_lease = None, ev_occurred_at = 900, ev_payload = Stopped_session ''left''\<rparr>"

definition claim_of :: "claim_outcome \<Rightarrow> claimed_event option" where
  "claim_of x = (case x of Claimed ev \<Rightarrow> Some ev | _ \<Rightarrow> None)"

definition sample_claim :: "db \<Rightarrow> claim_outcome \<times> db" where
  "sample_claim s = claim_step no_locks 2000 ''w1'' 500 5 s"

definition done_ok :: process_result where
  "done_ok = \<lparr>pr_outcome = O_succeeded, pr_error = (None, None)\<rparr>"

definition failed_retryably :: process_result where
  "failed_retryably = \<lparr>pr_outcome = O_retryable_failed, pr_error = (Some ''llm'', Some ''timeout'')\<rparr>"

definition sample_ev :: claimed_event where
  "sample_ev = the (claim_of (fst (sample_claim sample_admitted)))"

definition sample_claimed :: db where
  "sample_claimed = snd (sample_claim sample_admitted)"

definition stop_admitted :: db where
  "stop_admitted = snd (projr (accept_event_batch sample_hash None 1000 sample_who ''trace''
     [sample_started 1, sample_stop] empty_db))"

definition stop_started :: db where
  "stop_started = (case sample_claim stop_admitted of (out, s) \<Rightarrow>
     snd (projr (complete_event 2100 (the (claim_of out)) done_ok 5 100 1000 s)))"

definition stop_ev :: claimed_event where
  "stop_ev = the (claim_of (fst (sample_claim stop_started)))"

definition stop_claimed :: db where
  "stop_claimed = snd (sample_claim stop_started)"

lemma claim_of_Claimed: "claim_of x \<noteq> None \<Longrightarrow> x = Claimed (the (claim_of x))"
  by (cases x) (simp_all add: claim_of_def)

lemma sample_claim_result:
  "claim_step no_locks 2000 ''w1'' 500 5 sample_admitted = (Claimed sample_ev, sample_claimed)"
proof -
  have "claim_of (fst (sample_claim sample_admitted)) \<noteq> None" by code_simp
  from claim_of_Claimed[OF this] show ?thesis
    by (simp add: sample_ev_def sample_claimed_def prod_eq_iff flip: sample_claim_def)
qed

lemma sample_keys: "keys_ok sample_admitted" "keys_ok sample_claimed" "keys_ok stop_claimed"
  by (rule keys_okI, code_simp)+

lemma sample_refs: "refs_ok sample_admitted" "refs_ok sample_claimed"
  unfolding refs_ok_def by code_simp+

section \<open>The properties applied\<close>


definition sample_row :: "db \<Rightarrow> claimed_event \<Rightarrow> event_row \<times> cycle_row \<times> session_row" where
  "sample_row s ev = the (LOCK_CLAIM_FOR_COMPLETION (ce_row ev) (ce_token ev) (ce_fence ev) s)"

lemma sample_row_locked:
  "LOCK_CLAIM_FOR_COMPLETION (ce_row sample_ev) (ce_token sample_ev) (ce_fence sample_ev) sample_claimed =
     Some (sample_row sample_claimed sample_ev)"
  "LOCK_CLAIM_FOR_COMPLETION (ce_row stop_ev) (ce_token stop_ev) (ce_fence stop_ev) stop_claimed =
     Some (sample_row stop_claimed stop_ev)"
proof -
  have "\<not> Option.is_none (LOCK_CLAIM_FOR_COMPLETION (ce_row sample_ev) (ce_token sample_ev)
      (ce_fence sample_ev) sample_claimed)"
    "\<not> Option.is_none (LOCK_CLAIM_FOR_COMPLETION (ce_row stop_ev) (ce_token stop_ev)
      (ce_fence stop_ev) stop_claimed)"
    by code_simp+
  then show "LOCK_CLAIM_FOR_COMPLETION (ce_row sample_ev) (ce_token sample_ev) (ce_fence sample_ev)
      sample_claimed = Some (sample_row sample_claimed sample_ev)"
    "LOCK_CLAIM_FOR_COMPLETION (ce_row stop_ev) (ce_token stop_ev) (ce_fence stop_ev) stop_claimed =
      Some (sample_row stop_claimed stop_ev)"
    by (simp_all add: sample_row_def Option.is_none_def)
qed

theorem completion_follows_outcome_witness:
  "\<exists>t e'. complete_event 2100 sample_ev failed_retryably 5 100 1000 sample_claimed = Inr (True, t) \<and>
     e' \<in> set (events t) \<and> e_id e' = ce_row sample_ev \<and> e_status e' = E_retryable_failed \<and>
     2200 \<le> e_next_at e' \<and> e_next_at e' \<le> 3100"
proof -
  obtain e c r where row: "sample_row sample_claimed sample_ev = (e, c, r)"
    by (cases "sample_row sample_claimed sample_ev")
  note d = LOCK_CLAIM_FOR_COMPLETION_SomeD[OF sample_row_locked(1)[unfolded row]]
  have "case sample_row sample_claimed sample_ev of (e, c, r) \<Rightarrow>
      claim_is_valid e r (ce_type sample_ev) (Some (ce_fence sample_ev)) \<and>
      outcome_status (pr_outcome failed_retryably) (e_attempts e) 5 = E_retryable_failed"
    by code_simp
  then have v: "claim_is_valid e r (ce_type sample_ev) (Some (ce_fence sample_ev))"
    and o: "outcome_status (pr_outcome failed_retryably) (e_attempts e) 5 = E_retryable_failed"
    by (simp_all add: row)
  note completed = completion_follows_outcome[OF sample_keys(2) d v, of 5 100 1000 2100 failed_retryably]
  show ?thesis using completed o by simp blast
qed

theorem stop_closes_cycle_witness:
  "\<exists>t. complete_event 2200 stop_ev done_ok 5 100 1000 stop_claimed = Inr (True, t) \<and>
     (\<forall>f \<in> set (events t). e_cycle f = ce_cycle stop_ev \<longrightarrow> \<not> open_event (e_status f))"
proof -
  obtain e c r where row: "sample_row stop_claimed stop_ev = (e, c, r)"
    by (cases "sample_row stop_claimed stop_ev")
  note d = LOCK_CLAIM_FOR_COMPLETION_SomeD[OF sample_row_locked(2)[unfolded row]]
  have "case sample_row stop_claimed stop_ev of (e, c, r) \<Rightarrow>
      claim_is_valid e r (ce_type stop_ev) (Some (ce_fence stop_ev)) \<and> claimed_from e stop_ev \<and>
      e_type e = Session_stopped \<and> e_cycle e = ce_cycle stop_ev"
    by code_simp
  then have v: "claim_is_valid e r (ce_type stop_ev) (Some (ce_fence stop_ev))" "claimed_from e stop_ev"
    "e_type e = Session_stopped" "e_cycle e = ce_cycle stop_ev"
    by (simp_all add: row)
  note closed = stop_closes_cycle[OF sample_keys(3) d v(1-3), of 5 100 1000 done_ok 2200]
  show ?thesis using closed v(4) by (auto simp: done_ok_def)
qed

definition sample_skipped :: db where
  "sample_skipped = SKIP_COMPLETED_CONVERGENCE_EVENTS (ce_cycle sample_ev) sample_claimed"


definition sample_ctx :: agent_context where
  "sample_ctx = \<lparr>ctx_event_id = ''evt-start'', ctx_session = ''room'', ctx_gen = 1, ctx_seq = 1,
     ctx_state_version = 1, ctx_lease = ''lease-1'', ctx_payload = JObj []\<rparr>"

definition sample_leased :: db where
  "sample_leased = snd (projr (persist_lease_context 2050 sample_ev sample_ctx sample_claimed))"

lemma sample_leased_result:
  "persist_lease_context 2050 sample_ev sample_ctx sample_claimed = Inr (True, sample_leased)"
proof -
  let ?r = "persist_lease_context 2050 sample_ev sample_ctx sample_claimed"
  have "?r = Inr (projr ?r)" by (rule Inr_projr) code_simp
  moreover have "fst (projr ?r)" by code_simp
  ultimately show ?thesis by (metis prod.collapse sample_leased_def)
qed

theorem lease_change_cancels_older_work_witness:
  "\<exists>c \<in> set (cycles sample_leased). c_id c = ce_cycle sample_ev \<and> c_lease c = Some ''lease-1''"
  using lease_change_cancels_older_work[OF sample_leased_result] by (auto simp: sample_ctx_def)

end
