(* ===== verification/OutboxWitnesses.thy ===== *)
theory OutboxWitnesses
  imports PlanningFacts ResponseFacts
begin

text \<open>
  A session start being processed; a skill call is planned for it, claimed, answered by the gateway,
  rejected and closed by a session stop; and the properties of the outbox applied to that run.
\<close>

section \<open>The run\<close>

definition working_body :: gateway_event where
  "working_body = \<lparr>ev_id = ''evt-start'', ev_session = ''room'', ev_generation = 1, ev_sequence = 1,
     ev_state_version = 1, ev_lease = Some ''lease-1'', ev_occurred_at = 900,
     ev_payload = Started_session ''player''\<rparr>"

definition working_ev :: claimed_event where
  "working_ev = \<lparr>ce_row = 2, ce_tenant = 7, ce_cycle = 1, ce_gateway = ''gw'', ce_session = ''room'',
     ce_event_id = ''evt-start'', ce_type = Session_started, ce_gen = 1, ce_seq = 1, ce_body = working_body,
     ce_hash = ''hash'', ce_trace = ''trace'', ce_token = 5, ce_fence = 1, ce_attempts = 1,
     ce_locked_by = ''w1'', ce_lock_until = 2500, ce_historical = False\<rparr>"

definition working_ctx :: agent_context where
  "working_ctx = \<lparr>ctx_event_id = ''evt-start'', ctx_session = ''room'', ctx_gen = 1, ctx_seq = 1,
     ctx_state_version = 1, ctx_lease = ''lease-1'', ctx_payload = JObj []\<rparr>"

definition sample_working :: db where
  "sample_working = empty_db\<lparr>
     sessions := [\<lparr>s_id = 0, s_tenant = 7, s_gateway = ''gw'', s_session = ''room'', s_gen = Some 1,
       s_fence = 1, s_status = S_active, s_last_event_at = 1000\<rparr>],
     cycles := [\<lparr>c_id = 1, c_tenant = 7, c_runtime = 0, c_gateway = ''gw'', c_session = ''room'', c_gen = 1,
       c_status = C_active, c_next = 1, c_state_version = Some 1, c_lease = Some ''lease-1'',
       c_context = Some (JObj []), c_activity = no_activity, c_started_at = Some 2000, c_stopped_at = None\<rparr>],
     events := [\<lparr>e_id = 2, e_tenant = 7, e_cycle = 1, e_gateway = ''gw'', e_session = ''room'',
       e_event_id = ''evt-start'', e_type = Session_started, e_gen = 1, e_seq = 1, e_hash = ''hash'',
       e_body = working_body, e_trace = ''trace'', e_status = E_processing, e_attempts = 1, e_next_at = 1000,
       e_claim = \<lparr>cl_token = Some 5, cl_fence = Some 1, cl_lock_until = Some 2500, cl_locked_by = Some ''w1''\<rparr>,
       e_error = (None, None), e_received_at = 1000, e_started_at = Some 2000, e_completed_at = None\<rparr>],
     next_uuid := 6\<rparr>"

definition sample_policy :: capacity_policy where
  "sample_policy = [((''dance'', None),
     \<lparr>ru_skill = ''dance'', ru_limit = 1, ru_scene = None, ru_scope = Scope_gateway\<rparr>)]"

definition sample_config :: outbox_config where
  "sample_config = \<lparr>oc_lease_ttl = Some 60000, oc_safety_window = 1000, oc_policy = sample_policy,
     oc_capacity_ttl = 600000\<rparr>"

definition sample_action :: agent_action where
  "sample_action = \<lparr>aa_action = A_call_skill, aa_skill = ''dance'', aa_tracking = Some (''u'', ''dance''),
     aa_dump = JObj []\<rparr>"

definition sample_freeze :: freezer where
  "sample_freeze i tr ctx a = Inr \<lparr>fz_body = JObj [(''skillName'', JStr ''dance'')], fz_bytes = ''body'',
     fz_hash = ''hash''\<rparr>"

definition planned :: "(plan_error + planned_decision) \<times> db" where
  "planned = plan_decision 2060 sample_config sample_freeze ''dec-1'' working_ev working_ctx sample_action None
     sample_working"

definition sample_planned :: db where
  "sample_planned = snd planned"

definition planned_dance :: planned_decision where
  "planned_dance = projr (fst planned)"

definition claimed_decision_of :: "db \<Rightarrow> claimed_decision option \<times> db" where
  "claimed_decision_of s = projr (claim_next_decision (\<lambda>_. False) 2070 ''w2'' 500 3 s)"

definition sample_cd :: claimed_decision where
  "sample_cd = the (fst (claimed_decision_of sample_planned))"

definition sample_sending :: db where
  "sample_sending = snd (claimed_decision_of sample_planned)"

definition accepted_result :: client_result where
  "accepted_result = \<lparr>cr_http = 200, cr_status = R_accepted, cr_reason = ''ok'', cr_call_id = Some ''call-1'',
     cr_body = Some (JObj [])\<rparr>"

definition sample_answered :: db where
  "sample_answered = snd (projr (record_decision_response 2080 sample_cd accepted_result sample_sending))"

definition stop_report :: claimed_event where
  "stop_report = working_ev\<lparr>ce_body := (ce_body working_ev)\<lparr>ev_payload := Stopped_session ''left''\<rparr>\<rparr>"

definition sample_closed :: db where
  "sample_closed = snd (projr (close_generation 2100 stop_report sample_answered))"

lemma pair_isInr: "\<not> isl (fst p) \<Longrightarrow> p = (Inr (projr (fst p)), snd p)"
  by (cases p) (auto simp: sum.collapse)

lemma planned_result:
  "plan_decision 2060 sample_config sample_freeze ''dec-1'' working_ev working_ctx sample_action None sample_working =
     (Inr planned_dance, sample_planned)"
proof -
  have "\<not> isl (fst planned)" by code_simp
  from pair_isInr[OF this] show ?thesis
    by (simp add: planned_dance_def sample_planned_def flip: planned_def)
qed

lemma Inr_pair: "\<not> isl x \<Longrightarrow> x = Inr (fst (projr x), snd (projr x))"
  by (cases x) simp_all

lemma sample_sending_result:
  "claim_next_decision (\<lambda>_. False) 2070 ''w2'' 500 3 sample_planned = Inr (Some sample_cd, sample_sending)"
proof -
  let ?r = "claim_next_decision (\<lambda>_. False) 2070 ''w2'' 500 3 sample_planned"
  have "\<not> isl ?r" "\<not> Option.is_none (fst (projr ?r))" by code_simp+
  with Inr_pair[of ?r] show ?thesis
    by (simp add: sample_cd_def sample_sending_def claimed_decision_of_def Option.is_none_def)
qed

lemma run_result:
  "\<not> isl x \<Longrightarrow> fst (projr x) = r \<Longrightarrow> x = Inr (r, snd (projr x))"
  by (cases x) auto

lemma sample_answered_result:
  "record_decision_response 2080 sample_cd accepted_result sample_sending = Inr (True, sample_answered)"
  unfolding sample_answered_def by (rule run_result) code_simp+

lemma sample_closed_result:
  "close_generation 2100 stop_report sample_answered = Inr (result M_applied, sample_closed)"
  unfolding sample_closed_def by (rule run_result) code_simp+

lemma sample_outbox_keys: "keys_ok sample_planned" "keys_ok sample_sending" "keys_ok sample_answered"
  by (rule keys_okI, code_simp)+

section \<open>The properties applied\<close>

theorem planning_is_idempotent_witness:
  "plan_decision 9000 sample_config sample_freeze ''dec-2'' working_ev working_ctx sample_action None sample_planned =
     (Inr (planned_dance\<lparr>pd_created := False\<rparr>), sample_planned)"
proof -
  have "\<forall>j tr c a f. sample_freeze j tr c a = Inr f \<longrightarrow> json_is_object (fz_body f)"
    by (auto simp: sample_freeze_def)
  from planning_is_idempotent[OF this planned_result] show ?thesis by blast
qed

lemma sample_key:
  "capacity_key (oc_policy sample_config) (ce_gateway working_ev) (aa_skill sample_action) (ctx_snapshot working_ctx) =
     Inr (Some ''gw:skill:dance'')"
  by code_simp

lemma sample_action_kind: "aa_action sample_action = A_call_skill"
  by (simp add: sample_action_def)

theorem planning_respects_capacity_witness:
  "\<exists>d \<in> set (decisions sample_planned). \<exists>c. d_capacity d = Some c \<and> cr_key c = ''gw:skill:dance'' \<and>
     int (COUNT_ACTIVE_CAPACITY_RESERVATIONS 2060 ''gw:skill:dance'' sample_planned) \<le> cr_limit c"
proof -
  have "pd_created planned_dance" by code_simp
  with planning_respects_capacity[OF sample_key sample_action_kind] planned_result show ?thesis by blast
qed

theorem claim_hands_out_valid_decision_witness:
  "\<exists>d c. d \<in> set (decisions sample_sending) \<and> c \<in> set (cycles sample_sending) \<and> c_id c = d_cycle d \<and>
     c_status c = C_active \<and> d_attempts d \<le> 3 \<and> cl_lock_until (d_claim d) = Some 2570"
proof -
  note claimed = claim_hands_out_valid_decision[OF sample_outbox_keys(1) sample_sending_result]
  then show ?thesis by (elim exE conjE) (intro exI conjI; (assumption | simp))
qed

theorem accepted_skill_has_one_call_witness:
  "\<exists>q \<in> set (decisions sample_answered). d_id q = cd_row sample_cd \<and> d_claim q = no_claim"
proof -
  have "call_links sample_sending" "decision_of sample_cd sample_sending"
    unfolding call_links_def decision_of_def by code_simp+
  moreover have "cr_status accepted_result = R_accepted" "cd_action sample_cd \<in> {A_call_skill, A_stop_hosting}"
    by code_simp+
  ultimately show ?thesis
    using accepted_skill_has_one_call[OF sample_outbox_keys(2) _ _ sample_answered_result] by blast
qed


end
