(* ===== verification/SystemWitnesses.thy ===== *)
theory SystemWitnesses
  imports System InboxWitnesses OutboxWitnesses
begin

text \<open>
  A run of the whole system: a batch is admitted, its session start claimed, its lease persisted, a
  decision planned, claimed and answered, and the event completed; and the properties of the system
  applied to the states of that run.
\<close>

section \<open>The run\<close>

definition run_planned :: db where
  "run_planned = snd (plan_decision 2060 sample_config sample_freeze ''dec-1'' sample_ev sample_ctx sample_action
     None sample_leased)"

definition run_claim :: "claimed_decision option \<times> db" where
  "run_claim = projr (claim_next_decision (\<lambda>_. False) 2070 ''w2'' 500 3 run_planned)"

definition run_answered :: db where
  "run_answered = snd (projr (record_decision_response 2080 (the (fst run_claim)) accepted_result (snd run_claim)))"

definition run_done :: db where
  "run_done = snd (projr (complete_event 2100 sample_ev done_ok 5 100 1000 run_answered))"

text \<open>A worker asks for an event long after the run.\<close>

definition run_claim_again :: "db \<Rightarrow> claim_outcome \<times> db" where
  "run_claim_again = claim_step no_locks 9000 ''w9'' 500 5"

definition run_later :: db where
  "run_later = snd (run_claim_again run_done)"

definition run_admitted_state :: system where
  "run_admitted_state = \<lparr>sys_db = sample_admitted, sys_events = {}, sys_decisions = {}\<rparr>"

definition run_done_state :: system where
  "run_done_state = \<lparr>sys_db = run_done, sys_events = {sample_ev}, sys_decisions = {the (fst run_claim)}\<rparr>"

lemma run_steps:
  "claim_next_decision (\<lambda>_. False) 2070 ''w2'' 500 3 run_planned = Inr (fst run_claim, snd run_claim)"
  "fst run_claim = Some (the (fst run_claim))"
  "record_decision_response 2080 (the (fst run_claim)) accepted_result (snd run_claim) = Inr (True, run_answered)"
  "complete_event 2100 sample_ev done_ok 5 100 1000 run_answered = Inr (True, run_done)"
proof -
  have "\<not> isl (claim_next_decision (\<lambda>_. False) 2070 ''w2'' 500 3 run_planned)" by code_simp
  then show "claim_next_decision (\<lambda>_. False) 2070 ''w2'' 500 3 run_planned = Inr (fst run_claim, snd run_claim)"
    by (simp add: run_claim_def)
  have "\<not> Option.is_none (fst run_claim)" by code_simp
  then show "fst run_claim = Some (the (fst run_claim))" by (simp add: Option.is_none_def)
  show "record_decision_response 2080 (the (fst run_claim)) accepted_result (snd run_claim) = Inr (True, run_answered)"
    unfolding run_answered_def by (rule run_result) code_simp+
  show "complete_event 2100 sample_ev done_ok 5 100 1000 run_answered = Inr (True, run_done)"
    unfolding run_done_def by (rule run_result) code_simp+
qed

lemma system_step_to:
  "transaction E D s t \<Longrightarrow> system_step \<lparr>sys_db = s, sys_events = E, sys_decisions = D\<rparr>
     \<lparr>sys_db = t, sys_events = E, sys_decisions = D\<rparr>"
  using transacted[of "\<lparr>sys_db = s, sys_events = E, sys_decisions = D\<rparr>" t] by simp

lemma run_admitted_reachable: "reachable run_admitted_state"
proof -
  have "system_step initial run_admitted_state"
    unfolding initial_def run_admitted_state_def
    by (rule system_step_to, rule admit) (rule sample_batch_accepted)
  then show ?thesis by (simp add: reachable_def)
qed

lemma run_done_reachable: "system_step\<^sup>*\<^sup>* run_admitted_state run_done_state"
proof -
  let ?cd = "the (fst run_claim)"
  let ?g = "\<lambda>s E D. \<lparr>sys_db = s, sys_events = E, sys_decisions = D\<rparr>"
  note rtranclp.rtrancl_into_rtrancl [trans]
  have "system_step\<^sup>*\<^sup>* run_admitted_state run_admitted_state" by simp
  also have "system_step \<dots> (?g sample_claimed {sample_ev} {})"
    using claimed_event[of no_locks 2000 "''w1''" 500 5 run_admitted_state] sample_claim_result
    by (simp add: run_admitted_state_def handed_out_def)
  also have "system_step \<dots> (?g sample_leased {sample_ev} {})"
    by (rule system_step_to, rule lease[OF _ sample_leased_result]) simp
  also have "system_step \<dots> (?g run_planned {sample_ev} {})"
    unfolding run_planned_def by (rule system_step_to, rule plan[OF _ surjective_pairing]) simp
  also have "system_step \<dots> (?g (snd run_claim) {sample_ev} {?cd})"
    using claimed_decision[of "\<lambda>_. False" 2070 "''w2''" 500 3 "?g run_planned {sample_ev} {}", simplified, OF run_steps(1)]
      run_steps(2) by (metis Un_empty_left option.set(2))
  also have "system_step \<dots> (?g run_answered {sample_ev} {?cd})"
    by (rule system_step_to, rule response[OF _ run_steps(3)]) simp
  also have "system_step \<dots> (?g run_done {sample_ev} {?cd})"
    by (rule system_step_to, rule complete[OF _ run_steps(4)]) simp
  finally show ?thesis by (simp add: run_done_state_def)
qed

lemma run_done_ok: "reachable run_done_state"
  using reachable_steps[OF run_admitted_reachable run_done_reachable] .

lemma no_token_claims:
  "list_all (\<lambda>e. cl_token (e_claim e) = None) (events s) \<Longrightarrow> event_claims s = {}"
  "list_all (\<lambda>d. cl_token (d_claim d) = None) (decisions s) \<Longrightarrow> decision_claims s = {}"
  by (auto simp: event_claims_def decision_claims_def claims_of_def list_all_iff)

lemma run_done_released: "event_claims run_done = {}" "decision_claims run_done = {}"
  by (rule no_token_claims, code_simp)+

section \<open>The properties applied\<close>


theorem one_decision_in_flight_witness:
  "card {d \<in> set (decisions run_done). d_source d = 2} \<le> 1"
  using one_decision_in_flight[OF run_done_ok, of 2] by (simp add: run_done_state_def)

theorem closed_rows_stay_closed_witness:
  "\<exists>e' \<in> set (events run_later). e_id e' = 2 \<and> e_status e' = E_succeeded"
proof -
  have first: "\<exists>e \<in> set (events run_done). e_id e = 2 \<and> e_status e = E_succeeded" by code_simp
  have "system_step run_done_state (run_done_state\<lparr>sys_db := run_later,
      sys_events := sys_events run_done_state \<union> handed_out (fst (run_claim_again run_done))\<rparr>)"
    using claimed_event[of no_locks 9000 "''w9''" 500 5 run_done_state]
    by (simp add: run_done_state_def run_later_def run_claim_again_def)
  from closed_rows_stay_closed[OF run_done_ok r_into_rtranclp[of system_step, OF this]] first
  show ?thesis by (simp add: run_done_state_def Bex_def) (metis open_event_simps(4))
qed

theorem released_event_claim_is_dead_witness:
  "complete_event 9000 sample_ev done_ok 5 100 1000 run_done = Inr (False, run_done)"
  using released_event_claim_is_dead[OF run_done_ok _ _ rtranclp.rtrancl_refl, of sample_ev 5 100 1000 9000 done_ok]
    run_done_released by (simp add: run_done_state_def)

theorem released_decision_claim_is_dead_witness:
  "record_decision_response 9000 (the (fst run_claim)) accepted_result run_done = Inr (False, run_done)"
  using released_decision_claim_is_dead[OF run_done_ok _ _ rtranclp.rtrancl_refl,
      of "the (fst run_claim)" 5 100 1000 9000 accepted_result] run_done_released
  by (simp add: run_done_state_def)

end
