(* ===== verification/DispatchProperties.thy ===== *)
theory DispatchProperties
  imports EventDispatcher ActivityReports DecisionWorker SystemWitnesses
begin

text \<open>
  What holds of a worker that processes one claimed event, and the properties of the dispatcher and of the
  decision worker applied to concrete states.
\<close>

section \<open>Plans that no longer load\<close>

lemma poisoned_later:
  assumes "db_le s t" and "c \<in> set (cycles s)" and "poisoned (c_activity c)"
  shows "\<exists>c' \<in> set (cycles t). c_id c' = c_id c \<and> ac_plan (c_activity c') = ac_plan (c_activity c) \<and>
    poisoned (c_activity c')"
proof -
  from db_le_rows(2)[OF assms(1,2)] obtain c' where "c' \<in> set (cycles t)" "cycle_le c c'" by blast
  with assms(3) show ?thesis
    by (intro bexI[of _ c']) (auto simp: cycle_le_def activity_le_def poisoned_def)
qed

lemma run_activity_raises:
  assumes "op ev s = Inl er"
  shows "\<exists>r. run_activity op ev s = (Some r, s) \<and> pr_outcome r = O_retryable_failed"
  using assms by (auto simp: run_activity_def retryable_def operation_failed_def split: activity_error.splits)


section \<open>The worker\<close>

text \<open>
  The worker stays within the system.  Processing a claimed event, that is dispatching it to the
  repositories in the order of its type and completing it with the result, is a run of the system's
  transactions whatever fails on the way, provided the planner is; so every property of the reachable
  states holds after it.
\<close>

theorem processing_is_a_run:
  assumes "reachable g" and "ev \<in> sys_events g"
    and "\<And>ctx. runs (sys_events g) (sys_decisions g) (dp_planner d ev ctx)"
  shows "system_step\<^sup>*\<^sup>* g (g\<lparr>sys_db := process_claimed_event cfg d now later ev (sys_db g)\<rparr>) \<and>
    reachable (g\<lparr>sys_db := process_claimed_event cfg d now later ev (sys_db g)\<rparr>)"
proof -
  have "system_step\<^sup>*\<^sup>* g (g\<lparr>sys_db := process_claimed_event cfg d now later ev (sys_db g)\<rparr>)"
    by (rule transactions_system_steps[OF process_claimed_event_runs[OF assms(2,3)]])
  with reachable_steps[OF assms(1)] show ?thesis by blast
qed

section \<open>A plan with a failed skill\<close>

definition failed_body :: gateway_event where
  "failed_body = \<lparr>ev_id = ''evt-end'', ev_session = ''room'', ev_generation = 1, ev_sequence = 4,
     ev_state_version = 1, ev_lease = None, ev_occurred_at = 950,
     ev_payload = Finished_skill ''dec-1'' ''call-1'' ''scene_tornado'' (T_failed ''internal_failed'' ''busy'' True)\<rparr>"

definition failed_ev :: claimed_event where
  "failed_ev = working_ev\<lparr>ce_seq := 4, ce_body := failed_body\<rparr>"

definition bound_decision :: decision_row where
  "bound_decision = \<lparr>d_id = 3, d_tenant = 7, d_cycle = 1, d_source = 2, d_tracking = None, d_gateway = ''gw'',
     d_session = ''room'', d_decision_id = ''dec-1'', d_lease = ''lease-1'', d_gen = 1, d_state_version = 1,
     d_lease_expires = None, d_action = A_call_skill, d_body = JObj [(''skillName'', JStr ''scene_tornado'')],
     d_bytes = ''body'', d_hash = ''hash'', d_status = D_accepted, d_attempts = 1, d_next_at = 1000,
     d_claim = no_claim, d_response = no_response, d_error = (None, None),
     d_binding = Some \<lparr>ab_plan_id = ''p1'', ab_version = 1, ab_step_id = ''a'', ab_phase = ''arrival''\<rparr>,
     d_capacity = None, d_usage = no_usage, d_created_at = 1000, d_sent_at = None, d_completed_at = None\<rparr>"

definition planned_cycle :: "activity_plan \<Rightarrow> cycle_row" where
  "planned_cycle p = \<lparr>c_id = 1, c_tenant = 7, c_runtime = 0, c_gateway = ''gw'', c_session = ''room'', c_gen = 1,
     c_status = C_active, c_next = 4, c_state_version = Some 1, c_lease = Some ''lease-1'',
     c_context = Some (JObj []),
     c_activity = \<lparr>ac_plan = Some p, ac_version = pl_version p, ac_last_event = None, ac_last_sequence = Some 3\<rparr>,
     c_started_at = Some 2000, c_stopped_at = None\<rparr>"

definition planned_db :: "activity_plan \<Rightarrow> db" where
  "planned_db p = sample_working\<lparr>cycles := [planned_cycle p], decisions := [bound_decision]\<rparr>"

lemma sample_plan_facts:
  "pl_status sample_plan = P_active" "pl_current sample_plan = Some ''a''" "pl_id sample_plan = ''p1''"
  by code_simp+

lemma planned_begins:
  assumes "validate_activity_plan p = Inr p"
  shows "begin_activity failed_ev (planned_db p) = Inr (planned_cycle p, Some p)"
  by (simp add: begin_activity_def LOCK_CYCLE_FOR_ACTIVITY_def event_join_def planned_db_def sample_working_def
      planned_cycle_def failed_ev_def working_ev_def one_or_none.simps validate_activity_claim_def load_plan_def assms)

theorem retried_failure_counts_twice_witness:
  "\<exists>t u q' st'. record_activity_finished failed_ev (planned_db sample_plan) = Inr (True, t) \<and>
    record_activity_finished failed_ev t = Inr (True, with_activity failed_ev q' t) \<and>
    st' \<in> set (pl_steps q') \<and> st_id st' = ''a'' \<and> st_status st' = St_skipped"
proof -
  have keys: "keys_ok (planned_db sample_plan)"
    by (rule keys_okI) (simp add: ids_below_def id_lists_def planned_db_def planned_cycle_def bound_decision_def
        sample_working_def empty_db_def)
  have begun: "begin_activity failed_ev (planned_db sample_plan) = Inr (planned_cycle sample_plan, Some sample_plan)"
    by (rule planned_begins[OF plan_inv_loadable[OF sample_plan_inv]])
  have bound: "bound_to_current failed_ev (payload_decision_id (ev_payload (ce_body failed_ev)))
      (planned_db sample_plan) sample_plan ''a''"
    by (simp add: bound_to_current_def sample_plan_facts SELECT_DECISION_BINDING_def planned_db_def
        bound_decision_def failed_ev_def failed_body_def working_ev_def one_or_none.simps)
  have failed: "finished_note (ce_body failed_ev) = Note_ended False True False"
    by (simp add: finished_note_def failed_ev_def failed_body_def should_retry_activity_failure_def)
  have hit: "writable failed_ev (planned_cycle sample_plan)"
    by (simp add: writable_def planned_cycle_def activity_event_new_def failed_ev_def)
  have step: "current_step sample_plan = Inr (projr (current_step sample_plan))" by (rule Inr_projr) code_simp
  have st: "st_skill (projr (current_step sample_plan)) \<noteq> None"
    "1 \<le> next_attempts (projr (current_step sample_plan))"
    "next_attempts (projr (current_step sample_plan)) < st_max_attempts (projr (current_step sample_plan))"
    by code_simp+
  from retried_failure_counts_twice[OF keys begun sample_plan_inv bound failed hit step st]
  show ?thesis by (elim exE conjE) (intro exI conjI)
qed

theorem report_moves_current_step_witness:
  "\<exists>t c q. record_terminal_event failed_ev (Note_ended True False False) ''dec-1'' (planned_db sample_plan) = Inr (True, t) \<and>
    (t = planned_db sample_plan \<or> writable failed_ev c \<and> t = with_activity failed_ev q (planned_db sample_plan))"
proof -
  have keys: "keys_ok (planned_db sample_plan)"
    by (rule keys_okI) (simp add: ids_below_def id_lists_def planned_db_def planned_cycle_def bound_decision_def
        sample_working_def empty_db_def)
  have begun: "begin_activity failed_ev (planned_db sample_plan) = Inr (planned_cycle sample_plan, Some sample_plan)"
    by (rule planned_begins[OF plan_inv_loadable[OF sample_plan_inv]])
  have bound: "bound_to_current failed_ev ''dec-1'' (planned_db sample_plan) sample_plan ''a''"
    by (simp add: bound_to_current_def sample_plan_facts SELECT_DECISION_BINDING_def planned_db_def
        bound_decision_def failed_ev_def working_ev_def one_or_none.simps)
  have hit: "writable failed_ev (planned_cycle sample_plan)"
    by (simp add: writable_def planned_cycle_def activity_event_new_def failed_ev_def)
  have "\<not> isl (apply_note (Note_ended True False False) sample_plan ''a'')" by code_simp
  then obtain q where note_ok: "apply_note (Note_ended True False False) sample_plan ''a'' = Inr q"
    by (cases "apply_note (Note_ended True False False) sample_plan ''a''") simp_all
  obtain t where run: "record_terminal_event failed_ev (Note_ended True False False) ''dec-1'' (planned_db sample_plan) = Inr (True, t)"
    using record_bound[OF begun bound, of "Note_ended True False False"]
      write_state_writable[OF keys begun_cycle(1,2)[OF begun] hit] by (simp add: note_ok)
  from report_moves_current_step[OF keys run]
  have "t = planned_db sample_plan \<or> (\<exists>c q. writable failed_ev c \<and> t = with_activity failed_ev q (planned_db sample_plan))"
    by (elim conjE disjE exE) (rule disjI1, assumption, intro disjI2 exI conjI)
  with run show ?thesis by metis
qed

section \<open>A poisoned plan\<close>

text \<open>Each step was started once more than its attempts allow.\<close>

definition poisoned_plan :: activity_plan where
  "poisoned_plan = sample_plan\<lparr>pl_steps := map (\<lambda>s. s\<lparr>st_status := St_started, st_attempts := st_max_attempts s + 1\<rparr>)
     (pl_steps sample_plan)\<rparr>"

definition poisoned_state :: system where
  "poisoned_state = \<lparr>sys_db = planned_db poisoned_plan, sys_events = {}, sys_decisions = {}\<rparr>"

definition sample_dispatcher :: dispatcher where
  "sample_dispatcher = \<lparr>dp_chat = None, dp_activity = True, dp_payload = (\<lambda>_. JObj []),
     dp_planner = (\<lambda>ev ctx s. case plan_decision 2060 sample_config sample_freeze ''dec-1'' ev ctx sample_action None s of
        (Inr _, t) \<Rightarrow> (Planned succeeded, t) | (Inl _, t) \<Rightarrow> (Planner_failed, t))\<rparr>"

lemma planned_db_ok: "db_ok (planned_db p)"
proof -
  have "keys_ok (planned_db p)"
    by (rule keys_okI) (simp add: ids_below_def id_lists_def planned_db_def planned_cycle_def bound_decision_def
        sample_working_def empty_db_def)
  moreover have "refs_ok (planned_db p)" "unique_keys (planned_db p)" "call_links (planned_db p)"
    "one_sending (planned_db p)" "plans_ok (planned_db p)"
    by (simp_all add: refs_ok_def unique_keys_def call_links_def one_sending_def plans_ok_def version_kept_def
        planned_db_def planned_cycle_def bound_decision_def sample_working_def empty_db_def)
  moreover have "claims_ok (planned_db p)"
    by (simp add: claims_ok_def tokens_ok_def event_claims_def decision_claims_def claims_of_def
        planned_db_def bound_decision_def sample_working_def empty_db_def no_claim_def)
  ultimately show ?thesis by (simp add: db_ok_def)
qed


section \<open>A planner that plans\<close>

lemma sample_planner_runs: "ev \<in> E \<Longrightarrow> runs E D (dp_planner sample_dispatcher ev ctx)"
  unfolding runs_def
proof
  fix s assume ev: "ev \<in> E"
  obtain p t where run: "plan_decision 2060 sample_config sample_freeze ''dec-1'' ev ctx sample_action None s = (p, t)"
    by (cases "plan_decision 2060 sample_config sample_freeze ''dec-1'' ev ctx sample_action None s")
  then have "snd (dp_planner sample_dispatcher ev ctx s) = t"
    by (simp add: sample_dispatcher_def split: sum.split)
  with plan[OF ev run] show "transactions E D s (snd (dp_planner sample_dispatcher ev ctx s))" by auto
qed

definition sample_worker :: worker_config where
  "sample_worker = \<lparr>wc_worker_id = ''w1'', wc_poll_interval_ms = 100, wc_claim_ttl_ms = 500, wc_max_attempts = 5,
     wc_retry_base_ms = 100, wc_retry_max_ms = 1000, wc_max_parallelism = 4,
     wc_session_idle_timeout = None, wc_event_stale_after = None\<rparr>"

text \<open>The session start of the run is processed by a worker with that planner.\<close>

definition run_claimed_state :: system where
  "run_claimed_state = \<lparr>sys_db = sample_claimed, sys_events = {sample_ev}, sys_decisions = {}\<rparr>"

lemma run_claimed_reachable: "reachable run_claimed_state"
proof -
  have "system_step run_admitted_state run_claimed_state"
    using claimed_event[of no_locks 2000 "''w1''" 500 5 run_admitted_state] sample_claim_result
    by (simp add: run_admitted_state_def run_claimed_state_def handed_out_def)
  then show ?thesis using reachable_steps[OF run_admitted_reachable] by blast
qed

theorem processing_is_a_run_witness:
  "reachable (run_claimed_state\<lparr>sys_db := process_claimed_event sample_worker sample_dispatcher 2050 2100 sample_ev sample_claimed\<rparr>)"
  using processing_is_a_run[OF run_claimed_reachable, of sample_ev sample_dispatcher sample_worker 2050 2100]
    sample_planner_runs[of sample_ev "sys_events run_claimed_state"]
  by (simp add: run_claimed_state_def)

section \<open>An answer\<close>

definition sample_wire_decision :: wire_decision where
  "sample_wire_decision = Call_skill_decision
     \<lparr>db_trace = ''trace'', db_session = ''room'', db_decision = ''dec-1'', db_lease = ''lease-1'', db_state_version = 1,
      db_generation = 1, db_ttl = 30000\<rparr> ''dance'' ''v1'' (Fz_proxy [(''score'', Fz_int 80)])"

definition sample_answer_json :: json where
  "sample_answer_json = JObj
     [(''accepted'', JBool True), (''status'', JStr ''accepted''), (''traceId'', JStr ''trace''),
      (''sessionId'', JStr ''room''), (''decisionId'', JStr ''dec-1''), (''controlGeneration'', JInt 1),
      (''skillCallId'', JStr ''call-1''), (''stateVersion'', JInt 1), (''nextDecisionLeaseId'', JNull),
      (''reason'', JStr ''ok'')]"

definition sample_post :: "string \<Rightarrow> exchange" where
  "sample_post raw = Answered 200 (dumps sample_answer_json)"

definition sample_request_identity :: "string \<Rightarrow> json option" where
  "sample_request_identity = map_of (identity_of sample_wire_decision)"

definition sample_result :: decision_result where
  "sample_result = \<lparr>dr_client = \<lparr>cr_http = 200, cr_status = R_accepted, cr_reason = ''ok'', cr_call_id = Some ''call-1'',
       cr_body = Some sample_answer_json\<rparr>, dr_trace = Some ''trace'', dr_session = Some ''room'', dr_decision = Some ''dec-1'',
     dr_lease = Some ''lease-1'', dr_generation = 1, dr_state_version = 1\<rparr>"

lemma sample_exchange:
  "send_decision sample_post A_call_skill (canonical_json_bytes (dump_decision sample_wire_decision)) = Inr sample_result"
proof -
  have "wf_json (dump_decision sample_wire_decision)" by code_simp
  note i = request_identity_of_decision[OF this, folded sample_request_identity_def]
  have "wf_json sample_answer_json" by code_simp
  note j = json_loads_dumps[OF this]
  have "validate_decision_response A_call_skill 200 sample_answer_json (Some sample_request_identity) = Inr sample_result"
    by code_simp
  then show ?thesis by (simp add: send_decision_def sample_post_def i j)
qed

theorem answer_belongs_to_request_witness:
  "dr_generation sample_result = 1 \<and> dr_lease sample_result = Some ''lease-1'' \<and> cr_http (dr_client sample_result) < 300"
proof -
  have "wf_json (dump_decision sample_wire_decision)" by code_simp
  from answer_belongs_to_request[OF this sample_exchange]
  show ?thesis by (simp add: sample_result_def sample_wire_decision_def)
qed

section \<open>A poll\<close>

definition run_planned_state :: system where
  "run_planned_state = \<lparr>sys_db = run_planned, sys_events = {sample_ev}, sys_decisions = {}\<rparr>"

lemma run_planned_reachable: "reachable run_planned_state"
proof -
  have "system_step run_claimed_state \<lparr>sys_db = sample_leased, sys_events = {sample_ev}, sys_decisions = {}\<rparr>"
    unfolding run_claimed_state_def by (rule system_step_to, rule lease[OF _ sample_leased_result]) simp
  moreover have "system_step \<dots> run_planned_state"
    unfolding run_planned_state_def run_planned_def by (rule system_step_to, rule plan[OF _ surjective_pairing]) simp
  ultimately show ?thesis using reachable_steps[OF run_claimed_reachable] by (meson converse_rtranclp_into_rtranclp r_into_rtranclp)
qed

definition sample_poll :: "(db_error + nat) \<times> db" where
  "sample_poll = run_decisions_once sample_worker True (\<lambda>_. False) 2070 (\<lambda>_. False)
     (\<lambda>_. Send_returned (Inr sample_result)) run_planned"

theorem decision_poll_is_a_run_witness:
  "\<exists>cds. reachable (grows run_planned_state cds (snd sample_poll))"
proof -
  have "run_decisions_once sample_worker True (\<lambda>_. False) 2070 (\<lambda>_. False) (\<lambda>_. Send_returned (Inr sample_result))
      (sys_db run_planned_state) = (fst sample_poll, snd sample_poll)"
    by (simp add: run_planned_state_def sample_poll_def)
  from decision_poll_is_a_run[OF run_planned_reachable this] show ?thesis by blast
qed

end
