(* ===== verification/EventService.thy ===== *)
theory EventService
  imports WireFacts AdmissionFacts
begin

text \<open>
  The service behind the events endpoint (\<open>event_service.py\<close>: \<open>EventService.accept_event_batch\<close>): the
  batch size, the admission slot, the repository and the acknowledgement.  The slot is free or not
  (\<open>Limiter\<close>); the audit records and the log are left out.
\<close>

datatype service_error = Batch_invalid | Content_conflict | Service_unavailable | Ack_invalid

definition batch_size_ok :: "int option \<Rightarrow> nat \<Rightarrow> bool" where
  "batch_size_ok limit n = (case limit of None \<Rightarrow> True | Some m \<Rightarrow> 1 \<le> m \<and> int n \<le> m)"

fun admission_failure :: "admission_error \<Rightarrow> service_error" where
  "admission_failure (Event_Admission_Conflict _) = Content_conflict"
| "admission_failure _ = Service_unavailable"

text \<open>The ids of the batch in the order of their first occurrence, split as the repository answered.\<close>

fun first_occurrences :: "string list \<Rightarrow> string list" where
  "first_occurrences [] = []"
| "first_occurrences (i # is) = i # filter (\<lambda>j. j \<noteq> i) (first_occurrences is)"

definition acknowledge :: "batch_envelope \<Rightarrow> batch_acceptance \<Rightarrow> batch_ack option" where
  "acknowledge env acc =
     (let ids = first_occurrences (map (eh_id \<circ> event_head_of) (be_events env));
          received = set (ba_received acc);
          duplicate = set (ba_duplicates acc) - received in
      parse_ack (JObj
        [(''accepted'', JBool True), (''traceId'', JStr (be_trace env)),
         (''receivedEventIds'', JArr (map JStr (filter (\<lambda>i. i \<in> received) ids))),
         (''duplicateEventIds'', JArr (map JStr (filter (\<lambda>i. i \<in> duplicate) ids)))]))"

definition accept_service ::
  "int option \<Rightarrow> bool \<Rightarrow> (string \<Rightarrow> gateway_event \<Rightarrow> string) \<Rightarrow> msec option \<Rightarrow> msec \<Rightarrow> identity \<Rightarrow> batch_envelope \<Rightarrow> db \<Rightarrow>
   (service_error + batch_ack) \<times> db" where
  "accept_service max_batch overloaded H stale now who env s =
     (if \<not> batch_size_ok max_batch (length (be_events env)) then (Inl Batch_invalid, s)
      else if overloaded then (Inl Service_unavailable, s)
      else case accept_event_batch H stale now who (be_trace env) (map to_gateway_event (be_events env)) s of
        Inl er \<Rightarrow> (Inl (admission_failure er), s)
      | Inr (acc, t) \<Rightarrow>
          (case acknowledge env acc of None \<Rightarrow> (Inl Ack_invalid, t) | Some ack \<Rightarrow> (Inr ack, t)))"

section \<open>The acknowledgement\<close>

lemma set_first_occurrences [simp]: "set (first_occurrences is) = set is"
  by (induction "is") auto

lemma distinct_first_occurrences [simp]: "distinct (first_occurrences is)"
  by (induction "is") auto

lemma acknowledge_valid:
  assumes "envelope_ok num env"
  shows "\<exists>ack. acknowledge env acc = Some ack \<and> ak_trace ack = be_trace env \<and>
    ak_received ack = filter (\<lambda>i. i \<in> set (ba_received acc))
      (first_occurrences (map (eh_id \<circ> event_head_of) (be_events env))) \<and>
    ak_duplicates ack = filter (\<lambda>i. i \<in> set (ba_duplicates acc) - set (ba_received acc))
      (first_occurrences (map (eh_id \<circ> event_head_of) (be_events env)))"
proof -
  let ?ids = "first_occurrences (map (eh_id \<circ> event_head_of) (be_events env))"
  let ?ack = "\<lparr>ak_trace = be_trace env, ak_received = filter (\<lambda>i. i \<in> set (ba_received acc)) ?ids,
    ak_duplicates = filter (\<lambda>i. i \<in> set (ba_duplicates acc) - set (ba_received acc)) ?ids\<rparr>"
  have "text_ok (Some 128) (eh_id (event_head_of e))" if "wire_event_ok num e" for e
    using that by (cases e) (simp_all add: head_ok_def)
  with assms have "list_all (text_ok (Some 128)) ?ids" by (auto simp: envelope_ok_def list_all_iff)
  then have "ack_ok ?ack"
    using assms by (auto simp: ack_ok_def envelope_ok_def list_all_iff validate_event_ids_def)
  from ack_back[OF this] show ?thesis by (intro exI[of _ ?ack]) (simp add: acknowledge_def dump_ack_def Let_def)
qed

text \<open>
  C23: the acknowledgement tells the gateway the truth.  A batch that parsed and that the repository admits is
  always acknowledged; the acknowledgement lists every event id of the batch exactly once, as
  received when no event with that id was stored before and as duplicate when one was.
\<close>

theorem acknowledgement_is_exact:
  assumes num: "stable_number num" and env: "parse_envelope num v = Some env" and uniq: "identities_distinct s"
    and size: "batch_size_ok max_batch (length (be_events env))"
    and acc: "accept_event_batch H stale now who (be_trace env) (map to_gateway_event (be_events env)) s = Inr (acc, t)"
  shows "\<exists>ack. accept_service max_batch False H stale now who env s = (Inr ack, t) \<and> ak_trace ack = be_trace env \<and>
    distinct (ak_received ack @ ak_duplicates ack) \<and>
    set (ak_received ack @ ak_duplicates ack) = eh_id ` event_head_of ` set (be_events env) \<and>
    set (ak_received ack) = {i \<in> eh_id ` event_head_of ` set (be_events env). event_log (id_gateway who) s i = None}"
proof -
  obtain ack where ack: "acknowledge env acc = Some ack" "ak_trace ack = be_trace env"
    "ak_received ack = filter (\<lambda>i. i \<in> set (ba_received acc))
      (first_occurrences (map (eh_id \<circ> event_head_of) (be_events env)))"
    "ak_duplicates ack = filter (\<lambda>i. i \<in> set (ba_duplicates acc) - set (ba_received acc))
      (first_occurrences (map (eh_id \<circ> event_head_of) (be_events env)))"
    using acknowledge_valid[OF parse_envelope_ok[OF num env], of acc] by blast
  have ids: "ev_id ` set (map to_gateway_event (be_events env)) = eh_id ` event_head_of ` set (be_events env)"
    by (simp add: image_image)
  note part = acceptance_partition(1,2)[OF acc uniq, unfolded ids]
  have "accept_service max_batch False H stale now who env s = (Inr ack, t)"
    by (simp add: accept_service_def size acc ack(1))
  moreover have "set (ak_received ack) = {i \<in> eh_id ` event_head_of ` set (be_events env). event_log (id_gateway who) s i = None}"
    using part by (auto simp: ack(3))
  moreover have "set (ak_duplicates ack) = {i \<in> eh_id ` event_head_of ` set (be_events env). event_log (id_gateway who) s i \<noteq> None}"
    using part by (auto simp: ack(4))
  moreover have "distinct (ak_received ack)" "distinct (ak_duplicates ack)" by (simp_all add: ack(3,4))
  ultimately show ?thesis using ack(2) by (intro exI[of _ ack]) auto
qed

end
