(* ===== verification/WireProperties.thy ===== *)
theory WireProperties
  imports EventService
begin

text \<open>The properties of the wire contract, and a batch to apply them to.\<close>

section \<open>The properties\<close>


text \<open>
  C21: a stored event reads back.  The JSON dump of an event that was validated, which is what the inbox
  stores, is validated to the same event again when a worker claims it, and the terminal of a
  finished skill can be computed from it.
\<close>

theorem stored_event_reads_back:
  assumes "stable_number num" and "parse_gateway_v2_event num v = Some e"
  shows "parse_gateway_v2_event num (dump_event e) = Some e \<and>
    (case e of Controlled h c (P_skill_finished p) \<Rightarrow> terminal p \<noteq> None | _ \<Rightarrow> True)"
proof -
  have ok: "wire_event_ok num e" by (rule parse_event_ok[OF assms])
  have "terminal p \<noteq> None" if "e = Controlled h c (P_skill_finished p)" for h c p
    using ok that terminal_of_finished[of p] by simp
  then show ?thesis using event_back[OF ok] by (auto split: wire_event.split controlled_payload.split)
qed

section \<open>A batch\<close>

definition sample_number :: number_field where
  "sample_number x = (case x of Some (JInt i) \<Rightarrow> if 0 \<le> i then Some (JInt i) else None | _ \<Rightarrow> None)"

lemma sample_number_stable: "stable_number sample_number"
  by (auto simp: stable_number_def sample_number_def split: option.splits json.splits if_splits)

definition sample_head :: "string \<Rightarrow> string option \<Rightarrow> event_head" where
  "sample_head i lease = \<lparr>eh_id = i, eh_session = ''room'', eh_state_version = 0, eh_lease = lease, eh_occurred = 900\<rparr>"

definition sample_lease_context :: lease_context where
  "sample_lease_context = \<lparr>dl_session = ''room'', dl_generation = 1, dl_lease = ''lease-1'', dl_state_version = 0,
     dl_kind = ''observation'', dl_actions = [A_call_skill, A_wait], dl_skill = Some ''dance'', dl_skills = [''dance''],
     dl_parent = None\<rparr>"

definition sample_decision_context :: decision_context where
  "sample_decision_context = \<lparr>dc_session = Fz_proxy [(''AccountId'', Fz_str ''acc''), (''Seats'', Fz_tuple [Fz_int 1, Fz_none])],
     dc_skills = [\<lparr>as_name = ''dance'', as_schema = ''v1'', as_running = True, as_cooldown = 0, as_exposure = None\<rparr>],
     dc_hints = [], dc_last_result = None\<rparr>"

definition sample_start_event :: wire_event where
  "sample_start_event = Controlled (sample_head ''evt-1'' (Some ''lease-1'')) \<lparr>ec_generation = 1, ec_sequence = 1\<rparr>
     (P_session_started \<lparr>ss_reason = ''start'', ss_lease = sample_lease_context, ss_context = sample_decision_context\<rparr>)"

definition sample_finished_event :: wire_event where
  "sample_finished_event = Controlled (sample_head ''evt-2'' None) \<lparr>ec_generation = 1, ec_sequence = 2\<rparr>
     (P_skill_finished \<lparr>fp_decision = ''d-1'', fp_call = ''c-1'', fp_skill = ''dance'', fp_status = Ts_failed,
       fp_reason = ''busy'', fp_category = Some ''transport_failed'', fp_retryable = True, fp_started = 10,
       fp_finished = 20, fp_lease = None, fp_context = None\<rparr>)"

definition sample_envelope :: batch_envelope where
  "sample_envelope = \<lparr>be_trace = ''trace'', be_gateway = ''gw'', be_sent_at = 950,
     be_events = [sample_finished_event, sample_start_event, sample_finished_event]\<rparr>"

lemma sample_events_ok: "wire_event_ok num sample_start_event" "wire_event_ok num sample_finished_event"
  unfolding sample_start_event_def sample_finished_event_def wire_event_ok.simps by code_simp+

lemma sample_envelope_ok: "envelope_ok num sample_envelope"
proof -
  have "text_ok (Some 128) ''trace'' \<and> text_ok (Some 128) ''gw'' \<and> int_ok (Some 0) 950" by code_simp
  then show ?thesis by (simp add: envelope_ok_def sample_envelope_def sample_events_ok)
qed


theorem stored_event_reads_back_witness:
  "parse_gateway_v2_event sample_number (dump_event sample_finished_event) = Some sample_finished_event"
  using stored_event_reads_back[OF sample_number_stable event_back[OF sample_events_ok(2)]] by blast

definition sample_acceptance :: "batch_acceptance \<times> db" where
  "sample_acceptance = projr (accept_event_batch sample_hash None 1000 sample_who ''trace''
     (map to_gateway_event (be_events sample_envelope)) empty_db)"

lemma sample_acceptance_result:
  "accept_event_batch sample_hash None 1000 sample_who (be_trace sample_envelope)
     (map to_gateway_event (be_events sample_envelope)) empty_db = Inr (fst sample_acceptance, snd sample_acceptance)"
proof -
  have "\<not> isl (accept_event_batch sample_hash None 1000 sample_who (be_trace sample_envelope)
     (map to_gateway_event (be_events sample_envelope)) empty_db)" by code_simp
  moreover have "be_trace sample_envelope = ''trace''" by (simp add: sample_envelope_def)
  ultimately show ?thesis by (simp add: sample_acceptance_def Inr_projr[symmetric])
qed

theorem acknowledgement_is_exact_witness:
  "\<exists>ack. set (ak_received ack) = {''evt-1'', ''evt-2''} \<and> fst (accept_service (Some 3) False sample_hash None 1000 sample_who
     sample_envelope empty_db) = Inr ack"
proof -
  have heads: "eh_id ` event_head_of ` set (be_events sample_envelope) = {''evt-1'', ''evt-2''}"
    by (auto simp: sample_envelope_def sample_start_event_def sample_finished_event_def sample_head_def)
  have "batch_size_ok (Some 3) (length (be_events sample_envelope))"
    by (simp add: batch_size_ok_def sample_envelope_def)
  from acknowledgement_is_exact[OF sample_number_stable envelope_back[OF sample_envelope_ok] identities_distinct_empty
      this sample_acceptance_result] obtain ack where
    "accept_service (Some 3) False sample_hash None 1000 sample_who sample_envelope empty_db = (Inr ack, snd sample_acceptance)"
    "set (ak_received ack) = {i \<in> {''evt-1'', ''evt-2''}. event_log (id_gateway sample_who) empty_db i = None}"
    unfolding heads by blast
  moreover have "event_log g empty_db i = None" for g i by (simp add: event_log_def SELECT_ONE_def empty_db_def)
  ultimately show ?thesis by auto
qed

end
