(* ===== verification/GatewayAuth.thy ===== *)
theory GatewayAuth
  imports InboxAdmission CanonicalFacts
begin

text \<open>
  Signed requests (\<open>auth.py\<close>): the check of an inbound request, the identity its gateway stands for and the
  headers of an outbound request.  \<open>hashlib.sha256\<close> and \<open>hmac.new\<close> with their \<open>hexdigest\<close> are the
  parameters \<open>sha\<close> and \<open>mac\<close>, \<open>UUID\<close> of a text is \<open>uuid_of\<close>.  Arguments have the types of their
  annotations, so the \<open>isinstance\<close> checks of them are left out; those of the settings, which the code reads
  by \<open>getattr\<close>, are kept.  The names of headers are ASCII, as HTTP has it.
\<close>

section \<open>Errors and settings\<close>

datatype auth_code =
    Auth_header_invalid
  | Auth_timestamp_invalid
  | Signature_invalid
  | App_id_unknown
  | Gateway_not_authorized
  | Tenant_not_configured

text \<open>The code and the HTTP status.\<close>

type_synonym auth_error = "auth_code \<times> int"

abbreviation header_invalid :: auth_error where "header_invalid \<equiv> (Auth_header_invalid, 400)"

datatype tenant_value = Tenant_uuid uuid | Tenant_text string | Tenant_other

text \<open>\<open>None\<close> stands for a setting, a secret or an allowlist that is missing or of another type.\<close>

record gateway_settings =
  gs_tolerance :: "int option"
  gs_gateways :: "(string \<rightharpoonup> string list option) option"
  gs_secrets :: "(string \<rightharpoonup> string option) option"
  gs_tenants :: "(string \<rightharpoonup> tenant_value) option"

section \<open>Parts of a request\<close>

definition ascii_letter :: "char \<Rightarrow> bool" where
  "ascii_letter c \<longleftrightarrow> 65 \<le> code c \<and> code c \<le> 90 \<or> 97 \<le> code c \<and> code c \<le> 122"

definition METHOD_TOKEN_PATTERN :: "string \<Rightarrow> bool" where
  "METHOD_TOKEN_PATTERN s \<longleftrightarrow> s \<noteq> [] \<and>
     list_all (\<lambda>c. c \<in> set ''!#$%&*+-.^_`|~'' \<or> code c = 39 \<or> digit c \<or> ascii_letter c) s"

definition IDENTIFIER_PATTERN :: "string \<Rightarrow> bool" where
  "IDENTIFIER_PATTERN s \<longleftrightarrow> s \<noteq> [] \<and> length s \<le> 128 \<and>
     list_all (\<lambda>c. ascii_letter c \<or> digit c \<or> c \<in> set ''._:-'') s"

definition LOWERCASE_SHA256_PATTERN :: "string \<Rightarrow> bool" where
  "LOWERCASE_SHA256_PATTERN s \<longleftrightarrow> length s = 64 \<and>
     list_all (\<lambda>c. digit c \<or> 97 \<le> code c \<and> code c \<le> 102) s"

definition TIMESTAMP_PATTERN :: "string \<Rightarrow> bool" where
  "TIMESTAMP_PATTERN s \<longleftrightarrow> s \<noteq> [] \<and> length s \<le> 20 \<and> list_all digit s"

definition MAX_TIMESTAMP_MS :: int where "MAX_TIMESTAMP_MS = 99999999999999999999"

definition REQUIRED_HEADERS :: "string list" where
  "REQUIRED_HEADERS = [''x-appid'', ''x-timestampms'', ''x-requestid'', ''x-signature'']"

definition validate_request_components :: "string \<Rightarrow> string \<Rightarrow> bool" where
  "validate_request_components method path \<longleftrightarrow> METHOD_TOKEN_PATTERN method \<and>
     path \<noteq> [] \<and> hd path = CHR ''/'' \<and> list_all (\<lambda>c. code c \<noteq> 13 \<and> code c \<noteq> 10) path"

definition validate_non_negative_timestamp :: "int \<Rightarrow> bool" where
  "validate_non_negative_timestamp t \<longleftrightarrow> 0 \<le> t \<and> t \<le> MAX_TIMESTAMP_MS"

text \<open>The headers by their names in lower case; \<open>None\<close> when a name comes twice or one is missing.\<close>

definition normalize_headers :: "(string \<times> string) list \<Rightarrow> (string \<rightharpoonup> string) option" where
  "normalize_headers headers =
     (let normalized = map (\<lambda>(name, v). (map lower_char name, v)) headers in
      if distinct (map fst normalized) \<and> list_all (\<lambda>n. n \<in> set (map fst normalized)) REQUIRED_HEADERS
      then Some (map_of normalized) else None)"

definition parse_timestamp :: "string \<Rightarrow> int option" where
  "parse_timestamp s = (if TIMESTAMP_PATTERN s then Some (int (fst (parse_digits 0 s))) else None)"

definition secret_text :: "string option \<Rightarrow> string option" where
  "secret_text s = (case s of None \<Rightarrow> None | Some t \<Rightarrow> if t = [] then None else Some t)"

text \<open>\<open>str.upper\<close> of a method, which is ASCII.\<close>

definition upper_char :: "char \<Rightarrow> char" where
  "upper_char c = (if 97 \<le> code c \<and> code c \<le> 122 then char_of (code c - 32) else c)"

definition signing_text :: "(string \<Rightarrow> string) \<Rightarrow> string \<Rightarrow> string \<Rightarrow> string \<Rightarrow> string \<Rightarrow> string \<Rightarrow> string" where
  "signing_text sha method path body request_id timestamp =
     join (char_of (10 :: nat)) [map upper_char method, path, timestamp, request_id, sha body]"

definition build_signature ::
  "(string \<Rightarrow> string) \<Rightarrow> (string \<Rightarrow> string \<Rightarrow> string) \<Rightarrow> string \<Rightarrow> string \<Rightarrow> string \<Rightarrow> string \<Rightarrow> string \<Rightarrow> string \<Rightarrow> string" where
  "build_signature sha mac method path body secret request_id timestamp =
     mac secret (signing_text sha method path body request_id timestamp)"

section \<open>Inbound\<close>

text \<open>The secret of an application that is known.\<close>

definition app_secret :: "gateway_settings \<Rightarrow> string \<Rightarrow> string option" where
  "app_secret cfg app =
     (case gs_gateways cfg of None \<Rightarrow> None
      | Some gateways \<Rightarrow>
          if gateways app = None then None
          else (case gs_secrets cfg of None \<Rightarrow> None
                | Some secrets \<Rightarrow> secret_text (Option.bind (secrets app) id)))"

definition verify_inbound_hmac ::
  "(string \<Rightarrow> string) \<Rightarrow> (string \<Rightarrow> string \<Rightarrow> string) \<Rightarrow> gateway_settings \<Rightarrow> string \<Rightarrow> string \<Rightarrow> string \<Rightarrow>
   (string \<times> string) list \<Rightarrow> int \<Rightarrow> auth_error + string" where
  "verify_inbound_hmac sha mac cfg method path body headers now =
     (if \<not> validate_request_components method path then Inl header_invalid
      else if \<not> validate_non_negative_timestamp now then Inl (Auth_timestamp_invalid, 400)
      else case normalize_headers headers of None \<Rightarrow> Inl header_invalid
      | Some h \<Rightarrow>
          (let app = the (h ''x-appid''); request_id = the (h ''x-requestid'');
               signature = the (h ''x-signature''); timestamp = the (h ''x-timestampms'') in
           if \<not> IDENTIFIER_PATTERN app \<or> \<not> IDENTIFIER_PATTERN request_id \<or> \<not> LOWERCASE_SHA256_PATTERN signature
           then Inl header_invalid
           else case parse_timestamp timestamp of None \<Rightarrow> Inl (Auth_timestamp_invalid, 400)
           | Some t \<Rightarrow>
               (case gs_tolerance cfg of None \<Rightarrow> Inl (Auth_timestamp_invalid, 400)
                | Some tolerance \<Rightarrow>
                    if tolerance < 0 then Inl (Auth_timestamp_invalid, 400)
                    else if tolerance < \<bar>now - t\<bar> then Inl (Auth_timestamp_invalid, 401)
                    else (case app_secret cfg app of None \<Rightarrow> Inl (App_id_unknown, 401)
                          | Some secret \<Rightarrow>
                              if signature \<noteq> build_signature sha mac method path body secret request_id timestamp
                              then Inl (Signature_invalid, 401) else Inr app))))"

text \<open>\<open>InboundGatewayIdentity\<close>: the identity the inbox works with and the application.\<close>

record inbound_identity = identity +
  id_app :: string

definition tenant_of :: "(string \<Rightarrow> uuid option) \<Rightarrow> tenant_value option \<Rightarrow> uuid option" where
  "tenant_of uuid_of v =
     (case v of Some (Tenant_uuid u) \<Rightarrow> Some u | Some (Tenant_text s) \<Rightarrow> uuid_of s | _ \<Rightarrow> None)"

definition resolve_inbound_identity ::
  "(string \<Rightarrow> uuid option) \<Rightarrow> gateway_settings \<Rightarrow> string \<Rightarrow> string \<Rightarrow> auth_error + inbound_identity" where
  "resolve_inbound_identity uuid_of cfg app gateway =
     (case (case gs_gateways cfg of None \<Rightarrow> None | Some gateways \<Rightarrow> gateways app) of
        None \<Rightarrow> Inl (App_id_unknown, 401)
      | Some allowed \<Rightarrow>
          (if (case allowed of None \<Rightarrow> True | Some ids \<Rightarrow> gateway \<notin> set ids) then Inl (Gateway_not_authorized, 401)
           else case gs_tenants cfg of None \<Rightarrow> Inl (Tenant_not_configured, 400)
           | Some tenants \<Rightarrow>
               (case tenant_of uuid_of (tenants gateway) of None \<Rightarrow> Inl (Tenant_not_configured, 400)
                | Some tenant \<Rightarrow> Inr \<lparr>id_tenant = tenant, id_gateway = gateway, id_app = app\<rparr>)))"

section \<open>Outbound\<close>

definition build_outbound_hmac_headers ::
  "(string \<Rightarrow> string) \<Rightarrow> (string \<Rightarrow> string \<Rightarrow> string) \<Rightarrow> string \<Rightarrow> string \<Rightarrow> string \<Rightarrow> string \<Rightarrow> string \<Rightarrow> string \<Rightarrow> int \<Rightarrow>
   auth_error + (string \<times> string) list" where
  "build_outbound_hmac_headers sha mac method path body app secret request_id t =
     (if \<not> validate_request_components method path \<or> \<not> IDENTIFIER_PATTERN app \<or> \<not> IDENTIFIER_PATTERN request_id
      then Inl header_invalid
      else if \<not> validate_non_negative_timestamp t then Inl (Auth_timestamp_invalid, 400)
      else case secret_text (Some secret) of None \<Rightarrow> Inl header_invalid
      | Some text \<Rightarrow> Inr
          [(''Content-Type'', ''application/json''), (''X-AppId'', app), (''X-TimestampMs'', int_str t),
           (''X-RequestId'', request_id),
           (''X-Signature'', build_signature sha mac method path body text request_id (int_str t))])"

section \<open>What a signature stands for\<close>

text \<open>
  A request is genuine for an application when a fresh timestamp, the request id and the body are signed
  with the secret of that application, which is known.
\<close>

definition genuine ::
  "(string \<Rightarrow> string) \<Rightarrow> (string \<Rightarrow> string \<Rightarrow> string) \<Rightarrow> gateway_settings \<Rightarrow> string \<Rightarrow> string \<Rightarrow> string \<Rightarrow>
   (string \<rightharpoonup> string) \<Rightarrow> int \<Rightarrow> string \<Rightarrow> bool" where
  "genuine sha mac cfg method path body h now app \<longleftrightarrow> h ''x-appid'' = Some app \<and>
     (\<exists>secret request_id timestamp t tolerance. app_secret cfg app = Some secret \<and>
        h ''x-requestid'' = Some request_id \<and> h ''x-timestampms'' = Some timestamp \<and>
        parse_timestamp timestamp = Some t \<and> gs_tolerance cfg = Some tolerance \<and> \<bar>now - t\<bar> \<le> tolerance \<and>
        h ''x-signature'' = Some (build_signature sha mac method path body secret request_id timestamp))"

lemma normalized_required:
  assumes "normalize_headers headers = Some h"
  shows "\<exists>v. h ''x-appid'' = Some v" "\<exists>v. h ''x-requestid'' = Some v" "\<exists>v. h ''x-signature'' = Some v"
    "\<exists>v. h ''x-timestampms'' = Some v"
proof -
  define kvs where "kvs = map (\<lambda>(name, v). (map lower_char name, v)) headers"
  from assms have h: "h = map_of kvs" and "\<forall>n \<in> set REQUIRED_HEADERS. n \<in> fst ` set kvs"
    by (simp_all add: normalize_headers_def Let_def list_all_iff kvs_def split: if_splits)
  then have "\<exists>v. h n = Some v" if "n \<in> set REQUIRED_HEADERS" for n
    using that domD[of n "map_of kvs"] by (simp add: dom_map_of_conv_image_fst)
  from this[of "''x-appid''"] this[of "''x-requestid''"] this[of "''x-signature''"] this[of "''x-timestampms''"]
  show "\<exists>v. h ''x-appid'' = Some v" "\<exists>v. h ''x-requestid'' = Some v" "\<exists>v. h ''x-signature'' = Some v"
    "\<exists>v. h ''x-timestampms'' = Some v"
    by (simp_all add: REQUIRED_HEADERS_def)
qed

lemma verify_iff:
  "verify_inbound_hmac sha mac cfg method path body headers now = Inr app \<longleftrightarrow>
   validate_request_components method path \<and> validate_non_negative_timestamp now \<and>
   (\<exists>h. normalize_headers headers = Some h \<and> IDENTIFIER_PATTERN (the (h ''x-appid'')) \<and>
      IDENTIFIER_PATTERN (the (h ''x-requestid'')) \<and> LOWERCASE_SHA256_PATTERN (the (h ''x-signature'')) \<and>
      genuine sha mac cfg method path body h now app)" (is "?l = ?r")
proof (cases "normalize_headers headers")
  case None
  then show ?thesis by (simp add: verify_inbound_hmac_def)
next
  case (Some h)
  from normalized_required[OF this] obtain a r s ts where
    h: "h ''x-appid'' = Some a" "h ''x-requestid'' = Some r" "h ''x-signature'' = Some s" "h ''x-timestampms'' = Some ts"
    by blast
  let ?s = "\<lambda>x. build_signature sha mac method path body x r ts"
  have genuine: "genuine sha mac cfg method path body h now app \<longleftrightarrow> a = app \<and>
    (\<exists>secret t tolerance. app_secret cfg app = Some secret \<and> parse_timestamp ts = Some t \<and>
       gs_tolerance cfg = Some tolerance \<and> \<bar>now - t\<bar> \<le> tolerance \<and> s = ?s secret)"
    by (simp add: genuine_def h)
  show ?thesis
  proof (cases "parse_timestamp ts = None \<or> gs_tolerance cfg = None \<or> app_secret cfg a = None")
    case True
    then have "\<not> genuine sha mac cfg method path body h now app" by (auto simp: genuine)
    moreover have "\<not> ?l"
      using True by (elim disjE) (simp_all add: verify_inbound_hmac_def Let_def Some h split: option.split)
    ultimately show ?thesis using Some by simp
  next
    case False
    then obtain t tol x where e: "parse_timestamp ts = Some t" "gs_tolerance cfg = Some tol" "app_secret cfg a = Some x"
      by auto
    let ?ok = "validate_request_components method path \<and> validate_non_negative_timestamp now \<and>
      IDENTIFIER_PATTERN a \<and> IDENTIFIER_PATTERN r \<and> LOWERCASE_SHA256_PATTERN s"
    have "?l \<longleftrightarrow> ?ok \<and> 0 \<le> tol \<and> \<bar>now - t\<bar> \<le> tol \<and> s = ?s x \<and> a = app"
      by (auto simp: verify_inbound_hmac_def Let_def Some h e not_less)
    moreover have "genuine sha mac cfg method path body h now app \<longleftrightarrow> \<bar>now - t\<bar> \<le> tol \<and> s = ?s x \<and> a = app"
      unfolding genuine using e by (cases "a = app") simp_all
    moreover have "\<bar>now - t\<bar> \<le> tol \<Longrightarrow> 0 \<le> tol" by linarith
    ultimately show ?thesis using Some h by auto
  qed
qed

section \<open>What is sent is accepted\<close>

lemma nat_str_bound: "1 \<le> k \<Longrightarrow> n < 10 ^ k \<Longrightarrow> length (nat_str n) \<le> k"
proof (induction n arbitrary: k rule: less_induct)
  case (less n)
  show ?case
  proof (cases "n < 10")
    case True
    with less.prems show ?thesis by (simp add: nat_str.simps)
  next
    case False
    with less.prems obtain j where k: "k = Suc j" "1 \<le> j" by (cases k; cases "k - 1") auto
    with less.prems(2) have "n div 10 < 10 ^ j" by (simp add: less_mult_imp_div_less mult.commute)
    from less.IH[OF _ k(2) this] False k show ?thesis by (subst nat_str.simps) simp
  qed
qed

lemma nat_str_digits: "list_all digit (nat_str n)"
proof (induction n rule: less_induct)
  case (less n)
  then show ?case by (subst nat_str.simps) (simp add: digit_digit_char)
qed

lemma parse_timestamp_int_str:
  assumes "validate_non_negative_timestamp t"
  shows "parse_timestamp (int_str t) = Some t"
proof -
  have t: "0 \<le> t" "nat t < 10 ^ 20"
    using assms by (simp_all add: validate_non_negative_timestamp_def MAX_TIMESTAMP_MS_def nat_less_iff)
  have "nat_str (nat t) \<noteq> []" using nat_str_first[of "nat t"] by auto
  moreover have "length (nat_str (nat t)) \<le> 20" by (rule nat_str_bound[OF _ t(2)]) simp
  moreover have "parse_digits 0 (nat_str (nat t)) = (nat t, [])"
    using parse_digits_nat_str[of 0 "nat t" "[]"] by (simp add: digit_shift_0)
  ultimately show ?thesis
    using t(1) by (simp add: parse_timestamp_def TIMESTAMP_PATTERN_def int_str_def nat_str_digits)
qed

text \<open>
  C25: what one side signs the other accepts.  The headers the client builds for a request pass the check
  of a receiver that knows the application under the same secret and whose clock is within its tolerance,
  and the timestamp they carry is the one the request was signed at.
\<close>

theorem outbound_headers_verify:
  assumes built: "build_outbound_hmac_headers sha mac method path body app secret request_id t = Inr headers"
    and hex: "\<And>k m. LOWERCASE_SHA256_PATTERN (mac k m)"
    and known: "app_secret cfg app = Some secret" and tolerance: "gs_tolerance cfg = Some tolerance"
    and clock: "validate_non_negative_timestamp now" "\<bar>now - t\<bar> \<le> tolerance"
  shows "verify_inbound_hmac sha mac cfg method path body headers now = Inr app \<and>
    Option.bind (map_of headers ''X-TimestampMs'') parse_timestamp = Some t"
proof -
  from built have ok: "validate_request_components method path" "IDENTIFIER_PATTERN app"
    "IDENTIFIER_PATTERN request_id" "validate_non_negative_timestamp t" and secret: "secret \<noteq> []"
    and headers: "headers =
      [(''Content-Type'', ''application/json''), (''X-AppId'', app), (''X-TimestampMs'', int_str t),
       (''X-RequestId'', request_id),
       (''X-Signature'', build_signature sha mac method path body secret request_id (int_str t))]"
    by (auto simp: build_outbound_hmac_headers_def secret_text_def split: if_splits)
  define h where "h = map_of (map (\<lambda>(name, v). (map lower_char name, v)) headers)"
  have lower: "map lower_char ''Content-Type'' = ''content-type''" "map lower_char ''X-AppId'' = ''x-appid''"
    "map lower_char ''X-TimestampMs'' = ''x-timestampms''" "map lower_char ''X-RequestId'' = ''x-requestid''"
    "map lower_char ''X-Signature'' = ''x-signature''" by code_simp+
  have names: "map (\<lambda>(name, v). (map lower_char name, v)) headers =
      [(''content-type'', ''application/json''), (''x-appid'', app), (''x-timestampms'', int_str t),
       (''x-requestid'', request_id),
       (''x-signature'', build_signature sha mac method path body secret request_id (int_str t))]"
    unfolding headers list.map(2)[where f = "\<lambda>(name, v). (map lower_char name, v)"] prod.case lower by simp
  have "normalize_headers headers = Some h"
    unfolding normalize_headers_def h_def Let_def names by (simp add: REQUIRED_HEADERS_def)
  moreover have "h ''x-appid'' = Some app" "h ''x-timestampms'' = Some (int_str t)" "h ''x-requestid'' = Some request_id"
    "h ''x-signature'' = Some (build_signature sha mac method path body secret request_id (int_str t))"
    unfolding h_def names by simp_all
  moreover have "LOWERCASE_SHA256_PATTERN (build_signature sha mac method path body secret request_id (int_str t))"
    by (simp add: build_signature_def hex)
  ultimately have "verify_inbound_hmac sha mac cfg method path body headers now = Inr app"
    using ok clock known tolerance parse_timestamp_int_str[OF ok(4)]
    by (auto simp: verify_iff genuine_def)
  moreover have "map_of headers ''X-TimestampMs'' = Some (int_str t)" by (simp add: headers)
  ultimately show ?thesis using parse_timestamp_int_str[OF ok(4)] by simp
qed

definition sample_settings :: gateway_settings where
  "sample_settings = \<lparr>gs_tolerance = Some 300000,
     gs_gateways = Some [''game'' \<mapsto> Some [''gw'']], gs_secrets = Some [''game'' \<mapsto> Some ''key''],
     gs_tenants = Some [''gw'' \<mapsto> Tenant_uuid 7]\<rparr>"

definition sample_hex :: "string \<Rightarrow> string \<Rightarrow> string" where
  "sample_hex k m = replicate 64 (CHR ''a'')"

lemma outbound_headers_verify_witness:
  "\<exists>headers. build_outbound_hmac_headers id sample_hex ''POST'' ''/events'' ''{}'' ''game'' ''key'' ''r-1'' 1000 = Inr headers \<and>
     verify_inbound_hmac id sample_hex sample_settings ''POST'' ''/events'' ''{}'' headers 301000 = Inr ''game''"
proof -
  let ?headers = "[(''Content-Type'', ''application/json''), (''X-AppId'', ''game''), (''X-TimestampMs'', int_str 1000),
    (''X-RequestId'', ''r-1''),
    (''X-Signature'', build_signature id sample_hex ''POST'' ''/events'' ''{}'' ''key'' ''r-1'' (int_str 1000))]"
  have built: "build_outbound_hmac_headers id sample_hex ''POST'' ''/events'' ''{}'' ''game'' ''key'' ''r-1'' 1000 = Inr ?headers"
    by (simp add: build_outbound_hmac_headers_def validate_request_components_def METHOD_TOKEN_PATTERN_def
        IDENTIFIER_PATTERN_def ascii_letter_def digit_def validate_non_negative_timestamp_def MAX_TIMESTAMP_MS_def secret_text_def)
  have "verify_inbound_hmac id sample_hex sample_settings ''POST'' ''/events'' ''{}'' ?headers 301000 = Inr ''game''"
    by (rule conjunct1[OF outbound_headers_verify[where tolerance = 300000, OF built]])
      (simp_all add: sample_hex_def LOWERCASE_SHA256_PATTERN_def digit_def list_all_iff sample_settings_def app_secret_def
        secret_text_def validate_non_negative_timestamp_def MAX_TIMESTAMP_MS_def)
  with built show ?thesis by blast
qed

end
