(* ===== verification/GatewaySettings.thy ===== *)
theory GatewaySettings
  imports GatewayAuth PlanRuntime
begin

text \<open>
  The settings of the gateway (\<open>config.py\<close>): the validators of \<open>Settings\<close> that concern it and the view
  \<open>auth.py\<close> has of a validated object.  Durations in seconds are floating point numbers in the code and
  milliseconds here; the bounds of the single fields are not repeated.
\<close>

record settings =
  sg_enabled :: bool
  sg_gateways :: "(string \<times> string list) list"
  sg_secrets :: "(string \<times> string) list"
  sg_tenants :: "(string \<times> string) list"
  sg_tolerance :: int
  sg_decision_url :: "string option"
  sg_decision_app :: "string option"
  sg_decision_secret :: "string option"
  sg_retry_base :: msec
  sg_retry_max :: msec
  sg_safety_window :: msec
  sg_lease_ttl :: msec
  sg_stale_after :: msec
  sg_idle_timeout :: msec
  sg_decision_target :: msec
  sg_force_action :: "string option"
  sg_force_skills :: "string list"

datatype settings_error =
    Retry_order | Window_order | Stale_order | Force_exclusive | Target_order
  | No_app | Empty_app | No_secret string | No_allowlist string | Empty_gateway string
  | No_tenant string | Bad_tenant string
  | No_decision_url | No_decision_app | Decision_app_shared | No_decision_secret | Decision_secret_shared
  | Skills_not_a_list | Skills_duplicate | Skills_unsupported "string list" | Action_unsupported

section \<open>Field validators\<close>

text \<open>\<open>str.split\<close> at commas.\<close>

fun split_commas :: "string \<Rightarrow> string list" where
  "split_commas [] = [[]]"
| "split_commas (c # cs) =
     (case split_commas cs of
        [] \<Rightarrow> [[c]]
      | part # parts \<Rightarrow> if c = CHR '','' then [] # part # parts else (c # part) # parts)"

text \<open>What is given for the forced skills: nothing, a text, a list (its items as text) or something else.\<close>

datatype raw_skills = Skills_none | Skills_text string | Skills_list "string list" | Skills_other

definition named_skills :: "string list \<Rightarrow> string list" where
  "named_skills items = filter (\<lambda>s. s \<noteq> []) (map py_strip items)"

definition parse_force_skills :: "raw_skills \<Rightarrow> settings_error + string list" where
  "parse_force_skills v =
     (case v of
        Skills_none \<Rightarrow> Inr []
      | Skills_other \<Rightarrow> Inl Skills_not_a_list
      | _ \<Rightarrow>
          (let skills = named_skills (case v of Skills_text s \<Rightarrow> split_commas s | Skills_list xs \<Rightarrow> xs | _ \<Rightarrow> []);
               unknown = filter (\<lambda>s. s \<notin> set CANONICAL_NON_CHAT_SKILLS) skills in
           if \<not> distinct skills then Inl Skills_duplicate
           else if unknown \<noteq> [] then Inl (Skills_unsupported unknown) else Inr skills))"

definition parse_force_action :: "string option \<Rightarrow> settings_error + string option" where
  "parse_force_action v =
     (case v of None \<Rightarrow> Inr None
      | Some s \<Rightarrow> if py_strip s = [] then Inr None else if s \<noteq> ''wait'' then Inl Action_unsupported else Inr (Some s))"

section \<open>The model validator\<close>

text \<open>The first \<open>raise\<close> of a loop.\<close>

fun first_error :: "'e option list \<Rightarrow> 'e option" where
  "first_error [] = None"
| "first_error (None # es) = first_error es"
| "first_error (Some e # es) = Some e"

definition check_gateway ::
  "(string \<Rightarrow> uuid option) \<Rightarrow> settings \<Rightarrow> string \<Rightarrow> string \<Rightarrow> settings_error option" where
  "check_gateway uuid_of st app gateway =
     (if py_strip gateway = [] then Some (Empty_gateway app)
      else case map_of (sg_tenants st) gateway of
        None \<Rightarrow> Some (No_tenant gateway)
      | Some tenant \<Rightarrow>
          if py_strip tenant = [] then Some (No_tenant gateway)
          else if uuid_of tenant = None then Some (Bad_tenant gateway) else None)"

definition check_app :: "(string \<Rightarrow> uuid option) \<Rightarrow> settings \<Rightarrow> string \<times> string list \<Rightarrow> settings_error option" where
  "check_app uuid_of st = (\<lambda>(app, ids).
     if py_strip app = [] then Some Empty_app
     else if (case map_of (sg_secrets st) app of None \<Rightarrow> True | Some s \<Rightarrow> py_strip s = []) then Some (No_secret app)
     else if ids = [] then Some (No_allowlist app)
     else first_error (map (check_gateway uuid_of st app) ids))"

definition blank_option :: "string option \<Rightarrow> bool" where
  "blank_option v \<longleftrightarrow> (case v of None \<Rightarrow> True | Some s \<Rightarrow> py_strip s = [])"

definition validate_llm_gateway_v2 :: "(string \<Rightarrow> uuid option) \<Rightarrow> settings \<Rightarrow> settings_error + settings" where
  "validate_llm_gateway_v2 uuid_of st =
     (if sg_retry_max st < sg_retry_base st then Inl Retry_order
      else if sg_lease_ttl st \<le> sg_safety_window st then Inl Window_order
      else if sg_idle_timeout st < sg_stale_after st then Inl Stale_order
      else if sg_force_action st \<noteq> None \<and> sg_force_skills st \<noteq> [] then Inl Force_exclusive
      else if sg_lease_ttl st \<le> sg_decision_target st + sg_safety_window st then Inl Target_order
      else if \<not> sg_enabled st then Inr st
      else if sg_gateways st = [] then Inl No_app
      else case first_error (map (check_app uuid_of st) (sg_gateways st)) of
        Some er \<Rightarrow> Inl er
      | None \<Rightarrow>
          (let apps = map fst (sg_gateways st) in
           if blank_option (sg_decision_url st) then Inl No_decision_url
           else if blank_option (sg_decision_app st) then Inl No_decision_app
           else if the (sg_decision_app st) \<in> set apps then Inl Decision_app_shared
           else if blank_option (sg_decision_secret st) then Inl No_decision_secret
           else if the (sg_decision_secret st) \<in> set (map (\<lambda>a. the (map_of (sg_secrets st) a)) apps)
           then Inl Decision_secret_shared
           else Inr st))"

text \<open>What \<open>auth.py\<close> reads.\<close>

definition auth_settings :: "settings \<Rightarrow> gateway_settings" where
  "auth_settings st = \<lparr>gs_tolerance = Some (sg_tolerance st),
     gs_gateways = Some (\<lambda>a. map_option Some (map_of (sg_gateways st) a)),
     gs_secrets = Some (\<lambda>a. map_option Some (map_of (sg_secrets st) a)),
     gs_tenants = Some (\<lambda>g. map_option Tenant_text (map_of (sg_tenants st) g))\<rparr>"

section \<open>What validated settings give\<close>

lemma first_error_None: "first_error es = None \<longleftrightarrow> (\<forall>e \<in> set es. e = None)"
  by (induction es rule: first_error.induct) auto

lemma bind_known [simp]: "Option.bind (map_option Some x) id = x"
  by (cases x) simp_all

lemma validated_parts:
  assumes "validate_llm_gateway_v2 uuid_of st = Inr st'" and "sg_enabled st"
  shows "st' = st" and "app \<in> set (sg_gateways st) \<Longrightarrow> check_app uuid_of st app = None"
    and "sg_decision_app st \<notin> Some ` fst ` set (sg_gateways st)"
    and "app \<in> set (sg_gateways st) \<Longrightarrow> sg_decision_secret st \<noteq> map_of (sg_secrets st) (fst app)"
proof -
  from assms have p: "st' = st" "first_error (map (check_app uuid_of st) (sg_gateways st)) = None"
    "\<not> blank_option (sg_decision_app st)" "the (sg_decision_app st) \<notin> set (map fst (sg_gateways st))"
    "\<not> blank_option (sg_decision_secret st)"
    "the (sg_decision_secret st) \<notin> set (map (\<lambda>a. the (map_of (sg_secrets st) a)) (map fst (sg_gateways st)))"
    by (auto simp: validate_llm_gateway_v2_def Let_def split: if_splits option.splits)
  show "st' = st" by (rule p(1))
  show checked: "check_app uuid_of st app = None" if "app \<in> set (sg_gateways st)" for app
    using p(2) that by (simp add: first_error_None)
  show "sg_decision_app st \<notin> Some ` fst ` set (sg_gateways st)"
    using p(3,4) by (auto simp: blank_option_def split: option.splits)
  show "sg_decision_secret st \<noteq> map_of (sg_secrets st) (fst app)" if a: "app \<in> set (sg_gateways st)" for app
  proof
    assume same: "sg_decision_secret st = map_of (sg_secrets st) (fst app)"
    then have "the (sg_decision_secret st) = the (map_of (sg_secrets st) (fst app))" by simp
    with a p(6) show False by auto
  qed
qed

lemma check_appD:
  assumes "check_app uuid_of st (app, ids) = None"
  shows "\<exists>s. map_of (sg_secrets st) app = Some s \<and> s \<noteq> []"
    and "g \<in> set ids \<Longrightarrow> \<exists>tenant. map_of (sg_tenants st) g = Some tenant \<and> uuid_of tenant \<noteq> None"
proof -
  from assms have checked: "\<forall>g \<in> set ids. check_gateway uuid_of st app g = None"
    by (auto simp: check_app_def first_error_None split: if_splits)
  show "\<exists>tenant. map_of (sg_tenants st) g = Some tenant \<and> uuid_of tenant \<noteq> None" if "g \<in> set ids"
    using bspec[OF checked that]
    by (cases "map_of (sg_tenants st) g") (auto simp: check_gateway_def split: if_splits)
  from assms show "\<exists>s. map_of (sg_secrets st) app = Some s \<and> s \<noteq> []"
    by (auto simp: check_app_def py_strip_def split: if_splits option.splits)
qed

text \<open>
  Validated settings keep the two directions apart and leave no allowed gateway without a tenant.  When
  the integration is enabled and its settings were accepted, every gateway in the allowlist of an
  application resolves to an identity with a tenant and the application has a secret; and a request that
  verifies is never from the application id, nor signed with the secret, of the own outbound requests.
\<close>

theorem accepted_settings_resolve:
  assumes valid: "validate_llm_gateway_v2 uuid_of st = Inr st" and on: "sg_enabled st"
    and keys: "distinct (map fst (sg_gateways st))"
  shows "(\<forall>(app, ids) \<in> set (sg_gateways st). app_secret (auth_settings st) app \<noteq> None \<and>
      (\<forall>g \<in> set ids. \<exists>tenant. resolve_inbound_identity uuid_of (auth_settings st) app g =
         Inr \<lparr>id_tenant = tenant, id_gateway = g, id_app = app\<rparr>)) \<and>
    (verify_inbound_hmac sha mac (auth_settings st) method path body headers now = Inr app \<longrightarrow>
      sg_decision_app st \<noteq> Some app \<and> sg_decision_secret st \<noteq> app_secret (auth_settings st) app)"
proof (intro conjI impI ballI)
  note parts = validated_parts[OF valid on]
  fix entry assume e: "entry \<in> set (sg_gateways st)"
  obtain app ids where [simp]: "entry = (app, ids)" by (cases entry)
  note ok = check_appD[OF parts(2)[OF e[simplified]]]
  have listed: "map_of (sg_gateways st) app = Some ids" using e keys by simp
  have "\<exists>tenant. resolve_inbound_identity uuid_of (auth_settings st) app g =
      Inr \<lparr>id_tenant = tenant, id_gateway = g, id_app = app\<rparr>" if "g \<in> set ids" for g
    using ok(2)[OF that] that listed by (auto simp: resolve_inbound_identity_def auth_settings_def tenant_of_def)
  moreover have "app_secret (auth_settings st) app \<noteq> None"
    using ok(1) listed by (auto simp: app_secret_def auth_settings_def secret_text_def)
  ultimately show "case entry of (app, ids) \<Rightarrow> app_secret (auth_settings st) app \<noteq> None \<and>
      (\<forall>g \<in> set ids. \<exists>tenant. resolve_inbound_identity uuid_of (auth_settings st) app g =
         Inr \<lparr>id_tenant = tenant, id_gateway = g, id_app = app\<rparr>)" by simp
next
  note parts = validated_parts[OF valid on]
  assume "verify_inbound_hmac sha mac (auth_settings st) method path body headers now = Inr app"
  then obtain secret where s: "app_secret (auth_settings st) app = Some secret"
    by (auto simp: verify_iff genuine_def)
  then obtain ids where "map_of (sg_gateways st) app = Some ids" "map_of (sg_secrets st) app = Some secret"
    by (auto simp: app_secret_def auth_settings_def secret_text_def split: if_splits option.splits)
  then have e: "(app, ids) \<in> set (sg_gateways st)" "map_of (sg_secrets st) app = Some secret"
    by (simp_all add: map_of_SomeD)
  show "sg_decision_app st \<noteq> Some app" using parts(3) e(1) by force
  show "sg_decision_secret st \<noteq> app_secret (auth_settings st) app" using parts(4)[OF e(1)] e(2) s by simp
qed

definition sample_gateway :: settings where
  "sample_gateway = \<lparr>sg_enabled = True, sg_gateways = [(''game'', [''gw''])], sg_secrets = [(''game'', ''key'')],
     sg_tenants = [(''gw'', ''t'')], sg_tolerance = 300000, sg_decision_url = Some ''u'', sg_decision_app = Some ''out'',
     sg_decision_secret = Some ''other'', sg_retry_base = 1000, sg_retry_max = 300000, sg_safety_window = 5000,
     sg_lease_ttl = 600000, sg_stale_after = 480000, sg_idle_timeout = 600000, sg_decision_target = 55000,
     sg_force_action = None, sg_force_skills = []\<rparr>"

lemma accepted_settings_resolve_witness:
  "resolve_inbound_identity (\<lambda>_. Some 7) (auth_settings sample_gateway) ''game'' ''gw'' =
     Inr \<lparr>id_tenant = 7, id_gateway = ''gw'', id_app = ''game''\<rparr> \<and>
   app_secret (auth_settings sample_gateway) ''game'' \<noteq> None"
proof -
  have "validate_llm_gateway_v2 (\<lambda>_. Some 7) sample_gateway = Inr sample_gateway"
    by (simp add: validate_llm_gateway_v2_def sample_gateway_def check_app_def check_gateway_def blank_option_def
        py_strip_def is_ws_def)
  from accepted_settings_resolve[OF this, of id sample_hex "''POST''" "''/''" "[]" "[]" 0 "''game''"]
  have "app_secret (auth_settings sample_gateway) ''game'' \<noteq> None" by (simp add: sample_gateway_def)
  moreover have "resolve_inbound_identity (\<lambda>_. Some 7) (auth_settings sample_gateway) ''game'' ''gw'' =
      Inr \<lparr>id_tenant = 7, id_gateway = ''gw'', id_app = ''game''\<rparr>"
    by (simp add: resolve_inbound_identity_def auth_settings_def sample_gateway_def tenant_of_def)
  ultimately show ?thesis by blast
qed

end
