(* ===== verification/EventEndpoint.thy ===== *)
theory EventEndpoint
  imports WireProperties GatewaySettings
begin

text \<open>
  The events endpoint (\<open>routes/gateway_v2.py\<close>: \<open>receive_events\<close>): the signature, the content type, the
  envelope, the identity of its gateway, the batch size and the switch, and what the service answers as an
  HTTP response.  \<open>json.loads\<close> is the parameter \<open>loads\<close>, since the JSON of the model has no floating point
  numbers; metrics and the log are left out.
\<close>

text \<open>
  What \<open>json.loads\<close> makes of a body: a value, a \<open>JSONDecodeError\<close> or \<open>UnicodeDecodeError\<close>, or an error the
  endpoint does not catch (a \<open>ValueError\<close> for an integer of more than 4,300 digits, a \<open>RecursionError\<close>).
\<close>

datatype decoded_body = Body json | Body_invalid | Body_raised

datatype http_answer = Ack batch_ack | Http_error int string string

fun auth_text :: "auth_code \<Rightarrow> string" where
  "auth_text Auth_header_invalid = ''auth_header_invalid''"
| "auth_text Auth_timestamp_invalid = ''auth_timestamp_invalid''"
| "auth_text Signature_invalid = ''signature_invalid''"
| "auth_text App_id_unknown = ''app_id_unknown''"
| "auth_text Gateway_not_authorized = ''gateway_not_authorized''"
| "auth_text Tenant_not_configured = ''tenant_not_configured''"

fun AUTH_MESSAGES :: "auth_code \<Rightarrow> string" where
  "AUTH_MESSAGES Auth_header_invalid = ''authentication headers invalid''"
| "AUTH_MESSAGES Auth_timestamp_invalid = ''authentication timestamp invalid''"
| "AUTH_MESSAGES Signature_invalid = ''request signature invalid''"
| "AUTH_MESSAGES App_id_unknown = ''application not authorized''"
| "AUTH_MESSAGES Gateway_not_authorized = ''gateway not authorized''"
| "AUTH_MESSAGES Tenant_not_configured = ''gateway tenant not configured''"

definition auth_answer :: "auth_error \<Rightarrow> http_answer" where
  "auth_answer er = Http_error (snd er) (auth_text (fst er)) (AUTH_MESSAGES (fst er))"

definition bad_request :: http_answer where
  "bad_request = Http_error 400 ''bad_request'' ''bad request''"

fun service_answer :: "service_error + batch_ack \<Rightarrow> http_answer" where
  "service_answer (Inr ack) = Ack ack"
| "service_answer (Inl Batch_invalid) = bad_request"
| "service_answer (Inl Content_conflict) =
     Http_error 409 ''event_content_conflict'' ''event content conflicts with stored event''"
| "service_answer (Inl Service_unavailable) = Http_error 503 ''service_unavailable'' ''service unavailable''"
| "service_answer (Inl Ack_invalid) = Http_error 500 ''internal_error'' ''internal error''"

text \<open>The media type: \<open>headers.get("content-type", "").split(";", 1)[0].strip().lower()\<close>.\<close>

definition media_type :: "(string \<times> string) list \<Rightarrow> string" where
  "media_type headers =
     (let v = (case map_of (map (\<lambda>(name, v). (map lower_char name, v)) headers) ''content-type'' of
                 None \<Rightarrow> [] | Some v \<Rightarrow> v) in
      map lower_char (py_strip (takeWhile (\<lambda>c. c \<noteq> CHR '';'') v)))"

record http_request =
  rq_method :: string
  rq_path :: string
  rq_body :: string
  rq_headers :: "(string \<times> string) list"

record endpoint =
  ep_sha :: "string \<Rightarrow> string"
  ep_mac :: "string \<Rightarrow> string \<Rightarrow> string"
  ep_loads :: "string \<Rightarrow> decoded_body"
  ep_uuid :: "string \<Rightarrow> uuid option"
  ep_number :: number_field
  ep_hash :: "string \<Rightarrow> gateway_event \<Rightarrow> string"
  ep_auth :: gateway_settings
  ep_enabled :: bool
  ep_max_batch :: int
  ep_stale_after :: "msec option"

text \<open>The envelope and the identity of a request, or the answer that refuses it.\<close>

definition admit_request ::
  "endpoint \<Rightarrow> msec \<Rightarrow> http_request \<Rightarrow> http_answer + inbound_identity \<times> batch_envelope" where
  "admit_request ep now rq =
     (case verify_inbound_hmac (ep_sha ep) (ep_mac ep) (ep_auth ep) (rq_method rq) (rq_path rq) (rq_body rq)
             (rq_headers rq) now of
        Inl er \<Rightarrow> Inl (auth_answer er)
      | Inr app \<Rightarrow>
          if media_type (rq_headers rq) \<noteq> ''application/json'' then Inl bad_request
          else (case ep_loads ep (rq_body rq) of
             Body_invalid \<Rightarrow> Inl bad_request
           | Body_raised \<Rightarrow> Inl (Http_error 500 [] [])
           | Body v \<Rightarrow>
               (case parse_envelope (ep_number ep) v of None \<Rightarrow> Inl bad_request
                | Some env \<Rightarrow>
                    (case resolve_inbound_identity (ep_uuid ep) (ep_auth ep) app (be_gateway env) of
                       Inl er \<Rightarrow> Inl (auth_answer er)
                     | Inr who \<Rightarrow>
                         if ep_max_batch ep < int (length (be_events env)) then Inl bad_request
                         else if \<not> ep_enabled ep then Inl (Http_error 503 ''service_disabled'' ''service disabled'')
                         else Inr (who, env)))))"

text \<open>
  \<open>overloaded\<close> says whether the wait for an admission slot ran out.  An error nothing catches is answered by
  the framework (status 500, without the body of the gateway's errors).
\<close>

definition receive_events ::
  "endpoint \<Rightarrow> bool \<Rightarrow> msec \<Rightarrow> http_request \<Rightarrow> db \<Rightarrow> http_answer \<times> db" where
  "receive_events ep overloaded now rq s =
     (case admit_request ep now rq of
        Inl answer \<Rightarrow> (answer, s)
      | Inr (who, env) \<Rightarrow>
          (case accept_service (Some (ep_max_batch ep)) overloaded (ep_hash ep) (ep_stale_after ep) now
                  (identity.truncate who) env s of
             (r, t) \<Rightarrow> (service_answer r, t)))"

section \<open>What gets through\<close>

lemma admitted_request:
  assumes "admit_request ep now rq = Inr (who, env)"
  shows "verify_inbound_hmac (ep_sha ep) (ep_mac ep) (ep_auth ep) (rq_method rq) (rq_path rq) (rq_body rq)
      (rq_headers rq) now = Inr (id_app who)"
    and "resolve_inbound_identity (ep_uuid ep) (ep_auth ep) (id_app who) (be_gateway env) = Inr who"
    and "\<exists>v. ep_loads ep (rq_body rq) = Body v \<and> parse_envelope (ep_number ep) v = Some env"
    and "int (length (be_events env)) \<le> ep_max_batch ep" and "ep_enabled ep"
    and "media_type (rq_headers rq) = ''application/json''"
  using assms
  by (auto simp: admit_request_def resolve_inbound_identity_def
      split: sum.splits if_splits decoded_body.splits option.splits)

lemma service_outcome:
  assumes run: "accept_service lim overloaded H stale now who env s = (r, t)"
    and env: "envelope_ok num env" and changed: "t \<noteq> s \<or> r = Inr ack"
  shows "\<exists>acc ack. r = Inr ack \<and>
    accept_event_batch H stale now who (be_trace env) (map to_gateway_event (be_events env)) s = Inr (acc, t)"
proof -
  obtain ack' where "acknowledge env acc = Some (ack' acc)" for acc
    using acknowledge_valid[OF env] by metis
  then show ?thesis
    using run changed by (auto simp: accept_service_def split: if_splits sum.splits)
qed

text \<open>
  C10: only signed batches of allowed gateways reach the inbox, and what reaches it is acknowledged.  When a
  request changes the database or is answered with an acknowledgement, its body carries a fresh signature
  under the secret of a known application, the gateway its envelope names is in the allowlist of that
  application and has the tenant the events are stored under, the batch was admitted as a whole, and the
  answer is the acknowledgement; every other answer leaves the database as it was.
\<close>

theorem stored_batches_are_signed:
  assumes run: "receive_events ep overloaded now rq s = (answer, t)" and num: "stable_number (ep_number ep)"
    and through: "t \<noteq> s \<or> answer = Ack a"
  shows "ep_enabled ep \<and>
    (\<exists>h app ids tenant v env acc ack.
      normalize_headers (rq_headers rq) = Some h \<and>
      genuine (ep_sha ep) (ep_mac ep) (ep_auth ep) (rq_method rq) (rq_path rq) (rq_body rq) h now app \<and>
      ep_loads ep (rq_body rq) = Body v \<and> parse_envelope (ep_number ep) v = Some env \<and>
      Option.bind (gs_gateways (ep_auth ep)) (\<lambda>g. g app) = Some (Some ids) \<and> be_gateway env \<in> set ids \<and>
      Option.bind (gs_tenants (ep_auth ep)) (\<lambda>m. tenant_of (ep_uuid ep) (m (be_gateway env))) = Some tenant \<and>
      int (length (be_events env)) \<le> ep_max_batch ep \<and>
      accept_event_batch (ep_hash ep) (ep_stale_after ep) now \<lparr>id_tenant = tenant, id_gateway = be_gateway env\<rparr>
        (be_trace env) (map to_gateway_event (be_events env)) s = Inr (acc, t) \<and>
      answer = Ack ack)"
proof -
  from run through obtain who env where adm: "admit_request ep now rq = Inr (who, env)"
    by (auto simp: receive_events_def admit_request_def bad_request_def auth_answer_def
        split: sum.splits if_splits decoded_body.splits option.splits)
  note ok = admitted_request[OF adm]
  from ok(3) obtain v where v: "ep_loads ep (rq_body rq) = Body v" "parse_envelope (ep_number ep) v = Some env" by blast
  from run adm obtain r where r: "accept_service (Some (ep_max_batch ep)) overloaded (ep_hash ep) (ep_stale_after ep) now
      (identity.truncate who) env s = (r, t)" "answer = service_answer r"
    by (auto simp: receive_events_def split: prod.splits)
  have "t \<noteq> s \<or> r = Inr a"
    using through r(2) by (cases r rule: service_answer.cases) (auto simp: bad_request_def)
  from service_outcome[OF r(1) parse_envelope_ok[OF num v(2)] this] obtain acc ack where
    acc: "r = Inr ack" "accept_event_batch (ep_hash ep) (ep_stale_after ep) now (identity.truncate who)
      (be_trace env) (map to_gateway_event (be_events env)) s = Inr (acc, t)" by blast
  from ok(1) obtain h where h: "normalize_headers (rq_headers rq) = Some h"
    "genuine (ep_sha ep) (ep_mac ep) (ep_auth ep) (rq_method rq) (rq_path rq) (rq_body rq) h now (id_app who)"
    by (auto simp: verify_iff)
  from ok(2) obtain ids tenant where who:
    "Option.bind (gs_gateways (ep_auth ep)) (\<lambda>g. g (id_app who)) = Some (Some ids)" "be_gateway env \<in> set ids"
    "Option.bind (gs_tenants (ep_auth ep)) (\<lambda>m. tenant_of (ep_uuid ep) (m (be_gateway env))) = Some tenant"
    "who = \<lparr>id_tenant = tenant, id_gateway = be_gateway env, id_app = id_app who\<rparr>"
    by (auto simp: resolve_inbound_identity_def split: option.splits if_splits)
  from who(4) have tr: "identity.truncate who = \<lparr>id_tenant = tenant, id_gateway = be_gateway env\<rparr>"
    by (metis identity.truncate_def identity.select_convs(1,2))
  show ?thesis
    using ok(4,5) h v who(1-3) acc(2)[unfolded tr] r(2) acc(1) by (auto intro!: exI)
qed

section \<open>Witnesses\<close>

text \<open>A request that gets through the endpoint: the sample batch, signed by the sample application.\<close>

definition sample_request :: http_request where
  "sample_request = \<lparr>rq_method = ''POST'', rq_path = ''/events'', rq_body = ''{}'',
     rq_headers = [(''content-type'', ''application/json''), (''x-appid'', ''game''), (''x-timestampms'', ''1000''),
       (''x-requestid'', ''r-1''), (''x-signature'', sample_hex ''key'' [])]\<rparr>"

definition sample_endpoint :: endpoint where
  "sample_endpoint = \<lparr>ep_sha = id, ep_mac = sample_hex, ep_loads = (\<lambda>_. Body (dump_envelope sample_envelope)),
     ep_uuid = (\<lambda>_. None), ep_number = sample_number, ep_hash = sample_hash, ep_auth = sample_settings,
     ep_enabled = True, ep_max_batch = 3, ep_stale_after = None\<rparr>"

lemma sample_request_admitted:
  "admit_request sample_endpoint 1000 sample_request =
     Inr (\<lparr>id_tenant = 7, id_gateway = ''gw'', id_app = ''game''\<rparr>, sample_envelope)"
proof -
  have verified: "verify_inbound_hmac id sample_hex sample_settings ''POST'' ''/events'' ''{}'' (rq_headers sample_request) 1000 =
      Inr ''game''" by code_simp
  have type: "media_type (rq_headers sample_request) = ''application/json''" by code_simp
  have who: "resolve_inbound_identity (\<lambda>_. None) sample_settings ''game'' ''gw'' =
      Inr \<lparr>id_tenant = 7, id_gateway = ''gw'', id_app = ''game''\<rparr>" by code_simp
  have "be_gateway sample_envelope = ''gw''" "length (be_events sample_envelope) = 3"
    by (simp_all add: sample_envelope_def)
  moreover have "rq_method sample_request = ''POST''" "rq_path sample_request = ''/events''" "rq_body sample_request = ''{}''"
    by (simp_all add: sample_request_def)
  ultimately show ?thesis
    using verified type who envelope_back[OF sample_envelope_ok, of sample_number]
    by (simp add: admit_request_def sample_endpoint_def)
qed

lemma stored_batches_are_signed_witness:
  "\<exists>ack h. fst (receive_events sample_endpoint False 1000 sample_request empty_db) = Ack ack \<and>
     genuine id sample_hex sample_settings ''POST'' ''/events'' ''{}'' h 1000 ''game''"
proof -
  let ?r = "receive_events sample_endpoint False 1000 sample_request empty_db"
  have "acknowledge sample_envelope (fst sample_acceptance) \<noteq> None"
    using acknowledge_valid[OF sample_envelope_ok, of "fst sample_acceptance"] by auto
  then obtain ack where ack: "acknowledge sample_envelope (fst sample_acceptance) = Some ack" by blast
  have who: "identity.truncate \<lparr>id_tenant = 7, id_gateway = ''gw'', id_app = ''game''\<rparr> = sample_who"
    by (simp add: identity.truncate_def sample_who_def)
  have "length (be_events sample_envelope) = 3" by (simp add: sample_envelope_def)
  then have r: "?r = (Ack ack, snd sample_acceptance)"
    by (simp add: receive_events_def sample_request_admitted who accept_service_def batch_size_ok_def ack case_prod_beta
        sample_acceptance_result sample_endpoint_def[THEN arg_cong, of ep_hash]
        sample_endpoint_def[THEN arg_cong, of ep_stale_after] sample_endpoint_def[THEN arg_cong, of ep_max_batch])
  have num: "stable_number (ep_number sample_endpoint)" by (simp add: sample_endpoint_def sample_number_stable)
  from stored_batches_are_signed[OF r num, of ack] obtain h app ids where
    g: "normalize_headers (rq_headers sample_request) = Some h"
      "genuine (ep_sha sample_endpoint) (ep_mac sample_endpoint) (ep_auth sample_endpoint) (rq_method sample_request)
         (rq_path sample_request) (rq_body sample_request) h 1000 app"
    by blast
  from g(2) have "h ''x-appid'' = Some app" by (simp add: genuine_def)
  moreover have "Option.bind (normalize_headers (rq_headers sample_request)) (\<lambda>h. h ''x-appid'') = Some ''game''"
    by code_simp
  ultimately have "app = ''game''" using g(1) by simp
  with g(2) r show ?thesis by (auto simp: sample_endpoint_def sample_request_def)
qed

end
