(* ===== verification/SceneTargets.thy ===== *)
theory SceneTargets
  imports Canonical Capacity "HOL-Library.Monad_Syntax"
begin

text \<open>
  The movement targets of the scenes (\<open>scene_catalog.py\<close>) and their allocation to events
  (\<open>scene_target_allocator.py\<close>).

  The type \<open>json\<close> has whole numbers only, so coordinates are integers, which \<open>round(x, 6)\<close> leaves as they
  are.  The files of the catalog are the lists of their JSON documents; \<open>sha256\<close> is the digest of
  a text.
\<close>

section \<open>Targets\<close>

type_synonym coordinates = "int \<times> int \<times> int"

datatype target_kind = Kind_activity | Kind_trigger | Kind_shooting | Kind_navigation

record scene_target =
  tg_id :: string
  tg_scene :: int
  tg_scene_name :: string
  tg_kind :: target_kind
  tg_activity :: string
  tg_point :: string
  tg_at :: coordinates
  tg_source :: string

definition is_movement :: "scene_target \<Rightarrow> bool" where
  "is_movement t \<longleftrightarrow> tg_kind t \<in> {Kind_activity, Kind_trigger, Kind_navigation}"

definition as_arguments :: "coordinates \<Rightarrow> json" where
  "as_arguments c = (case c of (x, y, z) \<Rightarrow> JObj [(''x'', JInt x), (''y'', JInt y), (''z'', JInt z)])"

definition axis :: "json \<Rightarrow> string \<Rightarrow> string \<Rightarrow> int option" where
  "axis v lower upper = (case get_or v lower upper of Some (JInt i) \<Rightarrow> Some i | _ \<Rightarrow> None)"

definition scene_coordinates :: "json option \<Rightarrow> coordinates option" where
  "scene_coordinates v = (case v of
     Some (JObj kvs) \<Rightarrow>
       (case (axis (JObj kvs) ''x'' ''X'', axis (JObj kvs) ''y'' ''Y'', axis (JObj kvs) ''z'' ''Z'') of
          (Some x, Some y, Some z) \<Rightarrow> Some (x, y, z) | _ \<Rightarrow> None)
   | _ \<Rightarrow> None)"

lemma scene_coordinates_back: "scene_coordinates (Some (as_arguments c)) = Some c"
  by (cases c) (simp add: scene_coordinates_def as_arguments_def axis_def get_or_def)

section \<open>The catalog\<close>

text \<open>A catalog refuses two targets with one id; the targets of a scene are ordered by id.\<close>

type_synonym scene_catalog = "scene_target list"

fun repeated_target :: "string list \<Rightarrow> scene_target list \<Rightarrow> string option" where
  "repeated_target seen [] = None"
| "repeated_target seen (t # ts) =
     (if tg_id t \<in> set seen then Some (tg_id t) else repeated_target (tg_id t # seen) ts)"

definition make_catalog :: "scene_target list \<Rightarrow> string + scene_catalog" where
  "make_catalog ts = (case repeated_target [] ts of
     Some i \<Rightarrow> Inl (''duplicate scene target: '' @ i) | None \<Rightarrow> Inr ts)"

definition targets_for_scene :: "scene_catalog \<Rightarrow> int \<Rightarrow> scene_target list" where
  "targets_for_scene ts scene = sort_key tg_id (filter (\<lambda>t. tg_scene t = scene) ts)"

definition get_target :: "scene_catalog \<Rightarrow> string \<Rightarrow> scene_target option" where
  "get_target ts i = find (\<lambda>t. tg_id t = i) ts"

definition get_movement_target :: "scene_catalog \<Rightarrow> string \<Rightarrow> scene_target option" where
  "get_movement_target ts i =
     (case get_target ts i of None \<Rightarrow> None | Some t \<Rightarrow> if is_movement t then Some t else None)"

definition movement_targets_for_scene :: "scene_catalog \<Rightarrow> int \<Rightarrow> scene_target list" where
  "movement_targets_for_scene ts scene = filter is_movement (targets_for_scene ts scene)"

definition trusted_movement_target_for_coordinates :: "scene_catalog \<Rightarrow> int \<Rightarrow> json \<Rightarrow> scene_target option" where
  "trusted_movement_target_for_coordinates ts scene v =
     (case scene_coordinates (Some v) of None \<Rightarrow> None
      | Some c \<Rightarrow> find (\<lambda>t. tg_at t = c) (movement_targets_for_scene ts scene))"

text \<open>The digits at the end of a role identity, or eight bytes of its digest.\<close>

definition trailing_digits :: "string \<Rightarrow> string" where
  "trailing_digits s = rev (takeWhile digit (rev (py_strip s)))"

definition stable_role_bucket :: "(string \<Rightarrow> nat) \<Rightarrow> string \<Rightarrow> nat" where
  "stable_role_bucket first8 identity =
     (if trailing_digits identity \<noteq> [] then fst (parse_digits 0 (trailing_digits identity)) else first8 identity)"

definition recent_move_coordinates :: "json list \<Rightarrow> coordinates list" where
  "recent_move_coordinates bodies = List.map_filter (\<lambda>body.
     if json_get body ''skillName'' = Some (JStr ''move_to'')
     then scene_coordinates (case json_get body ''arguments'' of Some args \<Rightarrow> json_get args ''target'' | None \<Rightarrow> None)
     else None) bodies"

definition select_candidates ::
  "(string \<Rightarrow> nat) \<Rightarrow> scene_catalog \<Rightarrow> int \<Rightarrow> string \<Rightarrow> int \<Rightarrow> nat \<Rightarrow> json list \<Rightarrow> scene_target list" where
  "select_candidates first8 ts scene role version limit recent =
     (let targets = movement_targets_for_scene ts scene;
          visited = set (recent_move_coordinates recent);
          unvisited = filter (\<lambda>t. tg_at t \<notin> visited) targets;
          chosen = (if unvisited = [] then targets else unvisited) in
      if targets = [] then []
      else let offset = (stable_role_bucket first8 role + nat (version - 1)) mod length chosen in
        take limit (drop offset chosen @ take offset chosen))"

section \<open>Loading\<close>

text \<open>A document that is not as expected raises \<open>SceneCatalogError\<close>, which is \<open>None\<close> here.\<close>

definition require_mapping :: "json option \<Rightarrow> json option" where
  "require_mapping v = (case v of Some (JObj kvs) \<Rightarrow> Some (JObj kvs) | _ \<Rightarrow> None)"

definition require_list :: "json \<Rightarrow> string \<Rightarrow> json list option" where
  "require_list v key = (case json_get v key of Some (JArr vs) \<Rightarrow> Some vs | _ \<Rightarrow> None)"

definition require_string :: "json \<Rightarrow> string \<Rightarrow> string option" where
  "require_string v key = (case json_get v key of
     Some (JStr s) \<Rightarrow> if py_strip s = [] then None else Some (py_strip s) | _ \<Rightarrow> None)"

definition require_int :: "json \<Rightarrow> string \<Rightarrow> int option" where
  "require_int v key = (case json_get v key of Some (JInt i) \<Rightarrow> Some i | _ \<Rightarrow> None)"

definition load_each :: "(json \<Rightarrow> scene_target option) \<Rightarrow> json list \<Rightarrow> scene_target list option" where
  "load_each load vs = those (map (\<lambda>v. Option.bind (require_mapping (Some v)) load) vs)"

definition load_documents ::
  "(json \<Rightarrow> scene_target list option) \<Rightarrow> json list \<Rightarrow> scene_target list option" where
  "load_documents load docs = map_option concat (those (map (\<lambda>d. Option.bind (require_mapping (Some d)) load) docs))"

definition load_activity_points :: "json list \<Rightarrow> scene_target list option" where
  "load_activity_points = load_documents (\<lambda>doc. Option.bind (require_list doc ''points'') (load_each (\<lambda>item. do {
     scene \<leftarrow> require_int item ''sceneId'';
     activity \<leftarrow> require_string item ''activityName'';
     point \<leftarrow> require_string item ''pointKey'';
     name \<leftarrow> require_string item ''sceneName'';
     at \<leftarrow> scene_coordinates (json_get item ''target'');
     source \<leftarrow> require_string item ''sourcePath'';
     Some \<lparr>tg_id = ''scene:'' @ int_str scene @ '':activity:'' @ activity @ '':'' @ point, tg_scene = scene,
       tg_scene_name = name, tg_kind = Kind_activity, tg_activity = activity, tg_point = point, tg_at = at,
       tg_source = source\<rparr> })))"

text \<open>\<open>str\<close> of a value; the text of an array or an object is the parameter \<open>repr\<close>.\<close>

definition py_str :: "(json \<Rightarrow> string) \<Rightarrow> json \<Rightarrow> string" where
  "py_str repr v = (case v of
     JNull \<Rightarrow> ''None'' | JBool b \<Rightarrow> if b then ''True'' else ''False'' | JInt i \<Rightarrow> int_str i | JStr s \<Rightarrow> s | _ \<Rightarrow> repr v)"

definition action_kind :: "(json \<Rightarrow> string) \<Rightarrow> json \<Rightarrow> string option" where
  "action_kind repr action = (case action of
     JObj _ \<Rightarrow>
       (let kind = py_strip (case json_get action ''robotActionKind'' of None \<Rightarrow> [] | Some v \<Rightarrow> py_str repr v) in
        if kind = [] then None else Some kind)
   | _ \<Rightarrow> None)"

definition load_scene_triggers :: "(json \<Rightarrow> string) \<Rightarrow> json list \<Rightarrow> scene_target list option" where
  "load_scene_triggers repr = load_documents (\<lambda>doc. Option.bind (require_list doc ''triggers'') (load_each (\<lambda>item. do {
     scene \<leftarrow> require_int item ''sceneId'';
     trigger \<leftarrow> require_int item ''triggerId'';
     actions \<leftarrow> require_list item ''enterActions'';
     name \<leftarrow> require_string doc ''sceneName'';
     at \<leftarrow> scene_coordinates (json_get item ''triggerPosition'');
     source \<leftarrow> require_string item ''sourcePath'';
     Some \<lparr>tg_id = ''scene:'' @ int_str scene @ '':trigger:'' @ int_str trigger, tg_scene = scene,
       tg_scene_name = name, tg_kind = Kind_trigger,
       tg_activity = (case List.map_filter (action_kind repr) actions of [] \<Rightarrow> ''scene_trigger'' | k # _ \<Rightarrow> k),
       tg_point = int_str trigger, tg_at = at, tg_source = source\<rparr> })))"

definition load_shooting_tables :: "json list \<Rightarrow> scene_target list option" where
  "load_shooting_tables = load_documents (\<lambda>doc. Option.bind (require_list doc ''tables'') (load_each (\<lambda>item. do {
     scene \<leftarrow> require_int item ''sceneId'';
     num \<leftarrow> require_int item ''tableNum'';
     name \<leftarrow> require_string item ''sceneName'';
     at \<leftarrow> scene_coordinates (json_get item ''targetPosition'');
     source \<leftarrow> require_string item ''sourcePath'';
     Some \<lparr>tg_id = ''scene:'' @ int_str scene @ '':shooting:'' @ int_str num, tg_scene = scene,
       tg_scene_name = name, tg_kind = Kind_shooting, tg_activity = ''shooting'', tg_point = int_str num,
       tg_at = at, tg_source = source\<rparr> })))"

text \<open>
  A navigation document names the navmesh it was made from and its digest.  \<open>inside\<close> says whether the
  path, once resolved, stays in the configuration directory, \<open>digest\<close> is the digest of the file.
\<close>

definition hex_digest :: "string \<Rightarrow> bool" where
  "hex_digest s \<longleftrightarrow> length s = 64 \<and> list_all (\<lambda>c. digit c \<or> 97 \<le> code c \<and> code c \<le> 102) s"

definition load_navigation_points ::
  "(string \<Rightarrow> bool) \<Rightarrow> (string \<Rightarrow> string option) \<Rightarrow> json list \<Rightarrow> scene_target list option" where
  "load_navigation_points inside digest = load_documents (\<lambda>doc. do {
     scene \<leftarrow> require_int doc ''sceneId'';
     name \<leftarrow> require_string doc ''sceneName'';
     path \<leftarrow> require_string doc ''sourceNavmesh'';
     expected \<leftarrow> map_option (map lower_char) (require_string doc ''sourceNavmeshSha256'');
     _ \<leftarrow> if take 1 path \<noteq> ''/'' \<and> inside path \<and> hex_digest expected \<and> digest path = Some expected
          then Some () else None;
     points \<leftarrow> require_list doc ''points'';
     load_each (\<lambda>item. do {
       point \<leftarrow> require_string item ''pointKey'';
       at \<leftarrow> scene_coordinates (json_get item ''target'');
       source \<leftarrow> require_string item ''sourcePath'';
       Some \<lparr>tg_id = ''scene:'' @ int_str scene @ '':navigation:'' @ point, tg_scene = scene,
         tg_scene_name = name, tg_kind = Kind_navigation, tg_activity = ''wander'', tg_point = point,
         tg_at = at, tg_source = source\<rparr> }) points })"

definition catalog_from_directory ::
  "(json \<Rightarrow> string) \<Rightarrow> (string \<Rightarrow> bool) \<Rightarrow> (string \<Rightarrow> string option) \<Rightarrow>
   json list \<Rightarrow> json list \<Rightarrow> json list \<Rightarrow> json list \<Rightarrow> scene_catalog option" where
  "catalog_from_directory repr inside digest activities triggers tables navigation = do {
     a \<leftarrow> load_activity_points activities;
     t \<leftarrow> load_scene_triggers repr triggers;
     s \<leftarrow> load_shooting_tables tables;
     n \<leftarrow> load_navigation_points inside digest navigation;
     if a @ t @ s @ n = [] then None
     else (case make_catalog (a @ t @ s @ n) of Inl _ \<Rightarrow> None | Inr ts \<Rightarrow> Some ts) }"

section \<open>The allocator\<close>

text \<open>
  The targets handed out, per gateway, scene, generation and time window, and the answer given to each
  event, which is given again when the event comes again.
\<close>

record window_key =
  wk_gateway :: string
  wk_scene :: int
  wk_generation :: int
  wk_index :: int

type_synonym event_key = "string \<times> string \<times> string"

record allocator =
  al_window_ms :: int
  al_retention :: int
  al_windows :: "(window_key \<times> coordinates list) list"
  al_results :: "(event_key \<times> (window_key \<times> scene_target option)) list"

definition make_allocator :: "int \<Rightarrow> int \<Rightarrow> string + allocator" where
  "make_allocator window retention =
     (if window \<le> 0 then Inl ''window_ms must be positive''
      else if retention < 1 then Inl ''retention_windows must be positive''
      else Inr \<lparr>al_window_ms = window, al_retention = retention, al_windows = [], al_results = []\<rparr>)"

definition cleanup :: "int \<Rightarrow> allocator \<Rightarrow> allocator" where
  "cleanup current a =
     (let cutoff = current - al_retention a in
      a\<lparr>al_windows := filter (\<lambda>(k, _). cutoff \<le> wk_index k) (al_windows a),
        al_results := filter (\<lambda>(_, k, _). cutoff \<le> wk_index k) (al_results a)\<rparr>)"

definition preferred_first :: "scene_target list \<Rightarrow> string option \<Rightarrow> scene_target list" where
  "preferred_first candidates preferred =
     (case Option.bind preferred (\<lambda>i. find (\<lambda>t. tg_id t = i) candidates) of
        None \<Rightarrow> candidates
      | Some p \<Rightarrow> p # remove1 p candidates)"

definition claimed_in :: "allocator \<Rightarrow> window_key \<Rightarrow> coordinates list" where
  "claimed_in a key = (case map_of (al_windows a) key of None \<Rightarrow> [] | Some cs \<Rightarrow> cs)"

definition answer_event :: "event_key \<Rightarrow> window_key \<Rightarrow> scene_target option \<Rightarrow> allocator \<Rightarrow> allocator" where
  "answer_event event key selected a = a\<lparr>
     al_windows := AList.update key (case selected of None \<Rightarrow> claimed_in a key | Some t \<Rightarrow> tg_at t # claimed_in a key)
       (al_windows a),
     al_results := (event, key, selected) # al_results a\<rparr>"

definition allocate ::
  "string \<Rightarrow> string \<Rightarrow> string \<Rightarrow> int \<Rightarrow> int \<Rightarrow> int \<Rightarrow> scene_target list \<Rightarrow> string option \<Rightarrow> allocator \<Rightarrow>
   string + scene_target option \<times> allocator" where
  "allocate gateway session event scene generation occurred candidates preferred a =
     (if is_blank gateway \<or> is_blank session \<or> is_blank event
      then Inl ''gateway_id, session_id, and event_id must be non-empty''
      else if scene < 0 \<or> generation \<le> 0 \<or> occurred < 0
      then Inl ''scene_id, control_generation, and occurred_at_ms are invalid''
      else
        let key = \<lparr>wk_gateway = gateway, wk_scene = scene, wk_generation = generation,
              wk_index = occurred div al_window_ms a\<rparr>;
            event_key = (gateway, session, event);
            a = cleanup (wk_index key) a in
        (case map_of (al_results a) event_key of
           Some (_, previous) \<Rightarrow> Inr (previous, a)
         | None \<Rightarrow>
             let selected = find (\<lambda>t. tg_at t \<notin> set (claimed_in a key)) (preferred_first candidates preferred) in
             Inr (selected, answer_event event_key key selected a)))"

end
