(* ===== verification/AgentActions.thy ===== *)
theory AgentActions
  imports DecisionContract Competitive SceneTargets
begin

text \<open>
  What the agent of the gateway may do (\<open>gateway_v2_models.py\<close> and the functions of
  \<open>decision_service.py\<close> above its classes): the context of a decision, the actions, which skills a
  lease permits, and the deterministic choices of an action.

  \<open>sha256\<close> is the digest of a seed, as bytes.  Numbers are whole (\<open>json\<close>), so a goal value and a
  coordinate are integers.
\<close>

section \<open>The context of a decision\<close>

record gateway_context =
  gc_event :: string
  gc_session :: string
  gc_generation :: int
  gc_sequence :: int
  gc_lease :: string
  gc_state_version :: int
  gc_lease_kind :: string
  gc_actions :: "decision_action list"
  gc_parent :: "string option"
  gc_skill :: "string option"
  gc_skills :: "string list"
  gc_snapshot :: json
  gc_available :: "available_skill list"
  gc_hints :: "argument_hint list"
  gc_terminal :: "json option"

fun terminal_json :: "skill_terminal \<Rightarrow> json" where
  "terminal_json T_success = JObj [(''status'', JStr ''success'')]"
| "terminal_json (T_failed c r b) = JObj
     [(''status'', JStr ''failed''), (''failureCategory'', JStr c), (''reason'', JStr r), (''retryable'', JBool b)]"
| "terminal_json (T_cancelled r b) = JObj
     [(''status'', JStr ''cancelled''), (''reason'', JStr r), (''retryable'', JBool b)]"
| "terminal_json (T_timeout r b) = JObj
     [(''status'', JStr ''timeout''), (''reason'', JStr r), (''retryable'', JBool b)]"

text \<open>The lease, the context and the terminal result an event carries, \<open>None\<close> when it carries no lease.\<close>

fun lease_data :: "controlled_payload \<Rightarrow> (lease_context \<times> decision_context \<times> json option) option" where
  "lease_data (P_session_started p) =
     Some (ss_lease p, ss_context p, map_option deep_thaw (dc_last_result (ss_context p)))"
| "lease_data (P_observation p) =
     Some (ob_lease p, ob_context p, map_option deep_thaw (dc_last_result (ob_context p)))"
| "lease_data (P_skill_finished p) =
     (case (fp_lease p, fp_context p) of
        (Some l, Some c) \<Rightarrow> Some (l, c, map_option terminal_json (terminal p)) | _ \<Rightarrow> None)"
| "lease_data _ = None"

definition make_context :: "event_head \<Rightarrow> event_control \<Rightarrow> lease_context \<Rightarrow> decision_context \<Rightarrow> json option \<Rightarrow> gateway_context" where
  "make_context h c l d terminal_result =
     \<lparr>gc_event = eh_id h, gc_session = eh_session h, gc_generation = ec_generation c, gc_sequence = ec_sequence c,
      gc_lease = dl_lease l, gc_state_version = dl_state_version l, gc_lease_kind = dl_kind l, gc_actions = dl_actions l,
      gc_parent = dl_parent l, gc_skill = dl_skill l, gc_skills = dl_skills l, gc_snapshot = deep_thaw (dc_session d),
      gc_available = dc_skills d, gc_hints = dc_hints d, gc_terminal = terminal_result\<rparr>"

fun build_gateway_v2_agent_context :: "wire_event \<Rightarrow> gateway_context option" where
  "build_gateway_v2_agent_context (Controlled h c p) =
     map_option (\<lambda>(l, d, t). make_context h c l d t) (lease_data p)"
| "build_gateway_v2_agent_context (Chat h p) = None"

section \<open>Actions\<close>

record call_action =
  ca_reason :: string
  ca_ttl :: int
  ca_skill :: string
  ca_schema :: string
  ca_arguments :: "(string \<times> json) list"
  ca_user :: "string option"
  ca_type :: "string option"
  ca_metric :: "string option"
  ca_goal :: "int option"
  ca_baseline :: "int option"
  ca_hours :: "int option"

datatype gateway_action =
    Call call_action
  | Wait_action string int int
  | No_op_action string int
  | Stop_action string int

text \<open>\<open>Wait_action\<close> carries reason, time to live and milliseconds, the other two reason and time to live.\<close>

definition DEFAULT_TTL_MS :: int where "DEFAULT_TTL_MS = 30000"

fun action_of :: "gateway_action \<Rightarrow> decision_action" where
  "action_of (Call _) = A_call_skill"
| "action_of (Wait_action _ _ _) = A_wait"
| "action_of (No_op_action _ _) = A_no_op"
| "action_of (Stop_action _ _) = A_stop_hosting"

fun is_number :: "json option \<Rightarrow> bool" where
  "is_number (Some (JInt _)) = True"
| "is_number _ = False"

definition validate_known_skill_shapes :: "string \<Rightarrow> (string \<times> json) list \<Rightarrow> bool" where
  "validate_known_skill_shapes skill args =
     ((skill = ''play_action'' \<longrightarrow>
        (case map_of args ''actionId'' of Some (JStr s) \<Rightarrow> py_strip s \<noteq> [] | _ \<Rightarrow> False) \<and> map_of args ''action'' = None) \<and>
      (skill = ''move_to'' \<longrightarrow>
        (case map_of args ''target'' of
           Some (JObj kvs) \<Rightarrow> list_all (\<lambda>axis. is_number (map_of kvs axis)) [''x'', ''y'', ''z'']
         | _ \<Rightarrow> False)))"

definition sized :: "nat \<Rightarrow> string \<Rightarrow> bool" where
  "sized n s \<longleftrightarrow> s \<noteq> [] \<and> py_len s \<le> n"

definition call_action_ok :: "call_action \<Rightarrow> bool" where
  "call_action_ok c \<longleftrightarrow> sized 512 (ca_reason c) \<and> 0 < ca_ttl c \<and> sized 128 (ca_skill c) \<and> sized 128 (ca_schema c) \<and>
     pred_option (sized 255) (ca_user c) \<and> pred_option (sized 100) (ca_type c) \<and> pred_option (sized 100) (ca_metric c) \<and>
     pred_option (\<lambda>h. 0 < h) (ca_hours c) \<and> validate_known_skill_shapes (ca_skill c) (ca_arguments c)"

text \<open>A skill call made by the service, \<open>None\<close> when the model refuses it.\<close>

definition make_call :: "string \<Rightarrow> string \<Rightarrow> (string \<times> json) list \<Rightarrow> string \<Rightarrow> call_action option" where
  "make_call skill schema args reason =
     (let c = \<lparr>ca_reason = reason, ca_ttl = DEFAULT_TTL_MS, ca_skill = skill, ca_schema = schema, ca_arguments = args,
        ca_user = None, ca_type = None, ca_metric = None, ca_goal = None, ca_baseline = None, ca_hours = None\<rparr> in
      if call_action_ok c then Some c else None)"

definition tracking_metadata :: "call_action \<Rightarrow> (string \<times> string) option" where
  "tracking_metadata c =
     (case (ca_user c, ca_type c) of
        (Some u, Some t) \<Rightarrow>
          if None \<in> {ca_goal c, ca_baseline c, ca_hours c} \<or> ca_metric c = None then None else Some (u, t)
      | _ \<Rightarrow> None)"

section \<open>Arguments\<close>

definition SPECIALIZED_ARGUMENT_SKILLS :: "string list" where
  "SPECIALIZED_ARGUMENT_SKILLS =
     [''paper_plane_auto_schedule'', ''darts_auto_schedule'', ''shooting_auto_schedule'', ''dance_auto_schedule'']"

definition REQUIRED_ACTIVITY_ARGUMENTS :: "(string \<times> string list) list" where
  "REQUIRED_ACTIVITY_ARGUMENTS =
     [(''wish_board_auto_schedule'', [''boardName'', ''wish'']), (''coffee_auto_schedule'', [''coffeeName'']),
      (''seat_sit'', [''sceneId'', ''chairId'']), (''seat_get_out'', [''sceneId'', ''chairId''])]"

text \<open>The paths of the leaves; a key that is empty or has a dot raises \<open>ValueError\<close> (\<open>None\<close>).\<close>

fun argument_leaf_paths :: "string \<Rightarrow> (string \<times> json) list \<Rightarrow> string list option"
  and leaf_paths_of :: "string \<Rightarrow> json \<Rightarrow> string list option" where
  "argument_leaf_paths prefix [] = Some []"
| "argument_leaf_paths prefix ((key, item) # rest) =
     (if key = [] \<or> CHR ''.'' \<in> set key then None
      else let path = (if prefix = [] then key else prefix @ ''.'' @ key) in
        (case leaf_paths_of path item of
           None \<Rightarrow> None
         | Some ps \<Rightarrow> map_option (\<lambda>qs. ps @ qs) (argument_leaf_paths prefix rest)))"
| "leaf_paths_of path (JObj kvs) =
     map_option (\<lambda>ps. if ps = [] then [path] else ps) (argument_leaf_paths path kvs)"
| "leaf_paths_of path item = Some [path]"

definition contains_path :: "string list \<Rightarrow> string \<Rightarrow> bool" where
  "contains_path paths required \<longleftrightarrow>
     required \<in> set paths \<or> list_ex (\<lambda>p. take (length required + 1) p = required @ ''.'') paths"

fun non_blank_text :: "json option \<Rightarrow> bool" where
  "non_blank_text (Some (JStr s)) = (py_strip s \<noteq> [])"
| "non_blank_text _ = False"

fun positive_number :: "json option \<Rightarrow> bool" where
  "positive_number (Some (JInt i)) = (0 < i)"
| "positive_number _ = False"

definition required_activity_arguments_are_valid :: "string \<Rightarrow> (string \<times> json) list \<Rightarrow> bool" where
  "required_activity_arguments_are_valid skill args =
     (case map_of REQUIRED_ACTIVITY_ARGUMENTS skill of
        None \<Rightarrow> True
      | Some required \<Rightarrow>
          list_all (\<lambda>name. map_of args name \<noteq> None) required \<and>
          (if skill = ''wish_board_auto_schedule'' then list_all (\<lambda>name. non_blank_text (map_of args name)) required
           else if skill = ''coffee_auto_schedule'' then non_blank_text (map_of args ''coffeeName'')
           else list_all (\<lambda>name. positive_number (map_of args name)) required))"

type_synonym digest = "string \<Rightarrow> 8 word list"

definition context_account :: "gateway_context \<Rightarrow> string option" where
  "context_account ctx = (case get_or (gc_snapshot ctx) ''AccountId'' ''accountId'' of Some (JStr s) \<Rightarrow> Some s | _ \<Rightarrow> None)"

definition paper_plane_arguments_for_context :: "digest \<Rightarrow> gateway_context \<Rightarrow> string + arguments" where
  "paper_plane_arguments_for_context sha256 ctx = build_paper_plane_arguments sha256
     (paper_plane_arguments_seed (gc_session ctx) (gc_event ctx) (context_account ctx) (gc_generation ctx)
        (gc_sequence ctx) (gc_lease ctx) (gc_state_version ctx))"

definition competitive_activity_seed_for_context :: "gateway_context \<Rightarrow> string \<Rightarrow> string" where
  "competitive_activity_seed_for_context ctx skill =
     competitive_activity_seed skill (gc_session ctx) (gc_event ctx) (context_account ctx) (gc_generation ctx)
       (gc_sequence ctx) (gc_lease ctx) (gc_state_version ctx)"

definition skill_argument_hint :: "gateway_context \<Rightarrow> string \<Rightarrow> string \<Rightarrow> argument_hint option" where
  "skill_argument_hint ctx skill schema = find (\<lambda>h. ah_skill h = skill \<and> ah_schema h = schema) (gc_hints ctx)"

text \<open>Building the arguments never raises (\<open>built_arguments_are_valid\<close>); a refusal would be no arguments.\<close>

fun built :: "string + arguments \<Rightarrow> arguments option" where
  "built (Inl _) = None"
| "built (Inr args) = Some args"

definition specialized_arguments_for_context :: "digest \<Rightarrow> gateway_context \<Rightarrow> string \<Rightarrow> string \<Rightarrow> arguments option" where
  "specialized_arguments_for_context sha256 ctx skill schema =
     (if schema \<noteq> ''v1'' then None
      else if skill = ''paper_plane_auto_schedule'' then built (paper_plane_arguments_for_context sha256 ctx)
      else let seed = competitive_activity_seed_for_context ctx skill in
        if skill = ''darts_auto_schedule'' then built (build_darts_arguments sha256 seed)
        else if skill = ''shooting_auto_schedule'' then built (build_shooting_arguments sha256 seed)
        else if skill = ''dance_auto_schedule'' then built (build_dance_arguments sha256 seed)
        else None)"

end
