(* ===== verification/ActionChoice.thy ===== *)
theory ActionChoice
  imports AgentActions PlanRuntime
begin

text \<open>
  What a lease permits and the deterministic choices of an action (\<open>decision_service.py\<close>, the functions
  above its classes), with the lemmas that every choice is permitted.  A choice that raises
  \<open>GatewayV2DecisionSelectionError\<close> is \<open>None\<close> in \<open>select_gateway_v2_action\<close>,
  \<open>safe_unavailable_skill_action\<close> and \<open>forced_test_skill_action\<close>.
\<close>

section \<open>Equality of JSON values\<close>

text \<open>Python's \<open>==\<close>: members in any order, and \<open>True\<close> equal to 1.\<close>

fun py_number :: "json \<Rightarrow> int option" where
  "py_number (JBool b) = Some (if b then 1 else 0)"
| "py_number (JInt i) = Some i"
| "py_number _ = None"

fun py_equal :: "json \<Rightarrow> json \<Rightarrow> bool"
  and members_equal :: "(string \<times> json) list \<Rightarrow> (string \<times> json) list \<Rightarrow> bool"
  and items_equal :: "json list \<Rightarrow> json list \<Rightarrow> bool" where
  "py_equal (JObj kvs) w =
     (case w of JObj kws \<Rightarrow> fst ` set kvs = fst ` set kws \<and> members_equal kvs kws | _ \<Rightarrow> False)"
| "py_equal (JArr vs) w = (case w of JArr ws \<Rightarrow> items_equal vs ws | _ \<Rightarrow> False)"
| "py_equal v w = (v = w \<or> py_number v \<noteq> None \<and> py_number v = py_number w)"
| "members_equal [] kws = True"
| "members_equal ((k, v) # kvs) kws =
     ((case map_of kws k of None \<Rightarrow> False | Some w \<Rightarrow> py_equal v w) \<and> members_equal kvs kws)"
| "items_equal [] ws = (ws = [])"
| "items_equal (v # vs) ws = (case ws of [] \<Rightarrow> False | w # ws \<Rightarrow> py_equal v w \<and> items_equal vs ws)"

section \<open>What a lease permits\<close>

definition PAIRED_EXITS :: "(string \<times> string) list" where
  "PAIRED_EXITS =
     [(''hot_air_balloon_auto_schedule'', ''hot_air_balloon_exit''), (''helicopter_auto_schedule'', ''helicopter_exit'')]"

definition paired_exit :: "gateway_context \<Rightarrow> string \<Rightarrow> bool" where
  "paired_exit ctx skill \<longleftrightarrow> Option.bind (gc_parent ctx) (map_of PAIRED_EXITS) = Some skill"

definition lease_pairing_is_permitted :: "gateway_context \<Rightarrow> call_action \<Rightarrow> bool" where
  "lease_pairing_is_permitted ctx c =
     (let kind = gc_lease_kind ctx; skill = ca_skill c in
      if kind = ''observation'' then skill \<notin> snd ` set PAIRED_EXITS
      else if kind = ''movement_control'' then
        (skill = ''jump'' \<or> skill = ''stop_move'') \<and> (skill = ''stop_move'' \<longrightarrow> gc_parent ctx = Some ''move_to'')
      else if kind = ''vehicle_cancel_window'' then paired_exit ctx skill
      else if kind = ''vehicle_recovery'' then skill = ''observe_state'' \<or> paired_exit ctx skill
      else kind = ''conversation'' \<and> skill = ''nearby_chat_send'')"

definition allowed_skills :: "gateway_context \<Rightarrow> string set" where
  "allowed_skills ctx =
     (if gc_lease_kind ctx = ''observation'' then set (map as_name (gc_available ctx))
      else set (gc_skills ctx) \<union> set_option (gc_skill ctx))"

definition tracking_agrees :: "gateway_context \<Rightarrow> call_action \<Rightarrow> bool" where
  "tracking_agrees ctx c = (case tracking_metadata c of
     None \<Rightarrow> True
   | Some (user, kind) \<Rightarrow>
       get_or (gc_snapshot ctx) ''AccountId'' ''accountId'' = Some (JStr user) \<and> kind = ca_skill c)"

text \<open>The dict of hints keeps the last hint of an identity.\<close>

definition argument_paths_permitted :: "argument_hint option \<Rightarrow> string list \<Rightarrow> bool" where
  "argument_paths_permitted hint paths = (case hint of
     None \<Rightarrow> paths = []
   | Some h \<Rightarrow> set paths \<subseteq> set (map af_path (ah_allowed h)) \<and>
       list_all (contains_path paths) (map af_path (ah_missing h)))"

definition specialized_agrees :: "digest \<Rightarrow> gateway_context \<Rightarrow> call_action \<Rightarrow> bool" where
  "specialized_agrees sha256 ctx c \<longleftrightarrow> ca_skill c \<notin> set SPECIALIZED_ARGUMENT_SKILLS \<or>
     (case specialized_arguments_for_context sha256 ctx (ca_skill c) (ca_schema c) of
        None \<Rightarrow> False | Some args \<Rightarrow> py_equal (JObj (ca_arguments c)) (JObj args))"

definition skill_is_permitted :: "digest \<Rightarrow> gateway_context \<Rightarrow> call_action \<Rightarrow> bool" where
  "skill_is_permitted sha256 ctx c \<longleftrightarrow>
     A_call_skill \<in> set (gc_actions ctx) \<and> ca_skill c \<noteq> ''ground'' \<and> ca_skill c \<in> allowed_skills ctx \<and>
     lease_pairing_is_permitted ctx c \<and> tracking_agrees ctx c \<and>
     (ca_skill c, ca_schema c) \<in> set (map (\<lambda>a. (as_name a, as_schema a)) (gc_available ctx)) \<and>
     specialized_agrees sha256 ctx c \<and>
     (case argument_leaf_paths [] (ca_arguments c) of
        None \<Rightarrow> False
      | Some paths \<Rightarrow>
          required_activity_arguments_are_valid (ca_skill c) (ca_arguments c) \<and>
          argument_paths_permitted
            (find (\<lambda>h. ah_skill h = ca_skill c \<and> ah_schema h = ca_schema c) (rev (gc_hints ctx))) paths)"

text \<open>An action is permitted when its kind is allowed and, for a skill call, the skill and its arguments are.\<close>

fun permitted :: "digest \<Rightarrow> gateway_context \<Rightarrow> gateway_action \<Rightarrow> bool" where
  "permitted sha256 ctx (Call c) = skill_is_permitted sha256 ctx c"
| "permitted sha256 ctx a = (action_of a \<in> set (gc_actions ctx))"

lemma permitted_kind: "permitted sha256 ctx a \<Longrightarrow> action_of a \<in> set (gc_actions ctx)"
  by (cases a) (auto simp: skill_is_permitted_def)

section \<open>Choosing\<close>

text \<open>The action that waits, does nothing or stops, whichever of \<open>kinds\<close> is allowed first.\<close>

fun resting_action :: "string \<Rightarrow> int \<Rightarrow> decision_action \<Rightarrow> gateway_action" where
  "resting_action reason wait_ms A_wait = Wait_action reason DEFAULT_TTL_MS wait_ms"
| "resting_action reason wait_ms A_no_op = No_op_action reason DEFAULT_TTL_MS"
| "resting_action reason wait_ms _ = Stop_action reason DEFAULT_TTL_MS"

definition first_allowed :: "string \<Rightarrow> int \<Rightarrow> decision_action list \<Rightarrow> gateway_context \<Rightarrow> gateway_action option" where
  "first_allowed reason wait_ms kinds ctx =
     map_option (resting_action reason wait_ms) (find (\<lambda>k. k \<in> set (gc_actions ctx)) kinds)"

lemma resting_action_of: "k \<noteq> A_call_skill \<Longrightarrow> action_of (resting_action r w k) = k"
  by (cases k) simp_all

lemma resting_permitted:
  "k \<noteq> A_call_skill \<Longrightarrow> k \<in> set (gc_actions ctx) \<Longrightarrow> permitted sha256 ctx (resting_action r w k)"
  by (cases k) simp_all

lemma first_allowed_permitted:
  "first_allowed reason w kinds ctx = Some a \<Longrightarrow> A_call_skill \<notin> set kinds \<Longrightarrow> permitted sha256 ctx a"
  unfolding first_allowed_def by (auto simp: find_Some_iff) (metis nth_mem resting_permitted)

lemma first_allowed_None:
  "first_allowed reason w kinds ctx = None \<longleftrightarrow> set kinds \<inter> set (gc_actions ctx) = {}"
  by (auto simp: first_allowed_def find_None_iff)

definition safe_unavailable_skill_action :: "gateway_context \<Rightarrow> gateway_action option" where
  "safe_unavailable_skill_action =
     first_allowed ''Gateway did not provide complete constraints for the selected skill'' 1000
       [A_wait, A_no_op, A_stop_hosting]"

definition normalize_gateway_v2_action :: "digest \<Rightarrow> gateway_context \<Rightarrow> gateway_action \<Rightarrow> gateway_action" where
  "normalize_gateway_v2_action sha256 ctx a = (case a of
     Call c \<Rightarrow>
       if ca_skill c \<notin> set SPECIALIZED_ARGUMENT_SKILLS \<or> ca_schema c \<noteq> ''v1'' then a
       else (case specialized_arguments_for_context sha256 ctx (ca_skill c) (ca_schema c) of
               None \<Rightarrow> a | Some args \<Rightarrow> Call (c\<lparr>ca_arguments := args\<rparr>))
   | _ \<Rightarrow> a)"

fun select_candidate :: "digest \<Rightarrow> gateway_context \<Rightarrow> gateway_action list \<Rightarrow> gateway_action option" where
  "select_candidate sha256 ctx [] = None"
| "select_candidate sha256 ctx (c # cs) =
     (let c = normalize_gateway_v2_action sha256 ctx c in
      if permitted sha256 ctx c then Some c else select_candidate sha256 ctx cs)"

definition select_gateway_v2_action ::
  "digest \<Rightarrow> gateway_context \<Rightarrow> gateway_action list \<Rightarrow> gateway_action option" where
  "select_gateway_v2_action sha256 ctx candidates =
     (case select_candidate sha256 ctx candidates of
        Some a \<Rightarrow> Some a
      | None \<Rightarrow> first_allowed ''No authorized skill candidate'' 1000 [A_wait, A_no_op, A_stop_hosting] ctx)"

definition activity_skill_action ::
  "digest \<Rightarrow> gateway_context \<Rightarrow> string \<Rightarrow> string \<Rightarrow> string \<Rightarrow> scene_catalog option \<Rightarrow> string option \<Rightarrow>
   (string \<times> json) list option \<Rightarrow> db_error + call_action option" where
  "activity_skill_action sha256 ctx skill schema reason catalog target_id override =
     (case (case override of
              Some args \<Rightarrow> Inr (Some args)
            | None \<Rightarrow>
                (case (if skill = ''move_to'' then catalog else None) of
                   Some ts \<Rightarrow>
                     (case target_id of
                        None \<Rightarrow> Inr None
                      | Some i \<Rightarrow>
                          (case scene_id_from_snapshot (gc_snapshot ctx) of
                             Inl er \<Rightarrow> Inl er
                           | Inr scene \<Rightarrow>
                               (case get_movement_target ts i of
                                  None \<Rightarrow> Inr None
                                | Some t \<Rightarrow> Inr (if scene = Some (tg_scene t)
                                    then Some [(''target'', as_arguments (tg_at t))] else None))))
                 | None \<Rightarrow> Inr (Some (case skill_argument_hint ctx skill schema of
                     None \<Rightarrow> [] | Some h \<Rightarrow> (case deep_thaw (ah_suggested h) of JObj kvs \<Rightarrow> kvs | _ \<Rightarrow> []))))) of
        Inl er \<Rightarrow> Inl er
      | Inr None \<Rightarrow> Inr None
      | Inr (Some arguments) \<Rightarrow>
          (case (if skill \<in> set SPECIALIZED_ARGUMENT_SKILLS
                 then specialized_arguments_for_context sha256 ctx skill schema else Some arguments) of
             None \<Rightarrow> Inr None
           | Some arguments \<Rightarrow>
               (case make_call skill schema arguments reason of
                  None \<Rightarrow> Inr None
                | Some c \<Rightarrow> Inr (if skill_is_permitted sha256 ctx c then Some c else None))))"

definition gateway_v2_activity_skill_is_permitted ::
  "digest \<Rightarrow> gateway_context \<Rightarrow> string \<Rightarrow> string \<Rightarrow> bool" where
  "gateway_v2_activity_skill_is_permitted sha256 ctx skill schema \<longleftrightarrow>
     (case activity_skill_action sha256 ctx skill schema
        ''Validate the current activity step against the Gateway lease'' None None
        (if skill = ''move_to'' then Some [(''target'', as_arguments (0, 0, 0))] else None) of
        Inr (Some _) \<Rightarrow> True | _ \<Rightarrow> False)"

definition json_casefold_is :: "json option \<Rightarrow> string \<Rightarrow> bool" where
  "json_casefold_is v s = (case v of Some (JStr t) \<Rightarrow> casefold t = s | _ \<Rightarrow> False)"

text \<open>\<open>repr\<close> is the text of an array or an object, as in \<open>SceneTargets\<close>; a missing value has the text \<open>None\<close>.\<close>

definition initial_room_transition_action ::
  "digest \<Rightarrow> (json \<Rightarrow> string) \<Rightarrow> gateway_context \<Rightarrow> call_action option" where
  "initial_room_transition_action sha256 repr ctx =
     (let look = get_or (gc_snapshot ctx);
          scene = (case look ''SceneId'' ''sceneId'' of None \<Rightarrow> ''None'' | Some v \<Rightarrow> py_str repr v);
          is_one_of = (\<lambda>vs v. case v of None \<Rightarrow> False | Some v \<Rightarrow> list_ex (py_equal v) vs) in
      if gc_lease_kind ctx \<noteq> ''observation'' \<or> scene \<noteq> ''1'' \<or>
         \<not> json_casefold_is (look ''SceneName'' ''sceneName'') ''lobby'' \<or>
         \<not> is_one_of [JBool False, JStr ''false'', JStr ''False'', JInt 0]
             (look ''NavigationAvailable'' ''navigationAvailable'') \<or>
         is_one_of [JBool True, JStr ''true'', JStr ''True'', JInt 1] (look ''SkillExecuting'' ''skillExecuting'') \<or>
         json_casefold_is (look ''LastSkillName'' ''lastSkillName'') ''scene_tornado''
      then None
      else (case find (\<lambda>a. as_name a = ''scene_tornado'') (gc_available ctx) of
              None \<Rightarrow> None
            | Some a \<Rightarrow>
                (case make_call (as_name a) (as_schema a) []
                   ''Move the autonomously hosted role from the initial room to the plaza'' of
                   None \<Rightarrow> None
                 | Some c \<Rightarrow> if skill_is_permitted sha256 ctx c then Some c else None)))"

definition defer_unresolvable_activity_step :: "gateway_context \<Rightarrow> gateway_action option" where
  "defer_unresolvable_activity_step =
     first_allowed ''Current activity step cannot be resolved from trusted scene data'' 1000
       [A_wait, A_no_op, A_stop_hosting]"

end
