(* ===== verification/ActionPlanning.thy ===== *)
theory ActionPlanning
  imports ActionChoice ActivityRepository
begin

text \<open>
  The choices of an action that look at the activity plan, the capacity and the movement targets, the
  decision of the model, and the freezing of a decision (\<open>decision_service.py\<close>, \<open>agents/gateway_v2.py\<close>).
  \<open>weigh\<close> is the hash based order of \<open>ActivityCapacitySnapshot.weighted_order\<close>, a floating point
  computation, and \<open>repr\<close> the text of an array or an object.
\<close>

section \<open>Reading the snapshot\<close>

fun truthy :: "json \<Rightarrow> bool" where
  "truthy JNull = False"
| "truthy (JBool b) = b"
| "truthy (JInt i) = (i \<noteq> 0)"
| "truthy (JStr s) = (s \<noteq> [])"
| "truthy (JArr vs) = (vs \<noteq> [])"
| "truthy (JObj kvs) = (kvs \<noteq> [])"

definition account_or_session :: "(json \<Rightarrow> string) \<Rightarrow> gateway_context \<Rightarrow> string" where
  "account_or_session repr ctx = (case get_or (gc_snapshot ctx) ''AccountId'' ''accountId'' of
     Some v \<Rightarrow> if truthy v then py_str repr v else gc_session ctx | None \<Rightarrow> gc_session ctx)"

fun first_identity :: "json \<Rightarrow> string \<Rightarrow> (string \<times> string) list \<Rightarrow> string" where
  "first_identity snapshot fallback [] = fallback"
| "first_identity snapshot fallback ((canonical, legacy) # rest) =
     (let text = (case get_or snapshot canonical legacy of
         Some (JStr s) \<Rightarrow> py_strip s | Some (JInt i) \<Rightarrow> int_str i | _ \<Rightarrow> []) in
      if text \<noteq> [] then text else first_identity snapshot fallback rest)"

definition role_identity_from_snapshot :: "json \<Rightarrow> string \<Rightarrow> string" where
  "role_identity_from_snapshot snapshot fallback = first_identity snapshot fallback
     [(''RoleId'', ''roleId''), (''AccountId'', ''accountId''), (''SessionId'', ''sessionId'')]"

section \<open>Choices\<close>

text \<open>A choice that raises is \<open>Inl\<close>; the current step of a plan that is complete raises \<open>ActivityPlanValidationError\<close>.\<close>

definition current_plan_step :: "activity_plan \<Rightarrow> db_error + plan_step" where
  "current_plan_step p = map_sum Value_Error id (current_step p)"

definition planned_activity_action ::
  "digest \<Rightarrow> gateway_context \<Rightarrow> activity_plan \<Rightarrow> scene_catalog option \<Rightarrow> db_error + gateway_action option" where
  "planned_activity_action sha256 ctx plan catalog =
     (case current_plan_step plan of
        Inl er \<Rightarrow> Inl er
      | Inr step \<Rightarrow>
          (case st_skill step of
             None \<Rightarrow> Inr (first_allowed ''Remain available for the next opportunity in the activity plan'' 1000
               [A_wait, A_no_op] ctx)
           | Some skill \<Rightarrow>
               (case st_schema step of
                  None \<Rightarrow> Inl (Runtime_Error ''AssertionError'')
                | Some schema \<Rightarrow> map_sum id (map_option Call)
                    (activity_skill_action sha256 ctx skill schema (st_intent step) catalog (st_target step) None))))"

definition stable_context_bucket :: "digest \<Rightarrow> gateway_context \<Rightarrow> int" where
  "stable_context_bucket sha256 ctx =
     (let identity = (case get_or (gc_snapshot ctx) ''AccountId'' ''accountId'' of
           Some (JStr s) \<Rightarrow> if py_strip s \<noteq> [] then s else gc_session ctx | _ \<Rightarrow> gc_session ctx);
          material = identity @ ''|'' @ gc_session ctx @ ''|'' @ int_str (gc_generation ctx) @ ''|'' @
            int_str (gc_state_version ctx) in
      from_bytes_big (take 8 (sha256 material)))"

definition staggered_wait_ms :: "digest \<Rightarrow> gateway_context \<Rightarrow> int" where
  "staggered_wait_ms sha256 ctx = 5000 + stable_context_bucket sha256 ctx mod 25001"

definition decision_deadline_fallback :: "digest \<Rightarrow> gateway_context \<Rightarrow> gateway_action option" where
  "decision_deadline_fallback sha256 ctx =
     first_allowed ''Decision event exceeded the internal response target'' (staggered_wait_ms sha256 ctx)
       [A_wait, A_no_op] ctx"

definition LOCAL_FALLBACK_SKILL_ORDER :: "string list" where
  "LOCAL_FALLBACK_SKILL_ORDER =
     [''dance_auto_schedule'', ''hot_air_balloon_auto_schedule'', ''coffee_auto_schedule'', ''darts_auto_schedule'',
      ''shooting_auto_schedule'', ''paper_plane_auto_schedule'', ''draw_lots_auto_schedule'',
      ''wish_board_auto_schedule'', ''helicopter_auto_schedule'', ''elevator_auto_schedule'']"

type_synonym weigher = "activity_capacity_snapshot \<Rightarrow> string list \<Rightarrow> string \<Rightarrow> int \<Rightarrow> string list"

definition digest_number :: "digest \<Rightarrow> string \<Rightarrow> nat" where
  "digest_number sha256 s = nat (from_bytes_big (take 8 (sha256 s)))"

text \<open>The target a local \<open>move_to\<close> takes; \<open>Inr None\<close> passes the skill over.\<close>

definition local_move_target ::
  "digest \<Rightarrow> (json \<Rightarrow> string) \<Rightarrow> gateway_context \<Rightarrow> scene_catalog option \<Rightarrow> int \<Rightarrow> db_error + string option" where
  "local_move_target sha256 repr ctx catalog version =
     (case catalog of
        None \<Rightarrow> Inr None
      | Some ts \<Rightarrow>
          (case scene_id_from_snapshot (gc_snapshot ctx) of
             Inl er \<Rightarrow> Inl er
           | Inr None \<Rightarrow> Inr None
           | Inr (Some scene) \<Rightarrow>
               Inr (case select_candidates (digest_number sha256) ts scene (account_or_session repr ctx) version 1 [] of
                      [] \<Rightarrow> None | t # _ \<Rightarrow> Some (tg_id t))))"

fun first_local_action ::
  "digest \<Rightarrow> (json \<Rightarrow> string) \<Rightarrow> gateway_context \<Rightarrow> string \<Rightarrow> scene_catalog option \<Rightarrow> int \<Rightarrow> string list \<Rightarrow>
   db_error + call_action option" where
  "first_local_action sha256 repr ctx reason catalog version [] = Inr None"
| "first_local_action sha256 repr ctx reason catalog version (skill # rest) =
     (case (if skill = ''move_to'' then local_move_target sha256 repr ctx catalog version else Inr None) of
        Inl er \<Rightarrow> Inl er
      | Inr target \<Rightarrow>
          if skill = ''move_to'' \<and> target = None then first_local_action sha256 repr ctx reason catalog version rest
          else (case activity_skill_action sha256 ctx skill ''v1'' reason catalog target None of
                  Inl er \<Rightarrow> Inl er
                | Inr (Some c) \<Rightarrow> Inr (Some c)
                | Inr None \<Rightarrow> first_local_action sha256 repr ctx reason catalog version rest))"

definition local_candidates ::
  "gateway_context \<Rightarrow> activity_capacity_snapshot option \<Rightarrow> string list \<Rightarrow> string list" where
  "local_candidates ctx snapshot excluded =
     filter (\<lambda>skill. (skill, ''v1'') \<in> set (map (\<lambda>a. (as_name a, as_schema a)) (gc_available ctx)) \<and>
         skill \<notin> set excluded \<and> pred_option (\<lambda>sn. activity_available sn skill) snapshot \<and>
         (case get_or (gc_snapshot ctx) ''LastSkillName'' ''lastSkillName'' of
            Some (JStr recent) \<Rightarrow> casefold skill \<noteq> casefold recent | _ \<Rightarrow> True))
       (LOCAL_FALLBACK_SKILL_ORDER @ (if snapshot = None then [] else [''move_to'']))"

definition lease_authorized_local_activity_action ::
  "digest \<Rightarrow> (json \<Rightarrow> string) \<Rightarrow> weigher \<Rightarrow> gateway_context \<Rightarrow> string \<Rightarrow> activity_capacity_snapshot option \<Rightarrow>
   scene_catalog option \<Rightarrow> int \<Rightarrow> string list \<Rightarrow> db_error + call_action option" where
  "lease_authorized_local_activity_action sha256 repr weigh ctx reason snapshot catalog version excluded =
     (if gc_lease_kind ctx \<noteq> ''observation'' \<or> A_call_skill \<notin> set (gc_actions ctx) then Inr None
      else let candidates = local_candidates ctx snapshot excluded in
        if candidates = [] then Inr None
        else first_local_action sha256 repr ctx reason catalog version
          (case snapshot of
             None \<Rightarrow> let offset = nat (stable_context_bucket sha256 ctx mod int (length candidates)) in
               drop offset candidates @ take offset candidates
           | Some sn \<Rightarrow> weigh sn candidates (account_or_session repr ctx) version))"

definition position :: "string list \<Rightarrow> string \<Rightarrow> nat" where
  "position xs x = length (takeWhile (\<lambda>y. y \<noteq> x) xs)"

definition forced_start :: "claimed_event \<Rightarrow> gateway_context \<Rightarrow> string list \<Rightarrow> nat" where
  "forced_start ev ctx skills =
     (let last_skill = (case get_or (gc_snapshot ctx) ''LastSkillName'' ''lastSkillName'' of
           Some (JStr s) \<Rightarrow> if s \<in> set skills then position skills s + 1 else 0 | _ \<Rightarrow> 0) in
      case ev_payload (ce_body ev) of
        Finished_skill _ _ skill ended \<Rightarrow>
          if skill \<in> set skills then position skills skill + (if ended = T_success then 1 else 0) else last_skill
      | _ \<Rightarrow> last_skill)"

fun first_forced_action :: "digest \<Rightarrow> gateway_context \<Rightarrow> string list \<Rightarrow> db_error + call_action option" where
  "first_forced_action sha256 ctx [] = Inr None"
| "first_forced_action sha256 ctx (skill # rest) =
     (case activity_skill_action sha256 ctx skill ''v1'' ''Forced by LLM_GATEWAY_V2_FORCE_SKILLS for Gateway testing''
        None None None of
        Inl er \<Rightarrow> Inl er
      | Inr (Some c) \<Rightarrow> Inr (Some c)
      | Inr None \<Rightarrow> first_forced_action sha256 ctx rest)"

definition selection_error :: db_error where
  "selection_error = Runtime_Error ''gateway v2 lease has no permitted decision''"

definition or_selection_error :: "gateway_action option \<Rightarrow> db_error + gateway_action" where
  "or_selection_error a = (case a of None \<Rightarrow> Inl selection_error | Some a \<Rightarrow> Inr a)"

definition forced_test_skill_action ::
  "digest \<Rightarrow> claimed_event \<Rightarrow> gateway_context \<Rightarrow> string list \<Rightarrow> db_error + gateway_action" where
  "forced_test_skill_action sha256 ev ctx skills =
     (case first_forced_action sha256 ctx (rotate (forced_start ev ctx skills) skills) of
        Inl er \<Rightarrow> Inl er
      | Inr (Some c) \<Rightarrow> Inr (Call c)
      | Inr None \<Rightarrow> or_selection_error (first_allowed
          ''None of the configured test skills is authorized by the current Gateway lease'' 1000
          [A_wait, A_no_op, A_stop_hosting] ctx))"

definition forced_wait_action :: "gateway_context \<Rightarrow> int \<Rightarrow> gateway_action option" where
  "forced_wait_action ctx wait_ms =
     first_allowed ''Forced wait after the initial Lobby-to-plaza transition for dialogue testing'' wait_ms
       [A_wait, A_no_op] ctx"

section \<open>The decision of the model\<close>

text \<open>
  What the graph's reading and reasoning nodes leave: the run was refused, timed out or raised, an error
  was noted, or actions were proposed.  Dumping the selected action into the state and parsing it back is left out.
\<close>

datatype reasoning =
    Reasoning_overloaded | Reasoning_timeout | Reasoning_raised | Reasoning_errors
  | Reasoned "gateway_action list"

definition gateway_v2_select_action_node ::
  "digest \<Rightarrow> gateway_context \<Rightarrow> gateway_action list \<Rightarrow> string + gateway_action" where
  "gateway_v2_select_action_node sha256 ctx candidates =
     (if candidates = [] then Inl ''gateway v2 action selection received no candidates''
      else case select_gateway_v2_action sha256 ctx candidates of
        None \<Rightarrow> Inl ''gateway v2 lease has no permitted decision''
      | Some a \<Rightarrow> Inr a)"

fun decide :: "digest \<Rightarrow> gateway_context \<Rightarrow> reasoning \<Rightarrow> string + gateway_action" where
  "decide sha256 ctx Reasoning_overloaded = Inl ''overloaded''"
| "decide sha256 ctx Reasoning_timeout = Inl ''timeout''"
| "decide sha256 ctx Reasoning_raised = Inl ''execution_failed''"
| "decide sha256 ctx Reasoning_errors = Inl ''node_error''"
| "decide sha256 ctx (Reasoned candidates) =
     (case gateway_v2_select_action_node sha256 ctx candidates of
        Inl _ \<Rightarrow> Inl ''node_error''
      | Inr a \<Rightarrow> Inr (normalize_gateway_v2_action sha256 ctx a))"

section \<open>Freezing\<close>

fun ttl_of :: "gateway_action \<Rightarrow> int" where
  "ttl_of (Call c) = ca_ttl c"
| "ttl_of (Wait_action _ t _) = t"
| "ttl_of (No_op_action _ t) = t"
| "ttl_of (Stop_action _ t) = t"

fun decision_payload :: "decision_base \<Rightarrow> gateway_action \<Rightarrow> json" where
  "decision_payload b (Call c) = JObj (dump_decision_base b @ [(''action'', JStr ''call_skill''),
     (''skillName'', JStr (ca_skill c)), (''schemaVersion'', JStr (ca_schema c)), (''arguments'', JObj (ca_arguments c))])"
| "decision_payload b (Wait_action _ _ w) = JObj (dump_decision_base b @ [(''action'', JStr ''wait''), (''waitMs'', JInt w)])"
| "decision_payload b (No_op_action _ _) = JObj (dump_decision_base b @ [(''action'', JStr ''no_op'')])"
| "decision_payload b (Stop_action _ _) = JObj (dump_decision_base b @ [(''action'', JStr ''stop_hosting'')])"

definition needs_complete_arguments :: "string \<Rightarrow> bool" where
  "needs_complete_arguments skill \<longleftrightarrow>
     skill \<in> set SPECIALIZED_ARGUMENT_SKILLS \<union> fst ` set REQUIRED_ACTIVITY_ARGUMENTS"

definition freezable_action :: "digest \<Rightarrow> gateway_context \<Rightarrow> gateway_action \<Rightarrow> gateway_action option" where
  "freezable_action sha256 ctx a =
     (case normalize_gateway_v2_action sha256 ctx a of
        Call c \<Rightarrow> if needs_complete_arguments (ca_skill c) \<and> \<not> skill_is_permitted sha256 ctx c
          then safe_unavailable_skill_action ctx else Some (Call c)
      | b \<Rightarrow> Some b)"

definition freeze_gateway_v2_decision ::
  "digest \<Rightarrow> (string \<Rightarrow> string) \<Rightarrow> string \<Rightarrow> string \<Rightarrow> gateway_context \<Rightarrow> gateway_action \<Rightarrow> db_error + frozen_decision" where
  "freeze_gateway_v2_decision sha256 hex decision_id trace ctx action =
     (case freezable_action sha256 ctx action of
        None \<Rightarrow> Inl selection_error
      | Some a \<Rightarrow>
          (case parse_gateway_v2_decision (decision_payload \<lparr>db_trace = trace, db_session = gc_session ctx,
                  db_decision = decision_id, db_lease = gc_lease ctx, db_state_version = gc_state_version ctx,
                  db_generation = gc_generation ctx, db_ttl = ttl_of a\<rparr> a) of
             None \<Rightarrow> Inl (Value_Error ''decision does not fit its contract'')
           | Some d \<Rightarrow>
               (let body = dump_decision d; text = canonical_json_bytes body in
                Inr \<lparr>fz_body = body, fz_bytes = text, fz_hash = hex text\<rparr>)))"

section \<open>The target of a movement\<close>

definition with_target :: "call_action \<Rightarrow> coordinates \<Rightarrow> call_action" where
  "with_target c at = c\<lparr>ca_arguments := AList.update ''target'' (as_arguments at) (ca_arguments c)\<rparr>"

text \<open>The request bodies of the recent actions of a plan.\<close>

definition recent_bodies :: "(decision_row \<times> call_row option) list \<Rightarrow> json list" where
  "recent_bodies = map (\<lambda>(d, _). d_body d)"

definition finalize_move_to_action ::
  "digest \<Rightarrow> scene_catalog option \<Rightarrow> claimed_event \<Rightarrow> gateway_context \<Rightarrow> activity_context option \<Rightarrow> gateway_action \<Rightarrow>
   allocator \<Rightarrow> (db_error + gateway_action) \<times> allocator" where
  "finalize_move_to_action sha256 catalog ev ctx activity action al =
     (let safe = or_selection_error (safe_unavailable_skill_action ctx) in
      case action of
        Call c \<Rightarrow>
          if ca_skill c \<noteq> ''move_to'' then (Inr action, al)
          else (case catalog of
             None \<Rightarrow> (safe, al)
           | Some ts \<Rightarrow>
               (case (scene_id_from_snapshot (gc_snapshot ctx), map_of (ca_arguments c) ''target'') of
                  (Inl er, _) \<Rightarrow> (Inl er, al)
                | (Inr (Some scene), Some (JObj target)) \<Rightarrow>
                    (case trusted_movement_target_for_coordinates ts scene (JObj target) of
                       None \<Rightarrow> (safe, al)
                     | Some trusted \<Rightarrow>
                         (case allocate (ce_gateway ev) (gc_session ctx) (ce_event_id ev) scene (gc_generation ctx)
                             (ev_occurred_at (ce_body ev))
                             (select_candidates (digest_number sha256) ts scene
                               (role_identity_from_snapshot (gc_snapshot ctx) (gc_session ctx))
                               (case activity of None \<Rightarrow> 1 | Some a \<Rightarrow> pl_version (ax_plan a))
                               (max 1 (length (movement_targets_for_scene ts scene)))
                               (case activity of None \<Rightarrow> [] | Some a \<Rightarrow> recent_bodies (ax_actions a)))
                             (Some (tg_id trusted)) al of
                            Inl er \<Rightarrow> (Inl (Value_Error er), al)
                          | Inr (None, al) \<Rightarrow> (safe, al)
                          | Inr (Some t, al) \<Rightarrow>
                              let d = with_target c (tg_at t) in
                              (if skill_is_permitted sha256 ctx d then Inr (Call d) else safe, al)))
                | _ \<Rightarrow> (safe, al)))
      | _ \<Rightarrow> (Inr action, al))"

end
