(* ===== verification/ActionFacts.thy ===== *)
theory ActionFacts
  imports ActionPlanning
begin

text \<open>
  Every choice of an action is permitted by the lease, and freezing a permitted action keeps it.
\<close>

section \<open>Normalising\<close>

lemma normalize_action_of [simp]: "action_of (normalize_gateway_v2_action sha256 ctx a) = action_of a"
  by (cases a) (auto simp: normalize_gateway_v2_action_def split: option.splits)

lemma specialized_same:
  "specialized_arguments_for_context sha256 ctx skill schema = Some args \<Longrightarrow> schema = ''v1''"
  by (auto simp: specialized_arguments_for_context_def split: if_splits)

lemma normalize_idem [simp]:
  "normalize_gateway_v2_action sha256 ctx (normalize_gateway_v2_action sha256 ctx a) =
   normalize_gateway_v2_action sha256 ctx a"
  by (cases a) (auto simp: normalize_gateway_v2_action_def split: option.splits)

text \<open>An action is settled when normalising leaves it as it is.\<close>

abbreviation settled :: "digest \<Rightarrow> gateway_context \<Rightarrow> gateway_action \<Rightarrow> bool" where
  "settled sha256 ctx a \<equiv> normalize_gateway_v2_action sha256 ctx a = a"

definition authorised :: "digest \<Rightarrow> gateway_context \<Rightarrow> gateway_action \<Rightarrow> bool" where
  "authorised sha256 ctx a \<longleftrightarrow> permitted sha256 ctx a \<and> settled sha256 ctx a"

lemma settled_other: "(\<And>c. a \<noteq> Call c) \<Longrightarrow> settled sha256 ctx a"
  by (cases a) (auto simp: normalize_gateway_v2_action_def)

lemma first_allowed_authorised:
  assumes "first_allowed reason w kinds ctx = Some a" and "A_call_skill \<notin> set kinds"
  shows "authorised sha256 ctx a"
proof -
  from assms obtain k where k: "a = resting_action reason w k" "k \<in> set kinds"
    by (auto simp: first_allowed_def find_Some_iff)
  with assms(2) have "\<And>c. a \<noteq> Call c" by (cases k) auto
  with first_allowed_permitted[OF assms] show ?thesis by (simp add: authorised_def settled_other)
qed

lemma safe_authorised: "safe_unavailable_skill_action ctx = Some a \<Longrightarrow> authorised sha256 ctx a"
  unfolding safe_unavailable_skill_action_def by (erule first_allowed_authorised) simp

lemma deferred_authorised: "defer_unresolvable_activity_step ctx = Some a \<Longrightarrow> authorised sha256 ctx a"
  unfolding defer_unresolvable_activity_step_def by (erule first_allowed_authorised) simp

lemma deadline_authorised: "decision_deadline_fallback sha256 ctx = Some a \<Longrightarrow> authorised sha256 ctx a"
  unfolding decision_deadline_fallback_def by (erule first_allowed_authorised) simp

lemma forced_wait_authorised: "forced_wait_action ctx w = Some a \<Longrightarrow> authorised sha256 ctx a"
  unfolding forced_wait_action_def by (erule first_allowed_authorised) simp

section \<open>Skill calls\<close>

lemma make_call_SomeD:
  "make_call skill schema args reason = Some c \<Longrightarrow>
   ca_skill c = skill \<and> ca_schema c = schema \<and> ca_arguments c = args"
  by (auto simp: make_call_def Let_def split: if_splits)

lemma activity_skill_action_SomeD:
  assumes "activity_skill_action sha256 ctx skill schema reason catalog target override = Inr (Some c)"
  shows "ca_skill c = skill \<and> skill_is_permitted sha256 ctx c \<and> authorised sha256 ctx (Call c)"
proof -
  from assms obtain args where
    c: "make_call skill schema args reason = Some c" "skill_is_permitted sha256 ctx c"
    and args: "skill \<in> set SPECIALIZED_ARGUMENT_SKILLS \<longrightarrow>
        specialized_arguments_for_context sha256 ctx skill schema = Some args"
    unfolding activity_skill_action_def
    by (auto split: option.splits sum.splits if_splits)
  from make_call_SomeD[OF c(1)] args have "settled sha256 ctx (Call c)"
    by (auto simp: normalize_gateway_v2_action_def split: option.splits)
  with c make_call_SomeD[OF c(1)] show ?thesis by (simp add: authorised_def)
qed

lemma activity_skill_authorised:
  "activity_skill_action sha256 ctx skill schema reason catalog target override = Inr (Some c) \<Longrightarrow>
   authorised sha256 ctx (Call c)"
  using activity_skill_action_SomeD by blast

lemma initial_room_authorised:
  "initial_room_transition_action sha256 repr ctx = Some c \<Longrightarrow> authorised sha256 ctx (Call c)"
  unfolding initial_room_transition_action_def Let_def
  by (auto simp: authorised_def normalize_gateway_v2_action_def SPECIALIZED_ARGUMENT_SKILLS_def find_Some_iff
      dest!: make_call_SomeD split: if_splits option.splits)

lemma planned_authorised:
  "planned_activity_action sha256 ctx plan catalog = Inr (Some a) \<Longrightarrow> authorised sha256 ctx a"
  unfolding planned_activity_action_def
  by (auto split: sum.splits option.splits elim!: first_allowed_authorised dest!: activity_skill_authorised)
    (auto simp: map_sum_def split: sum.splits dest!: activity_skill_authorised)

lemma first_local_authorised:
  "first_local_action sha256 repr ctx reason catalog version skills = Inr (Some c) \<Longrightarrow> authorised sha256 ctx (Call c)"
  by (induction skills) (auto split: sum.splits option.splits if_splits dest: activity_skill_authorised)

lemma local_authorised:
  "lease_authorized_local_activity_action sha256 repr weigh ctx reason snapshot catalog version excluded = Inr (Some c) \<Longrightarrow>
   authorised sha256 ctx (Call c)"
  by (auto simp: lease_authorized_local_activity_action_def Let_def split: if_splits dest: first_local_authorised)

lemma first_forced_authorised:
  "first_forced_action sha256 ctx skills = Inr (Some c) \<Longrightarrow> authorised sha256 ctx (Call c)"
  by (induction skills) (auto split: sum.splits option.splits dest: activity_skill_authorised)

lemma or_selection_error_InrD: "or_selection_error x = Inr a \<Longrightarrow> x = Some a"
  by (auto simp: or_selection_error_def split: option.splits)

lemma forced_test_authorised:
  "forced_test_skill_action sha256 ev ctx skills = Inr a \<Longrightarrow> authorised sha256 ctx a"
  unfolding forced_test_skill_action_def
  by (auto split: sum.splits option.splits dest!: first_forced_authorised or_selection_error_InrD
      elim!: first_allowed_authorised)

section \<open>The model's proposals\<close>

lemma select_candidate_SomeD:
  "select_candidate sha256 ctx cs = Some a \<Longrightarrow>
   authorised sha256 ctx a \<and> (\<exists>c \<in> set cs. a = normalize_gateway_v2_action sha256 ctx c)"
  by (induction cs) (auto simp: authorised_def Let_def split: if_splits)

lemma select_candidate_NoneD:
  "select_candidate sha256 ctx cs = None \<longleftrightarrow>
   (\<forall>c \<in> set cs. \<not> permitted sha256 ctx (normalize_gateway_v2_action sha256 ctx c))"
  by (induction cs) (auto simp: Let_def)

lemma selected_authorised:
  assumes "select_gateway_v2_action sha256 ctx cs = Some a"
  shows "authorised sha256 ctx a"
proof (cases "select_candidate sha256 ctx cs")
  case None
  with assms show ?thesis
    by (simp add: select_gateway_v2_action_def first_allowed_authorised)
next
  case (Some b)
  with assms select_candidate_SomeD[OF Some] show ?thesis by (simp add: select_gateway_v2_action_def)
qed

lemma decided_authorised: "decide sha256 ctx r = Inr a \<Longrightarrow> authorised sha256 ctx a"
  by (cases r) (auto simp: gateway_v2_select_action_node_def authorised_def
      split: sum.splits if_splits option.splits dest!: selected_authorised)

section \<open>Movement targets\<close>

lemma finalize_authorised:
  assumes "finalize_move_to_action sha256 catalog ev ctx activity action al = (Inr a, al')"
    and "authorised sha256 ctx action"
  shows "authorised sha256 ctx a"
proof -
  have move: "settled sha256 ctx (Call (with_target c at))" if "ca_skill c = ''move_to''" for c at
    using that by (simp add: normalize_gateway_v2_action_def with_target_def SPECIALIZED_ARGUMENT_SKILLS_def)
  from assms show ?thesis
    unfolding finalize_move_to_action_def Let_def
    by (auto simp: authorised_def[of _ _ "Call (with_target _ _)"] move
        split: gateway_action.splits option.splits sum.splits json.splits if_splits prod.splits
        dest!: or_selection_error_InrD intro: safe_authorised)
qed

section \<open>Freezing\<close>

text \<open>An authorised action passes the last check of the freezing as it is.\<close>

lemma freezable_authorised: "authorised sha256 ctx a \<Longrightarrow> freezable_action sha256 ctx a = Some a"
  by (cases a) (auto simp: freezable_action_def authorised_def)

fun dumped_action :: "decision_base \<Rightarrow> gateway_action \<Rightarrow> wire_decision" where
  "dumped_action b (Call c) =
     Call_skill_decision b (ca_skill c) (ca_schema c) (deep_freeze (JObj (ca_arguments c)))"
| "dumped_action b (Wait_action _ _ w) = Wait_decision b w"
| "dumped_action b (No_op_action _ _) = No_op_decision b"
| "dumped_action b (Stop_action _ _) = Stop_hosting_decision b"

lemma decision_payload_dump: "decision_payload b a = dump_decision (dumped_action b a)"
  by (cases a) (simp_all del: deep_freeze.simps)

end
