(* ===== verification/DecisionPlanner.thy ===== *)
theory DecisionPlanner
  imports ActionFacts EventDispatcher
begin

text \<open>
  \<open>GatewayV2DecisionPlanner\<close> (\<open>decision_service.py\<close>): from the lease an event carries to a planned
  decision.  The state is the database and the allocator of movement targets.  An exception that leaves
  \<open>_plan\<close> is an outcome other than \<open>Planned\<close>; token accounting, the audit record and logging are left out.
\<close>

section \<open>The planner and its collaborators\<close>

text \<open>The activity coordinator's three ways to get the plan; an error comes without a database.\<close>

type_synonym preparation =
  "claimed_event \<Rightarrow> gateway_context \<Rightarrow> db \<Rightarrow> activity_error + activity_context option \<times> db"

record coordinator =
  co_resume :: preparation
  co_deterministic :: preparation
  co_prepare :: preparation

text \<open>
  \<open>pn_ids\<close> are the decision ids the factory draws, one per planning attempt, \<open>pn_hex\<close> the digest of a
  body, \<open>pn_reason\<close> what the graph's model proposes, \<open>pn_capacity_down\<close> whether reading the occupancy fails.
\<close>

record decision_planner =
  pn_sha :: digest
  pn_hex :: "string \<Rightarrow> string"
  pn_repr :: "json \<Rightarrow> string"
  pn_weigh :: weigher
  pn_outbox :: outbox_config
  pn_ids :: "nat \<Rightarrow> string"
  pn_reason :: "gateway_context \<Rightarrow> activity_context option \<Rightarrow> reasoning"
  pn_coordinator :: "coordinator option"
  pn_catalog :: "scene_catalog option"
  pn_force_skills :: "string list"
  pn_force_wait :: bool
  pn_force_wait_ms :: int
  pn_target_ms :: "int option"
  pn_capacity :: "capacity_policy option"
  pn_capacity_down :: bool

definition planner_config_error :: "decision_planner \<Rightarrow> string option" where
  "planner_config_error p =
     (if pred_option (\<lambda>t. 0 < t) (pn_target_ms p) then
        (if pn_force_wait_ms p \<le> 0 then Some ''force_wait_ms must be positive''
         else if pn_force_wait p \<and> pn_force_skills p \<noteq> []
         then Some ''force_action and force_skills are mutually exclusive'' else None)
      else Some ''decision_target_seconds must be positive'')"

section \<open>The context and the action on the repository's side\<close>

definition prompt_payload :: "gateway_context \<Rightarrow> json" where
  "prompt_payload ctx = JObj
     [(''eventId'', JStr (gc_event ctx)), (''sessionId'', JStr (gc_session ctx)),
      (''controlGeneration'', JInt (gc_generation ctx)), (''eventSequence'', JInt (gc_sequence ctx)),
      (''decisionLeaseId'', JStr (gc_lease ctx)), (''stateVersion'', JInt (gc_state_version ctx)),
      (''leaseKind'', JStr (gc_lease_kind ctx)),
      (''allowedDecisionActions'', JArr (map (\<lambda>a. JStr (action_name a)) (gc_actions ctx))),
      (''parentSkillName'', dump_nullable JStr (gc_parent ctx)), (''allowedSkillName'', dump_nullable JStr (gc_skill ctx)),
      (''allowedSkillNames'', JArr (map JStr (gc_skills ctx))), (''session'', gc_snapshot ctx),
      (''availableSkills'', JArr (map dump_skill (gc_available ctx))),
      (''skillArgumentHints'', JArr (map dump_hint (gc_hints ctx))),
      (''terminalResult'', dump_nullable id (gc_terminal ctx))]"

definition repository_context :: "gateway_context \<Rightarrow> agent_context" where
  "repository_context ctx = \<lparr>ctx_event_id = gc_event ctx, ctx_session = gc_session ctx, ctx_gen = gc_generation ctx,
     ctx_seq = gc_sequence ctx, ctx_state_version = gc_state_version ctx, ctx_lease = gc_lease ctx,
     ctx_payload = prompt_payload ctx\<rparr>"

fun dump_action :: "gateway_action \<Rightarrow> json" where
  "dump_action (Call c) = JObj
     [(''reason'', JStr (ca_reason c)), (''ttlMs'', JInt (ca_ttl c)), (''action'', JStr ''call_skill''),
      (''skillName'', JStr (ca_skill c)), (''schemaVersion'', JStr (ca_schema c)), (''arguments'', JObj (ca_arguments c)),
      (''userId'', dump_nullable JStr (ca_user c)), (''actionType'', dump_nullable JStr (ca_type c)),
      (''goalMetric'', dump_nullable JStr (ca_metric c)), (''goalValue'', dump_nullable JInt (ca_goal c)),
      (''baselineValue'', dump_nullable JInt (ca_baseline c)), (''expectedHours'', dump_nullable JInt (ca_hours c))]"
| "dump_action (Wait_action r t w) =
     JObj [(''reason'', JStr r), (''ttlMs'', JInt t), (''action'', JStr ''wait''), (''waitMs'', JInt w)]"
| "dump_action (No_op_action r t) = JObj [(''reason'', JStr r), (''ttlMs'', JInt t), (''action'', JStr ''no_op'')]"
| "dump_action (Stop_action r t) = JObj [(''reason'', JStr r), (''ttlMs'', JInt t), (''action'', JStr ''stop_hosting'')]"

fun repository_action :: "gateway_action \<Rightarrow> agent_action" where
  "repository_action (Call c) = \<lparr>aa_action = A_call_skill, aa_skill = ca_skill c, aa_tracking = tracking_metadata c,
     aa_dump = dump_action (Call c)\<rparr>"
| "repository_action a = \<lparr>aa_action = action_of a, aa_skill = [], aa_tracking = None, aa_dump = dump_action a\<rparr>"

lemma repository_action_kind [simp]: "aa_action (repository_action a) = action_of a"
  by (cases a) simp_all

section \<open>Choosing an action\<close>

text \<open>A stage leaves the choice open (\<open>Inr None\<close>), makes it, or ends the planning (\<open>Inl\<close>).\<close>

type_synonym choice = "planner_outcome + gateway_action option"

definition otherwise :: "choice \<Rightarrow> choice \<Rightarrow> choice" where
  "otherwise x y = (case x of Inr None \<Rightarrow> y | _ \<Rightarrow> x)"

definition agent_failure :: "string \<Rightarrow> planner_outcome" where
  "agent_failure category = Planned (retryable ''agent'' category)"

fun raising :: "db_error + 'a \<Rightarrow> planner_outcome + 'a" where
  "raising (Inl _) = Inl Planner_failed"
| "raising (Inr x) = Inr x"

definition deadline_reached :: "decision_planner \<Rightarrow> msec \<Rightarrow> claimed_event \<Rightarrow> bool" where
  "deadline_reached p now ev \<longleftrightarrow>
     (case pn_target_ms p of None \<Rightarrow> False | Some target \<Rightarrow> target \<le> now - ev_occurred_at (ce_body ev))"

definition undirected :: "decision_planner \<Rightarrow> bool" where
  "undirected p \<longleftrightarrow> pn_force_skills p = [] \<and> \<not> pn_force_wait p"

definition initial_choice :: "decision_planner \<Rightarrow> msec \<Rightarrow> claimed_event \<Rightarrow> gateway_context \<Rightarrow> call_action option" where
  "initial_choice p now ev ctx =
     (if \<not> deadline_reached p now ev \<or> pn_force_wait p
      then initial_room_transition_action (pn_sha p) (pn_repr p) ctx else None)"

definition obtain_activity ::
  "decision_planner \<Rightarrow> msec \<Rightarrow> claimed_event \<Rightarrow> gateway_context \<Rightarrow> db \<Rightarrow> activity_error + activity_context option \<times> db" where
  "obtain_activity p now ev ctx s =
     (case (if undirected p then pn_coordinator p else None) of
        None \<Rightarrow> Inr (None, s)
      | Some co \<Rightarrow>
          if initial_choice p now ev ctx \<noteq> None then co_deterministic co ev ctx s
          else if deadline_reached p now ev then co_resume co ev ctx s
          else co_prepare co ev ctx s)"

definition forced_skill_stage :: "decision_planner \<Rightarrow> claimed_event \<Rightarrow> gateway_context \<Rightarrow> choice" where
  "forced_skill_stage p ev ctx =
     (if pn_force_skills p = [] then Inr None
      else raising (map_sum id Some (forced_test_skill_action (pn_sha p) ev ctx (pn_force_skills p))))"

definition forced_wait_stage :: "decision_planner \<Rightarrow> gateway_context \<Rightarrow> choice" where
  "forced_wait_stage p ctx =
     (if \<not> pn_force_wait p then Inr None
      else case forced_wait_action ctx (pn_force_wait_ms p) of
        None \<Rightarrow> Inl (Planned (manual ''decision'' ''forced_action_not_authorized''))
      | Some a \<Rightarrow> Inr (Some a))"

definition activity_stage :: "decision_planner \<Rightarrow> gateway_context \<Rightarrow> activity_context option \<Rightarrow> choice" where
  "activity_stage p ctx activity =
     (case activity of
        None \<Rightarrow> Inr None
      | Some ax \<Rightarrow>
          (case raising (planned_activity_action (pn_sha p) ctx (ax_plan ax) (pn_catalog p)) of
             Inl out \<Rightarrow> Inl out
           | Inr (Some a) \<Rightarrow> Inr (Some a)
           | Inr None \<Rightarrow>
               (case raising (current_plan_step (ax_plan ax)) of
                  Inl out \<Rightarrow> Inl out
                | Inr step \<Rightarrow>
                    if st_skill step = None then Inr None
                    else (case defer_unresolvable_activity_step ctx of
                            None \<Rightarrow> Inl (agent_failure ''activity_step_unresolvable'')
                          | Some a \<Rightarrow> Inr (Some a)))))"

definition local_action :: "decision_planner \<Rightarrow> gateway_context \<Rightarrow> string \<Rightarrow> planner_outcome + call_action option" where
  "local_action p ctx reason = raising
     (lease_authorized_local_activity_action (pn_sha p) (pn_repr p) (pn_weigh p) ctx reason None None 1 [])"

definition deadline_stage :: "decision_planner \<Rightarrow> msec \<Rightarrow> claimed_event \<Rightarrow> gateway_context \<Rightarrow> choice" where
  "deadline_stage p now ev ctx =
     (if \<not> deadline_reached p now ev then Inr None
      else case local_action p ctx ''Continue with a lease-authorized local activity after queue delay'' of
        Inl out \<Rightarrow> Inl out
      | Inr (Some c) \<Rightarrow> Inr (Some (Call c))
      | Inr None \<Rightarrow> (case decision_deadline_fallback (pn_sha p) ctx of
            None \<Rightarrow> Inl (agent_failure ''deadline_exceeded'') | Some a \<Rightarrow> Inr (Some a)))"

definition model_stage ::
  "decision_planner \<Rightarrow> claimed_event \<Rightarrow> gateway_context \<Rightarrow> activity_context option \<Rightarrow> db \<Rightarrow> choice" where
  "model_stage p ev ctx activity s =
     (case is_event_fence_current ev (repository_context ctx) s of
        Inl _ \<Rightarrow> Inl Planner_failed
      | Inr False \<Rightarrow> Inl (Planned (manual ''fence'' ''model_call_skipped''))
      | Inr True \<Rightarrow>
          (case decide (pn_sha p) ctx (pn_reason p ctx activity) of
             Inr a \<Rightarrow> Inr (Some a)
           | Inl category \<Rightarrow>
               if category \<notin> {''timeout'', ''overloaded'', ''deadline_exceeded''} then Inl (agent_failure category)
               else (case local_action p ctx
                     ''Continue with a lease-authorized local activity while model capacity is saturated'' of
                   Inl out \<Rightarrow> Inl out
                 | Inr (Some c) \<Rightarrow> Inr (Some (Call c))
                 | Inr None \<Rightarrow>
                     if A_wait \<notin> set (gc_actions ctx) then Inl (agent_failure category)
                     else Inr (Some (Wait_action ''Agent unavailable; defer decision within the current lease''
                       DEFAULT_TTL_MS (staggered_wait_ms (pn_sha p) ctx))))))"

definition choose_action ::
  "decision_planner \<Rightarrow> msec \<Rightarrow> claimed_event \<Rightarrow> gateway_context \<Rightarrow> activity_context option \<Rightarrow> db \<Rightarrow> choice" where
  "choose_action p now ev ctx activity s =
     otherwise (Inr (map_option Call (initial_choice p now ev ctx)))
     (otherwise (forced_skill_stage p ev ctx)
     (otherwise (forced_wait_stage p ctx)
     (otherwise (activity_stage p ctx activity)
     (otherwise (deadline_stage p now ev ctx)
     (model_stage p ev ctx activity s)))))"

text \<open>
  A skill call that is not the one of the current step gives way to waiting or doing nothing, where
  the lease allows it.
\<close>

definition keep_to_step :: "gateway_context \<Rightarrow> activity_context option \<Rightarrow> gateway_action \<Rightarrow> planner_outcome + gateway_action" where
  "keep_to_step ctx activity action =
     (case (activity, action) of
        (Some ax, Call c) \<Rightarrow>
          (case raising (current_plan_step (ax_plan ax)) of
             Inl out \<Rightarrow> Inl out
           | Inr step \<Rightarrow>
               if st_skill step = Some (ca_skill c) then Inr action
               else (case first_allowed ''Current activity step is not authorized by this lease'' 1000
                   [A_wait, A_no_op] ctx of
                 None \<Rightarrow> Inr action | Some a \<Rightarrow> Inr a))
      | _ \<Rightarrow> Inr action)"

section \<open>Planning it\<close>

definition plan_action ::
  "decision_planner \<Rightarrow> msec \<Rightarrow> nat \<Rightarrow> claimed_event \<Rightarrow> gateway_context \<Rightarrow> gateway_action \<Rightarrow> activity_binding option \<Rightarrow>
   db \<Rightarrow> (plan_error + planned_decision) \<times> db" where
  "plan_action p now k ev ctx action binding s =
     plan_decision now (pn_outbox p)
       (\<lambda>i trace _ _. freeze_gateway_v2_decision (pn_sha p) (pn_hex p) i trace ctx action)
       (pn_ids p k) ev (repository_context ctx) (repository_action action) binding s"

fun plan_failure_outcome :: "plan_error \<Rightarrow> planner_outcome" where
  "plan_failure_outcome Plan_fenced = Planned (manual ''fence'' ''model_result_discarded'')"
| "plan_failure_outcome (Plan_conflict category) = Planned (manual ''plan'' category)"
| "plan_failure_outcome plan_error.Plan_unavailable = Planned (retryable ''database'' ''plan_unavailable'')"
| "plan_failure_outcome _ = Planner_failed"

definition plan_outcome :: "plan_error + planned_decision \<Rightarrow> planner_outcome" where
  "plan_outcome r = (case r of Inl er \<Rightarrow> plan_failure_outcome er | Inr _ \<Rightarrow> Planned succeeded)"

definition refreshed_capacity ::
  "decision_planner \<Rightarrow> msec \<Rightarrow> claimed_event \<Rightarrow> gateway_context \<Rightarrow> db \<Rightarrow> planner_outcome + activity_capacity_snapshot option" where
  "refreshed_capacity p now ev ctx s =
     (case pn_capacity p of
        None \<Rightarrow> Inr None
      | Some policy \<Rightarrow>
          if pn_capacity_down p then Inr None
          else raising (map_sum id Some (capacity_snapshot policy now (ce_gateway ev) (gc_snapshot ctx) s)))"

text \<open>Elsewhere, when the activity is full; a plan for a fallback is bound to no step.\<close>

definition fallback_choice ::
  "decision_planner \<Rightarrow> msec \<Rightarrow> claimed_event \<Rightarrow> gateway_context \<Rightarrow> activity_context option \<Rightarrow> string \<Rightarrow> db \<Rightarrow> choice" where
  "fallback_choice p now ev ctx activity full s =
     (case refreshed_capacity p now ev ctx s of
        Inl out \<Rightarrow> Inl out
      | Inr snapshot \<Rightarrow>
          (case raising (lease_authorized_local_activity_action (pn_sha p) (pn_repr p) (pn_weigh p) ctx
               (full @ '' reached its configured capacity; continue elsewhere'') snapshot (pn_catalog p)
               (case activity of None \<Rightarrow> 1 | Some ax \<Rightarrow> pl_version (ax_plan ax)) [full]) of
             Inl out \<Rightarrow> Inl out
           | Inr (Some c) \<Rightarrow> Inr (Some (Call c))
           | Inr None \<Rightarrow> (case decision_deadline_fallback (pn_sha p) ctx of
               None \<Rightarrow> Inl Planner_failed | Some a \<Rightarrow> Inr (Some a))))"

definition plan_wait ::
  "decision_planner \<Rightarrow> msec \<Rightarrow> claimed_event \<Rightarrow> gateway_context \<Rightarrow> db \<Rightarrow> planner_outcome \<times> db" where
  "plan_wait p now ev ctx s =
     (case decision_deadline_fallback (pn_sha p) ctx of
        None \<Rightarrow> (Planner_failed, s)
      | Some wait \<Rightarrow> (case plan_action p now 2 ev ctx wait None s of (r, t) \<Rightarrow> (plan_outcome r, t)))"

definition plan_fallback ::
  "decision_planner \<Rightarrow> msec \<Rightarrow> claimed_event \<Rightarrow> gateway_context \<Rightarrow> activity_context option \<Rightarrow> string \<Rightarrow> db \<times> allocator \<Rightarrow>
   planner_outcome \<times> db \<times> allocator" where
  "plan_fallback p now ev ctx activity full st =
     (case st of (s, al) \<Rightarrow>
        (case fallback_choice p now ev ctx activity full s of
           Inl out \<Rightarrow> (out, s, al)
         | Inr None \<Rightarrow> (Planner_failed, s, al)
         | Inr (Some a) \<Rightarrow>
             (case finalize_move_to_action (pn_sha p) (pn_catalog p) ev ctx activity a al of
                (Inl _, al) \<Rightarrow> (Planner_failed, s, al)
              | (Inr a, al) \<Rightarrow>
                  (case plan_action p now 1 ev ctx a None s of
                     (Inl (Plan_capacity_full skill key limit), t) \<Rightarrow>
                       (case plan_wait p now ev ctx t of (out, u) \<Rightarrow> (out, u, al))
                   | (r, t) \<Rightarrow> (plan_outcome r, t, al)))))"

definition plan_chosen ::
  "decision_planner \<Rightarrow> msec \<Rightarrow> claimed_event \<Rightarrow> gateway_context \<Rightarrow> activity_context option \<Rightarrow> gateway_action \<Rightarrow>
   db \<times> allocator \<Rightarrow> planner_outcome \<times> db \<times> allocator" where
  "plan_chosen p now ev ctx activity action st =
     (case st of (s, al) \<Rightarrow>
        (case finalize_move_to_action (pn_sha p) (pn_catalog p) ev ctx activity
             (normalize_gateway_v2_action (pn_sha p) ctx action) al of
           (Inl _, al) \<Rightarrow> (Planner_failed, s, al)
         | (Inr a, al) \<Rightarrow>
             (case plan_action p now 0 ev ctx a (map_option ax_binding activity) s of
                (Inl (Plan_capacity_full skill key limit), t) \<Rightarrow> plan_fallback p now ev ctx activity skill (t, al)
              | (r, t) \<Rightarrow> (plan_outcome r, t, al))))"

definition plan_with_account ::
  "decision_planner \<Rightarrow> msec \<Rightarrow> claimed_event \<Rightarrow> gateway_context \<Rightarrow> db \<times> allocator \<Rightarrow> planner_outcome \<times> db \<times> allocator" where
  "plan_with_account p now ev ctx st =
     (case st of (s, al) \<Rightarrow>
        (case obtain_activity p now ev ctx s of
           Inl activity_error.Plan_unavailable \<Rightarrow> (Planner_plan_unavailable, s, al)
         | Inl (Activity_raised _) \<Rightarrow> (Planner_failed, s, al)
         | Inr (activity, t) \<Rightarrow>
             (case choose_action p now ev ctx activity t of
                Inl out \<Rightarrow> (out, t, al)
              | Inr None \<Rightarrow> (agent_failure ''empty_output'', t, al)
              | Inr (Some a) \<Rightarrow>
                  (case keep_to_step ctx activity a of
                     Inl out \<Rightarrow> (out, t, al)
                   | Inr a \<Rightarrow> plan_chosen p now ev ctx activity a (t, al)))))"

definition has_account :: "gateway_context \<Rightarrow> bool" where
  "has_account ctx \<longleftrightarrow> non_blank_text (get_or (gc_snapshot ctx) ''AccountId'' ''accountId'')"

definition plan ::
  "decision_planner \<Rightarrow> msec \<Rightarrow> claimed_event \<Rightarrow> gateway_context \<Rightarrow> db \<times> allocator \<Rightarrow> planner_outcome \<times> db \<times> allocator" where
  "plan p now ev ctx st =
     (case st of (s, al) \<Rightarrow>
        (case find_by_source_event ev s of
           Inl er \<Rightarrow> (plan_failure_outcome er, s, al)
         | Inr (Some _) \<Rightarrow> (Planned succeeded, s, al)
         | Inr None \<Rightarrow>
             if \<not> has_account ctx then (Planned (manual ''agent'' ''missing_account_id''), s, al)
             else if gc_lease_kind ctx = ''conversation''
             then (Planned (manual ''chat'' ''conversation_lease_not_supported''), s, al)
             else plan_with_account p now ev ctx (s, al)))"

end
