(* ===== verification/ActivityPlanner.thy ===== *)
theory ActivityPlanner
  imports ActionPlanning DecisionPlanner
begin

text \<open>
  \<open>activity_planner.py\<close>: the coordinator that loads the plan of a session, keeps it while its current
  step can be carried out, and otherwise has a new one proposed by the model or falls back to a plan made
  of the skills the gateway publishes.  The model's proposal, the digest, the floating point order
  \<open>weigh\<close> and the fresh plan id are parameters; prompts, metrics and logging are left out.
\<close>

section \<open>Configuration\<close>

type_synonym history = "(decision_row \<times> call_row option) list"

record coordinator_config =
  cc_sha :: digest
  cc_repr :: "json \<Rightarrow> string"
  cc_weigh :: weigher
  cc_generate :: "gateway_context \<Rightarrow> activity_snapshot \<Rightarrow> plan_proposal option"
  cc_plan_id :: "claimed_event \<Rightarrow> string"
  cc_authorize :: "gateway_context \<Rightarrow> string \<Rightarrow> string \<Rightarrow> bool"
  cc_catalog :: "scene_catalog option"
  cc_capacity :: "capacity_policy option"
  cc_capacity_down :: bool
  cc_now :: msec

definition SAFE_FALLBACK_SKILL_ORDER :: "string list" where
  "SAFE_FALLBACK_SKILL_ORDER =
     [''dance_auto_schedule'', ''hot_air_balloon_auto_schedule'', ''coffee_auto_schedule'', ''darts_auto_schedule'',
      ''shooting_auto_schedule'', ''paper_plane_auto_schedule'', ''draw_lots_auto_schedule'',
      ''wish_board_auto_schedule'', ''helicopter_auto_schedule'', ''elevator_auto_schedule'', ''seat_sit'', ''sign_in'',
      ''jump'', ''observe_state'', ''play_action'', ''move_to'', ''stop_move'', ''hot_air_balloon_exit'',
      ''helicopter_exit'', ''scene_tornado'', ''seat_get_out'']"

definition ROLE_DIVERSITY_SKILL_ORDER :: "string list" where
  "ROLE_DIVERSITY_SKILL_ORDER =
     [''dance_auto_schedule'', ''hot_air_balloon_auto_schedule'', ''coffee_auto_schedule'', ''darts_auto_schedule'',
      ''shooting_auto_schedule'', ''paper_plane_auto_schedule'', ''draw_lots_auto_schedule'',
      ''wish_board_auto_schedule'', ''helicopter_auto_schedule'', ''elevator_auto_schedule'', ''seat_sit'', ''sign_in'',
      ''play_action'', ''jump'']"

section \<open>The role\<close>

text \<open>The code points of a text given as UTF-8 bytes.\<close>

definition add_byte :: "nat list \<Rightarrow> char \<Rightarrow> nat list" where
  "add_byte acc c =
     (let b = (of_char c :: nat) in
      if 128 \<le> b \<and> b < 192 then (case acc of [] \<Rightarrow> [] | n # ns \<Rightarrow> (n * 64 + (b - 128)) # ns)
      else (if b < 128 then b else if b < 224 then b - 192 else if b < 240 then b - 224 else b - 240) # acc)"

definition code_points :: "string \<Rightarrow> nat list" where
  "code_points s = rev (foldl add_byte [] s)"

definition role_bucket :: "string \<Rightarrow> nat" where
  "role_bucket identity =
     (if trailing_digits identity \<noteq> [] then fst (parse_digits 0 (trailing_digits identity))
      else sum_list (map (\<lambda>(i, n). (i + 1) * n) (enumerate 0 (code_points identity))))"

definition stable_rotation :: "string \<Rightarrow> nat \<Rightarrow> nat" where
  "stable_rotation identity n = (if n = 0 then 0 else role_bucket identity mod n)"

definition rotated :: "nat \<Rightarrow> 'a list \<Rightarrow> 'a list" where
  "rotated n xs = drop n xs @ take n xs"

definition role_identity :: "gateway_context \<Rightarrow> string" where
  "role_identity ctx = role_identity_from_snapshot (gc_snapshot ctx) (gc_session ctx)"

definition role_profile_for_context :: "gateway_context \<Rightarrow> json" where
  "role_profile_for_context ctx =
     (let bucket = role_bucket (role_identity ctx);
          (profile, pace, preference) =
            [(''explorer'', ''varied'', ''prefer a new scene point before repeating an activity''),
             (''social'', ''balanced'', ''prefer social and plaza activities with occasional movement''),
             (''active'', ''fast'', ''prefer movement and transport before waiting''),
             (''leisure'', ''slow'', ''prefer relaxed activities and longer transitions'')] ! (bucket mod 4) in
      JObj [(''profileId'', JStr profile), (''profileSeed'', JInt (int bucket)), (''pace'', JStr pace),
        (''preference'', JStr preference), (''activityRotation'', JInt (int bucket))])"

definition is_lobby :: "(json \<Rightarrow> string) \<Rightarrow> json \<Rightarrow> bool" where
  "is_lobby repr snapshot \<longleftrightarrow>
     (case get_or snapshot ''SceneId'' ''sceneId'' of None \<Rightarrow> False | Some v \<Rightarrow> py_str repr v = ''1'') \<and>
     json_casefold_is (get_or snapshot ''SceneName'' ''sceneName'') ''lobby'' \<and>
     (case get_or snapshot ''NavigationAvailable'' ''navigationAvailable'' of
        None \<Rightarrow> False
      | Some v \<Rightarrow> list_ex (py_equal v) [JBool False, JStr ''false'', JStr ''False'', JInt 0])"

definition phase_for_skill :: "string \<Rightarrow> string" where
  "phase_for_skill skill =
     (if skill = ''scene_tornado'' then ''arrival''
      else if skill \<in> {''hot_air_balloon_auto_schedule'', ''helicopter_auto_schedule'', ''elevator_auto_schedule''}
      then ''transport''
      else if skill \<in> {''jump'', ''move_to'', ''stop_move''} then ''movement''
      else if skill \<in> {''hot_air_balloon_exit'', ''helicopter_exit'', ''seat_get_out''} then ''recovery''
      else ''activity'')"

definition scene_candidates_for_context ::
  "coordinator_config \<Rightarrow> gateway_context \<Rightarrow> int \<Rightarrow> history \<Rightarrow> nat \<Rightarrow> db_error + scene_target list" where
  "scene_candidates_for_context cfg ctx version recent limit =
     (case cc_catalog cfg of
        None \<Rightarrow> Inr []
      | Some ts \<Rightarrow>
          (case scene_id_from_snapshot (gc_snapshot ctx) of
             Inl er \<Rightarrow> Inl er
           | Inr None \<Rightarrow> Inr []
           | Inr (Some scene) \<Rightarrow>
               Inr (select_candidates (digest_number (cc_sha cfg)) ts scene (role_identity ctx) version limit
                 (recent_bodies recent))))"

definition first_target :: "scene_target list \<Rightarrow> string option" where
  "first_target ts = (case ts of [] \<Rightarrow> None | t # _ \<Rightarrow> Some (tg_id t))"

section \<open>The current step\<close>

definition catalog_step_is_permitted :: "gateway_context \<Rightarrow> string \<Rightarrow> string \<Rightarrow> bool" where
  "catalog_step_is_permitted ctx skill schema \<longleftrightarrow> A_call_skill \<in> set (gc_actions ctx) \<and>
     list_ex (\<lambda>a. as_name a = skill \<and> as_schema a = schema) (gc_available ctx)"

definition published :: "gateway_context \<Rightarrow> (string \<times> string) set" where
  "published ctx = set (map (\<lambda>a. (as_name a, as_schema a)) (gc_available ctx))"

definition with_capacity :: "activity_capacity_snapshot option \<Rightarrow> string \<Rightarrow> bool" where
  "with_capacity sn skill \<longleftrightarrow> pred_option (\<lambda>sn. activity_available sn skill) sn"

definition current_step_is_executable ::
  "coordinator_config \<Rightarrow> gateway_context \<Rightarrow> activity_plan \<Rightarrow> db_error + bool" where
  "current_step_is_executable cfg ctx p =
     (case current_plan_step p of
        Inl er \<Rightarrow> Inl er
      | Inr step \<Rightarrow>
          (case (st_skill step, st_schema step) of
             (None, _) \<Rightarrow> Inr True
           | (Some skill, None) \<Rightarrow> Inl (Runtime_Error ''AssertionError'')
           | (Some skill, Some schema) \<Rightarrow> Inr (cc_authorize cfg ctx skill schema)))"

definition current_step_is_resolvable ::
  "coordinator_config \<Rightarrow> gateway_context \<Rightarrow> activity_plan \<Rightarrow> db_error + bool" where
  "current_step_is_resolvable cfg ctx p =
     (case current_plan_step p of
        Inl er \<Rightarrow> Inl er
      | Inr step \<Rightarrow>
          (case (if st_skill step = Some ''move_to'' then cc_catalog cfg else None) of
             None \<Rightarrow> Inr True
           | Some ts \<Rightarrow>
               (case scene_id_from_snapshot (gc_snapshot ctx) of
                  Inl er \<Rightarrow> Inl er
                | Inr scene \<Rightarrow> Inr
                    (case (scene, Option.bind (st_target step) (get_movement_target ts)) of
                       (Some i, Some t) \<Rightarrow> tg_scene t = i | _ \<Rightarrow> False))))"

definition current_step_has_capacity :: "activity_plan \<Rightarrow> activity_capacity_snapshot option \<Rightarrow> db_error + bool" where
  "current_step_has_capacity p sn =
     (if sn = None then Inr True
      else map_sum id (\<lambda>step. pred_option (with_capacity sn) (st_skill step)) (current_plan_step p))"

text \<open>The conditions are checked one after the other; the first that fails or raises decides.\<close>

fun all_of :: "(db_error + bool) list \<Rightarrow> db_error + bool" where
  "all_of [] = Inr True"
| "all_of (Inl er # _) = Inl er"
| "all_of (Inr False # _) = Inr False"
| "all_of (Inr True # cs) = all_of cs"

definition is_active :: "activity_plan option \<Rightarrow> bool" where
  "is_active p \<longleftrightarrow> (case p of None \<Rightarrow> False | Some p \<Rightarrow> pl_status p = P_active)"

definition plan_is_usable ::
  "coordinator_config \<Rightarrow> gateway_context \<Rightarrow> activity_snapshot \<Rightarrow> activity_capacity_snapshot option \<Rightarrow> db_error + bool" where
  "plan_is_usable cfg ctx snapshot sn =
     (case as_plan snapshot of
        None \<Rightarrow> Inr False
      | Some p \<Rightarrow> all_of [Inr (is_active (Some p)), current_step_is_executable cfg ctx p,
          current_step_is_resolvable cfg ctx p, current_step_has_capacity p sn])"

text \<open>An active walk is given another target when a later event comes while it is the current step.\<close>

definition retarget_active_move_step ::
  "coordinator_config \<Rightarrow> claimed_event \<Rightarrow> gateway_context \<Rightarrow> activity_snapshot \<Rightarrow> db_error + activity_plan option" where
  "retarget_active_move_step cfg ev ctx snapshot =
     (case as_plan snapshot of
        None \<Rightarrow> Inr None
      | Some p \<Rightarrow>
          if pl_status p \<noteq> P_active then Inr None
          else (case (current_plan_step p, cc_catalog cfg) of
             (Inl er, _) \<Rightarrow> Inl er
           | (Inr step, Some ts) \<Rightarrow>
               if st_skill step \<noteq> Some ''move_to'' \<or> ce_seq ev \<le> as_last_sequence snapshot then Inr None
               else (let version = max (as_version snapshot) (pl_version p) + 1 in
                 case scene_id_from_snapshot (gc_snapshot ctx) of
                    Inl er \<Rightarrow> Inl er
                  | Inr scene \<Rightarrow>
                      let target = (case scene of
                          None \<Rightarrow> None
                        | Some i \<Rightarrow> map_option tg_id (find (\<lambda>t. Some (tg_id t) \<noteq> st_target step)
                            (select_candidates (digest_number (cc_sha cfg)) ts i (role_identity ctx) version
                              (max 1 (length (movement_targets_for_scene ts i))) (recent_bodies (as_actions snapshot))))) in
                      map_sum Value_Error Some (replace_move_target p (st_id step) target version))
           | _ \<Rightarrow> Inr None))"

section \<open>The fallback plan\<close>

text \<open>
  \<open>Inl None\<close> is \<open>ActivityPlanValidationError\<close>, \<open>Inl (Some e)\<close> another exception.  Every skill of the
  fallback has the schema version \<open>v1\<close>, so the lists hold skill names.
\<close>

type_synonym 'a planning = "db_error option + 'a"

definition fallback_available :: "coordinator_config \<Rightarrow> gateway_context \<Rightarrow> string option \<Rightarrow> (string \<times> string) set" where
  "fallback_available cfg ctx target =
     {i \<in> published ctx. fst i \<in> set CANONICAL_NON_CHAT_SKILLS} -
       (if cc_catalog cfg \<noteq> None \<and> target = None then {(''move_to'', ''v1'')} else {})"

definition fallback_ordered ::
  "(string \<times> string) set \<Rightarrow> bool \<Rightarrow> activity_capacity_snapshot option \<Rightarrow> string list" where
  "fallback_ordered available lobby sn =
     filter (\<lambda>skill. (skill, ''v1'') \<in> available \<and> (lobby \<or> skill \<noteq> ''scene_tornado'') \<and> with_capacity sn skill)
       SAFE_FALLBACK_SKILL_ORDER"

definition fallback_first ::
  "coordinator_config \<Rightarrow> gateway_context \<Rightarrow> (string \<times> string) set \<Rightarrow> bool \<Rightarrow> int \<Rightarrow> activity_capacity_snapshot option \<Rightarrow>
   string list \<Rightarrow> string option" where
  "fallback_first cfg ctx available lobby version sn ordered =
     (let permitted = (\<lambda>skill. cc_authorize cfg ctx skill ''v1''); authorized = filter permitted ordered in
      if lobby then
        (if (''scene_tornado'', ''v1'') \<in> available \<and> permitted ''scene_tornado'' then Some ''scene_tornado'' else None)
      else if authorized = [] then None
      else (case sn of
              None \<Rightarrow> Some (authorized ! stable_rotation (role_identity ctx) (length authorized))
            | Some sn \<Rightarrow> (case cc_weigh cfg sn authorized (role_identity ctx) version of [] \<Rightarrow> None | s # _ \<Rightarrow> Some s)))"

definition fallback_selected ::
  "coordinator_config \<Rightarrow> gateway_context \<Rightarrow> bool \<Rightarrow> int \<Rightarrow> activity_capacity_snapshot option \<Rightarrow> string list \<Rightarrow> string \<Rightarrow>
   string list" where
  "fallback_selected cfg ctx lobby version sn ordered first =
     (let role = role_identity ctx;
          others = filter (\<lambda>s. s \<noteq> first) ordered;
          remaining = (case sn of None \<Rightarrow> others | Some sn \<Rightarrow> cc_weigh cfg sn others role version);
          arranged =
            (if lobby \<and> cc_catalog cfg = None then remaining
             else if first \<noteq> ''move_to'' \<and> ''move_to'' \<in> set remaining then
               (let rest = remove1 ''move_to'' remaining; n = stable_rotation role (length rest + 1) in
                take n rest @ ''move_to'' # drop n rest)
             else rotated (stable_rotation role (length remaining)) remaining);
          selected = first # take 2 arranged in
      if ''move_to'' \<in> set ordered \<and> ''move_to'' \<notin> set selected then butlast selected @ [''move_to''] else selected)"

definition fallback_step_id :: "nat \<Rightarrow> string \<Rightarrow> string" where
  "fallback_step_id i skill =
     (case map_of [(''scene_tornado'', ''arrival''), (''dance_auto_schedule'', ''dance''),
         (''hot_air_balloon_auto_schedule'', ''balloon'')] skill of
        Some s \<Rightarrow> s | None \<Rightarrow> ''fallback-'' @ int_str (int i + 1) @ ''-'' @ skill)"

definition fallback_step :: "string option \<Rightarrow> nat \<times> string \<Rightarrow> proposal_step" where
  "fallback_step target x = (case x of (i, skill) \<Rightarrow>
     \<lparr>ps_id = fallback_step_id i skill, ps_phase = phase_for_skill skill, ps_skill = Some skill, ps_schema = Some ''v1'',
      ps_target = (if skill = ''move_to'' then target else None),
      ps_intent = (if skill = ''move_to'' then ''Walk to a different authorized scene point''
        else ''Continue the hosted activity with '' @ skill)\<rparr>)"

definition social_step :: proposal_step where
  "social_step = \<lparr>ps_id = ''social-opportunity'', ps_phase = ''social'', ps_skill = None, ps_schema = None, ps_target = None,
     ps_intent = ''Remain available for a nearby friend chat opportunity''\<rparr>"

definition fallback_proposal :: "string option \<Rightarrow> string list \<Rightarrow> plan_proposal" where
  "fallback_proposal target selected =
     \<lparr>pp_goal_id = ''plaza_social'',
      pp_goal_summary = ''Complete a short sequence using only skills published by the Gateway'',
      pp_steps = map (fallback_step target) (enumerate 0 selected) @ [social_step]\<rparr>"

definition safe_fallback_plan ::
  "coordinator_config \<Rightarrow> gateway_context \<Rightarrow> string \<Rightarrow> int \<Rightarrow> history \<Rightarrow> activity_capacity_snapshot option \<Rightarrow>
   activity_plan planning" where
  "safe_fallback_plan cfg ctx plan_id version recent sn =
     (let lobby = is_lobby (cc_repr cfg) (gc_snapshot ctx) in
      case scene_candidates_for_context cfg ctx version recent 1 of
        Inl er \<Rightarrow> Inl (Some er)
      | Inr targets \<Rightarrow>
          (let target = first_target targets;
               available = fallback_available cfg ctx target;
               ordered = fallback_ordered available lobby sn in
           if length ordered < 3 then Inl None
           else (case fallback_first cfg ctx available lobby version sn ordered of
              None \<Rightarrow> Inl None
            | Some first \<Rightarrow>
                (case validate_proposal (fallback_proposal target
                     (fallback_selected cfg ctx lobby version sn ordered first)) of
                   Inl er \<Rightarrow> Inl (Some (Value_Error er))
                 | Inr proposal \<Rightarrow>
                     map_sum (\<lambda>_. None) id (materialize_activity_plan proposal plan_id version available lobby)))))"

section \<open>Varying a proposal\<close>

definition role_preferred_activity_step ::
  "coordinator_config \<Rightarrow> gateway_context \<Rightarrow> int \<Rightarrow> activity_capacity_snapshot option \<Rightarrow> proposal_step option" where
  "role_preferred_activity_step cfg ctx version sn =
     (let candidates = filter (\<lambda>skill. (skill, ''v1'') \<in> published ctx \<and> cc_authorize cfg ctx skill ''v1'' \<and>
            with_capacity sn skill) ROLE_DIVERSITY_SKILL_ORDER;
          bucket = role_bucket (role_identity ctx);
          chosen = (case sn of
              None \<Rightarrow> if candidates = [] then None
                else Some (candidates ! ((bucket + nat (version - 1)) mod length candidates))
            | Some sn \<Rightarrow> if candidates = [] then None
                else (case cc_weigh cfg sn candidates (role_identity ctx) version of [] \<Rightarrow> None | s # _ \<Rightarrow> Some s)) in
      map_option (\<lambda>skill. \<lparr>ps_id = ''role-'' @ int_str version @ ''-'' @ int_str (int (bucket mod 100000)) @ ''-'' @ skill,
        ps_phase = phase_for_skill skill, ps_skill = Some skill, ps_schema = Some ''v1'', ps_target = None,
        ps_intent = ''Follow this role'' @ [CHR 0x27] @ ''s activity preference with '' @ skill\<rparr>) chosen)"

fun replace_last :: "('a \<Rightarrow> bool) \<Rightarrow> 'a \<Rightarrow> 'a list \<Rightarrow> 'a list" where
  "replace_last P x [] = []"
| "replace_last P x (y # ys) =
     (if list_ex P ys then y # replace_last P x ys else if P y then x # ys else y # ys)"

definition append_or_replace_activity_step ::
  "proposal_step list \<Rightarrow> proposal_step \<Rightarrow> string list \<Rightarrow> nat \<Rightarrow> proposal_step list" where
  "append_or_replace_activity_step steps new reserved forced =
     (if forced + length steps < 6 then steps @ [new]
      else replace_last (\<lambda>s. ps_skill s \<notin> Some ` set reserved) new steps)"

fun most_recent_successful_skill_name :: "history \<Rightarrow> string option" where
  "most_recent_successful_skill_name [] = None"
| "most_recent_successful_skill_name ((d, k) # rest) =
     (case k of
        None \<Rightarrow> most_recent_successful_skill_name rest
      | Some k \<Rightarrow>
          if k_status k \<noteq> K_succeeded then most_recent_successful_skill_name rest
          else if k_skill k \<noteq> [] then Some (k_skill k)
          else (case json_get (d_body d) ''skillName'' of
                  Some (JStr s) \<Rightarrow> if s \<noteq> [] then Some s else most_recent_successful_skill_name rest
                | _ \<Rightarrow> most_recent_successful_skill_name rest))"

definition avoid_immediate_successful_skill_repeat :: "proposal_step list \<Rightarrow> string option \<Rightarrow> proposal_step list" where
  "avoid_immediate_successful_skill_repeat steps recent =
     (case (steps, recent) of
        (s # rest, Some r) \<Rightarrow>
          if ps_skill s \<noteq> recent then steps
          else (case find (\<lambda>t. ps_skill t \<noteq> recent) rest of
                  None \<Rightarrow> steps | Some t \<Rightarrow> t # remove1 t steps)
      | _ \<Rightarrow> steps)"

definition wander_step :: "gateway_context \<Rightarrow> int \<Rightarrow> proposal_step" where
  "wander_step ctx version =
     \<lparr>ps_id = ''wander-'' @ int_str version @ ''-'' @ int_str (int (role_bucket (role_identity ctx) mod 100000)),
      ps_phase = ''movement'', ps_skill = Some ''move_to'', ps_schema = Some ''v1'', ps_target = None,
      ps_intent = ''Walk to a different point in the current scene''\<rparr>"

text \<open>The steps other than the first of a lobby and the social one: the role's own, a walk, then the order.\<close>

definition with_preferred ::
  "proposal_step option \<Rightarrow> nat \<Rightarrow> proposal_step list \<Rightarrow> proposal_step list" where
  "with_preferred preferred forced others =
     (case preferred of
        None \<Rightarrow> others
      | Some p \<Rightarrow>
          if list_ex (\<lambda>s. ps_skill s = ps_skill p) others then others
          else append_or_replace_activity_step others p [''move_to''] forced)"

definition with_wander ::
  "coordinator_config \<Rightarrow> gateway_context \<Rightarrow> int \<Rightarrow> string option \<Rightarrow> proposal_step option \<Rightarrow> nat \<Rightarrow> proposal_step list \<Rightarrow>
   proposal_step list" where
  "with_wander cfg ctx version target preferred forced others =
     (if target \<noteq> None \<and> (''move_to'', ''v1'') \<in> published ctx \<and> cc_authorize cfg ctx ''move_to'' ''v1'' \<and>
         \<not> list_ex (\<lambda>s. ps_skill s = Some ''move_to'') others
      then append_or_replace_activity_step others (wander_step ctx version)
        (case Option.bind preferred ps_skill of None \<Rightarrow> [] | Some s \<Rightarrow> [s]) forced
      else others)"

definition arranged_for_role :: "gateway_context \<Rightarrow> proposal_step option \<Rightarrow> proposal_step list \<Rightarrow> proposal_step list" where
  "arranged_for_role ctx preferred others =
     (case Option.bind preferred (\<lambda>p. find (\<lambda>s. ps_skill s = ps_skill p) others) of
        Some p \<Rightarrow> (let remaining = remove1 p others in
          p # rotated (stable_rotation (role_identity ctx) (length remaining)) remaining)
      | None \<Rightarrow> rotated (stable_rotation (role_identity ctx) (length others)) others)"

definition ranked ::
  "coordinator_config \<Rightarrow> gateway_context \<Rightarrow> int \<Rightarrow> activity_capacity_snapshot option \<Rightarrow> proposal_step list \<Rightarrow>
   proposal_step list" where
  "ranked cfg ctx version sn others =
     (case sn of
        None \<Rightarrow> others
      | Some sn \<Rightarrow>
          (let weighted = cc_weigh cfg sn (List.map_filter ps_skill others) (role_identity ctx) version in
           sort_key (\<lambda>s. case ps_skill s of None \<Rightarrow> length weighted | Some k \<Rightarrow> position weighted k) others))"

definition diversify_activity_plan_proposal ::
  "coordinator_config \<Rightarrow> gateway_context \<Rightarrow> int \<Rightarrow> history \<Rightarrow> activity_capacity_snapshot option \<Rightarrow> plan_proposal \<Rightarrow>
   db_error + plan_proposal" where
  "diversify_activity_plan_proposal cfg ctx version recent sn proposal =
     (if cc_catalog cfg = None then Inr proposal
      else let lobby = is_lobby (cc_repr cfg) (gc_snapshot ctx);
               forced = filter (\<lambda>s. lobby \<and> ps_skill s = Some ''scene_tornado'') (pp_steps proposal);
               others = filter (\<lambda>s. s \<notin> set forced \<and> ps_skill s \<noteq> None \<and>
                 (lobby \<or> ps_skill s \<noteq> Some ''scene_tornado'') \<and> pred_option (with_capacity sn) (ps_skill s))
                 (pp_steps proposal);
               social = filter (\<lambda>s. ps_skill s = None) (pp_steps proposal) in
           (case scene_candidates_for_context cfg ctx version recent 1 of
              Inl er \<Rightarrow> Inl er
            | Inr targets \<Rightarrow>
                (let target = first_target targets;
                     others = (if target = None then filter (\<lambda>s. ps_skill s \<noteq> Some ''move_to'') others else others);
                     preferred = role_preferred_activity_step cfg ctx version sn;
                     others = with_wander cfg ctx version target preferred (length forced)
                       (with_preferred preferred (length forced) others);
                     others = ranked cfg ctx version sn (arranged_for_role ctx preferred others);
                     others = (if lobby then others else avoid_immediate_successful_skill_repeat others
                       (most_recent_successful_skill_name recent));
                     steps = map (\<lambda>s. if ps_skill s = Some ''move_to''
                         then s\<lparr>ps_target := (if ps_target s = None then target else ps_target s)\<rparr> else s)
                       (forced @ others @ social) in
                 Inr (if steps = [] then proposal else proposal\<lparr>pp_steps := steps\<rparr>))))"

section \<open>The coordinator\<close>

definition activity_capacity ::
  "coordinator_config \<Rightarrow> claimed_event \<Rightarrow> gateway_context \<Rightarrow> db \<Rightarrow> db_error + activity_capacity_snapshot option" where
  "activity_capacity cfg ev ctx s =
     (case cc_capacity cfg of
        None \<Rightarrow> Inr None
      | Some policy \<Rightarrow>
          if cc_capacity_down cfg then Inr None
          else map_sum id Some (capacity_snapshot policy (cc_now cfg) (ce_gateway ev) (gc_snapshot ctx) s))"

definition next_version :: "activity_snapshot \<Rightarrow> int" where
  "next_version snapshot = max (as_version snapshot) (case as_plan snapshot of None \<Rightarrow> 0 | Some p \<Rightarrow> pl_version p) + 1"

text \<open>A raised exception leaves the coordinator; \<open>None\<close> is its answer that there is no plan.\<close>

definition answered ::
  "claimed_event \<Rightarrow> activity_plan option \<Rightarrow> db \<Rightarrow> activity_error + activity_context option \<times> db" where
  "answered ev proposed s = map_sum id (\<lambda>(ax, t). (Some ax, t)) (prepare ev proposed s)"

text \<open>The stored plan goes on, its walk to another target when a new event came.\<close>

definition continue_plan ::
  "coordinator_config \<Rightarrow> claimed_event \<Rightarrow> gateway_context \<Rightarrow> activity_snapshot \<Rightarrow> db \<Rightarrow>
   activity_error + activity_context option \<times> db" where
  "continue_plan cfg ev ctx snapshot s =
     (case retarget_active_move_step cfg ev ctx snapshot of
        Inl er \<Rightarrow> Inl (Activity_raised er)
      | Inr retargeted \<Rightarrow> answered ev retargeted s)"

definition with_snapshot ::
  "coordinator_config \<Rightarrow> claimed_event \<Rightarrow> gateway_context \<Rightarrow> db \<Rightarrow>
   (activity_snapshot \<Rightarrow> activity_capacity_snapshot option \<Rightarrow> activity_error + activity_context option \<times> db) \<Rightarrow>
   activity_error + activity_context option \<times> db" where
  "with_snapshot cfg ev ctx s f =
     (case load ev s of
        Inl er \<Rightarrow> Inl er
      | Inr snapshot \<Rightarrow>
          (case activity_capacity cfg ev ctx s of Inl er \<Rightarrow> Inl (Activity_raised er) | Inr sn \<Rightarrow> f snapshot sn))"

definition resume_plan :: "coordinator_config \<Rightarrow> preparation" where
  "resume_plan cfg ev ctx s = with_snapshot cfg ev ctx s (\<lambda>snapshot sn.
     case as_plan snapshot of
       None \<Rightarrow> Inr (None, s)
     | Some p \<Rightarrow>
         (case all_of [Inr (is_active (Some p)), current_step_is_executable cfg ctx p, current_step_has_capacity p sn] of
            Inl er \<Rightarrow> Inl (Activity_raised er)
          | Inr False \<Rightarrow> Inr (None, s)
          | Inr True \<Rightarrow>
              (case retarget_active_move_step cfg ev ctx snapshot of
                 Inl er \<Rightarrow> Inl (Activity_raised er)
               | Inr (Some q) \<Rightarrow> answered ev (Some q) s
               | Inr None \<Rightarrow>
                   (case current_step_is_resolvable cfg ctx p of
                      Inl er \<Rightarrow> Inl (Activity_raised er)
                    | Inr False \<Rightarrow> Inr (None, s)
                    | Inr True \<Rightarrow> answered ev None s))))"

definition answer_fallback ::
  "coordinator_config \<Rightarrow> claimed_event \<Rightarrow> gateway_context \<Rightarrow> activity_snapshot \<Rightarrow> activity_capacity_snapshot option \<Rightarrow> db \<Rightarrow>
   activity_error + activity_context option \<times> db" where
  "answer_fallback cfg ev ctx snapshot sn s =
     (case safe_fallback_plan cfg ctx (cc_plan_id cfg ev) (next_version snapshot) (as_actions snapshot) sn of
        Inl None \<Rightarrow> Inr (None, s)
      | Inl (Some er) \<Rightarrow> Inl (Activity_raised er)
      | Inr p \<Rightarrow> answered ev (Some p) s)"

definition prepare_deterministic :: "coordinator_config \<Rightarrow> preparation" where
  "prepare_deterministic cfg ev ctx s = with_snapshot cfg ev ctx s (\<lambda>snapshot sn.
     case plan_is_usable cfg ctx snapshot sn of
       Inl er \<Rightarrow> Inl (Activity_raised er)
     | Inr True \<Rightarrow> continue_plan cfg ev ctx snapshot s
     | Inr False \<Rightarrow> answer_fallback cfg ev ctx snapshot sn s)"

text \<open>A new plan from the model's proposal; every exception on the way leads to the fallback.\<close>

definition generated_plan ::
  "coordinator_config \<Rightarrow> claimed_event \<Rightarrow> gateway_context \<Rightarrow> activity_snapshot \<Rightarrow> activity_capacity_snapshot option \<Rightarrow>
   activity_plan option" where
  "generated_plan cfg ev ctx snapshot sn =
     (case cc_generate cfg ctx snapshot of
        None \<Rightarrow> None
      | Some raw \<Rightarrow>
          (case validate_proposal raw of
             Inl _ \<Rightarrow> None
           | Inr proposal \<Rightarrow>
               (case diversify_activity_plan_proposal cfg ctx (next_version snapshot) (as_actions snapshot) sn proposal of
                  Inl _ \<Rightarrow> None
                | Inr proposal \<Rightarrow>
                    (case materialize_activity_plan proposal (cc_plan_id cfg ev) (next_version snapshot) (published ctx)
                         (is_lobby (cc_repr cfg) (gc_snapshot ctx)) of
                       Inl _ \<Rightarrow> None
                     | Inr p \<Rightarrow>
                         if all_of [current_step_is_executable cfg ctx p, current_step_is_resolvable cfg ctx p] = Inr True
                         then Some p else None))))"

definition prepare_activity :: "coordinator_config \<Rightarrow> preparation" where
  "prepare_activity cfg ev ctx s = with_snapshot cfg ev ctx s (\<lambda>snapshot sn.
     case plan_is_usable cfg ctx snapshot sn of
       Inl er \<Rightarrow> Inl (Activity_raised er)
     | Inr True \<Rightarrow> continue_plan cfg ev ctx snapshot s
     | Inr False \<Rightarrow>
         (case generated_plan cfg ev ctx snapshot sn of
            Some p \<Rightarrow> answered ev (Some p) s
          | None \<Rightarrow> answer_fallback cfg ev ctx snapshot sn s))"

definition coordinator_of :: "coordinator_config \<Rightarrow> coordinator" where
  "coordinator_of cfg = \<lparr>co_resume = resume_plan cfg, co_deterministic = prepare_deterministic cfg,
     co_prepare = prepare_activity cfg\<rparr>"

end
