(* ===== verification/DecisionPlannerFacts.thy ===== *)
theory DecisionPlannerFacts
  imports DecisionPlanner System PlanningFacts
begin

text \<open>
  What the planner plans is authorised by the lease, and planning is a run of the system's transactions.
  Both rest on the coordinator only changing activity plans, which is the locale \<open>activity_coordinator\<close>.
\<close>

section \<open>Choices are authorised\<close>

definition sound :: "decision_planner \<Rightarrow> gateway_context \<Rightarrow> choice \<Rightarrow> bool" where
  "sound p ctx x \<longleftrightarrow> (\<forall>a. x = Inr (Some a) \<longrightarrow> authorised (pn_sha p) ctx a)"

lemma sound_otherwise: "sound p ctx x \<Longrightarrow> sound p ctx y \<Longrightarrow> sound p ctx (otherwise x y)"
  by (auto simp: sound_def otherwise_def split: sum.splits option.splits)

lemma raising_Inr [simp]: "raising x = Inr y \<longleftrightarrow> x = Inr y"
  by (cases x) auto

lemma map_sum_Inr [simp]: "map_sum f g x = Inr z \<longleftrightarrow> (\<exists>y. x = Inr y \<and> z = g y)"
  by (cases x) auto

lemma local_action_authorised: "local_action p ctx reason = Inr (Some c) \<Longrightarrow> authorised (pn_sha p) ctx (Call c)"
  by (auto simp: local_action_def dest: local_authorised)

lemma sound_stages:
  "sound p ctx (Inr (map_option Call (initial_choice p now ev ctx)))"
  "sound p ctx (forced_skill_stage p ev ctx)"
  "sound p ctx (forced_wait_stage p ctx)"
  "sound p ctx (activity_stage p ctx activity)"
  "sound p ctx (deadline_stage p now ev ctx)"
  by (auto simp: sound_def initial_choice_def forced_skill_stage_def forced_wait_stage_def activity_stage_def
      deadline_stage_def split: if_splits option.splits sum.splits
      dest: initial_room_authorised forced_test_authorised forced_wait_authorised planned_authorised
        deferred_authorised local_action_authorised deadline_authorised)

lemma sound_model_stage: "sound p ctx (model_stage p ev ctx activity s)"
proof -
  have "authorised (pn_sha p) ctx (Wait_action r t w)" if "A_wait \<in> set (gc_actions ctx)" for r t w
    using that by (simp add: authorised_def settled_other)
  then show ?thesis
    unfolding sound_def model_stage_def
    by (auto split: if_splits option.splits sum.splits bool.splits
        dest: decided_authorised local_action_authorised)
qed

lemma chosen_authorised:
  "choose_action p now ev ctx activity s = Inr (Some a) \<Longrightarrow> authorised (pn_sha p) ctx a"
proof -
  assume chosen: "choose_action p now ev ctx activity s = Inr (Some a)"
  have "sound p ctx (choose_action p now ev ctx activity s)"
    unfolding choose_action_def by (intro sound_otherwise sound_stages sound_model_stage)
  with chosen show ?thesis by (simp add: sound_def)
qed

lemma kept_authorised:
  "keep_to_step ctx activity a = Inr b \<Longrightarrow> authorised sha256 ctx a \<Longrightarrow> authorised sha256 ctx b"
  unfolding keep_to_step_def
  by (auto split: option.splits gateway_action.splits sum.splits if_splits
      intro: first_allowed_authorised[of _ _ "[A_wait, A_no_op]"])

lemma fallback_authorised:
  "fallback_choice p now ev ctx activity full s = Inr (Some a) \<Longrightarrow> authorised (pn_sha p) ctx a"
  unfolding fallback_choice_def
  by (auto split: sum.splits option.splits dest: local_authorised deadline_authorised)

section \<open>The rows a plan adds\<close>

type_synonym frozen_part = "string \<times> decision_action \<times> json \<times> string \<times> string"

definition frozen_part :: "decision_row \<Rightarrow> frozen_part" where
  "frozen_part d = (d_decision_id d, d_action d, d_body d, d_bytes d, d_hash d)"

fun authorised_part :: "decision_planner \<Rightarrow> gateway_context \<Rightarrow> frozen_part \<Rightarrow> bool" where
  "authorised_part p ctx (i, kind, body, bytes, hash) \<longleftrightarrow>
     (\<exists>a trace. authorised (pn_sha p) ctx a \<and> kind = action_of a \<and>
        freeze_gateway_v2_decision (pn_sha p) (pn_hex p) i trace ctx a =
          Inr \<lparr>fz_body = body, fz_bytes = bytes, fz_hash = hash\<rparr>)"

definition adds :: "decision_planner \<Rightarrow> gateway_context \<Rightarrow> db \<Rightarrow> db \<Rightarrow> bool" where
  "adds p ctx s t \<longleftrightarrow>
     frozen_part ` set (decisions t) \<subseteq> frozen_part ` set (decisions s) \<union> Collect (authorised_part p ctx)"

lemma adds_refl [simp]: "adds p ctx s s"
  by (simp add: adds_def)

lemma adds_same: "decisions t = decisions s \<Longrightarrow> adds p ctx s t"
  by (simp add: adds_def)

lemma adds_trans: "adds p ctx s t \<Longrightarrow> adds p ctx t u \<Longrightarrow> adds p ctx s u"
  unfolding adds_def by blast

lemma frozen_part_manual: "frozen_part ` set (decisions (MARK_PLAN_MANUAL now i c s)) = frozen_part ` set (decisions s)"
proof -
  have "map frozen_part (update_where P f ds) = map frozen_part ds" if "\<And>d. frozen_part (f d) = frozen_part d" for P f ds
    using that by (simp add: update_where_def)
  then have "frozen_part ` set (update_where P f ds) = frozen_part ` set ds"
    if "\<And>d. frozen_part (f d) = frozen_part d" for P f ds
    using that by (metis set_map)
  then show ?thesis by (simp add: MARK_PLAN_MANUAL_def frozen_part_def)
qed

lemma frozen_part_planned:
  "frozen_part (planned_row now cfg row ev ctx action binding i frozen tr deadline capacity) =
   (i, aa_action action, fz_body frozen, fz_bytes frozen, fz_hash frozen)"
  by (simp add: frozen_part_def planned_row_def)

lemma plan_action_adds:
  assumes a: "authorised (pn_sha p) ctx a" and plan: "plan_action p now k ev ctx a binding s = (r, t)"
  shows "adds p ctx s t"
proof (cases rule: plan_decision_cases[of now "pn_outbox p"
    "\<lambda>i trace _ _. freeze_gateway_v2_decision (pn_sha p) (pn_hex p) i trace ctx a"
    "pn_ids p k" ev "repository_context ctx" "repository_action a" binding s])
  case committed
  from committed[folded plan_action_def, unfolded plan] show ?thesis
  proof (cases rule: plan_transaction_cases)
    case (created frozen capacity row)
    from created(1) show ?thesis
    proof (cases rule: insert_plan_cases)
      case (1 tr s1 row s2 deadline d)
      have "decisions s2 = decisions s"
        using track_action_same(1)[OF 1(1)] 1(2) by (auto simp: draw_uuid_def)
      moreover have "authorised_part p ctx (frozen_part d)"
        using a created(3) unfolding 1(3) frozen_part_planned by (cases frozen) (auto intro!: exI[of _ a])
      ultimately show ?thesis by (auto simp: adds_def 1(4))
    qed
  qed (auto simp: adds_def frozen_part_manual)
next
  case rolled_back
  with plan show ?thesis by (simp add: plan_action_def)
qed

lemma plan_wait_adds: "plan_wait p now ev ctx s = (out, t) \<Longrightarrow> adds p ctx s t"
  unfolding plan_wait_def
  by (auto split: option.splits prod.splits dest: deadline_authorised intro: plan_action_adds)

lemma plan_fallback_adds:
  assumes "plan_fallback p now ev ctx activity full (s, al) = (out, t, al')"
  shows "adds p ctx s t"
  using assms unfolding plan_fallback_def
  by (auto split: sum.splits option.splits prod.splits plan_error.splits
      dest!: fallback_authorised finalize_authorised
      intro: plan_action_adds adds_trans[OF plan_action_adds plan_wait_adds])

lemma plan_chosen_adds:
  assumes "plan_chosen p now ev ctx activity a (s, al) = (out, t, al')" and "authorised (pn_sha p) ctx a"
  shows "adds p ctx s t"
proof -
  have n: "normalize_gateway_v2_action (pn_sha p) ctx a = a" using assms(2) by (simp add: authorised_def)
  show ?thesis
    using assms(1) unfolding plan_chosen_def n
    by (auto split: sum.splits option.splits prod.splits plan_error.splits
        dest!: finalize_authorised[OF _ assms(2)]
        intro: plan_action_adds adds_trans[OF plan_action_adds plan_fallback_adds])
qed

section \<open>The coordinator\<close>

locale activity_coordinator =
  fixes co :: coordinator and E :: "claimed_event set" and D :: "claimed_decision set"
  assumes resume_runs: "ev \<in> E \<Longrightarrow> co_resume co ev ctx s = Inr (x, t) \<Longrightarrow> transactions E D s t"
    and resume_same: "co_resume co ev ctx s = Inr (x, t) \<Longrightarrow> decisions t = decisions s"
    and deterministic_runs: "ev \<in> E \<Longrightarrow> co_deterministic co ev ctx s = Inr (x, t) \<Longrightarrow> transactions E D s t"
    and deterministic_same: "co_deterministic co ev ctx s = Inr (x, t) \<Longrightarrow> decisions t = decisions s"
    and prepare_runs: "ev \<in> E \<Longrightarrow> co_prepare co ev ctx s = Inr (x, t) \<Longrightarrow> transactions E D s t"
    and prepare_same: "co_prepare co ev ctx s = Inr (x, t) \<Longrightarrow> decisions t = decisions s"
begin

lemma obtain_activity_runs:
  "set_option (pn_coordinator p) \<subseteq> {co} \<Longrightarrow> ev \<in> E \<Longrightarrow> obtain_activity p now ev ctx s = Inr (x, t) \<Longrightarrow>
   transactions E D s t"
  unfolding obtain_activity_def
  by (auto split: option.splits if_splits intro: resume_runs deterministic_runs prepare_runs)

lemma obtain_activity_same:
  "set_option (pn_coordinator p) \<subseteq> {co} \<Longrightarrow> obtain_activity p now ev ctx s = Inr (x, t) \<Longrightarrow> decisions t = decisions s"
  unfolding obtain_activity_def
  by (auto split: option.splits if_splits intro: resume_same deterministic_same prepare_same)

lemma plan_adds:
  assumes co: "set_option (pn_coordinator p) \<subseteq> {co}" and plan: "plan p now ev ctx (s, al) = (out, t, al')"
  shows "adds p ctx s t"
proof -
  have "adds p ctx s t" if "plan_with_account p now ev ctx (s, al) = (out, t, al')"
  proof (cases "obtain_activity p now ev ctx s")
    case (Inr x)
    obtain activity u where x: "x = (activity, u)" by (cases x)
    have "adds p ctx s u" by (rule adds_same[OF obtain_activity_same[OF co Inr[unfolded x]]])
    moreover have "adds p ctx u t"
      using that
      by (auto simp: plan_with_account_def Inr x split: sum.splits option.splits dest!: chosen_authorised kept_authorised intro: plan_chosen_adds)
    ultimately show ?thesis by (rule adds_trans)
  qed (use that in \<open>auto simp: plan_with_account_def split: activity_error.splits\<close>)
  with plan show ?thesis
    by (auto simp: plan_def split: sum.splits option.splits if_splits)
qed

end

section \<open>Planning is a run of transactions\<close>

lemma plan_action_transaction:
  "ev \<in> E \<Longrightarrow> plan_action p now k ev ctx a binding s = (r, t) \<Longrightarrow> transaction E D s t"
  unfolding plan_action_def by (rule transaction.plan)

lemma plan_wait_runs:
  "ev \<in> E \<Longrightarrow> plan_wait p now ev ctx s = (out, t) \<Longrightarrow> transactions E D s t"
  unfolding plan_wait_def by (auto split: option.splits prod.splits dest: plan_action_transaction)

lemma plan_fallback_runs:
  "ev \<in> E \<Longrightarrow> plan_fallback p now ev ctx activity full (s, al) = (out, t, al') \<Longrightarrow> transactions E D s t"
  unfolding plan_fallback_def
  by (auto split: sum.splits option.splits prod.splits plan_error.splits
      dest: plan_action_transaction
      intro: converse_rtranclp_into_rtranclp[OF plan_action_transaction plan_wait_runs])

lemma plan_chosen_runs:
  "ev \<in> E \<Longrightarrow> plan_chosen p now ev ctx activity a (s, al) = (out, t, al') \<Longrightarrow> transactions E D s t"
  unfolding plan_chosen_def
  by (auto split: sum.splits option.splits prod.splits plan_error.splits
      dest: plan_action_transaction
      intro: converse_rtranclp_into_rtranclp[OF plan_action_transaction plan_fallback_runs])

context activity_coordinator begin

lemma plan_runs:
  assumes co: "set_option (pn_coordinator p) \<subseteq> {co}" and ev: "ev \<in> E"
    and plan: "plan p now ev ctx (s, al) = (out, t, al')"
  shows "transactions E D s t"
proof -
  have "transactions E D s t" if "plan_with_account p now ev ctx (s, al) = (out, t, al')"
  proof (cases "obtain_activity p now ev ctx s")
    case (Inr x)
    obtain activity u where x: "x = (activity, u)" by (cases x)
    have "transactions E D s u" by (rule obtain_activity_runs[OF co ev Inr[unfolded x]])
    moreover have "transactions E D u t"
      using that
      by (auto simp: plan_with_account_def Inr x split: sum.splits option.splits intro: plan_chosen_runs[OF ev])
    ultimately show ?thesis by (rule rtranclp_trans)
  qed (use that in \<open>auto simp: plan_with_account_def split: activity_error.splits\<close>)
  with plan show ?thesis
    by (auto simp: plan_def split: sum.splits option.splits if_splits)
qed

end

end
