(* ===== verification/ActivityPlannerFacts.thy ===== *)
theory ActivityPlannerFacts
  imports ActivityPlanner DecisionPlannerFacts ActivityFacts
begin

text \<open>
  The coordinator only changes activity plans, which makes it an \<open>activity_coordinator\<close>; with it the
  planner's decisions are authorised and stay within the system.  The fallback plan is one the gateway's
  published skills can carry out.
\<close>

section \<open>The coordinator as the planner sees it\<close>

lemma prepare_same_decisions:
  assumes "prepare ev proposed s = Inr (ax, t)"
  shows "decisions t = decisions s"
proof -
  have w: "decisions u = decisions s" if "write_state ev p s = Inr u" for p u
  proof -
    obtain b v where v: "UPDATE_ACTIVITY_STATE (ce_cycle ev) p (ce_row ev) (ce_seq ev) s = (b, v)" by fastforce
    then have "decisions v = decisions s" by (auto simp: UPDATE_ACTIVITY_STATE_def Let_def)
    with that v show ?thesis by (auto simp: write_state_def split: bool.splits sum.splits option.splits if_splits)
  qed
  have f: "u = s'" if "finish_prepare ev p s' = Inr (ax, u)" for p u s'
    using that by (auto simp: finish_prepare_def Let_def split: sum.splits prod.splits)
  from assms show ?thesis
    by (auto simp: prepare_def split: sum.splits option.splits if_splits prod.splits dest!: f w)
qed

lemma answeredD:
  assumes "answered ev proposed s = Inr (x, t)"
  obtains ax where "x = Some ax" "prepare ev proposed s = Inr (ax, t)"
  using assms by (auto simp: answered_def)

lemma with_snapshotD:
  assumes "with_snapshot cfg ev ctx s f = Inr (x, t)"
  obtains snapshot sn where "load ev s = Inr snapshot" "f snapshot sn = Inr (x, t)"
  using assms by (auto simp: with_snapshot_def split: sum.splits)

text \<open>Each of the coordinator's operations changes nothing or prepares a plan.\<close>

lemma continue_planD:
  "continue_plan cfg ev ctx snapshot s = Inr (x, t) \<Longrightarrow> \<exists>proposed ax. prepare ev proposed s = Inr (ax, t)"
  by (auto simp: continue_plan_def split: sum.splits elim!: answeredD)

lemma answer_fallbackD:
  "answer_fallback cfg ev ctx snapshot sn s = Inr (x, t) \<Longrightarrow> t \<noteq> s \<Longrightarrow>
     \<exists>proposed ax. prepare ev proposed s = Inr (ax, t)"
  by (auto simp: answer_fallback_def split: sum.splits option.splits elim!: answeredD)

lemma coordinatedD:
  assumes "resume_plan cfg ev ctx s = Inr (x, t) \<or> prepare_deterministic cfg ev ctx s = Inr (x, t) \<or>
     prepare_activity cfg ev ctx s = Inr (x, t)"
  shows "t = s \<or> (\<exists>proposed ax. prepare ev proposed s = Inr (ax, t))"
  using assms
proof (elim disjE)
  assume "resume_plan cfg ev ctx s = Inr (x, t)"
  then show ?thesis
    by (auto simp: resume_plan_def elim!: with_snapshotD answeredD split: option.splits sum.splits bool.splits)
next
  assume "prepare_deterministic cfg ev ctx s = Inr (x, t)"
  then show ?thesis
    by (auto simp: prepare_deterministic_def elim!: with_snapshotD split: sum.splits bool.splits
        dest!: continue_planD) (use answer_fallbackD in blast)
next
  assume "prepare_activity cfg ev ctx s = Inr (x, t)"
  then show ?thesis
    by (auto simp: prepare_activity_def elim!: with_snapshotD answeredD split: sum.splits bool.splits option.splits
        dest!: continue_planD) (use answer_fallbackD in blast)
qed

lemma coordinated_runs:
  "ev \<in> E \<Longrightarrow> t = s \<or> (\<exists>proposed ax. prepare ev proposed s = Inr (ax, t)) \<Longrightarrow> transactions E D s t"
  by (auto dest: transaction.prepare_plan)

interpretation coordinated: activity_coordinator "coordinator_of cfg" E D for cfg E D
proof unfold_locales
  fix ev ctx s x t
  note cases = coordinatedD[of cfg ev ctx s x t]
  show "transactions E D s t" if "ev \<in> E" "co_resume (coordinator_of cfg) ev ctx s = Inr (x, t)"
    using that cases by (auto simp: coordinator_of_def intro: coordinated_runs)
  show "transactions E D s t" if "ev \<in> E" "co_deterministic (coordinator_of cfg) ev ctx s = Inr (x, t)"
    using that cases by (auto simp: coordinator_of_def intro: coordinated_runs)
  show "transactions E D s t" if "ev \<in> E" "co_prepare (coordinator_of cfg) ev ctx s = Inr (x, t)"
    using that cases by (auto simp: coordinator_of_def intro: coordinated_runs)
  show "decisions t = decisions s" if "co_resume (coordinator_of cfg) ev ctx s = Inr (x, t)"
    using that cases by (auto simp: coordinator_of_def dest: prepare_same_decisions)
  show "decisions t = decisions s" if "co_deterministic (coordinator_of cfg) ev ctx s = Inr (x, t)"
    using that cases by (auto simp: coordinator_of_def dest: prepare_same_decisions)
  show "decisions t = decisions s" if "co_prepare (coordinator_of cfg) ev ctx s = Inr (x, t)"
    using that cases by (auto simp: coordinator_of_def dest: prepare_same_decisions)
qed

section \<open>The planner in the system\<close>


text \<open>The planner as the dispatcher calls it: the context is the one the event carries.\<close>

definition planner_step ::
  "decision_planner \<Rightarrow> msec \<Rightarrow> (claimed_event \<Rightarrow> gateway_context) \<Rightarrow> (claimed_event \<Rightarrow> allocator) \<Rightarrow>
   claimed_event \<Rightarrow> agent_context \<Rightarrow> db \<Rightarrow> planner_outcome \<times> db" where
  "planner_step p now context al ev ctx s =
     (case plan p now ev (context ev) (s, al ev) of (out, t, _) \<Rightarrow> (out, t))"

lemma planner_step_runs:
  assumes "set_option (pn_coordinator p) \<subseteq> {coordinator_of cfg}" and "ev \<in> E"
  shows "runs E D (planner_step p now context al ev ctx)"
  unfolding runs_def
proof
  fix s
  obtain out t al' where r: "plan p now ev (context ev) (s, al ev) = (out, t, al')" by (metis prod_cases3)
  from coordinated.plan_runs[OF assms r] show "transactions E D s (snd (planner_step p now context al ev ctx s))"
    by (simp add: planner_step_def r)
qed

text \<open>
  C7: the whole processing of an event stays within the system.  A worker whose dispatcher plans with the
  modelled planner and coordinator takes a reachable system to a reachable one, whatever the event, the
  model's answers and the failures on the way, so the invariants of the reachable states hold after it.
\<close>

theorem planning_stays_in_system:
  assumes "reachable g" and "ev \<in> sys_events g"
    and "dp_planner d = planner_step p now' context al"
    and "set_option (pn_coordinator p) \<subseteq> {coordinator_of cfg}"
  shows "reachable (g\<lparr>sys_db := process_claimed_event wcfg d now later ev (sys_db g)\<rparr>)"
proof -
  have "runs (sys_events g) (sys_decisions g) (dp_planner d ev ctx)" for ctx
    unfolding assms(3) by (rule planner_step_runs[OF assms(4,2)])
  then have "system_step\<^sup>*\<^sup>* g (g\<lparr>sys_db := process_claimed_event wcfg d now later ev (sys_db g)\<rparr>)"
    by (intro transactions_system_steps process_claimed_event_runs[OF assms(2)])
  with reachable_steps[OF assms(1)] show ?thesis by blast
qed

section \<open>The fallback plan\<close>

lemma canonical_stripped: "skill \<in> set CANONICAL_NON_CHAT_SKILLS \<Longrightarrow> py_strip skill = skill"
proof -
  have "list_all (\<lambda>k. py_strip k = k) CANONICAL_NON_CHAT_SKILLS" by code_simp
  then show "skill \<in> set CANONICAL_NON_CHAT_SKILLS \<Longrightarrow> py_strip skill = skill" by (simp add: list_all_iff)
qed

lemma fallback_firstD:
  assumes "fallback_first cfg ctx available lobby version sn ordered = Some first"
    and weigh: "\<And>sn xs role v. set (cc_weigh cfg sn xs role v) \<subseteq> set xs"
    and ordered: "\<And>s. s \<in> set ordered \<Longrightarrow> (s, ''v1'') \<in> available"
  shows "cc_authorize cfg ctx first ''v1'' \<and> (first, ''v1'') \<in> available \<and> (lobby \<longrightarrow> first = ''scene_tornado'')"
proof (cases lobby)
  case False
  let ?authorized = "filter (\<lambda>s. cc_authorize cfg ctx s ''v1'') ordered"
  from assms(1) False have ne: "?authorized \<noteq> []" by (auto simp: fallback_first_def Let_def split: if_splits)
  have "first \<in> set ?authorized"
  proof (cases sn)
    case None
    with assms(1) False ne have f: "first = ?authorized ! stable_rotation (role_identity ctx) (length ?authorized)"
      by (simp add: fallback_first_def Let_def)
    have "stable_rotation (role_identity ctx) (length ?authorized) < length ?authorized"
      using ne by (simp add: stable_rotation_def)
    with f show ?thesis by (metis nth_mem)
  next
    case (Some c)
    with assms(1) False ne have "first \<in> set (cc_weigh cfg c ?authorized (role_identity ctx) version)"
      by (auto simp: fallback_first_def Let_def split: list.splits)
    with weigh show ?thesis by blast
  qed
  with ordered False show ?thesis by auto
qed (use assms(1) in \<open>auto simp: fallback_first_def Let_def split: if_splits\<close>)

lemma hd_selected:
  assumes "2 < length (fallback_selected cfg ctx lobby version sn ordered first)"
  shows "hd (fallback_selected cfg ctx lobby version sn ordered first) = first"
  using assms by (auto simp: fallback_selected_def Let_def hd_append split: if_splits)

lemma fallback_ordered_available: "s \<in> set (fallback_ordered available lobby sn) \<Longrightarrow> (s, ''v1'') \<in> available"
  by (simp add: fallback_ordered_def)

lemma fallback_steps:
  "pp_steps (fallback_proposal target selected) = map (fallback_step target) (enumerate 0 selected) @ [social_step]"
  "ps_skill (fallback_step target x) = Some (snd x)" "ps_skill social_step = None"
  by (simp_all add: fallback_proposal_def fallback_step_def social_step_def split_beta)

lemma proposal_step_schema:
  assumes "proposal_step_ok ps" and "ps_skill ps = Some skill"
  shows "ps_schema ps = Some ''v1''"
proof -
  have "action_identity_error (ps_phase ps) (Some skill) (ps_schema ps) (ps_target ps) = None"
    using assms by (simp add: proposal_step_ok_def)
  then show ?thesis unfolding action_identity_error_def by (simp split: if_splits)
qed

lemma safe_fallback_planD:
  assumes "safe_fallback_plan cfg ctx i version recent sn = Inr p"
  obtains target first q where
    "fallback_first cfg ctx (fallback_available cfg ctx target) (is_lobby (cc_repr cfg) (gc_snapshot ctx)) version sn
       (fallback_ordered (fallback_available cfg ctx target) (is_lobby (cc_repr cfg) (gc_snapshot ctx)) sn) = Some first"
    "validate_proposal (fallback_proposal target (fallback_selected cfg ctx (is_lobby (cc_repr cfg) (gc_snapshot ctx))
       version sn (fallback_ordered (fallback_available cfg ctx target) (is_lobby (cc_repr cfg) (gc_snapshot ctx)) sn)
       first)) = Inr q"
    "materialize_activity_plan q i version (fallback_available cfg ctx target)
       (is_lobby (cc_repr cfg) (gc_snapshot ctx)) = Inr p"
  using assms
  by (auto simp: safe_fallback_plan_def Let_def split: sum.splits if_splits option.splits intro: that)

text \<open>
  C8: the fallback plan can be carried out.  When the model gives no usable plan, the plan the coordinator
  falls back to is active and keeps the invariant of the plans in the database; each of its skills is a
  canonical one the gateway publishes; it starts with a skill the lease authorises, which in the lobby
  is the transition to the plaza.  The order by weight is assumed to hold only skills it was given.
\<close>

theorem fallback_plan_is_safe:
  assumes plan: "safe_fallback_plan cfg ctx i version recent sn = Inr p"
    and weigh: "\<And>sn xs role v. set (cc_weigh cfg sn xs role v) \<subseteq> set xs"
    and i: "bounded_string 128 i" "py_strip i = i" and v: "1 \<le> version"
  shows "plan_inv p \<and> pl_status p = P_active \<and>
    (\<forall>st \<in> set (pl_steps p). \<forall>skill. st_skill st = Some skill \<longrightarrow>
       (skill, ''v1'') \<in> published ctx \<and> skill \<in> set CANONICAL_NON_CHAT_SKILLS) \<and>
    (\<exists>skill. st_skill (hd (pl_steps p)) = Some skill \<and> cc_authorize cfg ctx skill ''v1'' \<and>
       (is_lobby (cc_repr cfg) (gc_snapshot ctx) \<longrightarrow> skill = ''scene_tornado''))"
proof -
  let ?lobby = "is_lobby (cc_repr cfg) (gc_snapshot ctx)"
  from plan obtain target first q where
    first: "fallback_first cfg ctx (fallback_available cfg ctx target) ?lobby version sn
       (fallback_ordered (fallback_available cfg ctx target) ?lobby sn) = Some first"
    and q: "validate_proposal (fallback_proposal target (fallback_selected cfg ctx ?lobby version sn
       (fallback_ordered (fallback_available cfg ctx target) ?lobby sn) first)) = Inr q"
    and p: "materialize_activity_plan q i version (fallback_available cfg ctx target) ?lobby = Inr p"
    by (rule safe_fallback_planD)
  let ?available = "fallback_available cfg ctx target"
  let ?selected = "fallback_selected cfg ctx ?lobby version sn (fallback_ordered ?available ?lobby sn) first"
  from materialize_outcome[OF q i v, of ?available ?lobby] p have
    m: "materializable q ?available ?lobby" and steps: "pl_steps p = map step_of_proposal (pp_steps q)"
    and inv: "plan_inv p" "pl_status p = P_active"
    by (auto split: if_splits)
  have qs: "pp_steps q = map strip_proposal_step (pp_steps (fallback_proposal target ?selected))"
    using q by (auto simp: validate_proposal_def Let_def split: if_splits option.splits)
  have f: "cc_authorize cfg ctx first ''v1''" "(first, ''v1'') \<in> ?available" "?lobby \<longrightarrow> first = ''scene_tornado''"
    using fallback_firstD[OF first weigh] fallback_ordered_available by (metis (no_types, lifting))+
  have skills: "(skill, ''v1'') \<in> ?available"
    if "st \<in> set (pl_steps p)" "st_skill st = Some skill" for st skill
  proof -
    from that steps obtain ps where ps: "ps \<in> set (pp_steps q)" "ps_skill ps = Some skill"
      by (auto simp: step_of_proposal_def)
    moreover from ps(1) validate_proposalD(1)[OF q] have "proposal_step_ok ps" by (simp add: list_all_iff)
    then have "ps_schema ps = Some ''v1''" by (rule proposal_step_schema[OF _ ps(2)])
    ultimately show ?thesis using m by (auto simp: materializable_def)
  qed
  have "2 < length ?selected"
  proof -
    have "executable_count (map ps_skill (pp_steps q)) = length ?selected"
      unfolding qs fallback_steps
      by (simp add: executable_count_def strip_proposal_step_def fallback_steps(2,3) filter_True comp_def)
    with steps_layout_bounds(1)[OF validate_proposalD(3)[OF q]] show ?thesis by simp
  qed
  then have "?selected \<noteq> []" and "hd ?selected = first" using hd_selected by auto
  then have "ps_skill (hd (pp_steps q)) = Some (py_strip first)"
    unfolding qs fallback_steps by (cases ?selected) (auto simp: strip_proposal_step_def fallback_steps(2))
  moreover have "py_strip first = first"
    using f(2) by (auto simp: fallback_available_def intro: canonical_stripped)
  moreover have "pp_steps q \<noteq> []" by (simp add: qs fallback_steps)
  ultimately have "st_skill (hd (pl_steps p)) = Some first"
    by (simp add: steps hd_map step_of_proposal_def)
  moreover have "skill \<in> set CANONICAL_NON_CHAT_SKILLS \<and> (skill, ''v1'') \<in> published ctx"
    if "(skill, ''v1'') \<in> ?available" for skill
    using that by (auto simp: fallback_available_def split: if_splits)
  ultimately show ?thesis using inv skills f by blast
qed

end
