(* ===== verification/SceneFacts.thy ===== *)
theory SceneFacts
  imports SceneTargets
begin

text \<open>What the catalog offers and the allocator hands out.\<close>

section \<open>Candidates\<close>

lemma repeated_none: "repeated_target seen ts = None \<longleftrightarrow> distinct (map tg_id ts) \<and> set seen \<inter> tg_id ` set ts = {}"
  by (induction ts arbitrary: seen) auto

lemma make_catalog_distinct: "make_catalog ts = Inr c \<Longrightarrow> c = ts \<and> distinct (map tg_id ts)"
  using repeated_none[of "[]" ts] by (auto simp: make_catalog_def split: option.splits)

lemma movement_targets_set:
  "set (movement_targets_for_scene ts scene) = {t \<in> set ts. tg_scene t = scene \<and> is_movement t}"
  by (auto simp: movement_targets_for_scene_def targets_for_scene_def)

lemma movement_targets_distinct:
  assumes "distinct (map tg_id ts)"
  shows "distinct (movement_targets_for_scene ts scene)"
proof -
  have "distinct ts" using assms by (simp add: distinct_map)
  then show ?thesis by (simp add: movement_targets_for_scene_def targets_for_scene_def)
qed

text \<open>The targets a choice is made from: those not visited lately, unless all were.\<close>

definition eligible_targets :: "scene_catalog \<Rightarrow> int \<Rightarrow> json list \<Rightarrow> scene_target list" where
  "eligible_targets ts scene recent =
     (let targets = movement_targets_for_scene ts scene;
          unvisited = filter (\<lambda>t. tg_at t \<notin> set (recent_move_coordinates recent)) targets in
      if unvisited = [] then targets else unvisited)"

lemma rotation_take:
  assumes "distinct xs"
  shows "distinct (take n (drop k xs @ take k xs)) \<and> set (take n (drop k xs @ take k xs)) \<subseteq> set xs \<and>
    length (take n (drop k xs @ take k xs)) = min n (length xs)"
proof -
  have "distinct (drop k xs @ take k xs)"
    using assms set_take_disj_set_drop_if_distinct[OF assms, of k k] by auto
  moreover have "set (drop k xs @ take k xs) = set xs" by (metis append_take_drop_id set_append sup_commute)
  moreover have "length (drop k xs @ take k xs) = length xs" by simp
  ultimately show ?thesis by (metis distinct_take length_take min.commute set_take_subset)
qed

lemma select_candidates_eq:
  "movement_targets_for_scene ts scene \<noteq> [] \<Longrightarrow>
   \<exists>k. select_candidates first8 ts scene role version limit recent =
     take limit (drop k (eligible_targets ts scene recent) @ take k (eligible_targets ts scene recent))"
  unfolding select_candidates_def eligible_targets_def Let_def by (subst if_not_P) blast+

lemma select_candidates_facts:
  assumes "distinct (map tg_id ts)"
  shows "distinct (select_candidates first8 ts scene role version limit recent)"
    and "set (select_candidates first8 ts scene role version limit recent) \<subseteq> set (eligible_targets ts scene recent)"
    and "length (select_candidates first8 ts scene role version limit recent) =
      min limit (length (eligible_targets ts scene recent))"
proof -
  let ?sel = "select_candidates first8 ts scene role version limit recent"
  have d: "distinct (eligible_targets ts scene recent)"
    using movement_targets_distinct[OF assms] by (simp add: eligible_targets_def Let_def)
  have "distinct ?sel \<and> set ?sel \<subseteq> set (eligible_targets ts scene recent) \<and>
    length ?sel = min limit (length (eligible_targets ts scene recent))"
  proof (cases "movement_targets_for_scene ts scene = []")
    case True
    then show ?thesis by (simp add: select_candidates_def eligible_targets_def Let_def)
  next
    case False
    from select_candidates_eq[OF this] show ?thesis using rotation_take[OF d] by metis
  qed
  then show "distinct ?sel" "set ?sel \<subseteq> set (eligible_targets ts scene recent)"
    "length ?sel = min limit (length (eligible_targets ts scene recent))" by blast+
qed

section \<open>Allocations\<close>

text \<open>
  Every target handed out is claimed in its window, a window is listed once, an event is answered once, and
  two events answered in one window got different coordinates.
\<close>

definition allocator_ok :: "allocator \<Rightarrow> bool" where
  "allocator_ok a \<longleftrightarrow> distinct (map fst (al_windows a)) \<and> distinct (map fst (al_results a)) \<and>
     (\<forall>e k t. (e, k, Some t) \<in> set (al_results a) \<longrightarrow>
       (\<exists>cs. map_of (al_windows a) k = Some cs \<and> tg_at t \<in> set cs)) \<and>
     (\<forall>e e' k t t'. (e, k, Some t) \<in> set (al_results a) \<and> (e', k, Some t') \<in> set (al_results a) \<and> e \<noteq> e' \<longrightarrow>
       tg_at t \<noteq> tg_at t')"

lemma allocator_okI:
  assumes "distinct (map fst (al_windows a))" and "distinct (map fst (al_results a))"
    and "\<And>e k t. (e, k, Some t) \<in> set (al_results a) \<Longrightarrow> \<exists>cs. map_of (al_windows a) k = Some cs \<and> tg_at t \<in> set cs"
    and "\<And>e e' k t t'. (e, k, Some t) \<in> set (al_results a) \<Longrightarrow> (e', k, Some t') \<in> set (al_results a) \<Longrightarrow> e \<noteq> e' \<Longrightarrow>
      tg_at t \<noteq> tg_at t'"
  shows "allocator_ok a"
  unfolding allocator_ok_def using assms by blast

lemma allocator_okD:
  assumes "allocator_ok a"
  shows "distinct (map fst (al_windows a))" and "distinct (map fst (al_results a))"
    and "(e, k, Some t) \<in> set (al_results a) \<Longrightarrow> \<exists>cs. map_of (al_windows a) k = Some cs \<and> tg_at t \<in> set cs"
    and "(e, k, Some t) \<in> set (al_results a) \<Longrightarrow> (e', k, Some t') \<in> set (al_results a) \<Longrightarrow> e \<noteq> e' \<Longrightarrow> tg_at t \<noteq> tg_at t'"
  using assms unfolding allocator_ok_def by blast+

lemma map_of_filter_key: "P k \<Longrightarrow> map_of (filter (\<lambda>(k, _). P k) xs) k = map_of xs k"
  by (induction xs) auto

lemma distinct_fst_filter: "distinct (map fst xs) \<Longrightarrow> distinct (map fst (filter P xs))"
  by (induction xs) auto

lemma cleanup_results: "(e, k, r) \<in> set (al_results (cleanup current a)) \<longleftrightarrow>
    (e, k, r) \<in> set (al_results a) \<and> current - al_retention a \<le> wk_index k"
  by (auto simp: cleanup_def Let_def)

lemma cleanup_windows: "current - al_retention a \<le> wk_index k \<Longrightarrow>
    map_of (al_windows (cleanup current a)) k = map_of (al_windows a) k"
  by (simp add: cleanup_def Let_def map_of_filter_key[where P = "\<lambda>k. current - al_retention a \<le> wk_index k"])

lemma cleanup_ok:
  assumes "allocator_ok a"
  shows "allocator_ok (cleanup current a)"
proof (rule allocator_okI)
  show "distinct (map fst (al_windows (cleanup current a)))" "distinct (map fst (al_results (cleanup current a)))"
    using allocator_okD(1,2)[OF assms] by (simp_all add: cleanup_def Let_def distinct_fst_filter)
qed (use allocator_okD(3,4)[OF assms] in \<open>simp_all only: cleanup_results cleanup_windows\<close>, blast+)

text \<open>The allocator over its life: it is made, and then asked any number of times.\<close>

inductive allocator_state :: "allocator \<Rightarrow> bool" where
  made: "make_allocator window retention = Inr a \<Longrightarrow> allocator_state a"
| asked: "allocator_state a \<Longrightarrow>
    allocate gateway session event scene generation occurred candidates preferred a = Inr (r, b) \<Longrightarrow> allocator_state b"

inductive_cases allocator_stateE: "allocator_state a"

lemma set_remove_first: "p \<in> set xs \<Longrightarrow> insert p (set (remove1 p xs)) = set xs"
  by (induction xs) auto

lemma set_preferred_first: "set (preferred_first candidates preferred) = set candidates"
proof (cases "Option.bind preferred (\<lambda>i. find (\<lambda>t. tg_id t = i) candidates)")
  case (Some p)
  then have "p \<in> set candidates" by (auto simp: bind_eq_Some_conv find_Some_iff)
  then show ?thesis by (simp add: preferred_first_def Some set_remove_first)
qed (simp add: preferred_first_def)

text \<open>A fresh answer: the first candidate whose coordinates are free, which are claimed from then on.\<close>

lemma fresh_answer_ok:
  assumes a: "allocator_ok a" and fresh: "map_of (al_results a) e = None"
    and free: "\<And>t. r = Some t \<Longrightarrow> tg_at t \<notin> set (claimed_in a k)"
  shows "allocator_ok (answer_event e k r a)"
proof -
  define cs where "cs = claimed_in a k"
  note free = free[folded cs_def] and cs = cs_def[unfolded claimed_in_def]
  let ?cs = "case r of None \<Rightarrow> cs | Some t \<Rightarrow> tg_at t # cs"
  have w: "map_of (AList.update k ?cs (al_windows a)) k' = (if k' = k then Some ?cs else map_of (al_windows a) k')" for k'
    by (simp add: update_conv')
  have new: "e \<notin> fst ` set (al_results a)" using fresh by (simp add: map_of_eq_None_iff)
  have kept: "set cs \<subseteq> set ?cs" by (auto split: option.splits)
  have claimed: "tg_at t \<in> set cs" if "(e', k, Some t) \<in> set (al_results a)" for e' t
    using allocator_okD(3)[OF a that] cs by auto
  have "distinct (map fst (AList.update k ?cs (al_windows a)))"
    using allocator_okD(1)[OF a] by (simp add: distinct_update)
  moreover have "\<exists>cs'. map_of (AList.update k ?cs (al_windows a)) k' = Some cs' \<and> tg_at t \<in> set cs'"
    if "(e', k', Some t) \<in> set ((e, k, r) # al_results a)" for e' k' t
  proof (cases "(e', k', Some t) \<in> set (al_results a)")
    case True
    show ?thesis
    proof (cases "k' = k")
      case True
      have "tg_at t \<in> set cs" by (rule claimed[of e']) (use \<open>(e', k', Some t) \<in> set (al_results a)\<close> True in simp)
      with kept True show ?thesis by (simp add: w subsetD)
    next
      case False
      with allocator_okD(3)[OF a True] show ?thesis by (simp add: w)
    qed
  qed (use that in \<open>auto simp: w\<close>)
  moreover have "tg_at t \<noteq> tg_at t'" if h: "(e1, k1, Some t) \<in> set ((e, k, r) # al_results a)"
    "(e2, k1, Some t') \<in> set ((e, k, r) # al_results a)" "e1 \<noteq> e2" for e1 e2 k1 t t'
  proof -
    consider "(e1, k1, Some t) \<in> set (al_results a)" "(e2, k1, Some t') \<in> set (al_results a)"
      | "r = Some t" "k1 = k" "(e2, k, Some t') \<in> set (al_results a)"
      | "r = Some t'" "k1 = k" "(e1, k, Some t) \<in> set (al_results a)"
      using h unfolding list.set insert_iff prod.inject by metis
    then show ?thesis
    proof cases
      case 1
      show ?thesis by (rule allocator_okD(4)[OF a 1 h(3)])
    next
      case 2
      with claimed free show ?thesis by metis
    next
      case 3
      with claimed free show ?thesis by metis
    qed
  qed
  moreover have "distinct (map fst ((e, k, r) # al_results a))" using allocator_okD(2)[OF a] new by simp
  ultimately show ?thesis unfolding answer_event_def cs_def[symmetric] by (intro allocator_okI) simp_all
qed

text \<open>An event is answered from memory, or afresh.\<close>

definition window_at :: "string \<Rightarrow> int \<Rightarrow> int \<Rightarrow> int \<Rightarrow> allocator \<Rightarrow> window_key" where
  "window_at gateway scene generation occurred a = \<lparr>wk_gateway = gateway, wk_scene = scene,
     wk_generation = generation, wk_index = occurred div al_window_ms a\<rparr>"

definition valid_request :: "string \<Rightarrow> string \<Rightarrow> string \<Rightarrow> int \<Rightarrow> int \<Rightarrow> int \<Rightarrow> bool" where
  "valid_request gateway session event scene generation occurred \<longleftrightarrow> \<not> is_blank gateway \<and> \<not> is_blank session \<and>
     \<not> is_blank event \<and> 0 \<le> scene \<and> 0 < generation \<and> 0 \<le> occurred"

lemma allocate_eq:
  "allocate gateway session event scene generation occurred candidates preferred a =
     (let k = window_at gateway scene generation occurred a; c = cleanup (wk_index k) a in
      if \<not> (\<not> is_blank gateway \<and> \<not> is_blank session \<and> \<not> is_blank event)
      then Inl ''gateway_id, session_id, and event_id must be non-empty''
      else if \<not> (0 \<le> scene \<and> 0 < generation \<and> 0 \<le> occurred)
      then Inl ''scene_id, control_generation, and occurred_at_ms are invalid''
      else case map_of (al_results c) (gateway, session, event) of
          Some (_, previous) \<Rightarrow> Inr (previous, c)
        | None \<Rightarrow>
            let r = find (\<lambda>t. tg_at t \<notin> set (claimed_in c k)) (preferred_first candidates preferred) in
            Inr (r, answer_event (gateway, session, event) k r c))"
  unfolding allocate_def Let_def window_at_def by (simp add: not_less not_le)

lemma allocate_cases:
  assumes "allocate gateway session event scene generation occurred candidates preferred a = Inr (r, b)"
  obtains (remembered) k where "valid_request gateway session event scene generation occurred"
      and "b = cleanup (wk_index (window_at gateway scene generation occurred a)) a"
      and "map_of (al_results b) (gateway, session, event) = Some (k, r)"
    | (fresh) c where "valid_request gateway session event scene generation occurred"
      and "c = cleanup (wk_index (window_at gateway scene generation occurred a)) a"
      and "map_of (al_results c) (gateway, session, event) = None"
      and "r = find (\<lambda>t. tg_at t \<notin> set (claimed_in c (window_at gateway scene generation occurred a)))
        (preferred_first candidates preferred)"
      and "b = answer_event (gateway, session, event) (window_at gateway scene generation occurred a) r c"
proof -
  define c where "c = cleanup (wk_index (window_at gateway scene generation occurred a)) a"
  have v: "valid_request gateway session event scene generation occurred"
    using assms by (auto simp: allocate_eq Let_def valid_request_def split: if_splits)
  have eq: "(case map_of (al_results c) (gateway, session, event) of
      Some (_, previous) \<Rightarrow> Inr (previous, c)
    | None \<Rightarrow> let r = find (\<lambda>t. tg_at t \<notin> set (claimed_in c (window_at gateway scene generation occurred a)))
          (preferred_first candidates preferred) in
        Inr (r, answer_event (gateway, session, event) (window_at gateway scene generation occurred a) r c)) =
      (Inr (r, b) :: string + scene_target option \<times> allocator)"
    using assms v unfolding allocate_eq Let_def c_def valid_request_def by (simp split del: if_split)
  show ?thesis
  proof (cases "map_of (al_results c) (gateway, session, event)")
    case (Some answer)
    with eq show ?thesis by (cases answer) (auto intro!: remembered[OF v] simp: c_def)
  next
    case None
    with eq show ?thesis by (auto simp: Let_def intro!: fresh[OF v c_def])
  qed
qed

lemma cleanup_same [simp]: "al_window_ms (cleanup i a) = al_window_ms a" "al_retention (cleanup i a) = al_retention a"
  by (simp_all add: cleanup_def Let_def)

lemma answer_event_same [simp]:
  "al_window_ms (answer_event e k r a) = al_window_ms a" "al_retention (answer_event e k r a) = al_retention a"
  "al_results (answer_event e k r a) = (e, k, r) # al_results a"
  by (simp_all add: answer_event_def)

lemma allocate_ok:
  assumes "allocator_ok a"
    and run: "allocate gateway session event scene generation occurred candidates preferred a = Inr (r, b)"
  shows "allocator_ok b \<and> (\<exists>k. map_of (al_results b) (gateway, session, event) = Some (k, r)) \<and>
    al_window_ms b = al_window_ms a \<and> al_retention b = al_retention a"
  using run
proof (cases rule: allocate_cases)
  case (remembered k)
  then show ?thesis using cleanup_ok[OF assms(1)] by simp
next
  case (fresh c)
  have ok: "allocator_ok c" unfolding fresh(2) by (rule cleanup_ok[OF assms(1)])
  have "allocator_ok b" unfolding fresh(5)
    by (rule fresh_answer_ok[OF ok fresh(3)]) (auto simp: fresh(4) find_Some_iff)
  with fresh show ?thesis by simp
qed

lemma allocator_state_ok: "allocator_state a \<Longrightarrow> allocator_ok a \<and> 0 < al_window_ms a \<and> 1 \<le> al_retention a"
proof (induction rule: allocator_state.induct)
  case (made window retention a)
  then show ?case by (auto simp: make_allocator_def allocator_ok_def split: if_splits)
next
  case (asked a gateway session event scene generation occurred candidates preferred r b)
  then show ?case using allocate_ok[OF _ asked.hyps(2)] by auto
qed


end
