(* ===== verification/PlannerWitnesses.thy ===== *)
theory PlannerWitnesses
  imports ActivityPlannerFacts SceneFacts DispatchProperties
begin

text \<open>The properties of the planner, the coordinator and the allocator applied to concrete inputs.\<close>

section \<open>A planner that waits\<close>

definition sample_gateway_context :: gateway_context where
  "sample_gateway_context =
     \<lparr>gc_event = ''evt-start'', gc_session = ''room'', gc_generation = 1, gc_sequence = 1, gc_lease = ''lease-1'',
      gc_state_version = 1, gc_lease_kind = ''observation'', gc_actions = [A_call_skill, A_wait],
      gc_parent = None, gc_skill = None, gc_skills = [], gc_snapshot = JObj [(''AccountId'', JStr ''player'')],
      gc_available = map (\<lambda>s. \<lparr>as_name = s, as_schema = ''v1'', as_running = False, as_cooldown = 0, as_exposure = None\<rparr>)
        [''jump'', ''sign_in'', ''observe_state''],
      gc_hints = [], gc_terminal = None\<rparr>"

definition sample_coordinator :: coordinator_config where
  "sample_coordinator =
     \<lparr>cc_sha = \<lambda>_. replicate 32 0, cc_repr = \<lambda>_. [], cc_weigh = \<lambda>_ skills _ _. skills, cc_generate = \<lambda>_ _. None,
      cc_plan_id = \<lambda>_. ''plan-1'', cc_authorize = catalog_step_is_permitted, cc_catalog = None, cc_capacity = None,
      cc_capacity_down = False, cc_now = 2060\<rparr>"

definition sample_planner :: decision_planner where
  "sample_planner =
     \<lparr>pn_sha = \<lambda>_. replicate 32 0, pn_hex = id, pn_repr = \<lambda>_. [], pn_weigh = \<lambda>_ skills _ _. skills,
      pn_outbox = sample_config, pn_ids = \<lambda>_. ''dec-1'', pn_reason = \<lambda>_ _. Reasoning_timeout,
      pn_coordinator = Some (coordinator_of sample_coordinator), pn_catalog = None, pn_force_skills = [],
      pn_force_wait = True, pn_force_wait_ms = 500, pn_target_ms = None, pn_capacity = None, pn_capacity_down = False\<rparr>"

definition sample_allocator :: allocator where
  "sample_allocator = \<lparr>al_window_ms = 1000, al_retention = 2, al_windows = [], al_results = []\<rparr>"

definition sample_plan_run :: "planner_outcome \<times> db \<times> allocator" where
  "sample_plan_run = plan sample_planner 2060 working_ev sample_gateway_context (sample_working, sample_allocator)"

lemma plan_decision_freeze:
  "freeze i (ce_trace ev) ctx action = Inr f \<Longrightarrow>
   plan_decision now cfg freeze i ev ctx action binding s = plan_decision now cfg (\<lambda>_ _ _ _. Inr f) i ev ctx action binding s"
proof -
  assume "freeze i (ce_trace ev) ctx action = Inr f"
  then have new: "plan_new now cfg freeze i ev ctx action binding s =
      plan_new now cfg (\<lambda>_ _ _ _. Inr f) i ev ctx action binding s"
    by (simp add: plan_new_def split: sum.split)
  show ?thesis unfolding plan_decision_def plan_transaction_def new ..
qed

definition forced_wait :: gateway_action where
  "forced_wait = Wait_action ''Forced wait after the initial Lobby-to-plaza transition for dialogue testing'' 30000 500"

lemma forced_wait_frozen:
  "\<exists>f. freeze_gateway_v2_decision (\<lambda>_. replicate 32 0) id ''dec-1'' ''trace'' sample_gateway_context forced_wait = Inr f"
proof -
  let ?b = "\<lparr>db_trace = ''trace'', db_session = ''room'', db_decision = ''dec-1'', db_lease = ''lease-1'',
    db_state_version = 1, db_generation = 1, db_ttl = 30000\<rparr>"
  have "parse_gateway_v2_decision (decision_payload ?b forced_wait) = Some (Wait_decision ?b 500)" by code_simp
  moreover have "freezable_action (\<lambda>_. replicate 32 0) sample_gateway_context forced_wait = Some forced_wait"
    by (simp add: freezable_action_def forced_wait_def normalize_gateway_v2_action_def)
  ultimately show ?thesis
    by (simp add: freeze_gateway_v2_decision_def sample_gateway_context_def Let_def forced_wait_def)
qed

lemma forced_wait_planned:
  "decisions (snd (plan_decision 2060 sample_config (\<lambda>_ _ _ _. Inr f) ''dec-1'' working_ev
     (repository_context sample_gateway_context) (repository_action forced_wait) None sample_working)) \<noteq> []"
  "isl (fst (plan_decision 2060 sample_config (\<lambda>_ _ _ _. Inr f) ''dec-1'' working_ev
     (repository_context sample_gateway_context) (repository_action forced_wait) None sample_working)) = False"
proof -
  have "length (decisions (snd (plan_decision 2060 sample_config (\<lambda>_ _ _ _. Inr f) ''dec-1'' working_ev
     (repository_context sample_gateway_context) (repository_action forced_wait) None sample_working))) = 1" by code_simp
  then show "decisions (snd (plan_decision 2060 sample_config (\<lambda>_ _ _ _. Inr f) ''dec-1'' working_ev
     (repository_context sample_gateway_context) (repository_action forced_wait) None sample_working)) \<noteq> []"
    by auto
qed code_simp

lemma sample_plan_run_adds: "decisions (fst (snd sample_plan_run)) \<noteq> []"
proof -
  obtain f where f: "freeze_gateway_v2_decision (\<lambda>_. replicate 32 0) id ''dec-1'' ''trace'' sample_gateway_context forced_wait = Inr f"
    using forced_wait_frozen by blast
  have first: "initial_choice sample_planner 2060 working_ev sample_gateway_context = None"
    and stored: "find_by_source_event working_ev sample_working = Inr None"
    and account: "has_account sample_gateway_context"
    and stage: "forced_wait_stage sample_planner sample_gateway_context = Inr (Some forced_wait)"
    by code_simp+
  have run: "plan_action sample_planner 2060 0 working_ev sample_gateway_context forced_wait None sample_working =
      plan_decision 2060 sample_config (\<lambda>_ _ _ _. Inr f) ''dec-1'' working_ev (repository_context sample_gateway_context)
        (repository_action forced_wait) None sample_working"
    unfolding plan_action_def
    by (subst plan_decision_freeze[where f = f]) (simp_all add: sample_planner_def f working_ev_def)
  have "choose_action sample_planner 2060 working_ev sample_gateway_context None sample_working = Inr (Some forced_wait)"
    by (simp add: choose_action_def first stage otherwise_def forced_skill_stage_def)
       (simp add: sample_planner_def)
  moreover have "obtain_activity sample_planner 2060 working_ev sample_gateway_context sample_working = Inr (None, sample_working)"
    by (simp add: obtain_activity_def undirected_def sample_planner_def)
  moreover have "gc_lease_kind sample_gateway_context \<noteq> ''conversation''" by code_simp
  ultimately show ?thesis
    using stored account forced_wait_planned[of f] run
    by (auto simp: sample_plan_run_def plan_def plan_with_account_def keep_to_step_def plan_chosen_def
        finalize_move_to_action_def normalize_gateway_v2_action_def forced_wait_def Let_def
        split: prod.splits sum.splits plan_error.splits)
qed


definition planning_dispatcher :: dispatcher where
  "planning_dispatcher = sample_dispatcher\<lparr>dp_planner :=
     planner_step sample_planner 2060 (\<lambda>_. sample_gateway_context) (\<lambda>_. sample_allocator)\<rparr>"

theorem planning_stays_in_system_witness:
  "reachable (run_claimed_state\<lparr>sys_db := process_claimed_event sample_worker planning_dispatcher 2050 2100 sample_ev sample_claimed\<rparr>)"
  using planning_stays_in_system[OF run_claimed_reachable, of sample_ev planning_dispatcher sample_planner 2060
      "\<lambda>_. sample_gateway_context" "\<lambda>_. sample_allocator" sample_coordinator sample_worker 2050 2100]
  by (simp add: run_claimed_state_def planning_dispatcher_def sample_planner_def)

section \<open>A fallback plan of three skills\<close>

lemma sample_fallback:
  "safe_fallback_plan sample_coordinator sample_gateway_context ''plan-1'' 1 [] None =
   Inr (projr (safe_fallback_plan sample_coordinator sample_gateway_context ''plan-1'' 1 [] None))"
  by (rule Inr_projr) code_simp

theorem fallback_plan_is_safe_witness:
  "plan_inv (projr (safe_fallback_plan sample_coordinator sample_gateway_context ''plan-1'' 1 [] None))"
proof -
  have "set (cc_weigh sample_coordinator sn xs role v) \<subseteq> set xs" for sn xs role v
    by (simp add: sample_coordinator_def)
  moreover have "bounded_string 128 ''plan-1''" "py_strip ''plan-1'' = ''plan-1''" by code_simp+
  ultimately show ?thesis using fallback_plan_is_safe[OF sample_fallback] by simp
qed

section \<open>Two events in one window\<close>

definition target_at :: "string \<Rightarrow> int \<Rightarrow> scene_target" where
  "target_at i x = \<lparr>tg_id = i, tg_scene = 7, tg_scene_name = ''plaza'', tg_kind = Kind_navigation,
     tg_activity = ''wander'', tg_point = i, tg_at = (x, 0, 0), tg_source = ''map''\<rparr>"

definition two_targets :: "scene_target list" where
  "two_targets = [target_at ''a'' 1, target_at ''b'' 2]"

lemma first_allocation:
  "allocate ''gw'' ''s1'' ''e1'' 7 1 500 two_targets None sample_allocator =
     Inr (Some (target_at ''a'' 1), snd (projr (allocate ''gw'' ''s1'' ''e1'' 7 1 500 two_targets None sample_allocator)))"
proof -
  let ?r = "allocate ''gw'' ''s1'' ''e1'' 7 1 500 two_targets None sample_allocator"
  have "\<not> isl ?r \<and> fst (projr ?r) = Some (target_at ''a'' 1)" by code_simp
  then show ?thesis by (cases ?r) auto
qed


end
