(* ===== verification/Transactions.thy ===== *)
theory Transactions
  imports Complex_Main Prelude
begin

text \<open>
  Retries of database transactions (\<open>transaction.py\<close>): the SQLSTATE behind an exception, found along the
  exceptions it wraps, and the loop that runs a transaction again after PostgreSQL aborted it.
\<close>

section \<open>The SQLSTATE of an exception\<close>

text \<open>
  Exceptions are objects with an identity and can refer to each other in a circle.  An attribute that is
  missing or of another type is \<open>None\<close>.
\<close>

record exception_object =
  xo_sqlstate :: "string option"
  xo_pgcode :: "string option"
  xo_orig :: "nat option"
  xo_cause :: "nat option"
  xo_context :: "nat option"

type_synonym exception_heap = "(nat \<times> exception_object) list"

definition state_text :: "string option \<Rightarrow> string option" where
  "state_text v = (case v of None \<Rightarrow> None | Some s \<Rightarrow> if s = [] then None else Some s)"

definition own_sqlstate :: "exception_object \<Rightarrow> string option" where
  "own_sqlstate e = (case state_text (xo_sqlstate e) of Some s \<Rightarrow> Some s | None \<Rightarrow> state_text (xo_pgcode e))"

text \<open>What is pushed on \<open>pending\<close>, the last first.\<close>

definition nested :: "exception_object \<Rightarrow> nat list" where
  "nested e = concat (map (\<lambda>x. case x of None \<Rightarrow> [] | Some i \<Rightarrow> [i]) [xo_context e, xo_cause e, xo_orig e])"

function find_sqlstate :: "exception_heap \<Rightarrow> nat list \<Rightarrow> nat list \<Rightarrow> string option" where
  "find_sqlstate heap visited [] = None"
| "find_sqlstate heap visited (i # pending) =
     (if i \<in> set visited then find_sqlstate heap visited pending
      else case map_of heap i of
        None \<Rightarrow> find_sqlstate heap (i # visited) pending
      | Some e \<Rightarrow>
          (case own_sqlstate e of
             Some s \<Rightarrow> Some s
           | None \<Rightarrow> find_sqlstate heap (i # visited) (nested e @ pending)))"
  by pat_completeness auto

termination
proof (relation "measures [\<lambda>(heap, visited, pending). card (fst ` set heap - set visited),
    \<lambda>(heap, visited, pending). length pending]", goal_cases)
  case (3 heap visited i pending)
  then have "i \<notin> fst ` set heap" by (simp add: map_of_eq_None_iff)
  then have "fst ` set heap - set (i # visited) = fst ` set heap - set visited" by auto
  then show ?case by simp
next
  case (4 heap visited i pending e)
  then have "i \<in> fst ` set heap - set visited" by (force dest: map_of_SomeD)
  then have "fst ` set heap - set (i # visited) \<subset> fst ` set heap - set visited" by auto
  then show ?case by (simp add: psubset_card_mono)
qed auto

definition postgres_sqlstate :: "exception_heap \<Rightarrow> nat \<Rightarrow> string option" where
  "postgres_sqlstate heap er = find_sqlstate heap [] [er]"

definition is_retryable_transaction_error :: "exception_heap \<Rightarrow> nat \<Rightarrow> bool" where
  "is_retryable_transaction_error heap er \<longleftrightarrow> postgres_sqlstate heap er \<in> {Some ''40P01'', Some ''40001''}"

text \<open>The search against the exceptions an exception wraps, directly or through others.\<close>

definition wraps :: "exception_heap \<Rightarrow> nat \<Rightarrow> nat \<Rightarrow> bool" where
  "wraps heap i j \<longleftrightarrow> (\<exists>e. map_of heap i = Some e \<and> j \<in> set (nested e))"

definition state_at :: "exception_heap \<Rightarrow> nat \<Rightarrow> string option" where
  "state_at heap i = Option.bind (map_of heap i) own_sqlstate"

lemma found_sqlstate:
  "find_sqlstate heap visited pending = Some s \<Longrightarrow> \<exists>i \<in> set pending. \<exists>j. (wraps heap)\<^sup>*\<^sup>* i j \<and> state_at heap j = Some s"
proof (induction heap visited pending rule: find_sqlstate.induct)
  case (2 heap visited i pending)
  show ?case
  proof (cases "i \<in> set visited \<or> map_of heap i = None")
    case True
    with 2 show ?thesis by (auto split: if_splits)
  next
    case False
    then obtain e where e: "i \<notin> set visited" "map_of heap i = Some e" by auto
    show ?thesis
    proof (cases "own_sqlstate e")
      case (Some u)
      with 2(4) e show ?thesis by (auto simp: state_at_def intro!: exI[of _ i])
    next
      case None
      with 2(4) e 2(3)[OF e None] obtain k j where k: "k \<in> set (nested e @ pending)" "(wraps heap)\<^sup>*\<^sup>* k j"
        "state_at heap j = Some s" by auto
      show ?thesis
      proof (cases "k \<in> set (nested e)")
        case True
        then have "wraps heap i k" using e(2) by (auto simp: wraps_def)
        with k show ?thesis by (auto intro: converse_rtranclp_into_rtranclp)
      qed (use k in auto)
    qed
  qed
qed simp

lemma closed_reach:
  assumes "(wraps heap)\<^sup>*\<^sup>* i j" and "i \<in> V" and "\<And>k l. k \<in> V \<Longrightarrow> wraps heap k l \<Longrightarrow> l \<in> V"
  shows "j \<in> V"
  using assms by (induction rule: rtranclp_induct) auto

lemma no_sqlstate:
  assumes "find_sqlstate heap visited pending = None"
    and "\<forall>k \<in> set visited. state_at heap k = None \<and> (\<forall>l. wraps heap k l \<longrightarrow> l \<in> set visited \<union> set pending)"
    and "i \<in> set visited \<union> set pending" and "(wraps heap)\<^sup>*\<^sup>* i j"
  shows "state_at heap j = None"
  using assms
proof (induction heap visited pending rule: find_sqlstate.induct)
  case (1 heap visited)
  have "j \<in> set visited" by (rule closed_reach[OF 1(4)]) (use 1(2,3) in auto)
  with 1(2) show ?case by blast
next
  case (2 heap visited k pending)
  show ?case
  proof (cases "k \<in> set visited")
    case True
    have "\<forall>m \<in> set visited. state_at heap m = None \<and> (\<forall>l. wraps heap m l \<longrightarrow> l \<in> set visited \<union> set pending)"
      using 2(5) True by auto
    with 2(4,6,7) True show ?thesis by (intro 2(1)[OF True]) auto
  next
    case fresh: False
    show ?thesis
    proof (cases "map_of heap k")
      case None
      then have "state_at heap k = None" "\<And>l. \<not> wraps heap k l" by (simp_all add: state_at_def wraps_def)
      with 2(4-7) fresh None show ?thesis by (intro 2(2)[OF fresh None]) auto
    next
      case (Some e)
      then have own: "own_sqlstate e = None" using 2(4) fresh by (auto split: option.splits)
      then have "state_at heap k = None" "\<And>l. wraps heap k l \<Longrightarrow> l \<in> set (nested e)"
        using Some by (simp_all add: state_at_def wraps_def)
      with 2(4-7) fresh Some own show ?thesis by (intro 2(3)[OF fresh Some own]) auto
    qed
  qed
qed

lemma postgres_sqlstate_None:
  "postgres_sqlstate heap er = None \<longleftrightarrow> (\<forall>j. (wraps heap)\<^sup>*\<^sup>* er j \<longrightarrow> state_at heap j = None)"
proof
  show "postgres_sqlstate heap er = None \<Longrightarrow> \<forall>j. (wraps heap)\<^sup>*\<^sup>* er j \<longrightarrow> state_at heap j = None"
    using no_sqlstate[of heap "[]" "[er]" er] by (simp add: postgres_sqlstate_def)
  show "\<forall>j. (wraps heap)\<^sup>*\<^sup>* er j \<longrightarrow> state_at heap j = None \<Longrightarrow> postgres_sqlstate heap er = None"
    using found_sqlstate[of heap "[]" "[er]"] by (cases "postgres_sqlstate heap er") (auto simp: postgres_sqlstate_def)
qed

section \<open>Running again\<close>

text \<open>\<open>factor\<close> is what \<open>random.uniform\<close> draws between \<open>1 - jitter\<close> and \<open>1 + jitter\<close>.\<close>

definition retry_delay :: "real \<Rightarrow> nat \<Rightarrow> real \<Rightarrow> real \<Rightarrow> real \<Rightarrow> real" where
  "retry_delay factor attempt base maximum jitter =
     (let exponential = min maximum (base * 2 ^ (attempt - 1)) in
      if jitter = 0 then exponential else exponential * factor)"

text \<open>
  The loop \<open>for attempt in range(n, n + left + 1)\<close> over the outcomes of the attempts; \<open>f n\<close> runs attempt
  \<open>n\<close> and answers its result and the state after it.  The last component lists the attempts after which
  the loop slept.
\<close>

primrec retry_from ::
  "('e \<Rightarrow> bool) \<Rightarrow> (nat \<Rightarrow> 's \<Rightarrow> ('e + 'a) \<times> 's) \<Rightarrow> nat \<Rightarrow> nat \<Rightarrow> 's \<Rightarrow> ('e + 'a) \<times> 's \<times> nat list" where
  "retry_from retryable f 0 n s = (case f n s of (r, t) \<Rightarrow> (r, t, []))"
| "retry_from retryable f (Suc left) n s =
     (case f n s of
        (Inr a, t) \<Rightarrow> (Inr a, t, [])
      | (Inl er, t) \<Rightarrow>
          if \<not> retryable er then (Inl er, t, [])
          else (case retry_from retryable f left (Suc n) t of (r, u, slept) \<Rightarrow> (r, u, n # slept)))"

text \<open>The decorator of the repository methods: three attempts.\<close>

definition retry_database_mutation ::
  "('e \<Rightarrow> bool) \<Rightarrow> (nat \<Rightarrow> 's \<Rightarrow> ('e + 'a) \<times> 's) \<Rightarrow> 's \<Rightarrow> ('e + 'a) \<times> 's \<times> nat list" where
  "retry_database_mutation retryable f s = retry_from retryable f 2 1 s"

text \<open>
  One attempt: a fresh session runs the operation in a transaction of its own.  An error of the operation
  or of the commit rolls it back.
\<close>

definition attempt_transaction :: "('s \<Rightarrow> 'e + 'a \<times> 's) \<Rightarrow> 'e option \<Rightarrow> 's \<Rightarrow> ('e + 'a) \<times> 's" where
  "attempt_transaction operation commit s =
     (case operation s of
        Inl er \<Rightarrow> (Inl er, s)
      | Inr (a, t) \<Rightarrow> (case commit of Some er \<Rightarrow> (Inl er, s) | None \<Rightarrow> (Inr a, t)))"

record retry_config =
  rt_max_attempts :: int
  rt_base_delay :: real
  rt_max_delay :: real
  rt_jitter :: real

definition retry_config_error :: "retry_config \<Rightarrow> string option" where
  "retry_config_error cfg =
     (if rt_max_attempts cfg \<le> 0 then Some ''max_attempts must be positive''
      else if rt_base_delay cfg \<le> 0 \<or> rt_max_delay cfg \<le> 0 then Some ''transaction retry delays must be positive''
      else if rt_max_delay cfg < rt_base_delay cfg then Some ''base_delay_seconds must not exceed max_delay_seconds''
      else if \<not> (0 \<le> rt_jitter cfg \<and> rt_jitter cfg \<le> 1) then Some ''jitter_ratio must be between zero and one''
      else None)"

datatype 'e run_error = Value_raised string | Transaction_raised 'e

text \<open>
  \<open>others n\<close> is what other sessions commit before attempt \<open>n\<close> begins, \<open>commit n\<close> the error of its commit.
\<close>

definition run_database_transaction ::
  "retry_config \<Rightarrow> ('e \<Rightarrow> bool) \<Rightarrow> (nat \<Rightarrow> 's \<Rightarrow> 's) \<Rightarrow> (nat \<Rightarrow> 'e option) \<Rightarrow> (nat \<Rightarrow> 's \<Rightarrow> 'e + 'a \<times> 's) \<Rightarrow> 's \<Rightarrow>
   ('e run_error + 'a) \<times> 's \<times> nat list" where
  "run_database_transaction cfg retryable others commit operation s =
     (case retry_config_error cfg of
        Some message \<Rightarrow> (Inl (Value_raised message), s, [])
      | None \<Rightarrow>
          (case retry_from retryable (\<lambda>n s. attempt_transaction (operation n) (commit n) (others n s))
                  (nat (rt_max_attempts cfg) - 1) 1 s of
             (r, t, slept) \<Rightarrow> (map_sum Transaction_raised id r, t, slept)))"

section \<open>What a retried transaction does\<close>

text \<open>The state attempt \<open>n\<close> begins in when no attempt before it left anything.\<close>

definition state_before :: "(nat \<Rightarrow> 's \<Rightarrow> 's) \<Rightarrow> nat \<Rightarrow> 's \<Rightarrow> 's" where
  "state_before others n s = fold others [1..<Suc n] s"

lemma attempt_failed: "attempt_transaction operation commit s = (Inl er, t) \<Longrightarrow> t = s"
  by (auto simp: attempt_transaction_def split: sum.splits option.splits)

lemma attempt_committed: "attempt_transaction operation commit s = (Inr a, t) \<longleftrightarrow> operation s = Inr (a, t) \<and> commit = None"
  by (auto simp: attempt_transaction_def split: sum.splits option.splits)

lemma retry_from_outcome:
  assumes "retry_from retryable (\<lambda>n s. attempt_transaction (operation n) (commit n) (others n s)) left n s = (r, t, slept)"
  shows "slept = [n..<n + length slept] \<and> length slept \<le> left \<and>
    (\<forall>k \<in> set slept. \<exists>er. retryable er \<and>
       fst (attempt_transaction (operation k) (commit k) (fold others [n..<Suc k] s)) = Inl er) \<and>
    attempt_transaction (operation (n + length slept)) (commit (n + length slept))
      (fold others [n..<Suc (n + length slept)] s) = (r, t) \<and>
    (\<forall>er. r = Inl er \<longrightarrow> retryable er \<longrightarrow> length slept = left)"
  using assms
proof (induction left arbitrary: n s slept)
  case 0
  then show ?case by (auto split: prod.splits)
next
  case (Suc left)
  let ?f = "\<lambda>n s. attempt_transaction (operation n) (commit n) (others n s)"
  obtain q u where q: "?f n s = (q, u)" by (cases "?f n s")
  show ?case
  proof (cases "\<exists>er. q = Inl er \<and> retryable er")
    case True
    then obtain er where er: "q = Inl er" "retryable er" by blast
    then have u: "u = others n s" using attempt_failed q by metis
    obtain rest where run: "retry_from retryable ?f left (Suc n) u = (r, t, rest)" and slept: "slept = n # rest"
      using Suc.prems er q by (auto split: prod.splits)
    have step: "fold others [n..<Suc k] s = fold others [Suc n..<Suc k] u" if "n \<le> k" for k
      using that by (simp add: upt_conv_Cons u del: upt_Suc)
    note IH = Suc.IH[OF run]
    have "\<exists>er. retryable er \<and> fst (attempt_transaction (operation k) (commit k) (fold others [n..<Suc k] s)) = Inl er"
      if "k \<in> set slept" for k
    proof (cases "k = n")
      case True
      then show ?thesis using er q by auto
    next
      case False
      with that slept have k: "k \<in> set rest" by simp
      then have "k \<in> set [Suc n..<Suc n + length rest]" using IH by metis
      then have "n \<le> k" by auto
      with IH k step show ?thesis by metis
    qed
    moreover have "slept = [n..<n + length slept]" using IH slept by (simp add: upt_conv_Cons del: upt_Suc)
    moreover have "attempt_transaction (operation (n + length slept)) (commit (n + length slept))
      (fold others [n..<Suc (n + length slept)] s) = (r, t)"
      using IH slept step[of "n + length slept"] by (simp del: upt_Suc)
    moreover have "length slept \<le> Suc left" "\<forall>er. r = Inl er \<longrightarrow> retryable er \<longrightarrow> length slept = Suc left"
      using IH slept by (simp_all del: upt_Suc)
    ultimately show ?thesis by blast
  next
    case False
    then have "(r, t, slept) = (q, u, [])" using Suc.prems q by (cases q) auto
    with False q show ?thesis by auto
  qed
qed

text \<open>
  C11: a retried transaction takes effect at most once.  A run that returns committed exactly its last attempt:
  the state after it is what the operation made of a state that only the work of other sessions separates
  from the one at the start, and every attempt before failed with a retryable error and left nothing.  A
  run that raises left nothing at all, and did so for an error that is not retryable or after the last
  attempt.
\<close>

theorem retried_transaction_commits_once:
  assumes ok: "retry_config_error cfg = None"
    and run: "run_database_transaction cfg retryable others commit operation s = (r, t, slept)"
  shows "\<exists>n. slept = [1..<n] \<and> 1 \<le> n \<and> int n \<le> rt_max_attempts cfg \<and>
    (\<forall>k \<in> {1..<n}. \<exists>er. retryable er \<and>
       (operation k (state_before others k s) = Inl er \<or> commit k = Some er)) \<and>
    (case r of
       Inr a \<Rightarrow> operation n (state_before others n s) = Inr (a, t) \<and> commit n = None
     | Inl (Transaction_raised er) \<Rightarrow> t = state_before others n s \<and> (\<not> retryable er \<or> int n = rt_max_attempts cfg)
     | Inl (Value_raised _) \<Rightarrow> False)"
proof -
  let ?f = "\<lambda>n s. attempt_transaction (operation n) (commit n) (others n s)"
  from ok have pos: "0 < rt_max_attempts cfg" by (auto simp: retry_config_error_def split: if_splits)
  obtain q where q: "retry_from retryable ?f (nat (rt_max_attempts cfg) - 1) 1 s = (q, t, slept)"
    and r: "r = map_sum Transaction_raised id q"
    using run ok by (auto simp: run_database_transaction_def split: prod.splits)
  let ?n = "1 + length slept"
  note out = retry_from_outcome[OF q, folded state_before_def]
  have "int ?n \<le> rt_max_attempts cfg" using out pos by linarith
  moreover have "\<exists>er. retryable er \<and> (operation k (state_before others k s) = Inl er \<or> commit k = Some er)"
    if "k \<in> {1..<?n}" for k
  proof -
    from that out have "k \<in> set slept" by (metis atLeastLessThan_upt)
    with out obtain er where "retryable er" "fst (attempt_transaction (operation k) (commit k) (state_before others k s)) = Inl er"
      by blast
    then show ?thesis by (auto simp: attempt_transaction_def split: sum.splits option.splits)
  qed
  moreover have "case r of Inr a \<Rightarrow> operation ?n (state_before others ?n s) = Inr (a, t) \<and> commit ?n = None
     | Inl (Transaction_raised er) \<Rightarrow> t = state_before others ?n s \<and> (\<not> retryable er \<or> int ?n = rt_max_attempts cfg)
     | Inl (Value_raised _) \<Rightarrow> False"
  proof (cases q)
    case (Inl er)
    with out have "t = state_before others ?n s" by (metis attempt_failed)
    moreover have "retryable er \<longrightarrow> int ?n = rt_max_attempts cfg" using out Inl pos by auto
    ultimately show ?thesis using Inl r by simp
  next
    case (Inr a)
    with out have "attempt_transaction (operation ?n) (commit ?n) (state_before others ?n s) = (Inr a, t)" by simp
    then show ?thesis using Inr r by (simp add: attempt_committed)
  qed
  ultimately show ?thesis using out by (intro exI[of _ ?n]) auto
qed

text \<open>An error that wraps a serialization failure which refers back to it; the second attempt commits.\<close>

definition sample_exceptions :: exception_heap where
  "sample_exceptions =
     [(0, \<lparr>xo_sqlstate = None, xo_pgcode = Some [], xo_orig = Some 1, xo_cause = Some 0, xo_context = None\<rparr>),
      (1, \<lparr>xo_sqlstate = None, xo_pgcode = Some ''40001'', xo_orig = None, xo_cause = None, xo_context = Some 0\<rparr>)]"

definition sample_retry :: retry_config where
  "sample_retry = \<lparr>rt_max_attempts = 3, rt_base_delay = 1, rt_max_delay = 4, rt_jitter = 0\<rparr>"

definition sample_operation :: "nat \<Rightarrow> nat \<Rightarrow> nat + unit \<times> nat" where
  "sample_operation n s = (if n = 1 then Inl 0 else Inr ((), s * 10))"

lemma retried_transaction_commits_once_witness:
  "\<exists>n. run_database_transaction sample_retry (is_retryable_transaction_error sample_exceptions) (\<lambda>_. Suc) (\<lambda>_. None)
     sample_operation 0 = (Inr (), 20, [1]) \<and> [1] = [1..<n] \<and>
   sample_operation n (state_before (\<lambda>_. Suc) n 0) = Inr ((), 20)"
proof -
  have er: "is_retryable_transaction_error sample_exceptions 0" by code_simp
  have ok: "retry_config_error sample_retry = None" by (simp add: retry_config_error_def sample_retry_def)
  have run: "run_database_transaction sample_retry (is_retryable_transaction_error sample_exceptions) (\<lambda>_. Suc) (\<lambda>_. None)
     sample_operation 0 = (Inr (), 20, [1])"
    by (simp add: run_database_transaction_def ok) (simp add: sample_retry_def sample_operation_def
        attempt_transaction_def er numeral_2_eq_2)
  from retried_transaction_commits_once[OF ok run] run show ?thesis by auto
qed

end
