(* ===== verification/TaskTable.thy ===== *)
theory TaskTable
  imports Prelude
begin

text \<open>
  Tables of running tasks and ordered dictionaries as association lists with distinct keys: replacing and
  removing an entry, counting entries, and keeping the last entries of a table that is too long.
\<close>

definition without :: "'k \<Rightarrow> ('k \<times> 'v) list \<Rightarrow> ('k \<times> 'v) list" where
  "without i = filter (\<lambda>(j, _). j \<noteq> i)"

definition put :: "'k \<Rightarrow> 'v \<Rightarrow> ('k \<times> 'v) list \<Rightarrow> ('k \<times> 'v) list" where
  "put i v ts = (i, v) # without i ts"

definition tally :: "('v \<Rightarrow> bool) \<Rightarrow> ('k \<times> 'v) list \<Rightarrow> int" where
  "tally P ts = int (length (filter (\<lambda>(_, v). P v) ts))"

lemma map_of_without [simp]: "map_of (without i ts) j = (if j = i then None else map_of ts j)"
  by (induction ts) (auto simp: without_def)

lemma map_of_put [simp]: "map_of (put i v ts) j = (if j = i then Some v else map_of ts j)"
  by (simp add: put_def)

lemma keys_without [simp]: "fst ` set (without i ts) = fst ` set ts - {i}"
  by (force simp: without_def)

lemma distinct_without [simp, intro]: "distinct (map fst ts) \<Longrightarrow> distinct (map fst (without i ts))"
  by (induction ts) (auto simp: without_def)

lemma distinct_put [simp, intro]: "distinct (map fst ts) \<Longrightarrow> distinct (map fst (put i v ts))"
  by (simp add: put_def)

lemma put_put [simp]: "put i v (put i w ts) = put i v ts"
  by (simp add: put_def without_def)

lemma length_without: "length (without i ts) \<le> length ts"
  by (simp add: without_def)

lemma without_absent: "map_of ts i = None \<Longrightarrow> without i ts = ts"
  by (force simp: without_def filter_id_conv map_of_eq_None_iff)

lemma tally_nonneg [simp]: "0 \<le> tally P ts"
  by (simp add: tally_def)

lemma tally_Nil [simp]: "tally P [] = 0"
  by (simp add: tally_def)

lemma tally_Cons: "tally P ((i, v) # ts) = (if P v then 1 else 0) + tally P ts"
  by (simp add: tally_def)

lemma tally_without:
  assumes "distinct (map fst ts)" and "map_of ts i = Some v"
  shows "tally P (without i ts) = tally P ts - (if P v then 1 else 0)"
  using assms
proof (induction ts)
  case (Cons t ts)
  obtain j w where [simp]: "t = (j, w)" by (cases t)
  show ?case
  proof (cases "j = i")
    case True
    with Cons.prems have "map_of ts i = None" by (simp add: map_of_eq_None_iff)
    with True Cons.prems show ?thesis by (simp add: without_absent[unfolded without_def] without_def tally_Cons)
  next
    case False
    with Cons have "tally P (without i ts) = tally P ts - (if P v then 1 else 0)" by simp
    with False show ?thesis by (simp add: without_def tally_Cons)
  qed
qed simp

lemma tally_put:
  assumes "distinct (map fst ts)" and "map_of ts i = Some w"
  shows "tally P (put i v ts) = tally P ts - (if P w then 1 else 0) + (if P v then 1 else 0)"
  using tally_without[OF assms] by (simp add: put_def tally_Cons)

lemma tally_new: "map_of ts i = None \<Longrightarrow> tally P (put i v ts) = tally P ts + (if P v then 1 else 0)"
  by (simp add: put_def tally_Cons without_absent)

lemma tally_pos: "map_of ts i = Some v \<Longrightarrow> P v \<Longrightarrow> 0 < tally P ts"
proof (induction ts)
  case (Cons t ts)
  obtain j w where [simp]: "t = (j, w)" by (cases t)
  from Cons tally_nonneg[of P ts] show ?case by (cases "j = i") (simp_all add: tally_Cons add_pos_nonneg)
qed simp

lemma tally_mono: "(\<And>v. P v \<Longrightarrow> Q v) \<Longrightarrow> tally P ts \<le> tally Q ts"
  by (induction ts) (auto simp: tally_Cons add_increasing)

section \<open>Ordered dictionaries\<close>

text \<open>\<open>d[k] = v\<close> and \<open>d.move_to_end(k)\<close>; then \<open>popitem(last=False)\<close> while there are too many.\<close>

definition put_last :: "'k \<Rightarrow> 'v \<Rightarrow> ('k \<times> 'v) list \<Rightarrow> ('k \<times> 'v) list" where
  "put_last k v d = without k d @ [(k, v)]"

definition trim_state :: "nat \<Rightarrow> ('k \<times> 'v) list \<Rightarrow> ('k \<times> 'v) list" where
  "trim_state n d = drop (length d - n) d"

definition table_ok :: "nat \<Rightarrow> ('k \<times> 'v) list \<Rightarrow> bool" where
  "table_ok n d \<longleftrightarrow> distinct (map fst d) \<and> length d \<le> n"

lemma table_ok_Nil [simp]: "table_ok n []"
  by (simp add: table_ok_def)

lemma table_ok_without [simp, intro]: "table_ok n d \<Longrightarrow> table_ok n (without k d)"
  using length_without[of k d] by (auto simp: table_ok_def)

lemma table_ok_filter [simp, intro]: "table_ok n d \<Longrightarrow> table_ok n (filter P d)"
  using order_trans[OF length_filter_le[of P d], of n] by (simp add: table_ok_def distinct_map_filter)

lemma table_ok_put [simp, intro]:
  assumes "table_ok n d"
  shows "table_ok n (trim_state n (put_last k v d))"
proof -
  have "distinct (map fst (put_last k v d))" using assms by (simp add: table_ok_def put_last_def)
  then have "distinct (map fst (drop m (put_last k v d)))" for m
    by (simp only: drop_map[symmetric] distinct_drop)
  then show ?thesis by (simp add: table_ok_def trim_state_def)
qed

lemma map_of_put_last: "map_of (put_last k v d) j = (if j = k then Some v else map_of d j)"
  by (simp add: put_last_def map_add_def split: option.split)

lemma trim_id: "length d \<le> n \<Longrightarrow> trim_state n d = d"
  by (simp add: trim_state_def)

lemma put_last_kept:
  assumes "0 < n"
  shows "map_of (trim_state n (put_last k v d)) k = Some v"
proof -
  have "trim_state n (put_last k v d) = drop (length (put_last k v d) - n) (without k d) @ [(k, v)]"
    using assms by (simp add: trim_state_def put_last_def)
  moreover have "k \<notin> fst ` set (drop m (without k d))" for m
    using in_set_dropD[of _ m "without k d"] keys_without[of k d] by fastforce
  then have "map_of (drop m (without k d)) k = None" for m by (simp add: map_of_eq_None_iff)
  ultimately show ?thesis by (simp add: map_add_def)
qed

end
