(* ===== verification/AdmissionLimiter.thy ===== *)
theory AdmissionLimiter
  imports TaskTable
begin

text \<open>
  The bounded pools in front of the database and of the model (\<open>event_admission.py\<close>, \<open>capacity.py\<close>; the two
  limiters run the same code).  \<open>asyncio.Semaphore\<close> is its counter: \<open>acquire\<close> waits for a permit and
  \<open>release\<close> gives one back; \<open>wait_for\<close> ends the wait with the permit or with a timeout.  A task is one
  \<open>async with limiter.slot()\<close>; between the permit and the counters of the slot other tasks may run.
\<close>

datatype slot_phase = Slot_waiting | Slot_granted | Slot_active

record limiter =
  lm_permits :: int
  lm_limit :: int
  lm_timeout :: int
  lm_active :: int
  lm_waiting :: int
  lm_rejected :: int
  lm_tasks :: "(nat \<times> slot_phase) list"

definition new_limiter :: "int \<Rightarrow> int \<Rightarrow> string + limiter" where
  "new_limiter limit timeout =
     (if limit \<le> 0 then Inl ''limit must be positive''
      else if timeout \<le> 0 then Inl ''acquire_timeout_seconds must be positive''
      else Inr \<lparr>lm_permits = limit, lm_limit = limit, lm_timeout = timeout, lm_active = 0, lm_waiting = 0,
        lm_rejected = 0, lm_tasks = []\<rparr>)"

definition phase_of :: "limiter \<Rightarrow> nat \<Rightarrow> slot_phase option" where
  "phase_of l = map_of (lm_tasks l)"

text \<open>The steps of one task, each up to the next \<open>await\<close>; \<open>None\<close> when the task is not there.\<close>

definition enter_slot :: "nat \<Rightarrow> limiter \<Rightarrow> limiter option" where
  "enter_slot i l =
     (if phase_of l i \<noteq> None then None
      else Some (l\<lparr>lm_waiting := lm_waiting l + 1, lm_tasks := put i Slot_waiting (lm_tasks l)\<rparr>))"

definition grant_slot :: "nat \<Rightarrow> limiter \<Rightarrow> limiter option" where
  "grant_slot i l =
     (if phase_of l i = Some Slot_waiting \<and> 0 < lm_permits l
      then Some (l\<lparr>lm_permits := lm_permits l - 1, lm_tasks := put i Slot_granted (lm_tasks l)\<rparr>) else None)"

definition start_slot :: "nat \<Rightarrow> limiter \<Rightarrow> limiter option" where
  "start_slot i l =
     (if phase_of l i = Some Slot_granted
      then Some (l\<lparr>lm_waiting := lm_waiting l - 1, lm_active := lm_active l + 1,
                   lm_tasks := put i Slot_active (lm_tasks l)\<rparr>) else None)"

text \<open>\<open>timed_out\<close>: the wait ran out; otherwise it was cancelled.\<close>

definition give_up_slot :: "bool \<Rightarrow> nat \<Rightarrow> limiter \<Rightarrow> limiter option" where
  "give_up_slot timed_out i l =
     (if phase_of l i = Some Slot_waiting
      then Some (l\<lparr>lm_rejected := lm_rejected l + (if timed_out then 1 else 0), lm_waiting := lm_waiting l - 1,
                   lm_tasks := without i (lm_tasks l)\<rparr>) else None)"

definition leave_slot :: "nat \<Rightarrow> limiter \<Rightarrow> limiter option" where
  "leave_slot i l =
     (if phase_of l i = Some Slot_active
      then Some (l\<lparr>lm_active := lm_active l - 1, lm_permits := lm_permits l + 1,
                   lm_tasks := without i (lm_tasks l)\<rparr>) else None)"

record pool_snapshot =
  cs_active :: int
  cs_limit :: int
  cs_waiting :: int
  cs_rejected :: int

definition snapshot :: "limiter \<Rightarrow> pool_snapshot" where
  "snapshot l = \<lparr>cs_active = lm_active l, cs_limit = lm_limit l, cs_waiting = lm_waiting l, cs_rejected = lm_rejected l\<rparr>"

text \<open>The limiter of the process, built again when its settings changed.\<close>

definition get_default_event_admission_limiter ::
  "int \<times> int \<Rightarrow> (limiter \<times> (int \<times> int)) option \<Rightarrow> string + limiter \<times> (limiter \<times> (int \<times> int)) option" where
  "get_default_event_admission_limiter config current =
     (case current of
        Some (l, c) \<Rightarrow> if c = config then Inr (l, current)
                        else map_sum id (\<lambda>l. (l, Some (l, config))) (new_limiter (fst config) (snd config))
      | None \<Rightarrow> map_sum id (\<lambda>l. (l, Some (l, config))) (new_limiter (fst config) (snd config)))"

section \<open>Runs\<close>

inductive limiter_step :: "limiter \<Rightarrow> limiter \<Rightarrow> bool" where
  enter: "enter_slot i l = Some m \<Longrightarrow> limiter_step l m"
| grant: "grant_slot i l = Some m \<Longrightarrow> limiter_step l m"
| start: "start_slot i l = Some m \<Longrightarrow> limiter_step l m"
| give_up: "give_up_slot timed_out i l = Some m \<Longrightarrow> limiter_step l m"
| leave: "leave_slot i l = Some m \<Longrightarrow> limiter_step l m"

definition in_phase :: "slot_phase \<Rightarrow> limiter \<Rightarrow> int" where
  "in_phase p l = tally (\<lambda>q. q = p) (lm_tasks l)"

definition limiter_ok :: "limiter \<Rightarrow> bool" where
  "limiter_ok l \<longleftrightarrow> distinct (map fst (lm_tasks l)) \<and> 0 \<le> lm_permits l \<and>
     lm_permits l + in_phase Slot_granted l + in_phase Slot_active l = lm_limit l \<and>
     lm_active l = in_phase Slot_active l \<and> lm_waiting l = in_phase Slot_waiting l + in_phase Slot_granted l"

lemma limiter_step_ok:
  assumes "limiter_step l m" and "limiter_ok l"
  shows "limiter_ok m \<and> lm_limit m = lm_limit l \<and> lm_rejected l \<le> lm_rejected m"
proof -
  note ok = assms(2)[unfolded limiter_ok_def in_phase_def]
  note [simp] = limiter_ok_def in_phase_def phase_of_def tally_put[OF conjunct1[OF ok]]
    tally_without[OF conjunct1[OF ok]]
  from assms(1) show ?thesis
  proof cases
    case (enter i)
    then have "map_of (lm_tasks l) i = None" and m: "m = l\<lparr>lm_waiting := lm_waiting l + 1, lm_tasks := put i Slot_waiting (lm_tasks l)\<rparr>"
      by (simp_all add: enter_slot_def split: if_splits)
    from tally_new[OF this(1), of "\<lambda>q. q = p" Slot_waiting for p] ok show ?thesis by (simp add: m)
  next
    case (grant i)
    then show ?thesis using ok by (auto simp: grant_slot_def split: if_splits)
  next
    case (start i)
    then show ?thesis using ok by (auto simp: start_slot_def split: if_splits)
  next
    case (give_up timed_out i)
    then show ?thesis using ok by (auto simp: give_up_slot_def split: if_splits)
  next
    case (leave i)
    then show ?thesis using ok by (auto simp: leave_slot_def split: if_splits)
  qed
qed

lemma limiter_run_ok:
  assumes "new_limiter limit timeout = Inr l" and "limiter_step\<^sup>*\<^sup>* l m"
  shows "limiter_ok m \<and> lm_limit m = limit"
  using assms(2)
proof (induction rule: rtranclp_induct)
  case base
  from assms(1) show ?case by (auto simp: new_limiter_def limiter_ok_def in_phase_def split: if_splits)
next
  case (step m n)
  from limiter_step_ok[OF step(2)] step(3) show ?case by simp
qed

text \<open>
  The pool is never overfull and loses no permit.  However tasks enter, wait, time out, are cancelled and
  leave, at most \<open>limit\<close> of them are inside, the snapshot counts exactly the tasks that are active and that
  wait, a task that still waits although fewer than \<open>limit\<close> hold a permit can get one, and when the last
  task has left all permits are there again.
\<close>

theorem limiter_is_bounded:
  assumes "new_limiter limit timeout = Inr l" and "limiter_step\<^sup>*\<^sup>* l m"
  shows "cs_active (snapshot m) = in_phase Slot_active m \<and> cs_active (snapshot m) \<le> limit \<and>
    cs_waiting (snapshot m) = in_phase Slot_waiting m + in_phase Slot_granted m \<and>
    (phase_of m i = Some Slot_waiting \<and> in_phase Slot_granted m + in_phase Slot_active m < limit \<longrightarrow>
      grant_slot i m \<noteq> None) \<and>
    (lm_tasks m = [] \<longrightarrow> lm_permits m = limit \<and> cs_active (snapshot m) = 0 \<and> cs_waiting (snapshot m) = 0)"
proof -
  from limiter_run_ok[OF assms] have ok: "limiter_ok m" "lm_limit m = limit" by simp_all
  then have "lm_active m \<le> limit"
    using tally_nonneg[of "\<lambda>q. q = Slot_granted" "lm_tasks m"] unfolding limiter_ok_def in_phase_def by linarith
  with ok show ?thesis by (auto simp: limiter_ok_def snapshot_def grant_slot_def in_phase_def)
qed

lemma limiter_is_bounded_witness:
  "\<exists>l m. limiter_step\<^sup>*\<^sup>* l m \<and> cs_active (snapshot m) = 1 \<and> cs_waiting (snapshot m) = 1 \<and> cs_active (snapshot m) \<le> 1"
proof -
  let ?l = "\<lparr>lm_permits = 1, lm_limit = 1, lm_timeout = 5, lm_active = 0, lm_waiting = 0, lm_rejected = 0, lm_tasks = []\<rparr>"
  let ?m = "\<lparr>lm_permits = 0, lm_limit = 1, lm_timeout = 5, lm_active = 1, lm_waiting = 1, lm_rejected = 0,
    lm_tasks = [(2, Slot_waiting), (1, Slot_active)]\<rparr>"
  have new: "new_limiter 1 5 = Inr ?l" by (simp add: new_limiter_def)
  have "limiter_step ?l (?l\<lparr>lm_waiting := 1, lm_tasks := [(1, Slot_waiting)]\<rparr>)"
    by (rule limiter_step.enter[of 1]) (simp add: enter_slot_def phase_of_def put_def without_def)
  moreover have "limiter_step (?l\<lparr>lm_waiting := 1, lm_tasks := [(1, Slot_waiting)]\<rparr>)
      (?l\<lparr>lm_permits := 0, lm_waiting := 1, lm_tasks := [(1, Slot_granted)]\<rparr>)"
    by (rule limiter_step.grant[of 1]) (simp add: grant_slot_def phase_of_def put_def without_def)
  moreover have "limiter_step (?l\<lparr>lm_permits := 0, lm_waiting := 1, lm_tasks := [(1, Slot_granted)]\<rparr>)
      (?l\<lparr>lm_permits := 0, lm_active := 1, lm_tasks := [(1, Slot_active)]\<rparr>)"
    by (rule limiter_step.start[of 1]) (simp add: start_slot_def phase_of_def put_def without_def)
  moreover have "limiter_step (?l\<lparr>lm_permits := 0, lm_active := 1, lm_tasks := [(1, Slot_active)]\<rparr>) ?m"
    by (rule limiter_step.enter[of 2]) (simp add: enter_slot_def phase_of_def put_def without_def)
  ultimately have run: "limiter_step\<^sup>*\<^sup>* ?l ?m" by (meson rtranclp.rtrancl_into_rtrancl rtranclp.rtrancl_refl)
  from limiter_is_bounded[OF new run, of 0] run show ?thesis
    by (intro exI[of _ ?l] exI[of _ ?m]) (simp add: snapshot_def)
qed

end
