(* ===== verification/HostedChat.thy ===== *)
theory HostedChat
  imports EventDispatcher WireBatch GatewayAuth TaskTable
begin

text \<open>
  The hosted chat service (\<open>hosted_chat.py\<close>): the request it sends, the client that delivers it, the tables
  of the service, and the handlers as tasks whose steps are the blocks between two \<open>await\<close>s.  The clock
  (\<open>time.monotonic\<close>) is a parameter of each step and counts in whole units.  Audit records and the log are
  left out; \<open>_send\<close> always passes the request id, as the client of the application takes one.
\<close>

section \<open>The request\<close>

definition NEARBY_OPENING_PHRASES :: "string list" where
  "NEARBY_OPENING_PHRASES = map (map char_of)
     [[229, 152, 191, 239, 188, 140, 229, 156, 168, 229, 185, 178, 229, 152, 155, 229, 145, 162],
       [230, 156, 128, 232, 191, 145, 230, 128, 142, 228, 185, 136, 230, 160, 183, 229, 149, 138],
       [228, 187, 138, 229, 164, 169, 229, 191, 131, 230, 131, 133, 229, 166, 130, 228, 189, 149],
       [229, 191, 153, 228, 184, 141, 229, 191, 153, 231, 142, 176, 229, 156, 168, 239, 188, 159],
       [228, 189, 160, 229, 165, 189], [229, 156, 168, 229, 144, 151, 239, 188, 159, 232, 129, 138,
       228, 184, 164, 229, 143, 165, 239, 188, 159], [228, 189, 160, 230, 156, 128, 232, 191, 145,
       229, 156, 168, 231, 142, 169, 228, 187, 128, 228, 185, 136, 229, 145, 162, 239, 188, 159],
       [228, 187, 138, 229, 164, 169, 232, 191, 135, 229, 190, 151, 229, 146, 139, 230, 160, 183,
       239, 188, 159], [104, 101, 108, 108, 111], [230, 156, 137, 231, 169, 186, 230, 178, 161, 239,
       188, 159, 228, 184, 128, 232, 181, 183, 231, 142, 169, 228, 188, 154, 229, 132, 191, 229, 149,
       138, 239, 188, 159] :: nat list]"

record send_request =
  hs_session :: string
  hs_avatar :: string
  hs_role :: string
  hs_type :: chat_type
  hs_content :: string

text \<open>
  \<open>PositiveInt64String\<close>: the pattern is searched for in the text, not matched against all of it; the
  validator then calls \<open>int\<close>.
\<close>

definition int64_string :: "string \<Rightarrow> bool" where
  "int64_string s \<longleftrightarrow> 1 \<le> py_len s \<and> py_len s \<le> 19 \<and> list_ex (\<lambda>c. 49 \<le> code c \<and> code c \<le> 57) s \<and>
     (case py_int s of Inl _ \<Rightarrow> False | Inr i \<Rightarrow> i \<le> MAX_ROLE_ID)"

definition make_send_request ::
  "string \<Rightarrow> string \<Rightarrow> string \<Rightarrow> chat_type \<Rightarrow> string \<Rightarrow> send_request option" where
  "make_send_request session avatar role ty content =
     (if raw_ok 1 128 session \<and> int64_string avatar \<and> int64_string role \<and> raw_ok 1 1000 content \<and>
         py_strip session \<noteq> [] \<and> py_strip content \<noteq> [] \<and> utf16_len content \<le> 1000
      then Some \<lparr>hs_session = session, hs_avatar = avatar, hs_role = role, hs_type = ty, hs_content = content\<rparr>
      else None)"

text \<open>A negative number passes as a positive one.\<close>

lemma negative_identifier_accepted: "int64_string ''-5''"
  by code_simp

definition dump_send_request :: "send_request \<Rightarrow> json" where
  "dump_send_request r = JObj
     [(''sessionId'', JStr (hs_session r)), (''targetAvatarId'', JStr (hs_avatar r)),
      (''targetRoleId'', JStr (hs_role r)), (''chatType'', JStr (chat_type_name (hs_type r))),
      (''content'', JStr (hs_content r))]"

section \<open>The client\<close>

text \<open>The path of \<open>_derive_chat_send_url\<close>; \<open>None\<close> is its \<open>ValueError\<close>.\<close>

definition decision_suffix :: string where
  "decision_suffix = ''/api/v1/hosting/llm/decision''"

definition derive_chat_path :: "string \<Rightarrow> string option" where
  "derive_chat_path path =
     (let p = rev (dropWhile (\<lambda>c. c = CHR ''/'') (rev path)); n = length p - length decision_suffix;
          base = (if drop n p = decision_suffix then Some (take n p) else if p = [] then Some [] else None) in
      map_option (\<lambda>b. b @ ''/api/v1/hosting/llm/chat/send'') base)"

text \<open>\<open>HostedChatSendAccepted\<close>, of which the service uses the message id.\<close>

definition parse_send_accepted :: "json \<Rightarrow> string option" where
  "parse_send_accepted v = do {
     m \<leftarrow> named_object [(''traceId'', ''trace_id''), (''chatMessageId'', ''chat_message_id''), (''status'', ''status''),
       (''acceptedAtMs'', ''accepted_at_ms'')] v;
     _ \<leftarrow> raw_text 1 128 (m ''traceId'');
     i \<leftarrow> raw_text 1 128 (m ''chatMessageId'');
     _ \<leftarrow> literal_field [JStr ''accepted''] (m ''status'');
     _ \<leftarrow> nat_field (m ''acceptedAtMs'');
     Some i }"

record chat_client =
  ct_sha :: "string \<Rightarrow> string"
  ct_mac :: "string \<Rightarrow> string \<Rightarrow> string"
  ct_path :: string
  ct_app :: string
  ct_secret :: string
  ct_retries :: nat

record send_receipt =
  rp_request :: string
  rp_message :: string

fun posted :: "string \<Rightarrow> http_outcome \<Rightarrow> chat_outcome + send_receipt" where
  "posted rid Http_timeout = Inl (Chat_retryable ''timeout'')"
| "posted rid Http_request_error = Inl (Chat_retryable ''request_failed'')"
| "posted rid (Http_response status payload) =
     (if status = 202 then
        (case Option.bind payload parse_send_accepted of
           None \<Rightarrow> Inl (Chat_permanent ''response_schema_invalid'')
         | Some i \<Rightarrow> Inr \<lparr>rp_request = rid, rp_message = i\<rparr>)
      else if status = 429 \<or> 500 \<le> status then Inl (Chat_retryable ''upstream_server_error'')
      else Inl (Chat_permanent ''upstream_request_rejected''))"

text \<open>Attempt \<open>n\<close>: \<open>post n\<close> is what comes of it, \<open>now n\<close> its time.  An error of the signature is not caught.\<close>

definition send_attempt ::
  "chat_client \<Rightarrow> (nat \<Rightarrow> (string \<times> string) list \<Rightarrow> string \<Rightarrow> http_outcome) \<Rightarrow> (nat \<Rightarrow> int) \<Rightarrow> string \<Rightarrow> string \<Rightarrow> nat \<Rightarrow>
   chat_outcome + send_receipt" where
  "send_attempt c post now body rid n =
     (case build_outbound_hmac_headers (ct_sha c) (ct_mac c) ''POST'' (ct_path c) body (ct_app c) (ct_secret c) rid (now n) of
        Inl _ \<Rightarrow> Inl Chat_failed
      | Inr headers \<Rightarrow> posted rid (post n headers body))"

primrec send_attempts ::
  "chat_client \<Rightarrow> (nat \<Rightarrow> (string \<times> string) list \<Rightarrow> string \<Rightarrow> http_outcome) \<Rightarrow> (nat \<Rightarrow> int) \<Rightarrow> string \<Rightarrow> string \<Rightarrow> nat \<Rightarrow> nat \<Rightarrow>
   chat_outcome + send_receipt" where
  "send_attempts c post now body rid 0 n = send_attempt c post now body rid n"
| "send_attempts c post now body rid (Suc left) n =
     (case send_attempt c post now body rid n of
        Inl (Chat_retryable _) \<Rightarrow> send_attempts c post now body rid left (Suc n)
      | r \<Rightarrow> r)"

definition send_chat ::
  "chat_client \<Rightarrow> (nat \<Rightarrow> (string \<times> string) list \<Rightarrow> string \<Rightarrow> http_outcome) \<Rightarrow> (nat \<Rightarrow> int) \<Rightarrow> send_request \<Rightarrow> string \<Rightarrow>
   chat_outcome + send_receipt" where
  "send_chat c post now r rid = send_attempts c post now (canonical_json_bytes (dump_send_request r)) rid (ct_retries c) 0"

section \<open>The tables\<close>

record chat_limits =
  li_queue :: int
  li_ttl :: int
  li_entries :: nat

type_synonym chat_key = "string \<times> string \<times> string"

record expiring_outbound =
  xb_request_id :: string
  xb_request :: send_request
  xb_expires :: int

record expiring_result =
  xr_result :: send_result_payload
  xr_expires :: int

record pending_send =
  xp_request_id :: string
  xp_request :: send_request
  xp_expires :: int

text \<open>
  A lock is a number; \<open>hc_next_lock\<close> numbers the next one made.  \<open>HostedChatSendResult\<close> is the payload it is
  made from.
\<close>

record chat_state =
  hc_processed :: "((string \<times> string) \<times> int) list"
  hc_outbound :: "(string \<times> expiring_outbound) list"
  hc_messages :: "(string \<times> string) list"
  hc_results :: "(string \<times> expiring_result) list"
  hc_sends :: "((string \<times> string) \<times> pending_send) list"
  hc_queued :: int
  hc_refs :: "(chat_key \<times> int) list"
  hc_locks :: "(chat_key \<times> nat) list"
  hc_next_lock :: nat

definition new_chat_state :: chat_state where
  "new_chat_state = \<lparr>hc_processed = [], hc_outbound = [], hc_messages = [], hc_results = [], hc_sends = [],
     hc_queued = 0, hc_refs = [], hc_locks = [], hc_next_lock = 0\<rparr>"

definition new_chat_service :: "int \<Rightarrow> int \<Rightarrow> int \<Rightarrow> string + chat_limits \<times> chat_state" where
  "new_chat_service queue ttl entries =
     (if queue \<le> 0 \<or> ttl \<le> 0 \<or> entries \<le> 0 then Inl ''hosted chat limits must be positive''
      else Inr (\<lparr>li_queue = queue, li_ttl = ttl, li_entries = nat entries\<rparr>, new_chat_state))"

text \<open>\<open>_expire\<close>: an outbound message takes the entry of its request id with it.\<close>

definition expire :: "int \<Rightarrow> chat_state \<Rightarrow> chat_state" where
  "expire now s =
     (let gone = filter (\<lambda>(_, b). xb_expires b \<le> now) (hc_outbound s) in
      s\<lparr>hc_processed := filter (\<lambda>(_, t). now < t) (hc_processed s),
        hc_outbound := filter (\<lambda>(_, b). now < xb_expires b) (hc_outbound s),
        hc_messages := filter (\<lambda>(r, _). r \<notin> set (map (xb_request_id \<circ> snd) gone)) (hc_messages s),
        hc_results := filter (\<lambda>(_, r). now < xr_expires r) (hc_results s),
        hc_sends := filter (\<lambda>(_, p). now < xp_expires p) (hc_sends s)\<rparr>)"

definition claim_event :: "chat_limits \<Rightarrow> int \<Rightarrow> string \<times> string \<Rightarrow> chat_state \<Rightarrow> bool \<times> chat_state" where
  "claim_event li now key s =
     (let s = expire now s in
      if map_of (hc_processed s) key \<noteq> None then (False, s)
      else (True, s\<lparr>hc_processed := trim_state (li_entries li) (put_last key (now + li_ttl li) (hc_processed s))\<rparr>))"

definition release_event :: "string \<times> string \<Rightarrow> chat_state \<Rightarrow> chat_state" where
  "release_event key s = s\<lparr>hc_processed := without key (hc_processed s)\<rparr>"

definition discard_pending_send :: "string \<times> string \<Rightarrow> chat_state \<Rightarrow> chat_state" where
  "discard_pending_send key s = s\<lparr>hc_sends := without key (hc_sends s)\<rparr>"

definition result_matches :: "send_request \<Rightarrow> send_result_payload \<Rightarrow> bool" where
  "result_matches r p \<longleftrightarrow> hs_session r = sr_session p \<and> hs_avatar r = pe_avatar (sr_target p) \<and>
     hs_role r = pe_role (sr_target p) \<and> hs_type r = sr_chat p"

definition forget_outbound :: "string \<Rightarrow> string \<Rightarrow> chat_state \<Rightarrow> chat_state" where
  "forget_outbound message rid s =
     s\<lparr>hc_outbound := without message (hc_outbound s), hc_messages := without rid (hc_messages s)\<rparr>"

text \<open>\<open>handle_send_result\<close>: what becomes of a reported result.\<close>

datatype result_outcome = Result_seen | Result_waits | Result_mismatch | Result_closed

definition accept_result ::
  "chat_limits \<Rightarrow> int \<Rightarrow> send_result_payload \<Rightarrow> chat_state \<Rightarrow> result_outcome \<times> chat_state" where
  "accept_result li now p s =
     (let s = expire now s; message = sr_message p in
      case map_of (hc_outbound s) message of
        None \<Rightarrow> (Result_waits, s\<lparr>hc_results := trim_state (li_entries li)
          (put_last message \<lparr>xr_result = p, xr_expires = now + li_ttl li\<rparr> (hc_results s))\<rparr>)
      | Some b \<Rightarrow>
          if \<not> result_matches (xb_request b) p then (Result_mismatch, s)
          else (Result_closed, forget_outbound message (xb_request_id b) s))"

definition handle_send_result ::
  "chat_limits \<Rightarrow> int \<Rightarrow> int \<Rightarrow> string \<Rightarrow> string \<Rightarrow> send_result_payload \<Rightarrow> chat_state \<Rightarrow> result_outcome \<times> chat_state" where
  "handle_send_result li now now' gateway event p s =
     (case claim_event li now (gateway, event) s of
        (False, s) \<Rightarrow> (Result_seen, s)
      | (True, s) \<Rightarrow> accept_result li now' p s)"

fun result_chat_outcome :: "result_outcome \<Rightarrow> chat_outcome" where
  "result_chat_outcome Result_mismatch = Chat_permanent ''result_identity_mismatch''"
| "result_chat_outcome _ = Chat_done"

text \<open>What follows an accepted send; \<open>False\<close> when a result that came before does not match.\<close>

definition accept_send ::
  "chat_limits \<Rightarrow> int \<Rightarrow> string \<times> string \<Rightarrow> pending_send \<Rightarrow> send_receipt \<Rightarrow> chat_state \<Rightarrow> bool \<times> chat_state" where
  "accept_send li now key p receipt s =
     (let s = expire now s; message = rp_message receipt; rid = rp_request receipt;
          s = s\<lparr>hc_outbound := trim_state (li_entries li) (put_last message
                  \<lparr>xb_request_id = rid, xb_request = xp_request p, xb_expires = now + li_ttl li\<rparr> (hc_outbound s)),
                hc_messages := trim_state (li_entries li) (put_last rid message (hc_messages s)),
                hc_sends := without key (hc_sends s)\<rparr> in
      case map_of (hc_results s) message of
        None \<Rightarrow> (True, s)
      | Some r \<Rightarrow>
          (result_matches (xp_request p) (xr_result r),
           forget_outbound message rid (s\<lparr>hc_results := without message (hc_results s)\<rparr>)))"

section \<open>Building a request\<close>

record chat_job =
  jb_gateway :: string
  jb_event :: string
  jb_session :: string
  jb_avatar :: string
  jb_role :: string
  jb_type :: chat_type
  jb_text :: "string option"

definition chat_key :: "chat_job \<Rightarrow> chat_key" where
  "chat_key j = (jb_gateway j, jb_session j, ''target:'' @ jb_role j)"

definition event_key :: "chat_job \<Rightarrow> string \<times> string" where
  "event_key j = (jb_gateway j, jb_event j)"

text \<open>What the handlers make of their events; nothing is sent for a text that is not supported.\<close>

definition received_job :: "string \<Rightarrow> event_head \<Rightarrow> chat_received_payload \<Rightarrow> chat_job option" where
  "received_job gateway h p =
     (if \<not> ci_supported p \<or> ci_text p = None then None
      else Some \<lparr>jb_gateway = gateway, jb_event = eh_id h, jb_session = eh_session h, jb_avatar = pe_avatar (ci_sender p),
        jb_role = pe_role (ci_sender p), jb_type = ci_chat p, jb_text = ci_text p\<rparr>)"

definition nearby_job :: "string \<Rightarrow> event_head \<Rightarrow> nearby_payload \<Rightarrow> chat_job" where
  "nearby_job gateway h p =
     \<lparr>jb_gateway = gateway, jb_event = eh_id h, jb_session = eh_session h, jb_avatar = pe_avatar (nb_target p),
       jb_role = pe_role (nb_target p), jb_type = Friend_chat, jb_text = None\<rparr>"

definition parse_role_id :: "string \<Rightarrow> int option" where
  "parse_role_id s =
     (if \<not> py_isdigit s \<or> s = ''0'' then None
      else (let i = WireEvents.digits_value s in if MAX_ROLE_ID < i then None else Some i))"

text \<open>The resolver of the role a session plays: not there, its answer, or an exception.\<close>

datatype resolved_role = No_resolver | Resolved "string option" | Resolve_raised

text \<open>The collaborators of one build: the resolver, the phrase drawn and the conversation service, if any.\<close>

record chat_services =
  sv_role :: resolved_role
  sv_phrase :: string
  sv_generate :: "(int \<Rightarrow> int \<Rightarrow> string \<Rightarrow> string \<Rightarrow> chat_failure + chat_message) option"

definition chat_content :: "chat_services \<Rightarrow> chat_job \<Rightarrow> int \<Rightarrow> int \<Rightarrow> chat_outcome + string" where
  "chat_content sv j speaker target =
     (case jb_text j of
        None \<Rightarrow> if sv_phrase sv \<notin> set NEARBY_OPENING_PHRASES then Inl (Chat_permanent ''opening_phrase_invalid'')
                else Inr (sv_phrase sv)
      | Some question \<Rightarrow>
          (case sv_generate sv of
             None \<Rightarrow> Inl (Chat_permanent ''conversation_client_not_configured'')
           | Some generate \<Rightarrow>
               (case generate speaker target (jb_event j) question of
                  Inl (Chat_retry category) \<Rightarrow> Inl (Chat_retryable category)
                | Inl (Chat_give_up category) \<Rightarrow> Inl (Chat_permanent category)
                | Inr msg \<Rightarrow>
                    if cm_speaker msg \<noteq> speaker \<or> cm_target msg \<noteq> target \<or>
                       cm_pair msg \<noteq> request_pair_key speaker target (jb_event j)
                    then Inl (Chat_permanent ''response_identity_mismatch'') else Inr (cm_content msg))))"

definition build_request :: "chat_services \<Rightarrow> chat_job \<Rightarrow> chat_outcome + send_request" where
  "build_request sv j =
     (case sv_role sv of
        No_resolver \<Rightarrow> Inl (Chat_permanent ''hosted_role_identity_resolver_not_configured'')
      | Resolve_raised \<Rightarrow> Inl Chat_failed
      | Resolved None \<Rightarrow> Inl (Chat_permanent ''hosted_role_id_missing'')
      | Resolved (Some role) \<Rightarrow>
          (case (parse_role_id role, parse_role_id (jb_role j)) of
             (None, _) \<Rightarrow> Inl (Chat_permanent ''hosted_role_id_invalid'')
           | (_, None) \<Rightarrow> Inl (Chat_permanent ''target_role_id_invalid'')
           | (Some speaker, Some target) \<Rightarrow>
               if speaker = target then Inl (Chat_permanent ''hosted_role_identity_conflict'')
               else (case chat_content sv j speaker target of
                  Inl er \<Rightarrow> Inl er
                | Inr content \<Rightarrow>
                    (case make_send_request (jb_session j) (jb_avatar j) (jb_role j) (jb_type j) content of
                       None \<Rightarrow> Inl Chat_failed | Some r \<Rightarrow> Inr r))))"

section \<open>Tasks\<close>

text \<open>
  Where a handler stands.  The lock of the state is never held across an \<open>await\<close>, so the blocks under it are
  single steps and a cancellation strikes only where the handler waits for something else.  \<open>Cancelled\<close> is
  no \<open>Exception\<close>: the handlers do not catch it.
\<close>

datatype chat_end = Ended chat_outcome | Cancelled

datatype chat_phase =
    Claimed
  | In_queue
  | Waiting nat
  | In_lock nat
  | Building nat
  | Sending nat pending_send
  | Leaving chat_end
  | Ending chat_end

record chat_world =
  cw_chat :: chat_state
  cw_tasks :: "(nat \<times> chat_job \<times> chat_phase) list"

fun counted :: "chat_phase \<Rightarrow> bool" where
  "counted Claimed = False" | "counted (Ending _) = False" | "counted _ = True"

fun lock_of :: "chat_phase \<Rightarrow> nat option" where
  "lock_of (Waiting l) = Some l" | "lock_of (In_lock l) = Some l" | "lock_of (Building l) = Some l"
| "lock_of (Sending l _) = Some l" | "lock_of _ = None"

fun holds_lock :: "nat \<Rightarrow> chat_phase \<Rightarrow> bool" where
  "holds_lock l (In_lock k) = (k = l)" | "holds_lock l (Building k) = (k = l)"
| "holds_lock l (Sending k _) = (k = l)" | "holds_lock l _ = False"

definition at :: "nat \<Rightarrow> chat_phase \<Rightarrow> chat_world \<Rightarrow> chat_job option" where
  "at i ph w = (case map_of (cw_tasks w) i of Some (j, q) \<Rightarrow> if q = ph then Some j else None | None \<Rightarrow> None)"

abbreviation move :: "nat \<Rightarrow> chat_job \<Rightarrow> chat_phase \<Rightarrow> chat_world \<Rightarrow> chat_world" where
  "move i j ph w \<equiv> w\<lparr>cw_tasks := put i (j, ph) (cw_tasks w)\<rparr>"

text \<open>A handler starts: the event is claimed, or was and nothing is done.\<close>

definition arrive :: "chat_limits \<Rightarrow> int \<Rightarrow> nat \<Rightarrow> string \<times> string \<Rightarrow> chat_job option \<Rightarrow> chat_world \<Rightarrow> chat_world" where
  "arrive li now i key job w =
     (case claim_event li now key (cw_chat w) of
        (claimed, s) \<Rightarrow>
          (case job of
             Some j \<Rightarrow> if claimed then move i j Claimed (w\<lparr>cw_chat := s\<rparr>) else w\<lparr>cw_chat := s\<rparr>
           | None \<Rightarrow> w\<lparr>cw_chat := s\<rparr>))"

definition enter_queue :: "chat_limits \<Rightarrow> nat \<Rightarrow> chat_job \<Rightarrow> chat_world \<Rightarrow> chat_world" where
  "enter_queue li i j w =
     (let s = cw_chat w; k = chat_key j in
      if li_queue li \<le> hc_queued s then move i j (Ending (Ended (Chat_retryable ''queue_full''))) w
      else move i j In_queue (w\<lparr>cw_chat := s\<lparr>hc_queued := hc_queued s + 1,
        hc_refs := put k ((case map_of (hc_refs s) k of None \<Rightarrow> 0 | Some n \<Rightarrow> n) + 1) (hc_refs s)\<rparr>\<rparr>))"

text \<open>Past the semaphore the lock of the key is fetched or made, then waited for.\<close>

fun in_semaphore :: "chat_phase \<Rightarrow> bool" where
  "in_semaphore (Waiting _) = True" | "in_semaphore (In_lock _) = True" | "in_semaphore (Building _) = True"
| "in_semaphore (Sending _ _) = True" | "in_semaphore _ = False"

definition semaphore_free :: "chat_limits \<Rightarrow> chat_world \<Rightarrow> bool" where
  "semaphore_free li w \<longleftrightarrow> tally (in_semaphore \<circ> snd) (cw_tasks w) < li_queue li"

definition fetch_lock :: "nat \<Rightarrow> chat_job \<Rightarrow> chat_world \<Rightarrow> chat_world" where
  "fetch_lock i j w =
     (let s = cw_chat w; k = chat_key j in
      case map_of (hc_locks s) k of
        Some l \<Rightarrow> move i j (Waiting l) w
      | None \<Rightarrow> move i j (Waiting (hc_next_lock s)) (w\<lparr>cw_chat :=
          s\<lparr>hc_locks := put k (hc_next_lock s) (hc_locks s), hc_next_lock := hc_next_lock s + 1\<rparr>\<rparr>))"

definition lock_free :: "nat \<Rightarrow> chat_world \<Rightarrow> bool" where
  "lock_free l w \<longleftrightarrow> list_all (\<lambda>(_, _, ph). \<not> holds_lock l ph) (cw_tasks w)"

definition look_up :: "int \<Rightarrow> nat \<Rightarrow> nat \<Rightarrow> chat_job \<Rightarrow> chat_world \<Rightarrow> chat_world" where
  "look_up now l i j w =
     (let s = cw_chat w in
      case map_of (hc_sends s) (event_key j) of
        None \<Rightarrow> move i j (Building l) w
      | Some p \<Rightarrow>
          if xp_expires p \<le> now then move i j (Building l) (w\<lparr>cw_chat := discard_pending_send (event_key j) s\<rparr>)
          else move i j (Sending l p) w)"

definition finish_build :: "chat_limits \<Rightarrow> int \<Rightarrow> string \<Rightarrow> chat_services \<Rightarrow> nat \<Rightarrow> nat \<Rightarrow> chat_job \<Rightarrow> chat_world \<Rightarrow> chat_world" where
  "finish_build li now rid sv l i j w =
     (case build_request sv j of
        Inl er \<Rightarrow> move i j (Leaving (Ended er)) w
      | Inr r \<Rightarrow>
          (let p = \<lparr>xp_request_id = rid, xp_request = r, xp_expires = now + li_ttl li\<rparr>; s = cw_chat w in
           move i j (Sending l p)
             (w\<lparr>cw_chat := s\<lparr>hc_sends := trim_state (li_entries li) (put_last (event_key j) p (hc_sends s))\<rparr>\<rparr>)))"

definition sent :: "chat_limits \<Rightarrow> int \<Rightarrow> chat_outcome + send_receipt \<Rightarrow> pending_send \<Rightarrow> nat \<Rightarrow> chat_job \<Rightarrow> chat_world \<Rightarrow> chat_world" where
  "sent li now outcome p i j w =
     (case outcome of
        Inl er \<Rightarrow> move i j (Leaving (Ended er)) w
      | Inr receipt \<Rightarrow>
          (case accept_send li now (event_key j) p receipt (cw_chat w) of
             (ok, s) \<Rightarrow> move i j (Leaving (Ended (if ok then Chat_done else Chat_permanent ''result_identity_mismatch'')))
                          (w\<lparr>cw_chat := s\<rparr>)))"

definition leave_queue :: "chat_end \<Rightarrow> nat \<Rightarrow> chat_job \<Rightarrow> chat_world \<Rightarrow> chat_world" where
  "leave_queue e i j w =
     (let s = cw_chat w; k = chat_key j;
          remaining = (case map_of (hc_refs s) k of None \<Rightarrow> 0 | Some n \<Rightarrow> n) - 1 in
      move i j (Ending e) (w\<lparr>cw_chat := s\<lparr>hc_queued := hc_queued s - 1,
        hc_refs := (if remaining = 0 then without k (hc_refs s) else put k remaining (hc_refs s)),
        hc_locks := (if remaining = 0 then without k (hc_locks s) else hc_locks s)\<rparr>\<rparr>))"

text \<open>The handler returns or lets the error out.\<close>

definition settle :: "chat_end \<Rightarrow> nat \<Rightarrow> chat_job \<Rightarrow> chat_world \<Rightarrow> chat_world" where
  "settle e i j w =
     w\<lparr>cw_tasks := without i (cw_tasks w),
       cw_chat := (case e of
          Ended Chat_done \<Rightarrow> cw_chat w
        | Ended (Chat_permanent _) \<Rightarrow> discard_pending_send (event_key j) (cw_chat w)
        | Ended _ \<Rightarrow> release_event (event_key j) (cw_chat w)
        | Cancelled \<Rightarrow> cw_chat w)\<rparr>"

fun cancelled :: "chat_phase \<Rightarrow> chat_phase" where
  "cancelled Claimed = Ending Cancelled"
| "cancelled (Leaving e) = Leaving e"
| "cancelled (Ending e) = Ending e"
| "cancelled _ = Leaving Cancelled"

section \<open>Runs\<close>

inductive chat_service_step :: "chat_limits \<Rightarrow> chat_world \<Rightarrow> chat_world \<Rightarrow> bool" for li where
  arrive: "map_of (cw_tasks w) i = None \<Longrightarrow> set_option (map_option event_key job) \<subseteq> {key} \<Longrightarrow>
    chat_service_step li w (arrive li now i key job w)"
| enter: "at i Claimed w = Some j \<Longrightarrow> chat_service_step li w (enter_queue li i j w)"
| fetch: "at i In_queue w = Some j \<Longrightarrow> semaphore_free li w \<Longrightarrow> chat_service_step li w (fetch_lock i j w)"
| acquire: "at i (Waiting l) w = Some j \<Longrightarrow> lock_free l w \<Longrightarrow> chat_service_step li w (move i j (In_lock l) w)"
| look_up: "at i (In_lock l) w = Some j \<Longrightarrow> chat_service_step li w (look_up now l i j w)"
| built: "at i (Building l) w = Some j \<Longrightarrow> chat_service_step li w (finish_build li now rid sv l i j w)"
| sent: "at i (Sending l p) w = Some j \<Longrightarrow> chat_service_step li w (sent li now outcome p i j w)"
| leave: "at i (Leaving e) w = Some j \<Longrightarrow> chat_service_step li w (leave_queue e i j w)"
| settle: "at i (Ending e) w = Some j \<Longrightarrow> chat_service_step li w (settle e i j w)"
| cancel: "at i ph w = Some j \<Longrightarrow> chat_service_step li w (move i j (cancelled ph) w)"
| reported: "handle_send_result li now now' gateway event p (cw_chat w) = (r, s) \<Longrightarrow> chat_service_step li w (w\<lparr>cw_chat := s\<rparr>)"

definition initial_chat :: chat_world where
  "initial_chat = \<lparr>cw_chat = new_chat_state, cw_tasks = []\<rparr>"

end
