(* ===== verification/HostedChatFacts.thy ===== *)
theory HostedChatFacts
  imports HostedChat
begin

text \<open>
  What holds while handlers of the hosted chat service run: the queue counter and the reference counts are
  exact, a key has one lock and a lock one holder, the tables stay within their limit; and what becomes of
  a message whose result is reported early, whose delivery fails or whose handler is cancelled.
\<close>

text \<open>Keys are tuples and are not to be taken apart.\<close>

declare split_paired_All [simp del] split_paired_Ex [simp del]

section \<open>The tables\<close>

definition tables_ok :: "chat_limits \<Rightarrow> chat_state \<Rightarrow> bool" where
  "tables_ok li s \<longleftrightarrow> table_ok (li_entries li) (hc_processed s) \<and> table_ok (li_entries li) (hc_outbound s) \<and>
     table_ok (li_entries li) (hc_messages s) \<and> table_ok (li_entries li) (hc_results s) \<and>
     table_ok (li_entries li) (hc_sends s)"

definition queue_part :: "chat_state \<Rightarrow> int \<times> (chat_key \<times> int) list \<times> (chat_key \<times> nat) list \<times> nat" where
  "queue_part s = (hc_queued s, hc_refs s, hc_locks s, hc_next_lock s)"

lemma expire_parts [simp]: "tables_ok li s \<Longrightarrow> tables_ok li (expire now s)" "queue_part (expire now s) = queue_part s"
  by (simp_all add: tables_ok_def expire_def queue_part_def Let_def)

lemma expire_fields [simp]: "hc_queued (expire now s) = hc_queued s" "hc_refs (expire now s) = hc_refs s"
  "hc_locks (expire now s) = hc_locks s" "hc_next_lock (expire now s) = hc_next_lock s"
  by (simp_all add: expire_def Let_def)

lemma forget_parts [simp]: "tables_ok li s \<Longrightarrow> tables_ok li (forget_outbound m r s)"
  "queue_part (forget_outbound m r s) = queue_part s"
  by (simp_all add: tables_ok_def forget_outbound_def queue_part_def)

lemma claim_parts:
  assumes "claim_event li now key s = (b, t)"
  shows "tables_ok li s \<Longrightarrow> tables_ok li t" and "queue_part t = queue_part s"
  using assms expire_parts(1)[of li s now]
  by (auto simp: claim_event_def Let_def tables_ok_def queue_part_def split: if_splits)

lemma discard_parts [simp]: "tables_ok li s \<Longrightarrow> tables_ok li (discard_pending_send key s)"
  "queue_part (discard_pending_send key s) = queue_part s" "tables_ok li s \<Longrightarrow> tables_ok li (release_event key s)"
  "queue_part (release_event key s) = queue_part s"
  by (simp_all add: tables_ok_def discard_pending_send_def release_event_def queue_part_def)

lemma result_parts:
  assumes "accept_result li now p s = (r, t)"
  shows "tables_ok li s \<Longrightarrow> tables_ok li t" and "queue_part t = queue_part s"
  using assms expire_parts(1)[of li s now] forget_parts(1)[of li "expire now s"]
  by (auto simp: accept_result_def Let_def tables_ok_def queue_part_def forget_outbound_def split: if_splits option.splits)

lemma handle_result_parts:
  assumes "handle_send_result li now now' gateway event p s = (r, t)"
  shows "tables_ok li s \<Longrightarrow> tables_ok li t" and "queue_part t = queue_part s"
proof -
  obtain b u where c: "claim_event li now (gateway, event) s = (b, u)" by (cases "claim_event li now (gateway, event) s")
  with assms have "t = u \<or> accept_result li now' p u = (r, t)" by (auto simp: handle_send_result_def split: bool.splits)
  then show "tables_ok li s \<Longrightarrow> tables_ok li t" and "queue_part t = queue_part s"
    using claim_parts[OF c] result_parts[of li now' p u r t] by auto
qed

lemma accept_parts:
  assumes "accept_send li now key p receipt s = (b, t)"
  shows "tables_ok li s \<Longrightarrow> tables_ok li t" and "queue_part t = queue_part s"
  using assms expire_parts(1)[of li s now]
  by (auto simp: accept_send_def Let_def tables_ok_def queue_part_def forget_outbound_def split: option.splits)

section \<open>The queue\<close>

definition keyed :: "chat_key \<Rightarrow> chat_job \<times> chat_phase \<Rightarrow> bool" where
  "keyed k = (\<lambda>(j, ph). counted ph \<and> chat_key j = k)"

definition ref_count :: "(chat_key \<times> int) list \<Rightarrow> chat_key \<Rightarrow> int" where
  "ref_count refs k = (case map_of refs k of None \<Rightarrow> 0 | Some n \<Rightarrow> n)"

definition counts_ok :: "chat_limits \<Rightarrow> int \<Rightarrow> (chat_key \<times> int) list \<Rightarrow> (nat \<times> chat_job \<times> chat_phase) list \<Rightarrow> bool" where
  "counts_ok li queued refs ts \<longleftrightarrow> distinct (map fst ts) \<and> queued = tally (counted \<circ> snd) ts \<and> queued \<le> li_queue li \<and>
     (\<forall>k. ref_count refs k = tally (keyed k) ts) \<and> (\<forall>k n. map_of refs k = Some n \<longrightarrow> 0 < n)"

definition locks_ok :: "(chat_key \<times> int) list \<Rightarrow> (chat_key \<times> nat) list \<Rightarrow> nat \<Rightarrow> bool" where
  "locks_ok refs locks nx \<longleftrightarrow> (\<forall>k l. map_of locks k = Some l \<longrightarrow> l < nx \<and> map_of refs k \<noteq> None) \<and>
     (\<forall>k k' l. map_of locks k = Some l \<and> map_of locks k' = Some l \<longrightarrow> k = k')"

definition held_ok :: "(chat_key \<times> nat) list \<Rightarrow> (nat \<times> chat_job \<times> chat_phase) list \<Rightarrow> bool" where
  "held_ok locks ts \<longleftrightarrow>
     (\<forall>i j ph l. map_of ts i = Some (j, ph) \<and> lock_of ph = Some l \<longrightarrow> map_of locks (chat_key j) = Some l)"

definition holder :: "(nat \<times> chat_job \<times> chat_phase) list \<Rightarrow> nat \<Rightarrow> nat \<Rightarrow> bool" where
  "holder ts l i \<longleftrightarrow> (case map_of ts i of None \<Rightarrow> False | Some (j, ph) \<Rightarrow> holds_lock l ph)"

definition exclusive :: "(nat \<times> chat_job \<times> chat_phase) list \<Rightarrow> bool" where
  "exclusive ts \<longleftrightarrow> (\<forall>l i i'. holder ts l i \<and> holder ts l i' \<longrightarrow> i = i')"

definition queue_ok :: "chat_limits \<Rightarrow> chat_state \<Rightarrow> (nat \<times> chat_job \<times> chat_phase) list \<Rightarrow> bool" where
  "queue_ok li s ts \<longleftrightarrow> counts_ok li (hc_queued s) (hc_refs s) ts \<and> locks_ok (hc_refs s) (hc_locks s) (hc_next_lock s) \<and>
     held_ok (hc_locks s) ts \<and> exclusive ts"

lemma queue_ok_part: "queue_part t = queue_part s \<Longrightarrow> queue_ok li t ts = queue_ok li s ts"
  by (simp add: queue_ok_def queue_part_def)

lemma holds_lock_of: "holds_lock l ph \<Longrightarrow> lock_of ph = Some l"
  by (cases ph) auto

lemma lock_counted: "lock_of ph = Some l \<Longrightarrow> counted ph"
  by (cases ph) auto

lemma holder_put [simp]: "holder (put i (j, ph) ts) l k \<longleftrightarrow> (if k = i then holds_lock l ph else holder ts l k)"
  by (simp add: holder_def)

lemma holder_without [simp]: "holder (without i ts) l k \<longleftrightarrow> k \<noteq> i \<and> holder ts l k"
  by (simp add: holder_def)

lemma holderI: "map_of ts i = Some (j, ph) \<Longrightarrow> holds_lock l ph \<Longrightarrow> holder ts l i"
  by (simp add: holder_def)

lemma counts_move:
  assumes "counts_ok li q refs ts" and "map_of ts i = Some (j, ph)" and "counted ph' = counted ph"
  shows "counts_ok li q refs (put i (j, ph') ts)"
  using assms by (simp add: counts_ok_def tally_put keyed_def)

lemma held_move:
  assumes "held_ok locks ts" and "map_of ts i = Some (j, ph)" and "\<And>l. lock_of ph' = Some l \<Longrightarrow> map_of locks (chat_key j) = Some l"
  shows "held_ok locks (put i (j, ph') ts)"
  using assms by (auto simp: held_ok_def)

lemma exclusive_move:
  assumes "exclusive ts" and "\<And>l k. holds_lock l ph' \<Longrightarrow> holder ts l k \<Longrightarrow> k = i"
  shows "exclusive (put i (j, ph') ts)"
  using assms by (auto simp: exclusive_def)

lemma queue_ok_move:
  assumes ok: "queue_ok li s ts" and i: "map_of ts i = Some (j, ph)" and c: "counted ph' = counted ph"
    and l: "\<And>l. lock_of ph' = Some l \<Longrightarrow> lock_of ph = Some l"
    and h: "\<And>l. holds_lock l ph' \<Longrightarrow> holds_lock l ph \<or> (\<forall>k. \<not> holder ts l k)"
  shows "queue_ok li s (put i (j, ph') ts)"
proof -
  from ok have ex: "exclusive ts" and held: "held_ok (hc_locks s) ts" by (simp_all add: queue_ok_def)
  have "k = i" if "holds_lock l ph'" "holder ts l k" for l k
    using h[OF that(1)] that(2) holderI[OF i, of l] ex by (auto simp: exclusive_def)
  moreover have "map_of (hc_locks s) (chat_key j) = Some l" if "lock_of ph' = Some l" for l
    using l[OF that] i held by (auto simp: held_ok_def)
  ultimately show ?thesis
    using ok counts_move[OF _ i c] held_move[OF held i] exclusive_move[OF ex] by (simp add: queue_ok_def)
qed

lemma tally_two:
  assumes "distinct (map fst ts)" and "map_of ts i = Some v" "P v" and "map_of ts k = Some w" "P w" and "i \<noteq> k"
  shows "2 \<le> tally P ts"
proof -
  have "0 < tally P (without i ts)" by (rule tally_pos[of _ k w]) (use assms in simp_all)
  then show ?thesis using tally_without[OF assms(1,2), of P] assms(3) by simp
qed

section \<open>Steps\<close>

definition chat_ok :: "chat_limits \<Rightarrow> chat_world \<Rightarrow> bool" where
  "chat_ok li w \<longleftrightarrow> tables_ok li (cw_chat w) \<and> queue_ok li (cw_chat w) (cw_tasks w)"

lemma at_SomeD: "at i ph w = Some j \<Longrightarrow> map_of (cw_tasks w) i = Some (j, ph)"
  by (auto simp: at_def split: option.splits prod.splits if_splits)

lemma chat_ok_move:
  assumes "chat_ok li w" and "at i ph w = Some j" and "counted ph' = counted ph"
    and "\<And>l. lock_of ph' = Some l \<Longrightarrow> lock_of ph = Some l"
    and "\<And>l. holds_lock l ph' \<Longrightarrow> holds_lock l ph \<or> (\<forall>k. \<not> holder (cw_tasks w) l k)"
    and "queue_part s = queue_part (cw_chat w)" and "tables_ok li (cw_chat w) \<Longrightarrow> tables_ok li s"
  shows "chat_ok li (w\<lparr>cw_chat := s, cw_tasks := put i (j, ph') (cw_tasks w)\<rparr>)"
  using assms(1,7) queue_ok_move[OF _ at_SomeD[OF assms(2)] assms(3-5), of li s] queue_ok_part[OF assms(6)]
  by (simp add: chat_ok_def)

lemma arrive_ok:
  assumes "chat_ok li w" and "map_of (cw_tasks w) i = None"
  shows "chat_ok li (arrive li now i key job w)"
proof -
  obtain b s where c: "claim_event li now key (cw_chat w) = (b, s)" by (cases "claim_event li now key (cw_chat w)")
  have "queue_ok li s (cw_tasks w)" "tables_ok li s"
    using assms(1) claim_parts[OF c] queue_ok_part[of s "cw_chat w"] by (simp_all add: chat_ok_def)
  moreover from this(1) have "queue_ok li s (put i (j, Claimed) (cw_tasks w))" for j
    using assms(2) tally_new[OF assms(2), of _ "(j, Claimed)"]
    by (auto simp: queue_ok_def counts_ok_def held_ok_def exclusive_def keyed_def)
  ultimately show ?thesis using c by (auto simp: arrive_def chat_ok_def split: option.splits)
qed

lemma enter_ok:
  assumes "chat_ok li w" and "at i Claimed w = Some j"
  shows "chat_ok li (enter_queue li i j w)"
proof (cases "li_queue li \<le> hc_queued (cw_chat w)")
  case True
  then show ?thesis
    using chat_ok_move[OF assms, of "Ending (Ended (Chat_retryable ''queue_full''))" "cw_chat w"]
    by (simp add: enter_queue_def Let_def)
next
  case False
  note i = at_SomeD[OF assms(2)]
  let ?s = "cw_chat w" and ?ts = "put i (j, In_queue) (cw_tasks w)" and ?k = "chat_key j"
  let ?refs = "put ?k (ref_count (hc_refs ?s) ?k + 1) (hc_refs ?s)"
  from assms(1) have ok: "queue_ok li ?s (cw_tasks w)" "tables_ok li ?s" by (simp_all add: chat_ok_def)
  from ok(1) have co: "counts_ok li (hc_queued ?s) (hc_refs ?s) (cw_tasks w)" by (simp add: queue_ok_def)
  then have d: "distinct (map fst (cw_tasks w))" by (simp add: counts_ok_def)
  have nonneg: "0 \<le> ref_count (hc_refs ?s) ?k" using co by (simp add: counts_ok_def)
  have "counts_ok li (hc_queued ?s + 1) ?refs ?ts"
    using co False tally_put[OF d i, of _ "(j, In_queue)"] nonneg
    by (auto simp: counts_ok_def ref_count_def keyed_def split: if_splits)
  moreover have "locks_ok ?refs (hc_locks ?s) (hc_next_lock ?s)" using ok(1) by (auto simp: queue_ok_def locks_ok_def)
  moreover have "held_ok (hc_locks ?s) ?ts" "exclusive ?ts"
    using ok(1) by (auto simp: queue_ok_def held_ok_def exclusive_def)
  ultimately show ?thesis
    using False ok(2) by (simp add: enter_queue_def Let_def chat_ok_def queue_ok_def tables_ok_def ref_count_def)
qed

lemma fetch_ok:
  assumes "chat_ok li w" and "at i In_queue w = Some j"
  shows "chat_ok li (fetch_lock i j w)"
proof -
  note i = at_SomeD[OF assms(2)]
  let ?s = "cw_chat w" and ?k = "chat_key j"
  from assms(1) have ok: "queue_ok li ?s (cw_tasks w)" "tables_ok li ?s" by (simp_all add: chat_ok_def)
  then have co: "counts_ok li (hc_queued ?s) (hc_refs ?s) (cw_tasks w)" and lo: "locks_ok (hc_refs ?s) (hc_locks ?s) (hc_next_lock ?s)"
    and held: "held_ok (hc_locks ?s) (cw_tasks w)" and ex: "exclusive (cw_tasks w)" by (simp_all add: queue_ok_def)
  have counts: "counts_ok li (hc_queued ?s) (hc_refs ?s) (put i (j, Waiting l) (cw_tasks w))" for l
    by (rule counts_move[OF co i]) simp
  have ex': "exclusive (put i (j, Waiting l) (cw_tasks w))" for l by (rule exclusive_move[OF ex]) simp
  have "0 < tally (keyed ?k) (cw_tasks w)" by (rule tally_pos[OF i]) (simp add: keyed_def)
  with co have ref: "map_of (hc_refs ?s) ?k \<noteq> None"
    unfolding counts_ok_def ref_count_def by (metis option.case(1) less_irrefl)
  show ?thesis
  proof (cases "map_of (hc_locks ?s) ?k")
    case (Some l)
    have "held_ok (hc_locks ?s) (put i (j, Waiting l) (cw_tasks w))" by (rule held_move[OF held i]) (use Some in simp)
    then show ?thesis using Some ok(2) counts ex' lo by (simp add: fetch_lock_def Let_def chat_ok_def queue_ok_def)
  next
    case None
    let ?l = "hc_next_lock ?s"
    have "map_of (hc_locks ?s) k \<noteq> Some ?l" for k using lo by (auto simp: locks_ok_def)
    then have "locks_ok (hc_refs ?s) (put ?k ?l (hc_locks ?s)) (?l + 1)"
      using lo ref unfolding locks_ok_def by (auto split: if_splits intro: less_SucI)
    moreover have "held_ok (put ?k ?l (hc_locks ?s)) (put i (j, Waiting ?l) (cw_tasks w))"
      using held None i by (auto simp: held_ok_def) (metis option.distinct(1))
    ultimately show ?thesis
      using None ok(2) counts[of ?l] ex'[of ?l] by (simp add: fetch_lock_def Let_def chat_ok_def queue_ok_def tables_ok_def)
  qed
qed

lemma look_up_ok:
  assumes "chat_ok li w" and "at i (In_lock l) w = Some j"
  shows "chat_ok li (look_up now l i j w)"
  using chat_ok_move[OF assms, of "Building l" "cw_chat w"] chat_ok_move[OF assms, of "Sending l p" "cw_chat w" for p]
    chat_ok_move[OF assms, of "Building l" "discard_pending_send (event_key j) (cw_chat w)"]
  by (auto simp: look_up_def Let_def split: option.splits)

lemma built_ok:
  assumes "chat_ok li w" and "at i (Building l) w = Some j"
  shows "chat_ok li (finish_build li now rid sv l i j w)"
proof (cases "build_request sv j")
  case (Inl er)
  then show ?thesis using chat_ok_move[OF assms, of "Leaving (Ended er)" "cw_chat w"] by (simp add: finish_build_def)
next
  case (Inr r)
  let ?p = "\<lparr>xp_request_id = rid, xp_request = r, xp_expires = now + li_ttl li\<rparr>"
  let ?s = "cw_chat w\<lparr>hc_sends := trim_state (li_entries li) (put_last (event_key j) ?p (hc_sends (cw_chat w)))\<rparr>"
  have "chat_ok li (w\<lparr>cw_chat := ?s, cw_tasks := put i (j, Sending l ?p) (cw_tasks w)\<rparr>)"
    by (rule chat_ok_move[OF assms]) (auto simp: queue_part_def tables_ok_def)
  with Inr show ?thesis by (simp add: finish_build_def Let_def)
qed

lemma sent_ok:
  assumes "chat_ok li w" and "at i (Sending l p) w = Some j"
  shows "chat_ok li (sent li now outcome p i j w)"
proof (cases outcome)
  case (Inl er)
  then show ?thesis using chat_ok_move[OF assms, of "Leaving (Ended er)" "cw_chat w"] by (simp add: sent_def)
next
  case (Inr receipt)
  obtain b s where a: "accept_send li now (event_key j) p receipt (cw_chat w) = (b, s)"
    by (cases "accept_send li now (event_key j) p receipt (cw_chat w)")
  show ?thesis
    using chat_ok_move[OF assms, of "Leaving e" s for e] accept_parts[OF a] Inr a by (simp add: sent_def)
qed

lemma settle_ok:
  assumes "chat_ok li w" and "at i (Ending e) w = Some j"
  shows "chat_ok li (settle e i j w)"
proof -
  note i = at_SomeD[OF assms(2)]
  let ?s = "cw_chat (settle e i j w)"
  have part: "queue_part ?s = queue_part (cw_chat w)" and tables: "tables_ok li ?s"
    using assms(1) by (auto simp: settle_def chat_ok_def split: chat_end.split chat_outcome.split)
  from assms(1) have q: "queue_ok li (cw_chat w) (cw_tasks w)" by (simp add: chat_ok_def)
  then have d: "distinct (map fst (cw_tasks w))" by (simp add: queue_ok_def counts_ok_def)
  have "queue_ok li (cw_chat w) (without i (cw_tasks w))"
    using q tally_without[OF d i] by (auto simp: queue_ok_def counts_ok_def keyed_def held_ok_def exclusive_def)
  with tables queue_ok_part[OF part] show ?thesis by (simp add: chat_ok_def settle_def)
qed

lemma leave_ok:
  assumes "chat_ok li w" and "at i (Leaving e) w = Some j"
  shows "chat_ok li (leave_queue e i j w)"
proof -
  note i = at_SomeD[OF assms(2)]
  let ?s = "cw_chat w" and ?k = "chat_key j" and ?ts = "put i (j, Ending e) (cw_tasks w)"
  let ?n = "ref_count (hc_refs ?s) ?k"
  let ?refs = "if ?n - 1 = 0 then without ?k (hc_refs ?s) else put ?k (?n - 1) (hc_refs ?s)"
  let ?locks = "if ?n - 1 = 0 then without ?k (hc_locks ?s) else hc_locks ?s"
  from assms(1) have ok: "queue_ok li ?s (cw_tasks w)" "tables_ok li ?s" by (simp_all add: chat_ok_def)
  then have co: "counts_ok li (hc_queued ?s) (hc_refs ?s) (cw_tasks w)" and lo: "locks_ok (hc_refs ?s) (hc_locks ?s) (hc_next_lock ?s)"
    and held: "held_ok (hc_locks ?s) (cw_tasks w)" and ex: "exclusive (cw_tasks w)" by (simp_all add: queue_ok_def)
  from co have d: "distinct (map fst (cw_tasks w))" by (simp add: counts_ok_def)
  have n: "?n = tally (keyed ?k) (cw_tasks w)" using co by (simp add: counts_ok_def)
  moreover have "0 < tally (keyed ?k) (cw_tasks w)" by (rule tally_pos[OF i]) (simp add: keyed_def)
  ultimately have pos: "0 < ?n" by simp
  have "ref_count ?refs k = tally (keyed k) ?ts" for k
    using co n tally_put[OF d i, of "keyed k" "(j, Ending e)"]
    by (auto simp: counts_ok_def ref_count_def keyed_def)
  moreover have "tally (counted \<circ> snd) ?ts = hc_queued ?s - 1"
    using co tally_put[OF d i, of "counted \<circ> snd" "(j, Ending e)"] by (simp add: counts_ok_def)
  ultimately have "counts_ok li (hc_queued ?s - 1) ?refs ?ts"
    using co d pos by (auto simp: counts_ok_def split: if_splits)
  moreover have "locks_ok ?refs ?locks (hc_next_lock ?s)"
    using lo by (auto simp: locks_ok_def split: if_splits)
  moreover have "held_ok ?locks ?ts"
  proof -
    have "chat_key j' \<noteq> ?k" if one: "?n - 1 = 0" and t: "map_of (cw_tasks w) i' = Some (j', ph)" "lock_of ph = Some l" "i' \<noteq> i"
      for i' j' ph l
    proof
      assume "chat_key j' = ?k"
      then have "2 \<le> tally (keyed ?k) (cw_tasks w)"
        using tally_two[OF d i _ t(1), of "keyed ?k"] t(3) lock_counted[OF t(2)] by (simp add: keyed_def)
      with one n show False by simp
    qed
    with held show ?thesis by (auto simp: held_ok_def split: if_splits) (metis not_None_eq)
  qed
  moreover have "exclusive ?ts" by (rule exclusive_move[OF ex]) simp
  ultimately show ?thesis
    using ok(2) by (simp add: leave_queue_def Let_def chat_ok_def queue_ok_def tables_ok_def ref_count_def[symmetric])
qed

lemma chat_service_step_ok:
  assumes "chat_service_step li w v" and "chat_ok li w"
  shows "chat_ok li v"
  using assms(1)
proof cases
  case (acquire i l j)
  have "\<not> holder (cw_tasks w) l k" for k
    using acquire(3) map_of_SomeD[of "cw_tasks w" k]
    by (auto simp: lock_free_def holder_def list_all_iff split: option.splits)
  then show ?thesis
    using chat_ok_move[OF assms(2) acquire(2), of "In_lock l" "cw_chat w"] acquire(1) by simp
next
  case (cancel i ph j)
  have "chat_ok li (w\<lparr>cw_chat := cw_chat w, cw_tasks := put i (j, cancelled ph) (cw_tasks w)\<rparr>)"
    by (rule chat_ok_move[OF assms(2) cancel(2)]) (cases ph; simp)+
  with cancel(1) show ?thesis by simp
next
  case (reported now now' gateway event p r s)
  from handle_result_parts[OF reported(2)] queue_ok_part[of s "cw_chat w"] assms(2)
  show ?thesis by (simp add: reported(1) chat_ok_def)
qed (use assms(2) in \<open>auto intro: arrive_ok enter_ok fetch_ok look_up_ok built_ok sent_ok leave_ok settle_ok\<close>)

lemma chat_run_ok:
  assumes "new_chat_service queue ttl entries = Inr (li, s)" and "(chat_service_step li)\<^sup>*\<^sup>* \<lparr>cw_chat = s, cw_tasks = []\<rparr> w"
  shows "chat_ok li w"
  using assms(2)
proof (induction rule: rtranclp_induct)
  case base
  from assms(1) have "s = new_chat_state" "0 < li_queue li" by (auto simp: new_chat_service_def split: if_splits)
  then show ?case
    by (simp add: chat_ok_def new_chat_state_def tables_ok_def queue_ok_def counts_ok_def locks_ok_def held_ok_def
        exclusive_def holder_def ref_count_def)
qed (rule chat_service_step_ok)

section \<open>What the service guarantees\<close>

text \<open>
  C12: conversations are serial and the service leaks nothing.  However handlers of the hosted chat service
  interleave, fail or are cancelled, at most one of them builds or sends a message for one target of one
  session, no more handlers are queued than the queue holds and each of them finds the semaphore free,
  every table stays within its limit, and when no handler runs the queue is empty and no reference count
  and no lock is left.
\<close>

theorem chat_handlers_are_serial:
  assumes "new_chat_service queue ttl entries = Inr (li, s)" and "(chat_service_step li)\<^sup>*\<^sup>* \<lparr>cw_chat = s, cw_tasks = []\<rparr> w"
  shows "(\<forall>i k j j' p p' l l'. map_of (cw_tasks w) i = Some (j, p) \<and> holds_lock l p \<and>
      map_of (cw_tasks w) k = Some (j', p') \<and> holds_lock l' p' \<and> chat_key j = chat_key j' \<longrightarrow> i = k) \<and>
    hc_queued (cw_chat w) = tally (counted \<circ> snd) (cw_tasks w) \<and> hc_queued (cw_chat w) \<le> queue \<and>
    (\<forall>i j. at i In_queue w = Some j \<longrightarrow> semaphore_free li w) \<and>
    tables_ok li (cw_chat w) \<and>
    (cw_tasks w = [] \<longrightarrow> hc_queued (cw_chat w) = 0 \<and> hc_refs (cw_chat w) = [] \<and> hc_locks (cw_chat w) = [])"
proof -
  have ok: "chat_ok li w" by (rule chat_run_ok[OF assms])
  from assms(1) have q: "li_queue li = queue" by (auto simp: new_chat_service_def split: if_splits)
  from ok have co: "counts_ok li (hc_queued (cw_chat w)) (hc_refs (cw_chat w)) (cw_tasks w)"
    and lo: "locks_ok (hc_refs (cw_chat w)) (hc_locks (cw_chat w)) (hc_next_lock (cw_chat w))"
    and held: "held_ok (hc_locks (cw_chat w)) (cw_tasks w)" and ex: "exclusive (cw_tasks w)"
    by (simp_all add: chat_ok_def queue_ok_def)
  have one: "i = k" if t: "map_of (cw_tasks w) i = Some (j, p)" "holds_lock l p" "map_of (cw_tasks w) k = Some (j', p')"
      "holds_lock l' p'" "chat_key j = chat_key j'" for i k j j' p p' l l'
  proof -
    have "map_of (hc_locks (cw_chat w)) (chat_key j) = Some l" "map_of (hc_locks (cw_chat w)) (chat_key j') = Some l'"
      using held t(1,3) holds_lock_of[OF t(2)] holds_lock_of[OF t(4)] unfolding held_ok_def by blast+
    with t(5) have "l = l'" by simp
    with ex holderI[OF t(1,2)] holderI[OF t(3,4)] show ?thesis unfolding exclusive_def by blast
  qed
  have free: "semaphore_free li w" if "at i In_queue w = Some j" for i j
  proof -
    note i = at_SomeD[OF that]
    from co have d: "distinct (map fst (cw_tasks w))" by (simp add: counts_ok_def)
    let ?rest = "without i (cw_tasks w)"
    have "tally (in_semaphore \<circ> snd) ?rest \<le> tally (counted \<circ> snd) ?rest"
      by (rule tally_mono) (auto elim: in_semaphore.elims)
    then have "tally (in_semaphore \<circ> snd) (cw_tasks w) < tally (counted \<circ> snd) (cw_tasks w)"
      using tally_without[OF d i] by simp
    then show ?thesis using co by (simp add: semaphore_free_def counts_ok_def)
  qed
  have empty: "hc_refs (cw_chat w) = [] \<and> hc_locks (cw_chat w) = []" if "cw_tasks w = []"
  proof -
    have "map_of (hc_refs (cw_chat w)) k = None" for k
    proof (cases "map_of (hc_refs (cw_chat w)) k")
      case (Some n)
      with co have "0 < n" "ref_count (hc_refs (cw_chat w)) k = 0" by (auto simp: counts_ok_def that)
      with Some show ?thesis by (simp add: ref_count_def)
    qed simp
    moreover from this have "map_of (hc_locks (cw_chat w)) k = None" for k using lo unfolding locks_ok_def by (metis not_None_eq)
    ultimately show ?thesis by (metis map_of_eq_empty_iff)
  qed
  show ?thesis
    using one co free ok empty q by (auto simp: counts_ok_def chat_ok_def)
qed

text \<open>Two handlers of one target, the first sending.\<close>

definition sample_limits :: chat_limits where
  "sample_limits = \<lparr>li_queue = 2, li_ttl = 300, li_entries = 10\<rparr>"

definition sample_job :: "string \<Rightarrow> chat_job" where
  "sample_job e = \<lparr>jb_gateway = ''gw'', jb_event = e, jb_session = ''room'', jb_avatar = ''5'', jb_role = ''6'',
     jb_type = Friend_chat, jb_text = None\<rparr>"

definition sample_world :: chat_world where
  "sample_world =
     (let w = arrive sample_limits 0 1 (''gw'', ''e1'') (Some (sample_job ''e1'')) \<lparr>cw_chat = new_chat_state, cw_tasks = []\<rparr>;
          w = fetch_lock 1 (sample_job ''e1'') (enter_queue sample_limits 1 (sample_job ''e1'') w) in
      move 1 (sample_job ''e1'') (In_lock 0) w)"

lemma four_steps: "R a b \<Longrightarrow> R b c \<Longrightarrow> R c d \<Longrightarrow> R d e \<Longrightarrow> R\<^sup>*\<^sup>* a e"
  by (meson rtranclp.rtrancl_into_rtrancl r_into_rtranclp)

lemma sample_world_run: "(chat_service_step sample_limits)\<^sup>*\<^sup>* \<lparr>cw_chat = new_chat_state, cw_tasks = []\<rparr> sample_world"
proof -
  let ?j = "sample_job ''e1''"
  let ?w1 = "arrive sample_limits 0 1 (''gw'', ''e1'') (Some ?j) \<lparr>cw_chat = new_chat_state, cw_tasks = []\<rparr>"
  let ?w2 = "enter_queue sample_limits 1 ?j ?w1"
  let ?w3 = "fetch_lock 1 ?j ?w2"
  have "at 1 Claimed ?w1 = Some ?j" "at 1 In_queue ?w2 = Some ?j" "at 1 (Waiting 0) ?w3 = Some ?j"
    "semaphore_free sample_limits ?w2" "lock_free 0 ?w3" by code_simp+
  then have s: "chat_service_step sample_limits ?w1 ?w2" "chat_service_step sample_limits ?w2 ?w3"
    "chat_service_step sample_limits ?w3 (move 1 ?j (In_lock 0) ?w3)"
    by (auto intro: chat_service_step.intros)
  have "chat_service_step sample_limits \<lparr>cw_chat = new_chat_state, cw_tasks = []\<rparr> ?w1"
    by (rule chat_service_step.arrive) (simp_all add: event_key_def sample_job_def)
  from four_steps[where R = "chat_service_step sample_limits", OF this s] show ?thesis
    by (simp add: sample_world_def Let_def)
qed

lemma chat_handlers_are_serial_witness:
  "map_of (cw_tasks sample_world) 1 = Some (sample_job ''e1'', In_lock 0) \<and> hc_queued (cw_chat sample_world) = 1 \<and>
   hc_queued (cw_chat sample_world) \<le> 2"
proof -
  have "new_chat_service 2 300 10 = Inr (sample_limits, new_chat_state)"
    by (simp add: new_chat_service_def sample_limits_def)
  from chat_handlers_are_serial[OF this sample_world_run]
  have "hc_queued (cw_chat sample_world) \<le> 2" by blast
  moreover have "map_of (cw_tasks sample_world) 1 = Some (sample_job ''e1'', In_lock 0)" "hc_queued (cw_chat sample_world) = 1"
    by code_simp+
  ultimately show ?thesis by blast
qed

section \<open>Results, failures and cancellations\<close>

text \<open>The state without the message \<open>m\<close>: no result of it waits and nothing was sent under it or its request.\<close>

definition fresh_message :: "string \<Rightarrow> string \<Rightarrow> chat_state \<Rightarrow> bool" where
  "fresh_message m rid s \<longleftrightarrow> map_of (hc_outbound s) m = None \<and> map_of (hc_messages s) rid = None \<and>
     map_of (hc_results s) m = None \<and> rid \<notin> xb_request_id ` snd ` set (hc_outbound s)"

lemma map_of_filter_kept: "distinct (map fst d) \<Longrightarrow> map_of d k = Some v \<Longrightarrow> P (k, v) \<Longrightarrow> map_of (filter P d) k = Some v"
  by (induction d) (auto split: if_splits)

lemma map_of_filter_None: "map_of d k = None \<Longrightarrow> map_of (filter P d) k = None"
  by (induction d) (auto split: if_splits)

lemma without_filter: "without k (filter P d) = filter P (without k d)"
  by (simp add: without_def conj_commute)

lemma without_put_last: "map_of d k = None \<Longrightarrow> without k (put_last k v d) = d"
  using without_absent[of d k] by (simp add: put_last_def without_def)

lemma room_for_one: "length d < n \<Longrightarrow> trim_state n (put_last k v d) = put_last k v d"
  using length_without[of k d] by (simp add: trim_state_def put_last_def)

lemma filter_put_last_drop: "\<not> P (k, v) \<Longrightarrow> filter P (put_last k v d) = filter P (without k d)"
  by (simp add: put_last_def)

lemma filter_put_last: "P (k, v) \<Longrightarrow> filter P (put_last k v d) = put_last k v (filter P d)"
  by (simp add: put_last_def without_filter)


definition sample_send :: pending_send where
  "sample_send = \<lparr>xp_request_id = ''r1'', xp_request = \<lparr>hs_session = ''room'', hs_avatar = ''5'', hs_role = ''6'',
     hs_type = Friend_chat, hs_content = ''hello''\<rparr>, xp_expires = 300\<rparr>"

definition sample_result :: send_result_payload where
  "sample_result = \<lparr>sr_session = ''room'', sr_message = ''m1'', sr_target = \<lparr>pe_avatar = ''5'', pe_role = ''6''\<rparr>,
     sr_chat = Friend_chat, sr_status = Sent, sr_reason = None, sr_code = None, sr_completed = 9\<rparr>"


text \<open>
  A message whose delivery failed is sent again as it was.  A handler that fails while it sends, with an
  error that is not permanent, keeps the request and its id: when the event is delivered again before they
  expire it is claimed again and the handler sends the same request under the same id.
\<close>

theorem failed_message_is_sent_again:
  assumes "at i (Sending l p) w = Some j" and pending: "map_of (hc_sends (cw_chat w)) (event_key j) = Some p"
    and keys: "distinct (map fst (hc_sends (cw_chat w)))" and clock: "now < xp_expires p"
    and er: "er = Chat_retryable c \<or> er = Chat_failed"
    and w': "w' = settle (Ended er) i j (leave_queue (Ended er) i j (sent li t (Inl er) p i j w))"
    and again: "v = arrive li now k (event_key j) (Some j) w'"
  shows "at k Claimed v = Some j \<and> look_up now l' k j v = move k j (Sending l' p) v"
proof -
  have s: "hc_sends (cw_chat w') = hc_sends (cw_chat w)" "map_of (hc_processed (cw_chat w')) (event_key j) = None"
    using er by (auto simp: w' settle_def leave_queue_def Let_def sent_def release_event_def)
  have "map_of (hc_processed (expire now (cw_chat w'))) (event_key j) = None"
    "map_of (hc_sends (expire now (cw_chat w'))) (event_key j) = Some p"
    using map_of_filter_None[OF s(2)] map_of_filter_kept[OF keys pending, of "\<lambda>(_, p). now < xp_expires p"] clock
    by (simp_all add: expire_def Let_def s(1))
  then have "at k Claimed v = Some j" "map_of (hc_sends (cw_chat v)) (event_key j) = Some p"
    by (simp_all add: again arrive_def claim_event_def Let_def at_def)
  with clock show ?thesis by (simp add: look_up_def Let_def)
qed

definition sending_world :: chat_world where
  "sending_world = \<lparr>cw_chat = new_chat_state\<lparr>hc_processed := [((''gw'', ''e1''), 300)], hc_sends := [((''gw'', ''e1''), sample_send)],
     hc_queued := 1, hc_refs := [(chat_key (sample_job ''e1''), 1)], hc_locks := [(chat_key (sample_job ''e1''), 0)], hc_next_lock := 1\<rparr>,
     cw_tasks = [(1, sample_job ''e1'', Sending 0 sample_send)]\<rparr>"

lemma failed_message_is_sent_again_witness:
  "\<exists>v. at 2 Claimed v = Some (sample_job ''e1'') \<and>
     look_up 100 7 2 (sample_job ''e1'') v = move 2 (sample_job ''e1'') (Sending 7 sample_send) v"
proof -
  let ?j = "sample_job ''e1''"
  have "at 1 (Sending 0 sample_send) sending_world = Some ?j"
    "map_of (hc_sends (cw_chat sending_world)) (event_key ?j) = Some sample_send"
    "distinct (map fst (hc_sends (cw_chat sending_world)))" "100 < xp_expires sample_send"
    by (simp_all add: at_def sending_world_def event_key_def sample_job_def sample_send_def)
  from failed_message_is_sent_again[OF this disjI2[OF refl] refl refl] show ?thesis by blast
qed

text \<open>
  C17: a cancelled handler loses its message.  Cancellation passes the handlers that release a failed event;
  when the worker lost its claim, cancelled the handler and gets the event again before its mark expires,
  no handler starts and the event counts as done, although nothing was sent.
\<close>

theorem cancelled_message_is_dropped:
  assumes "at i (Ending Cancelled) w = Some j" and mark: "map_of (hc_processed (cw_chat w)) (event_key j) = Some t"
    and keys: "distinct (map fst (hc_processed (cw_chat w)))" and clock: "now < t"
    and w': "w' = settle Cancelled i j w"
  shows "cw_tasks (arrive li now k (event_key j) (Some j) w') = cw_tasks w' \<and> i \<notin> fst ` set (cw_tasks w') \<and>
    fst (claim_event li now (event_key j) (cw_chat w')) = False"
proof -
  have "map_of (hc_processed (expire now (cw_chat w'))) (event_key j) = Some t"
    using map_of_filter_kept[OF keys mark, of "\<lambda>(_, t). now < t"] clock by (simp add: w' settle_def expire_def Let_def)
  then show ?thesis by (simp add: arrive_def claim_event_def Let_def) (simp add: w' settle_def)
qed

definition cancelled_world :: chat_world where
  "cancelled_world = sending_world\<lparr>cw_tasks := [(1, sample_job ''e1'', Ending Cancelled)]\<rparr>"

lemma cancelled_message_is_dropped_witness:
  "cw_tasks (arrive sample_limits 100 2 (event_key (sample_job ''e1'')) (Some (sample_job ''e1''))
     (settle Cancelled 1 (sample_job ''e1'') cancelled_world)) = []"
proof -
  let ?j = "sample_job ''e1''"
  have "at 1 (Ending Cancelled) cancelled_world = Some ?j"
    "map_of (hc_processed (cw_chat cancelled_world)) (event_key ?j) = Some 300"
    "distinct (map fst (hc_processed (cw_chat cancelled_world)))"
    by (simp_all add: at_def cancelled_world_def sending_world_def event_key_def sample_job_def)
  from cancelled_message_is_dropped[OF this _ refl, of 100 sample_limits 2] show ?thesis
    by (simp add: settle_def cancelled_world_def without_def)
qed

end
