(* ===== verification/TokenUsage.thy ===== *)
theory TokenUsage
  imports TaskTable ActionPlanning
begin

text \<open>
  Token accounting (\<open>token_usage.py\<close>): what a model reports, the scope of one decision that the callbacks of
  the model write to, the sums of the tracker, and the labelled counters of the second callback.  The scope a
  callback finds in its context is an argument; times and the log are left out.
\<close>

section \<open>What a model reports\<close>

record token_usage =
  tu_input :: int
  tu_output :: int
  tu_total :: int

text \<open>A \<open>bool\<close> is no count.\<close>

definition token_count :: "json option \<Rightarrow> int option" where
  "token_count v = (case v of Some (JInt i) \<Rightarrow> if i < 0 then None else Some i | _ \<Rightarrow> None)"

definition or_else :: "'a option \<Rightarrow> 'a option \<Rightarrow> 'a option" where
  "or_else a b = (case a of None \<Rightarrow> b | Some x \<Rightarrow> Some x)"

definition or_zero :: "int option \<Rightarrow> int" where
  "or_zero x = (case x of None \<Rightarrow> 0 | Some n \<Rightarrow> n)"

definition normalized_usage :: "int option \<Rightarrow> int option \<Rightarrow> int option \<Rightarrow> token_usage option" where
  "normalized_usage i o' t =
     (if i = None \<and> o' = None \<and> t = None then None
      else Some \<lparr>tu_input = or_zero i, tu_output = or_zero o',
        tu_total = (case t of None \<Rightarrow> or_zero i + or_zero o' | Some n \<Rightarrow> n)\<rparr>)"

definition usage_from_mapping :: "json option \<Rightarrow> token_usage option" where
  "usage_from_mapping v =
     (case v of
        Some (JObj kvs) \<Rightarrow>
          (let get = (\<lambda>k. token_count (map_of kvs k)) in
           normalized_usage (or_else (get ''input_tokens'') (get ''prompt_tokens''))
             (or_else (get ''output_tokens'') (get ''completion_tokens'')) (get ''total_tokens''))
      | _ \<Rightarrow> None)"

text \<open>A generation without a message of the model is \<open>None\<close>; both members of a message are mappings or missing.\<close>

record ai_message =
  am_usage :: "json option"
  am_metadata :: "(string \<times> json) list"

record llm_result =
  lr_generations :: "ai_message option list list"
  lr_output :: "json option"

definition messages_of :: "llm_result \<Rightarrow> ai_message list" where
  "messages_of r = List.map_filter id (concat (lr_generations r))"

definition output_usage :: "json option \<Rightarrow> token_usage option" where
  "output_usage v =
     (case v of
        Some (JObj kvs) \<Rightarrow> or_else (usage_from_mapping (map_of kvs ''token_usage'')) (usage_from_mapping v)
      | _ \<Rightarrow> None)"

definition extract_token_usage :: "llm_result \<Rightarrow> token_usage option" where
  "extract_token_usage r =
     (let ms = messages_of r; us = List.map_filter (usage_from_mapping \<circ> am_usage) ms in
      if us \<noteq> [] then Some \<lparr>tu_input = sum_list (map tu_input us), tu_output = sum_list (map tu_output us),
          tu_total = sum_list (map tu_total us)\<rparr>
      else case output_usage (lr_output r) of
        Some u \<Rightarrow> Some u
      | None \<Rightarrow>
          (case List.map_filter (\<lambda>m. usage_from_mapping (map_of (am_metadata m) ''token_usage'')) ms of
             [] \<Rightarrow> None | u # _ \<Rightarrow> Some u))"

section \<open>The scope of a decision\<close>

text \<open>\<open>sc_runs\<close> says of each run of the model whether it is completed.\<close>

record token_scope =
  sc_calls :: int
  sc_reported :: int
  sc_missing :: int
  sc_tokens :: token_usage
  sc_runs :: "(string \<times> bool) list"
  sc_completed :: bool

definition no_tokens :: token_usage where
  "no_tokens = \<lparr>tu_input = 0, tu_output = 0, tu_total = 0\<rparr>"

definition add_tokens :: "token_usage \<Rightarrow> token_usage \<Rightarrow> token_usage" where
  "add_tokens a b = \<lparr>tu_input = tu_input a + tu_input b, tu_output = tu_output a + tu_output b,
     tu_total = tu_total a + tu_total b\<rparr>"

definition start_decision :: token_scope where
  "start_decision = \<lparr>sc_calls = 0, sc_reported = 0, sc_missing = 0, sc_tokens = no_tokens, sc_runs = [], sc_completed = False\<rparr>"

definition record_model_start :: "string \<Rightarrow> token_scope \<Rightarrow> token_scope" where
  "record_model_start run sc =
     (if sc_completed sc \<or> map_of (sc_runs sc) run \<noteq> None then sc
      else sc\<lparr>sc_runs := put run False (sc_runs sc), sc_calls := sc_calls sc + 1\<rparr>)"

definition record_model_usage :: "string \<Rightarrow> token_usage \<Rightarrow> token_scope \<Rightarrow> string + token_scope" where
  "record_model_usage run u sc =
     (if tu_input u < 0 \<or> tu_output u < 0 \<or> tu_total u < 0 then Inl ''token counts must be non-negative integers''
      else if sc_completed sc then Inr sc
      else (let sc = record_model_start run sc in
        if map_of (sc_runs sc) run = Some True then Inr sc
        else Inr (sc\<lparr>sc_runs := put run True (sc_runs sc), sc_reported := sc_reported sc + 1,
                     sc_tokens := add_tokens (sc_tokens sc) u\<rparr>)))"

definition record_model_usage_missing :: "string \<Rightarrow> token_scope \<Rightarrow> token_scope" where
  "record_model_usage_missing run sc =
     (if sc_completed sc then sc
      else (let sc = record_model_start run sc in
        if map_of (sc_runs sc) run = Some True then sc
        else sc\<lparr>sc_runs := put run True (sc_runs sc), sc_missing := sc_missing sc + 1\<rparr>))"

text \<open>The callbacks of one run: it starts, ends with a result or fails.\<close>

datatype model_event = Model_start string | Model_end string llm_result | Model_error string

fun on_model_event :: "model_event \<Rightarrow> token_scope \<Rightarrow> token_scope" where
  "on_model_event (Model_start run) sc = record_model_start run sc"
| "on_model_event (Model_end run r) sc =
     (case extract_token_usage r of
        None \<Rightarrow> record_model_usage_missing run sc
      | Some u \<Rightarrow> (case record_model_usage run u sc of Inl _ \<Rightarrow> sc | Inr t \<Rightarrow> t))"
| "on_model_event (Model_error run) sc = record_model_usage_missing run sc"

section \<open>The tracker\<close>

record usage_summary =
  us_decisions :: int
  us_calls :: int
  us_reported :: int
  us_missing :: int
  us_tokens :: token_usage

definition empty_summary :: usage_summary where
  "empty_summary = \<lparr>us_decisions = 0, us_calls = 0, us_reported = 0, us_missing = 0, us_tokens = no_tokens\<rparr>"

definition add_usage :: "token_scope \<Rightarrow> usage_summary \<Rightarrow> usage_summary" where
  "add_usage sc u = \<lparr>us_decisions = us_decisions u + 1, us_calls = us_calls u + sc_calls sc,
     us_reported = us_reported u + sc_reported sc, us_missing = us_missing u + sc_missing sc,
     us_tokens = add_tokens (us_tokens u) (sc_tokens sc)\<rparr>"

record usage_tracker =
  ut_interval :: usage_summary
  ut_lifetime :: usage_summary

text \<open>Completing a scope counts the runs that never ended as missing.\<close>

definition close_scope :: "token_scope \<Rightarrow> token_scope" where
  "close_scope sc = sc\<lparr>sc_missing := sc_missing sc + tally (\<lambda>completed. \<not> completed) (sc_runs sc),
     sc_runs := map (\<lambda>(run, _). (run, True)) (sc_runs sc), sc_completed := True\<rparr>"

definition complete_decision :: "token_scope \<Rightarrow> usage_tracker \<Rightarrow> string + token_scope \<times> usage_tracker" where
  "complete_decision sc tr =
     (if sc_completed sc then Inl ''gateway v2 token decision scope is already completed''
      else (let sc = close_scope sc in
        Inr (sc, tr\<lparr>ut_interval := add_usage sc (ut_interval tr), ut_lifetime := add_usage sc (ut_lifetime tr)\<rparr>)))"

definition snapshot_interval :: "bool \<Rightarrow> usage_tracker \<Rightarrow> usage_summary \<times> usage_tracker" where
  "snapshot_interval reset tr = (ut_interval tr, if reset then tr\<lparr>ut_interval := empty_summary\<rparr> else tr)"

section \<open>The accounts\<close>

text \<open>The run an event is about, and the usage a run is charged with: that of the first event that ends it.\<close>

fun run_of :: "model_event \<Rightarrow> string" where
  "run_of (Model_start run) = run" | "run_of (Model_end run _) = run" | "run_of (Model_error run) = run"

fun charge :: "model_event \<Rightarrow> token_usage option option" where
  "charge (Model_start _) = None" | "charge (Model_end _ r) = Some (extract_token_usage r)" | "charge (Model_error _) = Some None"

definition first_charge :: "model_event list \<Rightarrow> string \<Rightarrow> token_usage option option" where
  "first_charge evs run =
     (case List.map_filter charge (filter (\<lambda>e. run_of e = run) evs) of [] \<Rightarrow> None | c # _ \<Rightarrow> Some c)"

text \<open>The sum of a measure of the charges over the runs of a decision.\<close>

definition charged :: "(token_usage option option \<Rightarrow> int) \<Rightarrow> model_event list \<Rightarrow> int" where
  "charged g evs = (\<Sum>run \<in> run_of ` set evs. g (first_charge evs run))"

definition usage_of :: "(token_usage \<Rightarrow> int) \<Rightarrow> token_usage option option \<Rightarrow> int" where
  "usage_of f c = (case c of Some (Some u) \<Rightarrow> f u | _ \<Rightarrow> 0)"

definition is_reported :: "token_usage option option \<Rightarrow> int" where
  "is_reported c = (case c of Some (Some _) \<Rightarrow> 1 | _ \<Rightarrow> 0)"

definition is_unreported :: "token_usage option option \<Rightarrow> int" where
  "is_unreported c = (case c of Some (Some _) \<Rightarrow> 0 | _ \<Rightarrow> 1)"

lemma first_charge_Nil [simp]: "first_charge [] run = None"
  by (simp add: first_charge_def List.map_filter_def)

lemma first_charge_snoc:
  "first_charge (evs @ [e]) run =
     (if run = run_of e \<and> first_charge evs run = None then charge e else first_charge evs run)"
  by (cases "charge e") (auto simp: first_charge_def List.map_filter_def split: list.splits)

lemma first_charge_absent: "run \<notin> run_of ` set evs \<Longrightarrow> first_charge evs run = None"
  by (induction evs rule: rev_induct) (auto simp: first_charge_snoc)

lemma charged_Nil [simp]: "charged g [] = 0"
  by (simp add: charged_def)

lemma charged_snoc:
  "charged g (evs @ [e]) =
     charged g evs
     + (if run_of e \<in> run_of ` set evs then 0 else g None)
     + (if first_charge evs (run_of e) = None then g (charge e) - g None else 0)"
proof (cases "run_of e \<in> run_of ` set evs")
  case True
  let ?R = "run_of ` set evs" and ?r = "run_of e"
  have "charged g (evs @ [e]) = g (first_charge (evs @ [e]) ?r) + (\<Sum>r \<in> ?R - {?r}. g (first_charge (evs @ [e]) r))"
    using True by (simp add: charged_def insert_absorb sum.remove)
  also have "(\<Sum>r \<in> ?R - {?r}. g (first_charge (evs @ [e]) r)) = (\<Sum>r \<in> ?R - {?r}. g (first_charge evs r))"
    by (rule sum.cong) (simp_all add: first_charge_snoc)
  also have "\<dots> = charged g evs - g (first_charge evs ?r)"
    using True by (simp add: charged_def sum_diff1)
  finally show ?thesis using True by (simp add: first_charge_snoc)
next
  case False
  have "(\<Sum>r \<in> run_of ` set evs. g (first_charge (evs @ [e]) r)) = charged g evs"
    unfolding charged_def using False by (intro sum.cong refl) (metis first_charge_snoc)
  with False show ?thesis by (simp add: charged_def first_charge_snoc first_charge_absent)
qed

lemma token_count_nonneg: "token_count v = Some n \<Longrightarrow> 0 \<le> n"
  by (simp add: token_count_def split: option.splits json.splits if_splits)

definition usage_ok :: "token_usage \<Rightarrow> bool" where
  "usage_ok u \<longleftrightarrow> 0 \<le> tu_input u \<and> 0 \<le> tu_output u \<and> 0 \<le> tu_total u"

lemma or_else_Some: "or_else a b = Some x \<Longrightarrow> a = Some x \<or> b = Some x"
  by (cases a) (simp_all add: or_else_def)

lemma normalized_nonneg:
  assumes "normalized_usage i o' t = Some u"
    and "\<And>n. i = Some n \<Longrightarrow> 0 \<le> n" and "\<And>n. o' = Some n \<Longrightarrow> 0 \<le> n" and "\<And>n. t = Some n \<Longrightarrow> 0 \<le> n"
  shows "usage_ok u"
  using assms by (cases i; cases o'; cases t) (auto simp: normalized_usage_def usage_ok_def or_zero_def)

lemma usage_nonneg:
  assumes "usage_from_mapping v = Some u"
  shows "usage_ok u"
proof -
  from assms obtain kvs where "v = Some (JObj kvs)"
    by (auto simp: usage_from_mapping_def split: option.splits json.splits)
  with assms have "\<exists>i o' t. normalized_usage i o' t = Some u
      \<and> (\<forall>n. i = Some n \<or> o' = Some n \<or> t = Some n \<longrightarrow> 0 \<le> n)"
    by (fastforce simp: usage_from_mapping_def Let_def dest: or_else_Some token_count_nonneg)
  then show ?thesis using normalized_nonneg by blast
qed

lemma mapped_usage_nonneg: "u \<in> set (List.map_filter (\<lambda>m. usage_from_mapping (f m)) ms) \<Longrightarrow> usage_ok u"
  using usage_nonneg by (force simp: List.map_filter_def)

lemma output_usage_nonneg: "output_usage v = Some u \<Longrightarrow> usage_ok u"
  by (auto simp: output_usage_def split: option.splits json.splits dest!: or_else_Some dest: usage_nonneg)

lemma extracted_nonneg:
  assumes "extract_token_usage r = Some u"
  shows "usage_ok u"
proof (cases "List.map_filter (usage_from_mapping \<circ> am_usage) (messages_of r) = []")
  case True
  then show ?thesis
    using assms output_usage_nonneg mapped_usage_nonneg[of u "\<lambda>m. map_of (am_metadata m) ''token_usage''" "messages_of r"]
    by (auto simp: extract_token_usage_def Let_def split: option.splits list.splits)
next
  case False
  with assms show ?thesis
    using mapped_usage_nonneg[of _ am_usage "messages_of r"]
    by (auto simp: extract_token_usage_def Let_def usage_ok_def comp_def intro!: sum_list_nonneg)
qed

text \<open>The usage a callback extracts is never refused by the tracker.\<close>

lemma extracted_is_recorded:
  assumes "extract_token_usage r = Some u"
  shows "\<exists>t. record_model_usage run u sc = Inr t"
  using extracted_nonneg[OF assms] by (auto simp: record_model_usage_def usage_ok_def Let_def)

section \<open>The scope follows the charges\<close>

definition scope_follows :: "model_event list \<Rightarrow> token_scope \<Rightarrow> bool" where
  "scope_follows evs sc \<longleftrightarrow>
     \<not> sc_completed sc
     \<and> distinct (map fst (sc_runs sc))
     \<and> (\<forall>run. map_of (sc_runs sc) run =
           (if run \<in> run_of ` set evs then Some (first_charge evs run \<noteq> None) else None))
     \<and> sc_calls sc = int (card (run_of ` set evs))
     \<and> sc_reported sc = charged is_reported evs
     \<and> sc_missing sc + tally (\<lambda>completed. \<not> completed) (sc_runs sc) = charged is_unreported evs
     \<and> sc_tokens sc = \<lparr>tu_input = charged (usage_of tu_input) evs, tu_output = charged (usage_of tu_output) evs,
          tu_total = charged (usage_of tu_total) evs\<rparr>"

lemmas charge_measures = is_reported_def is_unreported_def usage_of_def

lemma scope_follows_Nil: "scope_follows [] start_decision"
  by (simp add: scope_follows_def start_decision_def no_tokens_def)

text \<open>What one event does to an open scope.\<close>

lemma scope_event:
  assumes "\<not> sc_completed sc"
  shows "on_model_event e sc =
     (let c = charge e; run = run_of e; known = map_of (sc_runs sc) run in
      if known = Some True \<or> known = Some False \<and> c = None then sc
      else sc\<lparr>sc_calls := sc_calls sc + (if known = None then 1 else 0),
        sc_reported := sc_reported sc + is_reported c,
        sc_missing := sc_missing sc + (if c = Some None then 1 else 0),
        sc_tokens := add_tokens (sc_tokens sc) \<lparr>tu_input = usage_of tu_input c, tu_output = usage_of tu_output c,
          tu_total = usage_of tu_total c\<rparr>,
        sc_runs := put run (c \<noteq> None) (sc_runs sc)\<rparr>)"
proof (cases e)
  case (Model_start run)
  with assms show ?thesis
    by (cases "map_of (sc_runs sc) run") (auto simp: record_model_start_def Let_def charge_measures add_tokens_def)
next
  case (Model_error run)
  with assms show ?thesis
    by (cases "map_of (sc_runs sc) run")
      (auto simp: record_model_usage_missing_def record_model_start_def Let_def charge_measures add_tokens_def)
next
  case (Model_end run r)
  show ?thesis
  proof (cases "extract_token_usage r")
    case None
    with Model_end assms show ?thesis
      by (cases "map_of (sc_runs sc) run")
        (auto simp: record_model_usage_missing_def record_model_start_def Let_def charge_measures add_tokens_def)
  next
    case (Some u)
    with extracted_nonneg[OF this] Model_end assms show ?thesis
      by (cases "map_of (sc_runs sc) run")
        (auto simp: record_model_usage_def record_model_start_def Let_def charge_measures add_tokens_def usage_ok_def)
  qed
qed

lemma charged_new_event:
  assumes "first_charge evs (run_of e) = None"
  shows "charged g (evs @ [e]) =
    charged g evs - (if run_of e \<in> run_of ` set evs then g None else 0) + g (charge e)"
  using assms by (simp add: charged_snoc)

lemma charged_ended_event:
  assumes "first_charge evs (run_of e) = Some c"
  shows "charged g (evs @ [e]) = charged g evs"
  using assms first_charge_absent[of "run_of e" evs] by (auto simp: charged_snoc)

text \<open>One event: the run is new, is running or has ended.\<close>

lemma scope_follows_step:
  assumes "scope_follows evs sc"
  shows "scope_follows (evs @ [e]) (on_model_event e sc)"
proof -
  have open_scope: "\<not> sc_completed sc" and d: "distinct (map fst (sc_runs sc))"
    and m: "map_of (sc_runs sc) (run_of e) =
      (if run_of e \<in> run_of ` set evs then Some (first_charge evs (run_of e) \<noteq> None) else None)"
    using assms by (simp_all add: scope_follows_def)
  consider (new) "run_of e \<notin> run_of ` set evs" "map_of (sc_runs sc) (run_of e) = None" "first_charge evs (run_of e) = None"
    | (running) "run_of e \<in> run_of ` set evs" "map_of (sc_runs sc) (run_of e) = Some False" "first_charge evs (run_of e) = None"
    | (ended) c where "run_of e \<in> run_of ` set evs" "map_of (sc_runs sc) (run_of e) = Some True" "first_charge evs (run_of e) = Some c"
    using m first_charge_absent[of "run_of e" evs] by (cases "first_charge evs (run_of e)") (auto split: if_splits)
  then show ?thesis
  proof cases
    case new
    with assms d open_scope show ?thesis
      by (cases "charge e")
        (auto simp: scope_follows_def scope_event Let_def charged_new_event first_charge_snoc tally_new add_tokens_def
          charge_measures split: option.splits)
  next
    case running
    with assms d open_scope show ?thesis
      by (cases "charge e")
        (auto simp: scope_follows_def scope_event Let_def charged_new_event first_charge_snoc add_tokens_def insert_absorb
          tally_put[OF d running(2)] charge_measures split: option.splits)
  next
    case ended
    with assms d open_scope show ?thesis
      by (auto simp: scope_follows_def scope_event Let_def charged_ended_event first_charge_snoc insert_absorb)
  qed
qed

lemma scope_follows_events: "scope_follows evs (fold on_model_event evs start_decision)"
  by (induction evs rule: rev_induct) (simp_all add: scope_follows_Nil scope_follows_step)

section \<open>A completed decision\<close>

lemma reported_and_unreported: "charged is_reported evs + charged is_unreported evs = int (card (run_of ` set evs))"
proof -
  have "is_reported c + is_unreported c = 1" for c by (simp add: charge_measures split: option.split)
  then show ?thesis by (simp add: charged_def sum.distrib[symmetric])
qed

text \<open>
  C15: completing the decision scope after any sequence of model callbacks yields the accounts of the
  callbacks: the calls are the runs seen, the reported ones are the runs whose first ending event carries a
  usage, every other run is counted as missing, and the tokens are the sums of those usages, each run charged
  once whatever is reported for it later.
\<close>

theorem decision_accounts_balance:
  "(case complete_decision (fold on_model_event evs start_decision) tr of
      Inl _ \<Rightarrow> False
    | Inr (sc, tr') \<Rightarrow>
        sc_completed sc
        \<and> sc_calls sc = int (card (run_of ` set evs))
        \<and> sc_reported sc = charged is_reported evs
        \<and> sc_reported sc + sc_missing sc = sc_calls sc
        \<and> sc_tokens sc = \<lparr>tu_input = charged (usage_of tu_input) evs, tu_output = charged (usage_of tu_output) evs,
             tu_total = charged (usage_of tu_total) evs\<rparr>
        \<and> ut_interval tr' = add_usage sc (ut_interval tr)
        \<and> ut_lifetime tr' = add_usage sc (ut_lifetime tr))"
  using scope_follows_events[of evs] reported_and_unreported[of evs]
  by (simp add: complete_decision_def close_scope_def scope_follows_def Let_def)

text \<open>A completed scope takes no further callback and is not completed a second time.\<close>

lemma completed_scope_is_final:
  assumes "sc_completed sc"
  shows "on_model_event e sc = sc" and "\<exists>err. complete_decision sc tr = Inl err"
proof -
  show "on_model_event e sc = sc"
    using assms by (cases e) (auto simp: record_model_start_def record_model_usage_def record_model_usage_missing_def
        split: option.splits sum.splits if_splits)
  show "\<exists>err. complete_decision sc tr = Inl err"
    using assms by (simp add: complete_decision_def)
qed

section \<open>The windows of the tracker\<close>

datatype tracker_step = Complete token_scope | Snapshot bool

text \<open>The steps of the tracker and the windows its resetting snapshots return.\<close>

fun tracker_run :: "tracker_step list \<Rightarrow> usage_tracker \<Rightarrow> usage_tracker \<times> usage_summary list" where
  "tracker_run [] tr = (tr, [])"
| "tracker_run (Complete sc # steps) tr =
     tracker_run steps (case complete_decision sc tr of Inl _ \<Rightarrow> tr | Inr (_, tr') \<Rightarrow> tr')"
| "tracker_run (Snapshot reset # steps) tr =
     (let (window, tr') = snapshot_interval reset tr; (tr'', windows) = tracker_run steps tr' in
      (tr'', if reset then window # windows else windows))"

definition add_summary :: "usage_summary \<Rightarrow> usage_summary \<Rightarrow> usage_summary" where
  "add_summary a b = \<lparr>us_decisions = us_decisions a + us_decisions b, us_calls = us_calls a + us_calls b,
     us_reported = us_reported a + us_reported b, us_missing = us_missing a + us_missing b,
     us_tokens = add_tokens (us_tokens a) (us_tokens b)\<rparr>"

lemma add_summary_assoc: "add_summary (add_summary a b) c = add_summary a (add_summary b c)"
  by (simp add: add_summary_def add_tokens_def)

lemma add_summary_empty [simp]: "add_summary a empty_summary = a" "add_summary empty_summary a = a"
  by (simp_all add: add_summary_def empty_summary_def add_tokens_def no_tokens_def)

lemma add_usage_summary: "add_usage sc (add_summary a b) = add_summary a (add_usage sc b)"
  by (simp add: add_summary_def add_usage_def add_tokens_def)

lemma windows_partition:
  assumes "ut_lifetime tr = add_summary before (ut_interval tr)"
    and "tracker_run steps tr = (tr', windows)"
  shows "ut_lifetime tr' = add_summary (foldl add_summary before windows) (ut_interval tr')"
  using assms
proof (induction steps arbitrary: tr before windows)
  case (Cons step steps)
  show ?case
  proof (cases step)
    case (Complete sc)
    then show ?thesis using Cons.prems
      by (intro Cons.IH[where tr = "case complete_decision sc tr of Inl _ \<Rightarrow> tr | Inr (_, tr') \<Rightarrow> tr'"])
        (auto simp: complete_decision_def Let_def add_usage_summary)
  next
    case (Snapshot reset)
    show ?thesis
    proof (cases reset)
      case True
      with Snapshot Cons.prems obtain ws where w: "windows = ut_interval tr # ws"
        "tracker_run steps (tr\<lparr>ut_interval := empty_summary\<rparr>) = (tr', ws)"
        by (auto simp: snapshot_interval_def split: prod.splits)
      from Cons.IH[OF _ w(2), of "add_summary before (ut_interval tr)"] Cons.prems(1) w(1) show ?thesis by simp
    next
      case False
      with Snapshot Cons.prems Cons.IH[of tr before windows] show ?thesis
        by (simp add: snapshot_interval_def split: prod.splits)
    qed
  qed
qed simp

text \<open>
  The interval reports partition the lifetime of the tracker: after any sequence of completed decisions
  and snapshots, the lifetime summary is the sum of the windows handed out by the resetting snapshots and of
  the window still open, so no decision is lost between two reports or counted in both.
\<close>

theorem reports_partition_lifetime:
  "(let (tr, windows) = tracker_run steps \<lparr>ut_interval = empty_summary, ut_lifetime = empty_summary\<rparr> in
    ut_lifetime tr = add_summary (foldl add_summary empty_summary windows) (ut_interval tr))"
proof -
  obtain tr windows where "tracker_run steps \<lparr>ut_interval = empty_summary, ut_lifetime = empty_summary\<rparr> = (tr, windows)"
    by fastforce
  with windows_partition[where before = empty_summary, OF _ this] show ?thesis by simp
qed

section \<open>The counters of the second callback\<close>

text \<open>
  The labelled counters of the model calls and the configuration of an instrumented call.  A counter of the metrics library is a function from its labels to a number; what the
  model library passes to the callbacks is \<open>json\<close>.
\<close>

section \<open>Labels\<close>

text \<open>The first \<open>n\<close> code points of a text given as UTF-8 bytes.\<close>

fun take_points :: "nat \<Rightarrow> string \<Rightarrow> string" where
  "take_points n [] = []"
| "take_points n (c # s) =
     (if 128 \<le> (of_char c :: nat) \<and> (of_char c :: nat) < 192 then c # take_points n s
      else case n of 0 \<Rightarrow> [] | Suc m \<Rightarrow> c # take_points m s)"

lemma py_len_take_points: "py_len (take_points n s) \<le> n"
  by (induction n s rule: take_points.induct) (auto simp: py_len_def split: nat.split)

definition metric_label :: "json option \<Rightarrow> string \<Rightarrow> string" where
  "metric_label v fallback =
     (case v of Some (JStr s) \<Rightarrow> if py_strip s = [] then fallback else take_points 128 (py_strip s) | _ \<Rightarrow> fallback)"

lemma metric_label_bounded: "py_len fallback \<le> 128 \<Longrightarrow> py_len (metric_label v fallback) \<le> 128"
  by (simp add: metric_label_def py_len_take_points split: option.split json.split)

record metric_labels =
  ml_flow :: string
  ml_node :: string
  ml_model_type :: string
  ml_model :: string

definition unknown_run :: metric_labels where
  "unknown_run = \<lparr>ml_flow = ''gateway_v2'', ml_node = ''unknown'', ml_model_type = ''unknown'', ml_model = ''unknown''\<rparr>"

text \<open>A Python \<open>or\<close> of dictionary lookups: the first true value, or else the last one.\<close>

fun first_true :: "json option list \<Rightarrow> json option" where
  "first_true [] = None"
| "first_true [v] = v"
| "first_true (v # w # vs) = (case v of Some x \<Rightarrow> if truthy x then v else first_true (w # vs) | None \<Rightarrow> first_true (w # vs))"

definition member_of :: "json option \<Rightarrow> string \<Rightarrow> json option" where
  "member_of v k = (case v of Some (JObj kvs) \<Rightarrow> map_of kvs k | _ \<Rightarrow> None)"

definition labels_of :: "(string \<times> json) list \<Rightarrow> json option \<Rightarrow> json option \<Rightarrow> metric_labels" where
  "labels_of serialized metadata params =
     (let kwargs = map_of serialized ''kwargs'' in
      \<lparr>ml_flow = metric_label (member_of metadata ''flow'') ''gateway_v2'',
       ml_node = metric_label (member_of metadata ''node'') ''unknown'',
       ml_model_type = metric_label (member_of metadata ''model_type'') ''unknown'',
       ml_model = metric_label (first_true [member_of metadata ''model'', member_of kwargs ''model_name'',
         member_of kwargs ''model'', member_of params ''model_name'', member_of params ''model'']) ''unknown''\<rparr>)"

section \<open>The counters\<close>

datatype metric_status = Call_success | Call_error

datatype direction = Dir_input | Dir_output | Dir_total

record usage_metrics =
  mt_calls :: "metric_status \<Rightarrow> metric_labels \<Rightarrow> int"
  mt_tokens :: "direction \<Rightarrow> metric_labels \<Rightarrow> int"
  mt_runs :: "(string \<times> metric_labels) list"

definition no_metrics :: usage_metrics where
  "no_metrics = \<lparr>mt_calls = (\<lambda>_ _. 0), mt_tokens = (\<lambda>_ _. 0), mt_runs = []\<rparr>"

definition inc :: "'a \<Rightarrow> 'b \<Rightarrow> int \<Rightarrow> ('a \<Rightarrow> 'b \<Rightarrow> int) \<Rightarrow> 'a \<Rightarrow> 'b \<Rightarrow> int" where
  "inc a b n c = c(a := (c a)(b := c a b + n))"

definition remember_run :: "string \<Rightarrow> metric_labels \<Rightarrow> usage_metrics \<Rightarrow> usage_metrics" where
  "remember_run run l m =
     (case map_of (mt_runs m) run of Some _ \<Rightarrow> m | None \<Rightarrow> m\<lparr>mt_runs := put run l (mt_runs m)\<rparr>)"

definition forget_run :: "string \<Rightarrow> usage_metrics \<Rightarrow> metric_labels option \<times> usage_metrics" where
  "forget_run run m = (map_of (mt_runs m) run, m\<lparr>mt_runs := without run (mt_runs m)\<rparr>)"

definition count_call :: "string \<Rightarrow> metric_status \<Rightarrow> usage_metrics \<Rightarrow> metric_labels \<times> usage_metrics" where
  "count_call run st m =
     (let (known, m) = forget_run run m; l = (case known of None \<Rightarrow> unknown_run | Some l \<Rightarrow> l) in
      (l, m\<lparr>mt_calls := inc st l 1 (mt_calls m)\<rparr>))"

datatype metric_event =
    Run_start string "(string \<times> json) list" "json option" "json option"
  | Run_end string llm_result
  | Run_error string

fun on_metric_event :: "metric_event \<Rightarrow> usage_metrics \<Rightarrow> usage_metrics" where
  "on_metric_event (Run_start run serialized metadata params) m = remember_run run (labels_of serialized metadata params) m"
| "on_metric_event (Run_end run r) m =
     (let (l, m) = count_call run Call_success m in
      case extract_token_usage r of
        None \<Rightarrow> m
      | Some u \<Rightarrow> m\<lparr>mt_tokens := inc Dir_total l (tu_total u) (inc Dir_output l (tu_output u)
                      (inc Dir_input l (tu_input u) (mt_tokens m)))\<rparr>)"
| "on_metric_event (Run_error run) m = snd (count_call run Call_error m)"

section \<open>What the counters count\<close>

fun outcome_of :: "metric_event \<Rightarrow> metric_status option" where
  "outcome_of (Run_start _ _ _ _) = None" | "outcome_of (Run_end _ _) = Some Call_success"
| "outcome_of (Run_error _) = Some Call_error"

fun metric_run :: "metric_event \<Rightarrow> string" where
  "metric_run (Run_start run _ _ _) = run" | "metric_run (Run_end run _) = run" | "metric_run (Run_error run) = run"

text \<open>The labels in force for a run: those of its first start since it last ended.\<close>

fun labels_after :: "metric_event list \<Rightarrow> string \<Rightarrow> metric_labels option" where
  "labels_after [] run = None"
| "labels_after (e # past) run =
     (if metric_run e \<noteq> run then labels_after past run
      else case e of
        Run_start _ serialized metadata params \<Rightarrow>
          (case labels_after past run of None \<Rightarrow> Some (labels_of serialized metadata params) | Some l \<Rightarrow> Some l)
      | _ \<Rightarrow> None)"

text \<open>The calls that ended so with these labels; the past is given with the latest event first.\<close>

fun ended_calls :: "metric_status \<Rightarrow> metric_labels \<Rightarrow> metric_event list \<Rightarrow> int" where
  "ended_calls st l [] = 0"
| "ended_calls st l (e # past) =
     ended_calls st l past
     + (if outcome_of e = Some st
           \<and> (case labels_after past (metric_run e) of None \<Rightarrow> unknown_run | Some k \<Rightarrow> k) = l then 1 else 0)"

definition measured :: "direction \<Rightarrow> token_usage \<Rightarrow> int" where
  "measured d u = (case d of Dir_input \<Rightarrow> tu_input u | Dir_output \<Rightarrow> tu_output u | Dir_total \<Rightarrow> tu_total u)"

fun used_tokens :: "direction \<Rightarrow> metric_labels \<Rightarrow> metric_event list \<Rightarrow> int" where
  "used_tokens d l [] = 0"
| "used_tokens d l (e # past) =
     used_tokens d l past
     + (case e of
          Run_end run r \<Rightarrow>
            (case extract_token_usage r of
               Some u \<Rightarrow> if (case labels_after past run of None \<Rightarrow> unknown_run | Some k \<Rightarrow> k) = l then measured d u else 0
             | None \<Rightarrow> 0)
        | _ \<Rightarrow> 0)"

lemma runs_follow: "map_of (mt_runs (foldr on_metric_event past no_metrics)) run = labels_after past run"
proof (induction past)
  case (Cons e past)
  then show ?case
    by (cases e) (auto simp: remember_run_def count_call_def forget_run_def Let_def split: option.splits)
qed (simp add: no_metrics_def)

lemma inc_apply: "inc a b n c x y = c x y + (if x = a \<and> y = b then n else 0)"
  by (simp add: inc_def)

lemma counters_follow:
  "mt_calls (foldr on_metric_event past no_metrics) st l = ended_calls st l past
   \<and> mt_tokens (foldr on_metric_event past no_metrics) d l = used_tokens d l past"
proof (induction past)
  case (Cons e past)
  note known = runs_follow[of past]
  show ?case
  proof (cases e)
    case (Run_start run serialized metadata params)
    with Cons show ?thesis by (simp add: remember_run_def split: option.split)
  next
    case (Run_end run r)
    with Cons known[of run] show ?thesis
      by (cases d) (auto simp: count_call_def forget_run_def Let_def inc_apply measured_def split: option.splits)
  next
    case (Run_error run)
    with Cons known[of run] show ?thesis
      by (auto simp: count_call_def forget_run_def Let_def inc_apply split: option.splits)
  qed
qed (simp add: no_metrics_def)

section \<open>The configuration of an instrumented call\<close>

datatype usage_callback = Token_callback | Metrics_callback

definition gateway_v2_token_callback_config :: "bool \<Rightarrow> usage_callback list option" where
  "gateway_v2_token_callback_config in_decision = (if in_decision then Some [Token_callback] else None)"

text \<open>The configuration is its callbacks and its metadata; the one of the token callback has no metadata.\<close>

definition llm_call_config ::
  "bool \<Rightarrow> string \<Rightarrow> string \<Rightarrow> string \<Rightarrow> (string \<rightharpoonup> json) option \<Rightarrow> usage_callback list \<times> (string \<rightharpoonup> json)" where
  "llm_call_config in_decision flow node model_type metadata =
     (let callbacks = (case gateway_v2_token_callback_config in_decision of None \<Rightarrow> [] | Some cs \<Rightarrow> cs);
          callbacks = (if Metrics_callback \<in> set callbacks then callbacks else callbacks @ [Metrics_callback]);
          merged = (case metadata of None \<Rightarrow> Map.empty | Some m \<Rightarrow> m) in
      (callbacks, merged(''flow'' \<mapsto> JStr flow, ''node'' \<mapsto> JStr node, ''model_type'' \<mapsto> JStr model_type)))"

text \<open>
  A call keeps both callbacks inside a decision and the metrics outside one, and the metadata of the caller
  cannot displace the labels.
\<close>

lemma instrumented_call:
  "fst (llm_call_config in_decision flow node model_type metadata) =
     (if in_decision then [Token_callback] else []) @ [Metrics_callback]"
  "snd (llm_call_config in_decision flow node model_type metadata) ''flow'' = Some (JStr flow)"
  "snd (llm_call_config in_decision flow node model_type metadata) ''node'' = Some (JStr node)"
  "snd (llm_call_config in_decision flow node model_type metadata) ''model_type'' = Some (JStr model_type)"
  by (simp_all add: llm_call_config_def gateway_v2_token_callback_config_def)

end
