(* ===== verification/RuntimeMetrics.thy ===== *)
theory RuntimeMetrics
  imports Complex_Main AdmissionLimiter
begin

text \<open>
  The metrics of the running workers (\<open>runtime_metrics.py\<close>): latency histograms with fixed buckets and their
  percentiles, the gauges and counters of the workers, and the log line of a snapshot.  A finite \<open>float\<close> is
  a \<open>rat\<close>.  An operation returns the error it raises, if any, and the state it leaves.
\<close>

section \<open>Latency histograms\<close>

definition latency_buckets_ms :: "rat list" where
  "latency_buckets_ms = [10, 25, 50, 100, 250, 500, 1000, 2500, 5000, 10000, 20000, 30000, 45000, 60000, 120000, 300000]"

record latency_histogram =
  lh_counts :: "nat list"
  lh_overflow :: nat
  lh_count :: nat
  lh_max :: rat

definition new_histogram :: latency_histogram where
  "new_histogram = \<lparr>lh_counts = map (\<lambda>_. 0) latency_buckets_ms, lh_overflow = 0, lh_count = 0, lh_max = 0\<rparr>"

text \<open>The loop of \<open>observe\<close>: the first bucket that holds the value, \<open>None\<close> when none does.\<close>

fun count_bucket :: "rat \<Rightarrow> rat list \<Rightarrow> nat list \<Rightarrow> nat list option" where
  "count_bucket x (b # bs) (c # cs) = (if x \<le> b then Some (Suc c # cs) else map_option (\<lambda>cs. c # cs) (count_bucket x bs cs))"
| "count_bucket x _ _ = None"

definition observe :: "rat \<Rightarrow> latency_histogram \<Rightarrow> string option \<times> latency_histogram" where
  "observe x h =
     (if x < 0 then (Some ''elapsed_ms must be finite and non-negative'', h)
      else
        (let h = h\<lparr>lh_count := lh_count h + 1, lh_max := max (lh_max h) x\<rparr> in
         case count_bucket x latency_buckets_ms (lh_counts h) of
           Some cs \<Rightarrow> (None, h\<lparr>lh_counts := cs\<rparr>)
         | None \<Rightarrow> (None, h\<lparr>lh_overflow := lh_overflow h + 1\<rparr>)))"

text \<open>
  The target of a percentile.  The product with the \<open>float\<close> nearest to 0.5, 0.95 or 0.99 is rounded to the
  exact product when that is a whole number, and otherwise stays on its side of the whole numbers, for every
  count below \<open>2 ^ 40\<close>.
\<close>

definition percentile_target :: "rat \<Rightarrow> nat \<Rightarrow> nat" where
  "percentile_target p n = nat \<lceil>of_nat n * p\<rceil>"

fun reach_target :: "nat \<Rightarrow> nat \<Rightarrow> rat list \<Rightarrow> nat list \<Rightarrow> rat option" where
  "reach_target target seen (b # bs) (c # cs) =
     (if target \<le> seen + c then Some b else reach_target target (seen + c) bs cs)"
| "reach_target target seen _ _ = None"

definition percentile :: "rat \<Rightarrow> latency_histogram \<Rightarrow> rat" where
  "percentile p h =
     (if lh_count h = 0 then 0
      else case reach_target (percentile_target p (lh_count h)) 0 latency_buckets_ms (lh_counts h) of
        Some b \<Rightarrow> b | None \<Rightarrow> lh_max h)"

record latency_snapshot =
  ls_count :: nat
  ls_p50 :: rat
  ls_p95 :: rat
  ls_p99 :: rat
  ls_max :: rat

definition latency_snapshot_of :: "latency_histogram \<Rightarrow> latency_snapshot" where
  "latency_snapshot_of h = \<lparr>ls_count = lh_count h, ls_p50 = percentile (1 / 2) h, ls_p95 = percentile (19 / 20) h,
     ls_p99 = percentile (99 / 100) h, ls_max = lh_max h\<rparr>"

subsection \<open>What the buckets and the percentiles are\<close>

text \<open>The buckets of a list of values, from the definition: how many values are at most a bound and above the one before.\<close>

fun buckets :: "rat list \<Rightarrow> rat list \<Rightarrow> nat list" where
  "buckets [] xs = []"
| "buckets (b # bs) xs = length (filter (\<lambda>x. x \<le> b) xs) # buckets bs (filter (\<lambda>x. \<not> x \<le> b) xs)"

definition at_most :: "rat \<Rightarrow> rat list \<Rightarrow> nat" where
  "at_most b xs = length (filter (\<lambda>x. x \<le> b) xs)"

lemma count_bucket_buckets:
  "(case count_bucket x bs (buckets bs xs) of Some cs \<Rightarrow> cs | None \<Rightarrow> buckets bs xs) = buckets bs (xs @ [x])"
proof (induction bs arbitrary: xs)
  case (Cons b bs)
  show ?case using Cons[of "filter (\<lambda>x. \<not> x \<le> b) xs"] by (auto split: option.splits)
qed simp

lemma at_most_split:
  assumes "b \<le> p"
  shows "at_most p xs = at_most b xs + at_most p (filter (\<lambda>x. \<not> x \<le> b) xs)"
  using assms by (induction xs) (auto simp: at_most_def)

text \<open>A reached bound is the least bound of the buckets with as many values at most it as the target asks for.\<close>

lemma reach_target_least:
  assumes "sorted_wrt (<) bs"
  shows "(case reach_target t seen bs (buckets bs xs) of
      Some p \<Rightarrow> p \<in> set bs \<and> t \<le> seen + at_most p xs \<and> (\<forall>b \<in> set bs. b < p \<longrightarrow> seen + at_most b xs < t)
    | None \<Rightarrow> \<forall>b \<in> set bs. seen + at_most b xs < t)"
  using assms
proof (induction bs arbitrary: seen xs)
  case (Cons b bs)
  let ?ys = "filter (\<lambda>x. \<not> x \<le> b) xs"
  have above: "\<forall>q \<in> set bs. b < q" and s: "sorted_wrt (<) bs" using Cons.prems by simp_all
  have at_split: "at_most q xs = at_most b xs + at_most q ?ys" if "q \<in> set bs" for q
    using above that by (intro at_most_split) auto
  show ?case
  proof (cases "t \<le> seen + at_most b xs")
    case True
    with above show ?thesis by (auto simp: at_most_def)
  next
    case False
    show ?thesis
    proof (cases "reach_target t (seen + at_most b xs) bs (buckets bs ?ys)")
      case None
      with Cons.IH[OF s, of "seen + at_most b xs" ?ys] False at_split show ?thesis
        by (simp add: at_most_def[symmetric] add.assoc)
    next
      case (Some p)
      with Cons.IH[OF s, of "seen + at_most b xs" ?ys] False at_split show ?thesis
        by (simp add: at_most_def[symmetric] add.assoc)
    qed
  qed
qed simp

definition holds_values :: "rat list \<Rightarrow> latency_histogram \<Rightarrow> bool" where
  "holds_values xs h \<longleftrightarrow>
     lh_counts h = buckets latency_buckets_ms xs \<and> lh_count h = length xs
     \<and> (\<forall>x \<in> set xs. x \<le> lh_max h) \<and> lh_overflow h + sum_list (lh_counts h) = length xs"

lemma holds_values_new: "holds_values [] new_histogram"
  by (simp add: holds_values_def new_histogram_def latency_buckets_ms_def)

lemma sum_count_bucket: "count_bucket x bs cs = Some ds \<Longrightarrow> sum_list ds = Suc (sum_list cs)"
  by (induction x bs cs arbitrary: ds rule: count_bucket.induct) (auto split: if_splits)

lemma holds_values_observe:
  assumes "holds_values xs h" and "0 \<le> x"
  shows "fst (observe x h) = None \<and> holds_values (xs @ [x]) (snd (observe x h))"
  using assms count_bucket_buckets[where x = x and xs = xs and bs = latency_buckets_ms]
    sum_count_bucket[where x = x and bs = latency_buckets_ms and cs = "lh_counts h"]
  by (auto simp: observe_def holds_values_def Let_def split: option.splits)

lemma holds_values_fold:
  "\<forall>x \<in> set xs. 0 \<le> x \<Longrightarrow> holds_values xs (fold (\<lambda>x h. snd (observe x h)) xs new_histogram)"
  by (induction xs rule: rev_induct) (simp_all add: holds_values_new holds_values_observe)

lemma buckets_increase: "sorted_wrt (<) latency_buckets_ms"
  by (simp add: latency_buckets_ms_def)

lemma target_within:
  assumes "0 < p" and "p \<le> 1" and "0 < n"
  shows "percentile_target p n \<le> n"
proof -
  have "of_nat n * p \<le> of_nat n" using assms by (simp add: mult_left_le)
  then show ?thesis by (simp add: percentile_target_def nat_le_iff ceiling_le_iff)
qed

text \<open>
  A percentile of the observed latencies is an upper estimate from the buckets: at least the target
  number of the observations are at most it, and no smaller bucket bound has that property, so it is the
  least bucket bound above the true percentile, or the maximum when that is beyond the last bucket.
\<close>

theorem percentile_is_bucket_of_quantile:
  assumes "\<forall>x \<in> set xs. 0 \<le> x" and "xs \<noteq> []" and "0 < p" and "p \<le> 1"
    and "h = fold (\<lambda>x h. snd (observe x h)) xs new_histogram"
  shows "percentile_target p (length xs) \<le> at_most (percentile p h) xs
    \<and> (percentile p h \<in> set latency_buckets_ms \<or> percentile p h = lh_max h)
    \<and> (\<forall>b \<in> set latency_buckets_ms. b < percentile p h \<longrightarrow> at_most b xs < percentile_target p (length xs))"
proof -
  have h: "holds_values xs h" using holds_values_fold assms by blast
  let ?t = "percentile_target p (length xs)"
  have reach: "reach_target (percentile_target p (lh_count h)) 0 latency_buckets_ms (lh_counts h)
      = reach_target ?t 0 latency_buckets_ms (buckets latency_buckets_ms xs)" and n: "lh_count h \<noteq> 0"
    using h assms(2) by (simp_all add: holds_values_def)
  note least = reach_target_least[OF buckets_increase, where t = ?t and seen = 0 and xs = xs]
  show ?thesis
  proof (cases "reach_target ?t 0 latency_buckets_ms (buckets latency_buckets_ms xs)")
    case None
    have "at_most (lh_max h) xs = length xs" using h by (simp add: at_most_def holds_values_def)
    with None n reach least target_within[of p "length xs"] assms show ?thesis by (simp add: percentile_def)
  next
    case (Some v)
    with n reach least show ?thesis by (simp add: percentile_def)
  qed
qed

lemma percentile_is_bucket_of_quantile_witness:
  "2 \<le> at_most (percentile (1 / 2) (fold (\<lambda>x h. snd (observe x h)) [7, 30, 400000] new_histogram)) [7, 30, 400000]"
proof -
  have "\<lceil>3 / 2 :: rat\<rceil> = 2" by (rule ceiling_unique) simp_all
  then have "percentile_target (1 / 2) (length [7, 30, 400000 :: rat]) = 2"
    by (simp add: percentile_target_def)
  then show ?thesis
    using percentile_is_bucket_of_quantile[of "[7, 30, 400000]" "1 / 2", OF _ _ _ _ refl] by simp
qed

section \<open>The metrics of the workers\<close>

text \<open>The dictionaries are association lists.\<close>

record runtime_metrics =
  mx_worker_limit :: "(string \<times> int) list"
  mx_worker_active :: "(string \<times> int) list"
  mx_queue_depth :: "(string \<times> int) list"
  mx_oldest_age_seconds :: "(string \<times> rat) list"
  mx_dead_letters :: "(string \<times> int) list"
  mx_agent_outcomes :: "(string \<times> int) list"
  mx_callback_outcomes :: "(string \<times> int) list"
  mx_agent_latency :: latency_histogram
  mx_callback_latency :: latency_histogram
  mx_event_ack_latency :: latency_histogram
  mx_event_admission_outcomes :: "(string \<times> int) list"
  mx_event_admission_latency :: latency_histogram
  mx_superseded :: int
  mx_activity_capacity_reserved :: "(string \<times> int) list"
  mx_activity_capacity_full :: "(string \<times> int) list"

definition new_metrics :: "(string \<times> int) list \<Rightarrow> string + runtime_metrics" where
  "new_metrics limits =
     (if limits = [] \<or> (\<exists>(name, limit) \<in> set limits. name = [] \<or> limit \<le> 0)
      then Inl ''worker_limits must contain positive limits''
      else (let zeros = map (\<lambda>(name, _). (name, 0)) limits in
        Inr \<lparr>mx_worker_limit = limits, mx_worker_active = zeros, mx_queue_depth = zeros,
          mx_oldest_age_seconds = map (\<lambda>(name, _). (name, 0)) limits, mx_dead_letters = zeros,
          mx_agent_outcomes = [], mx_callback_outcomes = [], mx_agent_latency = new_histogram,
          mx_callback_latency = new_histogram, mx_event_ack_latency = new_histogram, mx_event_admission_outcomes = [],
          mx_event_admission_latency = new_histogram, mx_superseded = 0, mx_activity_capacity_reserved = [],
          mx_activity_capacity_full = []\<rparr>))"

definition metric_of :: "(string \<times> 'a::zero) list \<Rightarrow> string \<Rightarrow> 'a" where
  "metric_of d k = (case map_of d k of None \<Rightarrow> 0 | Some n \<Rightarrow> n)"

definition count_up :: "string \<Rightarrow> (string \<times> int) list \<Rightarrow> (string \<times> int) list" where
  "count_up k d = put k (metric_of d k + 1) d"

type_synonym metrics_op = "runtime_metrics \<Rightarrow> string option \<times> runtime_metrics"

definition require_worker :: "string \<Rightarrow> metrics_op \<Rightarrow> metrics_op" where
  "require_worker w f m = (if map_of (mx_worker_limit m) w = None then (Some (''unknown worker type: '' @ w), m) else f m)"

definition task_started :: "string \<Rightarrow> metrics_op" where
  "task_started w = require_worker w (\<lambda>m.
     if metric_of (mx_worker_limit m) w \<le> metric_of (mx_worker_active m) w
     then (Some (w @ '' worker active count exceeds configured limit''), m)
     else (None, m\<lparr>mx_worker_active := put w (metric_of (mx_worker_active m) w + 1) (mx_worker_active m)\<rparr>))"

definition task_finished :: "string \<Rightarrow> metrics_op" where
  "task_finished w = require_worker w (\<lambda>m.
     if metric_of (mx_worker_active m) w \<le> 0 then (Some (w @ '' worker active count is already zero''), m)
     else (None, m\<lparr>mx_worker_active := put w (metric_of (mx_worker_active m) w - 1) (mx_worker_active m)\<rparr>))"

text \<open>A \<open>QueueMetrics\<close> is refused before it reaches the metrics.\<close>

definition set_queue :: "string \<Rightarrow> int \<Rightarrow> rat \<Rightarrow> metrics_op" where
  "set_queue w depth age m =
     (if depth < 0 \<or> age < 0 then (Some ''queue metrics must be non-negative'', m)
      else require_worker w (\<lambda>m. (None, m\<lparr>mx_queue_depth := put w depth (mx_queue_depth m),
        mx_oldest_age_seconds := put w age (mx_oldest_age_seconds m)\<rparr>)) m)"

definition set_dead_letters :: "string \<Rightarrow> int \<Rightarrow> metrics_op" where
  "set_dead_letters w n m =
     (if n < 0 then (Some ''dead letter count must be non-negative'', m)
      else require_worker w (\<lambda>m. (None, m\<lparr>mx_dead_letters := put w n (mx_dead_letters m)\<rparr>)) m)"

definition record_agent_result :: "string \<Rightarrow> rat \<Rightarrow> metrics_op" where
  "record_agent_result outcome ms m =
     (if outcome = [] then (Some ''outcome must not be empty'', m)
      else (let m = m\<lparr>mx_agent_outcomes := count_up outcome (mx_agent_outcomes m)\<rparr>;
                (err, h) = observe ms (mx_agent_latency m) in
        (err, m\<lparr>mx_agent_latency := h\<rparr>)))"

definition record_callback_result :: "string \<Rightarrow> rat \<Rightarrow> metrics_op" where
  "record_callback_result outcome ms m =
     (if outcome = [] then (Some ''outcome must not be empty'', m)
      else (let m = m\<lparr>mx_callback_outcomes := count_up outcome (mx_callback_outcomes m)\<rparr>;
                (err, h) = observe ms (mx_callback_latency m) in
        (err, m\<lparr>mx_callback_latency := h\<rparr>)))"

definition record_event_ack :: "rat \<Rightarrow> metrics_op" where
  "record_event_ack ms m = (let (err, h) = observe ms (mx_event_ack_latency m) in (err, m\<lparr>mx_event_ack_latency := h\<rparr>))"

definition record_event_admission :: "string \<Rightarrow> rat \<Rightarrow> metrics_op" where
  "record_event_admission outcome ms m =
     (if outcome = [] then (Some ''outcome must not be empty'', m)
      else (let m = m\<lparr>mx_event_admission_outcomes := count_up outcome (mx_event_admission_outcomes m)\<rparr>;
                (err, h) = observe ms (mx_event_admission_latency m) in
        (err, m\<lparr>mx_event_admission_latency := h\<rparr>)))"

definition record_decision_superseded :: "int \<Rightarrow> metrics_op" where
  "record_decision_superseded n m =
     (if n \<le> 0 then (Some ''superseded count must be positive'', m) else (None, m\<lparr>mx_superseded := mx_superseded m + n\<rparr>))"

definition record_activity_capacity_reserved :: "string \<Rightarrow> metrics_op" where
  "record_activity_capacity_reserved skill m =
     (if py_strip skill = [] then (Some ''skill_name must not be empty'', m)
      else (None, m\<lparr>mx_activity_capacity_reserved := count_up (py_strip skill) (mx_activity_capacity_reserved m)\<rparr>))"

definition record_activity_capacity_full :: "string \<Rightarrow> metrics_op" where
  "record_activity_capacity_full skill m =
     (if py_strip skill = [] then (Some ''skill_name must not be empty'', m)
      else (None, m\<lparr>mx_activity_capacity_full := count_up (py_strip skill) (mx_activity_capacity_full m)\<rparr>))"

subsection \<open>The active tasks stay within the limits\<close>

definition active_within_limits :: "runtime_metrics \<Rightarrow> bool" where
  "active_within_limits m \<longleftrightarrow>
     (\<forall>w. 0 \<le> metric_of (mx_worker_active m) w \<and> metric_of (mx_worker_active m) w \<le> metric_of (mx_worker_limit m) w)"

lemma metric_of_put [simp]: "metric_of (put k n d) j = (if j = k then n else metric_of d j)"
  by (simp add: metric_of_def)

lemma metric_of_zeros: "metric_of (map (\<lambda>(name, _). (name, 0)) d) w = 0"
  by (induction d) (auto simp: metric_of_def)

lemma metric_of_positive: "\<forall>(name, limit) \<in> set d. 0 < limit \<Longrightarrow> 0 \<le> metric_of d w" for d :: "(string \<times> int) list"
  by (fastforce simp: metric_of_def dest!: map_of_SomeD split: option.split)

lemma new_metrics_within: "new_metrics limits = Inr m \<Longrightarrow> active_within_limits m"
  using metric_of_positive[of limits]
  by (fastforce simp: new_metrics_def active_within_limits_def metric_of_zeros Let_def split: if_splits)

lemma task_metrics_within:
  assumes "active_within_limits m"
  shows "active_within_limits (snd (task_started w m))" and "active_within_limits (snd (task_finished w m))"
proof -
  have "metric_of (mx_worker_active m) w \<le> metric_of (mx_worker_limit m) w"
    using assms by (simp add: active_within_limits_def)
  then have "metric_of (mx_worker_active m) w - 1 \<le> metric_of (mx_worker_limit m) w" by linarith
  with assms show "active_within_limits (snd (task_started w m))" "active_within_limits (snd (task_finished w m))"
    by (simp_all add: active_within_limits_def task_started_def task_finished_def require_worker_def)
qed

section \<open>The log line of a snapshot\<close>

record metrics_snapshot =
  sn_worker_active :: "(string \<times> int) list"
  sn_worker_limit :: "(string \<times> int) list"
  sn_queue_depth :: "(string \<times> int) list"
  sn_oldest_age_seconds :: "(string \<times> rat) list"
  sn_dead_letters :: "(string \<times> int) list"
  sn_agent_outcomes :: "(string \<times> int) list"
  sn_callback_outcomes :: "(string \<times> int) list"
  sn_agent_latency :: latency_snapshot
  sn_callback_latency :: latency_snapshot
  sn_event_ack_latency :: latency_snapshot
  sn_event_admission_outcomes :: "(string \<times> int) list"
  sn_event_admission_latency :: latency_snapshot
  sn_superseded :: int
  sn_activity_capacity_reserved :: "(string \<times> int) list"
  sn_activity_capacity_full :: "(string \<times> int) list"

definition metrics_snapshot_of :: "runtime_metrics \<Rightarrow> metrics_snapshot" where
  "metrics_snapshot_of m = \<lparr>sn_worker_active = mx_worker_active m, sn_worker_limit = mx_worker_limit m,
     sn_queue_depth = mx_queue_depth m, sn_oldest_age_seconds = mx_oldest_age_seconds m,
     sn_dead_letters = mx_dead_letters m, sn_agent_outcomes = mx_agent_outcomes m,
     sn_callback_outcomes = mx_callback_outcomes m, sn_agent_latency = latency_snapshot_of (mx_agent_latency m),
     sn_callback_latency = latency_snapshot_of (mx_callback_latency m),
     sn_event_ack_latency = latency_snapshot_of (mx_event_ack_latency m),
     sn_event_admission_outcomes = mx_event_admission_outcomes m,
     sn_event_admission_latency = latency_snapshot_of (mx_event_admission_latency m), sn_superseded = mx_superseded m,
     sn_activity_capacity_reserved = mx_activity_capacity_reserved m,
     sn_activity_capacity_full = mx_activity_capacity_full m\<rparr>"

text \<open>A counter of skills is logged as JSON with sorted keys: its text is that of the map.\<close>

datatype log_value = Log_int int | Log_float rat | Log_counts "string \<rightharpoonup> int"

definition log_fields :: "metrics_snapshot \<Rightarrow> pool_snapshot \<Rightarrow> (string \<times> log_value) list" where
  "log_fields s c =
     [(''gateway_event_inbox_depth'', Log_int (metric_of (sn_worker_active s) ''event'')),
      (''gateway_event_oldest_age_seconds'', Log_float (metric_of (sn_oldest_age_seconds s) ''event'')),
      (''gateway_event_worker_active'', Log_int (metric_of (sn_worker_active s) ''event'')),
      (''gateway_event_worker_limit'', Log_int (metric_of (sn_worker_limit s) ''event'')),
      (''gateway_event_dead_letter_total'', Log_int (metric_of (sn_dead_letters s) ''event'')),
      (''gateway_event_ack_calls'', Log_int (int (ls_count (sn_event_ack_latency s)))),
      (''gateway_event_ack_p50_ms'', Log_float (ls_p50 (sn_event_ack_latency s))),
      (''gateway_event_ack_p95_ms'', Log_float (ls_p95 (sn_event_ack_latency s))),
      (''gateway_event_ack_p99_ms'', Log_float (ls_p99 (sn_event_ack_latency s))),
      (''gateway_event_ack_max_ms'', Log_float (ls_max (sn_event_ack_latency s))),
      (''gateway_event_admission_calls'', Log_int (int (ls_count (sn_event_admission_latency s)))),
      (''gateway_event_admission_p50_ms'', Log_float (ls_p50 (sn_event_admission_latency s))),
      (''gateway_event_admission_p95_ms'', Log_float (ls_p95 (sn_event_admission_latency s))),
      (''gateway_event_admission_p99_ms'', Log_float (ls_p99 (sn_event_admission_latency s))),
      (''gateway_event_admission_max_ms'', Log_float (ls_max (sn_event_admission_latency s))),
      (''gateway_event_admission_accepted'', Log_int (metric_of (sn_event_admission_outcomes s) ''accepted'')),
      (''gateway_event_admission_unavailable'', Log_int (metric_of (sn_event_admission_outcomes s) ''unavailable'')),
      (''gateway_event_admission_conflict'', Log_int (metric_of (sn_event_admission_outcomes s) ''conflict'')),
      (''gateway_event_admission_invalid'', Log_int (metric_of (sn_event_admission_outcomes s) ''invalid'')),
      (''gateway_event_admission_error'', Log_int (metric_of (sn_event_admission_outcomes s) ''error'')),
      (''event_worker_active'', Log_int (metric_of (sn_worker_active s) ''event'')),
      (''event_worker_limit'', Log_int (metric_of (sn_worker_limit s) ''event'')),
      (''event_queue_depth'', Log_int (metric_of (sn_queue_depth s) ''event'')),
      (''event_oldest_age_seconds'', Log_float (metric_of (sn_oldest_age_seconds s) ''event'')),
      (''event_dead_letters'', Log_int (metric_of (sn_dead_letters s) ''event'')),
      (''decision_queue_depth'', Log_int (metric_of (sn_queue_depth s) ''decision'')),
      (''decision_oldest_age_seconds'', Log_float (metric_of (sn_oldest_age_seconds s) ''decision'')),
      (''decision_inflight'', Log_int (metric_of (sn_worker_active s) ''decision'')),
      (''decision_worker_limit'', Log_int (metric_of (sn_worker_limit s) ''decision'')),
      (''decision_dead_letter_total'', Log_int (metric_of (sn_dead_letters s) ''decision'')),
      (''decision_agent_calls'', Log_int (int (ls_count (sn_agent_latency s)))),
      (''decision_agent_p50_ms'', Log_float (ls_p50 (sn_agent_latency s))),
      (''decision_agent_p95_ms'', Log_float (ls_p95 (sn_agent_latency s))),
      (''decision_agent_p99_ms'', Log_float (ls_p99 (sn_agent_latency s))),
      (''decision_agent_max_ms'', Log_float (ls_max (sn_agent_latency s))),
      (''decision_callback_calls'', Log_int (int (ls_count (sn_callback_latency s)))),
      (''decision_callback_p50_ms'', Log_float (ls_p50 (sn_callback_latency s))),
      (''decision_callback_p95_ms'', Log_float (ls_p95 (sn_callback_latency s))),
      (''decision_callback_p99_ms'', Log_float (ls_p99 (sn_callback_latency s))),
      (''decision_callback_max_ms'', Log_float (ls_max (sn_callback_latency s))),
      (''decision_superseded_total'', Log_int (sn_superseded s)),
      (''decision_worker_active'', Log_int (metric_of (sn_worker_active s) ''decision'')),
      (''decision_worker_limit'', Log_int (metric_of (sn_worker_limit s) ''decision'')),
      (''decision_queue_depth'', Log_int (metric_of (sn_queue_depth s) ''decision'')),
      (''decision_oldest_age_seconds'', Log_float (metric_of (sn_oldest_age_seconds s) ''decision'')),
      (''decision_dead_letters'', Log_int (metric_of (sn_dead_letters s) ''decision'')),
      (''agent_active'', Log_int (cs_active c)), (''agent_limit'', Log_int (cs_limit c)),
      (''agent_waiting'', Log_int (cs_waiting c)), (''agent_rejected_total'', Log_int (cs_rejected c)),
      (''agent_calls'', Log_int (int (ls_count (sn_agent_latency s)))),
      (''agent_p50_ms'', Log_float (ls_p50 (sn_agent_latency s))),
      (''agent_p95_ms'', Log_float (ls_p95 (sn_agent_latency s))),
      (''agent_p99_ms'', Log_float (ls_p99 (sn_agent_latency s))),
      (''agent_max_ms'', Log_float (ls_max (sn_agent_latency s))),
      (''callback_calls'', Log_int (int (ls_count (sn_callback_latency s)))),
      (''callback_p50_ms'', Log_float (ls_p50 (sn_callback_latency s))),
      (''callback_p95_ms'', Log_float (ls_p95 (sn_callback_latency s))),
      (''callback_p99_ms'', Log_float (ls_p99 (sn_callback_latency s))),
      (''callback_max_ms'', Log_float (ls_max (sn_callback_latency s))),
      (''agent_success'', Log_int (metric_of (sn_agent_outcomes s) ''success'')),
      (''agent_timeout'', Log_int (metric_of (sn_agent_outcomes s) ''timeout'')),
      (''agent_overloaded'', Log_int (metric_of (sn_agent_outcomes s) ''overloaded'')),
      (''agent_error'', Log_int (metric_of (sn_agent_outcomes s) ''error'')),
      (''callback_accepted'', Log_int (metric_of (sn_callback_outcomes s) ''accepted'')),
      (''callback_transport_error'', Log_int (metric_of (sn_callback_outcomes s) ''transport_error'')),
      (''callback_protocol_error'', Log_int (metric_of (sn_callback_outcomes s) ''protocol_error'')),
      (''callback_rejected_lease_not_found'', Log_int (metric_of (sn_callback_outcomes s) ''rejected_lease_not_found'')),
      (''callback_rejected_lease_expired'', Log_int (metric_of (sn_callback_outcomes s) ''rejected_lease_expired'')),
      (''callback_rejected_generation_mismatch'', Log_int (metric_of (sn_callback_outcomes s) ''rejected_generation_mismatch'')),
      (''callback_rejected_state_version_mismatch'', Log_int (metric_of (sn_callback_outcomes s) ''rejected_state_version_mismatch'')),
      (''callback_rejected_session_not_running'', Log_int (metric_of (sn_callback_outcomes s) ''rejected_session_not_running'')),
      (''callback_rejected_invalid_payload'', Log_int (metric_of (sn_callback_outcomes s) ''rejected_invalid_payload'')),
      (''callback_rejected_other'', Log_int (metric_of (sn_callback_outcomes s) ''rejected_other'')),
      (''activity_capacity_reserved_total'', Log_int (sum_list (map snd (sn_activity_capacity_reserved s)))),
      (''activity_capacity_full_total'', Log_int (sum_list (map snd (sn_activity_capacity_full s)))),
      (''activity_capacity_reserved_by_skill'', Log_counts (map_of (sn_activity_capacity_reserved s))),
      (''activity_capacity_full_by_skill'', Log_counts (map_of (sn_activity_capacity_full s)))]"

text \<open>
  The field \<open>gateway_event_inbox_depth\<close> shows the active event workers; the depth of the queue is in
  \<open>event_queue_depth\<close> only.
\<close>

lemma inbox_depth_shows_active_workers:
  "map_of (log_fields (metrics_snapshot_of m) c) ''gateway_event_inbox_depth'' =
     Some (Log_int (metric_of (mx_worker_active m) ''event''))"
  by (simp only: log_fields_def map_of.simps fst_conv snd_conv fun_upd_same metrics_snapshot_of_def metrics_snapshot.simps)

end
