(* ===== verification/Readiness.thy ===== *)
theory Readiness
  imports TaskTable
begin

text \<open>
  The state of the background workers (\<open>worker_status.py\<close>) and the readiness of the service
  (\<open>readiness.py\<close>).  Times are integers: the monotonic clock in milliseconds too.  What the probes of the
  database and of the model services come to are arguments.
\<close>

section \<open>Worker status\<close>

datatype worker_state = Wk_starting | Wk_running | Wk_draining | Wk_stopped

record worker_registry =
  wr_state :: worker_state
  wr_heartbeat :: "int option"
  wr_successful_poll :: "int option"
  wr_dead_letters :: int
  wr_poll_started :: "int option"
  wr_poll_completed :: "int option"
  wr_progress :: "int option"
  wr_database_error :: "int option"

definition new_registry :: worker_registry where
  "new_registry = \<lparr>wr_state = Wk_stopped, wr_heartbeat = None, wr_successful_poll = None, wr_dead_letters = 0,
     wr_poll_started = None, wr_poll_completed = None, wr_progress = None, wr_database_error = None\<rparr>"

text \<open>The second part says whether the callback of a state change is called.\<close>

definition set_worker_state :: "worker_state \<Rightarrow> worker_registry \<Rightarrow> worker_registry \<times> bool" where
  "set_worker_state s r = (r\<lparr>wr_state := s\<rparr>, wr_state r \<noteq> s)"

definition heartbeat :: "int \<Rightarrow> worker_registry \<Rightarrow> worker_registry" where
  "heartbeat now r = r\<lparr>wr_heartbeat := Some now\<rparr>"

definition mark_poll_started :: "int \<Rightarrow> worker_registry \<Rightarrow> worker_registry" where
  "mark_poll_started now r =
     r\<lparr>wr_poll_started := (case wr_heartbeat r of Some t \<Rightarrow> Some t | None \<Rightarrow> Some now)\<rparr>"

definition mark_poll_completed :: "worker_registry \<Rightarrow> worker_registry" where
  "mark_poll_completed r =
     r\<lparr>wr_poll_completed := (case wr_successful_poll r of Some t \<Rightarrow> Some t | None \<Rightarrow> wr_heartbeat r)\<rparr>"

definition mark_progress :: "int \<Rightarrow> worker_registry \<Rightarrow> worker_registry" where
  "mark_progress now r = r\<lparr>wr_progress := (case wr_heartbeat r of Some t \<Rightarrow> Some t | None \<Rightarrow> Some now)\<rparr>"

definition mark_database_error :: "int \<Rightarrow> worker_registry \<Rightarrow> worker_registry" where
  "mark_database_error now r = r\<lparr>wr_database_error := Some now\<rparr>"

definition mark_successful_poll :: "int \<Rightarrow> worker_registry \<Rightarrow> worker_registry" where
  "mark_successful_poll now r = r\<lparr>wr_successful_poll := Some now, wr_poll_completed := Some now\<rparr>"

definition set_dead_letter_count :: "int \<Rightarrow> worker_registry \<Rightarrow> string + worker_registry" where
  "set_dead_letter_count n r =
     (if n < 0 then Inl ''dead letter count must be non-negative'' else Inr (r\<lparr>wr_dead_letters := n\<rparr>))"

definition degraded :: "worker_registry \<Rightarrow> bool" where
  "degraded r \<longleftrightarrow> 0 < wr_dead_letters r"

section \<open>Checks\<close>

datatype check_status = Ck_ready | Ck_not_ready | Ck_disabled

record readiness_check =
  rc_status :: check_status
  rc_category :: string
  rc_checked_at :: int

record readiness_snapshot =
  rs_ready :: bool
  rs_checks :: "(string \<times> readiness_check) list"

text \<open>A probe returns, times out, raises a \<open>ReadinessProbeError\<close> with its category or another exception.\<close>

datatype probe_outcome = Probe_ok | Probe_timeout | Probe_category string | Probe_exception

definition run_probe :: "probe_outcome \<Rightarrow> string \<Rightarrow> int \<Rightarrow> readiness_check" where
  "run_probe out failure at =
     (case out of
        Probe_ok \<Rightarrow> \<lparr>rc_status = Ck_ready, rc_category = ''ok'', rc_checked_at = at\<rparr>
      | Probe_timeout \<Rightarrow> \<lparr>rc_status = Ck_not_ready, rc_category = ''timeout'', rc_checked_at = at\<rparr>
      | Probe_category c \<Rightarrow> \<lparr>rc_status = Ck_not_ready, rc_category = c, rc_checked_at = at\<rparr>
      | Probe_exception \<Rightarrow> \<lparr>rc_status = Ck_not_ready, rc_category = failure, rc_checked_at = at\<rparr>)"

definition run_optional_probe :: "bool \<Rightarrow> probe_outcome \<Rightarrow> string \<Rightarrow> int \<Rightarrow> readiness_check" where
  "run_optional_probe enabled out failure at =
     (if enabled then run_probe out failure at
      else \<lparr>rc_status = Ck_disabled, rc_category = ''skipped'', rc_checked_at = at\<rparr>)"

record readiness_config =
  rg_v2 :: bool
  rg_embedding :: bool
  rg_rerank :: bool
  rg_fresh_ms :: int
  rg_cache_ms :: int

definition readiness_config_of :: "bool \<Rightarrow> bool \<Rightarrow> bool \<Rightarrow> int \<Rightarrow> int \<Rightarrow> int \<Rightarrow> string + readiness_config" where
  "readiness_config_of v2 embedding rerank poll_ms timeout_ms cache_ms =
     (if poll_ms \<le> 0 then Inl ''poll_interval_ms must be positive''
      else if timeout_ms \<le> 0 then Inl ''timeout_seconds must be positive''
      else if cache_ms < 0 then Inl ''cache_seconds must be non-negative''
      else Inr \<lparr>rg_v2 = v2, rg_embedding = embedding, rg_rerank = rerank, rg_fresh_ms = max (3 * poll_ms) 2000,
        rg_cache_ms = cache_ms\<rparr>)"

definition check_worker :: "readiness_config \<Rightarrow> int \<Rightarrow> worker_registry \<Rightarrow> int \<Rightarrow> readiness_check" where
  "check_worker cfg clock r at =
     (let check = (\<lambda>s c. \<lparr>rc_status = s, rc_category = c, rc_checked_at = at\<rparr>) in
      if \<not> rg_v2 cfg then check Ck_disabled ''skipped''
      else if wr_state r \<noteq> Wk_running then check Ck_not_ready ''worker_not_running''
      else case wr_heartbeat r of
        None \<Rightarrow> check Ck_not_ready ''heartbeat_missing''
      | Some t \<Rightarrow>
          if rg_fresh_ms cfg < clock - t then check Ck_not_ready ''heartbeat_stale''
          else check Ck_ready (if degraded r then ''degraded'' else ''ok''))"

record probe_outcomes =
  po_database :: probe_outcome
  po_embedding :: probe_outcome
  po_rerank :: probe_outcome

text \<open>\<open>enabled\<close> is read when the probe starts, the workers when the probes of the services are over.\<close>

definition probe_snapshot ::
  "readiness_config \<Rightarrow> bool \<Rightarrow> int \<Rightarrow> probe_outcomes \<Rightarrow> int \<Rightarrow> worker_registry \<Rightarrow> worker_registry \<Rightarrow> readiness_snapshot" where
  "probe_snapshot cfg enabled at po clock events decisions =
     (if \<not> enabled then
        (let c = \<lparr>rc_status = Ck_not_ready, rc_category = ''service_unavailable'', rc_checked_at = at\<rparr> in
         \<lparr>rs_ready = False, rs_checks = [(''database'', c), (''eventWorker'', c), (''decisionWorker'', c),
            (''embedding'', c), (''rerank'', c)]\<rparr>)
      else
        (let checks =
           [(''database'', run_probe (po_database po) ''database_unavailable'' at),
            (''eventWorker'', check_worker cfg clock events at),
            (''decisionWorker'', check_worker cfg clock decisions at),
            (''embedding'', run_optional_probe (rg_embedding cfg) (po_embedding po) ''embedding_unavailable'' at),
            (''rerank'', run_optional_probe (rg_rerank cfg) (po_rerank po) ''rerank_unavailable'' at)] in
         \<lparr>rs_ready = (\<forall>(_, c) \<in> set checks. rc_status c \<noteq> Ck_not_ready), rs_checks = checks\<rparr>))"

definition fresh_worker :: "readiness_config \<Rightarrow> int \<Rightarrow> worker_registry \<Rightarrow> bool" where
  "fresh_worker cfg clock r \<longleftrightarrow>
     wr_state r = Wk_running \<and> (\<exists>t. wr_heartbeat r = Some t \<and> clock - t \<le> rg_fresh_ms cfg)"

lemma run_probe_ready: "rc_status (run_probe out f at) \<noteq> Ck_not_ready \<longleftrightarrow> out = Probe_ok"
  by (cases out) (simp_all add: run_probe_def)

lemma check_worker_ready:
  "rc_status (check_worker cfg clock r at) \<noteq> Ck_not_ready \<longleftrightarrow> (rg_v2 cfg \<longrightarrow> fresh_worker cfg clock r)"
  by (auto simp: check_worker_def fresh_worker_def Let_def split: option.split)

lemma checked_at:
  "rc_checked_at (run_probe out f at) = at" "rc_checked_at (run_optional_probe e out f at) = at"
  "rc_checked_at (check_worker cfg clock r at) = at"
  by (auto simp: run_probe_def run_optional_probe_def check_worker_def Let_def split: probe_outcome.split option.split)

text \<open>
  The service is ready just when it is enabled, the database answered, every enabled model service
  answered, and, with the gateway enabled, both workers run and their heartbeats are fresh; and the answer
  names all five checks, each with the time the probe began.
\<close>

theorem ready_iff_all_checks_pass:
  "rs_ready (probe_snapshot cfg enabled at po clock events decisions) =
     (enabled \<and> po_database po = Probe_ok
      \<and> po_embedding po \<in> (if rg_embedding cfg then {Probe_ok} else UNIV)
      \<and> po_rerank po \<in> (if rg_rerank cfg then {Probe_ok} else UNIV)
      \<and> (if rg_v2 cfg then fresh_worker cfg clock events \<and> fresh_worker cfg clock decisions else True))
   \<and> map fst (rs_checks (probe_snapshot cfg enabled at po clock events decisions)) =
       [''database'', ''eventWorker'', ''decisionWorker'', ''embedding'', ''rerank'']
   \<and> rc_checked_at ` snd ` set (rs_checks (probe_snapshot cfg enabled at po clock events decisions)) = {at}"
proof -
  have opt: "rc_status (run_optional_probe e out f at) \<noteq> Ck_not_ready \<longleftrightarrow> out \<in> (if e then {Probe_ok} else UNIV)"
    for e out f by (simp add: run_optional_probe_def run_probe_ready)
  show ?thesis
    by (auto simp: probe_snapshot_def Let_def run_probe_ready opt check_worker_ready checked_at)
qed

section \<open>The cache of the service\<close>

text \<open>
  A request waits for the lock or holds it while it probes; a probing request carries the generation and the
  time its probe began at and whether the service was enabled then.
\<close>

datatype request_phase = Waiting | Probing nat int bool

record readiness_service =
  sv_cached :: "(readiness_snapshot \<times> int) option"
  sv_generation :: nat
  sv_enabled :: bool
  sv_requests :: "(nat \<times> request_phase) list"
  sv_events :: worker_registry
  sv_decisions :: worker_registry
  sv_now_ms :: int
  sv_mono :: int

definition invalidate :: "readiness_service \<Rightarrow> readiness_service" where
  "invalidate s = s\<lparr>sv_generation := Suc (sv_generation s), sv_cached := None\<rparr>"

definition enable_service :: "readiness_service \<Rightarrow> readiness_service" where
  "enable_service s = invalidate (s\<lparr>sv_enabled := True\<rparr>)"

definition disable_service :: "readiness_service \<Rightarrow> readiness_service" where
  "disable_service s = invalidate (s\<lparr>sv_enabled := False\<rparr>)"

definition cached_snapshot :: "readiness_config \<Rightarrow> readiness_service \<Rightarrow> readiness_snapshot option" where
  "cached_snapshot cfg s =
     (case sv_cached s of
        None \<Rightarrow> None
      | Some (snap, at) \<Rightarrow> if rg_cache_ms cfg \<le> sv_mono s - at then None else Some snap)"

definition probing :: "readiness_service \<Rightarrow> nat set" where
  "probing s = {i. \<exists>g at e. map_of (sv_requests s) i = Some (Probing g at e)}"

definition probe_lock_free :: "readiness_service \<Rightarrow> bool" where
  "probe_lock_free s \<longleftrightarrow> tally (\<lambda>p. p \<noteq> Waiting) (sv_requests s) = 0"

text \<open>The steps of a request up to the next \<open>await\<close>: the answer it returns, if it ends, and the state.\<close>

definition begin_request :: "readiness_config \<Rightarrow> nat \<Rightarrow> readiness_service \<Rightarrow> readiness_snapshot option \<times> readiness_service" where
  "begin_request cfg i s =
     (case cached_snapshot cfg s of
        Some snap \<Rightarrow> (Some snap, s)
      | None \<Rightarrow> (None, s\<lparr>sv_requests := put i Waiting (sv_requests s)\<rparr>))"

definition take_lock :: "readiness_config \<Rightarrow> nat \<Rightarrow> readiness_service \<Rightarrow> readiness_snapshot option \<times> readiness_service" where
  "take_lock cfg i s =
     (case cached_snapshot cfg s of
        Some snap \<Rightarrow> (Some snap, s\<lparr>sv_requests := without i (sv_requests s)\<rparr>)
      | None \<Rightarrow> (None, s\<lparr>sv_requests := put i (Probing (sv_generation s) (sv_now_ms s) (sv_enabled s)) (sv_requests s)\<rparr>))"

definition end_probe ::
  "readiness_config \<Rightarrow> nat \<Rightarrow> nat \<Rightarrow> int \<Rightarrow> bool \<Rightarrow> probe_outcomes \<Rightarrow> readiness_service \<Rightarrow> readiness_snapshot \<times> readiness_service" where
  "end_probe cfg i g at e po s =
     (let snap = probe_snapshot cfg e at po (sv_mono s) (sv_events s) (sv_decisions s);
          s = s\<lparr>sv_requests := without i (sv_requests s)\<rparr> in
      (snap, if g = sv_generation s then s\<lparr>sv_cached := Some (snap, sv_mono s)\<rparr> else s))"

text \<open>A change of a worker's state invalidates the cache; the other marks of the workers do not.\<close>

definition worker_changed :: "worker_state \<Rightarrow> readiness_service \<Rightarrow> readiness_service" where
  "worker_changed w s =
     (let (r, changed) = set_worker_state w (sv_events s); s = s\<lparr>sv_events := r\<rparr> in if changed then invalidate s else s)"

definition decision_worker_changed :: "worker_state \<Rightarrow> readiness_service \<Rightarrow> readiness_service" where
  "decision_worker_changed w s =
     (let (r, changed) = set_worker_state w (sv_decisions s); s = s\<lparr>sv_decisions := r\<rparr> in if changed then invalidate s else s)"

definition gateway_v2_capabilities_status :: "readiness_config \<Rightarrow> readiness_service \<Rightarrow> bool \<times> string" where
  "gateway_v2_capabilities_status cfg s =
     (if \<not> rg_v2 cfg \<or> \<not> sv_enabled s then (False, ''service_unavailable'')
      else if wr_state (sv_events s) \<noteq> Wk_running then (False, ''eventWorker_not_running'')
      else if wr_state (sv_decisions s) \<noteq> Wk_running then (False, ''decisionWorker_not_running'')
      else (True, ''ok''))"

text \<open>The steps of the service, each with the answer it gives; the clocks never run backwards.\<close>

inductive service_step ::
  "readiness_config \<Rightarrow> readiness_service \<Rightarrow> readiness_snapshot option \<Rightarrow> readiness_service \<Rightarrow> bool" for cfg where
  ss_begin: "map_of (sv_requests s) i = None \<Longrightarrow> begin_request cfg i s = (answer, t) \<Longrightarrow> service_step cfg s answer t"
| ss_lock: "map_of (sv_requests s) i = Some Waiting \<Longrightarrow> probe_lock_free s \<Longrightarrow> take_lock cfg i s = (answer, t) \<Longrightarrow>
    service_step cfg s answer t"
| ss_probe: "map_of (sv_requests s) i = Some (Probing g at e) \<Longrightarrow> end_probe cfg i g at e po s = (snap, t) \<Longrightarrow>
    service_step cfg s (Some snap) t"
| ss_cancel: "map_of (sv_requests s) i = Some p \<Longrightarrow> service_step cfg s None (s\<lparr>sv_requests := without i (sv_requests s)\<rparr>)"
| ss_enable: "service_step cfg s None (enable_service s)"
| ss_disable: "service_step cfg s None (disable_service s)"
| ss_worker: "service_step cfg s None (worker_changed w s)"
| ss_decision_worker: "service_step cfg s None (decision_worker_changed w s)"
| ss_marks: "service_step cfg s None (s\<lparr>sv_events := r\<lparr>wr_state := wr_state (sv_events s)\<rparr>,
    sv_decisions := q\<lparr>wr_state := wr_state (sv_decisions s)\<rparr>\<rparr>)"
| ss_tick: "0 \<le> d \<Longrightarrow> 0 \<le> m \<Longrightarrow> service_step cfg s None (s\<lparr>sv_now_ms := sv_now_ms s + d, sv_mono := sv_mono s + m\<rparr>)"

definition new_service :: "worker_registry \<Rightarrow> worker_registry \<Rightarrow> int \<Rightarrow> int \<Rightarrow> readiness_service" where
  "new_service events decisions now clock = \<lparr>sv_cached = None, sv_generation = 0, sv_enabled = True, sv_requests = [],
     sv_events = events, sv_decisions = decisions, sv_now_ms = now, sv_mono = clock\<rparr>"

definition service_moves :: "readiness_config \<Rightarrow> readiness_service \<Rightarrow> readiness_service \<Rightarrow> bool" where
  "service_moves cfg s t \<longleftrightarrow> (\<exists>answer. service_step cfg s answer t)"

section \<open>What the cache holds\<close>

fun current_probe :: "nat \<Rightarrow> bool \<Rightarrow> request_phase \<Rightarrow> bool" where
  "current_probe G E Waiting = True"
| "current_probe G E (Probing g at e) = (g \<le> G \<and> (g = G \<longrightarrow> e = E))"

definition current_snapshot :: "readiness_config \<Rightarrow> bool \<Rightarrow> worker_state \<Rightarrow> worker_state \<Rightarrow> readiness_snapshot \<Rightarrow> bool" where
  "current_snapshot cfg E ev de snap \<longleftrightarrow>
     (rs_ready snap \<longrightarrow> E \<and> (rg_v2 cfg \<longrightarrow> ev = Wk_running \<and> de = Wk_running))"

definition requests_ok :: "(nat \<times> request_phase) list \<Rightarrow> nat \<Rightarrow> bool \<Rightarrow> bool" where
  "requests_ok rs G E \<longleftrightarrow>
     distinct (map fst rs) \<and> tally (\<lambda>p. p \<noteq> Waiting) rs \<le> 1 \<and> (\<forall>i p. map_of rs i = Some p \<longrightarrow> current_probe G E p)"

definition service_ok :: "readiness_config \<Rightarrow> readiness_service \<Rightarrow> bool" where
  "service_ok cfg s \<longleftrightarrow>
     requests_ok (sv_requests s) (sv_generation s) (sv_enabled s)
     \<and> (\<forall>snap at. sv_cached s = Some (snap, at) \<longrightarrow>
          current_snapshot cfg (sv_enabled s) (wr_state (sv_events s)) (wr_state (sv_decisions s)) snap)"

lemmas service_ops = begin_request_def take_lock_def end_probe_def enable_service_def disable_service_def invalidate_def
  worker_changed_def decision_worker_changed_def set_worker_state_def

lemma probe_is_current:
  "current_snapshot cfg e (wr_state ev) (wr_state de) (probe_snapshot cfg e at po clock ev de)"
proof -
  have "rs_ready (probe_snapshot cfg e at po clock ev de) \<Longrightarrow>
      e \<and> (rg_v2 cfg \<longrightarrow> fresh_worker cfg clock ev \<and> fresh_worker cfg clock de)"
    by (cases e) (simp_all add: probe_snapshot_def Let_def check_worker_ready)
  then show ?thesis by (auto simp: current_snapshot_def fresh_worker_def)
qed

lemma tally_without_le: "tally P (without i ts) \<le> tally P ts"
proof (induction ts)
  case (Cons t ts)
  then show ?case by (cases t) (auto simp: without_def tally_Cons add_increasing)
qed (simp add: without_def)

lemma requests_without: "requests_ok rs G E \<Longrightarrow> requests_ok (without i rs) G E"
  using tally_without_le[of "\<lambda>p. p \<noteq> Waiting" i rs] by (auto simp: requests_ok_def)

lemma requests_wait: "requests_ok rs G E \<Longrightarrow> map_of rs i = None \<Longrightarrow> requests_ok (put i Waiting rs) G E"
  by (auto simp: requests_ok_def tally_new)

lemma requests_probe:
  assumes "requests_ok rs G E" and "map_of rs i = Some Waiting" and "tally (\<lambda>p. p \<noteq> Waiting) rs = 0"
  shows "requests_ok (put i (Probing G at E) rs) G E"
  using assms by (auto simp: requests_ok_def tally_put)

lemma requests_next:
  assumes "requests_ok rs G E"
  shows "requests_ok rs (Suc G) E'"
proof -
  have "current_probe G E p \<Longrightarrow> current_probe (Suc G) E' p" for p by (cases p) auto
  with assms show ?thesis by (auto simp: requests_ok_def)
qed

lemma service_step_ok:
  assumes "service_step cfg s answer t" and "service_ok cfg s"
  shows "service_ok cfg t"
  using assms(1)
proof cases
  case (ss_begin i)
  with assms(2) show ?thesis by (auto simp: service_ops service_ok_def intro: requests_wait split: option.splits)
next
  case (ss_lock i)
  with assms(2) show ?thesis
    by (auto simp: service_ops service_ok_def probe_lock_free_def intro: requests_without requests_probe split: option.splits)
next
  case (ss_probe i g at e po snap)
  have "requests_ok (sv_requests s) (sv_generation s) (sv_enabled s)" using assms(2) by (simp add: service_ok_def)
  moreover from this ss_probe(2) have "g = sv_generation s \<longrightarrow> e = sv_enabled s"
    unfolding requests_ok_def by (metis current_probe.simps(2))
  ultimately show ?thesis
    using ss_probe(3) assms(2) probe_is_current
    by (auto simp: end_probe_def Let_def service_ok_def intro: requests_without split: if_splits)
next
  case (ss_cancel i p)
  with assms(2) show ?thesis by (simp add: service_ok_def requests_without)
qed (use assms(2) in \<open>auto simp: service_ops Let_def service_ok_def intro: requests_next\<close>)

lemma service_moves_ok: "(service_moves cfg)\<^sup>*\<^sup>* s t \<Longrightarrow> service_ok cfg s \<Longrightarrow> service_ok cfg t"
  by (induction rule: rtranclp_induct) (auto simp: service_moves_def intro: service_step_ok)

lemma new_service_ok: "service_ok cfg (new_service events decisions now clock)"
  by (simp add: service_ok_def requests_ok_def new_service_def)

text \<open>
  C14: whatever requests, probes, worker changes and switches happened, and in whichever order their steps
  ran, at most one request probes at a time, and a ready answer taken from the cache is younger than the cache
  time and true of the present: the service is enabled and, with the gateway enabled, both workers run.
\<close>

theorem cached_ready_is_current:
  assumes "(service_moves cfg)\<^sup>*\<^sup>* (new_service events decisions now clock) s"
  shows "tally (\<lambda>p. p \<noteq> Waiting) (sv_requests s) \<le> 1
    \<and> (case cached_snapshot cfg s of
         None \<Rightarrow> True
       | Some snap \<Rightarrow> rs_ready snap \<longrightarrow>
           sv_enabled s
           \<and> (rg_v2 cfg \<longrightarrow> wr_state (sv_events s) = Wk_running \<and> wr_state (sv_decisions s) = Wk_running)
           \<and> (\<exists>at. sv_cached s = Some (snap, at) \<and> sv_mono s - at < rg_cache_ms cfg))"
proof -
  have ok: "service_ok cfg s" using service_moves_ok[OF assms new_service_ok] .
  show ?thesis
  proof (cases "cached_snapshot cfg s")
    case None
    with ok show ?thesis by (simp add: service_ok_def requests_ok_def)
  next
    case (Some snap)
    then obtain at where "sv_cached s = Some (snap, at)" "sv_mono s - at < rg_cache_ms cfg"
      by (auto simp: cached_snapshot_def split: option.splits if_splits)
    with ok Some show ?thesis by (simp add: service_ok_def requests_ok_def current_snapshot_def)
  qed
qed

section \<open>An invalidated answer does not come back\<close>

fun phase_since :: "int \<Rightarrow> nat \<Rightarrow> request_phase \<Rightarrow> bool" where
  "phase_since T G Waiting = True"
| "phase_since T G (Probing g at e) = (if G \<le> g then T \<le> at else True)"

definition probed_since :: "int \<Rightarrow> nat \<Rightarrow> readiness_service \<Rightarrow> bool" where
  "probed_since T G s \<longleftrightarrow>
     G \<le> sv_generation s \<and> T \<le> sv_now_ms s
     \<and> (\<forall>i p. map_of (sv_requests s) i = Some p \<longrightarrow> phase_since T G p)
     \<and> (\<forall>snap at. sv_cached s = Some (snap, at) \<longrightarrow> (\<forall>c \<in> snd ` set (rs_checks snap). T \<le> rc_checked_at c))"

lemma probe_times: "c \<in> snd ` set (rs_checks (probe_snapshot cfg e at po clock ev de)) \<Longrightarrow> rc_checked_at c = at"
  by (cases e) (auto simp: probe_snapshot_def Let_def checked_at)

lemma probed_since_step:
  assumes "service_step cfg s answer t" and "probed_since T G s"
  shows "probed_since T G t"
  using assms(1)
proof cases
  case (ss_begin i)
  with assms(2) show ?thesis by (auto simp: service_ops probed_since_def split: option.splits if_splits)
next
  case (ss_lock i)
  with assms(2) show ?thesis by (auto simp: service_ops probed_since_def split: option.splits if_splits)
next
  case (ss_probe i g at e po snap)
  have "G \<le> sv_generation s" and "phase_since T G (Probing g at e)"
    using assms(2) ss_probe(2) by (simp_all only: probed_since_def)
  then have "g = sv_generation s \<Longrightarrow> T \<le> at" by simp
  then have "g = sv_generation s \<Longrightarrow> \<forall>c \<in> snd ` set (rs_checks snap). T \<le> rc_checked_at c"
    using ss_probe(3) probe_times by (fastforce simp: end_probe_def Let_def)
  with ss_probe assms(2) show ?thesis by (auto simp: end_probe_def Let_def probed_since_def split: if_splits)
qed (use assms(2) in \<open>auto simp: service_ops Let_def probed_since_def\<close>)

text \<open>
  After the cache is invalidated, no answer whose probe began before that is ever served from the cache
  again, even when such a probe is still running then and ends later.
\<close>

theorem invalidated_answers_never_return:
  assumes "(service_moves cfg)\<^sup>*\<^sup>* (new_service events decisions now clock) s"
    and "(service_moves cfg)\<^sup>*\<^sup>* (invalidate s) t" and "cached_snapshot cfg t = Some snap"
    and "c \<in> snd ` set (rs_checks snap)"
  shows "sv_now_ms s \<le> rc_checked_at c"
proof -
  have old: "current_probe G E p \<Longrightarrow> phase_since T (Suc G) p" for G E T p by (cases p) auto
  have "service_ok cfg s" by (rule service_moves_ok[OF assms(1) new_service_ok])
  then have "\<forall>i p. map_of (sv_requests s) i = Some p \<longrightarrow> phase_since (sv_now_ms s) (Suc (sv_generation s)) p"
    unfolding service_ok_def requests_ok_def by (blast intro: old)
  then have "probed_since (sv_now_ms s) (Suc (sv_generation s)) (invalidate s)"
    by (simp add: probed_since_def invalidate_def)
  with assms(2) have "probed_since (sv_now_ms s) (Suc (sv_generation s)) t"
    by (induction rule: rtranclp_induct) (auto simp: service_moves_def intro: probed_since_step)
  with assms(3,4) show ?thesis
    by (auto simp: probed_since_def cached_snapshot_def split: option.splits if_splits)
qed

section \<open>Witnesses\<close>

text \<open>A request that finds nothing in the cache, takes the lock, probes and fills the cache.\<close>

definition running_registry :: worker_registry where
  "running_registry = heartbeat 0 (fst (set_worker_state Wk_running new_registry))"

definition sample_config :: readiness_config where
  "sample_config = \<lparr>rg_v2 = True, rg_embedding = False, rg_rerank = False, rg_fresh_ms = 3000, rg_cache_ms = 1000\<rparr>"

definition good_probes :: probe_outcomes where
  "good_probes = \<lparr>po_database = Probe_ok, po_embedding = Probe_ok, po_rerank = Probe_ok\<rparr>"

definition answered :: "readiness_service \<Rightarrow> readiness_service" where
  "answered s = snd (end_probe sample_config 7 (sv_generation s) (sv_now_ms s) (sv_enabled s) good_probes
     (snd (take_lock sample_config 7 (snd (begin_request sample_config 7 s)))))"

lemma answered_reachable:
  assumes "sv_cached s = None" and "sv_requests s = []"
  shows "(service_moves sample_config)\<^sup>*\<^sup>* s (answered s)"
proof -
  let ?w = "snd (begin_request sample_config 7 s)"
  let ?p = "snd (take_lock sample_config 7 ?w)"
  have w: "begin_request sample_config 7 s = (None, ?w)" "sv_cached ?w = None" "sv_requests ?w = [(7, Waiting)]"
    using assms by (simp_all add: begin_request_def cached_snapshot_def put_def without_def)
  have p: "take_lock sample_config 7 ?w = (None, ?p)"
    "sv_requests ?p = [(7, Probing (sv_generation s) (sv_now_ms s) (sv_enabled s))]"
    using w by (simp_all add: take_lock_def begin_request_def cached_snapshot_def put_def without_def assms)
  have "service_moves sample_config s ?w"
    using ss_begin[OF _ w(1)] assms unfolding service_moves_def by auto
  moreover have "service_moves sample_config ?w ?p"
    using ss_lock[OF _ _ p(1)] w unfolding service_moves_def by (fastforce simp: probe_lock_free_def tally_Cons)
  moreover have "service_moves sample_config ?p (answered s)"
    using ss_probe[where i = 7 and po = good_probes and s = ?p, OF _ prod.collapse[symmetric]] p(2)
    unfolding service_moves_def answered_def by fastforce
  ultimately show ?thesis by (meson converse_rtranclp_into_rtranclp r_into_rtranclp)
qed

lemmas sample_service_defs = answered_def begin_request_def take_lock_def end_probe_def cached_snapshot_def Let_def
  probe_snapshot_def check_worker_def run_probe_def run_optional_probe_def sample_config_def good_probes_def
  running_registry_def heartbeat_def set_worker_state_def new_registry_def new_service_def degraded_def

definition first_answer :: readiness_service where
  "first_answer = answered (new_service running_registry running_registry 5 20)"

lemma cached_ready_is_current_witness:
  "\<exists>snap. cached_snapshot sample_config first_answer = Some snap \<and> rs_ready snap \<and> sv_enabled first_answer
     \<and> wr_state (sv_events first_answer) = Wk_running"
proof -
  have "(service_moves sample_config)\<^sup>*\<^sup>* (new_service running_registry running_registry 5 20) first_answer"
    unfolding first_answer_def by (rule answered_reachable) (simp_all add: new_service_def)
  from cached_ready_is_current[OF this] show ?thesis
    by (simp add: first_answer_def sample_service_defs)
qed

lemma invalidated_answers_never_return_witness:
  "\<exists>snap. cached_snapshot sample_config (answered (invalidate (new_service running_registry running_registry 5 20))) = Some snap
     \<and> 5 \<le> rc_checked_at (snd (hd (rs_checks snap)))"
proof -
  let ?s = "new_service running_registry running_registry 5 20"
  have "(service_moves sample_config)\<^sup>*\<^sup>* (invalidate ?s) (answered (invalidate ?s))"
    by (rule answered_reachable) (simp_all add: new_service_def invalidate_def)
  moreover obtain snap where "cached_snapshot sample_config (answered (invalidate ?s)) = Some snap"
    "snd (hd (rs_checks snap)) \<in> snd ` set (rs_checks snap)"
    by (simp add: sample_service_defs invalidate_def)
  moreover have "sv_now_ms ?s = 5" by (simp add: new_service_def)
  ultimately show ?thesis
    using invalidated_answers_never_return[of sample_config running_registry running_registry 5 20 ?s] by fastforce
qed

end
