(* ===== verification/Recovery.thy ===== *)
theory Recovery
  imports Prelude
begin

text \<open>
  The projection of the stored rows after a restart (\<open>recovery.py\<close>).  A row is a map from column names to
  values, of which only texts and integers matter; a dictionary is a map.
\<close>

type_synonym stored_row = "string \<rightharpoonup> json"

type_synonym 'a recovered = "string + 'a"

definition required_string :: "string \<Rightarrow> stored_row \<Rightarrow> string recovered" where
  "required_string field row =
     (case row field of
        Some (JStr s) \<Rightarrow> if py_strip s = [] then Inl (''invalid '' @ field) else Inr s
      | _ \<Rightarrow> Inl (''invalid '' @ field))"

definition required_generation :: "stored_row \<Rightarrow> int recovered" where
  "required_generation row =
     (case row ''control_generation'' of
        Some (JInt n) \<Rightarrow> if n \<le> 0 then Inl ''invalid control_generation'' else Inr n
      | _ \<Rightarrow> Inl ''invalid control_generation'')"

record recovered_event =
  re_gateway :: string
  re_id :: string
  re_hash :: string
  re_type :: string
  re_session :: string
  re_generation :: int
  re_status :: string

record recovered_decision =
  rd_gateway :: string
  rd_id :: string
  rd_session :: string
  rd_generation :: int
  rd_status :: string

record recovered_terminal =
  rt_gateway :: string
  rt_call :: string
  rt_decision :: string
  rt_session :: string
  rt_event :: "string option"
  rt_status :: string

record recovery_projection =
  rp_fingerprints :: "string \<times> string \<rightharpoonup> string"
  rp_events :: "string \<rightharpoonup> recovered_event"
  rp_decisions :: "string \<rightharpoonup> recovered_decision"
  rp_terminals :: "string \<rightharpoonup> recovered_terminal"

definition empty_projection :: recovery_projection where
  "empty_projection = \<lparr>rp_fingerprints = Map.empty, rp_events = Map.empty, rp_decisions = Map.empty, rp_terminals = Map.empty\<rparr>"

definition and_then :: "'a recovered \<Rightarrow> ('a \<Rightarrow> 'b recovered) \<Rightarrow> 'b recovered" where
  "and_then x f = (case x of Inl e \<Rightarrow> Inl e | Inr v \<Rightarrow> f v)"

lemma and_then_Inr [simp]: "and_then x f = Inr v \<longleftrightarrow> (\<exists>u. x = Inr u \<and> f u = Inr v)"
  by (simp add: and_then_def split: sum.split)

text \<open>\<open>f"{gateway_id}:{id}"\<close>\<close>

definition projection_key :: "string \<Rightarrow> string \<Rightarrow> string" where
  "projection_key gateway i = gateway @ '':'' @ i"

definition event_of_row :: "stored_row \<Rightarrow> recovered_event recovered" where
  "event_of_row row =
     and_then (required_string ''gateway_id'' row) (\<lambda>g.
     and_then (required_string ''event_id'' row) (\<lambda>i.
     and_then (required_string ''content_hash'' row) (\<lambda>h.
     and_then (required_string ''event_type'' row) (\<lambda>t.
     and_then (required_string ''session_id'' row) (\<lambda>s.
     and_then (required_generation row) (\<lambda>n.
     and_then (required_string ''status'' row) (\<lambda>st.
       Inr \<lparr>re_gateway = g, re_id = i, re_hash = h, re_type = t, re_session = s, re_generation = n, re_status = st\<rparr>)))))))"

definition decision_of_row :: "stored_row \<Rightarrow> recovered_decision recovered" where
  "decision_of_row row =
     and_then (required_string ''gateway_id'' row) (\<lambda>g.
     and_then (required_string ''decision_id'' row) (\<lambda>i.
     and_then (required_string ''session_id'' row) (\<lambda>s.
     and_then (required_generation row) (\<lambda>n.
     and_then (required_string ''status'' row) (\<lambda>st.
       Inr \<lparr>rd_gateway = g, rd_id = i, rd_session = s, rd_generation = n, rd_status = st\<rparr>)))))"

definition terminal_event_of :: "stored_row \<Rightarrow> string option recovered" where
  "terminal_event_of row =
     (case row ''terminal_event_id'' of
        None \<Rightarrow> Inr None
      | Some JNull \<Rightarrow> Inr None
      | Some (JStr s) \<Rightarrow> if py_strip s = [] then Inl ''invalid terminal_event_id'' else Inr (Some s)
      | Some _ \<Rightarrow> Inl ''invalid terminal_event_id'')"

definition terminal_of_row :: "stored_row \<Rightarrow> recovered_terminal recovered" where
  "terminal_of_row row =
     and_then (terminal_event_of row) (\<lambda>e.
     and_then (required_string ''gateway_id'' row) (\<lambda>g.
     and_then (required_string ''skill_call_id'' row) (\<lambda>c.
     and_then (required_string ''decision_id'' row) (\<lambda>d.
     and_then (required_string ''session_id'' row) (\<lambda>s.
     and_then (required_string ''status'' row) (\<lambda>st.
       Inr \<lparr>rt_gateway = g, rt_call = c, rt_decision = d, rt_session = s, rt_event = e, rt_status = st\<rparr>))))))"

text \<open>A dictionary entry that may be repeated but not changed.\<close>

definition put_same :: "string \<Rightarrow> string \<Rightarrow> 'a \<Rightarrow> (string \<rightharpoonup> 'a) \<Rightarrow> (string \<rightharpoonup> 'a) recovered" where
  "put_same what k v d = (case d k of Some w \<Rightarrow> if w = v then Inr (d(k \<mapsto> v)) else Inl what | None \<Rightarrow> Inr (d(k \<mapsto> v)))"

definition project_event :: "stored_row \<Rightarrow> recovery_projection \<Rightarrow> recovery_projection recovered" where
  "project_event row p =
     and_then (event_of_row row) (\<lambda>e.
       let key = (re_gateway e, re_id e) in
       if rp_fingerprints p key \<noteq> None \<and> rp_fingerprints p key \<noteq> Some (re_hash e)
       then Inl (''conflicting event fingerprint '' @ re_id e)
       else and_then (put_same (''conflicting event '' @ re_id e) (projection_key (re_gateway e) (re_id e)) e (rp_events p)) (\<lambda>es.
         Inr (p\<lparr>rp_fingerprints := (rp_fingerprints p)(key \<mapsto> re_hash e), rp_events := es\<rparr>)))"

definition project_decision :: "stored_row \<Rightarrow> recovery_projection \<Rightarrow> recovery_projection recovered" where
  "project_decision row p =
     and_then (decision_of_row row) (\<lambda>d.
       and_then (put_same (''conflicting decision '' @ rd_id d) (projection_key (rd_gateway d) (rd_id d)) d (rp_decisions p)) (\<lambda>ds.
         Inr (p\<lparr>rp_decisions := ds\<rparr>)))"

definition check_terminal_event :: "recovered_terminal \<Rightarrow> recovery_projection \<Rightarrow> unit recovered" where
  "check_terminal_event t p =
     (if rt_status t \<in> {''pending'', ''started''}
      then (case rt_event t of None \<Rightarrow> Inr () | Some i \<Rightarrow> Inl (''non-terminal skill call has terminal event '' @ i))
      else (case rt_event t of
          None \<Rightarrow> Inl (''missing terminal event for '' @ rt_call t)
        | Some i \<Rightarrow>
            (case rp_events p (projection_key (rt_gateway t) i) of
               None \<Rightarrow> Inl (''missing terminal event '' @ i)
             | Some e \<Rightarrow>
                 if re_type e \<noteq> ''skill_finished'' \<or> re_session e \<noteq> rt_session t
                 then Inl (''invalid terminal event '' @ i) else Inr ())))"

definition check_terminal_decision :: "recovered_terminal \<Rightarrow> recovery_projection \<Rightarrow> unit recovered" where
  "check_terminal_decision t p =
     (case rp_decisions p (projection_key (rt_gateway t) (rt_decision t)) of
        None \<Rightarrow> Inl (''missing decision '' @ rt_decision t)
      | Some d \<Rightarrow> if rd_session d \<noteq> rt_session t then Inl (''terminal decision mismatch '' @ rt_decision t) else Inr ())"

definition project_terminal :: "stored_row \<Rightarrow> recovery_projection \<Rightarrow> recovery_projection recovered" where
  "project_terminal row p =
     and_then (terminal_of_row row) (\<lambda>t.
     and_then (check_terminal_event t p) (\<lambda>_.
     and_then (check_terminal_decision t p) (\<lambda>_.
     and_then (put_same (''conflicting skill call '' @ rt_call t) (projection_key (rt_gateway t) (rt_call t)) t (rp_terminals p)) (\<lambda>ts.
       Inr (p\<lparr>rp_terminals := ts\<rparr>)))))"

fun project_rows :: "(stored_row \<Rightarrow> recovery_projection \<Rightarrow> recovery_projection recovered) \<Rightarrow> stored_row list
    \<Rightarrow> recovery_projection \<Rightarrow> recovery_projection recovered" where
  "project_rows f [] p = Inr p"
| "project_rows f (row # rows) p = and_then (f row p) (project_rows f rows)"

definition from_rows :: "stored_row list \<Rightarrow> stored_row list \<Rightarrow> stored_row list \<Rightarrow> recovery_projection recovered" where
  "from_rows events decisions calls =
     and_then (project_rows project_event events empty_projection) (\<lambda>p.
     and_then (project_rows project_decision decisions p) (project_rows project_terminal calls))"

section \<open>The fingerprint registry\<close>

definition is_seen :: "(string \<times> string \<rightharpoonup> string) \<Rightarrow> string \<Rightarrow> string \<Rightarrow> bool" where
  "is_seen fp g i \<longleftrightarrow> fp (g, i) \<noteq> None"

definition matches :: "(string \<times> string \<rightharpoonup> string) \<Rightarrow> string \<Rightarrow> string \<Rightarrow> string \<Rightarrow> bool" where
  "matches fp g i h \<longleftrightarrow> fp (g, i) = Some h"

section \<open>What a projection tells\<close>

definition finished_call_explained :: "recovery_projection \<Rightarrow> recovered_terminal \<Rightarrow> bool" where
  "finished_call_explained p t \<longleftrightarrow>
     (if rt_status t \<in> {''pending'', ''started''} then rt_event t = None
      else \<exists>i e. rt_event t = Some i \<and> rp_events p (projection_key (rt_gateway t) i) = Some e
             \<and> re_type e = ''skill_finished'' \<and> re_session e = rt_session t)
     \<and> (\<exists>d. rp_decisions p (projection_key (rt_gateway t) (rt_decision t)) = Some d \<and> rd_session d = rt_session t)"

lemma put_same_Inr: "put_same what k v d = Inr d' \<longleftrightarrow> d' = d(k \<mapsto> v) \<and> (d k = None \<or> d k = Some v)"
  by (auto simp: put_same_def split: option.splits)

lemma project_rows_append:
  "project_rows f (xs @ ys) p = and_then (project_rows f xs p) (project_rows f ys)"
  by (induction xs arbitrary: p) (auto simp: and_then_def split: sum.split)

text \<open>The events of a projection are exactly those of the rows, each under its key, and so are the fingerprints.\<close>

lemma project_events:
  assumes "project_rows project_event rows empty_projection = Inr p"
  shows "(\<forall>row \<in> set rows. \<exists>e. event_of_row row = Inr e
        \<and> rp_events p (projection_key (re_gateway e) (re_id e)) = Some e
        \<and> rp_fingerprints p (re_gateway e, re_id e) = Some (re_hash e))
    \<and> (\<forall>k e. rp_events p k = Some e \<longrightarrow> k = projection_key (re_gateway e) (re_id e) \<and> (\<exists>row \<in> set rows. event_of_row row = Inr e))
    \<and> rp_decisions p = Map.empty \<and> rp_terminals p = Map.empty"
  using assms
proof (induction rows arbitrary: p rule: rev_induct)
  case Nil
  then show ?case by (auto simp: empty_projection_def)
next
  case (snoc row rows)
  from snoc.prems obtain q where q: "project_rows project_event rows empty_projection = Inr q" "project_event row q = Inr p"
    by (auto simp: project_rows_append and_then_def[of _ "\<lambda>p. and_then _ _"] split: sum.splits)
  from q(2) obtain e where e: "event_of_row row = Inr e"
    "rp_fingerprints q (re_gateway e, re_id e) \<in> {None, Some (re_hash e)}"
    "rp_events q (projection_key (re_gateway e) (re_id e)) \<in> {None, Some e}"
    "p = q\<lparr>rp_fingerprints := (rp_fingerprints q)((re_gateway e, re_id e) \<mapsto> re_hash e),
           rp_events := (rp_events q)(projection_key (re_gateway e) (re_id e) \<mapsto> e)\<rparr>"
    by (auto simp: project_event_def Let_def put_same_Inr split: if_splits)
  have kept: "rp_events q k = Some x \<Longrightarrow> rp_events p k = Some x" for k x using e(3,4) by auto
  have kept_hash: "rp_fingerprints q k = Some h \<Longrightarrow> rp_fingerprints p k = Some h" for k h using e(2,4) by auto
  have added: "rp_events p (projection_key (re_gateway e) (re_id e)) = Some e"
    "rp_fingerprints p (re_gateway e, re_id e) = Some (re_hash e)" using e(4) by simp_all
  have source: "rp_events p k = Some x \<Longrightarrow> rp_events q k = Some x \<or> k = projection_key (re_gateway e) (re_id e) \<and> x = e" for k x
    using e(4) by (auto split: if_splits)
  note IH = snoc.IH[OF q(1)]
  show ?case
  proof (intro conjI)
    show "\<forall>r \<in> set (rows @ [row]). \<exists>e. event_of_row r = Inr e
        \<and> rp_events p (projection_key (re_gateway e) (re_id e)) = Some e
        \<and> rp_fingerprints p (re_gateway e, re_id e) = Some (re_hash e)"
    proof
      fix r assume "r \<in> set (rows @ [row])"
      then consider "r \<in> set rows" | "r = row" by auto
      then show "\<exists>e. event_of_row r = Inr e \<and> rp_events p (projection_key (re_gateway e) (re_id e)) = Some e
          \<and> rp_fingerprints p (re_gateway e, re_id e) = Some (re_hash e)"
      proof cases
        case 1
        with IH obtain x where "event_of_row r = Inr x" "rp_events q (projection_key (re_gateway x) (re_id x)) = Some x"
          "rp_fingerprints q (re_gateway x, re_id x) = Some (re_hash x)" by blast
        with kept kept_hash show ?thesis by blast
      next
        case 2
        with e(1) added show ?thesis by blast
      qed
    qed
    show "\<forall>k x. rp_events p k = Some x \<longrightarrow> k = projection_key (re_gateway x) (re_id x) \<and> (\<exists>r \<in> set (rows @ [row]). event_of_row r = Inr x)"
    proof (intro allI impI)
      fix k x assume "rp_events p k = Some x"
      from source[OF this] show "k = projection_key (re_gateway x) (re_id x) \<and> (\<exists>r \<in> set (rows @ [row]). event_of_row r = Inr x)"
      proof
        assume "rp_events q k = Some x"
        with IH show ?thesis by (simp only: set_append) blast
      qed (use e(1) in simp)
    qed
    show "rp_decisions p = Map.empty" "rp_terminals p = Map.empty" using IH e(4) by simp_all
  qed
qed

lemma project_decisions_keep:
  "project_rows project_decision rows p = Inr q \<Longrightarrow>
     rp_events q = rp_events p \<and> rp_fingerprints q = rp_fingerprints p \<and> rp_terminals q = rp_terminals p"
  by (induction rows arbitrary: p) (auto simp: project_decision_def)

lemma project_terminals_keep:
  "project_rows project_terminal rows p = Inr q \<Longrightarrow>
     rp_events q = rp_events p \<and> rp_fingerprints q = rp_fingerprints p \<and> rp_decisions q = rp_decisions p"
  by (induction rows arbitrary: p) (auto simp: project_terminal_def)

lemma checks_explain:
  assumes "check_terminal_event t p = Inr ()" and "check_terminal_decision t p = Inr ()"
  shows "finished_call_explained p t"
  using assms by (auto simp: check_terminal_event_def check_terminal_decision_def finished_call_explained_def
      split: if_splits option.splits)

lemma explained_cong:
  "rp_events q = rp_events p \<Longrightarrow> rp_decisions q = rp_decisions p \<Longrightarrow> finished_call_explained q t = finished_call_explained p t"
  by (simp add: finished_call_explained_def)

lemma project_terminals:
  assumes "project_rows project_terminal rows p0 = Inr p" and "rp_terminals p0 = Map.empty"
  shows "(\<forall>row \<in> set rows. \<exists>t. terminal_of_row row = Inr t
        \<and> rp_terminals p (projection_key (rt_gateway t) (rt_call t)) = Some t \<and> finished_call_explained p t)
    \<and> (\<forall>k t. rp_terminals p k = Some t \<longrightarrow>
         k = projection_key (rt_gateway t) (rt_call t) \<and> (\<exists>row \<in> set rows. terminal_of_row row = Inr t))"
  using assms(1)
proof (induction rows arbitrary: p rule: rev_induct)
  case Nil
  with assms(2) show ?case by auto
next
  case (snoc row rows)
  from snoc.prems obtain q where q: "project_rows project_terminal rows p0 = Inr q" "project_terminal row q = Inr p"
    by (auto simp: project_rows_append)
  from q(2) obtain t where t: "terminal_of_row row = Inr t" "finished_call_explained q t"
    "rp_terminals q (projection_key (rt_gateway t) (rt_call t)) \<in> {None, Some t}"
    "p = q\<lparr>rp_terminals := (rp_terminals q)(projection_key (rt_gateway t) (rt_call t) \<mapsto> t)\<rparr>"
    using checks_explain by (auto simp: project_terminal_def put_same_Inr)
  have same: "finished_call_explained p u = finished_call_explained q u" for u
    using t(4) by (intro explained_cong) simp_all
  have kept: "rp_terminals q k = Some x \<Longrightarrow> rp_terminals p k = Some x" for k x using t(3,4) by auto
  have source: "rp_terminals p k = Some x \<Longrightarrow> rp_terminals q k = Some x \<or> k = projection_key (rt_gateway t) (rt_call t) \<and> x = t" for k x
    using t(4) by (auto split: if_splits)
  note IH = snoc.IH[OF q(1)]
  show ?case
  proof (intro conjI ballI allI impI)
    fix r assume "r \<in> set (rows @ [row])"
    then consider "r \<in> set rows" | "r = row" by auto
    then show "\<exists>t. terminal_of_row r = Inr t \<and> rp_terminals p (projection_key (rt_gateway t) (rt_call t)) = Some t
        \<and> finished_call_explained p t"
    proof cases
      case 1
      with IH obtain x where "terminal_of_row r = Inr x"
        "rp_terminals q (projection_key (rt_gateway x) (rt_call x)) = Some x" "finished_call_explained q x" by blast
      with kept same show ?thesis by blast
    next
      case 2
      moreover have "rp_terminals p (projection_key (rt_gateway t) (rt_call t)) = Some t" using t(4) by simp
      ultimately show ?thesis using t(1,2) same by blast
    qed
  next
    fix k u assume "rp_terminals p k = Some u"
    from source[OF this] show "k = projection_key (rt_gateway u) (rt_call u)" using IH by blast
    from source[OF \<open>rp_terminals p k = Some u\<close>] show "\<exists>row' \<in> set (rows @ [row]). terminal_of_row row' = Inr u"
    proof
      assume "rp_terminals q k = Some u"
      with IH show ?thesis by (simp only: set_append) blast
    qed (use t(1) in simp)
  qed
qed

text \<open>
  When the rows are projected without an error, every event row is in the projection under its key with
  its fingerprint, and every skill call row is too and is explained by it: a call that is pending or started
  has no terminal event, any other one has a \<open>skill_finished\<close> event of the same session in the projection, and
  its decision is there and of the same session.
\<close>

theorem recovered_calls_are_explained:
  assumes "from_rows events decisions calls = Inr p"
  shows "(\<forall>row \<in> set events. \<exists>e. event_of_row row = Inr e
        \<and> rp_events p (projection_key (re_gateway e) (re_id e)) = Some e \<and> matches (rp_fingerprints p) (re_gateway e) (re_id e) (re_hash e))
    \<and> (\<forall>row \<in> set calls. \<exists>t. terminal_of_row row = Inr t
        \<and> rp_terminals p (projection_key (rt_gateway t) (rt_call t)) = Some t \<and> finished_call_explained p t)"
proof -
  from assms obtain q r where q: "project_rows project_event events empty_projection = Inr q"
    and r: "project_rows project_decision decisions q = Inr r" and p: "project_rows project_terminal calls r = Inr p"
    by (auto simp: from_rows_def)
  note events = project_events[OF q] and kept = project_decisions_keep[OF r] and ended = project_terminals_keep[OF p]
  have "rp_terminals r = Map.empty" using events kept by simp
  note calls = project_terminals[OF p this]
  have same: "rp_events p = rp_events q" "rp_fingerprints p = rp_fingerprints q" using kept ended by simp_all
  show ?thesis
    unfolding matches_def same using events calls by blast
qed

section \<open>Keys that collide\<close>

definition stored_event :: "string \<Rightarrow> string \<Rightarrow> string \<Rightarrow> stored_row" where
  "stored_event g i t = [''gateway_id'' \<mapsto> JStr g, ''event_id'' \<mapsto> JStr i, ''content_hash'' \<mapsto> JStr ''h'',
     ''event_type'' \<mapsto> JStr t, ''session_id'' \<mapsto> JStr ''s'', ''control_generation'' \<mapsto> JInt 1, ''status'' \<mapsto> JStr ''completed'']"

text \<open>
  The fingerprints are kept by the pair of gateway and event, the events by the two joined with a colon: the
  events \<open>b:c\<close> of the gateway \<open>a\<close> and \<open>c\<close> of the gateway \<open>a:b\<close> are refused as one conflicting event.
\<close>

lemma colliding_events_refused:
  "(case from_rows [stored_event ''a'' ''b:c'' ''session_start'', stored_event ''a:b'' ''c'' ''session_start''] [] [] of
      Inl err \<Rightarrow> err = ''conflicting event c'' | Inr _ \<Rightarrow> False)"
  by code_simp

text \<open>A finished call with its event and its decision.\<close>

definition stored_decision :: "string \<Rightarrow> string \<Rightarrow> stored_row" where
  "stored_decision g i = [''gateway_id'' \<mapsto> JStr g, ''decision_id'' \<mapsto> JStr i, ''session_id'' \<mapsto> JStr ''s'',
     ''control_generation'' \<mapsto> JInt 1, ''status'' \<mapsto> JStr ''accepted'']"

definition stored_call :: "string \<Rightarrow> string \<Rightarrow> string \<Rightarrow> string \<Rightarrow> stored_row" where
  "stored_call g c d e = [''gateway_id'' \<mapsto> JStr g, ''skill_call_id'' \<mapsto> JStr c, ''decision_id'' \<mapsto> JStr d,
     ''session_id'' \<mapsto> JStr ''s'', ''terminal_event_id'' \<mapsto> JStr e, ''status'' \<mapsto> JStr ''succeeded'']"

lemma sample_projection:
  "(case from_rows [stored_event ''g'' ''e'' ''skill_finished''] [stored_decision ''g'' ''d''] [stored_call ''g'' ''c'' ''d'' ''e''] of
      Inl _ \<Rightarrow> False | Inr _ \<Rightarrow> True)"
  by code_simp

lemma recovered_calls_are_explained_witness:
  "\<exists>p t. from_rows [stored_event ''g'' ''e'' ''skill_finished''] [stored_decision ''g'' ''d''] [stored_call ''g'' ''c'' ''d'' ''e''] = Inr p
     \<and> terminal_of_row (stored_call ''g'' ''c'' ''d'' ''e'') = Inr t \<and> finished_call_explained p t"
proof -
  obtain p where "from_rows [stored_event ''g'' ''e'' ''skill_finished''] [stored_decision ''g'' ''d'']
      [stored_call ''g'' ''c'' ''d'' ''e''] = Inr p"
    using sample_projection by (auto split: sum.splits)
  with recovered_calls_are_explained[OF this] show ?thesis by auto
qed

end
