(* ===== verification/LoadBalancer.thy ===== *)
theory LoadBalancer
  imports ActivityPlan
begin

text \<open>
  The pool of model providers and its weighted round robin (\<open>llm/balancer.py\<close>), and the client built for a
  provider (\<open>llm/providers\<close>, \<open>llm/factory.py\<close>).  What the database returns, the failure counters of
  Redis and the clock are arguments; a client of the model library is its class and its parameters, and a
  temperature is the text Python prints for it.
\<close>

section \<open>Providers and clients\<close>

record llm_provider =
  lp_id :: string
  lp_type :: string
  lp_model :: string
  lp_key :: string
  lp_url :: string
  lp_weight :: int
  lp_max_tokens :: "int option"
  lp_timeout :: int
  lp_extra :: "(string \<times> json) list"

datatype llm_client = Llm_client string "string \<rightharpoonup> json"

definition compatible_types :: "string list" where
  "compatible_types = [''openai'', ''deepseek'', ''qwen'', ''zhipu'', ''grok'', ''aliyun'']"

definition provider_class :: "bool \<Rightarrow> string \<Rightarrow> string option" where
  "provider_class anthropic t =
     (if t \<in> set compatible_types then Some ''ChatOpenAI''
      else if anthropic \<and> t = ''anthropic'' then Some ''ChatAnthropic'' else None)"

definition create_provider :: "bool \<Rightarrow> llm_provider \<Rightarrow> string \<Rightarrow> string + llm_client" where
  "create_provider anthropic p temperature =
     (let t = (if lp_type p = [] then ''openai'' else lp_type p) in
      case provider_class anthropic t of
        None \<Rightarrow> Inl ''unknown provider_type''
      | Some cls \<Rightarrow>
          (let ps = [''model'' \<mapsto> JStr (lp_model p), ''temperature'' \<mapsto> JStr temperature, ''api_key'' \<mapsto> JStr (lp_key p),
                     ''base_url'' \<mapsto> JStr (lp_url p), ''streaming'' \<mapsto> JBool False, ''max_retries'' \<mapsto> JInt 2];
               ps = (case lp_max_tokens p of Some n \<Rightarrow> if n = 0 then ps else ps(''max_tokens'' \<mapsto> JInt n) | None \<Rightarrow> ps);
               ps = (if lp_timeout p = 0 then ps else ps(''timeout'' \<mapsto> JInt (lp_timeout p)));
               ps = ps ++ map_of (rev (lp_extra p));
               ps = (if t = ''anthropic'' \<and> anthropic \<and> ps ''max_tokens'' = None then ps(''max_tokens'' \<mapsto> JInt 4096) else ps) in
           Inr (Llm_client cls ps)))"

section \<open>The pool\<close>

record balancer =
  lb_pool :: "string \<rightharpoonup> llm_provider list"
  lb_loaded :: "string \<rightharpoonup> int"
  lb_sequence :: "string \<rightharpoonup> string list"
  lb_counter :: "string \<rightharpoonup> nat"
  lb_clients :: "string \<rightharpoonup> llm_client"

definition new_balancer :: balancer where
  "new_balancer = \<lparr>lb_pool = Map.empty, lb_loaded = Map.empty, lb_sequence = Map.empty, lb_counter = Map.empty,
     lb_clients = Map.empty\<rparr>"

definition invalidate_cache :: "balancer \<Rightarrow> balancer" where
  "invalidate_cache b = b\<lparr>lb_pool := Map.empty, lb_loaded := Map.empty, lb_sequence := Map.empty, lb_counter := Map.empty\<rparr>"

definition round_sequence :: "llm_provider list \<Rightarrow> string list" where
  "round_sequence ps = concat (map (\<lambda>p. replicate (nat (lp_weight p)) (lp_id p)) ps)"

definition build_rr_sequence :: "string \<Rightarrow> llm_provider list \<Rightarrow> balancer \<Rightarrow> balancer" where
  "build_rr_sequence mt ps b =
     (let sequence = round_sequence ps in
      b\<lparr>lb_sequence := (lb_sequence b)(mt \<mapsto> sequence),
        lb_counter := (case lb_counter b mt of
            Some i \<Rightarrow> if length sequence \<le> i then (lb_counter b)(mt \<mapsto> 0) else lb_counter b
          | None \<Rightarrow> (lb_counter b)(mt \<mapsto> 0))\<rparr>)"

text \<open>\<open>rows\<close> is the answer of the query for the active providers of the type, \<open>None\<close> when it fails.\<close>

definition load_providers :: "int \<Rightarrow> string \<Rightarrow> llm_provider list option \<Rightarrow> balancer \<Rightarrow> (llm_provider list \<times> balancer) option" where
  "load_providers now mt rows b =
     (let loaded_at = (case lb_loaded b mt of None \<Rightarrow> 0 | Some t \<Rightarrow> t) in
      case (if now - loaded_at < 300 then lb_pool b mt else None) of
        Some ps \<Rightarrow> Some (ps, b)
      | None \<Rightarrow>
          (case rows of
             None \<Rightarrow> None
           | Some ps \<Rightarrow>
               Some (ps, build_rr_sequence mt ps
                 (b\<lparr>lb_pool := (lb_pool b)(mt \<mapsto> ps), lb_loaded := (lb_loaded b)(mt \<mapsto> now)\<rparr>))))"

text \<open>\<open>counter\<close> reads a failure counter; \<open>None\<close> when Redis cannot be reached.\<close>

definition check_health :: "(string \<Rightarrow> int option option) \<Rightarrow> string \<Rightarrow> bool" where
  "check_health counter i = (case counter (''llm:health:'' @ i) of Some (Some n) \<Rightarrow> n < 5 | _ \<Rightarrow> True)"

definition weighted_select :: "string \<Rightarrow> llm_provider list \<Rightarrow> balancer \<Rightarrow> llm_provider option \<times> balancer" where
  "weighted_select mt ps b =
     (let first = (case ps of [] \<Rightarrow> None | p # _ \<Rightarrow> Some p);
          sequence = (case lb_sequence b mt of None \<Rightarrow> [] | Some s \<Rightarrow> s) in
      if sequence = [] then (first, b)
      else
        (let healthy = filter (\<lambda>i. i \<in> lp_id ` set ps) sequence;
             filtered = (if healthy = [] then sequence else healthy);
             idx = (case lb_counter b mt of None \<Rightarrow> 0 | Some i \<Rightarrow> i) mod length filtered;
             selected = filtered ! idx in
         (case find (\<lambda>p. lp_id p = selected) (rev ps) of Some p \<Rightarrow> Some p | None \<Rightarrow> first,
          b\<lparr>lb_counter := (lb_counter b)(mt \<mapsto> idx + 1)\<rparr>)))"

definition client_key :: "string \<Rightarrow> string \<Rightarrow> string" where
  "client_key i temperature = i @ ''_'' @ temperature"

definition get_or_create_llm :: "bool \<Rightarrow> llm_provider \<Rightarrow> string \<Rightarrow> balancer \<Rightarrow> (string + llm_client) \<times> balancer" where
  "get_or_create_llm anthropic p temperature b =
     (case lb_clients b (client_key (lp_id p) temperature) of
        Some c \<Rightarrow> (Inr c, b)
      | None \<Rightarrow>
          (case create_provider anthropic p temperature of
             Inl err \<Rightarrow> (Inl err, b)
           | Inr c \<Rightarrow> (Inr c, b\<lparr>lb_clients := (lb_clients b)(client_key (lp_id p) temperature \<mapsto> c)\<rparr>)))"

datatype select_result = Query_failed | No_provider | Client_refused string | Selected llm_provider llm_client

definition select_llm ::
  "int \<Rightarrow> (string \<Rightarrow> int option option) \<Rightarrow> bool \<Rightarrow> string \<Rightarrow> string \<Rightarrow> llm_provider list option \<Rightarrow> balancer \<Rightarrow> select_result \<times> balancer" where
  "select_llm now counter anthropic mt temperature rows b =
     (case load_providers now mt rows b of
        None \<Rightarrow> (Query_failed, b)
      | Some (ps, b) \<Rightarrow>
          (let healthy = filter (\<lambda>p. check_health counter (lp_id p)) ps in
           case weighted_select mt (if healthy = [] then ps else healthy) b of
             (None, b) \<Rightarrow> (No_provider, b)
           | (Some p, b) \<Rightarrow>
               (case get_or_create_llm anthropic p temperature b of
                  (Inl err, b) \<Rightarrow> (Client_refused err, b)
                | (Inr c, b) \<Rightarrow> (Selected p c, b))))"

section \<open>The factory\<close>

record llm_settings =
  ls_source :: "string option"
  ls_default_model :: string
  ls_fast_model :: string
  ls_key :: string
  ls_url :: string

text \<open>The cache of the clients of the environment is a map from the arguments they were built from.\<close>

type_synonym fallback_key = "string \<times> string \<times> string option \<times> int"

definition fallback_llm ::
  "llm_settings \<Rightarrow> fallback_key \<Rightarrow> (fallback_key \<rightharpoonup> llm_client) \<Rightarrow> llm_client \<times> (fallback_key \<rightharpoonup> llm_client)" where
  "fallback_llm cfg key cache =
     (case cache key of
        Some c \<Rightarrow> (c, cache)
      | None \<Rightarrow>
          (let (mt, temperature, timeout, retries) = key;
               ps = [''model'' \<mapsto> JStr (if mt = ''default'' then ls_default_model cfg else ls_fast_model cfg),
                     ''temperature'' \<mapsto> JStr temperature, ''api_key'' \<mapsto> JStr (ls_key cfg), ''base_url'' \<mapsto> JStr (ls_url cfg),
                     ''streaming'' \<mapsto> JBool False, ''max_retries'' \<mapsto> JInt retries];
               ps = (case timeout of None \<Rightarrow> ps | Some t \<Rightarrow> ps(''timeout'' \<mapsto> JStr t));
               c = Llm_client ''ChatOpenAI'' ps in
           (c, cache(key \<mapsto> c))))"

definition uses_pool :: "llm_settings \<Rightarrow> bool" where
  "uses_pool cfg \<longleftrightarrow>
     map lower_char (py_strip (case ls_source cfg of Some s \<Rightarrow> if s = [] then ''env'' else s | None \<Rightarrow> ''env'')) = ''db''"

text \<open>Only an empty pool falls back to the environment; a failed query or a refused client is raised.\<close>

definition get_llm ::
  "llm_settings \<Rightarrow> int \<Rightarrow> (string \<Rightarrow> int option option) \<Rightarrow> bool \<Rightarrow> string \<Rightarrow> string \<Rightarrow> llm_provider list option
     \<Rightarrow> balancer \<times> (fallback_key \<rightharpoonup> llm_client) \<Rightarrow> llm_client option \<times> balancer \<times> (fallback_key \<rightharpoonup> llm_client)" where
  "get_llm cfg now counter anthropic mt temperature rows st =
     (let (b, cache) = st;
          fallback = (\<lambda>b. let (c, cache) = fallback_llm cfg (mt, temperature, None, 2) cache in (Some c, b, cache)) in
      if \<not> uses_pool cfg then fallback b
      else case select_llm now counter anthropic mt temperature rows b of
        (Selected _ c, b) \<Rightarrow> (Some c, b, cache)
      | (No_provider, b) \<Rightarrow> fallback b
      | (_, b) \<Rightarrow> (None, b, cache))"

section \<open>A round is fair\<close>

text \<open>\<open>k\<close> selections in a row from the same providers.\<close>

fun selections :: "nat \<Rightarrow> string \<Rightarrow> llm_provider list \<Rightarrow> balancer \<Rightarrow> llm_provider option list \<times> balancer" where
  "selections 0 mt ps b = ([], b)"
| "selections (Suc k) mt ps b =
     (let (p, b) = weighted_select mt ps b; (qs, b) = selections k mt ps b in (p # qs, b))"

lemma count_round: "distinct (map lp_id ps) \<Longrightarrow> p \<in> set ps \<Longrightarrow>
    count_list (round_sequence ps) (lp_id p) = nat (lp_weight p)"
proof (induction ps)
  case (Cons q ps)
  have rep: "count_list (replicate n a) x = (if a = x then n else 0)" for n and a x :: string
    by (induction n) auto
  have absent: "lp_id q \<notin> lp_id ` set ps" using Cons.prems(1) by simp
  show ?case
  proof (cases "p = q")
    case True
    have "lp_id q \<notin> set (round_sequence ps)" using absent by (auto simp: round_sequence_def)
    then have "count_list (round_sequence ps) (lp_id q) = 0" by (rule count_notin)
    with True rep show ?thesis by (simp add: round_sequence_def)
  next
    case False
    with Cons absent rep show ?thesis by (auto simp: round_sequence_def)
  qed
qed simp

lemma weighted_select_sequence:
  assumes "lb_sequence b mt = Some s" and "f = filter (\<lambda>i. i \<in> lp_id ` set ps) s" and "f \<noteq> []"
  shows "weighted_select mt ps b =
    (case find (\<lambda>p. lp_id p = f ! ((case lb_counter b mt of None \<Rightarrow> 0 | Some i \<Rightarrow> i) mod length f)) (rev ps) of
        Some p \<Rightarrow> Some p | None \<Rightarrow> (case ps of [] \<Rightarrow> None | p # _ \<Rightarrow> Some p),
     b\<lparr>lb_counter := (lb_counter b)(mt \<mapsto> (case lb_counter b mt of None \<Rightarrow> 0 | Some i \<Rightarrow> i) mod length f + 1)\<rparr>)"
proof -
  have "s \<noteq> []" using assms by auto
  with assms show ?thesis by (simp add: weighted_select_def Let_def)
qed

lemma find_member: "find P xs = Some x \<Longrightarrow> x \<in> set xs \<and> P x"
  by (induction xs) (auto split: if_splits)

lemma find_by_id:
  assumes "distinct (map lp_id ps)" and "p \<in> set ps"
  shows "find (\<lambda>q. lp_id q = lp_id p) (rev ps) = Some p"
proof (cases "find (\<lambda>q. lp_id q = lp_id p) (rev ps)")
  case None
  with assms(2) show ?thesis by (auto simp: find_None_iff)
next
  case (Some q)
  then have "q \<in> set ps" "lp_id q = lp_id p" using find_member[OF Some] by simp_all
  with assms Some show ?thesis by (auto simp: distinct_map dest: inj_onD)
qed

definition by_id :: "llm_provider list \<Rightarrow> string \<Rightarrow> llm_provider option" where
  "by_id ps i = find (\<lambda>p. lp_id p = i) (rev ps)"

lemma selections_rotate:
  assumes "lb_sequence b mt = Some s" and "f = filter (\<lambda>i. i \<in> lp_id ` set ps) s" and "f \<noteq> []"
    and "c = (case lb_counter b mt of None \<Rightarrow> 0 | Some i \<Rightarrow> i)"
  shows "fst (selections k mt ps b) = map (\<lambda>j. by_id ps (f ! ((c + j) mod length f))) [0..<k]"
  using assms(1,4)
proof (induction k arbitrary: b c)
  case (Suc k)
  let ?i = "c mod length f"
  let ?b = "b\<lparr>lb_counter := (lb_counter b)(mt \<mapsto> ?i + 1)\<rparr>"
  have "f ! ?i \<in> set f" using assms(3) by simp
  then have "f ! ?i \<in> lp_id ` set ps" using assms(2) by auto
  then have "by_id ps (f ! ?i) \<noteq> None" by (auto simp: by_id_def find_None_iff)
  then have sel: "weighted_select mt ps b = (by_id ps (f ! ?i), ?b)"
    using weighted_select_sequence[OF Suc.prems(1) assms(2,3)] Suc.prems(2) by (auto simp: by_id_def)
  have "(?i + 1 + j) mod length f = (c + Suc j) mod length f" for j
    using mod_add_left_eq[of c "length f" "Suc j"] by (simp add: ac_simps)
  with Suc.IH[of ?b "?i + 1"] Suc.prems have "fst (selections k mt ps ?b) = map (\<lambda>j. by_id ps (f ! ((c + Suc j) mod length f))) [0..<k]"
    by simp
  with sel show ?case by (simp add: upt_conv_Cons map_Suc_upt[symmetric] comp_def del: upt_Suc
        split: prod.split) (metis fst_conv)
qed simp

lemma round_is_rotation: "map (\<lambda>j. f ! ((c + j) mod length f)) [0..<length f] = rotate c f"
  by (rule nth_equalityI) (simp_all add: nth_rotate add.commute)

lemma count_rotate: "count_list (rotate c f) x = count_list f x"
proof -
  have "count_list (rotate c f) x = count_list (take (c mod length f) f @ drop (c mod length f) f) x"
    unfolding rotate_drop_take by (simp only: count_list_append add.commute)
  then show ?thesis by simp
qed

lemma count_list_image: "\<forall>i \<in> set xs. h i = y \<longleftrightarrow> i = x \<Longrightarrow> count_list (map h xs) y = count_list xs x"
  by (induction xs) auto

lemma filter_round:
  assumes "distinct (map lp_id ps)"
  shows "filter (\<lambda>i. i \<in> lp_id ` set (filter H ps)) (round_sequence ps) = round_sequence (filter H ps)"
proof -
  have "filter (\<lambda>i. i \<in> lp_id ` set (filter H ps)) (round_sequence qs) = round_sequence (filter H qs)" if "set qs \<subseteq> set ps" for qs
    using that
  proof (induction qs)
    case (Cons q qs)
    have "lp_id q \<in> lp_id ` set (filter H ps) \<longleftrightarrow> H q"
      using Cons.prems assms by (auto simp: distinct_map dest: inj_onD)
    with Cons show ?case by (simp add: round_sequence_def filter_replicate)
  qed (simp add: round_sequence_def)
  from this[of ps] show ?thesis by simp
qed

text \<open>
  C16: in one round of selections, as many as the weights of the healthy providers add up to, every healthy
  provider is selected exactly as often as its weight says, wherever the counter of the round stands.
\<close>

theorem weighted_round_is_fair:
  assumes "distinct (map lp_id ps)" and "\<forall>q \<in> set ps. 0 < lp_weight q"
    and "lb_sequence b mt = Some (round_sequence ps)" and "p \<in> set ps" and "H p"
  shows "count_list (fst (selections (length (round_sequence (filter H ps))) mt (filter H ps) b)) (Some p) = nat (lp_weight p)"
proof -
  let ?hs = "filter H ps" and ?f = "round_sequence (filter H ps)"
  obtain c where c: "c = (case lb_counter b mt of None \<Rightarrow> 0 | Some i \<Rightarrow> i)" by simp
  have d: "distinct (map lp_id ?hs)" using assms(1) by (rule distinct_map_filter)
  have "0 < count_list ?f (lp_id p)" using count_round[OF d, of p] assms by simp
  then have ne: "?f \<noteq> []" by auto
  have "fst (selections (length ?f) mt ?hs b) = map (\<lambda>j. by_id ?hs (?f ! ((c + j) mod length ?f))) [0..<length ?f]"
    by (rule selections_rotate[OF assms(3) filter_round[OF assms(1), symmetric] ne c])
  also have "\<dots> = map (by_id ?hs) (map (\<lambda>j. ?f ! ((c + j) mod length ?f)) [0..<length ?f])" by simp
  finally have run: "fst (selections (length ?f) mt ?hs b) = map (by_id ?hs) (rotate c ?f)"
    by (simp only: round_is_rotation)
  have "\<forall>i \<in> set (rotate c ?f). by_id ?hs i = Some p \<longleftrightarrow> i = lp_id p"
    using find_by_id[OF d, of p] assms by (auto simp: by_id_def dest: find_member)
  then have "count_list (map (by_id ?hs) (rotate c ?f)) (Some p) = count_list (rotate c ?f) (lp_id p)"
    by (rule count_list_image)
  then show ?thesis using count_round[OF d, of p] assms run by (simp add: count_rotate)
qed

text \<open>Two of three providers are healthy, with weights 2 and 1; the counter stands beyond the round.\<close>

definition sample_provider :: "string \<Rightarrow> int \<Rightarrow> llm_provider" where
  "sample_provider i w = \<lparr>lp_id = i, lp_type = ''openai'', lp_model = ''m'', lp_key = ''k'', lp_url = ''u'', lp_weight = w,
     lp_max_tokens = None, lp_timeout = 60, lp_extra = []\<rparr>"

definition sample_pool :: "llm_provider list" where
  "sample_pool = [sample_provider ''c'' 3, sample_provider ''a'' 2, sample_provider ''b'' 1]"

definition sample_balancer :: balancer where
  "sample_balancer = (build_rr_sequence ''fast'' sample_pool new_balancer)\<lparr>lb_counter := [''fast'' \<mapsto> 4]\<rparr>"

lemma weighted_round_is_fair_witness:
  "count_list (fst (selections 3 ''fast'' [sample_provider ''a'' 2, sample_provider ''b'' 1] sample_balancer))
     (Some (sample_provider ''a'' 2)) = 2"
proof -
  have hs: "filter (\<lambda>q. lp_id q \<noteq> ''c'') sample_pool = [sample_provider ''a'' 2, sample_provider ''b'' 1]"
    by (simp add: sample_pool_def sample_provider_def)
  have len: "length (round_sequence [sample_provider ''a'' 2, sample_provider ''b'' 1]) = 3"
    by (simp add: round_sequence_def sample_provider_def)
  show ?thesis
    using weighted_round_is_fair[where ps = sample_pool and b = sample_balancer and mt = "''fast''"
        and H = "\<lambda>q. lp_id q \<noteq> ''c''" and p = "sample_provider ''a'' 2", unfolded hs len]
    by (simp add: sample_pool_def sample_balancer_def sample_provider_def build_rr_sequence_def Let_def)
qed

section \<open>Whom a selection may choose\<close>

lemma weighted_select_member:
  assumes "weighted_select mt ps b = (Some p, b')"
  shows "p \<in> set ps"
  using assms
  by (auto simp: weighted_select_def Let_def split: if_splits option.splits list.splits dest: find_member)

text \<open>A selected provider is in the pool and healthy, unless no provider of the pool is.\<close>

lemma selected_is_healthy:
  assumes "load_providers now mt rows b = Some (ps, b')"
    and "select_llm now counter anthropic mt temperature rows b = (Selected p c, b'')"
  shows "p \<in> set ps \<and> (check_health counter (lp_id p) \<or> (\<forall>q \<in> set ps. \<not> check_health counter (lp_id q)))"
proof -
  let ?hs = "filter (\<lambda>p. check_health counter (lp_id p)) ps"
  obtain b1 where "weighted_select mt (if ?hs = [] then ps else ?hs) b' = (Some p, b1)"
    using assms by (auto simp: select_llm_def Let_def split: prod.splits option.splits sum.splits)
  from weighted_select_member[OF this] show ?thesis by (auto simp: filter_empty_conv split: if_splits)
qed

text \<open>
  The clients are kept when the pool is invalidated, so a provider whose key, address or model was changed is
  still called with the client of before the change.
\<close>

lemma stale_client_survives:
  assumes "get_or_create_llm anthropic p temperature b = (Inr c, b1)" and "lp_id p' = lp_id p"
  shows "fst (get_or_create_llm anthropic p' temperature (invalidate_cache b1)) = Inr c"
  using assms by (auto simp: get_or_create_llm_def invalidate_cache_def split: option.splits sum.splits)

end
