(* ===== verification/GatewayV1.thy ===== *)
theory GatewayV1
  imports GatewayAuth
begin

text \<open>
  The first version of the gateway protocol: the events endpoint (\<open>routes/webhooks.py\<close>), the queue in Redis
  (\<open>gateway_event_queue.py\<close>) and the decision sent back (\<open>robotgateway_callback.py\<close>).  The digests, the reading
  of a body, the agent, the exchanges with the gateway and \<open>str\<close> of a value that is no text are parameters; a
  header is a list of its bytes, one for each character.
\<close>

section \<open>The signed request\<close>

datatype v1_code = V1_bad_request | V1_signature_invalid | V1_timestamp_expired | V1_internal_error | V1_service_disabled

text \<open>An answer with the ids received and the duplicates, an error with its status, or an exception nothing catches.\<close>

datatype v1_answer = V1_accepted "string list" "string list" | V1_error v1_code int | V1_raised

record v1_settings =
  v1_sha :: "string \<Rightarrow> string"
  v1_mac :: "string \<Rightarrow> string \<Rightarrow> string"
  v1_secrets :: "string \<rightharpoonup> string"
  v1_tolerance :: int
  v1_enabled :: bool

record v1_request =
  vr_method :: string
  vr_path :: string
  vr_query :: string
  vr_headers :: "(string \<times> string) list"
  vr_body :: string

definition header :: "v1_request \<Rightarrow> string \<Rightarrow> string option" where
  "header rq name = map_of (map (\<lambda>(n, v). (map lower_char n, v)) (vr_headers rq)) name"

text \<open>
  \<open>str.isdigit\<close> also admits the superscripts of Latin-1, which \<open>int\<close> refuses; \<open>int\<close> refuses more than 4300 digits too.
\<close>

definition isdigit :: "string \<Rightarrow> bool" where
  "isdigit s \<longleftrightarrow> s \<noteq> [] \<and> list_all (\<lambda>c. digit c \<or> code c \<in> {178, 179, 185}) s"

definition int_of_digits :: "string \<Rightarrow> int option" where
  "int_of_digits s = (if list_all digit s \<and> length s \<le> 4300 then Some (int (fst (parse_digits 0 s))) else None)"

definition app_secret_for :: "v1_settings \<Rightarrow> string \<Rightarrow> string option" where
  "app_secret_for cfg app = (case v1_secrets cfg app of Some s \<Rightarrow> if s = [] then None else Some s | None \<Rightarrow> None)"

definition v1_signature :: "v1_settings \<Rightarrow> v1_request \<Rightarrow> string \<Rightarrow> string \<Rightarrow> string \<Rightarrow> string" where
  "v1_signature cfg rq secret request_id timestamp =
     v1_mac cfg secret (signing_text (v1_sha cfg) (vr_method rq) (vr_path rq) (vr_body rq) request_id timestamp)"

definition valid_id :: "string option \<Rightarrow> bool" where
  "valid_id v = (case v of Some s \<Rightarrow> IDENTIFIER_PATTERN s | None \<Rightarrow> False)"

text \<open>\<open>None\<close> when the headers are in order.\<close>

definition validate_hmac_headers :: "v1_settings \<Rightarrow> int \<Rightarrow> v1_request \<Rightarrow> v1_answer option" where
  "validate_hmac_headers cfg now rq =
     (if \<not> valid_id (header rq ''x-appid'') \<or> \<not> valid_id (header rq ''x-requestid'')
      then Some (V1_error V1_signature_invalid 401)
      else case header rq ''x-timestampms'' of None \<Rightarrow> Some (V1_error V1_timestamp_expired 401)
      | Some timestamp \<Rightarrow>
          if \<not> isdigit timestamp then Some (V1_error V1_timestamp_expired 401)
          else case header rq ''x-signature'' of None \<Rightarrow> Some (V1_error V1_signature_invalid 401)
          | Some signature \<Rightarrow>
              if \<not> LOWERCASE_SHA256_PATTERN signature then Some (V1_error V1_signature_invalid 401)
              else case int_of_digits timestamp of None \<Rightarrow> Some V1_raised
              | Some t \<Rightarrow>
                  if v1_tolerance cfg < \<bar>now - t\<bar> then Some (V1_error V1_timestamp_expired 401)
                  else case app_secret_for cfg (the (header rq ''x-appid'')) of
                    None \<Rightarrow> Some (V1_error V1_signature_invalid 401)
                  | Some secret \<Rightarrow>
                      if signature \<noteq> v1_signature cfg rq secret (the (header rq ''x-requestid'')) timestamp
                      then Some (V1_error V1_signature_invalid 401) else None)"

definition is_json_request :: "v1_request \<Rightarrow> bool" where
  "is_json_request rq \<longleftrightarrow>
     (let v = map lower_char (case header rq ''content-type'' of None \<Rightarrow> [] | Some v \<Rightarrow> v) in
      take (length ''application/json'') v = ''application/json'')"

definition validate_gateway_event_request :: "v1_settings \<Rightarrow> int \<Rightarrow> v1_request \<Rightarrow> v1_answer option" where
  "validate_gateway_event_request cfg now rq =
     (if vr_query rq \<noteq> [] \<or> \<not> is_json_request rq then Some (V1_error V1_bad_request 400)
      else validate_hmac_headers cfg now rq)"

section \<open>The batch\<close>

text \<open>
  An event with the parts the code looks at; \<open>v1_dump\<close> is its JSON dump, \<open>v1_skills\<close> and \<open>v1_hints\<close> are the
  dictionaries of the payload.
\<close>

record v1_event =
  v1_id :: string
  v1_type :: string
  v1_session :: string
  v1_state_version :: int
  v1_lease :: string
  v1_payload_type :: string
  v1_payload_session :: string
  v1_account :: string
  v1_role :: string
  v1_skills :: "(string \<times> json) list list"
  v1_hints :: "(string \<times> json) list list"
  v1_dump :: json

record v1_batch =
  vb_trace :: string
  vb_gateway :: string
  vb_events :: "v1_event list"

text \<open>The two validators of the models.\<close>

definition validate_identity :: "v1_event \<Rightarrow> bool" where
  "validate_identity e \<longleftrightarrow>
     IDENTIFIER_PATTERN (v1_payload_session e) \<and> IDENTIFIER_PATTERN (v1_account e) \<and> IDENTIFIER_PATTERN (v1_role e)"

definition validate_event_shape :: "v1_event \<Rightarrow> bool" where
  "validate_event_shape e \<longleftrightarrow>
     IDENTIFIER_PATTERN (v1_id e) \<and> IDENTIFIER_PATTERN (v1_session e) \<and> IDENTIFIER_PATTERN (v1_lease e)
     \<and> v1_payload_type e = v1_type e \<and> v1_payload_session e = v1_session e"

definition gateway_event_ids_are_valid :: "v1_event \<Rightarrow> bool" where
  "gateway_event_ids_are_valid e \<longleftrightarrow>
     list_all IDENTIFIER_PATTERN [v1_id e, v1_session e, v1_lease e, v1_payload_session e, v1_account e, v1_role e]"

text \<open>\<open>decode\<close> is \<open>json.loads\<close> and the checks of the fields, \<open>None\<close> when either fails.\<close>

definition parse_v1_batch :: "('b \<Rightarrow> v1_batch option) \<Rightarrow> 'b \<Rightarrow> v1_batch option" where
  "parse_v1_batch decode raw =
     (case decode raw of
        Some b \<Rightarrow> if vb_events b \<noteq> [] \<and> list_all (\<lambda>e. validate_identity e \<and> validate_event_shape e) (vb_events b)
                  then Some b else None
      | None \<Rightarrow> None)"

definition gateway_event_record :: "v1_batch \<Rightarrow> v1_event \<Rightarrow> json" where
  "gateway_event_record b e = JObj [(''traceId'', JStr (vb_trace b)), (''gatewayId'', JStr (vb_gateway b)),
     (''contractVersion'', JStr ''llm-gateway-http-v1''), (''event'', v1_dump e)]"

section \<open>The queue\<close>

text \<open>
  The idempotency keys, and the stream with the entries in the order of their ids: the payload (\<open>None\<close> for an
  entry without one), and of the group the first id not delivered yet and the ids delivered and not
  acknowledged.  A key may expire at any time.
\<close>

record v1_queue =
  q_keys :: "string \<rightharpoonup> string"
  q_stream :: "(nat \<times> string option) list"
  q_next :: nat
  q_read :: nat
  q_pending :: "nat list"

definition empty_queue :: v1_queue where
  "empty_queue = \<lparr>q_keys = Map.empty, q_stream = [], q_next = 0, q_read = 0, q_pending = []\<rparr>"

definition idempotency_key :: "string \<Rightarrow> string" where
  "idempotency_key event_id = ''llm-gateway:event:'' @ event_id"

text \<open>The script Redis runs in one step: 0, -1, or 1 with the new entry in the stream.\<close>

definition enqueue_script :: "string \<Rightarrow> string \<Rightarrow> string \<Rightarrow> v1_queue \<Rightarrow> int \<times> v1_queue" where
  "enqueue_script key hash payload q =
     (case q_keys q key of
        Some existing \<Rightarrow> (if existing = hash then 0 else -1, q)
      | None \<Rightarrow> (1, q\<lparr>q_keys := (q_keys q)(key \<mapsto> hash), q_stream := q_stream q @ [(q_next q, Some payload)],
                      q_next := q_next q + 1\<rparr>))"

datatype enqueue_status = Enq_accepted | Enq_duplicate | Enq_conflict

definition enqueue_gateway_event :: "string \<Rightarrow> string \<Rightarrow> json \<Rightarrow> v1_queue \<Rightarrow> enqueue_status \<times> v1_queue" where
  "enqueue_gateway_event event_id hash record_json q =
     (let (status, q) = enqueue_script (idempotency_key event_id) hash (dumps record_json) q in
      (if status = 1 then Enq_accepted else if status = 0 then Enq_duplicate else Enq_conflict, q))"

text \<open>The script was not reached, it ran and its reply was lost, or it answered.\<close>

datatype redis_outcome = Redis_failed | Redis_lost | Redis_answered

text \<open>
  The loop over the events of a batch: an error ends it where it stands.  \<open>redis\<close> says for each event what
  comes of the script.
\<close>

fun enqueue_events :: "v1_settings \<Rightarrow> (v1_event \<Rightarrow> redis_outcome) \<Rightarrow> v1_batch \<Rightarrow> v1_event list \<Rightarrow> string list \<Rightarrow> string list \<Rightarrow> v1_queue \<Rightarrow> v1_answer \<times> v1_queue" where
  "enqueue_events cfg redis b [] received duplicates q = (V1_accepted received duplicates, q)"
| "enqueue_events cfg redis b (e # es) received duplicates q =
     (if \<not> gateway_event_ids_are_valid e then (V1_error V1_bad_request 400, q)
      else (let rec = gateway_event_record b e;
                (status, q') = enqueue_gateway_event (v1_id e) (v1_sha cfg (dumps rec)) rec q in
        case redis e of
          Redis_failed \<Rightarrow> (V1_error V1_internal_error 500, q)
        | Redis_lost \<Rightarrow> (V1_error V1_internal_error 500, q')
        | Redis_answered \<Rightarrow>
            (case status of
               Enq_accepted \<Rightarrow> enqueue_events cfg redis b es (received @ [v1_id e]) duplicates q'
             | Enq_duplicate \<Rightarrow> enqueue_events cfg redis b es received (duplicates @ [v1_id e]) q'
             | Enq_conflict \<Rightarrow> (V1_error V1_bad_request 400, q'))))"

definition handle_gateway_event ::
  "v1_settings \<Rightarrow> (v1_event \<Rightarrow> redis_outcome) \<Rightarrow> (string \<Rightarrow> v1_batch option) \<Rightarrow> int \<Rightarrow> v1_request \<Rightarrow> v1_queue \<Rightarrow> v1_answer \<times> v1_queue" where
  "handle_gateway_event cfg redis decode now rq q =
     (case validate_gateway_event_request cfg now rq of
        Some answer \<Rightarrow> (answer, q)
      | None \<Rightarrow>
          (case parse_v1_batch decode (vr_body rq) of
             None \<Rightarrow> (V1_error V1_bad_request 400, q)
           | Some b \<Rightarrow>
               if \<not> v1_enabled cfg then (V1_error V1_service_disabled 503, q)
               else enqueue_events cfg redis b (vb_events b) [] [] q))"

section \<open>The decision\<close>

text \<open>A list or a dictionary as a key of a dictionary raises \<open>TypeError\<close>; a key is compared as a JSON value.\<close>

type_synonym skill_key = "json \<times> json"

fun hashable :: "json \<Rightarrow> bool" where
  "hashable (JArr _) = False" | "hashable (JObj _) = False" | "hashable _ = True"

definition mapping_value :: "(string \<times> json) list \<Rightarrow> string list \<Rightarrow> json" where
  "mapping_value m keys =
     (case List.map_filter (map_of m) keys of [] \<Rightarrow> JNull | v # _ \<Rightarrow> v)"

definition skill_key_of :: "(string \<times> json) list \<Rightarrow> skill_key" where
  "skill_key_of m = (mapping_value m [''skillName'', ''SkillName''], mapping_value m [''schemaVersion'', ''SchemaVersion''])"

definition truth :: "json \<Rightarrow> bool" where
  "truth v = (case v of JNull \<Rightarrow> False | JBool b \<Rightarrow> b | JInt i \<Rightarrow> i \<noteq> 0 | JStr s \<Rightarrow> s \<noteq> [] | JArr vs \<Rightarrow> vs \<noteq> [] | JObj kvs \<Rightarrow> kvs \<noteq> [])"

text \<open>The dictionary of the items with a skill name, the last item of a key; \<open>None\<close> when a key raises.\<close>

definition by_skill :: "(string \<times> json) list list \<Rightarrow> (skill_key \<rightharpoonup> (string \<times> json) list) option" where
  "by_skill items =
     (let named = filter (\<lambda>m. truth (fst (skill_key_of m))) items in
      if list_all (\<lambda>m. hashable (fst (skill_key_of m)) \<and> hashable (snd (skill_key_of m))) named
      then Some (map_of (rev (map (\<lambda>m. (skill_key_of m, m)) named))) else None)"

fun flatten_argument_paths :: "json \<Rightarrow> string \<Rightarrow> string list"
  and flatten_members :: "(string \<times> json) list \<Rightarrow> string \<Rightarrow> string list"
  and flatten_items :: "json list \<Rightarrow> string \<Rightarrow> string list" where
  "flatten_argument_paths (JObj kvs) prefix = flatten_members kvs prefix"
| "flatten_argument_paths (JArr vs) prefix = flatten_items vs (prefix @ ''[]'')"
| "flatten_argument_paths v prefix = (if prefix = [] then [] else [prefix])"
| "flatten_members [] prefix = []"
| "flatten_members ((key, child) # kvs) prefix =
     (let path = (if prefix = [] then key else prefix @ ''.'' @ key) in
      path # flatten_argument_paths child path @ flatten_members kvs prefix)"
| "flatten_items [] prefix = []"
| "flatten_items (v # vs) prefix = flatten_argument_paths v prefix @ flatten_items vs prefix"

text \<open>\<open>text_of\<close> is \<open>str\<close> of a value that is no text.\<close>

definition str_of :: "(json \<Rightarrow> string) \<Rightarrow> json \<Rightarrow> string" where
  "str_of text_of v = (case v of JStr s \<Rightarrow> s | _ \<Rightarrow> text_of v)"

text \<open>The paths of the allowed arguments; iterating over a value that is neither list, dictionary nor text raises.\<close>

definition allowed_paths :: "(json \<Rightarrow> string) \<Rightarrow> (string \<times> json) list \<Rightarrow> string list option" where
  "allowed_paths text_of hint =
     (let v = mapping_value hint [''allowedArgs'', ''AllowedArgs''] in
      if \<not> truth v then Some []
      else case v of
        JArr items \<Rightarrow> Some (List.map_filter (\<lambda>item. case item of
            JObj kvs \<Rightarrow> let path = mapping_value kvs [''path'', ''Path''] in if truth path then Some (str_of text_of path) else None
          | _ \<Rightarrow> None) items)
      | JObj _ \<Rightarrow> Some []
      | JStr _ \<Rightarrow> Some []
      | _ \<Rightarrow> None)"

definition path_allowed :: "string list \<Rightarrow> string \<Rightarrow> bool" where
  "path_allowed allowed path \<longleftrightarrow>
     path \<in> set allowed \<or> list_ex (\<lambda>a. take (length a + 1) path = a @ ''.'') allowed"

definition action_matches_hint :: "(json \<Rightarrow> string) \<Rightarrow> (string \<times> json) list \<Rightarrow> (string \<times> json) list option \<Rightarrow> bool option" where
  "action_matches_hint text_of action hint =
     (case hint of None \<Rightarrow> Some True
      | Some h \<Rightarrow>
          if truth (mapping_value h [''missingArgs'', ''MissingArgs'']) then Some False
          else (case (case map_of action ''arguments'' of None \<Rightarrow> JObj [] | Some v \<Rightarrow> v) of
              JObj args \<Rightarrow>
                (case allowed_paths text_of h of
                   None \<Rightarrow> None
                 | Some allowed \<Rightarrow>
                     if allowed = [] then Some (args = [])
                     else Some (list_all (path_allowed allowed) (flatten_argument_paths (JObj args) [])))
            | _ \<Rightarrow> Some False))"

text \<open>\<open>action.get(a) or action.get(b) or d\<close>\<close>

definition get_or :: "(string \<times> json) list \<Rightarrow> string \<Rightarrow> string \<Rightarrow> json \<Rightarrow> json" where
  "get_or m a b d =
     (case map_of m a of Some v \<Rightarrow> if truth v then v else (case map_of m b of Some w \<Rightarrow> if truth w then w else d | None \<Rightarrow> d)
      | None \<Rightarrow> (case map_of m b of Some w \<Rightarrow> if truth w then w else d | None \<Rightarrow> d))"

text \<open>\<open>action.get(a) or action.get(b)\<close>\<close>

definition get_either :: "(string \<times> json) list \<Rightarrow> string \<Rightarrow> string \<Rightarrow> json" where
  "get_either m a b =
     (let other = (case map_of m b of None \<Rightarrow> JNull | Some w \<Rightarrow> w) in
      case map_of m a of Some v \<Rightarrow> if truth v then v else other | None \<Rightarrow> other)"

text \<open>The reason of the fallback, in Chinese, as its UTF-8 bytes; the confidence 0.0 is written as 0.\<close>

definition WAIT_REASON :: string where
  "WAIT_REASON = map char_of
    ([65, 103, 101, 110, 116, 32, 230, 178, 161, 230, 156, 137, 231, 148, 159, 230, 136, 144, 229, 189, 147, 229,
     137, 141, 32, 71, 97, 116, 101, 119, 97, 121, 32, 229, 133, 129, 232, 174, 184, 228, 184, 148, 229, 143,
     130, 230, 149, 176, 229, 174, 140, 230, 149, 180, 231, 154, 132, 32, 115, 107, 105, 108, 108, 239, 188,
     140, 231, 173, 137, 229, 190, 133, 228, 184, 139, 228, 184, 128, 230, 172, 161, 232, 167, 130, 229, 175,
     159] :: nat list)"

definition WAIT_ACTION :: "(string \<times> json) list" where
  "WAIT_ACTION = [(''action'', JStr ''wait''), (''arguments'', JObj [(''waitMs'', JInt 1000)]),
     (''reason'', JStr WAIT_REASON), (''confidence'', JInt 0), (''ttlMs'', JInt 1000)]"

text \<open>
  The first action the gateway offers and whose hint it satisfies, with its names written back; \<open>None\<close> when
  an exception is raised.
\<close>

fun select_from ::
  "(json \<Rightarrow> string) \<Rightarrow> (skill_key \<rightharpoonup> (string \<times> json) list) \<Rightarrow> (skill_key \<rightharpoonup> (string \<times> json) list) \<Rightarrow> json list
     \<Rightarrow> (string \<times> json) list option" where
  "select_from text_of available hints [] = Some WAIT_ACTION"
| "select_from text_of available hints (JObj action # actions) =
     (let key = (get_either action ''skillName'' ''SkillName'', get_or action ''schemaVersion'' ''SchemaVersion'' (JStr ''v1'')) in
      if \<not> hashable (fst key) \<or> \<not> hashable (snd key) then None
      else if available key = None then select_from text_of available hints actions
      else case action_matches_hint text_of action (hints key) of
        None \<Rightarrow> None
      | Some False \<Rightarrow> select_from text_of available hints actions
      | Some True \<Rightarrow> Some (AList.update ''schemaVersion'' (snd key) (AList.update ''skillName'' (fst key) action)))"
| "select_from text_of available hints (_ # actions) = select_from text_of available hints actions"

definition select_gateway_action :: "(json \<Rightarrow> string) \<Rightarrow> json list \<Rightarrow> v1_event \<Rightarrow> (string \<times> json) list option" where
  "select_gateway_action text_of actions e =
     (case by_skill (v1_skills e) of None \<Rightarrow> None
      | Some available \<Rightarrow>
          (case by_skill (v1_hints e) of None \<Rightarrow> None
           | Some hints \<Rightarrow> select_from text_of available hints actions))"

text \<open>The body of the decision; \<open>None\<close> is a \<open>ValueError\<close>.  \<open>number\<close> is \<open>float\<close> of a finite number.\<close>

definition non_blank_string :: "json option \<Rightarrow> string option" where
  "non_blank_string v = (case v of Some (JStr s) \<Rightarrow> if s = [] \<or> py_strip s \<noteq> s then None else Some s | _ \<Rightarrow> None)"

definition non_negative_int :: "json \<Rightarrow> int option" where
  "non_negative_int v = (case v of JInt n \<Rightarrow> if n < 0 then None else Some n | _ \<Rightarrow> None)"

definition member_or :: "(string \<times> json) list \<Rightarrow> string \<Rightarrow> json \<Rightarrow> json" where
  "member_or m k d = (case map_of m k of None \<Rightarrow> d | Some v \<Rightarrow> v)"

definition action_members :: "(string \<times> json) list \<Rightarrow> (string \<times> json) list option" where
  "action_members action =
     (case member_or action ''action'' (JStr ''call_skill'') of
        JStr a \<Rightarrow>
          if a = ''call_skill'' then
            (case (non_blank_string (map_of action ''skillName''), non_blank_string (map_of action ''schemaVersion''),
                   map_of action ''arguments'') of
               (Some skill, Some schema, Some (JObj args)) \<Rightarrow>
                 Some [(''skillName'', JStr skill), (''schemaVersion'', JStr schema), (''arguments'', JObj args)]
             | _ \<Rightarrow> None)
          else if a = ''wait'' then
            (case map_of action ''arguments'' of
               None \<Rightarrow> Some []
             | Some (JObj args) \<Rightarrow>
                 if list_all (\<lambda>(k, v). k = ''waitMs'' \<and> non_negative_int v \<noteq> None) args
                 then Some [(''arguments'', JObj args)] else None
             | Some _ \<Rightarrow> None)
          else if a = ''stop_hosting'' then (if map_of action ''arguments'' = None then Some [] else None)
          else None
      | _ \<Rightarrow> None)"

definition build_llm_gateway_decision_payload ::
  "(json \<Rightarrow> json option) \<Rightarrow> (json \<Rightarrow> string) \<Rightarrow> string \<Rightarrow> v1_event \<Rightarrow> (string \<times> json) list \<Rightarrow> json option" where
  "build_llm_gateway_decision_payload number text_of trace e action =
     (case (non_blank_string (Some (JStr trace)), non_blank_string (Some (JStr (v1_session e))),
            non_negative_int (JInt (v1_state_version e)), number (member_or action ''confidence'' (JInt 0)),
            non_negative_int (member_or action ''ttlMs'' (JInt 30000)), action_members action) of
        (Some t, Some s, Some version, Some confidence, Some ttl, Some members) \<Rightarrow>
          Some (JObj ([(''traceId'', JStr t), (''contractVersion'', JStr ''llm-gateway-http-v1''), (''sessionId'', JStr s),
            (''decisionId'', JStr (''decision-'' @ v1_id e)), (''decisionLeaseId'', JStr (v1_lease e)),
            (''stateVersion'', JInt version), (''action'', member_or action ''action'' (JStr ''call_skill'')),
            (''reason'', JStr (str_of text_of (get_or action ''reason'' ''reason'' (JStr ''Agent decision'')))),
            (''confidence'', confidence), (''ttlMs'', JInt ttl)] @ members))
      | _ \<Rightarrow> None)"

section \<open>The answer of the gateway\<close>

definition REJECTED_REASONS :: "string list" where
  "REJECTED_REASONS = [''lease_expired'', ''lease_not_found'', ''lease_session_mismatch'', ''stale_state'', ''schema_invalid'',
     ''skill_not_allowed'', ''skill_not_found'', ''state_not_allowed'', ''skill_in_progress'', ''session_not_running'',
     ''circuit_breaker_open'', ''idempotency_key_conflict'']"

text \<open>The category of the error of an answer, \<open>None\<close> when it is in order.\<close>

definition validate_llm_gateway_decision_response :: "(string \<times> json) list \<Rightarrow> string option" where
  "validate_llm_gateway_decision_response p =
     (let status = map_of p ''status''; reason = map_of p ''reason''; accepted = map_of p ''accepted'' in
      if \<not> (case accepted of None \<Rightarrow> True | Some JNull \<Rightarrow> True | Some (JBool _) \<Rightarrow> True | _ \<Rightarrow> False)
      then Some ''accepted_type_invalid''
      else if status = Some (JStr ''accepted'') then
        (if accepted = Some (JBool False) then Some ''accepted_flag_invalid''
         else if reason \<noteq> Some (JStr ''ok'') then Some ''accepted_reason_invalid''
         else (case map_of p ''skillCallId'' of
             None \<Rightarrow> None | Some JNull \<Rightarrow> None
           | Some (JStr s) \<Rightarrow> if s = [] then Some ''skill_call_id_invalid'' else None
           | Some _ \<Rightarrow> Some ''skill_call_id_invalid''))
      else if status = Some (JStr ''rejected'') then
        (if \<not> (case reason of Some (JStr r) \<Rightarrow> r \<in> set REJECTED_REASONS | _ \<Rightarrow> False) then Some ''rejected_reason_invalid''
         else if map_of p ''skillCallId'' \<noteq> None then Some ''rejected_skill_call_id_invalid'' else None)
      else if status = Some (JStr ''duplicate'') then
        (if accepted = Some (JBool True) then Some ''duplicate_flag_invalid'' else None)
      else Some ''response_status_invalid'')"

text \<open>What comes of a POST: no connection, a status of an error, a body that is not JSON, or JSON.\<close>

datatype v1_posted = Posted_request_error | Posted_status_error | Posted_not_json | Posted_json json

definition read_posted :: "v1_posted \<Rightarrow> string + (string \<times> json) list" where
  "read_posted r =
     (case r of
        Posted_request_error \<Rightarrow> Inl ''request_failed''
      | Posted_status_error \<Rightarrow> Inl ''http_status_invalid''
      | Posted_not_json \<Rightarrow> Inl ''response_not_json''
      | Posted_json (JObj p) \<Rightarrow>
          (case validate_llm_gateway_decision_response p of Some c \<Rightarrow> Inl c | None \<Rightarrow> Inr p)
      | Posted_json _ \<Rightarrow> Inl ''response_object_invalid'')"

text \<open>The attempts left after the one numbered \<open>k\<close>: only a request error is tried again.\<close>

fun post_attempts :: "(nat \<Rightarrow> v1_posted) \<Rightarrow> nat \<Rightarrow> nat \<Rightarrow> string + (string \<times> json) list" where
  "post_attempts post k 0 = read_posted (post k)"
| "post_attempts post k (Suc left) =
     (case post k of Posted_request_error \<Rightarrow> post_attempts post (k + 1) left | r \<Rightarrow> read_posted r)"

definition send_llm_gateway_decision :: "int \<Rightarrow> (nat \<Rightarrow> v1_posted) \<Rightarrow> string + (string \<times> json) list" where
  "send_llm_gateway_decision max_retries post = post_attempts post 0 (nat max_retries)"

text \<open>
  One event: \<open>agent\<close> is the list of recommended actions, \<open>None\<close> when the agent fails.  The result is whether
  the processing ends without an exception.
\<close>

definition process_v1_event ::
  "(json \<Rightarrow> json option) \<Rightarrow> (json \<Rightarrow> string) \<Rightarrow> bool \<Rightarrow> json list option \<Rightarrow> int \<Rightarrow> (json \<Rightarrow> nat \<Rightarrow> v1_posted) \<Rightarrow> string \<Rightarrow> v1_event \<Rightarrow> bool" where
  "process_v1_event number text_of configured agent max_retries post trace e =
     (if \<not> configured then False
      else case agent of None \<Rightarrow> False
      | Some actions \<Rightarrow>
          (case select_gateway_action text_of actions e of None \<Rightarrow> False
           | Some action \<Rightarrow>
               (case build_llm_gateway_decision_payload number text_of trace e action of None \<Rightarrow> False
                | Some body \<Rightarrow> \<not> isl (send_llm_gateway_decision max_retries (post body)))))"

section \<open>The consumer\<close>

definition acknowledge_entry :: "nat \<Rightarrow> v1_queue \<Rightarrow> v1_queue" where
  "acknowledge_entry i q = q\<lparr>q_pending := filter (\<lambda>j. j \<noteq> i) (q_pending q)\<rparr>"

text \<open>\<open>succeeds\<close> says whether decoding and processing a payload end without an exception.\<close>

fun process_messages :: "(string \<Rightarrow> bool) \<Rightarrow> (nat \<times> string option) list \<Rightarrow> v1_queue \<Rightarrow> v1_queue" where
  "process_messages succeeds [] q = q"
| "process_messages succeeds ((i, payload) # ms) q =
     process_messages succeeds ms
       (case payload of
          None \<Rightarrow> acknowledge_entry i q
        | Some p \<Rightarrow> if p = [] \<or> succeeds p then acknowledge_entry i q else q)"

text \<open>\<open>XREADGROUP\<close> delivers up to ten new entries, \<open>XAUTOCLAIM\<close> up to ten of the pending ones chosen by their idle time.\<close>

definition read_new :: "nat \<Rightarrow> v1_queue \<Rightarrow> (nat \<times> string option) list \<times> v1_queue" where
  "read_new n q =
     (let ms = take n (filter (\<lambda>(i, _). q_read q \<le> i) (q_stream q)) in
      (ms, q\<lparr>q_read := (if ms = [] then q_read q else fst (last ms) + 1), q_pending := q_pending q @ map fst ms\<rparr>))"

definition claim_pending :: "nat set \<Rightarrow> v1_queue \<Rightarrow> (nat \<times> string option) list" where
  "claim_pending idle q = take 10 (filter (\<lambda>(i, _). i \<in> set (q_pending q) \<and> i \<in> idle) (q_stream q))"

text \<open>One turn of the worker: pending entries when it is time for them, then new ones.\<close>

definition worker_turn :: "(string \<Rightarrow> bool) \<Rightarrow> nat set option \<Rightarrow> v1_queue \<Rightarrow> v1_queue" where
  "worker_turn succeeds idle q =
     (let q = (case idle of None \<Rightarrow> q | Some ids \<Rightarrow> process_messages succeeds (claim_pending ids q) q);
          (ms, q) = read_new 10 q in
      process_messages succeeds ms q)"

section \<open>Every event is in the stream once\<close>

definition v1_hash :: "v1_settings \<Rightarrow> v1_batch \<Rightarrow> v1_event \<Rightarrow> string" where
  "v1_hash cfg b e = v1_sha cfg (dumps (gateway_event_record b e))"

text \<open>The events of a batch that are not stored, each at its first occurrence.\<close>

fun fresh_events :: "string set \<Rightarrow> v1_event list \<Rightarrow> v1_event list" where
  "fresh_events known [] = []"
| "fresh_events known (e # es) =
     (if v1_id e \<in> known then fresh_events known es else e # fresh_events (insert (v1_id e) known) es)"

definition known_ids :: "v1_queue \<Rightarrow> string set" where
  "known_ids q = {i. q_keys q (idempotency_key i) \<noteq> None}"

lemma key_inject [simp]: "idempotency_key i = idempotency_key j \<longleftrightarrow> i = j"
  by (simp add: idempotency_key_def)

lemma fresh_events_ids:
  "distinct (map v1_id (fresh_events known es)) \<and> v1_id ` set (fresh_events known es) = v1_id ` set es - known"
  by (induction known es rule: fresh_events.induct) auto

lemma enqueue_gateway_event_cases:
  "enqueue_gateway_event i h r q =
     (case q_keys q (idempotency_key i) of
        Some g \<Rightarrow> (if g = h then Enq_duplicate else Enq_conflict, q)
      | None \<Rightarrow> (Enq_accepted, q\<lparr>q_keys := (q_keys q)(idempotency_key i \<mapsto> h),
          q_stream := q_stream q @ [(q_next q, Some (dumps r))], q_next := q_next q + 1\<rparr>))"
  by (simp add: enqueue_gateway_event_def enqueue_script_def split: option.split)

lemma enqueued_batch:
  assumes "enqueue_events cfg redis b es received duplicates q = (V1_accepted rs ds, q')"
  shows "rs = received @ map v1_id (fresh_events (known_ids q) es)
    \<and> length rs + length ds = length received + length duplicates + length es
    \<and> set rs \<union> set ds = set received \<union> set duplicates \<union> v1_id ` set es
    \<and> q_stream q' = q_stream q @ map (\<lambda>(n, e). (n, Some (dumps (gateway_event_record b e))))
         (enumerate (q_next q) (fresh_events (known_ids q) es))
    \<and> (\<forall>e \<in> set es. q_keys q' (idempotency_key (v1_id e)) = Some (v1_hash cfg b e))
    \<and> q_keys q \<subseteq>\<^sub>m q_keys q'"
  using assms
proof (induction es arbitrary: received duplicates q)
  case Nil
  then show ?case by simp
next
  case (Cons e es)
  let ?rec = "gateway_event_record b e" and ?k = "idempotency_key (v1_id e)"
  show ?case
  proof (cases "q_keys q ?k")
    case None
    let ?q = "q\<lparr>q_keys := (q_keys q)(?k \<mapsto> v1_hash cfg b e), q_stream := q_stream q @ [(q_next q, Some (dumps ?rec))],
      q_next := q_next q + 1\<rparr>"
    have rest: "enqueue_events cfg redis b es (received @ [v1_id e]) duplicates ?q = (V1_accepted rs ds, q')"
      using Cons.prems None
      by (simp add: Let_def enqueue_gateway_event_cases v1_hash_def split: if_splits redis_outcome.splits)
    have "known_ids ?q = insert (v1_id e) (known_ids q)" by (auto simp: known_ids_def)
    moreover have "v1_id e \<notin> known_ids q" using None by (simp add: known_ids_def)
    moreover have "q_keys q \<subseteq>\<^sub>m q_keys ?q" using None by (auto simp: map_le_def)
    then have "q_keys q \<subseteq>\<^sub>m q_keys q'" using Cons.IH[OF rest] map_le_trans by blast
    moreover from Cons.IH[OF rest] have "q_keys q' ?k = Some (v1_hash cfg b e)"
      by (auto simp: map_le_def dom_def)
    ultimately show ?thesis using Cons.IH[OF rest] by auto
  next
    case (Some g)
    have rest: "enqueue_events cfg redis b es received (duplicates @ [v1_id e]) q = (V1_accepted rs ds, q')"
      and g: "g = v1_hash cfg b e"
      using Cons.prems Some
      by (simp_all add: Let_def enqueue_gateway_event_cases v1_hash_def split: if_splits redis_outcome.splits)
    have "v1_id e \<in> known_ids q" using Some by (simp add: known_ids_def)
    moreover from Cons.IH[OF rest] Some g have "q_keys q' ?k = Some (v1_hash cfg b e)"
      by (auto simp: map_le_def dom_def)
    ultimately show ?thesis using Cons.IH[OF rest] by auto
  qed
qed

text \<open>
  A batch that is accepted was signed within the tolerance with the secret of its application, and is in
  the queue: the ids answered as received are exactly the new ones, each once, the others duplicates; the
  stream gets one entry for every new event, in the order of the batch and behind the others, and every event
  of the batch is known under the hash of its record.
\<close>

theorem v1_accepted_batch_is_queued:
  assumes "handle_gateway_event cfg redis decode now rq q = (V1_accepted rs ds, q')"
  shows "\<exists>b. decode (vr_body rq) = Some b
    \<and> (\<exists>app secret request_id timestamp t. header rq ''x-appid'' = Some app \<and> app_secret_for cfg app = Some secret
         \<and> header rq ''x-requestid'' = Some request_id \<and> header rq ''x-timestampms'' = Some timestamp
         \<and> int_of_digits timestamp = Some t \<and> \<bar>now - t\<bar> \<le> v1_tolerance cfg
         \<and> header rq ''x-signature'' = Some (v1_signature cfg rq secret request_id timestamp))
    \<and> distinct rs \<and> set rs = v1_id ` set (vb_events b) - known_ids q
    \<and> set rs \<union> set ds = v1_id ` set (vb_events b) \<and> length rs + length ds = length (vb_events b)
    \<and> q_stream q' = q_stream q @ map (\<lambda>(n, e). (n, Some (dumps (gateway_event_record b e))))
         (enumerate (q_next q) (fresh_events (known_ids q) (vb_events b)))
    \<and> (\<forall>e \<in> set (vb_events b). q_keys q' (idempotency_key (v1_id e)) = Some (v1_hash cfg b e))"
proof -
  from assms obtain b where v: "validate_gateway_event_request cfg now rq = None" and "parse_v1_batch decode (vr_body rq) = Some b"
    and e: "enqueue_events cfg redis b (vb_events b) [] [] q = (V1_accepted rs ds, q')"
    by (auto simp: handle_gateway_event_def split: option.splits if_splits)
      (auto simp: validate_gateway_event_request_def validate_hmac_headers_def split: option.splits if_splits)
  then have d: "decode (vr_body rq) = Some b" by (auto simp: parse_v1_batch_def split: option.splits if_splits)
  have "\<exists>app secret request_id timestamp t. header rq ''x-appid'' = Some app \<and> app_secret_for cfg app = Some secret
      \<and> header rq ''x-requestid'' = Some request_id \<and> header rq ''x-timestampms'' = Some timestamp
      \<and> int_of_digits timestamp = Some t \<and> \<bar>now - t\<bar> \<le> v1_tolerance cfg
      \<and> header rq ''x-signature'' = Some (v1_signature cfg rq secret request_id timestamp)"
    using v by (auto simp: validate_gateway_event_request_def validate_hmac_headers_def valid_id_def split: option.splits if_splits)
  with d show ?thesis
    using enqueued_batch[OF e] fresh_events_ids[of "known_ids q" "vb_events b"] by auto
qed

section \<open>No delivered event is lost\<close>

text \<open>Requests and turns of the worker in any order; the first argument holds the payloads some processing succeeded on.\<close>

inductive v1_run :: "string set \<Rightarrow> v1_queue \<Rightarrow> bool" where
  run_start: "v1_run {} empty_queue"
| run_request: "v1_run S q \<Longrightarrow> handle_gateway_event cfg redis decode now rq q = (answer, q') \<Longrightarrow> v1_run S q'"
| run_worker: "v1_run S q \<Longrightarrow> v1_run (S \<union> {p. succeeds p}) (worker_turn succeeds idle q)"
| run_expire: "v1_run S q \<Longrightarrow> v1_run S (q\<lparr>q_keys := (q_keys q)(key := None)\<rparr>)"

definition stream_ok :: "v1_queue \<Rightarrow> bool" where
  "stream_ok q \<longleftrightarrow> sorted_wrt (<) (map fst (q_stream q)) \<and> (\<forall>i \<in> fst ` set (q_stream q). i < q_next q) \<and> q_read q \<le> q_next q"

definition ended :: "string set \<Rightarrow> string option \<Rightarrow> bool" where
  "ended S payload \<longleftrightarrow> (case payload of None \<Rightarrow> True | Some p \<Rightarrow> p = [] \<or> p \<in> S)"

definition nothing_lost :: "string set \<Rightarrow> v1_queue \<Rightarrow> bool" where
  "nothing_lost S q \<longleftrightarrow>
     stream_ok q \<and> (\<forall>(i, payload) \<in> set (q_stream q). i < q_read q \<longrightarrow> i \<in> set (q_pending q) \<or> ended S payload)"

lemma stream_ok_unique: "stream_ok q \<Longrightarrow> (i, p) \<in> set (q_stream q) \<Longrightarrow> (i, r) \<in> set (q_stream q) \<Longrightarrow> p = r"
  unfolding stream_ok_def by (metis distinct_map eq_key_imp_eq_value strict_sorted_iff)

lemma acknowledge_fields [simp]:
  "q_stream (acknowledge_entry i q) = q_stream q" "q_read (acknowledge_entry i q) = q_read q"
  "q_next (acknowledge_entry i q) = q_next q" "q_pending (acknowledge_entry i q) = filter (\<lambda>j. j \<noteq> i) (q_pending q)"
  by (simp_all add: acknowledge_entry_def)

lemma process_messages_fields [simp]:
  "q_stream (process_messages f ms q) = q_stream q" "q_read (process_messages f ms q) = q_read q"
  "q_next (process_messages f ms q) = q_next q"
  by (induction f ms q rule: process_messages.induct) (simp_all split: option.split)

lemma process_message:
  "process_messages f ((i, payload) # ms) q =
     process_messages f ms (if ended {p. f p} payload then acknowledge_entry i q else q)"
  by (cases payload) (simp_all add: ended_def)

lemma process_messages_pending:
  "i \<in> set (q_pending q) \<Longrightarrow>
     i \<in> set (q_pending (process_messages f ms q)) \<or> (\<exists>payload. (i, payload) \<in> set ms \<and> ended {p. f p} payload)"
proof (induction ms arbitrary: q)
  case (Cons m ms)
  obtain j payload where m: "m = (j, payload)" by fastforce
  show ?case
  proof (cases "ended {p. f p} payload \<and> i = j")
    case True
    with m show ?thesis by auto
  next
    case False
    then have "i \<in> set (q_pending (if ended {p. f p} payload then acknowledge_entry j q else q))"
      using Cons.prems by simp
    from Cons.IH[OF this] m show ?thesis unfolding process_message m by auto
  qed
qed simp

lemma process_messages_keeps:
  assumes "nothing_lost S q" and "set ms \<subseteq> set (q_stream q)"
  shows "nothing_lost (S \<union> {p. f p}) (process_messages f ms q)"
proof -
  have grow: "ended S payload \<Longrightarrow> ended (S \<union> {p. f p}) payload" "ended {p. f p} payload \<Longrightarrow> ended (S \<union> {p. f p}) payload" for payload
    by (auto simp: ended_def split: option.splits)
  have "i \<in> set (q_pending (process_messages f ms q)) \<or> ended (S \<union> {p. f p}) payload"
    if "(i, payload) \<in> set (q_stream q)" "i < q_read q" for i payload
    using assms process_messages_pending[of i q f ms] stream_ok_unique[of q i payload] grow that
    unfolding nothing_lost_def by blast
  then show ?thesis using assms(1) by (auto simp: nothing_lost_def stream_ok_def)
qed

lemma sorted_cut:
  fixes r :: nat
  assumes "sorted_wrt (<) (map fst xs)" and "ys = filter (\<lambda>(i, _). r \<le> i) xs" and "(i, p) \<in> set xs" and "r \<le> i"
    and "take n ys \<noteq> []" and "i \<le> fst (last (take n ys))"
  shows "(i, p) \<in> set (take n ys)"
proof (rule ccontr)
  assume out: "(i, p) \<notin> set (take n ys)"
  have "(i, p) \<in> set ys" using assms(2-4) by auto
  then have "(i, p) \<in> set (drop n ys)" using out by (metis Un_iff append_take_drop_id set_append)
  moreover have "sorted_wrt (<) (map fst ys)" using assms(1,2) by (simp add: sorted_wrt_map sorted_wrt_filter)
  then have "sorted_wrt (<) (map fst (take n ys) @ map fst (drop n ys))" by (simp flip: map_append)
  ultimately have "fst (last (take n ys)) < i"
    using assms(5) unfolding sorted_wrt_append by (metis fst_conv image_eqI last_in_set list.set_map)
  with assms(6) show False by simp
qed

lemma read_new_keeps:
  assumes "nothing_lost S q" and "read_new n q = (ms, q')"
  shows "nothing_lost S q' \<and> set ms \<subseteq> set (q_stream q')"
proof -
  let ?ys = "filter (\<lambda>(i, _). q_read q \<le> i) (q_stream q)"
  have ms: "ms = take n ?ys" and q': "q' = q\<lparr>q_read := (if ms = [] then q_read q else fst (last ms) + 1),
      q_pending := q_pending q @ map fst ms\<rparr>"
    using assms(2) by (auto simp: read_new_def Let_def)
  have sub: "set ms \<subseteq> set (q_stream q)" using ms by (auto dest!: in_set_takeD)
  have "ms \<noteq> [] \<Longrightarrow> fst (last ms) < q_next q"
    using sub assms(1) last_in_set[of ms] unfolding nothing_lost_def stream_ok_def by blast
  moreover have kept: "i \<in> set (q_pending q') \<or> ended S payload"
    if "(i, payload) \<in> set (q_stream q)" "i < q_read q'" for i payload
  proof (cases "i < q_read q")
    case True
    with assms(1) that show ?thesis unfolding nothing_lost_def q' by auto
  next
    case False
    with that q' have "ms \<noteq> []" "i \<le> fst (last ms)" by (auto split: if_splits)
    with sorted_cut[where r = "q_read q" and n = n, OF _ refl that(1)] False assms(1) ms have "(i, payload) \<in> set ms"
      by (auto simp: nothing_lost_def stream_ok_def)
    then show ?thesis by (force simp: q')
  qed
  ultimately have "stream_ok q'" using assms(1) by (auto simp: nothing_lost_def stream_ok_def q')
  moreover have "q_stream q' = q_stream q" by (simp add: q')
  ultimately show ?thesis using kept sub by (auto simp: nothing_lost_def)
qed

lemma enqueue_keeps: "nothing_lost S q \<Longrightarrow> nothing_lost S (snd (enqueue_gateway_event i h r q))"
  by (auto simp: enqueue_gateway_event_cases nothing_lost_def stream_ok_def sorted_wrt_append split: option.splits)

lemma enqueue_events_keep: "nothing_lost S q \<Longrightarrow> nothing_lost S (snd (enqueue_events cfg redis b es rs ds q))"
proof (induction es arbitrary: rs ds q)
  case (Cons e es)
  let ?rec = "gateway_event_record b e"
  obtain status q1 where q1: "enqueue_gateway_event (v1_id e) (v1_sha cfg (dumps ?rec)) ?rec q = (status, q1)" by fastforce
  with enqueue_keeps[OF Cons.prems] have "nothing_lost S q1" by (metis snd_conv)
  with Cons q1 show ?case by (auto simp: Let_def split: redis_outcome.split enqueue_status.split)
qed simp

lemma run_loses_nothing: "v1_run S q \<Longrightarrow> nothing_lost S q"
proof (induction rule: v1_run.induct)
  case run_start
  then show ?case by (simp add: nothing_lost_def stream_ok_def empty_queue_def)
next
  case (run_request S q cfg redis decode now rq answer q')
  have "nothing_lost S (snd (handle_gateway_event cfg redis decode now rq q))"
    using enqueue_events_keep[OF run_request.IH] run_request.IH
    by (simp add: handle_gateway_event_def split: option.split)
  with run_request.hyps(2) show ?case by simp
next
  case (run_worker S q succeeds idle)
  let ?q = "case idle of None \<Rightarrow> q | Some ids \<Rightarrow> process_messages succeeds (claim_pending ids q) q"
  have "set (claim_pending ids q) \<subseteq> set (q_stream q)" for ids by (auto simp: claim_pending_def dest!: in_set_takeD)
  then have claimed: "nothing_lost (S \<union> {p. succeeds p}) ?q"
    using process_messages_keeps[OF run_worker.IH] process_messages_keeps[OF run_worker.IH, where ms = "[]"]
    by (auto split: option.split)
  obtain ms q1 where r: "read_new 10 ?q = (ms, q1)" by fastforce
  from read_new_keeps[OF claimed r] have "nothing_lost (S \<union> {p. succeeds p} \<union> {p. succeeds p}) (process_messages succeeds ms q1)"
    using process_messages_keeps by blast
  with r show ?case by (simp add: worker_turn_def Let_def)
next
  case (run_expire S q key)
  then show ?case by (simp add: nothing_lost_def stream_ok_def)
qed

text \<open>
  Whatever requests come, keys expire and turns the worker takes, an entry of the stream that was
  delivered to the worker is still pending, so it will be claimed again, until some processing of its payload
  succeeded; only entries without a payload are dropped.
\<close>

theorem delivered_event_is_not_lost:
  assumes "v1_run S q" and "(i, payload) \<in> set (q_stream q)"
  shows "q_read q \<le> i \<or> i \<in> set (q_pending q) \<or> payload \<in> {None, Some []} \<or> (\<exists>p \<in> S. payload = Some p)"
  using run_loses_nothing[OF assms(1)] assms(2)
  by (cases payload) (force simp: nothing_lost_def ended_def)+

text \<open>An event whose processing never succeeds stays pending for ever: no number of attempts ends it.\<close>

lemma failing_event_stays_pending:
  assumes "v1_run S q" and "(i, Some p) \<in> set (q_stream q)" and "i < q_read q" and "p \<noteq> []" and "p \<notin> S"
  shows "i \<in> set (q_pending q)"
  using run_loses_nothing[OF assms(1)] assms(2-) by (force simp: nothing_lost_def ended_def)

section \<open>The selected action\<close>

text \<open>Whatever the agent recommends, the action is the wait or one the gateway offers and whose hint it satisfies.\<close>

definition offered :: "(json \<Rightarrow> string) \<Rightarrow> (skill_key \<rightharpoonup> (string \<times> json) list) \<Rightarrow> (skill_key \<rightharpoonup> (string \<times> json) list) \<Rightarrow>
    json list \<Rightarrow> (string \<times> json) list \<Rightarrow> bool" where
  "offered text_of available hints actions a \<longleftrightarrow>
     (\<exists>action name schema. JObj action \<in> set actions \<and> available (name, schema) \<noteq> None
        \<and> action_matches_hint text_of action (hints (name, schema)) = Some True
        \<and> a = AList.update ''schemaVersion'' schema (AList.update ''skillName'' name action))"

lemma offered_Cons: "offered text_of available hints actions a \<Longrightarrow> offered text_of available hints (x # actions) a"
  by (auto simp: offered_def)

lemma selected_from_is_offered:
  "select_from text_of available hints actions = Some a \<Longrightarrow> a = WAIT_ACTION \<or> offered text_of available hints actions a"
proof (induction actions)
  case (Cons x actions)
  show ?case
  proof (cases "select_from text_of available hints actions = Some a")
    case True
    with Cons.IH show ?thesis by (blast intro: offered_Cons)
  next
    case False
    with Cons.prems obtain action where x: "x = JObj action" by (cases x) auto
    let ?key = "(get_either action ''skillName'' ''SkillName'', get_or action ''schemaVersion'' ''SchemaVersion'' (JStr ''v1''))"
    from Cons.prems False x have "available ?key \<noteq> None" "action_matches_hint text_of action (hints ?key) = Some True"
      "a = AList.update ''schemaVersion'' (snd ?key) (AList.update ''skillName'' (fst ?key) action)"
      by (auto simp: Let_def split: if_splits option.splits bool.splits)
    then have "offered text_of available hints (x # actions) a"
      unfolding offered_def x by (metis list.set_intros(1) prod.collapse)
    then show ?thesis by blast
  qed
qed simp

text \<open>
  An action without arguments satisfies a missing hint, but the body of a skill call demands them: the event
  fails whenever the agent recommends such an action, and stays pending.
\<close>

definition bare_action :: json where
  "bare_action = JObj [(''skillName'', JStr ''dance'')]"

definition bare_event :: v1_event where
  "bare_event = \<lparr>v1_id = ''e1'', v1_type = ''observation_updated'', v1_session = ''s1'', v1_state_version = 1, v1_lease = ''l1'',
     v1_payload_type = ''observation_updated'', v1_payload_session = ''s1'', v1_account = ''a1'', v1_role = ''r1'',
     v1_skills = [[(''skillName'', JStr ''dance''), (''schemaVersion'', JStr ''v1'')]], v1_hints = [], v1_dump = JNull\<rparr>"

lemma bare_action_selected:
  "select_gateway_action text_of [bare_action] bare_event =
     Some [(''skillName'', JStr ''dance''), (''schemaVersion'', JStr ''v1'')]"
  by (simp add: select_gateway_action_def by_skill_def bare_action_def bare_event_def skill_key_of_def mapping_value_def
      List.map_filter_def truth_def get_either_def get_or_def action_matches_hint_def Let_def)

lemma bare_action_refused:
  "\<not> process_v1_event number text_of configured (Some [bare_action]) max_retries post trace bare_event"
  by (simp add: process_v1_event_def bare_action_selected build_llm_gateway_decision_payload_def action_members_def
      member_or_def split: option.split)

section \<open>The attempts of a decision\<close>

text \<open>The answer that counts is that of the first attempt that reached the gateway, within the retries.\<close>

lemma post_attempts_first:
  "post_attempts post k n =
     (case find (\<lambda>j. post j \<noteq> Posted_request_error) [k..<k + n + 1] of
        Some j \<Rightarrow> read_posted (post j) | None \<Rightarrow> Inl ''request_failed'')"
proof (induction post k n rule: post_attempts.induct)
  case (1 post k)
  then show ?case by (cases "post k") (simp_all add: read_posted_def)
next
  case (2 post k left)
  have "[k..<k + Suc left + 1] = k # [Suc k..<Suc k + left + 1]" by (simp add: upt_rec)
  with 2 show ?case by (cases "post k") simp_all
qed

section \<open>Witnesses\<close>

definition v1_sample :: v1_settings where
  "v1_sample = \<lparr>v1_sha = (\<lambda>_. ''h''), v1_mac = (\<lambda>_ _. replicate 64 (CHR ''a'')), v1_secrets = [''app'' \<mapsto> ''k''],
     v1_tolerance = 10, v1_enabled = True\<rparr>"

definition v1_sample_request :: v1_request where
  "v1_sample_request = \<lparr>vr_method = ''POST'', vr_path = ''/events'', vr_query = [],
     vr_headers = [(''X-AppId'', ''app''), (''X-RequestId'', ''r''), (''X-TimestampMs'', ''5''),
       (''X-Signature'', replicate 64 (CHR ''a'')), (''content-type'', ''application/json'')], vr_body = ''b''\<rparr>"

definition v1_sample_batch :: v1_batch where
  "v1_sample_batch = \<lparr>vb_trace = ''t'', vb_gateway = ''g'', vb_events = [bare_event]\<rparr>"

definition v1_sample_answer :: "v1_answer \<times> v1_queue" where
  "v1_sample_answer = handle_gateway_event v1_sample (\<lambda>_. Redis_answered) (\<lambda>_. Some v1_sample_batch) 0 v1_sample_request empty_queue"

text \<open>The event of the sample is delivered to a worker whose processing fails.\<close>

lemma v1_sample_run:
  "(let (answer, q) = v1_sample_answer; t = worker_turn (\<lambda>_. False) None q in
     (answer, map (\<lambda>(i, p). (i, p \<noteq> None \<and> p \<noteq> Some [])) (q_stream t), q_read t)) =
   (V1_accepted [''e1''] [], [(0, True)], 1)"
  by code_simp

definition v1_sample_turn :: v1_queue where
  "v1_sample_turn = worker_turn (\<lambda>_. False) None (snd v1_sample_answer)"

lemma v1_sample_facts:
  "fst v1_sample_answer = V1_accepted [''e1''] []"
  "\<exists>p. q_stream v1_sample_turn = [(0, Some p)] \<and> p \<noteq> []"
  "q_read v1_sample_turn = 1"
proof -
  obtain answer q where a: "v1_sample_answer = (answer, q)" by fastforce
  note run = v1_sample_run[unfolded a Let_def case_prod_conv]
  show "fst v1_sample_answer = V1_accepted [''e1''] []" and "q_read v1_sample_turn = 1"
    using run by (simp_all add: a v1_sample_turn_def)
  show "\<exists>p. q_stream v1_sample_turn = [(0, Some p)] \<and> p \<noteq> []"
    using run by (auto simp: a v1_sample_turn_def)
qed

lemma v1_accepted_batch_is_queued_witness:
  "distinct [''e1''] \<and> length [''e1''] + length ([] :: string list) = length (vb_events v1_sample_batch)
     \<and> v1_session bare_event = ''s1''"
proof -
  obtain q' where h: "handle_gateway_event v1_sample (\<lambda>_. Redis_answered) (\<lambda>_. Some v1_sample_batch) 0 v1_sample_request empty_queue
      = (V1_accepted [''e1''] [], q')"
    using v1_sample_facts(1) unfolding v1_sample_answer_def by (metis prod.collapse)
  from v1_accepted_batch_is_queued[OF h] show ?thesis by (auto simp: bare_event_def)
qed

lemma delivered_event_is_not_lost_witness:
  "\<exists>payload. q_stream v1_sample_turn = [(0, Some payload)] \<and> 0 < q_read v1_sample_turn \<and> 0 \<in> set (q_pending v1_sample_turn)"
proof -
  have "v1_run ({} \<union> {p. False}) v1_sample_turn"
    using run_worker[OF run_request[OF run_start]] unfolding v1_sample_turn_def v1_sample_answer_def by (metis prod.collapse)
  then have run: "v1_run {} v1_sample_turn" by simp
  obtain p where p: "q_stream v1_sample_turn = [(0, Some p)]" "p \<noteq> []" using v1_sample_facts(2) by blast
  from delivered_event_is_not_lost[OF run, of 0 "Some p"] p v1_sample_facts(3) show ?thesis by simp
qed

end
