(* ===== verification/Spec2Isabelle.thy ===== *)
theory Spec2Isabelle
  imports TerminalFacts PlanRuntimeFacts DispatchProperties EventEndpoint PlannerWitnesses
    Transactions AdmissionLimiter HostedChatFacts TokenUsage RuntimeMetrics Readiness Recovery LoadBalancer
    GatewayV1
begin

text \<open>
  A model of the hosted-agent gateway of this repository: the package
  \<open>src/core/integration/llm_gateway_v2\<close> with its HTTP endpoint \<open>src/api/routes/gateway_v2.py\<close>, the gateway
  part of \<open>src/config.py\<close> and the tables of the migrations 008 to 015.  File names below are those of the
  package.

  1. What the program does

  A game gateway posts signed batches of events about hosted sessions.  The endpoint checks the signature,
  the inbox stores each event once.  Event workers claim events, one per control cycle at a time, and
  dispatch them: the end of a skill closes its call and its tracked action, reports move the activity plan
  of the session, chat events go to the chat service, and an event that carries a lease is answered with a
  decision, which is planned, frozen as canonical JSON and put in the outbox.  Decision workers claim
  decisions, send them, and record the answer; an accepted skill opens a skill call whose end comes back as
  an event.  A session stop closes everything of its generation.

  All of this state is in one database: sessions, cycles (with the activity plan), events, decisions, skill
  calls, tracked actions, capacity rules.  Every repository method is one transaction on it.

  2. Theories and sources

  Prelude: types shared by all parts (JSON, errors, texts), lists and options.
  TaskTable: tables of running tasks and ordered dictionaries.
  Schema: the rows of the tables and the database record \<open>db\<close>.  RowOrders: \<open>ORDER BY\<close>, \<open>LIMIT 1\<close> and
    updates of rows.  Generation: which generation of a session an event belongs to (event_worker.py,
    inbox_repository.py).
  InboxAdmission, AdmissionFacts, AdmissionSafety: accept_event_batch.
  InboxStatements, InboxRepository, InboxLoops, InboxFacts, InboxSafety, InboxCompletion, InboxMaintenance,
    InboxWitnesses: the other statements and methods of inbox_repository.py (claim, renew, complete, lease
    context, sweep, stale events, idle sessions).
  Terminal, TerminalFacts: terminal_repository.py, terminal_effect_service.py.
  Capacity, CapacityFacts: activity_capacity.py, activity_capacity_repository.py.
  OutboxStatements, OutboxPlanning, OutboxRepository, OutboxFacts, OutboxSafety, PlanningFacts, SendingFacts,
    ResponseFacts, OutboxWitnesses: outbox_repository.py.
  Invariants, TransactionSafety, System, SystemWitnesses: the invariant of the database, its preservation by
    every transaction, and the system of all transactions with the claims it has handed out.
  ActivityPlan: activity_plan.py.  ActivityRepository, ActivityFacts, ActivityReports:
    activity_plan_repository.py.  PlanRuntime, PlanRuntimeFacts: plan_runtime.py with its state file.
  Canonical, CanonicalFacts: canonical.py and \<open>json.loads\<close>.  Competitive: competitive_activity.py,
    paper_plane.py.
  Wire, WireContext, AutoChat, WireEvents, WireBatch, WireFacts, WireProperties: contracts.py and the
    conversation models and client of auto_chat.py.  EventService: EventService.accept_event_batch.
  GatewayAuth: auth.py.  GatewaySettings: config.py.  EventEndpoint: routes/gateway_v2.py.
  DecisionContract, DecisionClient: decisions and answers of contracts.py, decision_client.py.
    DecisionWorker: decision_worker.py.
  SceneTargets, SceneFacts: scene_catalog.py, scene_target_allocator.py.
  AgentActions, ActionChoice, ActionPlanning, ActionFacts: what a lease permits and every choice of an action
    (decision_service.py, agents/gateway_v2_models.py, agents/gateway_v2.py).  DecisionPlanner,
    DecisionPlannerFacts: GatewayV2DecisionPlanner.  ActivityPlanner, ActivityPlannerFacts, PlannerWitnesses:
    activity_planner.py.
  EventDispatcher, DispatchProperties: the dispatcher of event_service.py and a processed
    event of event_worker.py.
  HostedChat, HostedChatFacts: hosted_chat.py.  Transactions: transaction.py.  AdmissionLimiter: capacity.py,
    event_admission.py.
  TokenUsage: token_usage.py.  RuntimeMetrics: runtime_metrics.py.  Readiness: readiness.py,
    worker_status.py.  Recovery: recovery.py.  LoadBalancer: core/llm/balancer.py with the clients of
    core/llm/providers and the fallback of core/llm/factory.py.
  GatewayV1: the first version of the protocol (routes/webhooks.py, core/integration/gateway_event_queue.py and
    robotgateway_callback.py).

  A table is a list of records in the order of insertion, an SQL statement a definition with the name of its
  constant, a method a definition with the name of the method, from a state to a result and a state.  Errors
  are values: \<open>Inl\<close> of an error type, or \<open>None\<close> where the source has one kind.  An exception rolls the
  transaction back, so the state after \<open>Inl\<close> is the one before.

  3. How the parts interact, and the interfaces

  The locale \<open>row_order\<close> (Prelude) states how an update may move a row, and is interpreted for the rows of
  every table in RowOrders; \<open>claim_queue\<close> (System) states what a worker relies on, that tokens are fresh and a
  released claim is never valid again, and is interpreted for the inbox and for the outbox; and
  \<open>activity_coordinator\<close> (DecisionPlannerFacts) states that a coordinator changes nothing but activity plans,
  and is interpreted for the one of activity_planner.py in ActivityPlannerFacts.  System takes every repository
  method as a step; the dispatcher, the decision worker and the planner are shown to be runs of these steps,
  so the invariant of the database holds through them too.

  4. What the lemmas show

  Invariants: keys, references, claims, unique keys, the link of calls to decisions and one decision in
    flight per cycle hold in every reachable state, and closed rows stay closed.
  Refinement: admission is an append-only log from event id to content hash; processing an event, polling
    decisions and planning are runs of the system.
  Safety: released claims are dead, planned decisions are permitted by the lease, only signed batches of
    allowed gateways are stored, a retried transaction commits at most once, targets are not given twice,
    conversations are serial, a ready answer of the cache is true of the present, an event delivered by the
    queue of the first protocol stays pending until it was processed.
  Functions: each method is described on every branch, errors included; parsing accepts exactly the valid
    values, dumps read back, canonical texts identify values, state files survive a crash, the accounts of a
    decision balance, a percentile is the bucket of the quantile, a round of providers is fair.
  Errors: what the code does with a plan that no longer loads, with a failure that is processed twice, with a
    cancelled chat handler; these are also listed as findings of the development.

  5. Bounds, recursion and time

  No result depends on fuel.  Loops are structural recursion, recursion on the number of attempts or items
  left (\<open>claim_decisions\<close>: the free places of the poll; \<open>retry_from\<close>, \<open>send_attempts\<close>: the attempts left), or
  recursion with a measure (\<open>find_sqlstate\<close>: exceptions not visited; the loops that claim, discard and sweep:
  events or decisions still open; the JSON parser: characters left).  Integers are Python's; bytes of a digest are 8-bit words; Int64
  bounds are checked where the code checks them.  Times are whole milliseconds and one value per transaction.
  A string is the list of its UTF-8 bytes.

  6. Parameters

  Digests and HMACs, the content hash, \<open>UUID\<close> of a text, \<open>json.loads\<close> at the endpoint, number fields that may
  be floating point, random draws, the weighted order of activities (floating point), proposals and replies
  of language models, HTTP exchanges, the outcome of probes, the rows of the provider table, the counters in
  Redis, locks held by other transactions, and files.  Hypotheses on them state
  documented behaviour only: a digest has the form of its hexdigest, a validated number is validated to
  itself, an order returns items of its input.

  7. Not modelled

  Transactions are serial: row locks, advisory locks and isolation anomalies are left out, beside which rows
  another transaction may have locked.  Timers, task scheduling of the workers, audit records and monitoring
  queries are left out: they change nothing that the modelled parts read; the probes of the readiness checks
  are parameters.  The language model nodes, the retrieval engine, the player events of the older flow, the
  schedulers and connections to services are calls into libraries around prompts and I/O.
\<close>

end
